(* ===== verification/Prelude.thy ===== *)
theory Prelude
  imports Main "HOL-Library.Word"
begin

unbundle bit_operations_syntax

text \<open>
  Shared vocabulary of the development: machine integers at the widths the C code
  uses, error codes, the list-fold and word facts that several components need, and
  the theorem collections the component proofs draw on.
    \<^item> \<open>frame\<close>: facts saying which part of the state an operation leaves alone;
    \<^item> \<open>inv_defs\<close>: definitions of the well-formedness invariants, unfolded together.
\<close>

named_theorems frame
named_theorems inv_defs

section \<open>Machine integers\<close>

type_synonym u16 = "16 word"
type_synonym u32 = "32 word"
type_synonym u64 = "64 word"

text \<open>
  A C \<open>int\<close> whose overflow plays no role is an \<open>int\<close>; a \<open>u64\<close> or a flag word keeps
  its width. Casting a word to a signed type of its width is \<open>sint\<close>.
\<close>

definition test_flag :: "'a::len word \<Rightarrow> 'a word \<Rightarrow> bool" where
  "test_flag w f \<longleftrightarrow> w AND f \<noteq> 0"

definition set_flag :: "'a::len word \<Rightarrow> 'a word \<Rightarrow> 'a word" where
  "set_flag w f = w OR f"

definition clear_flag :: "'a::len word \<Rightarrow> 'a word \<Rightarrow> 'a word" where
  "clear_flag w f = w AND NOT f"

lemma test_flag_bit:
  "test_flag w f \<longleftrightarrow> (\<exists>n < LENGTH('a). bit w n \<and> bit f n)" for w f :: "'a::len word"
  unfolding test_flag_def by (auto simp: bit_eq_iff bit_and_iff)

lemma test_set_flag_same [simp]: "test_flag (set_flag w f) f \<longleftrightarrow> f \<noteq> 0"
  by (auto simp: test_flag_bit set_flag_def bit_or_iff bit_eq_iff)

lemma test_clear_flag_same [simp]: "\<not> test_flag (clear_flag w f) f"
  by (auto simp: test_flag_bit clear_flag_def bit_and_iff bit_not_iff)

lemma test_clear_flag_other [simp]:
  "f AND g = 0 \<Longrightarrow> test_flag (clear_flag w f) g = test_flag w g"
  unfolding test_flag_bit clear_flag_def
  by (auto simp: bit_and_iff bit_not_iff bit_eq_iff)

lemma test_set_flag_other [simp]:
  "f AND g = 0 \<Longrightarrow> test_flag (set_flag w f) g = test_flag w g"
  unfolding test_flag_bit set_flag_def
  by (auto simp: bit_or_iff bit_and_iff bit_eq_iff)

lemma test_flag_zero [simp]: "\<not> test_flag 0 f" "\<not> test_flag w 0"
  by (simp_all add: test_flag_def)

lemma clear_set_flag_commute:
  "f AND g = 0 \<Longrightarrow> clear_flag (set_flag w g) f = set_flag (clear_flag w f) g"
  unfolding clear_flag_def set_flag_def
  by (auto simp: bit_eq_iff bit_and_iff bit_or_iff bit_not_iff)

lemma unat_word_Suc: "unat w + 1 < 2 ^ LENGTH('a) \<Longrightarrow> unat (w + 1) = unat w + 1"
  for w :: "'a::len word"
  by (simp add: unat_word_ariths)

lemma unat_word_pred: "0 < unat w \<Longrightarrow> unat (w - 1) = unat w - 1" for w :: "'a::len word"
  by (simp add: unat_minus_one unat_gt_0)

section \<open>Error codes\<close>

text \<open>Functions that return \<open>0\<close> or \<open>-errno\<close> keep their \<open>int\<close> result.\<close>

definition EPERM :: int where "EPERM = 1"
definition ESRCH :: int where "ESRCH = 3"
definition E2BIG :: int where "E2BIG = 7"
definition EAGAIN :: int where "EAGAIN = 11"
definition ENOMEM :: int where "ENOMEM = 12"
definition EFAULT :: int where "EFAULT = 14"
definition EBUSY :: int where "EBUSY = 16"
definition EINVAL :: int where "EINVAL = 22"
definition ERANGE :: int where "ERANGE = 34"

lemmas errno_defs = EPERM_def ESRCH_def E2BIG_def EAGAIN_def ENOMEM_def EFAULT_def
  EBUSY_def EINVAL_def ERANGE_def

section \<open>Lists\<close>

lemma distinct_remove1_eq_filter: "distinct xs \<Longrightarrow> remove1 x xs = filter (\<lambda>y. y \<noteq> x) xs"
  by (induction xs) (auto simp: filter_id_conv intro!: filter_True [symmetric])

lemma fold_invariant:
  assumes "P s" and "\<And>x s. x \<in> set xs \<Longrightarrow> P s \<Longrightarrow> P (f x s)"
  shows "P (fold f xs s)"
  using assms by (induction xs arbitrary: s) auto

lemma find_Some_iff_ex: "(\<exists>x. find P xs = Some x) \<longleftrightarrow> (\<exists>x \<in> set xs. P x)"
  by (induction xs) auto

lemma find_SomeD: "find P xs = Some x \<Longrightarrow> x \<in> set xs \<and> P x"
  by (induction xs) (auto split: if_splits)

end
