(* ===== verification/Kernel_Consts.thy ===== *)
theory Kernel_Consts
  imports Prelude
begin

text \<open>
  Numeric constants of the kernel's headers that \<open>core.c\<close> and \<open>yat_casched.c\<close> use and
  that are not in the repository (\<open>include/linux/sched/prio.h\<close>,
  \<open>include/uapi/linux/sched.h\<close>, \<open>kernel/sched/sched.h\<close>).  They are ABI or documented
  values; the comments of \<open>core.c\<close> quote the priority ones (lines 162-175, 7383-7387).
  A name that starts with two underscores in C starts with \<open>us_\<close> here.
\<close>

section \<open>Priorities and nice values\<close>

definition MAX_NICE :: int where "MAX_NICE = 19"
definition MIN_NICE :: int where "MIN_NICE = -20"
definition NICE_WIDTH :: int where "NICE_WIDTH = 40"
definition MAX_RT_PRIO :: int where "MAX_RT_PRIO = 100"
definition MAX_DL_PRIO :: int where "MAX_DL_PRIO = 0"
definition DEFAULT_PRIO :: int where "DEFAULT_PRIO = 120"

definition NICE_TO_PRIO :: "int \<Rightarrow> int" where "NICE_TO_PRIO nice = nice + DEFAULT_PRIO"
definition PRIO_TO_NICE :: "int \<Rightarrow> int" where "PRIO_TO_NICE prio = prio - DEFAULT_PRIO"

definition rt_prio :: "int \<Rightarrow> bool" where "rt_prio prio \<longleftrightarrow> prio < MAX_RT_PRIO"
definition dl_prio :: "int \<Rightarrow> bool" where "dl_prio prio \<longleftrightarrow> prio < MAX_DL_PRIO"

definition nice_to_rlimit :: "int \<Rightarrow> int" where "nice_to_rlimit nice = MAX_NICE - nice + 1"

lemmas prio_consts = MAX_NICE_def MIN_NICE_def NICE_WIDTH_def MAX_RT_PRIO_def MAX_DL_PRIO_def
  DEFAULT_PRIO_def NICE_TO_PRIO_def PRIO_TO_NICE_def rt_prio_def dl_prio_def nice_to_rlimit_def

lemma PRIO_NICE_inverse [simp]:
  "PRIO_TO_NICE (NICE_TO_PRIO n) = n" "NICE_TO_PRIO (PRIO_TO_NICE p) = p"
  by (simp_all add: prio_consts)

section \<open>Policies and \<open>sched_attr\<close> flags\<close>

definition SCHED_NORMAL :: int where "SCHED_NORMAL = 0"
definition SCHED_FIFO :: int where "SCHED_FIFO = 1"
definition SCHED_RR :: int where "SCHED_RR = 2"
definition SCHED_BATCH :: int where "SCHED_BATCH = 3"
definition SCHED_IDLE :: int where "SCHED_IDLE = 5"
definition SCHED_DEADLINE :: int where "SCHED_DEADLINE = 6"

text \<open>The repository's own policy number (\<open>code/kernel/README.md\<close>).\<close>

definition SCHED_YAT_CASCHED :: int where "SCHED_YAT_CASCHED = 8"

lemmas policy_consts = SCHED_NORMAL_def SCHED_FIFO_def SCHED_RR_def SCHED_BATCH_def
  SCHED_IDLE_def SCHED_DEADLINE_def SCHED_YAT_CASCHED_def

definition SCHED_RESET_ON_FORK :: u32 where "SCHED_RESET_ON_FORK = 0x40000000"
definition SCHED_FLAG_RESET_ON_FORK :: u64 where "SCHED_FLAG_RESET_ON_FORK = 0x01"
definition SCHED_FLAG_KEEP_POLICY :: u64 where "SCHED_FLAG_KEEP_POLICY = 0x08"
definition SCHED_FLAG_KEEP_PARAMS :: u64 where "SCHED_FLAG_KEEP_PARAMS = 0x10"
definition SCHED_FLAG_UTIL_CLAMP_MIN :: u64 where "SCHED_FLAG_UTIL_CLAMP_MIN = 0x20"
definition SCHED_FLAG_UTIL_CLAMP_MAX :: u64 where "SCHED_FLAG_UTIL_CLAMP_MAX = 0x40"
definition SCHED_FLAG_UTIL_CLAMP :: u64 where "SCHED_FLAG_UTIL_CLAMP = 0x60"
definition SCHED_FLAG_ALL :: u64 where "SCHED_FLAG_ALL = 0x7f"
definition SCHED_FLAG_SUGOV :: u64 where "SCHED_FLAG_SUGOV = 0x10000000"

lemmas sched_flag_consts = SCHED_RESET_ON_FORK_def SCHED_FLAG_RESET_ON_FORK_def
  SCHED_FLAG_KEEP_POLICY_def SCHED_FLAG_KEEP_PARAMS_def SCHED_FLAG_UTIL_CLAMP_MIN_def
  SCHED_FLAG_UTIL_CLAMP_MAX_def SCHED_FLAG_UTIL_CLAMP_def SCHED_FLAG_ALL_def
  SCHED_FLAG_SUGOV_def

section \<open>Queue, wake and affinity flags\<close>

definition DEQUEUE_SLEEP :: u32 where "DEQUEUE_SLEEP = 0x01"
definition DEQUEUE_SAVE :: u32 where "DEQUEUE_SAVE = 0x02"
definition DEQUEUE_MOVE :: u32 where "DEQUEUE_MOVE = 0x04"
definition DEQUEUE_NOCLOCK :: u32 where "DEQUEUE_NOCLOCK = 0x08"
definition ENQUEUE_WAKEUP :: u32 where "ENQUEUE_WAKEUP = 0x01"
definition ENQUEUE_RESTORE :: u32 where "ENQUEUE_RESTORE = 0x02"
definition ENQUEUE_NOCLOCK :: u32 where "ENQUEUE_NOCLOCK = 0x08"
definition ENQUEUE_HEAD :: u32 where "ENQUEUE_HEAD = 0x10"
definition ENQUEUE_REPLENISH :: u32 where "ENQUEUE_REPLENISH = 0x20"
definition ENQUEUE_MIGRATED :: u32 where "ENQUEUE_MIGRATED = 0x40"
definition WF_EXEC :: u32 where "WF_EXEC = 0x02"
definition WF_FORK :: u32 where "WF_FORK = 0x04"
definition WF_TTWU :: u32 where "WF_TTWU = 0x08"
definition WF_SYNC :: u32 where "WF_SYNC = 0x10"
definition WF_MIGRATED :: u32 where "WF_MIGRATED = 0x20"
definition SCA_CHECK :: u32 where "SCA_CHECK = 0x01"
definition SCA_MIGRATE_DISABLE :: u32 where "SCA_MIGRATE_DISABLE = 0x02"
definition SCA_MIGRATE_ENABLE :: u32 where "SCA_MIGRATE_ENABLE = 0x04"
definition SCA_USER :: u32 where "SCA_USER = 0x08"
definition MDF_PUSH :: u16 where "MDF_PUSH = 0x01"

lemmas queue_flag_consts = DEQUEUE_SLEEP_def DEQUEUE_SAVE_def DEQUEUE_MOVE_def
  DEQUEUE_NOCLOCK_def ENQUEUE_WAKEUP_def ENQUEUE_RESTORE_def ENQUEUE_NOCLOCK_def
  ENQUEUE_HEAD_def ENQUEUE_REPLENISH_def ENQUEUE_MIGRATED_def WF_EXEC_def WF_FORK_def WF_TTWU_def
  WF_SYNC_def WF_MIGRATED_def
lemmas sca_consts = SCA_CHECK_def SCA_MIGRATE_DISABLE_def SCA_MIGRATE_ENABLE_def SCA_USER_def
  MDF_PUSH_def

definition TASK_ON_RQ_QUEUED :: int where "TASK_ON_RQ_QUEUED = 1"
definition TASK_ON_RQ_MIGRATING :: int where "TASK_ON_RQ_MIGRATING = 2"
definition UCLAMP_FLAG_IDLE :: u32 where "UCLAMP_FLAG_IDLE = 0x01"
definition RQCF_ACT_SKIP :: u32 where "RQCF_ACT_SKIP = 0x02"
definition RQCF_REQ_SKIP :: u32 where "RQCF_REQ_SKIP = 0x01"
definition RQCF_UPDATED :: u32 where "RQCF_UPDATED = 0x04"
definition TIF_NEED_RESCHED :: u64 where "TIF_NEED_RESCHED = 0x08"
definition TIF_POLLING_NRFLAG :: u64 where "TIF_POLLING_NRFLAG = 0x200000"

lemmas rq_flag_consts = TASK_ON_RQ_QUEUED_def TASK_ON_RQ_MIGRATING_def UCLAMP_FLAG_IDLE_def
  RQCF_ACT_SKIP_def RQCF_REQ_SKIP_def RQCF_UPDATED_def TIF_NEED_RESCHED_def TIF_POLLING_NRFLAG_def

section \<open>Time units and capacity\<close>

definition SCHED_CAPACITY_SHIFT :: nat where "SCHED_CAPACITY_SHIFT = 10"
definition SCHED_CAPACITY_SCALE :: nat where "SCHED_CAPACITY_SCALE = 1024"

definition NSEC_PER_USEC :: u64 where "NSEC_PER_USEC = 1000"
definition NSEC_PER_MSEC :: u64 where "NSEC_PER_MSEC = 1000000"
definition NSEC_PER_SEC :: u64 where "NSEC_PER_SEC = 1000000000"
definition RUNTIME_INF :: u64 where "RUNTIME_INF = 0xffffffffffffffff"

lemmas time_consts = NSEC_PER_USEC_def NSEC_PER_MSEC_def NSEC_PER_SEC_def RUNTIME_INF_def

end
