(* ===== verification/State.thy ===== *)
theory State
  imports Kernel_Consts
begin

text \<open>
  The state shared by all components: \<open>struct task_struct\<close> (\<open>sched.h\<close>), the per-CPU
  \<open>struct rq\<close> with the fields \<open>core.c\<close> reads, task groups, and the kernel as a whole.
  Tasks, CPUs and task groups are referred to by number, as the C code refers to them by
  pointer; a \<open>struct list_head\<close> that links tasks is the list of their numbers; a
  \<open>cpumask\<close> is a set of CPU numbers, iterated in ascending order.
\<close>

type_synonym tid = nat
type_synonym cpu = int
type_synonym cpumask = "int set"
type_synonym tgid = nat

section \<open>Scheduling classes in their link order\<close>

text \<open>\<open>vmlinux.lds.h\<close> places the classes in one section, highest first.\<close>

datatype sched_class =
  stop_sched_class | dl_sched_class | rt_sched_class | fair_sched_class
| yat_casched_sched_class | idle_sched_class

definition SCHED_DATA :: "sched_class list" where
  "SCHED_DATA = [stop_sched_class, dl_sched_class, rt_sched_class, fair_sched_class,
                 yat_casched_sched_class, idle_sched_class]"

fun class_address :: "sched_class \<Rightarrow> nat" where
  "class_address stop_sched_class = 0"
| "class_address dl_sched_class = 1"
| "class_address rt_sched_class = 2"
| "class_address fair_sched_class = 3"
| "class_address yat_casched_sched_class = 4"
| "class_address idle_sched_class = 5"

instantiation sched_class :: linorder
begin
definition less_eq_sched_class :: "sched_class \<Rightarrow> sched_class \<Rightarrow> bool" where
  "less_eq_sched_class a b \<longleftrightarrow> class_address a \<le> class_address b"
definition less_sched_class :: "sched_class \<Rightarrow> sched_class \<Rightarrow> bool" where
  "less_sched_class a b \<longleftrightarrow> class_address a < class_address b"
instance
proof
  fix a b :: sched_class
  assume "a \<le> b" "b \<le> a"
  then show "a = b" by (cases a; cases b) (simp_all add: less_eq_sched_class_def)
qed (auto simp: less_eq_sched_class_def less_sched_class_def)
end

text \<open>\<open>sched_class_above(a, b)\<close> compares addresses: \<open>a < b\<close> in the section.\<close>

abbreviation sched_class_above :: "sched_class \<Rightarrow> sched_class \<Rightarrow> bool" where
  "sched_class_above a b \<equiv> a < b"

section \<open>Entities of a task\<close>

record load_weight =
  lw_weight :: u64
  lw_inv_weight :: u32

record sched_entity =
  se_load :: load_weight
  se_on_rq :: u32
  se_exec_start :: u64
  se_sum_exec_runtime :: u64
  se_prev_sum_exec_runtime :: u64
  se_vruntime :: u64
  se_vlag :: u64
  se_slice :: u64
  se_nr_migrations :: u64

record sched_rt_entity =
  rt_timeout :: u64
  rt_time_slice :: u32
  rt_on_rq :: u16
  rt_on_list :: u16

text \<open>\<open>pi_se\<close> points at a task's deadline entity: it is that task's number.\<close>

record sched_dl_entity =
  dl_runtime :: u64
  dl_deadline :: u64
  dl_period :: u64
  dl_flags :: u64
  dl_abs_deadline :: u64
  dl_pi_se :: tid

text \<open>
  \<open>run_list\<close> is the task's list node: \<open>None\<close> when it points at itself
  (\<open>list_empty\<close> is true, as \<open>__sched_fork\<close> leaves it), \<open>Some c\<close> when it is linked on
  the list of CPU \<open>c\<close>'s run queue.
\<close>

record sched_yat_casched_entity =
  yse_run_list :: "cpu option"
  yse_vruntime :: u64
  yse_slice :: u64
  yse_last_cpu :: int

datatype uclamp_id = UCLAMP_MIN | UCLAMP_MAX

record uclamp_se =
  uc_value :: nat
  uc_bucket_id :: nat
  uc_active :: bool
  uc_user_defined :: bool

text \<open>The wakeup counters of \<open>struct sched_statistics\<close>.\<close>

record sched_statistics =
  ss_nr_wakeups :: u64
  ss_nr_wakeups_sync :: u64
  ss_nr_wakeups_migrate :: u64
  ss_nr_wakeups_local :: u64
  ss_nr_wakeups_remote :: u64

section \<open>The task\<close>

text \<open>
  \<open>wake_q\<close> tells whether the task's node is on a wake queue (its \<open>next\<close> is not NULL).
  \<open>dl_server\<close> is a pointer only ever tested and cleared here; \<open>migration_pending\<close> refers
  to a request of the store \<open>k_pendings\<close>.
\<close>

record task_struct =
  t_state :: u32
  t_saved_state :: u32
  t_flags :: u32
  t_on_cpu :: bool
  t_wake_cpu :: int
  t_recent_used_cpu :: int
  t_on_rq :: int
  t_prio :: int
  t_static_prio :: int
  t_normal_prio :: int
  t_rt_priority :: u32
  t_se :: sched_entity
  t_rt :: sched_rt_entity
  t_dl :: sched_dl_entity
  t_yat_casched :: sched_yat_casched_entity
  t_sched_class :: sched_class
  t_core_node :: bool
  t_core_cookie :: u64
  t_core_occupation :: u32
  t_sched_task_group :: tgid
  t_uclamp_req :: "uclamp_id \<Rightarrow> uclamp_se"
  t_uclamp :: "uclamp_id \<Rightarrow> uclamp_se"
  t_policy :: int
  t_nr_cpus_allowed :: int
  t_cpus_ptr :: "cpumask option"
  t_user_cpus_ptr :: "cpumask option"
  t_cpus_mask :: cpumask
  t_migration_disabled :: nat
  t_migration_flags :: u16
  t_exit_state :: u32
  t_sched_reset_on_fork :: bool
  t_sched_contributes_to_load :: bool
  t_sched_remote_wakeup :: bool
  t_in_iowait :: bool
  t_atomic_flags :: u64
  t_nvcsw :: u64
  t_nivcsw :: u64
  t_stats :: sched_statistics
  t_dl_server :: bool
  t_migration_pending :: "nat option"
  t_wake_q :: bool
  t_numa_preferred_nid :: int
  t_pi_top_task :: "tid option"
  t_ti_flags :: u64
  t_ti_cpu :: int

text \<open>
  \<open>cpus_ptr\<close> points either at the task's own \<open>cpus_mask\<close> (\<open>None\<close>) or, while
  migration is disabled, at a constant one-CPU mask (\<open>Some m\<close>).
\<close>

definition cpus_ptr_mask :: "task_struct \<Rightarrow> cpumask" where
  "cpus_ptr_mask t = (case t_cpus_ptr t of None \<Rightarrow> t_cpus_mask t | Some m \<Rightarrow> m)"

section \<open>Run queues\<close>

record yat_casched_rq =
  yrq_tasks :: "tid list"
  yrq_nr_running :: u32
  yrq_agent :: "tid option"
  yrq_cache_decay_jiffies :: u64
  yrq_cpu_history :: "int \<Rightarrow> tid option"

record uclamp_bucket =
  ub_value :: nat
  ub_tasks :: nat

record uclamp_rq =
  ucrq_value :: nat
  ucrq_bucket :: "nat \<Rightarrow> uclamp_bucket"

text \<open>
  A scheduling domain; the queued balance callbacks: the two that \<open>core.c\<close> queues, and those
  of other files.  \<open>rq_rd\<close> is the number of the root domain, \<open>rq_hotplug_wait\<close> tells whether a
  task waits on that \<open>rcuwait\<close>.
\<close>

record sched_domain =
  sd_span :: cpumask
  sd_ttwu_wake_remote :: u32

datatype balance_callback = CB_balance_push | CB_sched_core_balance | CB_other nat

record rq =
  rq_cpu :: cpu
  rq_nr_running :: u32
  rq_nr_uninterruptible :: int
  rq_nr_iowait :: int
  rq_curr :: tid
  rq_idle :: tid
  rq_stop :: "tid option"
  rq_clock :: u64
  rq_clock_task :: u64
  rq_prev_irq_time :: u64
  rq_prev_steal_time :: u64
  rq_clock_update_flags :: u32
  rq_uclamp :: "uclamp_id \<Rightarrow> uclamp_rq"
  rq_uclamp_flags :: u32
  rq_yat_casched :: yat_casched_rq
  rq_core :: cpu
  rq_core_enabled :: bool
  rq_core_tree :: "tid list"
  rq_core_task_seq :: u32
  rq_core_forceidle_count :: u32
  rq_core_forceidle_start :: u64
  rq_core_forceidle_seq :: u32
  rq_core_forceidle_occupation :: u32
  rq_core_cookie :: u64
  rq_core_pick :: "tid option"
  rq_core_pick_seq :: u32
  rq_core_sched_seq :: u32
  rq_balance_callback :: "balance_callback list"
  rq_nr_pinned :: nat
  rq_hrtick_time :: u64
  rq_hrtick_timer :: "u64 option"
  rq_hrtick_csd :: bool
  rq_idle_balance :: bool
  rq_nohz_idle_balance :: u32
  rq_nohz_flags :: u32
  rq_dl_nr_running :: u32
  rq_rr_nr_running :: u32
  rq_rt_nr_running :: u32
  rq_ttwu_pending :: bool
  rq_cfs_h_nr_running :: u32
  rq_idle_stamp :: u64
  rq_avg_idle :: u64
  rq_max_idle_balance_cost :: u64
  rq_nr_switches :: u64
  rq_push_busy :: bool
  rq_ttwu_count :: u32
  rq_ttwu_local :: u32
  rq_sched_count :: u32
  rq_yld_count :: u32
  rq_last_seen_need_resched_ns :: u64
  rq_ticks_without_resched :: int
  rq_domains :: "sched_domain list"
  rq_wake_list :: "tid list"
  rq_online :: bool
  rq_rd :: "nat option"
  rq_hotplug_wait :: bool
  rq_calc_load_active :: int
  rq_calc_load_update :: u64
  rq_next_balance :: u64
  rq_active_balance :: int
  rq_push_cpu :: int
  rq_cpu_capacity :: u64
  rq_last_blocked_load_update_tick :: u64

section \<open>Task groups and the kernel\<close>

record cfs_bandwidth =
  cb_period :: u64
  cb_quota :: u64
  cb_burst :: u64
  cb_hierarchical_quota :: u64

text \<open>The bandwidth fields of a group's \<open>cfs_rq\<close> on one CPU.\<close>

record cfs_rq =
  cr_runtime_enabled :: bool
  cr_runtime_remaining :: int
  cr_throttled :: bool

record task_group =
  tg_parent :: "tgid option"
  tg_children :: "tgid list"
  tg_autogroup :: bool
  tg_shares :: u64
  tg_uclamp_req :: "uclamp_id \<Rightarrow> uclamp_se"
  tg_uclamp :: "uclamp_id \<Rightarrow> uclamp_se"
  tg_uclamp_pct :: "uclamp_id \<Rightarrow> u64"
  tg_cfs_bandwidth :: cfs_bandwidth

text \<open>\<open>struct sched_attr\<close>, the argument of \<open>sched_setattr\<close> (an ABI structure).\<close>

record sched_attr =
  sa_size :: u32
  sa_policy :: int
  sa_flags :: u64
  sa_nice :: int
  sa_priority :: u32
  sa_runtime :: u64
  sa_deadline :: u64
  sa_period :: u64
  sa_util_min :: u32
  sa_util_max :: u32

text \<open>
  \<open>struct affinity_context\<close>.  \<open>new_mask\<close> points at a mask; \<open>None\<close> when that is the
  task's own \<open>cpus_mask\<close>, as for \<open>SCA_MIGRATE_ENABLE\<close>.
\<close>

record affinity_context =
  ac_new_mask :: "cpumask option"
  ac_user_mask :: "cpumask option"
  ac_flags :: u32

definition ac_mask :: "task_struct \<Rightarrow> affinity_context \<Rightarrow> cpumask" where
  "ac_mask t ctx = (case ac_new_mask ctx of None \<Rightarrow> t_cpus_mask t | Some m \<Rightarrow> m)"

text \<open>
  A request of \<open>__set_cpus_allowed_ptr\<close> that waits for a task to leave a CPU
  (\<open>struct set_affinity_pending\<close>), and the works queued for the CPU stoppers: the
  stopper functions of \<open>core.c\<close> that are queued without waiting, with their argument.
\<close>

record set_affinity_pending =
  sap_refs :: nat
  sap_stop_pending :: bool
  sap_done :: bool
  sap_task :: tid
  sap_dest_cpu :: int

datatype stop_work = Migration_cpu_stop nat | Push_cpu_stop tid | Balance_push_cpu_stop tid

text \<open>
  \<open>k_pendings\<close> is the store of affinity requests, \<open>k_next_pending\<close> its first free place.
  \<open>k_list_corrupted\<close> and \<open>k_undefined\<close> record that the C code broke a list or read
  outside an array.
\<close>

record kernel =
  k_tasks :: "tid \<Rightarrow> task_struct"
  k_rqs :: "cpu \<Rightarrow> rq"
  k_tgs :: "tgid \<Rightarrow> task_group"
  k_root_tg :: tgid
  k_jiffies :: u64
  k_tg_depth :: nat
  k_current :: tid
  k_this_cpu :: cpu
  k_NR_CPUS :: int
  k_nr_cpu_ids :: int
  k_HZ :: u64
  k_uclamp_buckets :: nat
  k_online :: cpumask
  k_active :: cpumask
  k_possible :: cpumask
  k_ipis :: "cpu list"
  k_sched_uclamp_used :: bool
  k_uclamp_default :: "uclamp_id \<Rightarrow> uclamp_se"
  k_sysctl_uclamp_util_min :: u32
  k_sysctl_uclamp_util_max :: u32
  k_sysctl_uclamp_util_min_rt_default :: u32
  k_sched_core_count :: int
  k_sched_core_enabled :: bool
  k_sched_core_put_pending :: bool
  k_preempt_need_resched :: bool
  k_list_corrupted :: bool
  k_schedstat_enabled :: bool
  k_pendings :: "nat \<Rightarrow> set_affinity_pending"
  k_next_pending :: nat
  k_stop_works :: "(cpu \<times> stop_work) list"
  k_sysctl_sched_base_slice :: u32
  k_sched_rr_timeslice :: u32
  k_sysctl_resched_latency_warn_ms :: int
  k_sysctl_resched_latency_warn_once :: bool
  k_resched_latency_warned :: bool
  k_system_booting :: bool
  k_cfs_rqs :: "tgid \<Rightarrow> cpu \<Rightarrow> cfs_rq"
  k_rd_online :: "nat \<Rightarrow> cpumask"
  k_sched_smt_present :: int
  k_sched_smp_initialized :: bool
  k_cpuhp_tasks_frozen :: bool
  k_num_cpus_frozen :: int
  k_calc_load_tasks :: int
  k_calc_load_update :: u64
  k_task_groups :: "tgid list"
  k_scheduler_running :: bool
  k_undefined :: bool

definition upd_task :: "tid \<Rightarrow> (task_struct \<Rightarrow> task_struct) \<Rightarrow> kernel \<Rightarrow> kernel" where
  "upd_task p f k = k\<lparr>k_tasks := (k_tasks k)(p := f (k_tasks k p))\<rparr>"

definition upd_rq :: "cpu \<Rightarrow> (rq \<Rightarrow> rq) \<Rightarrow> kernel \<Rightarrow> kernel" where
  "upd_rq c f k = k\<lparr>k_rqs := (k_rqs k)(c := f (k_rqs k c))\<rparr>"

definition upd_tg :: "tgid \<Rightarrow> (task_group \<Rightarrow> task_group) \<Rightarrow> kernel \<Rightarrow> kernel" where
  "upd_tg g f k = k\<lparr>k_tgs := (k_tgs k)(g := f (k_tgs k g))\<rparr>"

lemma k_tasks_upd [simp]:
  "k_tasks (upd_task p f k) = (k_tasks k)(p := f (k_tasks k p))"
  "k_tasks (upd_rq c g k) = k_tasks k" "k_tasks (upd_tg i h k) = k_tasks k"
  by (simp_all add: upd_task_def upd_rq_def upd_tg_def)

lemma k_rqs_upd [simp]:
  "k_rqs (upd_rq c g k) = (k_rqs k)(c := g (k_rqs k c))"
  "k_rqs (upd_task p f k) = k_rqs k" "k_rqs (upd_tg i h k) = k_rqs k"
  by (simp_all add: upd_task_def upd_rq_def upd_tg_def)

lemma k_tgs_upd [simp]:
  "k_tgs (upd_tg i h k) = (k_tgs k)(i := h (k_tgs k i))"
  "k_tgs (upd_task p f k) = k_tgs k" "k_tgs (upd_rq c g k) = k_tgs k"
  by (simp_all add: upd_task_def upd_rq_def upd_tg_def)

lemma kernel_upd_task_frame [simp]:
  "k_tg_depth (upd_task p f k) = k_tg_depth k" "k_root_tg (upd_task p f k) = k_root_tg k" "k_jiffies (upd_task p f k) = k_jiffies k"
  "k_current (upd_task p f k) = k_current k" "k_this_cpu (upd_task p f k) = k_this_cpu k"
  "k_NR_CPUS (upd_task p f k) = k_NR_CPUS k" "k_nr_cpu_ids (upd_task p f k) = k_nr_cpu_ids k"
  "k_HZ (upd_task p f k) = k_HZ k" "k_uclamp_buckets (upd_task p f k) = k_uclamp_buckets k"
  "k_online (upd_task p f k) = k_online k" "k_active (upd_task p f k) = k_active k"
  "k_possible (upd_task p f k) = k_possible k" "k_ipis (upd_task p f k) = k_ipis k"
  "k_sched_uclamp_used (upd_task p f k) = k_sched_uclamp_used k"
  "k_uclamp_default (upd_task p f k) = k_uclamp_default k"
  "k_sysctl_uclamp_util_min (upd_task p f k) = k_sysctl_uclamp_util_min k"
  "k_sysctl_uclamp_util_max (upd_task p f k) = k_sysctl_uclamp_util_max k"
  "k_sysctl_uclamp_util_min_rt_default (upd_task p f k) = k_sysctl_uclamp_util_min_rt_default k"
  "k_sched_core_count (upd_task p f k) = k_sched_core_count k"
  "k_sched_core_enabled (upd_task p f k) = k_sched_core_enabled k"
  "k_sched_core_put_pending (upd_task p f k) = k_sched_core_put_pending k"
  "k_preempt_need_resched (upd_task p f k) = k_preempt_need_resched k"
  "k_list_corrupted (upd_task p f k) = k_list_corrupted k"
  "k_undefined (upd_task p f k) = k_undefined k"
  "k_schedstat_enabled (upd_task p f k) = k_schedstat_enabled k"
  "k_pendings (upd_task p f k) = k_pendings k"
  "k_next_pending (upd_task p f k) = k_next_pending k"
  "k_stop_works (upd_task p f k) = k_stop_works k"
  "k_sysctl_sched_base_slice (upd_task p f k) = k_sysctl_sched_base_slice k"
  "k_sched_rr_timeslice (upd_task p f k) = k_sched_rr_timeslice k"
  "k_sysctl_resched_latency_warn_ms (upd_task p f k) = k_sysctl_resched_latency_warn_ms k"
  "k_sysctl_resched_latency_warn_once (upd_task p f k) = k_sysctl_resched_latency_warn_once k"
  "k_resched_latency_warned (upd_task p f k) = k_resched_latency_warned k"
  "k_system_booting (upd_task p f k) = k_system_booting k"
  "k_cfs_rqs (upd_task p f k) = k_cfs_rqs k"
  "k_rd_online (upd_task p f k) = k_rd_online k"
  "k_sched_smt_present (upd_task p f k) = k_sched_smt_present k"
  "k_sched_smp_initialized (upd_task p f k) = k_sched_smp_initialized k"
  "k_cpuhp_tasks_frozen (upd_task p f k) = k_cpuhp_tasks_frozen k"
  "k_num_cpus_frozen (upd_task p f k) = k_num_cpus_frozen k"
  "k_calc_load_tasks (upd_task p f k) = k_calc_load_tasks k"
  "k_calc_load_update (upd_task p f k) = k_calc_load_update k"
  "k_task_groups (upd_task p f k) = k_task_groups k"
  "k_scheduler_running (upd_task p f k) = k_scheduler_running k"
  by (simp_all add: upd_task_def)

lemma kernel_upd_rq_frame [simp]:
  "k_tg_depth (upd_rq c g k) = k_tg_depth k" "k_root_tg (upd_rq c g k) = k_root_tg k" "k_jiffies (upd_rq c g k) = k_jiffies k"
  "k_current (upd_rq c g k) = k_current k" "k_this_cpu (upd_rq c g k) = k_this_cpu k"
  "k_NR_CPUS (upd_rq c g k) = k_NR_CPUS k" "k_nr_cpu_ids (upd_rq c g k) = k_nr_cpu_ids k"
  "k_HZ (upd_rq c g k) = k_HZ k" "k_uclamp_buckets (upd_rq c g k) = k_uclamp_buckets k"
  "k_online (upd_rq c g k) = k_online k" "k_active (upd_rq c g k) = k_active k"
  "k_possible (upd_rq c g k) = k_possible k" "k_ipis (upd_rq c g k) = k_ipis k"
  "k_sched_uclamp_used (upd_rq c g k) = k_sched_uclamp_used k"
  "k_uclamp_default (upd_rq c g k) = k_uclamp_default k"
  "k_sysctl_uclamp_util_min (upd_rq c g k) = k_sysctl_uclamp_util_min k"
  "k_sysctl_uclamp_util_max (upd_rq c g k) = k_sysctl_uclamp_util_max k"
  "k_sysctl_uclamp_util_min_rt_default (upd_rq c g k) = k_sysctl_uclamp_util_min_rt_default k"
  "k_sched_core_count (upd_rq c g k) = k_sched_core_count k"
  "k_sched_core_enabled (upd_rq c g k) = k_sched_core_enabled k"
  "k_sched_core_put_pending (upd_rq c g k) = k_sched_core_put_pending k"
  "k_preempt_need_resched (upd_rq c g k) = k_preempt_need_resched k"
  "k_list_corrupted (upd_rq c g k) = k_list_corrupted k"
  "k_undefined (upd_rq c g k) = k_undefined k"
  "k_schedstat_enabled (upd_rq c g k) = k_schedstat_enabled k"
  "k_pendings (upd_rq c g k) = k_pendings k"
  "k_next_pending (upd_rq c g k) = k_next_pending k"
  "k_stop_works (upd_rq c g k) = k_stop_works k"
  "k_sysctl_sched_base_slice (upd_rq c g k) = k_sysctl_sched_base_slice k"
  "k_sched_rr_timeslice (upd_rq c g k) = k_sched_rr_timeslice k"
  "k_sysctl_resched_latency_warn_ms (upd_rq c g k) = k_sysctl_resched_latency_warn_ms k"
  "k_sysctl_resched_latency_warn_once (upd_rq c g k) = k_sysctl_resched_latency_warn_once k"
  "k_resched_latency_warned (upd_rq c g k) = k_resched_latency_warned k"
  "k_system_booting (upd_rq c g k) = k_system_booting k"
  "k_cfs_rqs (upd_rq c g k) = k_cfs_rqs k"
  "k_rd_online (upd_rq c g k) = k_rd_online k"
  "k_sched_smt_present (upd_rq c g k) = k_sched_smt_present k"
  "k_sched_smp_initialized (upd_rq c g k) = k_sched_smp_initialized k"
  "k_cpuhp_tasks_frozen (upd_rq c g k) = k_cpuhp_tasks_frozen k"
  "k_num_cpus_frozen (upd_rq c g k) = k_num_cpus_frozen k"
  "k_calc_load_tasks (upd_rq c g k) = k_calc_load_tasks k"
  "k_calc_load_update (upd_rq c g k) = k_calc_load_update k"
  "k_task_groups (upd_rq c g k) = k_task_groups k"
  "k_scheduler_running (upd_rq c g k) = k_scheduler_running k"
  by (simp_all add: upd_rq_def)

lemma kernel_upd_tg_frame [simp]:
  "k_tg_depth (upd_tg i h k) = k_tg_depth k" "k_root_tg (upd_tg i h k) = k_root_tg k"
  "k_uclamp_buckets (upd_tg i h k) = k_uclamp_buckets k"
  "k_sched_uclamp_used (upd_tg i h k) = k_sched_uclamp_used k"
  "k_uclamp_default (upd_tg i h k) = k_uclamp_default k"
  "k_sysctl_uclamp_util_min (upd_tg i h k) = k_sysctl_uclamp_util_min k"
  "k_sysctl_uclamp_util_max (upd_tg i h k) = k_sysctl_uclamp_util_max k"
  "k_sysctl_uclamp_util_min_rt_default (upd_tg i h k) = k_sysctl_uclamp_util_min_rt_default k"
  by (simp_all add: upd_tg_def)

section \<open>CPU masks\<close>

text \<open>\<open>for_each_cpu(cpu, mask)\<close> visits the CPUs of \<open>mask\<close> below \<open>nr_cpu_ids\<close> in order.\<close>

definition for_each_cpu :: "kernel \<Rightarrow> cpumask \<Rightarrow> cpu list" where
  "for_each_cpu k m = filter (\<lambda>c. c \<in> m) [0..k_nr_cpu_ids k - 1]"

lemma set_for_each_cpu [simp]:
  "set (for_each_cpu k m) = {c \<in> m. 0 \<le> c \<and> c < k_nr_cpu_ids k}"
  by (auto simp: for_each_cpu_def)

definition cpu_online :: "kernel \<Rightarrow> cpu \<Rightarrow> bool" where
  "cpu_online k c \<longleftrightarrow> c \<in> k_online k"

definition cpu_active :: "kernel \<Rightarrow> cpu \<Rightarrow> bool" where
  "cpu_active k c \<longleftrightarrow> c \<in> k_active k"

section \<open>Small accessors of \<open>sched.h\<close>\<close>

definition task_cpu :: "kernel \<Rightarrow> tid \<Rightarrow> cpu" where
  "task_cpu k p = t_ti_cpu (k_tasks k p)"

definition task_nice :: "task_struct \<Rightarrow> int" where
  "task_nice t = PRIO_TO_NICE (t_static_prio t)"

definition task_on_rq_queued :: "task_struct \<Rightarrow> bool" where
  "task_on_rq_queued t \<longleftrightarrow> t_on_rq t = TASK_ON_RQ_QUEUED"

definition task_on_rq_migrating :: "task_struct \<Rightarrow> bool" where
  "task_on_rq_migrating t \<longleftrightarrow> t_on_rq t = TASK_ON_RQ_MIGRATING"

definition test_tsk_need_resched :: "task_struct \<Rightarrow> bool" where
  "test_tsk_need_resched t \<longleftrightarrow> test_flag (t_ti_flags t) TIF_NEED_RESCHED"

definition set_tsk_need_resched :: "tid \<Rightarrow> kernel \<Rightarrow> kernel" where
  "set_tsk_need_resched p =
     upd_task p (\<lambda>t. t\<lparr>t_ti_flags := set_flag (t_ti_flags t) TIF_NEED_RESCHED\<rparr>)"

definition clear_tsk_need_resched :: "tid \<Rightarrow> kernel \<Rightarrow> kernel" where
  "clear_tsk_need_resched p =
     upd_task p (\<lambda>t. t\<lparr>t_ti_flags := clear_flag (t_ti_flags t) TIF_NEED_RESCHED\<rparr>)"

end
