(* ===== verification/Resched.thy ===== *)
theory Resched
  imports State
begin

text \<open>
  Marking a CPU's current task for rescheduling (\<open>core.c\<close>, \<open>resched_curr\<close> and the
  polling protocol of the idle task): the flag is set on the task, and an interprocessor
  interrupt goes out only to a remote CPU whose current task is not polling the flag.
  The interrupts sent are recorded in \<open>k_ipis\<close>.
\<close>

definition smp_send_reschedule :: "cpu \<Rightarrow> kernel \<Rightarrow> kernel" where
  "smp_send_reschedule c k = k\<lparr>k_ipis := k_ipis k @ [c]\<rparr>"

definition set_nr_and_not_polling :: "tid \<Rightarrow> kernel \<Rightarrow> bool \<times> kernel" where
  "set_nr_and_not_polling p k =
     (let old = t_ti_flags (k_tasks k p)
      in (\<not> test_flag old TIF_POLLING_NRFLAG,
          upd_task p (\<lambda>t. t\<lparr>t_ti_flags := set_flag old TIF_NEED_RESCHED\<rparr>) k))"

definition set_nr_if_polling :: "tid \<Rightarrow> kernel \<Rightarrow> bool \<times> kernel" where
  "set_nr_if_polling p k =
     (let val = t_ti_flags (k_tasks k p)
      in if \<not> test_flag val TIF_POLLING_NRFLAG then (False, k)
         else if test_flag val TIF_NEED_RESCHED then (True, k)
         else (True, upd_task p (\<lambda>t. t\<lparr>t_ti_flags := set_flag val TIF_NEED_RESCHED\<rparr>) k))"

definition resched_curr :: "cpu \<Rightarrow> kernel \<Rightarrow> kernel" where
  "resched_curr c k =
     (let curr = rq_curr (k_rqs k c)
      in if test_tsk_need_resched (k_tasks k curr) then k
         else let cpu = rq_cpu (k_rqs k c)
              in if cpu = k_this_cpu k
                 then (set_tsk_need_resched curr k)\<lparr>k_preempt_need_resched := True\<rparr>
                 else let (not_polling, k') = set_nr_and_not_polling curr k
                      in if not_polling then smp_send_reschedule cpu k' else k')"

definition resched_cpu :: "cpu \<Rightarrow> kernel \<Rightarrow> kernel" where
  "resched_cpu c k = (if cpu_online k c \<or> c = k_this_cpu k then resched_curr c k else k)"

definition wake_up_idle_cpu :: "cpu \<Rightarrow> kernel \<Rightarrow> kernel" where
  "wake_up_idle_cpu c k =
     (if c = k_this_cpu k then k
      else let (not_polling, k') = set_nr_and_not_polling (rq_idle (k_rqs k c)) k
           in if not_polling then smp_send_reschedule c k' else k')"

definition call_function_single_prep_ipi :: "cpu \<Rightarrow> kernel \<Rightarrow> bool \<times> kernel" where
  "call_function_single_prep_ipi c k =
     (let (polling, k') = set_nr_if_polling (rq_idle (k_rqs k c)) k in (\<not> polling, k'))"

definition is_idle_task :: "task_struct \<Rightarrow> bool" where
  "is_idle_task t \<longleftrightarrow> test_flag (t_flags t) 0x00000002"

definition wake_up_if_idle :: "cpu \<Rightarrow> kernel \<Rightarrow> kernel" where
  "wake_up_if_idle c k =
     (if is_idle_task (k_tasks k (rq_curr (k_rqs k c))) then resched_curr c k else k)"

definition kick_process :: "tid \<Rightarrow> kernel \<Rightarrow> kernel" where
  "kick_process p k =
     (let c = task_cpu k p
      in if c \<noteq> k_this_cpu k \<and> rq_curr (k_rqs k (task_cpu k p)) = p
         then smp_send_reschedule c k else k)"

section \<open>What rescheduling changes\<close>

lemmas resched_unfold = resched_curr_def set_nr_and_not_polling_def smp_send_reschedule_def
  set_tsk_need_resched_def Let_def

lemma resched_curr_task:
  "k_tasks (resched_curr c k) q =
     (if q = rq_curr (k_rqs k c)
      then (k_tasks k q)\<lparr>t_ti_flags := t_ti_flags (k_tasks (resched_curr c k) q)\<rparr>
      else k_tasks k q)"
  by (auto simp: resched_unfold)

lemma resched_curr_frame [simp]:
  "k_rqs (resched_curr c k) = k_rqs k" "k_tgs (resched_curr c k) = k_tgs k"
  "k_this_cpu (resched_curr c k) = k_this_cpu k" "k_online (resched_curr c k) = k_online k"
  "k_NR_CPUS (resched_curr c k) = k_NR_CPUS k" "k_nr_cpu_ids (resched_curr c k) = k_nr_cpu_ids k"
  "k_HZ (resched_curr c k) = k_HZ k" "k_jiffies (resched_curr c k) = k_jiffies k"
  "k_list_corrupted (resched_curr c k) = k_list_corrupted k"
  by (simp_all add: resched_unfold)

lemma TIF_NEED_RESCHED_nonzero [simp]: "TIF_NEED_RESCHED \<noteq> 0"
  by (simp add: TIF_NEED_RESCHED_def)

lemma resched_curr_sets:
  "test_tsk_need_resched (k_tasks (resched_curr c k) (rq_curr (k_rqs k c)))"
  by (simp add: resched_unfold test_tsk_need_resched_def)

lemma resched_curr_idem: "resched_curr c (resched_curr c k) = resched_curr c k"
  using resched_curr_sets [of c k]
  by (subst resched_curr_def) (simp add: Let_def)

text \<open>
  \<open>resched_curr\<close> always leaves the CPU's current task flagged, and sends exactly one
  interrupt when, and only when, the flag was clear and the CPU is remote and its current
  task is not polling.
\<close>

theorem resched_curr_spec:
  "test_tsk_need_resched (k_tasks (resched_curr c k) (rq_curr (k_rqs k c))) \<and>
   k_ipis (resched_curr c k) = k_ipis k @
     (if \<not> test_tsk_need_resched (k_tasks k (rq_curr (k_rqs k c))) \<and>
         rq_cpu (k_rqs k c) \<noteq> k_this_cpu k \<and>
         \<not> test_flag (t_ti_flags (k_tasks k (rq_curr (k_rqs k c)))) TIF_POLLING_NRFLAG
      then [rq_cpu (k_rqs k c)] else [])"
  by (rule conjI, rule resched_curr_sets) (simp add: resched_unfold)

end
