(* ===== verification/Fifo_Contract.thy ===== *)
theory Fifo_Contract
  imports Prelude
begin

text \<open>
  The contract of a run queue served in arrival order, as the scheduler core uses it:
  append, remove, and serve (which returns the front without removing it).  The yat
  class is an interpretation of it (theory \<open>Yat_Casched\<close>).
\<close>

text \<open>Serve and remove until nothing is left, at most \<open>n\<close> times.\<close>

fun drain :: "('s \<Rightarrow> 'a option \<times> 's) \<Rightarrow> ('a \<Rightarrow> 's \<Rightarrow> 's) \<Rightarrow> nat \<Rightarrow> 's \<Rightarrow> 'a list" where
  "drain serve del 0 s = []"
| "drain serve del (Suc n) s =
     (case serve s of (None, _) \<Rightarrow> []
      | (Some x, s') \<Rightarrow> x # drain serve del n (del x s'))"

text \<open>Serve again and again, with arbitrary background steps in between.\<close>

fun serve_rounds :: "('s \<Rightarrow> 'a option \<times> 's) \<Rightarrow> ('s \<Rightarrow> 's) list \<Rightarrow> 's \<Rightarrow> 'a option list" where
  "serve_rounds serve [] s = []"
| "serve_rounds serve (f # fs) s =
     (let (x, s') = serve s in x # serve_rounds serve fs (f s'))"

locale fifo_queue =
  fixes invar :: "'s \<Rightarrow> bool"
    and queue :: "'s \<Rightarrow> 'a list"
    and limit :: nat
    and enq :: "'a \<Rightarrow> 's \<Rightarrow> 's"
    and del :: "'a \<Rightarrow> 's \<Rightarrow> 's"
    and serve :: "'s \<Rightarrow> 'a option \<times> 's"
    and unlinked :: "'a \<Rightarrow> 's \<Rightarrow> bool"
  assumes invar_enq: "invar s \<Longrightarrow> unlinked x s \<Longrightarrow> length (queue s) < limit \<Longrightarrow> invar (enq x s)"
    and queue_enq: "invar s \<Longrightarrow> unlinked x s \<Longrightarrow> queue (enq x s) = queue s @ [x]"
    and unlinked_enq: "invar s \<Longrightarrow> unlinked x s \<Longrightarrow> unlinked y s \<Longrightarrow> y \<noteq> x \<Longrightarrow> unlinked y (enq x s)"
    and invar_del: "invar s \<Longrightarrow> x \<in> set (queue s) \<Longrightarrow> invar (del x s)"
    and queue_del: "invar s \<Longrightarrow> x \<in> set (queue s) \<Longrightarrow> queue (del x s) = remove1 x (queue s)"
    and invar_serve: "invar s \<Longrightarrow> invar (snd (serve s))"
    and queue_serve: "invar s \<Longrightarrow> queue (snd (serve s)) = queue s"
    and serve_front: "invar s \<Longrightarrow> fst (serve s) = (case queue s of [] \<Rightarrow> None | x # _ \<Rightarrow> Some x)"
begin

lemma serve_Some_queue: "invar s \<Longrightarrow> fst (serve s) = Some x \<Longrightarrow> \<exists>xs. queue s = x # xs"
  by (simp add: serve_front split: list.splits)

text \<open>Draining returns the queue in arrival order.\<close>

lemma drain_queue: "invar s \<Longrightarrow> drain serve del (length (queue s)) s = queue s"
proof (induction "queue s" arbitrary: s)
  case Nil
  then show ?case by simp
next
  case (Cons x xs)
  obtain s' where serve: "serve s = (Some x, s')"
    using serve_front [OF Cons.prems] Cons.hyps(2)[symmetric] by (cases "serve s") auto
  have s': "invar s'" "queue s' = x # xs"
    using invar_serve [OF Cons.prems] queue_serve [OF Cons.prems] serve Cons.hyps(2)[symmetric]
    by simp_all
  have del: "invar (del x s')" "queue (del x s') = xs"
    using invar_del [OF s'(1)] queue_del [OF s'(1)] s'(2) by simp_all
  have "drain serve del (length xs) (del x s') = xs"
    using Cons.hyps(1) [OF _ del(1)] del(2) by simp
  then show ?case using serve by (simp flip: Cons.hyps(2))
qed

lemma fold_enq:
  assumes "invar s" and "distinct xs" and "\<And>x. x \<in> set xs \<Longrightarrow> unlinked x s"
    and "length (queue s) + length xs \<le> limit"
  shows "invar (fold enq xs s) \<and> queue (fold enq xs s) = queue s @ xs"
  using assms
proof (induction xs arbitrary: s)
  case Nil
  then show ?case by simp
next
  case (Cons x xs)
  have x: "invar (enq x s)" "queue (enq x s) = queue s @ [x]"
    using Cons.prems by (auto intro: invar_enq queue_enq)
  have "unlinked y (enq x s)" if "y \<in> set xs" for y
    using Cons.prems that by (intro unlinked_enq) auto
  then show ?case using Cons.IH [OF x(1)] Cons.prems x(2) by auto
qed

text \<open>Arrival order is service order: fill an empty queue, then drain it.\<close>

lemma fifo_order:
  assumes "invar s" "queue s = []" "distinct xs" "\<And>x. x \<in> set xs \<Longrightarrow> unlinked x s"
    and "length xs \<le> limit"
  shows "drain serve del (length xs) (fold enq xs s) = xs"
  using fold_enq [OF assms(1,3,4)] assms(2,5) drain_queue [of "fold enq xs s"] by simp

text \<open>
  The front is served again and again as long as nothing removes it: background steps
  that keep the front never let a later task run.
\<close>

lemma serve_rounds_front:
  assumes "invar s" "queue s = x # xs"
    and "\<And>f s. f \<in> set fs \<Longrightarrow> invar s \<Longrightarrow> (\<exists>ys. queue s = x # ys) \<Longrightarrow>
           invar (f s) \<and> (\<exists>ys. queue (f s) = x # ys)"
  shows "serve_rounds serve fs s = replicate (length fs) (Some x)"
  using assms
proof (induction fs arbitrary: s xs)
  case Nil
  then show ?case by simp
next
  case (Cons f fs)
  obtain s' where serve: "serve s = (Some x, s')"
    using serve_front [OF Cons.prems(1)] Cons.prems(2) by (cases "serve s") auto
  have s': "invar s'" "queue s' = x # xs"
    using invar_serve [OF Cons.prems(1)] queue_serve [OF Cons.prems(1)] serve Cons.prems(2)
    by simp_all
  obtain ys where "invar (f s')" "queue (f s') = x # ys"
    using Cons.prems(3) [of f s'] s' by auto
  then have "serve_rounds serve fs (f s') = replicate (length fs) (Some x)"
    using Cons.IH Cons.prems(3) by simp
  then show ?case using serve by simp
qed

end

end
