(* ===== verification/Yat_Casched.thy ===== *)
theory Yat_Casched
  imports Resched Fifo_Contract
begin

text \<open>
  The cache-aware scheduling class of \<open>yat_casched.c\<close>, one definition per operation of
  its \<open>sched_class\<close>.  A run queue is the list of the tasks linked on it together with
  its counter; a task's \<open>run_list\<close> node says on which CPU's list it is linked.
  Linking a node that is already linked breaks the kernel's list contract; the model
  records that in \<open>k_list_corrupted\<close>, and the invariant below excludes it.
\<close>

section \<open>The operations\<close>

definition YAT_MIN_GRANULARITY :: "kernel \<Rightarrow> u64" where
  "YAT_MIN_GRANULARITY k = NSEC_PER_SEC div k_HZ k"

definition yat_rq :: "kernel \<Rightarrow> cpu \<Rightarrow> yat_casched_rq" where
  "yat_rq k c = rq_yat_casched (k_rqs k c)"

definition yat_se :: "kernel \<Rightarrow> tid \<Rightarrow> sched_yat_casched_entity" where
  "yat_se k p = t_yat_casched (k_tasks k p)"

definition upd_yat_rq :: "cpu \<Rightarrow> (yat_casched_rq \<Rightarrow> yat_casched_rq) \<Rightarrow> kernel \<Rightarrow> kernel" where
  "upd_yat_rq c f = upd_rq c (\<lambda>r. r\<lparr>rq_yat_casched := f (rq_yat_casched r)\<rparr>)"

definition upd_yat_se ::
  "tid \<Rightarrow> (sched_yat_casched_entity \<Rightarrow> sched_yat_casched_entity) \<Rightarrow> kernel \<Rightarrow> kernel" where
  "upd_yat_se p f = upd_task p (\<lambda>t. t\<lparr>t_yat_casched := f (t_yat_casched t)\<rparr>)"

definition init_yat_casched_rq :: "cpu \<Rightarrow> kernel \<Rightarrow> kernel" where
  "init_yat_casched_rq c k =
     upd_yat_rq c (\<lambda>q. \<lparr>yrq_tasks = [], yrq_nr_running = 0, yrq_agent = None,
       yrq_cache_decay_jiffies = k_jiffies k,
       yrq_cpu_history =
         (\<lambda>i. if 0 \<le> i \<and> i < k_NR_CPUS k then None else yrq_cpu_history q i)\<rparr>) k"

definition yat_casched_prio :: "task_struct \<Rightarrow> bool" where
  "yat_casched_prio t \<longleftrightarrow> t_policy t = SCHED_YAT_CASCHED"

definition update_curr_yat_casched :: "cpu \<Rightarrow> kernel \<Rightarrow> kernel" where
  "update_curr_yat_casched c k =
     (let curr = rq_curr (k_rqs k c);
          t = k_tasks k curr;
          now = rq_clock_task (k_rqs k c)
      in if t_sched_class t \<noteq> yat_casched_sched_class then k
         else let d = now - se_exec_start (t_se t);
                  delta_exec = (if sint d < 0 then 0 else d)
              in upd_task curr (\<lambda>t. t\<lparr>
                   t_se := (t_se t)\<lparr>se_exec_start := now\<rparr>,
                   t_yat_casched := (t_yat_casched t)\<lparr>
                     yse_vruntime := yse_vruntime (t_yat_casched t) + delta_exec\<rparr>\<rparr>) k)"

text \<open>The loop over \<open>p->cpus_mask\<close> carries \<open>(min_load, best_cpu)\<close>.\<close>

fun least_loaded :: "kernel \<Rightarrow> cpu list \<Rightarrow> u64 \<times> cpu \<Rightarrow> u64 \<times> cpu" where
  "least_loaded k [] (min_load, best_cpu) = (min_load, best_cpu)"
| "least_loaded k (c # cs) (min_load, best_cpu) =
     (if \<not> cpu_online k c then least_loaded k cs (min_load, best_cpu)
      else if ucast (yrq_nr_running (yat_rq k c)) < min_load
      then least_loaded k cs (ucast (yrq_nr_running (yat_rq k c)), c)
      else least_loaded k cs (min_load, best_cpu))"

definition ULONG_MAX :: u64 where "ULONG_MAX = 0xffffffffffffffff"

definition select_task_rq_yat_casched :: "tid \<Rightarrow> cpu \<Rightarrow> u32 \<Rightarrow> kernel \<Rightarrow> cpu \<times> kernel" where
  "select_task_rq_yat_casched p prev_cpu flags k =
     (let last_cpu = yse_last_cpu (yat_se k p);
          mask = t_cpus_mask (k_tasks k p)
      in if last_cpu = -1 \<or> k_NR_CPUS k \<le> last_cpu
         then (prev_cpu, upd_yat_se p (\<lambda>e. e\<lparr>yse_last_cpu := prev_cpu\<rparr>) k)
         else if cpu_online k last_cpu \<and> last_cpu \<in> mask then (last_cpu, k)
         else (snd (least_loaded k (for_each_cpu k mask) (ULONG_MAX, prev_cpu)), k))"

text \<open>
  \<open>list_add_tail\<close> and \<open>list_del_init\<close> on the node of task \<open>p\<close>.  Adding a node
  that is linked already breaks the list.
\<close>

definition yat_list_add_tail :: "tid \<Rightarrow> cpu \<Rightarrow> kernel \<Rightarrow> kernel" where
  "yat_list_add_tail p c k =
     (let linked = (yse_run_list (yat_se k p) \<noteq> None);
          k1 = upd_yat_rq c (\<lambda>q. q\<lparr>yrq_tasks := yrq_tasks q @ [p]\<rparr>) k;
          k2 = upd_yat_se p (\<lambda>e. e\<lparr>yse_run_list := Some c\<rparr>) k1
      in if linked then k2\<lparr>k_list_corrupted := True\<rparr> else k2)"

definition yat_list_del_init :: "tid \<Rightarrow> kernel \<Rightarrow> kernel" where
  "yat_list_del_init p k =
     (case yse_run_list (yat_se k p) of
        None \<Rightarrow> k
      | Some c \<Rightarrow> upd_yat_se p (\<lambda>e. e\<lparr>yse_run_list := None\<rparr>)
                   (upd_yat_rq c (\<lambda>q. q\<lparr>yrq_tasks := remove1 p (yrq_tasks q)\<rparr>) k))"

definition enqueue_task_yat_casched :: "cpu \<Rightarrow> tid \<Rightarrow> u32 \<Rightarrow> kernel \<Rightarrow> kernel" where
  "enqueue_task_yat_casched c p flags k =
     (let k1 = (if yse_run_list (yat_se k p) = None
                then upd_yat_se p (\<lambda>e. e\<lparr>yse_run_list := None, yse_vruntime := 0,
                                        yse_last_cpu := -1\<rparr>) k
                else k);
          k2 = yat_list_add_tail p c k1
      in upd_yat_rq c (\<lambda>q. q\<lparr>yrq_nr_running := yrq_nr_running q + 1\<rparr>) k2)"

definition dequeue_task_yat_casched :: "cpu \<Rightarrow> tid \<Rightarrow> u32 \<Rightarrow> kernel \<Rightarrow> kernel" where
  "dequeue_task_yat_casched c p flags k =
     (if yse_run_list (yat_se k p) \<noteq> None
      then upd_yat_rq c (\<lambda>q. q\<lparr>yrq_nr_running := yrq_nr_running q - 1\<rparr>)
             (yat_list_del_init p k)
      else k)"

definition pick_next_task_yat_casched :: "cpu \<Rightarrow> kernel \<Rightarrow> tid option \<times> kernel" where
  "pick_next_task_yat_casched c k =
     (let q = yat_rq k c; cpu = rq_cpu (k_rqs k c)
      in if yrq_nr_running q = 0 then (None, k)
         else case yrq_tasks q of
           [] \<Rightarrow> (None, k)
         | p # _ \<Rightarrow>
             (Some p,
              if 0 \<le> cpu \<and> cpu < k_NR_CPUS k
              then upd_yat_se p (\<lambda>e. e\<lparr>yse_last_cpu := cpu\<rparr>)
                     (upd_yat_rq c (\<lambda>q. q\<lparr>yrq_cpu_history := (yrq_cpu_history q)(cpu := Some p)\<rparr>) k)
              else k))"

definition set_next_task_yat_casched :: "cpu \<Rightarrow> tid \<Rightarrow> bool \<Rightarrow> kernel \<Rightarrow> kernel" where
  "set_next_task_yat_casched c p first k =
     upd_task p (\<lambda>t. t\<lparr>t_se := (t_se t)\<lparr>se_exec_start := rq_clock_task (k_rqs k c)\<rparr>\<rparr>) k"

definition put_prev_task_yat_casched :: "cpu \<Rightarrow> tid \<Rightarrow> kernel \<Rightarrow> kernel" where
  "put_prev_task_yat_casched c p k = update_curr_yat_casched c k"

definition task_tick_yat_casched :: "cpu \<Rightarrow> tid \<Rightarrow> bool \<Rightarrow> kernel \<Rightarrow> kernel" where
  "task_tick_yat_casched c p queued k =
     (let k1 = update_curr_yat_casched c k;
          se = t_se (k_tasks k1 p)
      in if YAT_MIN_GRANULARITY k1 \<le> se_sum_exec_runtime se - se_prev_sum_exec_runtime se
         then resched_curr c (upd_task p (\<lambda>t. t\<lparr>t_se := (t_se t)\<lparr>
                se_prev_sum_exec_runtime := se_sum_exec_runtime (t_se t)\<rparr>\<rparr>) k1)
         else k1)"

definition wakeup_preempt_yat_casched :: "cpu \<Rightarrow> tid \<Rightarrow> u32 \<Rightarrow> kernel \<Rightarrow> kernel" where
  "wakeup_preempt_yat_casched c p flags k = resched_curr c k"

definition balance_yat_casched :: "cpu \<Rightarrow> tid \<Rightarrow> kernel \<Rightarrow> int \<times> kernel" where
  "balance_yat_casched c prev k = (0, k)"

definition yield_task_yat_casched :: "cpu \<Rightarrow> kernel \<Rightarrow> kernel" where
  "yield_task_yat_casched c k = k"

definition yield_to_task_yat_casched :: "cpu \<Rightarrow> tid \<Rightarrow> kernel \<Rightarrow> bool \<times> kernel" where
  "yield_to_task_yat_casched c p k = (False, k)"

definition set_cpus_allowed_yat_casched ::
  "tid \<Rightarrow> affinity_context \<Rightarrow> kernel \<Rightarrow> affinity_context \<times> kernel" where
  "set_cpus_allowed_yat_casched p ctx k = (ctx, k)"

definition rq_online_yat_casched :: "cpu \<Rightarrow> kernel \<Rightarrow> kernel" where
  "rq_online_yat_casched c k = k"

definition rq_offline_yat_casched :: "cpu \<Rightarrow> kernel \<Rightarrow> kernel" where
  "rq_offline_yat_casched c k = k"

definition pick_task_yat_casched :: "cpu \<Rightarrow> kernel \<Rightarrow> tid option \<times> kernel" where
  "pick_task_yat_casched c k = pick_next_task_yat_casched c k"

definition switched_to_yat_casched :: "cpu \<Rightarrow> tid \<Rightarrow> kernel \<Rightarrow> kernel" where
  "switched_to_yat_casched c p k = k"

definition prio_changed_yat_casched :: "cpu \<Rightarrow> tid \<Rightarrow> int \<Rightarrow> kernel \<Rightarrow> kernel" where
  "prio_changed_yat_casched c p oldprio k = k"

end
