(* ===== verification/Yat_Lemmas.thy ===== *)
theory Yat_Lemmas
  imports Yat_Casched
begin

text \<open>
  The invariant of the yat run queues and what each class operation does to it: the
  lists hold exactly the tasks whose node says so, without repetition, and the counter
  is the length of the list.
\<close>

section \<open>Accessors after updates\<close>

lemma yat_rq_upd [simp]:
  "yat_rq (upd_yat_rq c f k) d = (if d = c then f (yat_rq k c) else yat_rq k d)"
  "yat_rq (upd_yat_se p g k) d = yat_rq k d" "yat_rq (upd_task p h k) d = yat_rq k d"
  by (simp_all add: yat_rq_def upd_yat_rq_def upd_yat_se_def)

lemma yat_se_upd [simp]:
  "yat_se (upd_yat_se p g k) q = (if q = p then g (yat_se k p) else yat_se k q)"
  "yat_se (upd_yat_rq c f k) q = yat_se k q" "yat_se (upd_rq c h k) q = yat_se k q"
  "yat_se (upd_task p h' k) q = (if q = p then t_yat_casched (h' (k_tasks k p)) else yat_se k q)"
  by (simp_all add: yat_se_def upd_yat_rq_def upd_yat_se_def)

lemma yat_upd_frame [simp]:
  "k_list_corrupted (upd_yat_rq c f k) = k_list_corrupted k"
  "k_list_corrupted (upd_yat_se p g k) = k_list_corrupted k"
  "k_tasks (upd_yat_rq c f k) = k_tasks k"
  "k_NR_CPUS (upd_yat_rq c f k) = k_NR_CPUS k" "k_NR_CPUS (upd_yat_se p g k) = k_NR_CPUS k"
  "k_online (upd_yat_rq c f k) = k_online k" "k_online (upd_yat_se p g k) = k_online k"
  "k_HZ (upd_yat_rq c f k) = k_HZ k" "k_HZ (upd_yat_se p g k) = k_HZ k"
  "rq_cpu (k_rqs (upd_yat_rq c f k) d) = rq_cpu (k_rqs k d)"
  "rq_curr (k_rqs (upd_yat_rq c f k) d) = rq_curr (k_rqs k d)"
  "k_rqs (upd_yat_se p g k) = k_rqs k"
  "t_se (k_tasks (upd_yat_se p g k) q) = t_se (k_tasks k q)"
  "t_cpus_mask (k_tasks (upd_yat_se p g k) q) = t_cpus_mask (k_tasks k q)"
  "t_ti_flags (k_tasks (upd_yat_se p g k) q) = t_ti_flags (k_tasks k q)"
  "k_ipis (upd_yat_rq c f k) = k_ipis k" "k_ipis (upd_yat_se p g k) = k_ipis k"
  by (simp_all add: upd_yat_rq_def upd_yat_se_def)

lemma yat_corrupted_upd [simp]:
  "yat_rq (k\<lparr>k_list_corrupted := b\<rparr>) c = yat_rq k c"
  "yat_se (k\<lparr>k_list_corrupted := b\<rparr>) p = yat_se k p"
  by (simp_all add: yat_rq_def yat_se_def)

lemma yat_resched_curr [simp]:
  "yat_rq (resched_curr c k) d = yat_rq k d" "yat_se (resched_curr c k) p = yat_se k p"
  "t_se (k_tasks (resched_curr c k) p) = t_se (k_tasks k p)"
  "t_cpus_mask (k_tasks (resched_curr c k) p) = t_cpus_mask (k_tasks k p)"
  by (simp_all add: yat_rq_def yat_se_def resched_curr_task [of c k p])

lemma yat_se_fold [simp]: "t_yat_casched (k_tasks k p) = yat_se k p"
  by (simp add: yat_se_def)

section \<open>The invariant\<close>

definition yat_wf :: "kernel \<Rightarrow> bool" where
  "yat_wf k \<longleftrightarrow> \<not> k_list_corrupted k \<and>
     (\<forall>c. distinct (yrq_tasks (yat_rq k c)) \<and>
          unat (yrq_nr_running (yat_rq k c)) = length (yrq_tasks (yat_rq k c))) \<and>
     (\<forall>p c. p \<in> set (yrq_tasks (yat_rq k c)) \<longleftrightarrow> yse_run_list (yat_se k p) = Some c)"

lemma yat_wfI [intro]:
  assumes "\<not> k_list_corrupted k" "\<And>c. distinct (yrq_tasks (yat_rq k c))"
    and "\<And>c. unat (yrq_nr_running (yat_rq k c)) = length (yrq_tasks (yat_rq k c))"
    and "\<And>p c. p \<in> set (yrq_tasks (yat_rq k c)) \<longleftrightarrow> yse_run_list (yat_se k p) = Some c"
  shows "yat_wf k"
  using assms by (auto simp: yat_wf_def)

lemma yat_wfD:
  assumes "yat_wf k"
  shows "\<not> k_list_corrupted k" "distinct (yrq_tasks (yat_rq k c))"
    and "unat (yrq_nr_running (yat_rq k c)) = length (yrq_tasks (yat_rq k c))"
    and "p \<in> set (yrq_tasks (yat_rq k c)) \<longleftrightarrow> yse_run_list (yat_se k p) = Some c"
  using assms by (auto simp: yat_wf_def)

text \<open>Operations that touch neither a list, a counter nor a node keep the invariant.\<close>

lemma yat_wf_cong:
  assumes "yat_wf k" "k_list_corrupted k' = k_list_corrupted k"
    and "\<And>c. yrq_tasks (yat_rq k' c) = yrq_tasks (yat_rq k c)"
    and "\<And>c. yrq_nr_running (yat_rq k' c) = yrq_nr_running (yat_rq k c)"
    and "\<And>p. yse_run_list (yat_se k' p) = yse_run_list (yat_se k p)"
  shows "yat_wf k'"
  using assms by (simp add: yat_wf_def)

section \<open>Enqueue and dequeue\<close>

lemma enqueue_yat_tasks [simp]:
  "yrq_tasks (yat_rq (enqueue_task_yat_casched c p f k) d) =
     (if d = c then yrq_tasks (yat_rq k c) @ [p] else yrq_tasks (yat_rq k d))"
  "yrq_nr_running (yat_rq (enqueue_task_yat_casched c p f k) d) =
     (if d = c then yrq_nr_running (yat_rq k c) + 1 else yrq_nr_running (yat_rq k d))"
  by (simp_all add: enqueue_task_yat_casched_def yat_list_add_tail_def Let_def)

lemma enqueue_yat_run_list [simp]:
  "yse_run_list (yat_se (enqueue_task_yat_casched c p f k) q) =
     (if q = p then Some c else yse_run_list (yat_se k q))"
  by (simp add: enqueue_task_yat_casched_def yat_list_add_tail_def Let_def)

lemma enqueue_yat_corrupted [simp]:
  "k_list_corrupted (enqueue_task_yat_casched c p f k) \<longleftrightarrow>
     k_list_corrupted k \<or> yse_run_list (yat_se k p) \<noteq> None"
  by (simp add: enqueue_task_yat_casched_def yat_list_add_tail_def Let_def)

lemma dequeue_yat_unlinked:
  "yse_run_list (yat_se k p) = None \<Longrightarrow> dequeue_task_yat_casched c p f k = k"
  by (simp add: dequeue_task_yat_casched_def)

lemma dequeue_yat_linked:
  assumes "yse_run_list (yat_se k p) = Some c"
  shows "yrq_tasks (yat_rq (dequeue_task_yat_casched c p f k) d) =
           (if d = c then remove1 p (yrq_tasks (yat_rq k c)) else yrq_tasks (yat_rq k d))"
    and "yrq_nr_running (yat_rq (dequeue_task_yat_casched c p f k) d) =
           (if d = c then yrq_nr_running (yat_rq k c) - 1 else yrq_nr_running (yat_rq k d))"
    and "yse_run_list (yat_se (dequeue_task_yat_casched c p f k) q) =
           (if q = p then None else yse_run_list (yat_se k q))"
    and "k_list_corrupted (dequeue_task_yat_casched c p f k) = k_list_corrupted k"
  using assms by (simp_all add: dequeue_task_yat_casched_def yat_list_del_init_def)

lemma enqueue_yat_wf:
  assumes "yat_wf k" "yse_run_list (yat_se k p) = None"
    and "length (yrq_tasks (yat_rq k c)) < 2 ^ 32 - 1"
  shows "yat_wf (enqueue_task_yat_casched c p f k)"
  using assms yat_wfD [OF assms(1)] by (intro yat_wfI) (auto simp: unat_word_Suc)

lemma dequeue_yat_wf:
  assumes "yat_wf k" "yse_run_list (yat_se k p) = Some c"
  shows "yat_wf (dequeue_task_yat_casched c p f k)"
proof -
  note wf = yat_wfD [OF assms(1)]
  have p: "p \<in> set (yrq_tasks (yat_rq k c))" using assms(2) wf(4) by blast
  then have "0 < unat (yrq_nr_running (yat_rq k c))" using length_pos_if_in_set by (metis wf(3))
  then show ?thesis
    using wf p by (intro yat_wfI)
      (auto simp: dequeue_yat_linked [OF assms(2)] unat_word_pred length_remove1 assms(2))
qed

section \<open>The other operations\<close>

lemma update_curr_yat_frame [simp]:
  "yat_rq (update_curr_yat_casched c k) d = yat_rq k d"
  "yse_run_list (yat_se (update_curr_yat_casched c k) p) = yse_run_list (yat_se k p)"
  "yse_last_cpu (yat_se (update_curr_yat_casched c k) p) = yse_last_cpu (yat_se k p)"
  "k_list_corrupted (update_curr_yat_casched c k) = k_list_corrupted k"
  "k_rqs (update_curr_yat_casched c k) = k_rqs k" "k_HZ (update_curr_yat_casched c k) = k_HZ k"
  "k_ipis (update_curr_yat_casched c k) = k_ipis k"
  "t_ti_flags (k_tasks (update_curr_yat_casched c k) p) = t_ti_flags (k_tasks k p)"
  "t_cpus_mask (k_tasks (update_curr_yat_casched c k) p) = t_cpus_mask (k_tasks k p)"
  "se_sum_exec_runtime (t_se (k_tasks (update_curr_yat_casched c k) p)) =
     se_sum_exec_runtime (t_se (k_tasks k p))"
  "se_prev_sum_exec_runtime (t_se (k_tasks (update_curr_yat_casched c k) p)) =
     se_prev_sum_exec_runtime (t_se (k_tasks k p))"
  by (simp_all add: update_curr_yat_casched_def Let_def)

lemma pick_next_yat_frame [simp]:
  "yrq_tasks (yat_rq (snd (pick_next_task_yat_casched c k)) d) = yrq_tasks (yat_rq k d)"
  "yrq_nr_running (yat_rq (snd (pick_next_task_yat_casched c k)) d) = yrq_nr_running (yat_rq k d)"
  "yse_run_list (yat_se (snd (pick_next_task_yat_casched c k)) p) = yse_run_list (yat_se k p)"
  "k_list_corrupted (snd (pick_next_task_yat_casched c k)) = k_list_corrupted k"
  "t_se (k_tasks (snd (pick_next_task_yat_casched c k)) p) = t_se (k_tasks k p)"
  "t_cpus_mask (k_tasks (snd (pick_next_task_yat_casched c k)) p) = t_cpus_mask (k_tasks k p)"
  "k_HZ (snd (pick_next_task_yat_casched c k)) = k_HZ k"
  "k_NR_CPUS (snd (pick_next_task_yat_casched c k)) = k_NR_CPUS k"
  "k_online (snd (pick_next_task_yat_casched c k)) = k_online k"
  by (simp_all add: pick_next_task_yat_casched_def Let_def split: list.split)

lemma pick_next_yat_result:
  assumes "yat_wf k"
  shows "fst (pick_next_task_yat_casched c k) =
           (case yrq_tasks (yat_rq k c) of [] \<Rightarrow> None | p # _ \<Rightarrow> Some p)"
  using yat_wfD(3) [OF assms, of c]
  by (auto simp: pick_next_task_yat_casched_def Let_def split: list.split)

lemma select_yat_frame [simp]:
  "yat_rq (snd (select_task_rq_yat_casched p cpu f k)) d = yat_rq k d"
  "yse_run_list (yat_se (snd (select_task_rq_yat_casched p cpu f k)) q) = yse_run_list (yat_se k q)"
  "k_list_corrupted (snd (select_task_rq_yat_casched p cpu f k)) = k_list_corrupted k"
  "t_se (k_tasks (snd (select_task_rq_yat_casched p cpu f k)) q) = t_se (k_tasks k q)"
  "k_HZ (snd (select_task_rq_yat_casched p cpu f k)) = k_HZ k"
  by (simp_all add: select_task_rq_yat_casched_def Let_def)

lemma set_next_yat_frame [simp]:
  "yat_rq (set_next_task_yat_casched c p b k) d = yat_rq k d"
  "yat_se (set_next_task_yat_casched c p b k) q = yat_se k q"
  "k_list_corrupted (set_next_task_yat_casched c p b k) = k_list_corrupted k"
  "k_HZ (set_next_task_yat_casched c p b k) = k_HZ k"
  "se_sum_exec_runtime (t_se (k_tasks (set_next_task_yat_casched c p b k) q)) =
     se_sum_exec_runtime (t_se (k_tasks k q))"
  "se_prev_sum_exec_runtime (t_se (k_tasks (set_next_task_yat_casched c p b k) q)) =
     se_prev_sum_exec_runtime (t_se (k_tasks k q))"
  by (simp_all add: set_next_task_yat_casched_def)

lemma task_tick_yat_frame [simp]:
  "yat_rq (task_tick_yat_casched c p b k) d = yat_rq k d"
  "yse_run_list (yat_se (task_tick_yat_casched c p b k) q) = yse_run_list (yat_se k q)"
  "yse_last_cpu (yat_se (task_tick_yat_casched c p b k) q) = yse_last_cpu (yat_se k q)"
  "k_list_corrupted (task_tick_yat_casched c p b k) = k_list_corrupted k"
  "k_HZ (task_tick_yat_casched c p b k) = k_HZ k"
  "se_sum_exec_runtime (t_se (k_tasks (task_tick_yat_casched c p b k) q)) =
     se_sum_exec_runtime (t_se (k_tasks k q))"
  by (auto simp: task_tick_yat_casched_def Let_def)

text \<open>No operation renumbers a run queue or changes the number of CPUs.\<close>

lemma yat_ops_geometry [frame]:
  "k_NR_CPUS (enqueue_task_yat_casched c p f k) = k_NR_CPUS k"
  "k_NR_CPUS (dequeue_task_yat_casched c p f k) = k_NR_CPUS k"
  "k_NR_CPUS (update_curr_yat_casched c k) = k_NR_CPUS k"
  "k_NR_CPUS (set_next_task_yat_casched c p b k) = k_NR_CPUS k"
  "k_NR_CPUS (task_tick_yat_casched c p b k) = k_NR_CPUS k"
  "k_NR_CPUS (snd (select_task_rq_yat_casched p c f k)) = k_NR_CPUS k"
  "rq_cpu (k_rqs (enqueue_task_yat_casched c p f k) d) = rq_cpu (k_rqs k d)"
  "rq_cpu (k_rqs (dequeue_task_yat_casched c p f k) d) = rq_cpu (k_rqs k d)"
  "rq_cpu (k_rqs (set_next_task_yat_casched c p b k) d) = rq_cpu (k_rqs k d)"
  "rq_cpu (k_rqs (task_tick_yat_casched c p b k) d) = rq_cpu (k_rqs k d)"
  "rq_cpu (k_rqs (snd (select_task_rq_yat_casched p c f k)) d) = rq_cpu (k_rqs k d)"
  "rq_cpu (k_rqs (snd (pick_next_task_yat_casched c k)) d) = rq_cpu (k_rqs k d)"
  by (simp_all add: enqueue_task_yat_casched_def yat_list_add_tail_def Let_def
      dequeue_task_yat_casched_def yat_list_del_init_def update_curr_yat_casched_def
      set_next_task_yat_casched_def task_tick_yat_casched_def select_task_rq_yat_casched_def
      pick_next_task_yat_casched_def split: option.split list.split)

lemma yat_ops_affinity [frame]:
  "k_online (enqueue_task_yat_casched c p f k) = k_online k"
  "k_online (dequeue_task_yat_casched c p f k) = k_online k"
  "k_online (put_prev_task_yat_casched c p k) = k_online k"
  "t_cpus_mask (k_tasks (enqueue_task_yat_casched c p f k) q) = t_cpus_mask (k_tasks k q)"
  "t_cpus_mask (k_tasks (dequeue_task_yat_casched c p f k) q) = t_cpus_mask (k_tasks k q)"
  "t_cpus_mask (k_tasks (put_prev_task_yat_casched c p k) q) = t_cpus_mask (k_tasks k q)"
  by (simp_all add: enqueue_task_yat_casched_def yat_list_add_tail_def Let_def
      dequeue_task_yat_casched_def yat_list_del_init_def update_curr_yat_casched_def
      put_prev_task_yat_casched_def split: option.split)

text \<open>Which operations write \<open>last_cpu\<close>: an enqueue of the task, a pick, a first select.\<close>

lemma yat_last_cpu_frame [frame]:
  "q \<noteq> p \<Longrightarrow> yse_last_cpu (yat_se (enqueue_task_yat_casched c p f k) q) = yse_last_cpu (yat_se k q)"
  "yse_last_cpu (yat_se (dequeue_task_yat_casched c p f k) q) = yse_last_cpu (yat_se k q)"
  "yse_last_cpu (yat_se k p) \<noteq> -1 \<Longrightarrow> yse_last_cpu (yat_se k p) < k_NR_CPUS k \<Longrightarrow>
    snd (select_task_rq_yat_casched p c f k) = k"
  "q \<noteq> p \<Longrightarrow> yse_last_cpu (yat_se (snd (select_task_rq_yat_casched p c f k)) q) =
    yse_last_cpu (yat_se k q)"
  "q \<notin> set (yrq_tasks (yat_rq k c)) \<Longrightarrow>
    yse_last_cpu (yat_se (snd (pick_next_task_yat_casched c k)) q) = yse_last_cpu (yat_se k q)"
  by (auto simp: enqueue_task_yat_casched_def yat_list_add_tail_def Let_def
      dequeue_task_yat_casched_def yat_list_del_init_def select_task_rq_yat_casched_def
      pick_next_task_yat_casched_def split: option.split list.split)

lemma enqueue_yat_resets:
  "yse_run_list (yat_se k p) = None \<Longrightarrow>
     yat_se (enqueue_task_yat_casched c p f k) p =
       (yat_se k p)\<lparr>yse_run_list := Some c, yse_vruntime := 0, yse_last_cpu := -1\<rparr>"
  by (simp add: enqueue_task_yat_casched_def yat_list_add_tail_def Let_def)

lemma pick_yat_remembers:
  "fst (pick_next_task_yat_casched c k) = Some p \<Longrightarrow> 0 \<le> rq_cpu (k_rqs k c) \<Longrightarrow>
   rq_cpu (k_rqs k c) < k_NR_CPUS k \<Longrightarrow>
     yse_last_cpu (yat_se (snd (pick_next_task_yat_casched c k)) p) = rq_cpu (k_rqs k c) \<and>
     yrq_cpu_history (yat_rq (snd (pick_next_task_yat_casched c k)) c) (rq_cpu (k_rqs k c)) = Some p"
  by (auto simp: pick_next_task_yat_casched_def Let_def split: list.splits if_splits)

end
