(* ===== verification/Sample.thy ===== *)
theory Sample
  imports State
begin

text \<open>
  A concrete machine for the witnesses: four CPUs (0 to 3), all online; a task number
  from 0 to 3 is the idle task of that CPU, any other task is a normal task on CPU 0.
\<close>

definition sample_uclamp_se :: uclamp_se where
  "sample_uclamp_se = \<lparr>uc_value = 0, uc_bucket_id = 0, uc_active = False, uc_user_defined = False\<rparr>"

definition sample_task :: "tid \<Rightarrow> task_struct" where
  "sample_task p =
     \<lparr>t_state = 0, t_saved_state = 0, t_flags = (if p < 4 then 2 else 0), t_on_cpu = (p < 4),
      t_wake_cpu = 0, t_recent_used_cpu = 0, t_on_rq = (if p < 4 then 1 else 0),
      t_prio = (if p < 4 then 140 else 120), t_static_prio = (if p < 4 then 140 else 120),
      t_normal_prio = (if p < 4 then 140 else 120), t_rt_priority = 0,
      t_se = \<lparr>se_load = \<lparr>lw_weight = 1024, lw_inv_weight = 4194304\<rparr>, se_on_rq = 0,
              se_exec_start = 0, se_sum_exec_runtime = 0, se_prev_sum_exec_runtime = 0,
              se_vruntime = 0, se_vlag = 0, se_slice = 0, se_nr_migrations = 0\<rparr>,
      t_rt = \<lparr>rt_timeout = 0, rt_time_slice = 100, rt_on_rq = 0, rt_on_list = 0\<rparr>,
      t_dl = \<lparr>dl_runtime = 0, dl_deadline = 0, dl_period = 0, dl_flags = 0,
              dl_abs_deadline = 0, dl_pi_se = p\<rparr>,
      t_yat_casched = \<lparr>yse_run_list = None, yse_vruntime = 0, yse_slice = 0, yse_last_cpu = -1\<rparr>,
      t_sched_class = (if p < 4 then idle_sched_class else fair_sched_class),
      t_core_node = False, t_core_cookie = 0, t_core_occupation = 0, t_sched_task_group = 0,
      t_uclamp_req = (\<lambda>_. sample_uclamp_se), t_uclamp = (\<lambda>_. sample_uclamp_se),
      t_policy = SCHED_NORMAL, t_nr_cpus_allowed = 4, t_cpus_ptr = None, t_user_cpus_ptr = None,
      t_cpus_mask = {0, 1, 2, 3}, t_migration_disabled = 0, t_migration_flags = 0,
      t_exit_state = 0, t_sched_reset_on_fork = False, t_sched_contributes_to_load = False,
      t_sched_remote_wakeup = False, t_in_iowait = False, t_atomic_flags = 0, t_nvcsw = 0,
      t_nivcsw = 0, t_stats = \<lparr>ss_nr_wakeups = 0, ss_nr_wakeups_sync = 0, ss_nr_wakeups_migrate = 0,
        ss_nr_wakeups_local = 0, ss_nr_wakeups_remote = 0\<rparr>, t_dl_server = False,
      t_migration_pending = None, t_wake_q = False, t_numa_preferred_nid = -1,
      t_pi_top_task = None, t_ti_flags = 0, t_ti_cpu = (if p < 4 then int p else 0)\<rparr>"

definition sample_rq :: "cpu \<Rightarrow> rq" where
  "sample_rq c =
     \<lparr>rq_cpu = c, rq_nr_running = 0, rq_nr_uninterruptible = 0, rq_nr_iowait = 0,
      rq_curr = nat c, rq_idle = nat c, rq_stop = None, rq_clock = 0, rq_clock_task = 0,
      rq_prev_irq_time = 0, rq_prev_steal_time = 0, rq_clock_update_flags = 0,
      rq_uclamp = (\<lambda>_. \<lparr>ucrq_value = 0, ucrq_bucket = (\<lambda>_. \<lparr>ub_value = 0, ub_tasks = 0\<rparr>)\<rparr>),
      rq_uclamp_flags = 1,
      rq_yat_casched = \<lparr>yrq_tasks = [], yrq_nr_running = 0, yrq_agent = None,
        yrq_cache_decay_jiffies = 0, yrq_cpu_history = (\<lambda>_. None)\<rparr>,
      rq_core = c, rq_core_enabled = False, rq_core_tree = [], rq_core_task_seq = 0,
      rq_core_forceidle_count = 0, rq_core_forceidle_start = 0, rq_core_forceidle_seq = 0,
      rq_core_forceidle_occupation = 0, rq_core_cookie = 0, rq_core_pick = None,
      rq_core_pick_seq = 0, rq_core_sched_seq = 0, rq_balance_callback = [], rq_nr_pinned = 0,
      rq_hrtick_time = 0, rq_hrtick_timer = None, rq_hrtick_csd = False, rq_idle_balance = False,
      rq_nohz_idle_balance = 0, rq_nohz_flags = 0, rq_dl_nr_running = 0, rq_rr_nr_running = 0,
      rq_rt_nr_running = 0, rq_ttwu_pending = False, rq_cfs_h_nr_running = 0,
      rq_idle_stamp = 0, rq_avg_idle = 0, rq_max_idle_balance_cost = 500000, rq_nr_switches = 0,
      rq_push_busy = False, rq_ttwu_count = 0, rq_ttwu_local = 0, rq_sched_count = 0, rq_yld_count = 0,
      rq_last_seen_need_resched_ns = 0, rq_ticks_without_resched = 0,
      rq_domains = [\<lparr>sd_span = {0, 1, 2, 3}, sd_ttwu_wake_remote = 0\<rparr>], rq_wake_list = [],
      rq_online = True, rq_rd = Some 0, rq_hotplug_wait = False, rq_calc_load_active = 0,
      rq_calc_load_update = 0, rq_next_balance = 0, rq_active_balance = 0, rq_push_cpu = 0,
      rq_cpu_capacity = 1024, rq_last_blocked_load_update_tick = 0\<rparr>"

definition sample_tg :: task_group where
  "sample_tg =
     \<lparr>tg_parent = None, tg_children = [], tg_autogroup = False, tg_shares = 1024,
      tg_uclamp_req = (\<lambda>_. sample_uclamp_se), tg_uclamp = (\<lambda>_. sample_uclamp_se),
      tg_uclamp_pct = (\<lambda>_. 0),
      tg_cfs_bandwidth = \<lparr>cb_period = 100000000, cb_quota = RUNTIME_INF, cb_burst = 0,
        cb_hierarchical_quota = RUNTIME_INF\<rparr>\<rparr>"

definition sample_kernel :: kernel where
  "sample_kernel =
     \<lparr>k_tasks = sample_task, k_rqs = sample_rq, k_tgs = (\<lambda>_. sample_tg), k_root_tg = 0,
      k_jiffies = 0, k_tg_depth = 3, k_current = 0, k_this_cpu = 0, k_NR_CPUS = 64, k_nr_cpu_ids = 4,
      k_HZ = 1000, k_uclamp_buckets = 5, k_online = {0, 1, 2, 3}, k_active = {0, 1, 2, 3},
      k_possible = {0, 1, 2, 3}, k_ipis = [], k_sched_uclamp_used = False,
      k_uclamp_default = (\<lambda>_. sample_uclamp_se), k_sysctl_uclamp_util_min = 1024,
      k_sysctl_uclamp_util_max = 1024, k_sysctl_uclamp_util_min_rt_default = 1024,
      k_sched_core_count = 0, k_sched_core_enabled = False, k_sched_core_put_pending = False,
      k_preempt_need_resched = False, k_list_corrupted = False, k_schedstat_enabled = True,
      k_pendings = (\<lambda>_. \<lparr>sap_refs = 0, sap_stop_pending = False, sap_done = False, sap_task = 0,
        sap_dest_cpu = 0\<rparr>), k_next_pending = 0, k_stop_works = [],
      k_sysctl_sched_base_slice = 3000000, k_sched_rr_timeslice = 100,
      k_sysctl_resched_latency_warn_ms = 100, k_sysctl_resched_latency_warn_once = True,
      k_resched_latency_warned = False, k_system_booting = False,
      k_cfs_rqs = (\<lambda>_ _. \<lparr>cr_runtime_enabled = False, cr_runtime_remaining = 0, cr_throttled = False\<rparr>),
      k_rd_online = (\<lambda>_. {0, 1, 2, 3}), k_sched_smt_present = 0, k_sched_smp_initialized = True,
      k_cpuhp_tasks_frozen = False, k_num_cpus_frozen = 0, k_calc_load_tasks = 0, k_calc_load_update = 0,
      k_task_groups = [0], k_scheduler_running = True, k_undefined = False\<rparr>"

lemmas sample_defs = sample_kernel_def sample_task_def sample_rq_def sample_tg_def
  sample_uclamp_se_def

lemma sample_kernel_sel [simp]:
  "k_tasks sample_kernel = sample_task" "k_rqs sample_kernel = sample_rq"
  "k_NR_CPUS sample_kernel = 64" "k_nr_cpu_ids sample_kernel = 4" "k_HZ sample_kernel = 1000"
  "k_online sample_kernel = {0, 1, 2, 3}" "k_this_cpu sample_kernel = 0"
  "\<not> k_list_corrupted sample_kernel"
  by (simp_all add: sample_kernel_def)

end
