(* ===== verification/Yat_Correct.thy ===== *)
theory Yat_Correct
  imports Yat_Lemmas Sample
begin

text \<open>
  What the yat class guarantees: its queues stay well formed along every sequence of
  class operations, they are served in arrival order (an interpretation of
  \<open>fifo_queue\<close>), the head of a queue keeps being picked until it is dequeued, a task is
  sent back to the CPU it last ran on, and the time slice test of the tick never fires.
\<close>

section \<open>Sequences of class operations\<close>

text \<open>Task numbers stay below the kernel's limit (\<open>include/linux/threads.h\<close>).\<close>

definition PID_MAX_LIMIT :: nat where "PID_MAX_LIMIT = 4 * 1024 * 1024"

datatype yat_op =
  Y_enqueue cpu tid | Y_dequeue cpu tid | Y_pick cpu | Y_set_next cpu tid
| Y_put_prev cpu tid | Y_tick cpu tid | Y_wakeup_preempt cpu tid | Y_select tid cpu
| Y_yield cpu | Y_update_curr cpu | Y_env

text \<open>
  The scheduler core enqueues only tasks that are on no queue and dequeues a task from
  the queue it is on.  \<open>Y_env\<close> is any step of the rest of the kernel (clock updates,
  context switches, policy changes): it leaves the class's own data and the execution
  times of tasks alone.
\<close>

inductive yat_step :: "kernel \<Rightarrow> yat_op \<Rightarrow> kernel \<Rightarrow> bool" where
  enqueue: "yse_run_list (yat_se k p) = None \<Longrightarrow> p < PID_MAX_LIMIT \<Longrightarrow>
    yat_step k (Y_enqueue c p) (enqueue_task_yat_casched c p f k)"
| dequeue: "yse_run_list (yat_se k p) = Some c \<Longrightarrow>
    yat_step k (Y_dequeue c p) (dequeue_task_yat_casched c p f k)"
| pick: "yat_step k (Y_pick c) (snd (pick_next_task_yat_casched c k))"
| set_next: "yat_step k (Y_set_next c p) (set_next_task_yat_casched c p b k)"
| put_prev: "yat_step k (Y_put_prev c p) (put_prev_task_yat_casched c p k)"
| tick: "yat_step k (Y_tick c p) (task_tick_yat_casched c p b k)"
| wakeup_preempt: "yat_step k (Y_wakeup_preempt c p) (wakeup_preempt_yat_casched c p f k)"
| select: "yat_step k (Y_select p c) (snd (select_task_rq_yat_casched p c f k))"
| yield: "yat_step k (Y_yield c) (yield_task_yat_casched c k)"
| update_curr: "yat_step k (Y_update_curr c) (update_curr_yat_casched c k)"
| env: "yat_rq k' = yat_rq k \<Longrightarrow> yat_se k' = yat_se k \<Longrightarrow>
    k_list_corrupted k' = k_list_corrupted k \<Longrightarrow> k_HZ k' = k_HZ k \<Longrightarrow>
    k_NR_CPUS k' = k_NR_CPUS k \<Longrightarrow> (\<And>c. rq_cpu (k_rqs k' c) = rq_cpu (k_rqs k c)) \<Longrightarrow>
    (\<And>p. se_sum_exec_runtime (t_se (k_tasks k' p)) = se_sum_exec_runtime (t_se (k_tasks k p)) \<and>
      se_prev_sum_exec_runtime (t_se (k_tasks k' p)) =
      se_prev_sum_exec_runtime (t_se (k_tasks k p))) \<Longrightarrow>
    yat_step k Y_env k'"

inductive_cases yat_step_enqueueE: "yat_step k (Y_enqueue c p) k'"
inductive_cases yat_step_dequeueE: "yat_step k (Y_dequeue c p) k'"

inductive yat_path :: "kernel \<Rightarrow> yat_op list \<Rightarrow> kernel \<Rightarrow> bool" where
  nil: "yat_path k [] k"
| snoc: "yat_path k ops k' \<Longrightarrow> yat_step k' op k'' \<Longrightarrow> yat_path k (ops @ [op]) k''"

text \<open>The invariant with the bound that keeps the 32-bit counter from wrapping.\<close>

definition yat_inv :: "kernel \<Rightarrow> bool" where
  "yat_inv k \<longleftrightarrow> yat_wf k \<and> (\<forall>c. set (yrq_tasks (yat_rq k c)) \<subseteq> {..<PID_MAX_LIMIT})"

lemma yat_inv_length:
  assumes "yat_inv k"
  shows "length (yrq_tasks (yat_rq k c)) < 2 ^ 32 - 1"
proof -
  have "length (yrq_tasks (yat_rq k c)) = card (set (yrq_tasks (yat_rq k c)))"
    using assms yat_wfD(2) by (auto simp: yat_inv_def distinct_card)
  also have "\<dots> \<le> card {..<PID_MAX_LIMIT}"
    using assms by (intro card_mono) (auto simp: yat_inv_def)
  finally show ?thesis by (simp add: PID_MAX_LIMIT_def)
qed

lemma yat_step_inv:
  assumes "yat_step k op k'" "yat_inv k"
  shows "yat_inv k'"
  using assms
proof (induction rule: yat_step.induct)
  case (enqueue k p c f)
  then have "yat_wf (enqueue_task_yat_casched c p f k)"
    by (intro enqueue_yat_wf yat_inv_length) (simp_all add: yat_inv_def)
  then show ?case using enqueue by (auto simp: yat_inv_def)
next
  case (dequeue k p c f)
  then show ?case
    by (auto simp: yat_inv_def dequeue_yat_wf dequeue_yat_linked [OF dequeue.hyps]
        dest: notin_set_remove1 split: if_splits)
qed (auto simp: yat_inv_def put_prev_task_yat_casched_def wakeup_preempt_yat_casched_def
      yield_task_yat_casched_def elim!: yat_wf_cong)

lemma yat_path_inv: "yat_path k ops k' \<Longrightarrow> yat_inv k \<Longrightarrow> yat_inv k'"
  by (induction rule: yat_path.induct) (auto intro: yat_step_inv)

section \<open>The queues stay well formed\<close>

lemma yat_sample [simp]:
  "yrq_tasks (yat_rq sample_kernel c) = []" "yrq_nr_running (yat_rq sample_kernel c) = 0"
  "yse_run_list (yat_se sample_kernel p) = None" "yse_last_cpu (yat_se sample_kernel p) = -1"
  by (simp_all add: yat_rq_def yat_se_def sample_defs del: yat_se_fold)

lemma yat_inv_sample: "yat_inv sample_kernel"
  by (auto simp: yat_inv_def yat_wf_def)

text \<open>
  C1: Along every sequence of class operations from a state whose queues are in order, no
  list is corrupted, each list holds exactly the tasks linked on it, once each, and
  \<open>nr_running\<close> is its length (the counter never wraps).
\<close>

theorem yat_queues_invariant:
  assumes "yat_inv k" "yat_path k ops k'"
  shows "\<not> k_list_corrupted k' \<and> distinct (yrq_tasks (yat_rq k' c)) \<and>
    unat (yrq_nr_running (yat_rq k' c)) = length (yrq_tasks (yat_rq k' c)) \<and>
    (p \<in> set (yrq_tasks (yat_rq k' c)) \<longleftrightarrow> yse_run_list (yat_se k' p) = Some c)"
  using yat_path_inv [OF assms(2,1)] by (auto simp: yat_inv_def yat_wf_def)

definition sample_path_end :: kernel where
  "sample_path_end = snd (pick_next_task_yat_casched 1
     (enqueue_task_yat_casched 1 11 0 (enqueue_task_yat_casched 1 10 0 sample_kernel)))"

lemma sample_path:
  "yat_path sample_kernel [Y_enqueue 1 10, Y_enqueue 1 11, Y_pick 1] sample_path_end"
proof -
  let ?k1 = "enqueue_task_yat_casched 1 10 0 sample_kernel"
  have "yat_path sample_kernel ([] @ [Y_enqueue 1 10]) ?k1"
    by (rule yat_path.snoc [OF yat_path.nil yat_step.enqueue])
      (simp_all add: PID_MAX_LIMIT_def)
  then have "yat_path sample_kernel (([] @ [Y_enqueue 1 10]) @ [Y_enqueue 1 11])
      (enqueue_task_yat_casched 1 11 0 ?k1)"
    by (rule yat_path.snoc [OF _ yat_step.enqueue])
      (simp_all add: PID_MAX_LIMIT_def)
  then show ?thesis
    using yat_path.snoc [OF _ yat_step.pick] by (fastforce simp: sample_path_end_def)
qed

theorem yat_queues_invariant_witness:
  "\<not> k_list_corrupted sample_path_end \<and> distinct (yrq_tasks (yat_rq sample_path_end 1)) \<and>
    unat (yrq_nr_running (yat_rq sample_path_end 1)) = length (yrq_tasks (yat_rq sample_path_end 1)) \<and>
    (10 \<in> set (yrq_tasks (yat_rq sample_path_end 1)) \<longleftrightarrow>
     yse_run_list (yat_se sample_path_end 10) = Some 1)"
  by (rule yat_queues_invariant [OF yat_inv_sample sample_path])

section \<open>Service in arrival order\<close>

interpretation yatq: fifo_queue yat_wf "\<lambda>k. yrq_tasks (yat_rq k c)" "2 ^ 32 - 1"
  "\<lambda>p. enqueue_task_yat_casched c p f" "\<lambda>p. dequeue_task_yat_casched c p f"
  "pick_next_task_yat_casched c" "\<lambda>p k. yse_run_list (yat_se k p) = None" for c f
proof
  fix s x
  assume "yat_wf s" and x: "x \<in> set (yrq_tasks (yat_rq s c))"
  then have l: "yse_run_list (yat_se s x) = Some c" using yat_wfD(4) by blast
  show "yat_wf (dequeue_task_yat_casched c x f s)" by (rule dequeue_yat_wf [OF \<open>yat_wf s\<close> l])
  show "yrq_tasks (yat_rq (dequeue_task_yat_casched c x f s) c) = remove1 x (yrq_tasks (yat_rq s c))"
    by (simp add: dequeue_yat_linked [OF l])
qed (auto simp: enqueue_yat_wf pick_next_yat_result elim: yat_wf_cong)

text \<open>
  C3: Tasks enqueued on an empty yat queue are picked and dequeued in exactly the order in
  which they were enqueued, all of them.
\<close>

theorem yat_fifo_order:
  assumes "yat_wf k" "yrq_tasks (yat_rq k c) = []" "distinct ps"
    and "\<And>p. p \<in> set ps \<Longrightarrow> yse_run_list (yat_se k p) = None" "length ps \<le> 2 ^ 32 - 1"
  shows "drain (pick_next_task_yat_casched c) (\<lambda>p. dequeue_task_yat_casched c p f) (length ps)
           (fold (\<lambda>p. enqueue_task_yat_casched c p f) ps k) = ps"
  by (rule yatq.fifo_order) (use assms in auto)

theorem yat_fifo_order_witness:
  "drain (pick_next_task_yat_casched 2) (\<lambda>p. dequeue_task_yat_casched 2 p 0) (length [12, 10, 11 :: tid])
     (fold (\<lambda>p. enqueue_task_yat_casched 2 p 0) [12, 10, 11] sample_kernel) = [12, 10, 11]"
  by (rule yat_fifo_order)
    (use yat_inv_sample in \<open>auto simp: yat_inv_def\<close>)

section \<open>The head of the queue keeps the CPU\<close>

lemma yat_step_head:
  assumes "yat_step k op k'" "yat_inv k" "yrq_tasks (yat_rq k c) = p # xs" "op \<noteq> Y_dequeue c p"
  shows "\<exists>ys. yrq_tasks (yat_rq k' c) = p # ys"
  using assms
proof (induction rule: yat_step.induct)
  case (dequeue k q d f)
  then show ?case
    using yat_wfD(4) [of k q c] by (auto simp: dequeue_yat_linked [OF dequeue.hyps])
qed (auto simp: put_prev_task_yat_casched_def wakeup_preempt_yat_casched_def
      yield_task_yat_casched_def)

lemma yat_path_head:
  assumes "yat_path k ops k'" "yat_inv k" "\<exists>xs. yrq_tasks (yat_rq k c) = p # xs"
    "Y_dequeue c p \<notin> set ops"
  shows "\<exists>xs. yrq_tasks (yat_rq k' c) = p # xs"
  using assms
proof (induction rule: yat_path.induct)
  case (snoc k ops k' op k'')
  then obtain xs where "yrq_tasks (yat_rq k' c) = p # xs" by auto
  then show ?case
    using yat_step_head [OF snoc.hyps(2)] yat_path_inv [OF snoc.hyps(1)] snoc.prems by auto
qed simp

text \<open>
  C19: No operation of the class moves the head of a queue: whatever ticks, yields,
  put_prev calls, wakeups, enqueues and dequeues of other tasks happen, as long as the head
  is not itself dequeued, \<open>pick_next_task\<close> returns it again; the other tasks of that
  queue do not run.
\<close>

theorem yat_head_runs_until_dequeued:
  assumes "yat_inv k" "yrq_tasks (yat_rq k c) = p # xs" "yat_path k ops k'"
    and "Y_dequeue c p \<notin> set ops"
  shows "fst (pick_next_task_yat_casched c k') = Some p"
proof -
  obtain ys where "yrq_tasks (yat_rq k' c) = p # ys"
    using yat_path_head [OF assms(3,1) _ assms(4)] assms(2) by auto
  then show ?thesis
    using yat_path_inv [OF assms(3,1)] by (simp add: pick_next_yat_result yat_inv_def)
qed

lemma sample_queue: "yrq_tasks (yat_rq sample_path_end 1) = [10, 11]"
  by (simp add: sample_path_end_def)

theorem yat_head_runs_until_dequeued_witness:
  "fst (pick_next_task_yat_casched 1
     (yield_task_yat_casched 1 (dequeue_task_yat_casched 1 11 0 sample_path_end))) = Some 10"
proof (rule yat_head_runs_until_dequeued)
  show "yat_inv sample_path_end" by (rule yat_path_inv [OF sample_path yat_inv_sample])
  then have "yse_run_list (yat_se sample_path_end 11) = Some 1"
    using yat_wfD(4) [of sample_path_end 11 1] by (simp add: yat_inv_def sample_queue)
  then show "yat_path sample_path_end (([] @ [Y_dequeue 1 11]) @ [Y_yield 1])
      (yield_task_yat_casched 1 (dequeue_task_yat_casched 1 11 0 sample_path_end))"
    by (intro yat_path.snoc [OF yat_path.snoc [OF yat_path.nil yat_step.dequeue] yat_step.yield])
qed (simp_all add: sample_queue)

section \<open>Choosing a CPU\<close>

definition yat_load :: "kernel \<Rightarrow> cpu \<Rightarrow> nat" where
  "yat_load k c = unat (yrq_nr_running (yat_rq k c))"

lemma unat_ucast_u32 [simp]: "unat (ucast (a :: u32) :: u64) = unat a"
  using unsigned_less [of a, where 'a = nat]
  by (simp add: unsigned_ucast_eq take_bit_nat_eq_self)

lemma ucast_load_less:
  "(ucast (a :: u32) :: u64) < ucast (b :: u32) \<longleftrightarrow> unat a < unat b"
  "(ucast a :: u64) < ULONG_MAX"
  using unsigned_less [of a, where 'a = nat]
  by (simp_all add: word_less_nat_alt ULONG_MAX_def)

lemma least_loaded_found:
  assumes "sorted (b # cs)" "distinct (b # cs)" "m = ucast (yrq_nr_running (yat_rq k b))"
    and "cpu_online k b"
  shows "snd (least_loaded k cs (m, b)) \<in> {c \<in> set (b # cs). cpu_online k c} \<and>
    (\<forall>c \<in> set (b # cs). cpu_online k c \<longrightarrow>
       yat_load k (snd (least_loaded k cs (m, b))) \<le> yat_load k c \<and>
       (c < snd (least_loaded k cs (m, b)) \<longrightarrow>
        yat_load k (snd (least_loaded k cs (m, b))) < yat_load k c))"
  using assms
proof (induction cs arbitrary: b m)
  case (Cons c cs)
  show ?case
  proof (cases "cpu_online k c \<and> yat_load k c < yat_load k b")
    case True
    then have "least_loaded k (c # cs) (m, b) =
        least_loaded k cs (ucast (yrq_nr_running (yat_rq k c)), c)"
      using Cons.prems by (simp add: ucast_load_less yat_load_def)
    then show ?thesis
      using Cons.IH [OF _ _ refl, of c] Cons.prems True by force
  next
    case False
    then have *: "least_loaded k (c # cs) (m, b) = least_loaded k cs (m, b)"
      using Cons.prems by (auto simp: ucast_load_less yat_load_def)
    then show ?thesis
      using Cons.IH [OF _ _ Cons.prems(3,4)] Cons.prems False by force
  qed
qed simp

lemma least_loaded_spec:
  assumes "sorted cs" "distinct cs" "\<exists>c \<in> set cs. cpu_online k c"
    and "r = snd (least_loaded k cs (ULONG_MAX, d))"
  shows "r \<in> set cs \<and> cpu_online k r \<and> (\<forall>c \<in> set cs. cpu_online k c \<longrightarrow>
    yat_load k r \<le> yat_load k c \<and> (c < r \<longrightarrow> yat_load k r < yat_load k c))"
  using assms(1-3) unfolding assms(4)
proof (induction cs)
  case (Cons c cs)
  show ?case
  proof (cases "cpu_online k c")
    case True
    then show ?thesis
      using least_loaded_found [OF Cons.prems(1,2) refl True] by (auto simp: ucast_load_less)
  next
    case False
    then show ?thesis using Cons by auto
  qed
qed simp

lemma least_loaded_none:
  "\<forall>c \<in> set cs. \<not> cpu_online k c \<Longrightarrow> least_loaded k cs (m, d) = (m, d)"
  by (induction cs) auto

lemma for_each_cpu_sorted [simp]: "sorted (for_each_cpu k m)" "distinct (for_each_cpu k m)"
  by (simp_all add: for_each_cpu_def sorted_wrt_filter)

text \<open>
  When the task's last CPU is known but offline or no longer allowed, and some allowed
  CPU is online, the chosen CPU is online and allowed, carries the least number of yat
  tasks among those CPUs, and is the lowest-numbered one that does.
\<close>

theorem yat_select_least_loaded:
  assumes "yse_last_cpu (yat_se k p) \<noteq> -1" "yse_last_cpu (yat_se k p) < k_NR_CPUS k"
    and "\<not> cpu_online k (yse_last_cpu (yat_se k p)) \<or>
         yse_last_cpu (yat_se k p) \<notin> t_cpus_mask (k_tasks k p)"
    and "\<exists>c \<in> set (for_each_cpu k (t_cpus_mask (k_tasks k p))). cpu_online k c"
    and "r = fst (select_task_rq_yat_casched p prev f k)"
  shows "r \<in> t_cpus_mask (k_tasks k p) \<and> cpu_online k r \<and>
    (\<forall>c \<in> set (for_each_cpu k (t_cpus_mask (k_tasks k p))). cpu_online k c \<longrightarrow>
       yat_load k r \<le> yat_load k c \<and> (c < r \<longrightarrow> yat_load k r < yat_load k c))"
proof -
  have "r = snd (least_loaded k (for_each_cpu k (t_cpus_mask (k_tasks k p))) (ULONG_MAX, prev))"
    using assms(1,2,3) unfolding assms(5) by (auto simp: select_task_rq_yat_casched_def Let_def)
  from least_loaded_spec [OF for_each_cpu_sorted assms(4) this] show ?thesis by simp
qed

definition sample_moved :: kernel where
  "sample_moved = (upd_yat_se 20 (\<lambda>e. e\<lparr>yse_last_cpu := 5\<rparr>)
     (enqueue_task_yat_casched 0 10 0 sample_kernel))"

lemma sample_moved_sel [simp]:
  "yse_last_cpu (yat_se sample_moved 20) = 5" "k_NR_CPUS sample_moved = 64"
  "k_online sample_moved = {0, 1, 2, 3}" "t_cpus_mask (k_tasks sample_moved 20) = {0, 1, 2, 3}"
  "k_nr_cpu_ids sample_moved = 4"
  by (simp_all add: sample_moved_def enqueue_task_yat_casched_def yat_list_add_tail_def
      upd_yat_rq_def upd_yat_se_def sample_task_def Let_def)

theorem yat_select_least_loaded_witness:
  "fst (select_task_rq_yat_casched 20 0 0 sample_moved) \<in> {0, 1, 2, 3} \<and>
   yat_load sample_moved (fst (select_task_rq_yat_casched 20 0 0 sample_moved)) \<le> yat_load sample_moved 3"
proof -
  have "\<exists>c \<in> set (for_each_cpu sample_moved (t_cpus_mask (k_tasks sample_moved 20))). cpu_online sample_moved c"
    by (rule bexI [of _ 0]) (simp_all add: cpu_online_def)
  from yat_select_least_loaded [of sample_moved 20, OF _ _ _ this refl, of 0 0]
  show ?thesis by (simp add: cpu_online_def)
qed

text \<open>
  After a pick on CPU \<open>c\<close> the class remembers \<open>c\<close> until the task is enqueued again:
  the facts that hold along the way.
\<close>

definition yat_remembers :: "tid \<Rightarrow> cpu \<Rightarrow> kernel \<Rightarrow> bool" where
  "yat_remembers p c k \<longleftrightarrow> yat_inv k \<and> yse_last_cpu (yat_se k p) = c \<and>
     yse_run_list (yat_se k p) \<in> {None, Some c} \<and> rq_cpu (k_rqs k c) = c \<and>
     0 \<le> c \<and> c < k_NR_CPUS k"

lemma yat_step_remembers:
  assumes "yat_step k op k'" "yat_remembers p c k" "\<forall>d. op \<noteq> Y_enqueue d p"
  shows "yat_remembers p c k'"
proof -
  have "yat_inv k'" using yat_step_inv assms(1,2) by (auto simp: yat_remembers_def)
  from assms this show ?thesis
  proof (induction rule: yat_step.induct)
    case (pick k d)
    then have "p \<in> set (yrq_tasks (yat_rq k d)) \<Longrightarrow> d = c"
      using yat_wfD(4) [of k p] by (auto simp: yat_remembers_def yat_inv_def)
    then show ?case
      using pick
      by (auto simp: yat_remembers_def frame pick_next_task_yat_casched_def Let_def
          split: list.splits)
  next
    case (select k q d f)
    then show ?case by (cases "q = p") (auto simp: yat_remembers_def frame)
  qed (auto simp: yat_remembers_def frame put_prev_task_yat_casched_def
        wakeup_preempt_yat_casched_def yield_task_yat_casched_def dequeue_yat_linked)
qed

lemma yat_path_remembers:
  assumes "yat_path k ops k'" "yat_remembers p c k" "\<forall>d. Y_enqueue d p \<notin> set ops"
  shows "yat_remembers p c k'"
  using assms by (induction rule: yat_path.induct) (auto intro: yat_step_remembers)

text \<open>
  C16: Cache affinity.  When \<open>pick_next_task\<close> on CPU \<open>c\<close> returned \<open>p\<close>, then after
  any operations that do not enqueue \<open>p\<close> (so also after it went to sleep, however long
  ago and however loaded \<open>c\<close> is), \<open>select_task_rq\<close> sends \<open>p\<close> back to \<open>c\<close>, as long as
  \<open>c\<close> is online and allowed, and changes nothing.
\<close>

theorem yat_affinity:
  assumes "yat_inv k" "fst (pick_next_task_yat_casched c k) = Some p"
    and "rq_cpu (k_rqs k c) = c" "0 \<le> c" "c < k_NR_CPUS k"
    and "yat_path (snd (pick_next_task_yat_casched c k)) ops k'" "\<forall>d. Y_enqueue d p \<notin> set ops"
    and "cpu_online k' c" "c \<in> t_cpus_mask (k_tasks k' p)"
  shows "select_task_rq_yat_casched p prev f k' = (c, k')"
proof -
  let ?k = "snd (pick_next_task_yat_casched c k)"
  have "yat_inv ?k" by (rule yat_step_inv [OF yat_step.pick assms(1)])
  moreover have "p \<in> set (yrq_tasks (yat_rq k c))"
    using assms(1,2) by (simp add: pick_next_yat_result yat_inv_def split: list.splits)
  then have "yse_run_list (yat_se k p) = Some c"
    using yat_wfD(4) [of k p c] assms(1) by (simp add: yat_inv_def)
  ultimately have "yat_remembers p c ?k"
    using pick_yat_remembers [OF assms(2)] assms(3-5) by (simp add: yat_remembers_def frame)
  from yat_path_remembers [OF assms(6) this assms(7)] show ?thesis
    using assms(8,9) by (simp add: yat_remembers_def select_task_rq_yat_casched_def)
qed

definition sample_slept :: kernel where
  "sample_slept = dequeue_task_yat_casched 1 10 1 (put_prev_task_yat_casched 1 10
     (snd (pick_next_task_yat_casched 1 sample_path_end)))"

theorem yat_affinity_witness: "select_task_rq_yat_casched 10 0 0 sample_slept = (1, sample_slept)"
proof (rule yat_affinity)
  show inv: "yat_inv sample_path_end" by (rule yat_path_inv [OF sample_path yat_inv_sample])
  have l: "yse_run_list (yat_se sample_path_end 10) = Some 1"
    using inv yat_wfD(4) [of sample_path_end 10 1] by (simp add: yat_inv_def sample_queue)
  show "fst (pick_next_task_yat_casched 1 sample_path_end) = Some 10"
    using inv by (simp add: pick_next_yat_result yat_inv_def sample_queue)
  show "yat_path (snd (pick_next_task_yat_casched 1 sample_path_end))
      (([] @ [Y_put_prev 1 10]) @ [Y_dequeue 1 10]) sample_slept"
    unfolding sample_slept_def
    by (intro yat_path.snoc [OF yat_path.snoc [OF yat_path.nil yat_step.put_prev] yat_step.dequeue])
      (simp add: put_prev_task_yat_casched_def l)
qed (simp_all add: sample_path_end_def sample_slept_def frame sample_rq_def sample_task_def
      cpu_online_def)

text \<open>
  Enqueueing a task that is on no list (a wakeup as well as a first activation) clears
  its virtual runtime and forgets its last CPU: if it is moved before it runs, the choice
  of a CPU falls back to the CPU it was given, and records that one.
\<close>

theorem yat_requeue_forgets:
  assumes "yse_run_list (yat_se k p) = None"
  shows "let k' = enqueue_task_yat_casched c p f k;
             (r, k'') = select_task_rq_yat_casched p prev g k'
         in yse_vruntime (yat_se k' p) = 0 \<and> yse_last_cpu (yat_se k' p) = -1 \<and>
            r = prev \<and> yse_last_cpu (yat_se k'' p) = prev"
  using assms by (simp add: enqueue_yat_resets select_task_rq_yat_casched_def Let_def)

theorem yat_requeue_forgets_witness:
  "let k' = enqueue_task_yat_casched 2 10 1 sample_slept;
       (r, k'') = select_task_rq_yat_casched 10 3 0 k'
   in yse_vruntime (yat_se k' 10) = 0 \<and> yse_last_cpu (yat_se k' 10) = -1 \<and>
      r = 3 \<and> yse_last_cpu (yat_se k'' 10) = 3"
  by (rule yat_requeue_forgets)
    (simp add: sample_slept_def sample_path_end_def put_prev_task_yat_casched_def
      dequeue_yat_linked)

section \<open>Time accounting\<close>

text \<open>
  \<open>update_curr\<close> charges a yat task exactly the task clock that passed since
  \<open>exec_start\<close> (nothing when the clock went backwards), restarts the measurement, and a
  second call at the same clock changes nothing; a current task of another class is left
  alone, and so is every other task.
\<close>

theorem yat_update_curr_accounting:
  "let p = rq_curr (k_rqs k c); now = rq_clock_task (k_rqs k c);
       k' = update_curr_yat_casched c k; start = se_exec_start (t_se (k_tasks k p))
   in (if t_sched_class (k_tasks k p) = yat_casched_sched_class
       then se_exec_start (t_se (k_tasks k' p)) = now \<and>
            yse_vruntime (yat_se k' p) =
              yse_vruntime (yat_se k p) + (if 0 \<le> sint (now - start) then now - start else 0)
       else k' = k) \<and>
      update_curr_yat_casched c k' = k' \<and> k_tasks k' = (k_tasks k)(p := k_tasks k' p)"
  by (simp add: update_curr_yat_casched_def Let_def upd_task_def yat_se_def fun_upd_idem_iff
      linorder_not_less del: yat_se_fold)

text \<open>
  The slice test of the tick never fires.  The class never advances
  \<open>sum_exec_runtime\<close>, so if the difference it tests is below the granularity for every
  task at the start, then after any class operations a tick changes no task's flags and
  sends no interrupt: a running yat task is not preempted by time.
\<close>

definition yat_slice_unspent :: "kernel \<Rightarrow> tid \<Rightarrow> bool" where
  "yat_slice_unspent k p \<longleftrightarrow>
     se_sum_exec_runtime (t_se (k_tasks k p)) - se_prev_sum_exec_runtime (t_se (k_tasks k p))
       < YAT_MIN_GRANULARITY k"

lemma yat_tick_unspent:
  "yat_slice_unspent k p \<Longrightarrow> task_tick_yat_casched c p b k = update_curr_yat_casched c k"
  by (simp add: task_tick_yat_casched_def yat_slice_unspent_def YAT_MIN_GRANULARITY_def Let_def)

lemma enqueue_dequeue_yat_se [frame]:
  "t_se (k_tasks (enqueue_task_yat_casched c p f k) q) = t_se (k_tasks k q)"
  "t_se (k_tasks (dequeue_task_yat_casched c p f k) q) = t_se (k_tasks k q)"
  "k_HZ (enqueue_task_yat_casched c p f k) = k_HZ k"
  "k_HZ (dequeue_task_yat_casched c p f k) = k_HZ k"
  by (simp_all add: enqueue_task_yat_casched_def yat_list_add_tail_def Let_def
      dequeue_task_yat_casched_def yat_list_del_init_def split: option.split)

lemma yat_slice_unspent_cong:
  assumes "yat_slice_unspent k p" "k_HZ k' = k_HZ k"
    and "se_sum_exec_runtime (t_se (k_tasks k' p)) = se_sum_exec_runtime (t_se (k_tasks k p))"
    and "se_prev_sum_exec_runtime (t_se (k_tasks k' p)) =
         se_prev_sum_exec_runtime (t_se (k_tasks k p))"
  shows "yat_slice_unspent k' p"
  using assms by (simp add: yat_slice_unspent_def YAT_MIN_GRANULARITY_def)

lemma yat_step_unspent:
  assumes "yat_step k op k'" "\<And>p. yat_slice_unspent k p"
  shows "yat_slice_unspent k' q"
proof -
  have "k_HZ k' = k_HZ k \<and>
      se_sum_exec_runtime (t_se (k_tasks k' q)) = se_sum_exec_runtime (t_se (k_tasks k q)) \<and>
      se_prev_sum_exec_runtime (t_se (k_tasks k' q)) =
      se_prev_sum_exec_runtime (t_se (k_tasks k q))"
    using assms
    by (induction rule: yat_step.induct)
      (simp_all add: yat_tick_unspent put_prev_task_yat_casched_def
        wakeup_preempt_yat_casched_def yield_task_yat_casched_def frame)
  then show ?thesis using yat_slice_unspent_cong [OF assms(2)] by blast
qed

lemma yat_path_unspent:
  assumes "yat_path k ops k'" "\<And>p. yat_slice_unspent k p"
  shows "yat_slice_unspent k' q"
  using assms by (induction arbitrary: q rule: yat_path.induct) (simp, metis yat_step_unspent)

theorem yat_tick_never_preempts:
  assumes "\<forall>p. yat_slice_unspent k p" "yat_path k ops k'"
  shows "k_ipis (task_tick_yat_casched c p b k') = k_ipis k' \<and>
    (\<forall>q. t_ti_flags (k_tasks (task_tick_yat_casched c p b k') q) = t_ti_flags (k_tasks k' q))"
  using yat_path_unspent [OF assms(2)] assms(1) by (simp add: yat_tick_unspent)

theorem yat_tick_never_preempts_witness:
  "k_ipis (task_tick_yat_casched 1 10 False sample_path_end) = k_ipis sample_path_end \<and>
   (\<forall>q. t_ti_flags (k_tasks (task_tick_yat_casched 1 10 False sample_path_end) q) =
        t_ti_flags (k_tasks sample_path_end q))"
  by (rule yat_tick_never_preempts [OF _ sample_path])
    (simp add: yat_slice_unspent_def YAT_MIN_GRANULARITY_def sample_task_def NSEC_PER_SEC_def)

end
