(* ===== verification/Task_State.thy ===== *)
theory Task_State
  imports State
begin

text \<open>
  The state words of a task (\<open>sched.h\<close>): \<open>__state\<close> and \<open>exit_state\<close> with their
  bits, how they are reported to user space, the setting macros, the state matching of
  a wakeup with its detour over \<open>saved_state\<close> (\<open>core.c\<close>), the process flags and the
  per-process atomic flags.  Constants keep their C names; a leading double underscore
  is written \<open>us_\<close>.  The debug variants of the macros are configured out.
\<close>

section \<open>State bits\<close>

definition TASK_RUNNING :: u32 where "TASK_RUNNING = 0x00000000"
definition TASK_INTERRUPTIBLE :: u32 where "TASK_INTERRUPTIBLE = 0x00000001"
definition TASK_UNINTERRUPTIBLE :: u32 where "TASK_UNINTERRUPTIBLE = 0x00000002"
definition us_TASK_STOPPED :: u32 where "us_TASK_STOPPED = 0x00000004"
definition us_TASK_TRACED :: u32 where "us_TASK_TRACED = 0x00000008"
definition EXIT_DEAD :: u32 where "EXIT_DEAD = 0x00000010"
definition EXIT_ZOMBIE :: u32 where "EXIT_ZOMBIE = 0x00000020"
definition TASK_PARKED :: u32 where "TASK_PARKED = 0x00000040"
definition TASK_DEAD :: u32 where "TASK_DEAD = 0x00000080"
definition TASK_WAKEKILL :: u32 where "TASK_WAKEKILL = 0x00000100"
definition TASK_WAKING :: u32 where "TASK_WAKING = 0x00000200"
definition TASK_NOLOAD :: u32 where "TASK_NOLOAD = 0x00000400"
definition TASK_NEW :: u32 where "TASK_NEW = 0x00000800"
definition TASK_RTLOCK_WAIT :: u32 where "TASK_RTLOCK_WAIT = 0x00001000"
definition TASK_FREEZABLE :: u32 where "TASK_FREEZABLE = 0x00002000"
definition TASK_FROZEN :: u32 where "TASK_FROZEN = 0x00008000"
definition TASK_STATE_MAX :: u32 where "TASK_STATE_MAX = 0x00010000"
definition EXIT_TRACE :: u32 where "EXIT_TRACE = EXIT_ZOMBIE OR EXIT_DEAD"
definition TASK_ANY :: u32 where "TASK_ANY = TASK_STATE_MAX - 1"
definition TASK_KILLABLE :: u32 where "TASK_KILLABLE = TASK_WAKEKILL OR TASK_UNINTERRUPTIBLE"
definition TASK_STOPPED :: u32 where "TASK_STOPPED = TASK_WAKEKILL OR us_TASK_STOPPED"
definition TASK_TRACED :: u32 where "TASK_TRACED = us_TASK_TRACED"
definition TASK_IDLE :: u32 where "TASK_IDLE = TASK_UNINTERRUPTIBLE OR TASK_NOLOAD"
definition TASK_NORMAL :: u32 where "TASK_NORMAL = TASK_INTERRUPTIBLE OR TASK_UNINTERRUPTIBLE"
definition TASK_REPORT :: u32 where
  "TASK_REPORT = TASK_RUNNING OR TASK_INTERRUPTIBLE OR TASK_UNINTERRUPTIBLE OR us_TASK_STOPPED OR
     us_TASK_TRACED OR EXIT_DEAD OR EXIT_ZOMBIE OR TASK_PARKED"

lemmas task_state_consts = TASK_RUNNING_def TASK_INTERRUPTIBLE_def TASK_UNINTERRUPTIBLE_def us_TASK_STOPPED_def
  us_TASK_TRACED_def EXIT_DEAD_def EXIT_ZOMBIE_def TASK_PARKED_def TASK_DEAD_def
  TASK_WAKEKILL_def TASK_WAKING_def TASK_NOLOAD_def TASK_NEW_def TASK_RTLOCK_WAIT_def
  TASK_FREEZABLE_def TASK_FROZEN_def TASK_STATE_MAX_def EXIT_TRACE_def TASK_ANY_def
  TASK_KILLABLE_def TASK_STOPPED_def TASK_TRACED_def TASK_IDLE_def TASK_NORMAL_def
  TASK_REPORT_def

definition task_is_running :: "task_struct \<Rightarrow> bool" where
  "task_is_running t \<longleftrightarrow> t_state t = TASK_RUNNING"

definition is_special_task_state :: "u32 \<Rightarrow> bool" where
  "is_special_task_state state \<longleftrightarrow>
     test_flag state (us_TASK_STOPPED OR us_TASK_TRACED OR TASK_PARKED OR TASK_DEAD)"

section \<open>Setting the state of the current task\<close>

definition us_set_current_state :: "u32 \<Rightarrow> kernel \<Rightarrow> kernel" where
  "us_set_current_state s k = upd_task (k_current k) (\<lambda>t. t\<lparr>t_state := s\<rparr>) k"

definition set_current_state :: "u32 \<Rightarrow> kernel \<Rightarrow> kernel" where
  "set_current_state s k = upd_task (k_current k) (\<lambda>t. t\<lparr>t_state := s\<rparr>) k"

definition set_special_state :: "u32 \<Rightarrow> kernel \<Rightarrow> kernel" where
  "set_special_state s k = upd_task (k_current k) (\<lambda>t. t\<lparr>t_state := s\<rparr>) k"

definition current_save_and_set_rtlock_wait_state :: "kernel \<Rightarrow> kernel" where
  "current_save_and_set_rtlock_wait_state k =
     upd_task (k_current k)
       (\<lambda>t. t\<lparr>t_saved_state := t_state t, t_state := TASK_RTLOCK_WAIT\<rparr>) k"

definition current_restore_rtlock_saved_state :: "kernel \<Rightarrow> kernel" where
  "current_restore_rtlock_saved_state k =
     upd_task (k_current k)
       (\<lambda>t. t\<lparr>t_state := t_saved_state t, t_saved_state := TASK_RUNNING\<rparr>) k"

definition get_current_state :: "kernel \<Rightarrow> u32" where
  "get_current_state k = t_state (k_tasks k (k_current k))"

section \<open>Reporting\<close>

definition TASK_REPORT_IDLE :: u32 where "TASK_REPORT_IDLE = TASK_REPORT + 1"
definition TASK_REPORT_MAX :: u32 where "TASK_REPORT_MAX = push_bit 1 TASK_REPORT_IDLE"

text \<open>\<open>fls\<close>: the number of the highest set bit, counted from 1; 0 for 0.\<close>

fun fls_nat :: "nat \<Rightarrow> nat" where
  "fls_nat n = (if n = 0 then 0 else Suc (fls_nat (n div 2)))"

declare fls_nat.simps [simp del]

definition fls :: "u32 \<Rightarrow> nat" where "fls w = fls_nat (unat w)"

definition us_task_state_index :: "u32 \<Rightarrow> u32 \<Rightarrow> nat" where
  "us_task_state_index tsk_state tsk_exit_state =
     (let state = (tsk_state OR tsk_exit_state) AND TASK_REPORT;
          state = (if tsk_state AND TASK_IDLE = TASK_IDLE then TASK_REPORT_IDLE else state);
          state = (if test_flag tsk_state TASK_RTLOCK_WAIT then TASK_UNINTERRUPTIBLE else state)
      in fls state)"

definition task_state_index :: "task_struct \<Rightarrow> nat" where
  "task_state_index t = us_task_state_index (t_state t) (t_exit_state t)"

text \<open>Indexing outside the array has no defined result: \<open>None\<close>.\<close>

definition task_index_to_char :: "nat \<Rightarrow> char option" where
  "task_index_to_char i =
     (if i < length ''RSDTtXZPI'' then Some (''RSDTtXZPI'' ! i) else None)"

definition task_state_to_char :: "task_struct \<Rightarrow> char option" where
  "task_state_to_char t = task_index_to_char (task_state_index t)"

section \<open>Matching a wakeup against the state\<close>

definition us_task_state_match :: "task_struct \<Rightarrow> u32 \<Rightarrow> int" where
  "us_task_state_match t state =
     (if test_flag (t_state t) state then 1
      else if test_flag (t_saved_state t) state then -1 else 0)"

definition task_state_match :: "task_struct \<Rightarrow> u32 \<Rightarrow> int" where
  "task_state_match t state = us_task_state_match t state"

text \<open>Returns (result, \<open>*success\<close>, state).\<close>

definition ttwu_state_match :: "tid \<Rightarrow> u32 \<Rightarrow> kernel \<Rightarrow> bool \<times> bool \<times> kernel" where
  "ttwu_state_match p state k =
     (let match = us_task_state_match (k_tasks k p) state
      in (0 < match, match \<noteq> 0,
          if match < 0 then upd_task p (\<lambda>t. t\<lparr>t_saved_state := TASK_RUNNING\<rparr>) k else k))"

section \<open>Process flags\<close>

definition PF_VCPU :: u32 where "PF_VCPU = 0x00000001"
definition PF_IDLE :: u32 where "PF_IDLE = 0x00000002"
definition PF_EXITING :: u32 where "PF_EXITING = 0x00000004"
definition PF_POSTCOREDUMP :: u32 where "PF_POSTCOREDUMP = 0x00000008"
definition PF_IO_WORKER :: u32 where "PF_IO_WORKER = 0x00000010"
definition PF_WQ_WORKER :: u32 where "PF_WQ_WORKER = 0x00000020"
definition PF_FORKNOEXEC :: u32 where "PF_FORKNOEXEC = 0x00000040"
definition PF_MCE_PROCESS :: u32 where "PF_MCE_PROCESS = 0x00000080"
definition PF_SUPERPRIV :: u32 where "PF_SUPERPRIV = 0x00000100"
definition PF_DUMPCORE :: u32 where "PF_DUMPCORE = 0x00000200"
definition PF_SIGNALED :: u32 where "PF_SIGNALED = 0x00000400"
definition PF_MEMALLOC :: u32 where "PF_MEMALLOC = 0x00000800"
definition PF_NPROC_EXCEEDED :: u32 where "PF_NPROC_EXCEEDED = 0x00001000"
definition PF_USED_MATH :: u32 where "PF_USED_MATH = 0x00002000"
definition PF_USER_WORKER :: u32 where "PF_USER_WORKER = 0x00004000"
definition PF_NOFREEZE :: u32 where "PF_NOFREEZE = 0x00008000"
definition PF_KSWAPD :: u32 where "PF_KSWAPD = 0x00020000"
definition PF_MEMALLOC_NOFS :: u32 where "PF_MEMALLOC_NOFS = 0x00040000"
definition PF_MEMALLOC_NOIO :: u32 where "PF_MEMALLOC_NOIO = 0x00080000"
definition PF_LOCAL_THROTTLE :: u32 where "PF_LOCAL_THROTTLE = 0x00100000"
definition PF_KTHREAD :: u32 where "PF_KTHREAD = 0x00200000"
definition PF_RANDOMIZE :: u32 where "PF_RANDOMIZE = 0x00400000"
definition PF_NO_SETAFFINITY :: u32 where "PF_NO_SETAFFINITY = 0x04000000"
definition PF_MCE_EARLY :: u32 where "PF_MCE_EARLY = 0x08000000"
definition PF_MEMALLOC_PIN :: u32 where "PF_MEMALLOC_PIN = 0x10000000"
definition PF_SUSPEND_TASK :: u32 where "PF_SUSPEND_TASK = 0x80000000"

definition clear_stopped_child_used_math :: "tid \<Rightarrow> kernel \<Rightarrow> kernel" where
  "clear_stopped_child_used_math p = upd_task p (\<lambda>t. t\<lparr>t_flags := clear_flag (t_flags t) PF_USED_MATH\<rparr>)"

definition set_stopped_child_used_math :: "tid \<Rightarrow> kernel \<Rightarrow> kernel" where
  "set_stopped_child_used_math p = upd_task p (\<lambda>t. t\<lparr>t_flags := set_flag (t_flags t) PF_USED_MATH\<rparr>)"

definition clear_used_math :: "kernel \<Rightarrow> kernel" where
  "clear_used_math k = clear_stopped_child_used_math (k_current k) k"

definition set_used_math :: "kernel \<Rightarrow> kernel" where
  "set_used_math k = set_stopped_child_used_math (k_current k) k"

definition conditional_stopped_child_used_math :: "bool \<Rightarrow> tid \<Rightarrow> kernel \<Rightarrow> kernel" where
  "conditional_stopped_child_used_math b p =
     upd_task p (\<lambda>t. t\<lparr>t_flags := set_flag (clear_flag (t_flags t) PF_USED_MATH)
                               (if b then PF_USED_MATH else 0)\<rparr>)"

definition conditional_used_math :: "bool \<Rightarrow> kernel \<Rightarrow> kernel" where
  "conditional_used_math b k = conditional_stopped_child_used_math b (k_current k) k"

definition copy_to_stopped_child_used_math :: "tid \<Rightarrow> kernel \<Rightarrow> kernel" where
  "copy_to_stopped_child_used_math p k =
     (let k' = upd_task p (\<lambda>t. t\<lparr>t_flags := clear_flag (t_flags t) PF_USED_MATH\<rparr>) k
      in upd_task p (\<lambda>t. t\<lparr>t_flags := set_flag (t_flags t)
           (t_flags (k_tasks k' (k_current k')) AND PF_USED_MATH)\<rparr>) k')"

definition tsk_used_math :: "task_struct \<Rightarrow> u32" where
  "tsk_used_math t = t_flags t AND PF_USED_MATH"

definition used_math :: "kernel \<Rightarrow> u32" where
  "used_math k = tsk_used_math (k_tasks k (k_current k))"

definition is_percpu_thread :: "kernel \<Rightarrow> bool" where
  "is_percpu_thread k \<longleftrightarrow>
     (let t = k_tasks k (k_current k)
      in test_flag (t_flags t) PF_NO_SETAFFINITY \<and> t_nr_cpus_allowed t = 1)"

text \<open>The flag words of \<open>current_restore_flags\<close> are \<open>unsigned long\<close>: \<open>flags\<close> is widened.\<close>

definition current_restore_flags :: "u64 \<Rightarrow> u64 \<Rightarrow> kernel \<Rightarrow> kernel" where
  "current_restore_flags orig_flags flags k =
     upd_task (k_current k) (\<lambda>t. t\<lparr>t_flags :=
       ucast ((ucast (ucast (ucast (t_flags t) AND NOT flags) :: u32)) OR (orig_flags AND flags))\<rparr>) k"

section \<open>Per-process atomic flags\<close>

definition PFA_NO_NEW_PRIVS :: nat where "PFA_NO_NEW_PRIVS = 0"
definition PFA_SPREAD_PAGE :: nat where "PFA_SPREAD_PAGE = 1"
definition PFA_SPREAD_SLAB :: nat where "PFA_SPREAD_SLAB = 2"
definition PFA_SPEC_SSB_DISABLE :: nat where "PFA_SPEC_SSB_DISABLE = 3"
definition PFA_SPEC_SSB_FORCE_DISABLE :: nat where "PFA_SPEC_SSB_FORCE_DISABLE = 4"
definition PFA_SPEC_IB_DISABLE :: nat where "PFA_SPEC_IB_DISABLE = 5"
definition PFA_SPEC_IB_FORCE_DISABLE :: nat where "PFA_SPEC_IB_FORCE_DISABLE = 6"
definition PFA_SPEC_SSB_NOEXEC :: nat where "PFA_SPEC_SSB_NOEXEC = 7"

definition TASK_PFA_TEST :: "nat \<Rightarrow> tid \<Rightarrow> kernel \<Rightarrow> bool" where
  "TASK_PFA_TEST n p k \<longleftrightarrow> bit (t_atomic_flags (k_tasks k p)) n"

definition TASK_PFA_SET :: "nat \<Rightarrow> tid \<Rightarrow> kernel \<Rightarrow> kernel" where
  "TASK_PFA_SET n p = upd_task p (\<lambda>t. t\<lparr>t_atomic_flags := set_bit n (t_atomic_flags t)\<rparr>)"

definition TASK_PFA_CLEAR :: "nat \<Rightarrow> tid \<Rightarrow> kernel \<Rightarrow> kernel" where
  "TASK_PFA_CLEAR n p = upd_task p (\<lambda>t. t\<lparr>t_atomic_flags := unset_bit n (t_atomic_flags t)\<rparr>)"

definition task_no_new_privs :: "tid \<Rightarrow> kernel \<Rightarrow> bool" where "task_no_new_privs = TASK_PFA_TEST PFA_NO_NEW_PRIVS"
definition task_set_no_new_privs :: "tid \<Rightarrow> kernel \<Rightarrow> kernel" where "task_set_no_new_privs = TASK_PFA_SET PFA_NO_NEW_PRIVS"
definition task_spread_page :: "tid \<Rightarrow> kernel \<Rightarrow> bool" where "task_spread_page = TASK_PFA_TEST PFA_SPREAD_PAGE"
definition task_set_spread_page :: "tid \<Rightarrow> kernel \<Rightarrow> kernel" where "task_set_spread_page = TASK_PFA_SET PFA_SPREAD_PAGE"
definition task_clear_spread_page :: "tid \<Rightarrow> kernel \<Rightarrow> kernel" where "task_clear_spread_page = TASK_PFA_CLEAR PFA_SPREAD_PAGE"
definition task_spread_slab :: "tid \<Rightarrow> kernel \<Rightarrow> bool" where "task_spread_slab = TASK_PFA_TEST PFA_SPREAD_SLAB"
definition task_set_spread_slab :: "tid \<Rightarrow> kernel \<Rightarrow> kernel" where "task_set_spread_slab = TASK_PFA_SET PFA_SPREAD_SLAB"
definition task_clear_spread_slab :: "tid \<Rightarrow> kernel \<Rightarrow> kernel" where "task_clear_spread_slab = TASK_PFA_CLEAR PFA_SPREAD_SLAB"
definition task_spec_ssb_disable :: "tid \<Rightarrow> kernel \<Rightarrow> bool" where "task_spec_ssb_disable = TASK_PFA_TEST PFA_SPEC_SSB_DISABLE"
definition task_set_spec_ssb_disable :: "tid \<Rightarrow> kernel \<Rightarrow> kernel" where "task_set_spec_ssb_disable = TASK_PFA_SET PFA_SPEC_SSB_DISABLE"
definition task_clear_spec_ssb_disable :: "tid \<Rightarrow> kernel \<Rightarrow> kernel" where "task_clear_spec_ssb_disable = TASK_PFA_CLEAR PFA_SPEC_SSB_DISABLE"
definition task_spec_ssb_force_disable :: "tid \<Rightarrow> kernel \<Rightarrow> bool" where "task_spec_ssb_force_disable = TASK_PFA_TEST PFA_SPEC_SSB_FORCE_DISABLE"
definition task_set_spec_ssb_force_disable :: "tid \<Rightarrow> kernel \<Rightarrow> kernel" where "task_set_spec_ssb_force_disable = TASK_PFA_SET PFA_SPEC_SSB_FORCE_DISABLE"
definition task_spec_ib_disable :: "tid \<Rightarrow> kernel \<Rightarrow> bool" where "task_spec_ib_disable = TASK_PFA_TEST PFA_SPEC_IB_DISABLE"
definition task_set_spec_ib_disable :: "tid \<Rightarrow> kernel \<Rightarrow> kernel" where "task_set_spec_ib_disable = TASK_PFA_SET PFA_SPEC_IB_DISABLE"
definition task_clear_spec_ib_disable :: "tid \<Rightarrow> kernel \<Rightarrow> kernel" where "task_clear_spec_ib_disable = TASK_PFA_CLEAR PFA_SPEC_IB_DISABLE"
definition task_spec_ib_force_disable :: "tid \<Rightarrow> kernel \<Rightarrow> bool" where "task_spec_ib_force_disable = TASK_PFA_TEST PFA_SPEC_IB_FORCE_DISABLE"
definition task_set_spec_ib_force_disable :: "tid \<Rightarrow> kernel \<Rightarrow> kernel" where "task_set_spec_ib_force_disable = TASK_PFA_SET PFA_SPEC_IB_FORCE_DISABLE"
definition task_spec_ssb_noexec :: "tid \<Rightarrow> kernel \<Rightarrow> bool" where "task_spec_ssb_noexec = TASK_PFA_TEST PFA_SPEC_SSB_NOEXEC"
definition task_set_spec_ssb_noexec :: "tid \<Rightarrow> kernel \<Rightarrow> kernel" where "task_set_spec_ssb_noexec = TASK_PFA_SET PFA_SPEC_SSB_NOEXEC"
definition task_clear_spec_ssb_noexec :: "tid \<Rightarrow> kernel \<Rightarrow> kernel" where "task_clear_spec_ssb_noexec = TASK_PFA_CLEAR PFA_SPEC_SSB_NOEXEC"

section \<open>Thread flags\<close>

text \<open>Thread flags are given as the mask of the bit.\<close>

definition set_tsk_thread_flag :: "tid \<Rightarrow> u64 \<Rightarrow> kernel \<Rightarrow> kernel" where
  "set_tsk_thread_flag p f = upd_task p (\<lambda>t. t\<lparr>t_ti_flags := set_flag (t_ti_flags t) f\<rparr>)"

definition clear_tsk_thread_flag :: "tid \<Rightarrow> u64 \<Rightarrow> kernel \<Rightarrow> kernel" where
  "clear_tsk_thread_flag p f = upd_task p (\<lambda>t. t\<lparr>t_ti_flags := clear_flag (t_ti_flags t) f\<rparr>)"

definition test_tsk_thread_flag :: "tid \<Rightarrow> u64 \<Rightarrow> kernel \<Rightarrow> bool" where
  "test_tsk_thread_flag p f k \<longleftrightarrow> test_flag (t_ti_flags (k_tasks k p)) f"

definition update_tsk_thread_flag :: "tid \<Rightarrow> u64 \<Rightarrow> bool \<Rightarrow> kernel \<Rightarrow> kernel" where
  "update_tsk_thread_flag p f value =
     (if value then set_tsk_thread_flag p f else clear_tsk_thread_flag p f)"

definition test_and_set_tsk_thread_flag :: "tid \<Rightarrow> u64 \<Rightarrow> kernel \<Rightarrow> bool \<times> kernel" where
  "test_and_set_tsk_thread_flag p f k = (test_tsk_thread_flag p f k, set_tsk_thread_flag p f k)"

definition test_and_clear_tsk_thread_flag :: "tid \<Rightarrow> u64 \<Rightarrow> kernel \<Rightarrow> bool \<times> kernel" where
  "test_and_clear_tsk_thread_flag p f k = (test_tsk_thread_flag p f k, clear_tsk_thread_flag p f k)"

definition need_resched :: "kernel \<Rightarrow> bool" where
  "need_resched k \<longleftrightarrow> test_tsk_thread_flag (k_current k) TIF_NEED_RESCHED k"

section \<open>What holds of the state words\<close>

lemma fls_nat_bound: "n < 2 ^ m \<Longrightarrow> fls_nat n \<le> m"
proof (induction m arbitrary: n)
  case 0
  then show ?case by (simp add: fls_nat.simps)
next
  case (Suc m)
  have "fls_nat (n div 2) \<le> m" by (rule Suc.IH) (use Suc.prems in simp)
  then show ?case by (simp add: fls_nat.simps [of n])
qed

lemma fls_nat_pow: "fls_nat (2 ^ m) = Suc m"
  by (induction m) (simp_all add: fls_nat.simps [of "2 * 2 ^ _"] fls_nat.simps [of "Suc 0"]
      fls_nat.simps [of 0])

lemma unat_and_le: "unat (a AND b) \<le> unat b" for a b :: "'a::len word"
  by (metis word_and_le1 word_le_nat_alt)

lemma us_task_state_index_bound: "us_task_state_index s e \<le> 8"
proof -
  have "unat ((s OR e) AND TASK_REPORT) \<le> unat TASK_REPORT" by (rule unat_and_le)
  then have "unat ((s OR e) AND TASK_REPORT) < 2 ^ 8" by (simp add: task_state_consts)
  moreover have "unat TASK_REPORT_IDLE < 2 ^ 8" "unat TASK_UNINTERRUPTIBLE < 2 ^ 8"
    by (simp_all add: TASK_REPORT_IDLE_def task_state_consts)
  ultimately show ?thesis
    by (simp add: us_task_state_index_def Let_def fls_def fls_nat_bound)
qed

lemma task_state_letters:
  "map (\<lambda>(s, e). task_index_to_char (us_task_state_index s e))
     [(TASK_RUNNING, 0), (TASK_INTERRUPTIBLE, 0), (TASK_UNINTERRUPTIBLE, 0), (us_TASK_STOPPED, 0),
      (us_TASK_TRACED, 0), (TASK_DEAD, EXIT_DEAD), (TASK_DEAD, EXIT_ZOMBIE), (TASK_PARKED, 0),
      (TASK_IDLE, 0), (TASK_RTLOCK_WAIT, 0)] = map Some ''RSDTtXZPID''"
  by code_simp

text \<open>
  The one-letter state of a task is always one of the nine letters: whatever bits the
  two state words hold, the index computed from them lies inside the table; and each
  reported state has its letter, the idle wait \<open>I\<close> and the lock wait \<open>D\<close>.
\<close>

theorem task_state_letter_defined:
  "(\<exists>c. task_state_to_char t = Some c \<and> c \<in> set ''RSDTtXZPI'') \<and>
   map (\<lambda>(s, e). task_index_to_char (us_task_state_index s e))
     [(TASK_RUNNING, 0), (TASK_INTERRUPTIBLE, 0), (TASK_UNINTERRUPTIBLE, 0), (us_TASK_STOPPED, 0),
      (us_TASK_TRACED, 0), (TASK_DEAD, EXIT_DEAD), (TASK_DEAD, EXIT_ZOMBIE), (TASK_PARKED, 0),
      (TASK_IDLE, 0), (TASK_RTLOCK_WAIT, 0)] = map Some ''RSDTtXZPID''"
proof (rule conjI [OF _ task_state_letters])
  let ?i = "us_task_state_index (t_state t) (t_exit_state t)"
  have i: "?i < length ''RSDTtXZPI''"
    using us_task_state_index_bound [of "t_state t" "t_exit_state t"] by simp
  then have "task_state_to_char t = Some (''RSDTtXZPI'' ! ?i)"
    by (simp only: task_state_to_char_def task_state_index_def task_index_to_char_def if_True)
  then show "\<exists>c. task_state_to_char t = Some c \<and> c \<in> set ''RSDTtXZPI''"
    using nth_mem [OF i] by blast
qed

text \<open>
  A regular wakeup that arrives while a task waits for a sleeping lock is not lost.
  Between saving and restoring the state, a wakeup with a mask that does not include the
  lock-wait bit does not wake the task, but reports success if and only if it matches the
  saved state, and then the restored state is \<open>TASK_RUNNING\<close>; otherwise the original
  state comes back.
\<close>

theorem rtlock_wakeup_not_lost:
  "let p = k_current k; s = t_state (k_tasks k p);
       (wakes, success, k2) = ttwu_state_match p m (current_save_and_set_rtlock_wait_state k);
       k3 = current_restore_rtlock_saved_state k2
   in wakes = test_flag TASK_RTLOCK_WAIT m \<and>
      success = (wakes \<or> test_flag s m) \<and>
      t_state (k_tasks k3 p) = (if \<not> wakes \<and> test_flag s m then TASK_RUNNING else s) \<and>
      t_saved_state (k_tasks k3 p) = TASK_RUNNING"
  by (simp add: ttwu_state_match_def us_task_state_match_def Let_def
      current_save_and_set_rtlock_wait_state_def current_restore_rtlock_saved_state_def)

end
