(* ===== verification/Kapi.thy ===== *)
theory Kapi
  imports State
begin

text \<open>
  What the modelled code calls but the repository does not hold: the policy predicates and
  clocks of \<open>kernel/sched/sched.h\<close>, the operations of the scheduling classes other than
  yat, and other kernel services.  They are one record of functions, passed to every
  definition that uses one; a NULL function pointer is \<open>None\<close>.
\<close>

text \<open>
  \<open>pick_next_task_fair\<close> returns a task, none, or \<open>RETRY_TASK\<close>.
\<close>

datatype fair_pick = RETRY_TASK | Fair_pick "tid option"

text \<open>
  Addresses of user space are numbers, 0 the NULL pointer; the accesses return the data
  or \<open>None\<close> for a fault, writes also the new state.
\<close>

record kapi =
  ka_valid_policy :: "int \<Rightarrow> bool"
  ka_idle_policy :: "int \<Rightarrow> bool"
  ka_fair_policy :: "int \<Rightarrow> bool"
  ka_rt_policy :: "int \<Rightarrow> bool"
  ka_dl_policy :: "int \<Rightarrow> bool"
  ka_sched_clock_cpu :: "kernel \<Rightarrow> cpu \<Rightarrow> u64"
  ka_irq_time_read :: "kernel \<Rightarrow> cpu \<Rightarrow> u64"
  ka_paravirt_steal_rq_enabled :: bool
  ka_paravirt_steal_clock :: "kernel \<Rightarrow> cpu \<Rightarrow> u64"
  ka_hrtimer_get_time :: "kernel \<Rightarrow> cpu \<Rightarrow> u64"
  ka_uclamp_enabled :: "sched_class \<Rightarrow> bool"
  ka_enqueue_task :: "sched_class \<Rightarrow> cpu \<Rightarrow> tid \<Rightarrow> u32 \<Rightarrow> kernel \<Rightarrow> kernel"
  ka_dequeue_task :: "sched_class \<Rightarrow> cpu \<Rightarrow> tid \<Rightarrow> u32 \<Rightarrow> kernel \<Rightarrow> kernel"
  ka_put_prev_task :: "sched_class \<Rightarrow> cpu \<Rightarrow> tid \<Rightarrow> kernel \<Rightarrow> kernel"
  ka_set_next_task :: "sched_class \<Rightarrow> cpu \<Rightarrow> tid \<Rightarrow> bool \<Rightarrow> kernel \<Rightarrow> kernel"
  ka_task_tick :: "sched_class \<Rightarrow> cpu \<Rightarrow> tid \<Rightarrow> bool \<Rightarrow> kernel \<Rightarrow> kernel"
  ka_wakeup_preempt :: "sched_class \<Rightarrow> cpu \<Rightarrow> tid \<Rightarrow> u32 \<Rightarrow> kernel \<Rightarrow> kernel"
  ka_switched_from :: "sched_class \<Rightarrow> (cpu \<Rightarrow> tid \<Rightarrow> kernel \<Rightarrow> kernel) option"
  ka_switched_to :: "sched_class \<Rightarrow> cpu \<Rightarrow> tid \<Rightarrow> kernel \<Rightarrow> kernel"
  ka_prio_changed :: "sched_class \<Rightarrow> cpu \<Rightarrow> tid \<Rightarrow> int \<Rightarrow> kernel \<Rightarrow> kernel"
  ka_select_task_rq :: "sched_class \<Rightarrow> tid \<Rightarrow> cpu \<Rightarrow> u32 \<Rightarrow> kernel \<Rightarrow> cpu \<times> kernel"
  ka_set_cpus_allowed :: "sched_class \<Rightarrow> tid \<Rightarrow> affinity_context \<Rightarrow> kernel \<Rightarrow> affinity_context \<times> kernel"
  ka_task_is_throttled :: "sched_class \<Rightarrow> (tid \<Rightarrow> cpu \<Rightarrow> kernel \<Rightarrow> bool) option"
  ka_cfs_prio_less :: "tid \<Rightarrow> tid \<Rightarrow> bool \<Rightarrow> kernel \<Rightarrow> bool"
  ka_cpu_smt_mask :: "cpu \<Rightarrow> cpumask"
  ka_css_tasks :: "tgid \<Rightarrow> kernel \<Rightarrow> tid list"
  ka_reweight_task :: "tid \<Rightarrow> int \<Rightarrow> kernel \<Rightarrow> kernel"
  ka_rlimit_nice :: "kernel \<Rightarrow> tid \<Rightarrow> int"
  ka_capable_sys_nice :: "kernel \<Rightarrow> bool"
  ka_security_task_setnice :: "kernel \<Rightarrow> tid \<Rightarrow> int \<Rightarrow> int"
  ka_dl_entity_preempt :: "sched_dl_entity \<Rightarrow> sched_dl_entity \<Rightarrow> bool"
  ka_balance_func :: "balance_callback \<Rightarrow> cpu \<Rightarrow> kernel \<Rightarrow> kernel"
  ka_set_task_cpu :: "tid \<Rightarrow> cpu \<Rightarrow> kernel \<Rightarrow> kernel"
  ka_migrate_task_rq :: "sched_class \<Rightarrow> (tid \<Rightarrow> cpu \<Rightarrow> kernel \<Rightarrow> kernel) option"
  ka_task_woken :: "sched_class \<Rightarrow> (cpu \<Rightarrow> tid \<Rightarrow> kernel \<Rightarrow> kernel) option"
  ka_find_lock_rq :: "sched_class \<Rightarrow> (tid \<Rightarrow> cpu \<Rightarrow> kernel \<Rightarrow> cpu option) option"
  ka_task_fork :: "sched_class \<Rightarrow> (tid \<Rightarrow> kernel \<Rightarrow> kernel) option"
  ka_task_dead :: "sched_class \<Rightarrow> (tid \<Rightarrow> kernel \<Rightarrow> kernel) option"
  ka_yield_task :: "sched_class \<Rightarrow> cpu \<Rightarrow> kernel \<Rightarrow> kernel"
  ka_update_curr :: "sched_class \<Rightarrow> cpu \<Rightarrow> kernel \<Rightarrow> kernel"
  ka_balance :: "sched_class \<Rightarrow> cpu \<Rightarrow> tid \<Rightarrow> kernel \<Rightarrow> bool \<times> kernel"
  ka_pick_next_task :: "sched_class \<Rightarrow> cpu \<Rightarrow> kernel \<Rightarrow> tid option \<times> kernel"
  ka_pick_task :: "sched_class \<Rightarrow> cpu \<Rightarrow> kernel \<Rightarrow> tid option \<times> kernel"
  ka_pick_next_task_fair :: "cpu \<Rightarrow> tid \<Rightarrow> kernel \<Rightarrow> fair_pick \<times> kernel"
  ka_task_vruntime_update :: "cpu \<Rightarrow> tid \<Rightarrow> bool \<Rightarrow> kernel \<Rightarrow> kernel"
  ka_sched_core_account_forceidle :: "cpu \<Rightarrow> kernel \<Rightarrow> kernel"
  ka_queue_balance_callback :: "cpu \<Rightarrow> balance_callback \<Rightarrow> kernel \<Rightarrow> kernel"
  ka_signal_pending_state :: "kernel \<Rightarrow> u32 \<Rightarrow> tid \<Rightarrow> bool"
  ka_sched_feat_HRTICK :: bool
  ka_sched_feat_HRTICK_DL :: bool
  ka_sched_feat_TTWU_QUEUE :: bool
  ka_sched_feat_LATENCY_WARN :: bool
  ka_sd_llc_id :: "cpu \<Rightarrow> int"
  ka_sd_share_id :: "cpu \<Rightarrow> int"
  ka_smp_call_single_queue :: "cpu \<Rightarrow> tid \<Rightarrow> kernel \<Rightarrow> kernel"
  ka_update_avg :: "u64 \<Rightarrow> u64 \<Rightarrow> u64"
  ka_task_cpu_possible_mask :: "kernel \<Rightarrow> tid \<Rightarrow> cpumask"
  ka_kthread_is_per_cpu :: "kernel \<Rightarrow> tid \<Rightarrow> bool"
  ka_cpu_dying :: "kernel \<Rightarrow> cpu \<Rightarrow> bool"
  ka_cpumask_any_and_distribute :: "kernel \<Rightarrow> cpumask \<Rightarrow> cpumask \<Rightarrow> cpu"
  ka_cpumask_any :: "kernel \<Rightarrow> cpumask \<Rightarrow> cpu"
  ka_cpu_to_node :: "cpu \<Rightarrow> int"
  ka_cpumask_of_node :: "int \<Rightarrow> cpumask"
  ka_cpuset_cpus_allowed :: "kernel \<Rightarrow> tid \<Rightarrow> cpumask"
  ka_cpuset_cpus_allowed_fallback :: "tid \<Rightarrow> kernel \<Rightarrow> bool \<times> kernel"
  ka_flush_smp_call_function_queue :: "kernel \<Rightarrow> kernel"
  ka_dl_bandwidth_enabled :: "kernel \<Rightarrow> bool"
  ka_rd_span :: "kernel \<Rightarrow> cpu \<Rightarrow> cpumask"
  ka_rd_dl_bw :: "kernel \<Rightarrow> cpu \<Rightarrow> u64"
  ka_setparam_dl :: "tid \<Rightarrow> sched_attr \<Rightarrow> kernel \<Rightarrow> kernel"
  ka_getparam_dl :: "task_struct \<Rightarrow> sched_attr \<Rightarrow> sched_attr"
  ka_checkparam_dl :: "sched_attr \<Rightarrow> bool"
  ka_dl_param_changed :: "task_struct \<Rightarrow> sched_attr \<Rightarrow> bool"
  ka_sched_dl_overflow :: "tid \<Rightarrow> int \<Rightarrow> sched_attr \<Rightarrow> kernel \<Rightarrow> bool \<times> kernel"
  ka_rlimit_rtprio :: "kernel \<Rightarrow> tid \<Rightarrow> u64"
  ka_euid :: "kernel \<Rightarrow> tid \<Rightarrow> nat"
  ka_uid :: "kernel \<Rightarrow> tid \<Rightarrow> nat"
  ka_ns_capable_sys_nice :: "kernel \<Rightarrow> tid \<Rightarrow> bool"
  ka_security_task_setscheduler :: "kernel \<Rightarrow> tid \<Rightarrow> int"
  ka_security_task_getscheduler :: "kernel \<Rightarrow> tid \<Rightarrow> int"
  ka_rt_mutex_adjust_pi :: "tid \<Rightarrow> kernel \<Rightarrow> kernel"
  ka_find_task_by_vpid :: "kernel \<Rightarrow> int \<Rightarrow> tid option"
  ka_get_user_priority :: "kernel \<Rightarrow> u64 \<Rightarrow> int option"
  ka_put_user_priority :: "u64 \<Rightarrow> int \<Rightarrow> kernel \<Rightarrow> bool \<times> kernel"
  ka_get_user_attr_size :: "kernel \<Rightarrow> u64 \<Rightarrow> int \<times> u32"
  ka_put_user_attr_size :: "u64 \<Rightarrow> u32 \<Rightarrow> kernel \<Rightarrow> kernel"
  ka_copy_attr_from_user :: "kernel \<Rightarrow> u64 \<Rightarrow> u32 \<Rightarrow> int \<times> sched_attr"
  ka_access_ok :: "u64 \<Rightarrow> u32 \<Rightarrow> bool"
  ka_copy_attr_to_user :: "u64 \<Rightarrow> sched_attr \<Rightarrow> u32 \<Rightarrow> kernel \<Rightarrow> bool \<times> kernel"
  ka_page_size :: u32
  ka_alloc_ok :: "kernel \<Rightarrow> bool"
  ka_init_dl_entity :: "tid \<Rightarrow> kernel \<Rightarrow> kernel"
  ka_init_entity_runnable_average :: "tid \<Rightarrow> kernel \<Rightarrow> kernel"
  ka_post_init_entity_util_avg :: "tid \<Rightarrow> kernel \<Rightarrow> kernel"
  ka_autogroup_task_group :: "kernel \<Rightarrow> tid \<Rightarrow> tgid \<Rightarrow> tgid"
  ka_cpumask_size :: nat
  ka_copy_mask_from_user :: "kernel \<Rightarrow> u64 \<Rightarrow> nat \<Rightarrow> cpumask \<Rightarrow> cpumask option"
  ka_copy_mask_to_user :: "u64 \<Rightarrow> cpumask \<Rightarrow> nat \<Rightarrow> kernel \<Rightarrow> bool \<times> kernel"
  ka_wq_worker_sleeping :: "tid \<Rightarrow> kernel \<Rightarrow> kernel"
  ka_io_wq_worker_sleeping :: "tid \<Rightarrow> kernel \<Rightarrow> kernel"
  ka_blk_flush_plug :: "tid \<Rightarrow> kernel \<Rightarrow> kernel"
  ka_wq_worker_running :: "tid \<Rightarrow> kernel \<Rightarrow> kernel"
  ka_io_wq_worker_running :: "tid \<Rightarrow> kernel \<Rightarrow> kernel"
  ka_wq_worker_tick :: "tid \<Rightarrow> kernel \<Rightarrow> kernel"
  ka_sched_clock_tick :: "kernel \<Rightarrow> kernel"
  ka_update_thermal_load_avg :: "cpu \<Rightarrow> kernel \<Rightarrow> kernel"
  ka_calc_global_load_tick :: "cpu \<Rightarrow> kernel \<Rightarrow> kernel"
  ka_sched_core_tick :: "cpu \<Rightarrow> kernel \<Rightarrow> kernel"
  ka_trigger_load_balance :: "cpu \<Rightarrow> kernel \<Rightarrow> kernel"
  ka_switch_mm :: "tid \<Rightarrow> tid \<Rightarrow> kernel \<Rightarrow> kernel"
  ka_housekeeping_cpumask :: cpumask
  ka_housekeeping_any_cpu :: "kernel \<Rightarrow> cpu"
  ka_tick_nohz_full_cpu :: "cpu \<Rightarrow> bool"
  ka_tick_nohz_tick_stopped :: "kernel \<Rightarrow> bool"
  ka_tick_nohz_full_kick_cpu :: "cpu \<Rightarrow> kernel \<Rightarrow> kernel"
  ka_raise_softirq :: "kernel \<Rightarrow> kernel"
  ka_sched_feat_HZ_BW :: bool
  ka_cfs_task_bw_constrained :: "kernel \<Rightarrow> tid \<Rightarrow> bool"
  ka_refill_cfs_bandwidth_runtime :: "tgid \<Rightarrow> kernel \<Rightarrow> kernel"
  ka_start_cfs_bandwidth :: "tgid \<Rightarrow> kernel \<Rightarrow> kernel"
  ka_cfs_bandwidth_usage_inc :: "kernel \<Rightarrow> kernel"
  ka_cfs_bandwidth_usage_dec :: "kernel \<Rightarrow> kernel"
  ka_unthrottle_cfs_rq :: "tgid \<Rightarrow> cpu \<Rightarrow> kernel \<Rightarrow> kernel"
  ka_cgroup_on_dfl :: bool
  ka_sched_group_set_shares :: "tgid \<Rightarrow> u64 \<Rightarrow> kernel \<Rightarrow> int \<times> kernel"
  ka_cpu_capacity :: "cpu \<Rightarrow> u64"
  ka_cpu_util_irq :: "kernel \<Rightarrow> cpu \<Rightarrow> u64"
  ka_cpu_util_rt :: "kernel \<Rightarrow> cpu \<Rightarrow> u64"
  ka_cpu_util_dl :: "kernel \<Rightarrow> cpu \<Rightarrow> u64"
  ka_cpu_bw_dl :: "kernel \<Rightarrow> cpu \<Rightarrow> u64"
  ka_rt_rq_is_runnable :: "kernel \<Rightarrow> cpu \<Rightarrow> bool"
  ka_scale_irq_capacity :: "u64 \<Rightarrow> u64 \<Rightarrow> u64 \<Rightarrow> u64"
  ka_cpu_util_cfs :: "kernel \<Rightarrow> cpu \<Rightarrow> u64"
  ka_strim :: "string \<Rightarrow> string"
  ka_cgroup_parse_float :: "string \<Rightarrow> nat \<Rightarrow> int \<times> u64"
  ka_process_threads :: "kernel \<Rightarrow> tid list"
  ka_calc_load_nohz_remote :: "cpu \<Rightarrow> kernel \<Rightarrow> kernel"
  ka_tick_nohz_tick_stopped_cpu :: "kernel \<Rightarrow> cpu \<Rightarrow> bool"
  ka_housekeeping_tick_cpu :: "cpu \<Rightarrow> bool"
  ka_sched_clock :: "kernel \<Rightarrow> u64"
  ka_kthread_set_per_cpu :: "tid \<Rightarrow> cpu \<Rightarrow> kernel \<Rightarrow> kernel"
  ka_init_numa_balancing :: "u64 \<Rightarrow> tid \<Rightarrow> kernel \<Rightarrow> kernel"
  ka_yield_to_task :: "sched_class \<Rightarrow> (cpu \<Rightarrow> tid \<Rightarrow> kernel \<Rightarrow> bool \<times> kernel) option"
  ka_get_rr_interval :: "sched_class \<Rightarrow> (kernel \<Rightarrow> cpu \<Rightarrow> tid \<Rightarrow> u32) option"
  ka_rq_online :: "sched_class \<Rightarrow> (cpu \<Rightarrow> kernel \<Rightarrow> kernel) option"
  ka_rq_offline :: "sched_class \<Rightarrow> (cpu \<Rightarrow> kernel \<Rightarrow> kernel) option"
  ka_task_change_group :: "sched_class \<Rightarrow> (tid \<Rightarrow> kernel \<Rightarrow> kernel) option"
  ka_set_task_rq :: "tid \<Rightarrow> cpu \<Rightarrow> kernel \<Rightarrow> kernel"
  ka_task_css :: "kernel \<Rightarrow> tid \<Rightarrow> tgid"
  ka_dl_cpuset_can_shrink :: "kernel \<Rightarrow> cpumask \<Rightarrow> cpumask \<Rightarrow> int"
  ka_partition_sched_domains :: "kernel \<Rightarrow> kernel"
  ka_cpuset_force_rebuild :: "kernel \<Rightarrow> kernel"
  ka_cpuset_update_active_cpus :: "kernel \<Rightarrow> kernel"
  ka_dl_bw_check_overflow :: "kernel \<Rightarrow> cpu \<Rightarrow> int"
  ka_sched_update_numa :: "cpu \<Rightarrow> bool \<Rightarrow> kernel \<Rightarrow> kernel"
  ka_sched_domains_numa_masks_set :: "cpu \<Rightarrow> kernel \<Rightarrow> kernel"
  ka_sched_domains_numa_masks_clear :: "cpu \<Rightarrow> kernel \<Rightarrow> kernel"
  ka_nohz_balance_exit_idle :: "cpu \<Rightarrow> kernel \<Rightarrow> kernel"
  ka_update_max_interval :: "kernel \<Rightarrow> kernel"
  ka_calc_load_fold_active :: "cpu \<Rightarrow> int \<Rightarrow> kernel \<Rightarrow> int \<times> kernel"
  ka_init_class_rqs :: "cpu \<Rightarrow> kernel \<Rightarrow> kernel"
  ka_rq_attach_root :: "cpu \<Rightarrow> kernel \<Rightarrow> kernel"
  ka_sysctl_sched_migration_cost :: u64
  ka_new_task_group :: "kernel \<Rightarrow> tgid option"
  ka_alloc_fair_sched_group :: "tgid \<Rightarrow> tgid \<Rightarrow> kernel \<Rightarrow> bool \<times> kernel"
  ka_alloc_rt_sched_group :: "tgid \<Rightarrow> tgid \<Rightarrow> kernel \<Rightarrow> bool \<times> kernel"
  ka_free_sched_group_parts :: "tgid \<Rightarrow> kernel \<Rightarrow> kernel"
  ka_online_fair_sched_group :: "tgid \<Rightarrow> kernel \<Rightarrow> kernel"
  ka_unregister_sched_group :: "tgid \<Rightarrow> kernel \<Rightarrow> kernel"
  ka_schedule_timeout :: "int \<Rightarrow> kernel \<Rightarrow> int \<times> kernel"
  ka_put_timespec :: "u64 \<Rightarrow> u32 \<Rightarrow> kernel \<Rightarrow> int \<times> kernel"
  ka_scan_max :: "string \<Rightarrow> (string \<times> u64 option) option"
  ka_scan_u64 :: "string \<Rightarrow> u64 option"

end
