(* ===== verification/Sample_Kapi.thy ===== *)
theory Sample_Kapi
  imports Kapi Sample
begin

text \<open>
  A concrete instance of the parameters for the witnesses: the policies have their ABI
  numbers (the repository's own policy counts as valid), the other classes only count
  their tasks, and the clocks are constant.
\<close>

definition sample_kapi :: kapi where
  "sample_kapi =
     \<lparr>ka_valid_policy = (\<lambda>p. p \<in> {0, 1, 2, 3, 5, 6, 8}), ka_idle_policy = (\<lambda>p. p = 5),
      ka_fair_policy = (\<lambda>p. p = 0 \<or> p = 3), ka_rt_policy = (\<lambda>p. p = 1 \<or> p = 2),
      ka_dl_policy = (\<lambda>p. p = 6), ka_sched_clock_cpu = (\<lambda>k c. 1000),
      ka_irq_time_read = (\<lambda>k c. 300), ka_paravirt_steal_rq_enabled = True,
      ka_paravirt_steal_clock = (\<lambda>k c. 50), ka_hrtimer_get_time = (\<lambda>k c. 1000),
      ka_uclamp_enabled = (\<lambda>cls. cls = fair_sched_class \<or> cls = rt_sched_class),
      ka_enqueue_task = (\<lambda>cls c p f. upd_rq c (\<lambda>r. r\<lparr>rq_nr_running := rq_nr_running r + 1\<rparr>)),
      ka_dequeue_task = (\<lambda>cls c p f. upd_rq c (\<lambda>r. r\<lparr>rq_nr_running := rq_nr_running r - 1\<rparr>)),
      ka_put_prev_task = (\<lambda>cls c p k. k), ka_set_next_task = (\<lambda>cls c p b k. k),
      ka_task_tick = (\<lambda>cls c p b k. k), ka_wakeup_preempt = (\<lambda>cls c p f k. k),
      ka_switched_from = (\<lambda>cls. None), ka_switched_to = (\<lambda>cls c p k. k),
      ka_prio_changed = (\<lambda>cls c p oldprio k. k),
      ka_select_task_rq = (\<lambda>cls p c f k. (c, k)),
      ka_set_cpus_allowed = (\<lambda>cls p ctx k. (ctx, case ac_new_mask ctx of None \<Rightarrow> k
        | Some m \<Rightarrow> upd_task p (\<lambda>t. t\<lparr>t_cpus_mask := m, t_nr_cpus_allowed := int (card m)\<rparr>) k)),
      ka_task_is_throttled = (\<lambda>cls. None), ka_cfs_prio_less = (\<lambda>p q b k. p < q),
      ka_cpu_smt_mask = (\<lambda>c. {c}), ka_css_tasks = (\<lambda>g k. []),
      ka_reweight_task = (\<lambda>p prio k. k), ka_rlimit_nice = (\<lambda>k p. 20),
      ka_capable_sys_nice = (\<lambda>k. False), ka_security_task_setnice = (\<lambda>k p n. 0),
      ka_dl_entity_preempt = (\<lambda>x y. dl_deadline x < dl_deadline y),
      ka_balance_func = (\<lambda>cb c k. k),
      ka_set_task_cpu = (\<lambda>p c. upd_task p (\<lambda>t. t\<lparr>t_ti_cpu := c, t_wake_cpu := c\<rparr>)),
      ka_migrate_task_rq = (\<lambda>cls. None), ka_task_woken = (\<lambda>cls. None), ka_find_lock_rq = (\<lambda>cls. None),
      ka_task_fork = (\<lambda>cls. None), ka_task_dead = (\<lambda>cls. None), ka_yield_task = (\<lambda>cls c k. k),
      ka_update_curr = (\<lambda>cls c k. k), ka_balance = (\<lambda>cls c p k. (False, k)),
      ka_pick_next_task = (\<lambda>cls c k. (if cls = idle_sched_class then Some (rq_idle (k_rqs k c)) else None, k)),
      ka_pick_task = (\<lambda>cls c k. (if cls = idle_sched_class then Some (rq_idle (k_rqs k c)) else None, k)),
      ka_pick_next_task_fair = (\<lambda>c p k. (Fair_pick None, k)),
      ka_task_vruntime_update = (\<lambda>c p b k. k), ka_sched_core_account_forceidle = (\<lambda>c k. k),
      ka_queue_balance_callback = (\<lambda>c cb. upd_rq c (\<lambda>r. r\<lparr>rq_balance_callback := cb # rq_balance_callback r\<rparr>)),
      ka_signal_pending_state = (\<lambda>k st p. False), ka_sched_feat_HRTICK = False,
      ka_sched_feat_HRTICK_DL = False, ka_sched_feat_TTWU_QUEUE = True, ka_sched_feat_LATENCY_WARN = False,
      ka_sd_llc_id = (\<lambda>c. c div 2), ka_sd_share_id = (\<lambda>c. c div 2),
      ka_smp_call_single_queue = (\<lambda>c p. upd_rq c (\<lambda>r. r\<lparr>rq_wake_list := rq_wake_list r @ [p]\<rparr>)),
      ka_update_avg = (\<lambda>avg s. avg), ka_task_cpu_possible_mask = (\<lambda>k p. {0, 1, 2, 3}),
      ka_kthread_is_per_cpu = (\<lambda>k p. False), ka_cpu_dying = (\<lambda>k c. False),
      ka_cpumask_any_and_distribute = (\<lambda>k m n. case for_each_cpu k (m \<inter> n) of [] \<Rightarrow> k_nr_cpu_ids k | c # _ \<Rightarrow> c),
      ka_cpumask_any = (\<lambda>k m. case for_each_cpu k m of [] \<Rightarrow> k_nr_cpu_ids k | c # _ \<Rightarrow> c),
      ka_cpu_to_node = (\<lambda>c. 0), ka_cpumask_of_node = (\<lambda>n. {0, 1, 2, 3}),
      ka_cpuset_cpus_allowed = (\<lambda>k p. {0, 1, 2, 3}), ka_cpuset_cpus_allowed_fallback = (\<lambda>p k. (False, k)),
      ka_flush_smp_call_function_queue = (\<lambda>k. k), ka_dl_bandwidth_enabled = (\<lambda>k. True),
      ka_rd_span = (\<lambda>k c. {0, 1, 2, 3}), ka_rd_dl_bw = (\<lambda>k c. 996147),
      ka_setparam_dl = (\<lambda>p at. upd_task p (\<lambda>t. t\<lparr>t_dl := (t_dl t)\<lparr>dl_runtime := sa_runtime at,
        dl_deadline := sa_deadline at, dl_period := sa_period at\<rparr>\<rparr>)),
      ka_getparam_dl = (\<lambda>t at. at\<lparr>sa_runtime := dl_runtime (t_dl t), sa_deadline := dl_deadline (t_dl t),
        sa_period := dl_period (t_dl t)\<rparr>),
      ka_checkparam_dl = (\<lambda>at. sa_runtime at \<le> sa_deadline at),
      ka_dl_param_changed = (\<lambda>t at. dl_runtime (t_dl t) \<noteq> sa_runtime at),
      ka_sched_dl_overflow = (\<lambda>p pol at k. (False, k)), ka_rlimit_rtprio = (\<lambda>k p. 0),
      ka_euid = (\<lambda>k p. 1000), ka_uid = (\<lambda>k p. 1000), ka_ns_capable_sys_nice = (\<lambda>k p. False),
      ka_security_task_setscheduler = (\<lambda>k p. 0), ka_security_task_getscheduler = (\<lambda>k p. 0),
      ka_rt_mutex_adjust_pi = (\<lambda>p k. k), ka_find_task_by_vpid = (\<lambda>k n. if n = 10 then Some 10 else None),
      ka_get_user_priority = (\<lambda>k u. Some 0), ka_put_user_priority = (\<lambda>u n k. (False, k)),
      ka_get_user_attr_size = (\<lambda>k u. (0, 56)), ka_put_user_attr_size = (\<lambda>u n k. k),
      ka_copy_attr_from_user = (\<lambda>k u n. (0, \<lparr>sa_size = 56, sa_policy = 0, sa_flags = 0, sa_nice = 5,
        sa_priority = 0, sa_runtime = 0, sa_deadline = 0, sa_period = 0, sa_util_min = 0, sa_util_max = 0\<rparr>)),
      ka_access_ok = (\<lambda>u n. True), ka_copy_attr_to_user = (\<lambda>u at n k. (False, k)), ka_page_size = 4096,
      ka_alloc_ok = (\<lambda>k. True), ka_init_dl_entity = (\<lambda>p k. k),
      ka_init_entity_runnable_average = (\<lambda>p k. k), ka_post_init_entity_util_avg = (\<lambda>p k. k),
      ka_autogroup_task_group = (\<lambda>k p g. g),
      ka_cpumask_size = 8, ka_copy_mask_from_user = (\<lambda>k u n m. Some {1}),
      ka_copy_mask_to_user = (\<lambda>u m n k. (False, k)), ka_wq_worker_sleeping = (\<lambda>p k. k),
      ka_io_wq_worker_sleeping = (\<lambda>p k. k), ka_blk_flush_plug = (\<lambda>p k. k),
      ka_wq_worker_running = (\<lambda>p k. k), ka_io_wq_worker_running = (\<lambda>p k. k),
      ka_wq_worker_tick = (\<lambda>p k. k), ka_sched_clock_tick = (\<lambda>k. k),
      ka_update_thermal_load_avg = (\<lambda>c k. k), ka_calc_global_load_tick = (\<lambda>c k. k),
      ka_sched_core_tick = (\<lambda>c k. k), ka_trigger_load_balance = (\<lambda>c k. k),
      ka_switch_mm = (\<lambda>p q k. k), ka_housekeeping_cpumask = {0, 1},
      ka_housekeeping_any_cpu = (\<lambda>k. 0), ka_tick_nohz_full_cpu = (\<lambda>c. False),
      ka_tick_nohz_tick_stopped = (\<lambda>k. False), ka_tick_nohz_full_kick_cpu = (\<lambda>c k. k),
      ka_raise_softirq = (\<lambda>k. k), ka_sched_feat_HZ_BW = True,
      ka_cfs_task_bw_constrained = (\<lambda>k p. False),
      ka_refill_cfs_bandwidth_runtime = (\<lambda>g k. k), ka_start_cfs_bandwidth = (\<lambda>g k. k),
      ka_cfs_bandwidth_usage_inc = (\<lambda>k. k), ka_cfs_bandwidth_usage_dec = (\<lambda>k. k),
      ka_unthrottle_cfs_rq = (\<lambda>g c k. k), ka_cgroup_on_dfl = False,
      ka_sched_group_set_shares = (\<lambda>g s k. (0, upd_tg g (\<lambda>t. t\<lparr>tg_shares := s\<rparr>) k)),
      ka_cpu_capacity = (\<lambda>c. 1024), ka_cpu_util_irq = (\<lambda>k c. 24),
      ka_cpu_util_rt = (\<lambda>k c. 100), ka_cpu_util_dl = (\<lambda>k c. 0),
      ka_cpu_bw_dl = (\<lambda>k c. 0), ka_rt_rq_is_runnable = (\<lambda>k c. False),
      ka_scale_irq_capacity = (\<lambda>u i m. u * (m - i) div m),
      ka_cpu_util_cfs = (\<lambda>k c. 200),
      ka_strim = (\<lambda>s. s),
      ka_cgroup_parse_float = (\<lambda>s n. if s = ''50.5'' then (0, 5050) else (-22, 0)),
      ka_process_threads = (\<lambda>k. [10, 11]),
      ka_calc_load_nohz_remote = (\<lambda>c k. k),
      ka_tick_nohz_tick_stopped_cpu = (\<lambda>k c. True),
      ka_housekeeping_tick_cpu = (\<lambda>c. c = 0),
      ka_sched_clock = (\<lambda>k. 1000),
      ka_kthread_set_per_cpu = (\<lambda>p c k. k),
      ka_init_numa_balancing = (\<lambda>f p k. k),
      ka_yield_to_task = (\<lambda>cls. None),
      ka_get_rr_interval = (\<lambda>cls. None),
      ka_rq_online = (\<lambda>cls. None),
      ka_rq_offline = (\<lambda>cls. None),
      ka_task_change_group = (\<lambda>cls. None),
      ka_set_task_rq = (\<lambda>p c k. k),
      ka_task_css = (\<lambda>k p. 1),
      ka_dl_cpuset_can_shrink = (\<lambda>k m n. 1),
      ka_partition_sched_domains = (\<lambda>k. k),
      ka_cpuset_force_rebuild = (\<lambda>k. k),
      ka_cpuset_update_active_cpus = (\<lambda>k. k),
      ka_dl_bw_check_overflow = (\<lambda>k c. if c = 3 then -16 else 0),
      ka_sched_update_numa = (\<lambda>c b k. k),
      ka_sched_domains_numa_masks_set = (\<lambda>c k. k),
      ka_sched_domains_numa_masks_clear = (\<lambda>c k. k),
      ka_nohz_balance_exit_idle = (\<lambda>c k. k),
      ka_update_max_interval = (\<lambda>k. k),
      ka_calc_load_fold_active = (\<lambda>c n k. (0, k)),
      ka_init_class_rqs = (\<lambda>c k. k),
      ka_rq_attach_root = (\<lambda>c k. k),
      ka_sysctl_sched_migration_cost = 500000,
      ka_new_task_group = (\<lambda>k. Some 7),
      ka_alloc_fair_sched_group = (\<lambda>g h k. (True, k)),
      ka_alloc_rt_sched_group = (\<lambda>g h k. (True, k)),
      ka_free_sched_group_parts = (\<lambda>g k. k),
      ka_online_fair_sched_group = (\<lambda>g k. k),
      ka_unregister_sched_group = (\<lambda>g k. k),
      ka_schedule_timeout = (\<lambda>n k. (0, k)),
      ka_put_timespec = (\<lambda>u n k. (0, k)),
      ka_scan_max = (\<lambda>s. if s = ''max 100000'' then Some (''max'', Some 100000) else None),
      ka_scan_u64 = (\<lambda>s. None)\<rparr>"

lemma sample_kapi_sel [simp]:
  "ka_valid_policy sample_kapi p \<longleftrightarrow> p \<in> {0, 1, 2, 3, 5, 6, 8}" "ka_idle_policy sample_kapi p \<longleftrightarrow> p = 5"
  "ka_fair_policy sample_kapi p \<longleftrightarrow> p = 0 \<or> p = 3" "ka_rt_policy sample_kapi p \<longleftrightarrow> p = 1 \<or> p = 2"
  "ka_dl_policy sample_kapi p \<longleftrightarrow> p = 6" "ka_rlimit_nice sample_kapi k t = 20"
  "\<not> ka_capable_sys_nice sample_kapi k" "ka_security_task_setnice sample_kapi k t n = 0"
  "ka_security_task_setscheduler sample_kapi k t = 0" "ka_security_task_getscheduler sample_kapi k t = 0"
  "ka_euid sample_kapi k t = 1000" "ka_uid sample_kapi k t = 1000" "ka_rlimit_rtprio sample_kapi k t = 0"
  "ka_sched_dl_overflow sample_kapi t p at k = (False, k)"
  "ka_uclamp_enabled sample_kapi cls \<longleftrightarrow> cls = fair_sched_class \<or> cls = rt_sched_class"
  by (simp_all add: sample_kapi_def)

end
