(* ===== verification/Rq_Clock.thy ===== *)
theory Rq_Clock
  imports Resched Sample_Kapi
begin

text \<open>
  The run queue clocks (\<open>core.c\<close>, \<open>update_rq_clock\<close>): \<open>clock\<close> follows the CPU's
  scheduler clock, \<open>clock_task\<close> leaves out interrupt and stolen time.  The \<open>s64\<close>
  differences are the words they are computed as, compared by \<open>sint\<close>.  Also the
  high-resolution tick that is armed from here.
\<close>

definition update_rq_clock_task :: "kapi \<Rightarrow> cpu \<Rightarrow> u64 \<Rightarrow> kernel \<Rightarrow> kernel" where
  "update_rq_clock_task a c delta k =
     (let r = k_rqs k c;
          irq_delta = ka_irq_time_read a k (rq_cpu r) - rq_prev_irq_time r;
          irq_delta = (if sint delta < sint irq_delta then delta else irq_delta);
          delta = delta - irq_delta;
          steal = (if ka_paravirt_steal_rq_enabled a
                   then let steal = ka_paravirt_steal_clock a k (rq_cpu r) - rq_prev_steal_time r
                        in if sint delta < sint steal then delta else steal
                   else 0);
          delta = delta - steal
      in upd_rq c (\<lambda>r. r\<lparr>rq_prev_irq_time := rq_prev_irq_time r + irq_delta,
                          rq_prev_steal_time := rq_prev_steal_time r + steal,
                          rq_clock_task := rq_clock_task r + delta\<rparr>) k)"

definition update_rq_clock :: "kapi \<Rightarrow> cpu \<Rightarrow> kernel \<Rightarrow> kernel" where
  "update_rq_clock a c k =
     (if test_flag (rq_clock_update_flags (k_rqs k c)) RQCF_ACT_SKIP then k
      else let k1 = upd_rq c (\<lambda>r. r\<lparr>rq_clock_update_flags :=
                      set_flag (rq_clock_update_flags r) RQCF_UPDATED\<rparr>) k;
               delta = ka_sched_clock_cpu a k1 (rq_cpu (k_rqs k1 c)) - rq_clock (k_rqs k1 c)
           in if sint delta < 0 then k1
              else update_rq_clock_task a c delta
                     (upd_rq c (\<lambda>r. r\<lparr>rq_clock := rq_clock r + delta\<rparr>) k1))"

section \<open>The high-resolution tick\<close>

text \<open>The timer is its expiry time, \<open>None\<close> when it is not active.\<close>

definition hrtick_clear :: "cpu \<Rightarrow> kernel \<Rightarrow> kernel" where
  "hrtick_clear c k =
     (if rq_hrtick_timer (k_rqs k c) \<noteq> None then upd_rq c (\<lambda>r. r\<lparr>rq_hrtick_timer := None\<rparr>) k
      else k)"

definition us_hrtick_restart :: "cpu \<Rightarrow> kernel \<Rightarrow> kernel" where
  "us_hrtick_restart c = upd_rq c (\<lambda>r. r\<lparr>rq_hrtick_timer := Some (rq_hrtick_time r)\<rparr>)"

text \<open>The function call interrupt that a remote CPU runs for its pending \<open>hrtick_csd\<close>.\<close>

definition us_hrtick_start :: "cpu \<Rightarrow> kernel \<Rightarrow> kernel" where
  "us_hrtick_start c k =
     us_hrtick_restart c (upd_rq c (\<lambda>r. r\<lparr>rq_hrtick_csd := False\<rparr>) k)"

definition hrtick_start :: "kapi \<Rightarrow> cpu \<Rightarrow> u64 \<Rightarrow> kernel \<Rightarrow> kernel" where
  "hrtick_start a c delay k =
     (let delta = (if sint delay < 10000 then 10000 else delay);
          k1 = upd_rq c (\<lambda>r. r\<lparr>rq_hrtick_time := ka_hrtimer_get_time a k c + delta\<rparr>) k
      in if c = k_this_cpu k1 then us_hrtick_restart c k1
         else upd_rq c (\<lambda>r. r\<lparr>rq_hrtick_csd := True\<rparr>) k1)"

definition hrtick_rq_init :: "cpu \<Rightarrow> kernel \<Rightarrow> kernel" where
  "hrtick_rq_init c = upd_rq c (\<lambda>r. r\<lparr>rq_hrtick_csd := False, rq_hrtick_timer := None\<rparr>)"

section \<open>Facts\<close>

lemma update_rq_clock_other [simp]:
  "k_tasks (update_rq_clock a c k) = k_tasks k" "k_tgs (update_rq_clock a c k) = k_tgs k"
  "d \<noteq> c \<Longrightarrow> k_rqs (update_rq_clock a c k) d = k_rqs k d"
  "k_this_cpu (update_rq_clock a c k) = k_this_cpu k" "k_ipis (update_rq_clock a c k) = k_ipis k"
  "k_current (update_rq_clock a c k) = k_current k"
  by (simp_all add: update_rq_clock_def update_rq_clock_task_def Let_def)

text \<open>Only the clocks of the run queue change.\<close>

lemma update_rq_clock_rq [frame]:
  "rq_cpu (k_rqs (update_rq_clock a c k) d) = rq_cpu (k_rqs k d)"
  "rq_curr (k_rqs (update_rq_clock a c k) d) = rq_curr (k_rqs k d)"
  "rq_idle (k_rqs (update_rq_clock a c k) d) = rq_idle (k_rqs k d)"
  "rq_nr_running (k_rqs (update_rq_clock a c k) d) = rq_nr_running (k_rqs k d)"
  "rq_uclamp (k_rqs (update_rq_clock a c k) d) = rq_uclamp (k_rqs k d)"
  "rq_uclamp_flags (k_rqs (update_rq_clock a c k) d) = rq_uclamp_flags (k_rqs k d)"
  "rq_yat_casched (k_rqs (update_rq_clock a c k) d) = rq_yat_casched (k_rqs k d)"
  by (simp_all add: update_rq_clock_def update_rq_clock_task_def Let_def)

text \<open>
  Clock accounting is exact.  Every nanosecond by which \<open>clock\<close> advances is booked
  exactly once: as task time, interrupt time or stolen time.  When the update is not
  skipped and the scheduler clock has not gone backwards, \<open>clock\<close> becomes that clock.
\<close>

theorem update_rq_clock_accounts:
  "let r = k_rqs k c; r' = k_rqs (update_rq_clock a c k) c;
       now = ka_sched_clock_cpu a (upd_rq c (\<lambda>r. r\<lparr>rq_clock_update_flags :=
               set_flag (rq_clock_update_flags r) RQCF_UPDATED\<rparr>) k) (rq_cpu r)
   in rq_clock r' - rq_clock r =
        (rq_clock_task r' - rq_clock_task r) + (rq_prev_irq_time r' - rq_prev_irq_time r) +
        (rq_prev_steal_time r' - rq_prev_steal_time r) \<and>
      rq_clock r' = (if test_flag (rq_clock_update_flags r) RQCF_ACT_SKIP \<or>
                        sint (now - rq_clock r) < 0 then rq_clock r else now)"
  by (simp add: update_rq_clock_def update_rq_clock_task_def Let_def)

lemma sint_diff_bounds:
  assumes "0 \<le> sint (y :: u64)" "sint y \<le> sint x"
  shows "sint (x - y) = sint x - sint y"
proof -
  have "sint x < 2 ^ 63" using sint_lt [of x] by simp
  then have "signed_take_bit 63 (sint x - sint y) = sint x - sint y"
    using assms by (intro signed_take_bit_int_eq_self) auto
  then show ?thesis by (simp add: sint_word_ariths)
qed

text \<open>
  The task clock never runs backwards and never faster than the clock, as long as the
  interrupt and steal counters the run queue samples have not gone backwards.
\<close>

theorem clock_task_monotone:
  assumes "0 \<le> sint delta" "0 \<le> sint (ka_irq_time_read a k (rq_cpu (k_rqs k c)) - rq_prev_irq_time (k_rqs k c))"
    and "0 \<le> sint (ka_paravirt_steal_clock a k (rq_cpu (k_rqs k c)) - rq_prev_steal_time (k_rqs k c))"
  shows "let d = rq_clock_task (k_rqs (update_rq_clock_task a c delta k) c) - rq_clock_task (k_rqs k c)
         in 0 \<le> sint d \<and> sint d \<le> sint delta"
proof -
  define i where "i = (let d = ka_irq_time_read a k (rq_cpu (k_rqs k c)) - rq_prev_irq_time (k_rqs k c)
                       in if sint delta < sint d then delta else d)"
  have i: "0 \<le> sint i" "sint i \<le> sint delta" using assms by (auto simp: i_def Let_def)
  note di = sint_diff_bounds [OF i]
  define s where "s = (if ka_paravirt_steal_rq_enabled a
     then let d = ka_paravirt_steal_clock a k (rq_cpu (k_rqs k c)) - rq_prev_steal_time (k_rqs k c)
          in if sint (delta - i) < sint d then delta - i else d else 0)"
  have s: "0 \<le> sint s" "sint s \<le> sint (delta - i)" using assms i di by (auto simp: s_def Let_def)
  have "rq_clock_task (k_rqs (update_rq_clock_task a c delta k) c) - rq_clock_task (k_rqs k c) =
      delta - i - s"
    by (simp add: update_rq_clock_task_def i_def s_def Let_def)
  then show ?thesis using sint_diff_bounds [OF s] di i s by (simp add: Let_def)
qed

theorem clock_task_monotone_witness:
  "let d = rq_clock_task (k_rqs (update_rq_clock_task sample_kapi 1 1000 sample_kernel) 1) -
           rq_clock_task (k_rqs sample_kernel 1)
   in 0 \<le> sint d \<and> sint d \<le> sint (1000 :: u64)"
  by (rule clock_task_monotone) (simp_all add: sample_kapi_def sample_rq_def)

end
