(* ===== verification/Uclamp.thy ===== *)
theory Uclamp
  imports Sample_Kapi
begin

text \<open>
  Utilization clamping (\<open>core.c\<close>, \<open>CONFIG_UCLAMP_TASK\<close>): requested and effective clamps of
  tasks and groups, the per run queue buckets that count the runnable tasks by effective
  clamp, the sysctl handler and the \<open>sched_setattr\<close> path.  Clamp values are kept as
  numbers; writing one into a \<open>struct uclamp_se\<close> truncates it to the 11 bits of its
  bit field, while the bucket is computed from the untruncated value, as in the code.
\<close>

section \<open>Clamp values and buckets\<close>

definition UCLAMP_BUCKET_DELTA :: "kernel \<Rightarrow> nat" where
  "UCLAMP_BUCKET_DELTA k =
     (SCHED_CAPACITY_SCALE + k_uclamp_buckets k div 2) div k_uclamp_buckets k"

definition clamp_ids :: "uclamp_id list" where "clamp_ids = [UCLAMP_MIN, UCLAMP_MAX]"

definition uclamp_bucket_id :: "kernel \<Rightarrow> nat \<Rightarrow> nat" where
  "uclamp_bucket_id k clamp_value =
     min (clamp_value div UCLAMP_BUCKET_DELTA k) (k_uclamp_buckets k - 1)"

definition uclamp_none :: "uclamp_id \<Rightarrow> nat" where
  "uclamp_none clamp_id = (if clamp_id = UCLAMP_MIN then 0 else SCHED_CAPACITY_SCALE)"

definition uclamp_se_set :: "kernel \<Rightarrow> nat \<Rightarrow> bool \<Rightarrow> uclamp_se \<Rightarrow> uclamp_se" where
  "uclamp_se_set k value user_defined uc_se =
     uc_se\<lparr>uc_value := value mod 2 ^ 11, uc_bucket_id := uclamp_bucket_id k value,
           uc_user_defined := user_defined\<rparr>"

section \<open>Access\<close>

definition task_uc :: "kernel \<Rightarrow> tid \<Rightarrow> uclamp_id \<Rightarrow> uclamp_se" where
  "task_uc k p i = t_uclamp (k_tasks k p) i"

definition task_uc_req :: "kernel \<Rightarrow> tid \<Rightarrow> uclamp_id \<Rightarrow> uclamp_se" where
  "task_uc_req k p i = t_uclamp_req (k_tasks k p) i"

definition uc_rq :: "kernel \<Rightarrow> cpu \<Rightarrow> uclamp_id \<Rightarrow> uclamp_rq" where
  "uc_rq k c i = rq_uclamp (k_rqs k c) i"

definition uc_bucket :: "kernel \<Rightarrow> cpu \<Rightarrow> uclamp_id \<Rightarrow> nat \<Rightarrow> uclamp_bucket" where
  "uc_bucket k c i b = ucrq_bucket (uc_rq k c i) b"

definition upd_task_uc :: "tid \<Rightarrow> uclamp_id \<Rightarrow> (uclamp_se \<Rightarrow> uclamp_se) \<Rightarrow> kernel \<Rightarrow> kernel" where
  "upd_task_uc p i f =
     upd_task p (\<lambda>t. t\<lparr>t_uclamp := (t_uclamp t)(i := f (t_uclamp t i))\<rparr>)"

definition upd_task_uc_req :: "tid \<Rightarrow> uclamp_id \<Rightarrow> (uclamp_se \<Rightarrow> uclamp_se) \<Rightarrow> kernel \<Rightarrow> kernel" where
  "upd_task_uc_req p i f =
     upd_task p (\<lambda>t. t\<lparr>t_uclamp_req := (t_uclamp_req t)(i := f (t_uclamp_req t i))\<rparr>)"

definition upd_uc_rq :: "cpu \<Rightarrow> uclamp_id \<Rightarrow> (uclamp_rq \<Rightarrow> uclamp_rq) \<Rightarrow> kernel \<Rightarrow> kernel" where
  "upd_uc_rq c i f = upd_rq c (\<lambda>r. r\<lparr>rq_uclamp := (rq_uclamp r)(i := f (rq_uclamp r i))\<rparr>)"

definition upd_uc_bucket ::
  "cpu \<Rightarrow> uclamp_id \<Rightarrow> nat \<Rightarrow> (uclamp_bucket \<Rightarrow> uclamp_bucket) \<Rightarrow> kernel \<Rightarrow> kernel" where
  "upd_uc_bucket c i b f =
     upd_uc_rq c i (\<lambda>u. u\<lparr>ucrq_bucket := (ucrq_bucket u)(b := f (ucrq_bucket u b))\<rparr>)"

definition uclamp_rq_get :: "kernel \<Rightarrow> cpu \<Rightarrow> uclamp_id \<Rightarrow> nat" where
  "uclamp_rq_get k c i = ucrq_value (uc_rq k c i)"

definition uclamp_rq_set :: "cpu \<Rightarrow> uclamp_id \<Rightarrow> nat \<Rightarrow> kernel \<Rightarrow> kernel" where
  "uclamp_rq_set c i v = upd_uc_rq c i (\<lambda>u. u\<lparr>ucrq_value := v\<rparr>)"

definition uclamp_idle_flag :: "kernel \<Rightarrow> cpu \<Rightarrow> bool" where
  "uclamp_idle_flag k c \<longleftrightarrow> test_flag (rq_uclamp_flags (k_rqs k c)) UCLAMP_FLAG_IDLE"

definition set_uclamp_idle :: "cpu \<Rightarrow> kernel \<Rightarrow> kernel" where
  "set_uclamp_idle c =
     upd_rq c (\<lambda>r. r\<lparr>rq_uclamp_flags := set_flag (rq_uclamp_flags r) UCLAMP_FLAG_IDLE\<rparr>)"

definition clear_uclamp_idle :: "cpu \<Rightarrow> kernel \<Rightarrow> kernel" where
  "clear_uclamp_idle c =
     upd_rq c (\<lambda>r. r\<lparr>rq_uclamp_flags := clear_flag (rq_uclamp_flags r) UCLAMP_FLAG_IDLE\<rparr>)"

section \<open>The run queue's aggregate\<close>

definition uclamp_idle_value :: "cpu \<Rightarrow> uclamp_id \<Rightarrow> nat \<Rightarrow> kernel \<Rightarrow> nat \<times> kernel" where
  "uclamp_idle_value c clamp_id clamp_value k =
     (if clamp_id = UCLAMP_MAX then (clamp_value, set_uclamp_idle c k)
      else (uclamp_none UCLAMP_MIN, k))"

definition uclamp_idle_reset :: "cpu \<Rightarrow> uclamp_id \<Rightarrow> nat \<Rightarrow> kernel \<Rightarrow> kernel" where
  "uclamp_idle_reset c clamp_id clamp_value k =
     (if \<not> uclamp_idle_flag k c then k else uclamp_rq_set c clamp_id clamp_value k)"

text \<open>The loop over the buckets, from the top one down: \<open>n\<close> is \<open>bucket_id + 1\<close>.\<close>

fun top_bucket_value :: "(nat \<Rightarrow> uclamp_bucket) \<Rightarrow> nat \<Rightarrow> nat option" where
  "top_bucket_value bucket 0 = None"
| "top_bucket_value bucket (Suc n) =
     (if ub_tasks (bucket n) = 0 then top_bucket_value bucket n else Some (ub_value (bucket n)))"

definition uclamp_rq_max_value :: "cpu \<Rightarrow> uclamp_id \<Rightarrow> nat \<Rightarrow> kernel \<Rightarrow> nat \<times> kernel" where
  "uclamp_rq_max_value c clamp_id clamp_value k =
     (case top_bucket_value (uc_bucket k c clamp_id) (k_uclamp_buckets k) of
        Some v \<Rightarrow> (v, k)
      | None \<Rightarrow> uclamp_idle_value c clamp_id clamp_value k)"

section \<open>Requests, groups and effective values\<close>

definition rt_task :: "task_struct \<Rightarrow> bool" where "rt_task t \<longleftrightarrow> rt_prio (t_prio t)"

definition us_uclamp_update_util_min_rt_default :: "tid \<Rightarrow> kernel \<Rightarrow> kernel" where
  "us_uclamp_update_util_min_rt_default p k =
     (if uc_user_defined (task_uc_req k p UCLAMP_MIN) then k
      else upd_task_uc_req p UCLAMP_MIN
             (uclamp_se_set k (unat (k_sysctl_uclamp_util_min_rt_default k)) False) k)"

definition uclamp_update_util_min_rt_default :: "tid \<Rightarrow> kernel \<Rightarrow> kernel" where
  "uclamp_update_util_min_rt_default p k =
     (if \<not> rt_task (k_tasks k p) then k else us_uclamp_update_util_min_rt_default p k)"

definition clamp_nat :: "nat \<Rightarrow> nat \<Rightarrow> nat \<Rightarrow> nat" where
  "clamp_nat val lo hi = min (max val lo) hi"

definition uclamp_tg_restrict :: "kernel \<Rightarrow> tid \<Rightarrow> uclamp_id \<Rightarrow> uclamp_se" where
  "uclamp_tg_restrict k p clamp_id =
     (let uc_req = task_uc_req k p clamp_id;
          g = t_sched_task_group (k_tasks k p)
      in if tg_autogroup (k_tgs k g) then uc_req
         else if g = k_root_tg k then uc_req
         else let tg_min = uc_value (tg_uclamp (k_tgs k g) UCLAMP_MIN);
                  tg_max = uc_value (tg_uclamp (k_tgs k g) UCLAMP_MAX);
                  value = clamp_nat (uc_value uc_req) tg_min tg_max
              in uclamp_se_set k value False uc_req)"

definition uclamp_eff_get :: "kernel \<Rightarrow> tid \<Rightarrow> uclamp_id \<Rightarrow> uclamp_se" where
  "uclamp_eff_get k p clamp_id =
     (let uc_req = uclamp_tg_restrict k p clamp_id;
          uc_max = k_uclamp_default k clamp_id
      in if uc_value uc_max < uc_value uc_req then uc_max else uc_req)"

definition uclamp_eff_value :: "kernel \<Rightarrow> tid \<Rightarrow> uclamp_id \<Rightarrow> nat" where
  "uclamp_eff_value k p clamp_id =
     (if uc_active (task_uc k p clamp_id) then uc_value (task_uc k p clamp_id)
      else uc_value (uclamp_eff_get k p clamp_id))"

section \<open>Counting a task in and out\<close>

definition uclamp_rq_inc_id :: "cpu \<Rightarrow> tid \<Rightarrow> uclamp_id \<Rightarrow> kernel \<Rightarrow> kernel" where
  "uclamp_rq_inc_id c p clamp_id k =
     (let k = upd_task_uc p clamp_id (\<lambda>_. uclamp_eff_get k p clamp_id) k;
          b = uc_bucket_id (task_uc k p clamp_id);
          k = upd_uc_bucket c clamp_id b (\<lambda>u. u\<lparr>ub_tasks := ub_tasks u + 1\<rparr>) k;
          k = upd_task_uc p clamp_id (\<lambda>u. u\<lparr>uc_active := True\<rparr>) k;
          v = uc_value (task_uc k p clamp_id);
          k = uclamp_idle_reset c clamp_id v k;
          k = (if ub_tasks (uc_bucket k c clamp_id b) = 1 \<or> ub_value (uc_bucket k c clamp_id b) < v
               then upd_uc_bucket c clamp_id b (\<lambda>u. u\<lparr>ub_value := v\<rparr>) k else k)
      in if uclamp_rq_get k c clamp_id < v then uclamp_rq_set c clamp_id v k else k)"

definition uclamp_rq_dec_id :: "cpu \<Rightarrow> tid \<Rightarrow> uclamp_id \<Rightarrow> kernel \<Rightarrow> kernel" where
  "uclamp_rq_dec_id c p clamp_id k =
     (if \<not> uc_active (task_uc k p clamp_id) then k
      else let b = uc_bucket_id (task_uc k p clamp_id);
               k = (if ub_tasks (uc_bucket k c clamp_id b) \<noteq> 0
                    then upd_uc_bucket c clamp_id b (\<lambda>u. u\<lparr>ub_tasks := ub_tasks u - 1\<rparr>) k else k);
               k = upd_task_uc p clamp_id (\<lambda>u. u\<lparr>uc_active := False\<rparr>) k
           in if ub_tasks (uc_bucket k c clamp_id b) \<noteq> 0 then k
              else if uclamp_rq_get k c clamp_id \<le> ub_value (uc_bucket k c clamp_id b)
              then let (bkt_clamp, k) = uclamp_rq_max_value c clamp_id (uc_value (task_uc k p clamp_id)) k
                   in uclamp_rq_set c clamp_id bkt_clamp k
              else k)"

definition uclamp_enabled :: "kapi \<Rightarrow> sched_class \<Rightarrow> bool" where
  "uclamp_enabled a cls \<longleftrightarrow> cls \<noteq> yat_casched_sched_class \<and> ka_uclamp_enabled a cls"

definition uclamp_rq_inc :: "kapi \<Rightarrow> cpu \<Rightarrow> tid \<Rightarrow> kernel \<Rightarrow> kernel" where
  "uclamp_rq_inc a c p k =
     (if \<not> k_sched_uclamp_used k then k
      else if \<not> uclamp_enabled a (t_sched_class (k_tasks k p)) then k
      else let k = fold (uclamp_rq_inc_id c p) clamp_ids k
           in if uclamp_idle_flag k c then clear_uclamp_idle c k else k)"

definition uclamp_rq_dec :: "kapi \<Rightarrow> cpu \<Rightarrow> tid \<Rightarrow> kernel \<Rightarrow> kernel" where
  "uclamp_rq_dec a c p k =
     (if \<not> k_sched_uclamp_used k then k
      else if \<not> uclamp_enabled a (t_sched_class (k_tasks k p)) then k
      else fold (uclamp_rq_dec_id c p) clamp_ids k)"

definition uclamp_rq_reinc_id :: "cpu \<Rightarrow> tid \<Rightarrow> uclamp_id \<Rightarrow> kernel \<Rightarrow> kernel" where
  "uclamp_rq_reinc_id c p clamp_id k =
     (if \<not> uc_active (task_uc k p clamp_id) then k
      else let k = uclamp_rq_inc_id c p clamp_id (uclamp_rq_dec_id c p clamp_id k)
           in if clamp_id = UCLAMP_MAX \<and> uclamp_idle_flag k c then clear_uclamp_idle c k else k)"

definition uclamp_update_active :: "tid \<Rightarrow> kernel \<Rightarrow> kernel" where
  "uclamp_update_active p k = fold (uclamp_rq_reinc_id (task_cpu k p) p) clamp_ids k"

definition uclamp_update_active_tasks :: "kapi \<Rightarrow> tgid \<Rightarrow> kernel \<Rightarrow> kernel" where
  "uclamp_update_active_tasks a g k = fold uclamp_update_active (ka_css_tasks a g k) k"

end
