(* ===== verification/Uclamp_Control.thy ===== *)
theory Uclamp_Control
  imports Uclamp
begin

text \<open>
  The slow paths of utilization clamping: the effective clamps of the task group
  hierarchy, the sysctl handler, the \<open>sched_setattr\<close> path, fork and initialisation, and
  the cgroup files \<open>cpu.uclamp.min\<close> and \<open>cpu.uclamp.max\<close>.
\<close>

section \<open>The group hierarchy\<close>

definition tg_uc :: "kernel \<Rightarrow> tgid \<Rightarrow> uclamp_id \<Rightarrow> uclamp_se" where
  "tg_uc k g i = tg_uclamp (k_tgs k g) i"

definition tg_uc_req :: "kernel \<Rightarrow> tgid \<Rightarrow> uclamp_id \<Rightarrow> uclamp_se" where
  "tg_uc_req k g i = tg_uclamp_req (k_tgs k g) i"

definition upd_tg_uc :: "tgid \<Rightarrow> uclamp_id \<Rightarrow> (uclamp_se \<Rightarrow> uclamp_se) \<Rightarrow> kernel \<Rightarrow> kernel" where
  "upd_tg_uc g i f = upd_tg g (\<lambda>t. t\<lparr>tg_uclamp := (tg_uclamp t)(i := f (tg_uclamp t i))\<rparr>)"

definition upd_tg_uc_req :: "tgid \<Rightarrow> uclamp_id \<Rightarrow> (uclamp_se \<Rightarrow> uclamp_se) \<Rightarrow> kernel \<Rightarrow> kernel" where
  "upd_tg_uc_req g i f =
     upd_tg g (\<lambda>t. t\<lparr>tg_uclamp_req := (tg_uclamp_req t)(i := f (tg_uclamp_req t i))\<rparr>)"

text \<open>The two effective values of one group, from its request and its parent.\<close>

definition tg_eff_raw :: "kernel \<Rightarrow> tgid \<Rightarrow> uclamp_id \<Rightarrow> nat" where
  "tg_eff_raw k g i =
     (let eff = uc_value (tg_uc_req k g i)
      in case tg_parent (k_tgs k g) of
           None \<Rightarrow> eff
         | Some q \<Rightarrow> if uc_value (tg_uc k q i) < eff then uc_value (tg_uc k q i) else eff)"

definition tg_eff :: "kernel \<Rightarrow> tgid \<Rightarrow> uclamp_id \<Rightarrow> nat" where
  "tg_eff k g i =
     (if i = UCLAMP_MIN then min (tg_eff_raw k g UCLAMP_MIN) (tg_eff_raw k g UCLAMP_MAX)
      else tg_eff_raw k g i)"

definition tg_set_eff :: "tgid \<Rightarrow> (uclamp_id \<Rightarrow> nat) \<Rightarrow> uclamp_id \<Rightarrow> kernel \<Rightarrow> kernel" where
  "tg_set_eff g eff i k =
     (if eff i = uc_value (tg_uc k g i) then k
      else upd_tg_uc g i (\<lambda>u. u\<lparr>uc_value := eff i, uc_bucket_id := uclamp_bucket_id k (eff i)\<rparr>) k)"

text \<open>
  The pre-order walk over the descendants of \<open>css\<close>, which skips the subtree of a group
  whose effective clamps do not change.  \<open>n\<close> bounds the depth of the walk.
\<close>

primrec cpu_util_update_eff :: "kapi \<Rightarrow> nat \<Rightarrow> tgid \<Rightarrow> kernel \<Rightarrow> kernel" where
  "cpu_util_update_eff a 0 = (\<lambda>css k. k)"
| "cpu_util_update_eff a (Suc n) = (\<lambda>css k.
     let eff = tg_eff k css;
         changed = (\<exists>i \<in> set clamp_ids. eff i \<noteq> uc_value (tg_uc k css i));
         k1 = fold (tg_set_eff css eff) clamp_ids k
     in if \<not> changed then k1
        else fold (cpu_util_update_eff a n) (tg_children (k_tgs k1 css))
               (uclamp_update_active_tasks a css k1))"

definition uclamp_update_root_tg :: "kapi \<Rightarrow> kernel \<Rightarrow> kernel" where
  "uclamp_update_root_tg a k =
     (let g = k_root_tg k;
          k = upd_tg_uc_req g UCLAMP_MIN
                (uclamp_se_set k (unat (k_sysctl_uclamp_util_min k)) False) k;
          k = upd_tg_uc_req g UCLAMP_MAX
                (uclamp_se_set k (unat (k_sysctl_uclamp_util_max k)) False) k
      in cpu_util_update_eff a (k_tg_depth k) g k)"

section \<open>The sysctl handler\<close>

definition uclamp_sync_util_min_rt_default :: "kapi \<Rightarrow> kernel \<Rightarrow> kernel" where
  "uclamp_sync_util_min_rt_default a k =
     fold uclamp_update_util_min_rt_default (ka_process_threads a k) k"

type_synonym uclamp_sysctls = "u32 \<times> u32 \<times> u32"

definition get_uclamp_sysctls :: "kernel \<Rightarrow> uclamp_sysctls" where
  "get_uclamp_sysctls k = (k_sysctl_uclamp_util_min k, k_sysctl_uclamp_util_max k,
                           k_sysctl_uclamp_util_min_rt_default k)"

definition set_uclamp_sysctls :: "uclamp_sysctls \<Rightarrow> kernel \<Rightarrow> kernel" where
  "set_uclamp_sysctls v k = (case v of (lo, hi, rt) \<Rightarrow>
     k\<lparr>k_sysctl_uclamp_util_min := lo, k_sysctl_uclamp_util_max := hi,
       k_sysctl_uclamp_util_min_rt_default := rt\<rparr>)"

definition set_uclamp_default :: "uclamp_id \<Rightarrow> nat \<Rightarrow> kernel \<Rightarrow> kernel" where
  "set_uclamp_default i v k =
     k\<lparr>k_uclamp_default := (k_uclamp_default k)
         (i := uclamp_se_set k v False (k_uclamp_default k i))\<rparr>"

definition uclamp_used_enable :: "kernel \<Rightarrow> kernel" where
  "uclamp_used_enable k = k\<lparr>k_sched_uclamp_used := True\<rparr>"

text \<open>
  \<open>proc\<close> stands for \<open>proc_dointvec\<close> on the table: its result and the three knobs after
  the call.  The handler's result is 0 or \<open>-errno\<close>.
\<close>

definition sysctl_sched_uclamp_handler ::
  "kapi \<Rightarrow> bool \<Rightarrow> (uclamp_sysctls \<Rightarrow> int \<times> uclamp_sysctls) \<Rightarrow> kernel \<Rightarrow> int \<times> kernel" where
  "sysctl_sched_uclamp_handler a write proc k =
     (let old = get_uclamp_sysctls k;
          (old_min, old_max, old_min_rt) = old;
          (result, new) = proc old;
          k1 = set_uclamp_sysctls new k
      in if result \<noteq> 0 then (result, set_uclamp_sysctls old k1)
         else if \<not> write then (0, k1)
         else let (lo, hi, rt) = new
           in if hi < lo \<or> SCHED_CAPACITY_SCALE < unat hi \<or> SCHED_CAPACITY_SCALE < unat rt
              then (- EINVAL, set_uclamp_sysctls old k1)
              else let k2 = (if old_min \<noteq> lo then set_uclamp_default UCLAMP_MIN (unat lo) k1 else k1);
                       k3 = (if old_max \<noteq> hi then set_uclamp_default UCLAMP_MAX (unat hi) k2 else k2);
                       k4 = (if old_min \<noteq> lo \<or> old_max \<noteq> hi
                             then uclamp_update_root_tg a (uclamp_used_enable k3) else k3);
                       k5 = (if old_min_rt \<noteq> rt
                             then uclamp_sync_util_min_rt_default a (uclamp_used_enable k4) else k4)
                   in (0, k5))"

section \<open>\<open>sched_setattr\<close>\<close>

text \<open>
  \<open>util_min\<close> and \<open>util_max\<close> are C \<open>int\<close>s: 32-bit words read by \<open>sint\<close>, and
  \<open>util_min + 1\<close> wraps (the kernel is built with \<open>-fno-strict-overflow\<close>).
\<close>

definition uclamp_out_of_range :: "u32 \<Rightarrow> bool" where
  "uclamp_out_of_range u \<longleftrightarrow> int SCHED_CAPACITY_SCALE + 1 < sint (u + 1)"

definition uclamp_validate :: "tid \<Rightarrow> sched_attr \<Rightarrow> kernel \<Rightarrow> int \<times> kernel" where
  "uclamp_validate p attr k =
     (let set_min = test_flag (sa_flags attr) SCHED_FLAG_UTIL_CLAMP_MIN;
          set_max = test_flag (sa_flags attr) SCHED_FLAG_UTIL_CLAMP_MAX;
          util_min = (if set_min then sa_util_min attr
                      else of_nat (uc_value (task_uc_req k p UCLAMP_MIN)));
          util_max = (if set_max then sa_util_max attr
                      else of_nat (uc_value (task_uc_req k p UCLAMP_MAX)))
      in if set_min \<and> uclamp_out_of_range util_min then (- EINVAL, k)
         else if set_max \<and> uclamp_out_of_range util_max then (- EINVAL, k)
         else if util_min \<noteq> -1 \<and> util_max \<noteq> -1 \<and> sint util_max < sint util_min then (- EINVAL, k)
         else (0, uclamp_used_enable k))"

definition uclamp_reset :: "sched_attr \<Rightarrow> uclamp_id \<Rightarrow> uclamp_se \<Rightarrow> bool" where
  "uclamp_reset attr clamp_id uc_se \<longleftrightarrow>
     \<not> test_flag (sa_flags attr) SCHED_FLAG_UTIL_CLAMP \<and> \<not> uc_user_defined uc_se \<or>
     clamp_id = UCLAMP_MIN \<and> test_flag (sa_flags attr) SCHED_FLAG_UTIL_CLAMP_MIN \<and>
       sa_util_min attr = -1 \<or>
     clamp_id = UCLAMP_MAX \<and> test_flag (sa_flags attr) SCHED_FLAG_UTIL_CLAMP_MAX \<and>
       sa_util_max attr = -1"

definition setscheduler_uclamp_reset :: "tid \<Rightarrow> sched_attr \<Rightarrow> uclamp_id \<Rightarrow> kernel \<Rightarrow> kernel" where
  "setscheduler_uclamp_reset p attr clamp_id k =
     (if \<not> uclamp_reset attr clamp_id (task_uc_req k p clamp_id) then k
      else let value = (if rt_task (k_tasks k p) \<and> clamp_id = UCLAMP_MIN
                        then unat (k_sysctl_uclamp_util_min_rt_default k)
                        else uclamp_none clamp_id)
           in upd_task_uc_req p clamp_id (uclamp_se_set k value False) k)"

definition us_setscheduler_uclamp :: "tid \<Rightarrow> sched_attr \<Rightarrow> kernel \<Rightarrow> kernel" where
  "us_setscheduler_uclamp p attr k =
     (let k1 = fold (setscheduler_uclamp_reset p attr) clamp_ids k
      in if \<not> test_flag (sa_flags attr) SCHED_FLAG_UTIL_CLAMP then k1
         else let k2 = (if test_flag (sa_flags attr) SCHED_FLAG_UTIL_CLAMP_MIN \<and> sa_util_min attr \<noteq> -1
                        then upd_task_uc_req p UCLAMP_MIN
                               (uclamp_se_set k1 (unat (sa_util_min attr)) True) k1 else k1)
              in if test_flag (sa_flags attr) SCHED_FLAG_UTIL_CLAMP_MAX \<and> sa_util_max attr \<noteq> -1
                 then upd_task_uc_req p UCLAMP_MAX
                        (uclamp_se_set k2 (unat (sa_util_max attr)) True) k2 else k2)"

section \<open>Fork and initialisation\<close>

definition uclamp_fork :: "tid \<Rightarrow> kernel \<Rightarrow> kernel" where
  "uclamp_fork p k =
     (let k1 = fold (\<lambda>i. upd_task_uc p i (\<lambda>u. u\<lparr>uc_active := False\<rparr>)) clamp_ids k
      in if \<not> t_sched_reset_on_fork (k_tasks k1 p) then k1
         else fold (\<lambda>i k. upd_task_uc_req p i (uclamp_se_set k (uclamp_none i) False) k) clamp_ids k1)"

definition uclamp_post_fork :: "tid \<Rightarrow> kernel \<Rightarrow> kernel" where
  "uclamp_post_fork p = uclamp_update_util_min_rt_default p"

definition init_uclamp_rq :: "cpu \<Rightarrow> kernel \<Rightarrow> kernel" where
  "init_uclamp_rq c k =
     upd_rq c (\<lambda>r. r\<lparr>rq_uclamp_flags := UCLAMP_FLAG_IDLE\<rparr>)
       (fold (\<lambda>i. upd_uc_rq c i (\<lambda>u. \<lparr>ucrq_value = uclamp_none i,
                    ucrq_bucket = (\<lambda>_. \<lparr>ub_value = 0, ub_tasks = 0\<rparr>)\<rparr>)) clamp_ids k)"

text \<open>\<open>init\<close> is \<open>init_task\<close>; \<open>uc_max\<close> starts zeroed.\<close>

definition init_uclamp :: "tid \<Rightarrow> kernel \<Rightarrow> kernel" where
  "init_uclamp init k =
     (let k1 = fold init_uclamp_rq (for_each_cpu k (k_possible k)) k;
          k2 = fold (\<lambda>i k. upd_task_uc_req init i (uclamp_se_set k (uclamp_none i) False) k) clamp_ids k1;
          uc_max = uclamp_se_set k2 (uclamp_none UCLAMP_MAX) False
                     \<lparr>uc_value = 0, uc_bucket_id = 0, uc_active = False, uc_user_defined = False\<rparr>
      in fold (\<lambda>i k. upd_tg_uc (k_root_tg k) i (\<lambda>_. uc_max)
                 (upd_tg_uc_req (k_root_tg k) i (\<lambda>_. uc_max)
                   (k\<lparr>k_uclamp_default := (k_uclamp_default k)(i := uc_max)\<rparr>))) clamp_ids k2)"

section \<open>The cgroup files\<close>

definition UCLAMP_PERCENT_SHIFT :: nat where "UCLAMP_PERCENT_SHIFT = 2"
definition POW10 :: "nat \<Rightarrow> nat" where "POW10 n = 10 ^ n"
definition UCLAMP_PERCENT_SCALE :: nat where
  "UCLAMP_PERCENT_SCALE = 100 * POW10 UCLAMP_PERCENT_SHIFT"

record uclamp_request =
  ucr_percent :: u64
  ucr_util :: u64
  ucr_ret :: int

definition capacity_from_percent :: "kapi \<Rightarrow> string \<Rightarrow> uclamp_request" where
  "capacity_from_percent a buf =
     (let req = \<lparr>ucr_percent = of_nat UCLAMP_PERCENT_SCALE, ucr_util = of_nat SCHED_CAPACITY_SCALE,
                 ucr_ret = 0\<rparr>;
          buf = ka_strim a buf
      in if buf = ''max'' then req
         else let (ret, percent) = ka_cgroup_parse_float a buf UCLAMP_PERCENT_SHIFT
           in if ret \<noteq> 0 then req\<lparr>ucr_ret := ret, ucr_percent := percent\<rparr>
              else if of_nat UCLAMP_PERCENT_SCALE < percent
              then req\<lparr>ucr_ret := - ERANGE, ucr_percent := percent\<rparr>
              else req\<lparr>ucr_percent := percent,
                       ucr_util := (push_bit SCHED_CAPACITY_SHIFT percent +
                                    of_nat UCLAMP_PERCENT_SCALE div 2) div
                                   of_nat UCLAMP_PERCENT_SCALE\<rparr>)"

definition cpu_uclamp_write ::
  "kapi \<Rightarrow> tgid \<Rightarrow> string \<Rightarrow> nat \<Rightarrow> uclamp_id \<Rightarrow> kernel \<Rightarrow> int \<times> kernel" where
  "cpu_uclamp_write a tg buf nbytes clamp_id k =
     (let req = capacity_from_percent a buf
      in if ucr_ret req \<noteq> 0 then (ucr_ret req, k)
         else let k1 = uclamp_used_enable k;
                  k2 = (if uc_value (tg_uc_req k1 tg clamp_id) \<noteq> unat (ucr_util req)
                        then upd_tg_uc_req tg clamp_id
                               (uclamp_se_set k1 (unat (ucr_util req)) False) k1 else k1);
                  k3 = upd_tg tg (\<lambda>t. t\<lparr>tg_uclamp_pct := (tg_uclamp_pct t)
                                    (clamp_id := ucr_percent req)\<rparr>) k2
              in (int nbytes, cpu_util_update_eff a (k_tg_depth k3) tg k3))"

definition cpu_uclamp_min_write where
  "cpu_uclamp_min_write a tg buf nbytes k = cpu_uclamp_write a tg buf nbytes UCLAMP_MIN k"

definition cpu_uclamp_max_write where
  "cpu_uclamp_max_write a tg buf nbytes k = cpu_uclamp_write a tg buf nbytes UCLAMP_MAX k"

text \<open>\<open>%llu\<close>, and \<open>%0*u\<close> padded to a width.\<close>

fun show_dec :: "nat \<Rightarrow> string" where
  "show_dec n = (if n < 10 then [char_of (48 + n)]
                 else show_dec (n div 10) @ [char_of (48 + n mod 10)])"

declare show_dec.simps [simp del]

definition show_dec_pad :: "nat \<Rightarrow> nat \<Rightarrow> string" where
  "show_dec_pad w n = replicate (w - length (show_dec n)) (char_of (48 :: nat)) @ show_dec n"

definition cpu_uclamp_print :: "tgid \<Rightarrow> uclamp_id \<Rightarrow> kernel \<Rightarrow> string" where
  "cpu_uclamp_print tg clamp_id k =
     (if uc_value (tg_uc_req k tg clamp_id) = SCHED_CAPACITY_SCALE then ''max'' @ [char_of (10 :: nat)]
      else let percent = unat (tg_uclamp_pct (k_tgs k tg) clamp_id)
           in show_dec (percent div POW10 UCLAMP_PERCENT_SHIFT) @ ''.'' @
              show_dec_pad UCLAMP_PERCENT_SHIFT (percent mod POW10 UCLAMP_PERCENT_SHIFT) @
              [char_of (10 :: nat)])"

definition cpu_uclamp_min_show where
  "cpu_uclamp_min_show tg k = cpu_uclamp_print tg UCLAMP_MIN k"

definition cpu_uclamp_max_show where
  "cpu_uclamp_max_show tg k = cpu_uclamp_print tg UCLAMP_MAX k"

end
