(* ===== verification/Uclamp_Lemmas.thy ===== *)
theory Uclamp_Lemmas
  imports Uclamp_Control
begin

text \<open>
  The invariant of the clamp buckets of a run queue: each bucket counts exactly the tasks
  accounted in it, its value bounds theirs, and the run queue's clamp is the largest
  value of a non-empty bucket.  \<open>R\<close> is the set of tasks counted on the queue.
\<close>

section \<open>Accessors after updates\<close>

lemma task_uc_upd [simp]:
  "task_uc (upd_task_uc p i f k) q j =
     (if q = p \<and> j = i then f (task_uc k p i) else task_uc k q j)"
  "task_uc (upd_uc_rq c i g k) q j = task_uc k q j" "task_uc (upd_rq c h k) q j = task_uc k q j"
  "task_uc (upd_uc_bucket c i b e k) q j = task_uc k q j"
  "task_uc (uclamp_rq_set c i v k) q j = task_uc k q j"
  by (simp_all add: task_uc_def upd_task_uc_def upd_uc_rq_def upd_uc_bucket_def uclamp_rq_set_def)

lemma uc_rq_upd [simp]:
  "uc_bucket (upd_uc_bucket c i b e k) d j x =
     (if d = c \<and> j = i \<and> x = b then e (uc_bucket k c i b) else uc_bucket k d j x)"
  "uc_bucket (upd_task_uc p i f k) d j x = uc_bucket k d j x"
  "uc_bucket (uclamp_rq_set c i v k) d j x = uc_bucket k d j x"
  "uclamp_rq_get (upd_uc_bucket c i b e k) d j = uclamp_rq_get k d j"
  "uclamp_rq_get (upd_task_uc p i f k) d j = uclamp_rq_get k d j"
  "uclamp_rq_get (uclamp_rq_set c i v k) d j = (if d = c \<and> j = i then v else uclamp_rq_get k d j)"
  by (auto simp: uc_bucket_def uc_rq_def uclamp_rq_get_def upd_uc_bucket_def upd_uc_rq_def
      upd_task_uc_def uclamp_rq_set_def)

lemma uclamp_flag_upd [simp]:
  "uclamp_idle_flag (upd_uc_bucket c i b e k) d = uclamp_idle_flag k d"
  "uclamp_idle_flag (upd_task_uc p i f k) d = uclamp_idle_flag k d"
  "uclamp_idle_flag (uclamp_rq_set c i v k) d = uclamp_idle_flag k d"
  "uclamp_idle_flag (set_uclamp_idle c k) d \<longleftrightarrow> d = c \<or> uclamp_idle_flag k d"
  "uclamp_idle_flag (clear_uclamp_idle c k) d \<longleftrightarrow> d \<noteq> c \<and> uclamp_idle_flag k d"
  by (auto simp: uclamp_idle_flag_def upd_uc_bucket_def upd_uc_rq_def upd_task_uc_def
      uclamp_rq_set_def set_uclamp_idle_def clear_uclamp_idle_def UCLAMP_FLAG_IDLE_def)

lemma uclamp_idle_acc [simp]:
  "task_uc (set_uclamp_idle c k) q j = task_uc k q j"
  "uc_bucket (set_uclamp_idle c k) d j x = uc_bucket k d j x"
  "uclamp_rq_get (set_uclamp_idle c k) d j = uclamp_rq_get k d j"
  "task_uc (clear_uclamp_idle c k) q j = task_uc k q j"
  "uc_bucket (clear_uclamp_idle c k) d j x = uc_bucket k d j x"
  "uclamp_rq_get (clear_uclamp_idle c k) d j = uclamp_rq_get k d j"
  by (simp_all add: set_uclamp_idle_def clear_uclamp_idle_def uc_bucket_def uc_rq_def
      uclamp_rq_get_def task_uc_def)

text \<open>Everything the effective clamp of a task depends on, and the parts left alone.\<close>

lemma uclamp_upd_env [simp]:
  "uclamp_eff_get (upd_task_uc p i f k) q j = uclamp_eff_get k q j"
  "uclamp_eff_get (upd_rq c h k) q j = uclamp_eff_get k q j"
  "k_uclamp_buckets (upd_uc_bucket c i b e k) = k_uclamp_buckets k"
  "k_uclamp_buckets (upd_task_uc p i f k) = k_uclamp_buckets k"
  "k_uclamp_buckets (uclamp_rq_set c i v k) = k_uclamp_buckets k"
  "k_uclamp_buckets (set_uclamp_idle c k) = k_uclamp_buckets k"
  by (simp_all add: uclamp_eff_get_def uclamp_tg_restrict_def task_uc_req_def upd_task_uc_def
      upd_uc_bucket_def upd_uc_rq_def uclamp_rq_set_def set_uclamp_idle_def uclamp_se_set_def
      uclamp_bucket_id_def UCLAMP_BUCKET_DELTA_def Let_def)

lemma uclamp_eff_get_rq [simp]:
  "uclamp_eff_get (upd_uc_bucket c i b e k) q j = uclamp_eff_get k q j"
  "uclamp_eff_get (uclamp_rq_set c i v k) q j = uclamp_eff_get k q j"
  "uclamp_eff_get (set_uclamp_idle c k) q j = uclamp_eff_get k q j"
  by (simp_all add: upd_uc_bucket_def upd_uc_rq_def uclamp_rq_set_def set_uclamp_idle_def)

lemma uclamp_upd_frame [simp]:
  "t_sched_class (k_tasks (upd_task_uc p i f k) q) = t_sched_class (k_tasks k q)"
  "k_tasks (upd_uc_bucket c i b e k) = k_tasks k" "k_tasks (uclamp_rq_set c i v k) = k_tasks k"
  "k_tasks (set_uclamp_idle c k) = k_tasks k" "k_tasks (clear_uclamp_idle c k) = k_tasks k"
  "k_sched_uclamp_used (upd_task_uc p i f k) = k_sched_uclamp_used k"
  "k_sched_uclamp_used (upd_uc_bucket c i b e k) = k_sched_uclamp_used k"
  "k_sched_uclamp_used (uclamp_rq_set c i v k) = k_sched_uclamp_used k"
  "k_sched_uclamp_used (set_uclamp_idle c k) = k_sched_uclamp_used k"
  "k_sched_uclamp_used (clear_uclamp_idle c k) = k_sched_uclamp_used k"
  by (simp_all add: upd_task_uc_def upd_uc_bucket_def upd_uc_rq_def uclamp_rq_set_def
      set_uclamp_idle_def clear_uclamp_idle_def)

lemma uclamp_bucket_id_cong: "k_uclamp_buckets k' = k_uclamp_buckets k \<Longrightarrow>
    uclamp_bucket_id k' = uclamp_bucket_id k"
  by (rule ext) (simp add: uclamp_bucket_id_def UCLAMP_BUCKET_DELTA_def)

section \<open>What the two counting steps do\<close>

lemma uclamp_rq_inc_id_spec:
  fixes k p i c
  defines "e \<equiv> uclamp_eff_get k p i"
  defines "k' \<equiv> uclamp_rq_inc_id c p i k"
  shows "task_uc k' q j = (if q = p \<and> j = i then e\<lparr>uc_active := True\<rparr> else task_uc k q j)"
    and "ub_tasks (uc_bucket k' d j b) = ub_tasks (uc_bucket k d j b) +
           (if d = c \<and> j = i \<and> b = uc_bucket_id e then 1 else 0)"
    and "ub_value (uc_bucket k' d j b) =
           (if d = c \<and> j = i \<and> b = uc_bucket_id e \<and>
               (ub_tasks (uc_bucket k c i b) = 0 \<or> ub_value (uc_bucket k c i b) < uc_value e)
            then uc_value e else ub_value (uc_bucket k d j b))"
    and "uclamp_rq_get k' d j =
           (if d = c \<and> j = i
            then if uclamp_idle_flag k c then uc_value e else max (uclamp_rq_get k c i) (uc_value e)
            else uclamp_rq_get k d j)"
    and "uclamp_idle_flag k' d = uclamp_idle_flag k d"
    and "k_uclamp_buckets k' = k_uclamp_buckets k"
    and "uclamp_eff_get k' q j = uclamp_eff_get k q j"
  unfolding e_def k'_def
  by (auto simp: uclamp_rq_inc_id_def uclamp_idle_reset_def Let_def)

lemma uclamp_rq_dec_id_inactive:
  "\<not> uc_active (task_uc k p i) \<Longrightarrow> uclamp_rq_dec_id c p i k = k"
  by (simp add: uclamp_rq_dec_id_def)

lemma top_bucket_value_cong:
  "(\<And>b. b < n \<Longrightarrow> f b = g b) \<Longrightarrow> top_bucket_value f n = top_bucket_value g n"
  by (induction n) simp_all

lemma top_bucket_value_None: "top_bucket_value f n = None \<longleftrightarrow> (\<forall>b < n. ub_tasks (f b) = 0)"
  by (induction n) (auto simp: less_Suc_eq)

lemma top_bucket_value_Some:
  "top_bucket_value f n = Some v \<longleftrightarrow>
     (\<exists>b < n. ub_tasks (f b) \<noteq> 0 \<and> ub_value (f b) = v \<and> (\<forall>x. b < x \<and> x < n \<longrightarrow> ub_tasks (f x) = 0))"
proof (induction n)
  case (Suc n)
  then show ?case
    by (cases "ub_tasks (f n) = 0") (auto simp: less_Suc_eq)
qed simp

lemma uclamp_rq_dec_id_spec:
  fixes k p i c
  assumes "uc_active (task_uc k p i)"
  defines "u \<equiv> task_uc k p i"
  defines "left \<equiv> ub_tasks (uc_bucket k c i (uc_bucket_id u)) - 1"
  defines "tb \<equiv> top_bucket_value
     ((uc_bucket k c i)(uc_bucket_id u := (uc_bucket k c i (uc_bucket_id u))\<lparr>ub_tasks := left\<rparr>))
     (k_uclamp_buckets k)"
  defines "retop \<equiv> left = 0 \<and> uclamp_rq_get k c i \<le> ub_value (uc_bucket k c i (uc_bucket_id u))"
  defines "k' \<equiv> uclamp_rq_dec_id c p i k"
  shows "task_uc k' q j = (if q = p \<and> j = i then u\<lparr>uc_active := False\<rparr> else task_uc k q j)"
    and "uc_bucket k' d j b =
           (if d = c \<and> j = i \<and> b = uc_bucket_id u then (uc_bucket k c i b)\<lparr>ub_tasks := left\<rparr>
            else uc_bucket k d j b)"
    and "uclamp_rq_get k' d j =
           (if d = c \<and> j = i \<and> retop
            then case tb of Some v \<Rightarrow> v
                 | None \<Rightarrow> if i = UCLAMP_MAX then uc_value u else uclamp_none UCLAMP_MIN
            else uclamp_rq_get k d j)"
    and "uclamp_idle_flag k' d \<longleftrightarrow>
           uclamp_idle_flag k d \<or> d = c \<and> i = UCLAMP_MAX \<and> retop \<and> tb = None"
    and "k_uclamp_buckets k' = k_uclamp_buckets k"
proof -
  define k1 where "k1 = upd_task_uc p i (\<lambda>u. u\<lparr>uc_active := False\<rparr>)
     (if ub_tasks (uc_bucket k c i (uc_bucket_id u)) \<noteq> 0
      then upd_uc_bucket c i (uc_bucket_id u) (\<lambda>u. u\<lparr>ub_tasks := ub_tasks u - 1\<rparr>) k else k)"
  have b: "uc_bucket k1 d j b =
           (if d = c \<and> j = i \<and> b = uc_bucket_id u then (uc_bucket k c i b)\<lparr>ub_tasks := left\<rparr>
            else uc_bucket k d j b)" for d j b
    by (simp add: k1_def left_def)
  have t: "task_uc k1 q j = (if q = p \<and> j = i then u\<lparr>uc_active := False\<rparr> else task_uc k q j)"
    "uclamp_rq_get k1 d j = uclamp_rq_get k d j" "uclamp_idle_flag k1 d = uclamp_idle_flag k d"
    "k_uclamp_buckets k1 = k_uclamp_buckets k" for q d j
    by (simp_all add: k1_def u_def)
  have tb: "top_bucket_value (uc_bucket k1 c i) (k_uclamp_buckets k) = tb"
    unfolding tb_def by (rule top_bucket_value_cong) (simp add: b)
  have "k' = (if \<not> retop then k1
      else let (v, k) = uclamp_rq_max_value c i (uc_value (task_uc k1 p i)) k1 in uclamp_rq_set c i v k)"
    using assms(1) unfolding k'_def uclamp_rq_dec_id_def Let_def u_def [symmetric] k1_def [symmetric]
    by (simp add: retop_def b t)
  then have k': "k' = (if \<not> retop then k1 else case tb of Some v \<Rightarrow> uclamp_rq_set c i v k1
      | None \<Rightarrow> if i = UCLAMP_MAX then uclamp_rq_set c i (uc_value u) (set_uclamp_idle c k1)
                else uclamp_rq_set c i (uclamp_none UCLAMP_MIN) k1)"
    by (simp add: uclamp_rq_max_value_def t tb uclamp_idle_value_def split: option.split)
  show "task_uc k' q j = (if q = p \<and> j = i then u\<lparr>uc_active := False\<rparr> else task_uc k q j)"
    unfolding k' by (simp add: t split: option.split)
  show "uc_bucket k' d j b =
           (if d = c \<and> j = i \<and> b = uc_bucket_id u then (uc_bucket k c i b)\<lparr>ub_tasks := left\<rparr>
            else uc_bucket k d j b)"
    unfolding k' by (simp add: b split: option.split)
  show "uclamp_rq_get k' d j =
           (if d = c \<and> j = i \<and> retop
            then case tb of Some v \<Rightarrow> v
                 | None \<Rightarrow> if i = UCLAMP_MAX then uc_value u else uclamp_none UCLAMP_MIN
            else uclamp_rq_get k d j)"
    unfolding k' by (simp add: t split: option.split)
  show "uclamp_idle_flag k' d \<longleftrightarrow>
           uclamp_idle_flag k d \<or> d = c \<and> i = UCLAMP_MAX \<and> retop \<and> tb = None"
    unfolding k' by (auto simp: t split: option.split)
  show "k_uclamp_buckets k' = k_uclamp_buckets k"
    unfolding k' by (simp add: t split: option.split)
qed

end
