(* ===== verification/Uclamp_Correct.thy ===== *)
theory Uclamp_Correct
  imports Uclamp_Lemmas
begin

text \<open>
  The properties of utilization clamping: counting a task in and out keeps the buckets and
  the run queue's clamp right, effective clamps respect groups and system defaults, the
  cgroup files print what was written, and where the range check of \<open>sched_setattr\<close> fails.
\<close>

section \<open>Buckets\<close>

definition uc_consistent :: "kernel \<Rightarrow> uclamp_se \<Rightarrow> bool" where
  "uc_consistent k u \<longleftrightarrow> uc_bucket_id u = uclamp_bucket_id k (uc_value u)"

definition uc_in_bucket :: "kernel \<Rightarrow> tid set \<Rightarrow> uclamp_id \<Rightarrow> nat \<Rightarrow> tid set" where
  "uc_in_bucket k R i b = {p \<in> R. uc_bucket_id (task_uc k p i) = b}"

definition ucl_ok :: "kernel \<Rightarrow> tid set \<Rightarrow> cpu \<Rightarrow> uclamp_id \<Rightarrow> bool" where
  "ucl_ok k R c i \<longleftrightarrow> finite R \<and>
     (\<forall>p \<in> R. uc_active (task_uc k p i) \<and> uc_consistent k (task_uc k p i) \<and>
        uc_value (task_uc k p i) \<le> ub_value (uc_bucket k c i (uc_bucket_id (task_uc k p i)))) \<and>
     (\<forall>b. ub_tasks (uc_bucket k c i b) = card (uc_in_bucket k R i b)) \<and>
     (\<forall>b. 0 < ub_tasks (uc_bucket k c i b) \<longrightarrow>
        uclamp_bucket_id k (ub_value (uc_bucket k c i b)) = b \<and>
        ub_value (uc_bucket k c i b) \<le> uclamp_rq_get k c i) \<and>
     (R \<noteq> {} \<longrightarrow> (\<exists>b. 0 < ub_tasks (uc_bucket k c i b) \<and>
        uclamp_rq_get k c i = ub_value (uc_bucket k c i b)))"

definition uclamp_inv :: "kernel \<Rightarrow> tid set \<Rightarrow> cpu \<Rightarrow> bool" where
  "uclamp_inv k R c \<longleftrightarrow> 0 < k_uclamp_buckets k \<and> k_uclamp_buckets k \<le> 20 \<and>
     (\<forall>i. ucl_ok k R c i) \<and> (uclamp_idle_flag k c \<longleftrightarrow> R = {})"

lemma uclamp_bucket_id_mono: "v \<le> w \<Longrightarrow> uclamp_bucket_id k v \<le> uclamp_bucket_id k w"
  unfolding uclamp_bucket_id_def by (intro min.mono div_le_mono) simp_all

lemma uclamp_bucket_id_less: "0 < k_uclamp_buckets k \<Longrightarrow> uclamp_bucket_id k v < k_uclamp_buckets k"
  by (auto simp: uclamp_bucket_id_def min_def)

lemma ucl_okD:
  assumes "ucl_ok k R c i"
  shows "finite R" "\<And>p. p \<in> R \<Longrightarrow> uc_active (task_uc k p i)"
    and "\<And>p. p \<in> R \<Longrightarrow> uc_consistent k (task_uc k p i)"
    and "\<And>p. p \<in> R \<Longrightarrow> uc_value (task_uc k p i) \<le>
           ub_value (uc_bucket k c i (uc_bucket_id (task_uc k p i)))"
    and "\<And>b. ub_tasks (uc_bucket k c i b) = card (uc_in_bucket k R i b)"
    and "\<And>b. 0 < ub_tasks (uc_bucket k c i b) \<Longrightarrow>
           uclamp_bucket_id k (ub_value (uc_bucket k c i b)) = b"
    and "\<And>b. 0 < ub_tasks (uc_bucket k c i b) \<Longrightarrow>
           ub_value (uc_bucket k c i b) \<le> uclamp_rq_get k c i"
    and "R \<noteq> {} \<Longrightarrow> \<exists>b. 0 < ub_tasks (uc_bucket k c i b) \<and>
           uclamp_rq_get k c i = ub_value (uc_bucket k c i b)"
  using assms unfolding ucl_ok_def by blast+

text \<open>Nothing that \<open>ucl_ok\<close> reads has changed.\<close>

lemma ucl_ok_cong:
  assumes "ucl_ok k R c i" "k_uclamp_buckets k' = k_uclamp_buckets k"
    and "\<And>p. p \<in> R \<Longrightarrow> task_uc k' p i = task_uc k p i"
    and "\<And>b. uc_bucket k' c i b = uc_bucket k c i b" "uclamp_rq_get k' c i = uclamp_rq_get k c i"
  shows "ucl_ok k' R c i"
proof -
  have "uc_in_bucket k' R i b = uc_in_bucket k R i b" for b
    using assms(3) by (auto simp: uc_in_bucket_def)
  then show ?thesis
    using assms by (auto simp: ucl_ok_def uc_consistent_def uclamp_bucket_id_cong [OF assms(2)])
qed

lemma ucl_ok_inc:
  assumes ok: "ucl_ok k R c i" and p: "p \<notin> R" and idle: "uclamp_idle_flag k c \<longleftrightarrow> R = {}"
    and cons: "uc_consistent k (uclamp_eff_get k p i)"
  shows "ucl_ok (uclamp_rq_inc_id c p i k) (insert p R) c i"
proof -
  let ?k = "uclamp_rq_inc_id c p i k" and ?e = "uclamp_eff_get k p i"
  let ?b = "uc_bucket_id ?e" and ?v = "uc_value ?e"
  note d = ucl_okD [OF ok] and s = uclamp_rq_inc_id_spec [of c p i k]
  have bid: "uclamp_bucket_id ?k = uclamp_bucket_id k" by (rule uclamp_bucket_id_cong [OF s(6)])
  have inb: "uc_in_bucket ?k (insert p R) i b =
      (if b = ?b then insert p (uc_in_bucket k R i b) else uc_in_bucket k R i b)" for b
    using p by (auto simp: uc_in_bucket_def s(1))
  have tasks: "ub_tasks (uc_bucket ?k c i b) = card (uc_in_bucket ?k (insert p R) i b)" for b
    using p d(1) by (simp add: s(2) inb d(5)) (simp add: uc_in_bucket_def)
  have R: "R \<noteq> {}" if "0 < ub_tasks (uc_bucket k c i b)" for b
    using that by (auto simp: d(5) uc_in_bucket_def)
  have nonempty: "0 < ub_tasks (uc_bucket ?k c i b) \<longleftrightarrow> b = ?b \<or> 0 < ub_tasks (uc_bucket k c i b)" for b
    by (simp add: s(2))
  have rq: "uclamp_rq_get ?k c i = (if R = {} then ?v else max (uclamp_rq_get k c i) ?v)"
    by (simp add: s(4) idle)
  have val: "ub_value (uc_bucket ?k c i b) =
      (if b = ?b \<and> (ub_tasks (uc_bucket k c i b) = 0 \<or> ub_value (uc_bucket k c i b) < ?v)
       then ?v else ub_value (uc_bucket k c i b))" for b
    by (auto simp: s(3))
  show ?thesis
    unfolding ucl_ok_def
  proof (intro conjI ballI allI impI)
    show "finite (insert p R)" using d(1) by simp
  next
    fix q assume q: "q \<in> insert p R"
    then show "uc_active (task_uc ?k q i)" using d(2) by (auto simp: s(1))
    show "uc_consistent ?k (task_uc ?k q i)"
      using q d(3) cons by (auto simp: s(1) uc_consistent_def bid)
    have "0 < ub_tasks (uc_bucket k c i (uc_bucket_id (task_uc k q i)))" if "q \<in> R"
      unfolding d(5) using that d(1) by (auto simp: card_gt_0_iff uc_in_bucket_def)
    then show "uc_value (task_uc ?k q i) \<le> ub_value (uc_bucket ?k c i (uc_bucket_id (task_uc ?k q i)))"
      using q d(4) [of q] p by (cases "q = p") (auto simp: s(1) val)
  next
    fix b show "ub_tasks (uc_bucket ?k c i b) = card (uc_in_bucket ?k (insert p R) i b)"
      by (rule tasks)
  next
    fix b assume b: "0 < ub_tasks (uc_bucket ?k c i b)"
    then show "uclamp_bucket_id ?k (ub_value (uc_bucket ?k c i b)) = b"
      using d(6) [of b] cons by (auto simp: nonempty val bid uc_consistent_def)
    show "ub_value (uc_bucket ?k c i b) \<le> uclamp_rq_get ?k c i"
      using b d(7) [of b] R [of b] by (auto simp: nonempty val rq)
  next
    show "\<exists>b. 0 < ub_tasks (uc_bucket ?k c i b) \<and> uclamp_rq_get ?k c i = ub_value (uc_bucket ?k c i b)"
    proof (cases "R = {} \<or> uclamp_rq_get k c i < ?v")
      case True
      have "ub_tasks (uc_bucket k c i ?b) = 0 \<or> ub_value (uc_bucket k c i ?b) < ?v"
        using True d(7) [of ?b] R [of ?b] by fastforce
      then show ?thesis using True by (intro exI [of _ ?b]) (auto simp: nonempty val rq)
    next
      case False
      then obtain b where b: "0 < ub_tasks (uc_bucket k c i b)"
          "uclamp_rq_get k c i = ub_value (uc_bucket k c i b)"
        using d(8) by auto
      then show ?thesis using False by (intro exI [of _ b]) (auto simp: nonempty val rq)
    qed
  qed
qed

lemma ucl_ok_dec:
  assumes ok: "ucl_ok k R c i" and p: "p \<in> R" and nb: "0 < k_uclamp_buckets k"
  shows "ucl_ok (uclamp_rq_dec_id c p i k) (R - {p}) c i \<and>
    (uclamp_idle_flag (uclamp_rq_dec_id c p i k) c \<longleftrightarrow>
       uclamp_idle_flag k c \<or> i = UCLAMP_MAX \<and> R = {p})"
proof -
  let ?k = "uclamp_rq_dec_id c p i k" and ?u = "task_uc k p i"
  let ?b = "uc_bucket_id ?u"
  let ?left = "ub_tasks (uc_bucket k c i ?b) - 1"
  let ?f = "(uc_bucket k c i)(?b := (uc_bucket k c i ?b)\<lparr>ub_tasks := ?left\<rparr>)"
  let ?top = "top_bucket_value ?f (k_uclamp_buckets k)"
  let ?retop = "?left = 0 \<and> uclamp_rq_get k c i \<le> ub_value (uc_bucket k c i ?b)"
  note d = ucl_okD [OF ok] and s = uclamp_rq_dec_id_spec [OF d(2) [OF p], of c]
  have bid: "uclamp_bucket_id ?k = uclamp_bucket_id k" by (rule uclamp_bucket_id_cong [OF s(5)])
  have buck: "uc_bucket ?k c i = ?f" by (rule ext) (simp add: s(2))
  have inb: "uc_in_bucket ?k (R - {p}) i b = uc_in_bucket k R i b - {p}" for b
    by (auto simp: uc_in_bucket_def s(1))
  have fin: "finite (uc_in_bucket k R i b)" for b using d(1) by (simp add: uc_in_bucket_def)
  have pin: "p \<in> uc_in_bucket k R i b \<longleftrightarrow> b = ?b" for b using p by (auto simp: uc_in_bucket_def)
  have tasks: "ub_tasks (?f b) = card (uc_in_bucket ?k (R - {p}) i b)" for b
    using pin [of b] by (cases "b = ?b") (auto simp: inb d(5) card_Diff_singleton)
  have pos: "0 < ub_tasks (?f b) \<Longrightarrow> 0 < ub_tasks (uc_bucket k c i b)" for b
    by (auto split: if_splits)
  have val: "ub_value (?f b) = ub_value (uc_bucket k c i b)" for b by simp
  have lt: "b < k_uclamp_buckets k" if "0 < ub_tasks (?f b)" for b
    using d(6) [OF pos [OF that]] uclamp_bucket_id_less [OF nb, of "ub_value (uc_bucket k c i b)"]
    by simp
  have some: "\<exists>b. 0 < ub_tasks (?f b)" if "q \<in> R - {p}" for q
  proof -
    have "q \<in> uc_in_bucket ?k (R - {p}) i (uc_bucket_id (task_uc k q i))"
      using that by (auto simp: uc_in_bucket_def s(1))
    then have "0 < ub_tasks (?f (uc_bucket_id (task_uc k q i)))"
      unfolding tasks using d(1) by (auto simp: card_gt_0_iff uc_in_bucket_def)
    then show ?thesis by blast
  qed
  have none: "\<not> 0 < ub_tasks (?f b)" if "R = {p}" for b
    unfolding tasks by (simp add: that uc_in_bucket_def)
  have top_None: "?top = None \<longleftrightarrow> R = {p}"
  proof
    assume "?top = None"
    then have z: "\<forall>b < k_uclamp_buckets k. ub_tasks (?f b) = 0" unfolding top_bucket_value_None .
    have "\<not> 0 < ub_tasks (?f b)" for b using lt [of b] z by (metis less_irrefl)
    then show "R = {p}" using some p by blast
  next
    assume "R = {p}"
    then show "?top = None" using none unfolding top_bucket_value_None by auto
  qed
  have retop: ?retop if "R = {p}"
  proof -
    have "?left = 0" using none [OF that, of ?b] by simp
    moreover obtain b where "0 < ub_tasks (uc_bucket k c i b)"
        "uclamp_rq_get k c i = ub_value (uc_bucket k c i b)" using d(8) p by auto
    then have "b = ?b" using none [OF that, of b] by (auto split: if_splits)
    ultimately show ?thesis using \<open>uclamp_rq_get k c i = _\<close> by simp
  qed
  have rq: "(\<forall>b. 0 < ub_tasks (?f b) \<longrightarrow> ub_value (?f b) \<le> uclamp_rq_get ?k c i) \<and>
      (\<exists>b. 0 < ub_tasks (?f b) \<and> uclamp_rq_get ?k c i = ub_value (?f b))" if "R \<noteq> {p}"
  proof (cases ?retop)
    case True
    obtain v where v: "?top = Some v" using top_None \<open>R \<noteq> {p}\<close> by (cases ?top) auto
    then obtain b where b: "ub_tasks (?f b) \<noteq> 0" "ub_value (?f b) = v"
        "\<And>x. b < x \<Longrightarrow> x < k_uclamp_buckets k \<Longrightarrow> ub_tasks (?f x) = 0"
      unfolding top_bucket_value_Some by blast
    have "ub_value (?f x) \<le> v" if x: "0 < ub_tasks (?f x)" for x
    proof (rule ccontr)
      assume "\<not> ub_value (?f x) \<le> v"
      then have "v \<le> ub_value (?f x)" "x \<noteq> b" using b(2) by auto
      then have "uclamp_bucket_id k (ub_value (?f b)) \<le> uclamp_bucket_id k (ub_value (?f x))"
        using b(2) by (intro uclamp_bucket_id_mono) simp
      then have "b \<le> x" using d(6) [OF pos, of b] d(6) [OF pos [OF x]] b(1) unfolding val by simp
      then show False using b(3) [of x] lt [OF x] \<open>x \<noteq> b\<close> x by simp
    qed
    moreover have "uclamp_rq_get ?k c i = v" using True v by (simp add: s(3))
    ultimately show ?thesis using b(1,2) by (metis not_gr_zero)
  next
    case False
    then have get: "uclamp_rq_get ?k c i = uclamp_rq_get k c i" by (auto simp: s(3))
    obtain b where b: "0 < ub_tasks (uc_bucket k c i b)"
        "uclamp_rq_get k c i = ub_value (uc_bucket k c i b)" using d(8) p by auto
    have "0 < ub_tasks (?f b)"
      using False b by (cases "b = ?b") (auto split: if_splits)
    then show ?thesis using d(7) pos b(2) unfolding get val by metis
  qed
  have "ucl_ok ?k (R - {p}) c i"
    unfolding ucl_ok_def
  proof (intro conjI ballI allI impI)
    show "finite (R - {p})" using d(1) by simp
  next
    fix q assume "q \<in> R - {p}"
    then show "uc_active (task_uc ?k q i)" "uc_consistent ?k (task_uc ?k q i)"
      "uc_value (task_uc ?k q i) \<le> ub_value (uc_bucket ?k c i (uc_bucket_id (task_uc ?k q i)))"
      using d(2-4) [of q] by (auto simp: s(1) uc_consistent_def bid buck)
  next
    fix b show "ub_tasks (uc_bucket ?k c i b) = card (uc_in_bucket ?k (R - {p}) i b)"
      unfolding buck by (rule tasks)
  next
    fix b assume b: "0 < ub_tasks (uc_bucket ?k c i b)"
    then show "uclamp_bucket_id ?k (ub_value (uc_bucket ?k c i b)) = b"
      using d(6) [OF pos, of b] unfolding buck bid val by simp
    have "R \<noteq> {p}" using none b unfolding buck by blast
    then show "ub_value (uc_bucket ?k c i b) \<le> uclamp_rq_get ?k c i"
      using rq b unfolding buck by blast
  next
    assume "R - {p} \<noteq> {}"
    then have "R \<noteq> {p}" by blast
    then show "\<exists>b. 0 < ub_tasks (uc_bucket ?k c i b) \<and>
        uclamp_rq_get ?k c i = ub_value (uc_bucket ?k c i b)"
      using rq unfolding buck by blast
  qed
  moreover have "uclamp_idle_flag ?k c \<longleftrightarrow> uclamp_idle_flag k c \<or> i = UCLAMP_MAX \<and> R = {p}"
    using retop top_None by (auto simp: s(4))
  ultimately show ?thesis by blast
qed

section \<open>Counting in and out\<close>

lemma uclamp_id_cases: "(\<forall>i. P i) \<longleftrightarrow> P UCLAMP_MIN \<and> P UCLAMP_MAX"
  by (metis uclamp_id.exhaust)

lemma uclamp_inv_bounds:
  assumes "uclamp_inv k R c" "p \<in> R"
  shows "uc_value (task_uc k p i) \<le> uclamp_rq_get k c i"
proof -
  have ok: "ucl_ok k R c i" using assms(1) by (simp add: uclamp_inv_def)
  note d = ucl_okD [OF ok]
  have "p \<in> uc_in_bucket k R i (uc_bucket_id (task_uc k p i))"
    using assms(2) by (simp add: uc_in_bucket_def)
  then have "0 < ub_tasks (uc_bucket k c i (uc_bucket_id (task_uc k p i)))"
    unfolding d(5) using d(1) by (auto simp: card_gt_0_iff uc_in_bucket_def)
  from d(7) [OF this] d(4) [OF assms(2)] show ?thesis by simp
qed

lemma uclamp_inv_max:
  assumes "uclamp_inv k R c" "R \<noteq> {}"
  shows "uclamp_rq_get k c i = Max {ub_value (uc_bucket k c i b) |b. 0 < ub_tasks (uc_bucket k c i b)}"
proof -
  have ok: "ucl_ok k R c i" using assms(1) by (simp add: uclamp_inv_def)
  note d = ucl_okD [OF ok]
  have nb: "0 < k_uclamp_buckets k" using assms(1) by (simp add: uclamp_inv_def)
  have "{b. 0 < ub_tasks (uc_bucket k c i b)} \<subseteq> {..<k_uclamp_buckets k}"
    using d(6) uclamp_bucket_id_less [OF nb] by (metis lessThan_iff mem_Collect_eq subsetI)
  then have "finite {ub_value (uc_bucket k c i b) |b. 0 < ub_tasks (uc_bucket k c i b)}"
    by (auto simp: setcompr_eq_image intro: finite_subset)
  then show ?thesis using d(7,8) assms(2) by (intro Max_eqI [symmetric]) auto
qed

lemma uclamp_rq_inc_inv:
  assumes inv: "uclamp_inv k R c" and p: "p \<notin> R" and used: "k_sched_uclamp_used k"
    and cls: "uclamp_enabled a (t_sched_class (k_tasks k p))"
    and cons: "\<And>i. uc_consistent k (uclamp_eff_get k p i)"
  shows "uclamp_inv (uclamp_rq_inc a c p k) (insert p R) c"
proof -
  let ?k1 = "uclamp_rq_inc_id c p UCLAMP_MIN k"
  let ?k2 = "uclamp_rq_inc_id c p UCLAMP_MAX ?k1"
  note s1 = uclamp_rq_inc_id_spec [of c p UCLAMP_MIN k]
  note s2 = uclamp_rq_inc_id_spec [of c p UCLAMP_MAX ?k1]
  have idle: "uclamp_idle_flag k c \<longleftrightarrow> R = {}" and ok: "ucl_ok k R c i" for i
    using inv by (auto simp: uclamp_inv_def)
  have min1: "ucl_ok ?k1 (insert p R) c UCLAMP_MIN" by (rule ucl_ok_inc [OF ok p idle cons])
  have b1: "uc_bucket ?k1 c UCLAMP_MAX b = uc_bucket k c UCLAMP_MAX b" for b
    by (rule uclamp_bucket.equality) (simp_all add: s1)
  have max1: "ucl_ok ?k1 R c UCLAMP_MAX"
    by (rule ucl_ok_cong [OF ok]) (simp_all add: b1 s1 p)
  have max2: "ucl_ok ?k2 (insert p R) c UCLAMP_MAX"
    by (rule ucl_ok_inc [OF max1 p])
      (use cons in \<open>simp_all add: s1 idle uc_consistent_def uclamp_bucket_id_cong [OF s1(6)]\<close>)
  have b2: "uc_bucket ?k2 c UCLAMP_MIN b = uc_bucket ?k1 c UCLAMP_MIN b" for b
    by (rule uclamp_bucket.equality) (simp_all add: s2)
  have min2: "ucl_ok ?k2 (insert p R) c UCLAMP_MIN"
    by (rule ucl_ok_cong [OF min1]) (simp_all add: b2 s2)
  have k': "uclamp_rq_inc a c p k = (if uclamp_idle_flag ?k2 c then clear_uclamp_idle c ?k2 else ?k2)"
    using used cls by (simp add: uclamp_rq_inc_def clamp_ids_def)
  have nb: "k_uclamp_buckets (clear_uclamp_idle c ?k2) = k_uclamp_buckets ?k2"
    by (simp add: clear_uclamp_idle_def)
  have "ucl_ok (uclamp_rq_inc a c p k) (insert p R) c i" for i
    unfolding k' using ucl_ok_cong [OF min2 nb] ucl_ok_cong [OF max2 nb] min2 max2
    by (cases i) simp_all
  moreover have "\<not> uclamp_idle_flag (uclamp_rq_inc a c p k) c" unfolding k' by simp
  moreover have "k_uclamp_buckets (uclamp_rq_inc a c p k) = k_uclamp_buckets k"
    unfolding k' by (simp add: nb s1(6) s2(6))
  ultimately show ?thesis using inv by (simp add: uclamp_inv_def)
qed

lemma uclamp_rq_dec_inv:
  assumes inv: "uclamp_inv k R c" and p: "p \<in> R" and used: "k_sched_uclamp_used k"
    and cls: "uclamp_enabled a (t_sched_class (k_tasks k p))"
  shows "uclamp_inv (uclamp_rq_dec a c p k) (R - {p}) c"
proof -
  let ?k1 = "uclamp_rq_dec_id c p UCLAMP_MIN k"
  let ?k2 = "uclamp_rq_dec_id c p UCLAMP_MAX ?k1"
  have idle: "uclamp_idle_flag k c \<longleftrightarrow> R = {}" and ok: "ucl_ok k R c i"
    and nb: "0 < k_uclamp_buckets k" for i
    using inv by (auto simp: uclamp_inv_def)
  have act: "uc_active (task_uc k p UCLAMP_MIN)" using ucl_okD(2) [OF ok p] .
  note s1 = uclamp_rq_dec_id_spec [OF act, of c]
  have min1: "ucl_ok ?k1 (R - {p}) c UCLAMP_MIN" and idle1: "\<not> uclamp_idle_flag ?k1 c"
    using ucl_ok_dec [OF ok p nb, of UCLAMP_MIN] idle p by auto
  have max1: "ucl_ok ?k1 R c UCLAMP_MAX" by (rule ucl_ok_cong [OF ok]) (simp_all add: s1)
  have act2: "uc_active (task_uc ?k1 p UCLAMP_MAX)" using ucl_okD(2) [OF max1 p] .
  note s2 = uclamp_rq_dec_id_spec [OF act2, of c]
  have max2: "ucl_ok ?k2 (R - {p}) c UCLAMP_MAX"
    and idle2: "uclamp_idle_flag ?k2 c \<longleftrightarrow> R = {p}"
    using ucl_ok_dec [OF max1 p] nb idle1 by (auto simp: s1(5))
  have min2: "ucl_ok ?k2 (R - {p}) c UCLAMP_MIN"
    by (rule ucl_ok_cong [OF min1]) (simp_all add: s2)
  have "uclamp_rq_dec a c p k = ?k2" using used cls by (simp add: uclamp_rq_dec_def clamp_ids_def)
  then show ?thesis
    using inv min2 max2 idle2 p unfolding uclamp_inv_def
    by (auto simp: s1(5) s2(5) uclamp_id_cases)
qed

text \<open>
  C9: Counting a task in keeps the clamp buckets of a run queue right: afterwards every
  bucket still counts exactly the tasks whose effective clamp falls into it, the queue's
  clamp is the largest value of the non-empty buckets, it is at least the effective clamp
  of every task counted, the newcomer's included, and the idle mark is gone.
\<close>

theorem uclamp_count_in:
  assumes "uclamp_inv k R c" "p \<notin> R" "k_sched_uclamp_used k"
    and "uclamp_enabled a (t_sched_class (k_tasks k p))"
    and "\<And>i. uc_consistent k (uclamp_eff_get k p i)"
  shows "let k' = uclamp_rq_inc a c p k in uclamp_inv k' (insert p R) c \<and>
    uclamp_rq_get k' c i = Max {ub_value (uc_bucket k' c i b) |b. 0 < ub_tasks (uc_bucket k' c i b)} \<and>
    (\<forall>q \<in> insert p R. uc_value (task_uc k' q i) \<le> uclamp_rq_get k' c i) \<and>
    \<not> uclamp_idle_flag k' c"
proof -
  have inv: "uclamp_inv (uclamp_rq_inc a c p k) (insert p R) c" by (rule uclamp_rq_inc_inv [OF assms])
  then have "\<not> uclamp_idle_flag (uclamp_rq_inc a c p k) c" by (simp add: uclamp_inv_def)
  then show ?thesis
    using inv uclamp_inv_max [OF inv] uclamp_inv_bounds [OF inv] by (simp add: Let_def)
qed

text \<open>
  C10: Counting a task out keeps them right as well: the counts are those of the remaining
  tasks, the queue's clamp is recomputed from the buckets that are left and still bounds
  every remaining task, and the idle mark appears exactly when the last task has gone.
\<close>

theorem uclamp_count_out:
  assumes "uclamp_inv k R c" "p \<in> R" "k_sched_uclamp_used k"
    and "uclamp_enabled a (t_sched_class (k_tasks k p))"
  shows "let k' = uclamp_rq_dec a c p k in uclamp_inv k' (R - {p}) c \<and>
    (R \<noteq> {p} \<longrightarrow> uclamp_rq_get k' c i =
       Max {ub_value (uc_bucket k' c i b) |b. 0 < ub_tasks (uc_bucket k' c i b)}) \<and>
    (\<forall>q \<in> R - {p}. uc_value (task_uc k' q i) \<le> uclamp_rq_get k' c i) \<and>
    (uclamp_idle_flag k' c \<longleftrightarrow> R = {p})"
proof -
  let ?k = "uclamp_rq_dec a c p k"
  have inv: "uclamp_inv ?k (R - {p}) c" by (rule uclamp_rq_dec_inv [OF assms])
  have "R - {p} = {} \<longleftrightarrow> R = {p}" using assms(2) by blast
  then show ?thesis
    using inv uclamp_inv_max [OF inv] uclamp_inv_bounds [OF inv]
    by (auto simp: Let_def uclamp_inv_def)
qed

definition sample_uclamp :: kernel where
  "sample_uclamp = sample_kernel\<lparr>k_sched_uclamp_used := True,
     k_uclamp_default := \<lambda>_. \<lparr>uc_value = 1024, uc_bucket_id = 4, uc_active = False, uc_user_defined = False\<rparr>\<rparr>"

lemma uclamp_inv_sample: "uclamp_inv sample_uclamp {} 0"
  by (auto simp: uclamp_inv_def ucl_ok_def uc_in_bucket_def sample_uclamp_def sample_defs
      uc_bucket_def uc_rq_def uclamp_idle_flag_def UCLAMP_FLAG_IDLE_def test_flag_def)

lemma sample_uclamp_sel [simp]:
  "k_tasks sample_uclamp = sample_task" "k_sched_uclamp_used sample_uclamp"
  "uclamp_enabled sample_kapi (t_sched_class (sample_task 10))"
  "uc_consistent sample_uclamp (uclamp_eff_get sample_uclamp 10 i)"
  by (simp_all add: sample_uclamp_def sample_defs sample_kapi_def uclamp_enabled_def
      uc_consistent_def uclamp_eff_get_def uclamp_tg_restrict_def task_uc_req_def
      uclamp_bucket_id_def)

theorem uclamp_count_in_witness:
  "let k' = uclamp_rq_inc sample_kapi 0 10 sample_uclamp in uclamp_inv k' (insert 10 {}) 0 \<and>
    uclamp_rq_get k' 0 UCLAMP_MAX =
      Max {ub_value (uc_bucket k' 0 UCLAMP_MAX b) |b. 0 < ub_tasks (uc_bucket k' 0 UCLAMP_MAX b)} \<and>
    (\<forall>q \<in> insert 10 {}. uc_value (task_uc k' q UCLAMP_MAX) \<le> uclamp_rq_get k' 0 UCLAMP_MAX) \<and>
    \<not> uclamp_idle_flag k' 0"
  by (rule uclamp_count_in [OF uclamp_inv_sample]) simp_all

lemma uclamp_rq_inc_id_frame [frame]:
  "t_sched_class (k_tasks (uclamp_rq_inc_id c p i k) q) = t_sched_class (k_tasks k q)"
  "k_sched_uclamp_used (uclamp_rq_inc_id c p i k) = k_sched_uclamp_used k"
  by (simp_all add: uclamp_rq_inc_id_def uclamp_idle_reset_def Let_def)

lemma uclamp_rq_inc_frame [frame]:
  "t_sched_class (k_tasks (uclamp_rq_inc a c p k) q) = t_sched_class (k_tasks k q)"
  "k_sched_uclamp_used (uclamp_rq_inc a c p k) = k_sched_uclamp_used k"
  by (simp_all add: uclamp_rq_inc_def clamp_ids_def frame Let_def)

definition sample_counted :: kernel where
  "sample_counted = uclamp_rq_inc sample_kapi 0 10 sample_uclamp"

lemma sample_counted_inv: "uclamp_inv sample_counted {10} 0"
  unfolding sample_counted_def by (rule uclamp_rq_inc_inv [OF uclamp_inv_sample]) simp_all

theorem uclamp_count_out_witness:
  "let k' = uclamp_rq_dec sample_kapi 0 10 sample_counted in uclamp_inv k' ({10} - {10}) 0 \<and>
    ({10} \<noteq> {10 :: tid} \<longrightarrow> uclamp_rq_get k' 0 UCLAMP_MIN =
       Max {ub_value (uc_bucket k' 0 UCLAMP_MIN b) |b. 0 < ub_tasks (uc_bucket k' 0 UCLAMP_MIN b)}) \<and>
    (\<forall>q \<in> {10} - {10}. uc_value (task_uc k' q UCLAMP_MIN) \<le> uclamp_rq_get k' 0 UCLAMP_MIN) \<and>
    (uclamp_idle_flag k' 0 \<longleftrightarrow> {10} = {10 :: tid})"
  by (rule uclamp_count_out [OF sample_counted_inv])
    (simp_all add: sample_counted_def frame)

end
