(* ===== verification/Uclamp_Groups.thy ===== *)
theory Uclamp_Groups
  imports Uclamp_Correct
begin

text \<open>
  Properties of the slow paths of utilization clamping: effective values, the walk over
  the group hierarchy, the sysctl handler, the cgroup files and the \<open>sched_setattr\<close> check.
\<close>

section \<open>Effective values\<close>

definition uc_valid :: "kernel \<Rightarrow> uclamp_se \<Rightarrow> bool" where
  "uc_valid k u \<longleftrightarrow> uc_value u \<le> SCHED_CAPACITY_SCALE \<and> uc_consistent k u"

lemma uc_valid_set [simp]:
  "v \<le> SCHED_CAPACITY_SCALE \<Longrightarrow> uc_valid k (uclamp_se_set k v b u)"
  "uc_value (uclamp_se_set k v b u) = v mod 2048"
  "uc_active (uclamp_se_set k v b u) = uc_active u"
  by (simp_all add: uc_valid_def uc_consistent_def uclamp_se_set_def SCHED_CAPACITY_SCALE_def)

definition uclamp_requests_valid :: "kernel \<Rightarrow> bool" where
  "uclamp_requests_valid k \<longleftrightarrow>
     (\<forall>p i. uc_valid k (task_uc_req k p i)) \<and> (\<forall>g i. uc_valid k (tg_uc k g i)) \<and>
     (\<forall>i. uc_valid k (k_uclamp_default k i))"

lemma clamp_nat_le: "v \<le> m \<Longrightarrow> lo \<le> m \<Longrightarrow> hi \<le> m \<Longrightarrow> clamp_nat v lo hi \<le> m"
  by (simp add: clamp_nat_def)

text \<open>
  The effective clamp of a task is its request restricted to its group's effective
  range (except in the root group and in autogroups) and then capped by the system
  default; it stays within the capacity scale and carries the bucket of its value.
\<close>

theorem uclamp_eff_get_value:
  assumes "uclamp_requests_valid k"
  shows "let t = k_tasks k p; g = t_sched_task_group t; u = uclamp_eff_get k p i;
             req = uc_value (task_uc_req k p i)
         in uc_value u = min (uc_value (k_uclamp_default k i))
              (if tg_autogroup (k_tgs k g) \<or> g = k_root_tg k then req
               else clamp_nat req (uc_value (tg_uc k g UCLAMP_MIN)) (uc_value (tg_uc k g UCLAMP_MAX))) \<and>
            uc_valid k u"
proof -
  let ?g = "t_sched_task_group (k_tasks k p)"
  have v: "uc_valid k (task_uc_req k p i)" "uc_valid k (tg_uc k ?g j)" "uc_valid k (k_uclamp_default k i)"
    for j
    using assms by (auto simp: uclamp_requests_valid_def)
  have le: "clamp_nat (uc_value (task_uc_req k p i)) (uc_value (tg_uc k ?g UCLAMP_MIN))
      (uc_value (tg_uc k ?g UCLAMP_MAX)) \<le> SCHED_CAPACITY_SCALE"
    using v by (intro clamp_nat_le) (simp_all add: uc_valid_def)
  then show ?thesis
    using v by (auto simp: uclamp_eff_get_def uclamp_tg_restrict_def Let_def tg_uc_def [symmetric]
        SCHED_CAPACITY_SCALE_def)
qed

theorem uclamp_eff_get_value_witness:
  "let t = k_tasks sample_uclamp 10; g = t_sched_task_group t; u = uclamp_eff_get sample_uclamp 10 UCLAMP_MIN;
       req = uc_value (task_uc_req sample_uclamp 10 UCLAMP_MIN)
   in uc_value u = min (uc_value (k_uclamp_default sample_uclamp UCLAMP_MIN))
        (if tg_autogroup (k_tgs sample_uclamp g) \<or> g = k_root_tg sample_uclamp then req
         else clamp_nat req (uc_value (tg_uc sample_uclamp g UCLAMP_MIN))
                (uc_value (tg_uc sample_uclamp g UCLAMP_MAX))) \<and>
      uc_valid sample_uclamp u"
  by (rule uclamp_eff_get_value)
    (simp add: uclamp_requests_valid_def uc_valid_def uc_consistent_def sample_uclamp_def sample_defs
      task_uc_req_def tg_uc_def uclamp_bucket_id_def UCLAMP_BUCKET_DELTA_def SCHED_CAPACITY_SCALE_def)

section \<open>The group walk\<close>

text \<open>A forest with levels: children and parent pointers agree, and a child is one level down.\<close>

definition tg_forest :: "kernel \<Rightarrow> (tgid \<Rightarrow> nat) \<Rightarrow> bool" where
  "tg_forest k lvl \<longleftrightarrow>
     (\<forall>g c. c \<in> set (tg_children (k_tgs k g)) \<longleftrightarrow> tg_parent (k_tgs k c) = Some g) \<and>
     (\<forall>g. distinct (tg_children (k_tgs k g))) \<and>
     (\<forall>c g. tg_parent (k_tgs k c) = Some g \<longrightarrow> lvl c = Suc (lvl g))"

fun tg_subtree :: "kernel \<Rightarrow> nat \<Rightarrow> tgid \<Rightarrow> tgid set" where
  "tg_subtree k 0 g = {}"
| "tg_subtree k (Suc n) g = insert g (\<Union>c \<in> set (tg_children (k_tgs k g)). tg_subtree k n c)"

fun tg_depth_le :: "kernel \<Rightarrow> nat \<Rightarrow> tgid \<Rightarrow> bool" where
  "tg_depth_le k 0 g \<longleftrightarrow> False"
| "tg_depth_le k (Suc n) g \<longleftrightarrow> (\<forall>c \<in> set (tg_children (k_tgs k g)). tg_depth_le k n c)"

definition tg_ok :: "kernel \<Rightarrow> tgid \<Rightarrow> bool" where
  "tg_ok k g \<longleftrightarrow> (\<forall>i. uc_value (tg_uc k g i) = tg_eff k g i)"

text \<open>What the walk leaves alone: everything of a group but its effective clamps.\<close>

definition tg_same_shape :: "kernel \<Rightarrow> kernel \<Rightarrow> bool" where
  "tg_same_shape k k' \<longleftrightarrow> (\<forall>g. tg_parent (k_tgs k' g) = tg_parent (k_tgs k g) \<and>
     tg_children (k_tgs k' g) = tg_children (k_tgs k g) \<and>
     tg_uclamp_req (k_tgs k' g) = tg_uclamp_req (k_tgs k g))"

lemma tg_same_shape_refl [simp]: "tg_same_shape k k"
  by (simp add: tg_same_shape_def)

lemma tg_same_shape_trans: "tg_same_shape k k' \<Longrightarrow> tg_same_shape k' k'' \<Longrightarrow> tg_same_shape k k''"
  by (simp add: tg_same_shape_def)

lemma tg_same_shape_subtree:
  assumes "tg_same_shape k k'"
  shows "tg_subtree k' n g = tg_subtree k n g" "tg_depth_le k' n g = tg_depth_le k n g"
    "tg_forest k' lvl = tg_forest k lvl"
proof -
  have c: "tg_children (k_tgs k' g) = tg_children (k_tgs k g)" for g
    using assms by (simp add: tg_same_shape_def)
  show "tg_subtree k' n g = tg_subtree k n g" by (induction n arbitrary: g) (simp_all add: c)
  show "tg_depth_le k' n g = tg_depth_le k n g" by (induction n arbitrary: g) (simp_all add: c)
  show "tg_forest k' lvl = tg_forest k lvl" using assms by (simp add: tg_forest_def tg_same_shape_def)
qed

text \<open>\<open>tg_ok\<close> depends only on the group and its parent.\<close>

lemma tg_ok_cong:
  assumes "tg_same_shape k k'" "k_tgs k' g = k_tgs k g"
    and "\<And>q. tg_parent (k_tgs k g) = Some q \<Longrightarrow> k_tgs k' q = k_tgs k q"
  shows "tg_ok k' g = tg_ok k g"
proof -
  have "tg_eff_raw k' g i = tg_eff_raw k g i" for i
    using assms by (cases "tg_parent (k_tgs k g)") (simp_all add: tg_eff_raw_def tg_uc_req_def tg_uc_def Let_def)
  then show ?thesis using assms(2) by (simp add: tg_ok_def tg_eff_def tg_uc_def)
qed

lemma tg_subtree_level:
  assumes "tg_forest k lvl" "d \<in> tg_subtree k n g"
  shows "lvl g \<le> lvl d \<and> ((\<lambda>x. the (tg_parent (k_tgs k x))) ^^ (lvl d - lvl g)) d = g"
  using assms(2)
proof (induction n arbitrary: g)
  case (Suc n)
  show ?case
  proof (cases "d = g")
    case False
    then obtain c where c: "c \<in> set (tg_children (k_tgs k g))" "d \<in> tg_subtree k n c"
      using Suc.prems by auto
    then have p: "tg_parent (k_tgs k c) = Some g" "lvl c = Suc (lvl g)"
      using assms(1) by (auto simp: tg_forest_def)
    have "lvl d - lvl g = Suc (lvl d - lvl c)" using Suc.IH [OF c(2)] p(2) by linarith
    then show ?thesis using Suc.IH [OF c(2)] p by simp
  qed simp
qed simp

lemma tg_subtree_disjoint:
  assumes "tg_forest k lvl" "c \<in> set (tg_children (k_tgs k g))" "c' \<in> set (tg_children (k_tgs k g))"
    and "d \<in> tg_subtree k n c" "d \<in> tg_subtree k n c'"
  shows "c = c'"
proof -
  have "lvl c = lvl c'" using assms(1-3) by (simp add: tg_forest_def)
  then show ?thesis
    using tg_subtree_level [OF assms(1,4)] tg_subtree_level [OF assms(1,5)] by metis
qed

lemma tg_subtree_above:
  assumes "tg_forest k lvl" "tg_parent (k_tgs k c) = Some g"
  shows "g \<notin> tg_subtree k n c"
  using tg_subtree_level [OF assms(1), of g n c] assms by (auto simp: tg_forest_def)

lemma tg_subtree_parent:
  assumes "tg_forest k lvl" "d \<in> tg_subtree k n g" "d \<noteq> g"
  shows "\<exists>q. tg_parent (k_tgs k d) = Some q \<and> q \<in> tg_subtree k n g"
  using assms(2,3)
proof (induction n arbitrary: g)
  case (Suc n)
  then obtain c where c: "c \<in> set (tg_children (k_tgs k g))" "d \<in> tg_subtree k n c" by auto
  show ?case
  proof (cases "d = c")
    case True
    then show ?thesis using c assms(1) by (auto simp: tg_forest_def)
  next
    case False
    then show ?thesis using Suc.IH [OF c(2)] c(1) by auto
  qed
qed simp

lemma uclamp_update_active_tgs [simp]:
  "k_tgs (uclamp_rq_inc_id c p i k) = k_tgs k" "k_tgs (uclamp_rq_dec_id c p i k) = k_tgs k"
  "k_tgs (uclamp_rq_reinc_id c p i k) = k_tgs k" "k_tgs (uclamp_update_active p k) = k_tgs k"
  "k_tgs (uclamp_update_active_tasks a g k) = k_tgs k"
proof -
  have u: "k_tgs (upd_task_uc p i f k) = k_tgs k" "k_tgs (upd_uc_bucket c i b e k) = k_tgs k"
    "k_tgs (uclamp_rq_set c i v k) = k_tgs k" "k_tgs (set_uclamp_idle c k) = k_tgs k"
    "k_tgs (clear_uclamp_idle c k) = k_tgs k" for p i f k c b e v
    by (simp_all add: upd_task_uc_def upd_uc_bucket_def upd_uc_rq_def uclamp_rq_set_def
        set_uclamp_idle_def clear_uclamp_idle_def)
  have inc: "k_tgs (uclamp_rq_inc_id c p i k) = k_tgs k" for c p i k
    by (simp add: uclamp_rq_inc_id_def uclamp_idle_reset_def u Let_def)
  have dec: "k_tgs (uclamp_rq_dec_id c p i k) = k_tgs k" for c p i k
    by (simp add: uclamp_rq_dec_id_def uclamp_rq_max_value_def uclamp_idle_value_def u Let_def
        split: option.split)
  have reinc: "k_tgs (uclamp_rq_reinc_id c p i k) = k_tgs k" for c p i k
    by (simp add: uclamp_rq_reinc_id_def u inc dec Let_def)
  have act: "k_tgs (uclamp_update_active p k) = k_tgs k" for p k
    by (simp add: uclamp_update_active_def clamp_ids_def reinc)
  show "k_tgs (uclamp_rq_inc_id c p i k) = k_tgs k" "k_tgs (uclamp_rq_dec_id c p i k) = k_tgs k"
    "k_tgs (uclamp_rq_reinc_id c p i k) = k_tgs k" "k_tgs (uclamp_update_active p k) = k_tgs k"
    by (rule inc dec reinc act)+
  show "k_tgs (uclamp_update_active_tasks a g k) = k_tgs k"
    unfolding uclamp_update_active_tasks_def
    by (rule fold_invariant [where P = "\<lambda>s. k_tgs s = k_tgs k"]) (simp_all add: act)
qed

lemma tg_set_eff_fold:
  fixes k g
  defines "k1 \<equiv> fold (tg_set_eff g (tg_eff k g)) clamp_ids k"
  shows "uc_value (tg_uc k1 g i) = tg_eff k g i" "h \<noteq> g \<Longrightarrow> k_tgs k1 h = k_tgs k h"
    "tg_same_shape k k1"
    "(\<forall>i. tg_eff k g i = uc_value (tg_uc k g i)) \<Longrightarrow> k1 = k"
  unfolding k1_def by (cases i; auto simp: clamp_ids_def tg_set_eff_def upd_tg_uc_def tg_uc_def
      tg_same_shape_def)+

lemma tg_ok_set_eff:
  assumes "tg_same_shape k k1" "tg_parent (k_tgs k g) \<noteq> Some g"
    and "\<And>i. uc_value (tg_uc k1 g i) = tg_eff k g i" "\<And>h. h \<noteq> g \<Longrightarrow> k_tgs k1 h = k_tgs k h"
  shows "tg_ok k1 g"
proof -
  have "tg_eff_raw k1 g i = tg_eff_raw k g i" for i
    using assms by (cases "tg_parent (k_tgs k g)")
      (auto simp: tg_eff_raw_def tg_uc_req_def tg_uc_def tg_same_shape_def Let_def)
  then show ?thesis using assms(3) by (simp add: tg_ok_def tg_eff_def)
qed

text \<open>
  The statement carried through the walk: below \<open>g\<close> every group is in order before, and
  in the whole subtree after; outside the subtree nothing changes.
\<close>

definition tg_walk_post :: "kernel \<Rightarrow> kernel \<Rightarrow> tgid set \<Rightarrow> bool" where
  "tg_walk_post k k' S \<longleftrightarrow> tg_same_shape k k' \<and> (\<forall>h. h \<notin> S \<longrightarrow> k_tgs k' h = k_tgs k h) \<and>
     (\<forall>d \<in> S. tg_ok k' d)"

lemma tg_walk_children:
  assumes step: "\<And>c k. c \<in> set cs \<Longrightarrow> tg_same_shape k0 k \<Longrightarrow>
      (\<forall>d \<in> tg_subtree k0 n c - {c}. tg_ok k d) \<Longrightarrow> tg_walk_post k (f c k) (tg_subtree k0 n c)"
    and shape: "tg_same_shape k0 k" and forest: "tg_forest k0 lvl"
    and cs: "set cs \<subseteq> set (tg_children (k_tgs k0 g))" "distinct cs"
    and ok: "\<And>c d. c \<in> set cs \<Longrightarrow> d \<in> tg_subtree k0 n c - {c} \<Longrightarrow> tg_ok k d"
  shows "tg_walk_post k (fold f cs k) (\<Union>c \<in> set cs. tg_subtree k0 n c)"
  using step shape cs ok
proof (induction cs arbitrary: k)
  case Nil
  then show ?case by (simp add: tg_walk_post_def)
next
  case (Cons c cs)
  let ?S = "tg_subtree k0 n"
  have c: "tg_walk_post k (f c k) (?S c)" using Cons.prems(1) [of c k] Cons.prems(2,5) by auto
  have shape: "tg_same_shape k0 (f c k)"
    using Cons.prems(2) c tg_same_shape_trans by (auto simp: tg_walk_post_def)
  have parent: "tg_parent (k_tgs k h) = tg_parent (k_tgs k0 h)" for h
    using Cons.prems(2) by (simp add: tg_same_shape_def)
  have apart: "?S c \<inter> ?S c' = {}" if "c' \<in> set cs" for c'
    using tg_subtree_disjoint [OF forest, of c g c'] Cons.prems(3,4) that by auto
  have keep: "tg_ok (f c k) d" if d: "c' \<in> set cs" "d \<in> ?S c' - {c'}" for c' d
  proof -
    obtain q where q: "tg_parent (k_tgs k0 d) = Some q" "q \<in> ?S c'"
      using tg_subtree_parent [OF forest, of d n c'] d(2) by auto
    have "tg_ok (f c k) d = tg_ok k d"
      by (rule tg_ok_cong) (use c apart [OF d(1)] d(2) q in \<open>auto simp: tg_walk_post_def parent\<close>)
    then show ?thesis using Cons.prems(5) [of c' d] d by auto
  qed
  have rest: "tg_walk_post (f c k) (fold f cs (f c k)) (\<Union>c \<in> set cs. ?S c)"
    by (rule Cons.IH) (use Cons.prems(1,3,4) shape keep in auto)
  have "tg_ok (fold f cs (f c k)) d" if d: "d \<in> ?S c" for d
  proof -
    have "h \<notin> (\<Union>c \<in> set cs. ?S c)" if "h = d \<or> tg_parent (k_tgs k0 d) = Some h" for h
    proof (cases "h \<in> ?S c")
      case True
      then show ?thesis using apart by auto
    next
      case False
      then have "tg_parent (k_tgs k0 d) = Some h" using that d by auto
      moreover from this have "d = c" using False tg_subtree_parent [OF forest d] by auto
      ultimately have "h = g" using Cons.prems(3) forest by (auto simp: tg_forest_def)
      then show ?thesis
        using tg_subtree_above [OF forest] Cons.prems(3) forest by (auto simp: tg_forest_def)
    qed
    moreover have "tg_parent (k_tgs (f c k) d) = tg_parent (k_tgs k0 d)"
      using shape by (simp add: tg_same_shape_def)
    ultimately have "tg_ok (fold f cs (f c k)) d = tg_ok (f c k) d"
      using rest by (intro tg_ok_cong) (auto simp: tg_walk_post_def)
    then show ?thesis using c d by (simp add: tg_walk_post_def)
  qed
  then show ?case
    using c rest tg_same_shape_trans by (auto simp: tg_walk_post_def)
qed

lemma cpu_util_update_eff_walk:
  assumes "tg_forest k lvl" "tg_depth_le k n g" "\<forall>d \<in> tg_subtree k n g - {g}. tg_ok k d"
  shows "tg_walk_post k (cpu_util_update_eff a n g k) (tg_subtree k n g)"
  using assms
proof (induction n arbitrary: g k)
  case (Suc n)
  let ?k1 = "fold (tg_set_eff g (tg_eff k g)) clamp_ids k"
  let ?changed = "\<exists>i \<in> set clamp_ids. tg_eff k g i \<noteq> uc_value (tg_uc k g i)"
  let ?cs = "tg_children (k_tgs k g)"
  note s = tg_set_eff_fold [where k = k and g = g]
  have root: "tg_parent (k_tgs k g) \<noteq> Some g"
    using Suc.prems(1) by (metis n_not_Suc_n tg_forest_def)
  have ok1: "tg_ok ?k1 g" by (rule tg_ok_set_eff [OF s(3) root s(1,2)])
  have child: "tg_parent (k_tgs k c) = Some g" if "c \<in> set ?cs" for c
    using Suc.prems(1) that by (simp add: tg_forest_def)
  have g_out: "g \<notin> tg_subtree k n c" if "c \<in> set ?cs" for c
    by (rule tg_subtree_above [OF Suc.prems(1) child [OF that]])
  show ?case
  proof (cases ?changed)
    case False
    then have all: "\<forall>i. tg_eff k g i = uc_value (tg_uc k g i)"
      by (simp add: clamp_ids_def uclamp_id_cases)
    then have "cpu_util_update_eff a (Suc n) g k = k" using s(4) False by (simp add: Let_def)
    moreover have "tg_ok k g" using all by (simp add: tg_ok_def)
    ultimately show ?thesis using Suc.prems(3) by (auto simp: tg_walk_post_def)
  next
    case True
    let ?k2 = "uclamp_update_active_tasks a g ?k1"
    have ch: "tg_children (k_tgs ?k1 g) = ?cs" using s(3) by (simp add: tg_same_shape_def)
    have shape2: "tg_same_shape k ?k2" using s(3) by (simp add: tg_same_shape_def)
    have post: "tg_walk_post ?k2 (fold (cpu_util_update_eff a n) ?cs ?k2)
        (\<Union>c \<in> set ?cs. tg_subtree k n c)"
    proof (rule tg_walk_children [OF _ shape2 Suc.prems(1) order_refl])
      show "distinct ?cs" using Suc.prems(1) by (simp add: tg_forest_def)
    next
      fix c k' assume c: "c \<in> set ?cs" "tg_same_shape k k'" "\<forall>d \<in> tg_subtree k n c - {c}. tg_ok k' d"
      note t = tg_same_shape_subtree [OF c(2)]
      have "tg_walk_post k' (cpu_util_update_eff a n c k') (tg_subtree k' n c)"
        by (rule Suc.IH) (use Suc.prems(1,2) c in \<open>simp_all add: t\<close>)
      then show "tg_walk_post k' (cpu_util_update_eff a n c k') (tg_subtree k n c)" by (simp add: t)
    next
      fix c d assume cd: "c \<in> set ?cs" "d \<in> tg_subtree k n c - {c}"
      obtain q where q: "tg_parent (k_tgs k d) = Some q" "q \<in> tg_subtree k n c"
        using tg_subtree_parent [OF Suc.prems(1), of d n c] cd(2) by auto
      have ne: "d \<noteq> g" "q \<noteq> g" using g_out [OF cd(1)] cd(2) q(2) by auto
      have "tg_ok ?k2 d = tg_ok k d"
        by (rule tg_ok_cong [OF shape2]) (use ne q s(2) in auto)
      then show "tg_ok ?k2 d" using Suc.prems(3) cd ne by auto
    qed
    have eq: "cpu_util_update_eff a (Suc n) g k = fold (cpu_util_update_eff a n) ?cs ?k2"
      by (simp only: cpu_util_update_eff.simps Let_def True ch not_True_eq_False if_False)
    let ?k3 = "fold (cpu_util_update_eff a n) ?cs ?k2"
    have same: "k_tgs ?k3 h = k_tgs ?k1 h" if hg: "h = g \<or> tg_parent (k_tgs k g) = Some h" for h
    proof -
      have "h \<notin> tg_subtree k n c" if c: "c \<in> set ?cs" for c
      proof
        assume "h \<in> tg_subtree k n c"
        then have "lvl c \<le> lvl h" using tg_subtree_level [OF Suc.prems(1)] by blast
        moreover have "lvl c = Suc (lvl g)" "lvl h \<le> lvl g"
          using child [OF c] hg Suc.prems(1) by (auto simp: tg_forest_def)
        ultimately show False by simp
      qed
      then show ?thesis using post by (simp add: tg_walk_post_def)
    qed
    have "tg_ok ?k3 g = tg_ok ?k1 g"
      by (rule tg_ok_cong)
        (use post same s(3) in \<open>auto simp: tg_walk_post_def tg_same_shape_def\<close>)
    moreover have "tg_same_shape k ?k3"
      using post shape2 tg_same_shape_trans by (auto simp: tg_walk_post_def)
    ultimately show ?thesis
      unfolding eq using post ok1 s(2) by (auto simp: tg_walk_post_def)
  qed
qed simp

text \<open>
  C24: After an update at a group, every group of its subtree has the effective clamps its
  own request, its parent's effective clamps and the protection-below-limit rule ask for,
  although the walk skips the subtrees of unchanged groups; other groups are untouched.
\<close>

theorem cpu_util_update_eff_correct:
  assumes "tg_forest k lvl" "tg_depth_le k n g" "\<forall>d \<in> tg_subtree k n g - {g}. tg_ok k d"
  shows "let k' = cpu_util_update_eff a n g k in
    (\<forall>d \<in> tg_subtree k n g. \<forall>i. uc_value (tg_uc k' d i) = tg_eff k' d i) \<and>
    (\<forall>h \<in> - tg_subtree k n g. k_tgs k' h = k_tgs k h)"
  using cpu_util_update_eff_walk [OF assms, of a] by (simp add: tg_walk_post_def tg_ok_def Let_def)

definition sample_groups :: kernel where
  "sample_groups = upd_tg 0 (\<lambda>t. t\<lparr>tg_children := [1]\<rparr>) (upd_tg 1 (\<lambda>t. t\<lparr>tg_parent := Some 0\<rparr>)
     (upd_tg_uc_req 0 UCLAMP_MAX (\<lambda>u. u\<lparr>uc_value := 512\<rparr>) sample_kernel))"

theorem cpu_util_update_eff_correct_witness:
  "let k' = cpu_util_update_eff sample_kapi 2 0 sample_groups in
    (\<forall>d \<in> tg_subtree sample_groups 2 0. \<forall>i. uc_value (tg_uc k' d i) = tg_eff k' d i) \<and>
    (\<forall>h \<in> - tg_subtree sample_groups 2 0. k_tgs k' h = k_tgs sample_groups h)"
proof (rule cpu_util_update_eff_correct)
  show "tg_forest sample_groups (\<lambda>g. g)"
    by (auto simp: tg_forest_def sample_groups_def upd_tg_uc_req_def sample_defs)
  show "tg_depth_le sample_groups 2 0"
    by (simp add: numeral_2_eq_2 sample_groups_def upd_tg_uc_req_def sample_defs)
  show "\<forall>d \<in> tg_subtree sample_groups 2 0 - {0}. tg_ok sample_groups d"
    by (simp add: numeral_2_eq_2 sample_groups_def upd_tg_uc_req_def sample_defs tg_ok_def
        tg_uc_def tg_eff_def tg_eff_raw_def tg_uc_req_def Let_def)
qed

section \<open>The sysctl handler\<close>

lemma set_get_uclamp_sysctls [simp]:
  "set_uclamp_sysctls (get_uclamp_sysctls k) (set_uclamp_sysctls v k) = k"
  by (simp add: set_uclamp_sysctls_def get_uclamp_sysctls_def split: prod.split)

text \<open>
  The sysctl handler either fails and leaves the whole state as it was, or succeeds;
  a write that succeeds stored knobs in range: minimum at most maximum, nothing above the
  capacity scale.
\<close>

lemma uclamp_walk_sysctls:
  "get_uclamp_sysctls (cpu_util_update_eff a n g k) = get_uclamp_sysctls k"
  "get_uclamp_sysctls (uclamp_update_active_tasks a g k) = get_uclamp_sysctls k"
  "get_uclamp_sysctls (uclamp_sync_util_min_rt_default a k) = get_uclamp_sysctls k"
proof -
  have u: "get_uclamp_sysctls (upd_task p f k) = get_uclamp_sysctls k"
    "get_uclamp_sysctls (upd_rq c h k) = get_uclamp_sysctls k"
    "get_uclamp_sysctls (upd_tg g e k) = get_uclamp_sysctls k" for p f k c h g e
    by (simp_all add: get_uclamp_sysctls_def)
  note defs = upd_task_uc_def upd_task_uc_req_def upd_uc_bucket_def upd_uc_rq_def uclamp_rq_set_def
    set_uclamp_idle_def clear_uclamp_idle_def upd_tg_uc_def
  have inc: "get_uclamp_sysctls (uclamp_rq_inc_id c p i k) = get_uclamp_sysctls k" for c p i k
    by (simp add: uclamp_rq_inc_id_def uclamp_idle_reset_def defs u Let_def)
  have dec: "get_uclamp_sysctls (uclamp_rq_dec_id c p i k) = get_uclamp_sysctls k" for c p i k
    by (simp add: uclamp_rq_dec_id_def uclamp_rq_max_value_def uclamp_idle_value_def defs u Let_def
        split: option.split)
  have act: "get_uclamp_sysctls (uclamp_update_active p k) = get_uclamp_sysctls k" for p k
    by (simp add: uclamp_update_active_def clamp_ids_def uclamp_rq_reinc_id_def inc dec defs u Let_def)
  show tasks: "get_uclamp_sysctls (uclamp_update_active_tasks a g k) = get_uclamp_sysctls k" for g k
    unfolding uclamp_update_active_tasks_def
    by (rule fold_invariant [where P = "\<lambda>s. get_uclamp_sysctls s = get_uclamp_sysctls k"])
      (simp_all add: act)
  show "get_uclamp_sysctls (cpu_util_update_eff a n g k) = get_uclamp_sysctls k"
  proof (induction n arbitrary: g k)
    case (Suc n)
    have "get_uclamp_sysctls (fold (cpu_util_update_eff a n) cs k) = get_uclamp_sysctls k" for cs k
      by (rule fold_invariant [where P = "\<lambda>s. get_uclamp_sysctls s = get_uclamp_sysctls k"])
        (simp_all add: Suc.IH)
    then show ?case by (simp add: Let_def tasks clamp_ids_def tg_set_eff_def defs u)
  qed simp
  show "get_uclamp_sysctls (uclamp_sync_util_min_rt_default a k) = get_uclamp_sysctls k"
    unfolding uclamp_sync_util_min_rt_default_def
    by (rule fold_invariant [where P = "\<lambda>s. get_uclamp_sysctls s = get_uclamp_sysctls k"])
      (simp_all add: uclamp_update_util_min_rt_default_def us_uclamp_update_util_min_rt_default_def
        defs u)
qed

lemma get_set_uclamp_sysctls:
  "get_uclamp_sysctls (set_uclamp_sysctls v k) = v"
  "get_uclamp_sysctls (set_uclamp_default i w k) = get_uclamp_sysctls k"
  "get_uclamp_sysctls (uclamp_used_enable k) = get_uclamp_sysctls k"
  "get_uclamp_sysctls (uclamp_update_root_tg a k) = get_uclamp_sysctls k"
  by (simp_all add: set_uclamp_sysctls_def get_uclamp_sysctls_def set_uclamp_default_def
      uclamp_used_enable_def split: prod.split)
    (simp add: uclamp_update_root_tg_def Let_def
      uclamp_walk_sysctls(1) [unfolded get_uclamp_sysctls_def prod.inject] upd_tg_uc_req_def)

theorem uclamp_sysctl_atomic:
  "case sysctl_sched_uclamp_handler a write proc k of (result, k') \<Rightarrow>
     if result \<noteq> 0 then k' = k
     else get_uclamp_sysctls k' = snd (proc (get_uclamp_sysctls k)) \<and>
          (case get_uclamp_sysctls k' of (lo, hi, rt) \<Rightarrow>
             write \<le> (lo \<le> hi \<and> unat hi \<le> SCHED_CAPACITY_SCALE \<and> unat rt \<le> SCHED_CAPACITY_SCALE))"
proof -
  obtain result lo hi rt where proc: "proc (get_uclamp_sysctls k) = (result, lo, hi, rt)"
    by (metis prod_cases4)
  obtain old_min old_max old_rt where old: "get_uclamp_sysctls k = (old_min, old_max, old_rt)"
    by (metis prod_cases3)
  have undo: "set_uclamp_sysctls (old_min, old_max, old_rt) (set_uclamp_sysctls (lo, hi, rt) k) = k"
    using set_get_uclamp_sysctls [of k "(lo, hi, rt)"] by (simp add: old)
  show ?thesis
    by (simp add: sysctl_sched_uclamp_handler_def Let_def proc old undo proc [unfolded old]
        get_set_uclamp_sysctls uclamp_walk_sysctls EINVAL_def not_less not_le)
qed

section \<open>The cgroup files\<close>

lemma cpu_util_update_eff_keeps:
  "tg_uclamp_req (k_tgs (cpu_util_update_eff a n g k) h) = tg_uclamp_req (k_tgs k h)"
  "tg_uclamp_pct (k_tgs (cpu_util_update_eff a n g k) h) = tg_uclamp_pct (k_tgs k h)"
proof -
  define same where "same k k' \<longleftrightarrow> (\<forall>h. tg_uclamp_req (k_tgs k' h) = tg_uclamp_req (k_tgs k h) \<and>
    tg_uclamp_pct (k_tgs k' h) = tg_uclamp_pct (k_tgs k h))" for k k' :: kernel
  have "same k (cpu_util_update_eff a n g k)"
  proof (induction n arbitrary: g k)
    case (Suc n)
    have f: "same k (fold (cpu_util_update_eff a n) cs k)" for cs k
      by (rule fold_invariant [where P = "same k"]) (use Suc.IH in \<open>auto simp: same_def\<close>)
    have "same k (fold (tg_set_eff g (tg_eff k g)) clamp_ids k)"
      by (simp add: same_def clamp_ids_def tg_set_eff_def upd_tg_uc_def)
    then show ?case using f by (auto simp: same_def Let_def)
  qed (simp add: same_def)
  then show "tg_uclamp_req (k_tgs (cpu_util_update_eff a n g k) h) = tg_uclamp_req (k_tgs k h)"
    "tg_uclamp_pct (k_tgs (cpu_util_update_eff a n g k) h) = tg_uclamp_pct (k_tgs k h)"
    by (auto simp: same_def)
qed

lemma capacity_from_percent_ok:
  assumes "ucr_ret (capacity_from_percent a buf) = 0"
  shows "unat (ucr_percent (capacity_from_percent a buf)) \<le> 10000"
    and "unat (ucr_util (capacity_from_percent a buf)) =
           (unat (ucr_percent (capacity_from_percent a buf)) * 1024 + 5000) div 10000"
proof -
  obtain ret per where parse: "ka_cgroup_parse_float a (ka_strim a buf) UCLAMP_PERCENT_SHIFT = (ret, per)"
    by (cases "ka_cgroup_parse_float a (ka_strim a buf) UCLAMP_PERCENT_SHIFT")
  note d = capacity_from_percent_def Let_def parse UCLAMP_PERCENT_SCALE_def UCLAMP_PERCENT_SHIFT_def
    POW10_def SCHED_CAPACITY_SCALE_def SCHED_CAPACITY_SHIFT_def ERANGE_def
  show le: "unat (ucr_percent (capacity_from_percent a buf)) \<le> 10000"
    using assms parse by (auto simp: d word_less_nat_alt split: if_splits)
  have "unat ((push_bit 10 w + 10000 div 2) div 10000 :: u64) = (unat w * 1024 + 5000) div 10000"
    if "unat w \<le> 10000" for w :: u64
    using that
    by (simp add: unat_div unat_word_ariths push_bit_eq_mult)
  then show "unat (ucr_util (capacity_from_percent a buf)) =
      (unat (ucr_percent (capacity_from_percent a buf)) * 1024 + 5000) div 10000"
    using assms le parse by (auto simp: d word_less_nat_alt split: if_splits)
qed

text \<open>
  Reading \<open>cpu.uclamp.min\<close> or \<open>.max\<close> after a successful write prints the percentage
  that was written with its two decimals; from 99.96 on it prints \<open>max\<close>, since the stored
  capacity has rounded up to the full scale.
\<close>

theorem cpu_uclamp_roundtrip:
  assumes "ucr_ret (capacity_from_percent a buf) = 0"
  shows "let percent = unat (ucr_percent (capacity_from_percent a buf));
             (ret, k') = cpu_uclamp_write a tg buf nbytes i k
         in ret = int nbytes \<and> cpu_uclamp_print tg i k' =
            (if 9996 \<le> percent then ''max'' @ [char_of (10 :: nat)]
             else show_dec (percent div 100) @ ''.'' @ show_dec_pad 2 (percent mod 100) @
                  [char_of (10 :: nat)])"
proof -
  let ?r = "capacity_from_percent a buf"
  let ?p = "unat (ucr_percent ?r)"
  note c = capacity_from_percent_ok [OF assms]
  have lt: "(?p * 1024 + 5000) div 10000 < 2048" using c(1) by linarith
  have full: "(?p * 1024 + 5000) div 10000 = 1024 \<longleftrightarrow> 9996 \<le> ?p" using c(1) by linarith
  obtain k' where w: "cpu_uclamp_write a tg buf nbytes i k = (int nbytes, k')"
    and v: "uc_value (tg_uclamp_req (k_tgs k' tg) i) = (?p * 1024 + 5000) div 10000"
    and pct: "tg_uclamp_pct (k_tgs k' tg) i = ucr_percent ?r"
    using assms lt
    by (simp add: cpu_uclamp_write_def Let_def cpu_util_update_eff_keeps upd_tg_uc_req_def
        uclamp_used_enable_def tg_uc_req_def c(2))
  show ?thesis
    by (simp add: w cpu_uclamp_print_def tg_uc_req_def v pct full Let_def
        SCHED_CAPACITY_SCALE_def POW10_def UCLAMP_PERCENT_SHIFT_def)
qed

theorem cpu_uclamp_roundtrip_witness:
  "let percent = unat (ucr_percent (capacity_from_percent sample_kapi ''50.5''));
       (ret, k') = cpu_uclamp_write sample_kapi 0 ''50.5'' 5 UCLAMP_MIN sample_kernel
   in ret = int 5 \<and> cpu_uclamp_print 0 UCLAMP_MIN k' =
      (if 9996 \<le> percent then ''max'' @ [char_of (10 :: nat)]
       else show_dec (percent div 100) @ ''.'' @ show_dec_pad 2 (percent mod 100) @
            [char_of (10 :: nat)])"
  by (rule cpu_uclamp_roundtrip)
    (simp add: capacity_from_percent_def sample_kapi_def UCLAMP_PERCENT_SCALE_def POW10_def
      UCLAMP_PERCENT_SHIFT_def Let_def)

section \<open>The range check of \<open>sched_setattr\<close>\<close>

lemma task_uc_req_upd [simp]:
  "task_uc_req (upd_task_uc_req p i f k) q j =
     (if q = p \<and> j = i then f (task_uc_req k p i) else task_uc_req k q j)"
  by (simp add: task_uc_req_def upd_task_uc_req_def)

text \<open>
  The range check compares signed numbers, so requests that are negative as an \<open>int\<close>
  pass it: with both clamps set to \<open>0xfffffffe\<close> the check succeeds for every task, and the
  stored request becomes 2046, about twice the capacity scale.
\<close>

theorem uclamp_validate_accepts_negative:
  "let attr' = attr\<lparr>sa_flags := SCHED_FLAG_UTIL_CLAMP, sa_util_min := 0xfffffffe,
                     sa_util_max := 0xfffffffe\<rparr>
   in fst (uclamp_validate p attr' k) = 0 \<and>
      uc_value (task_uc_req (us_setscheduler_uclamp p attr' k) p i) = 2046 \<and>
      SCHED_CAPACITY_SCALE < 2046"
  by (cases i) (simp_all add: uclamp_validate_def us_setscheduler_uclamp_def uclamp_out_of_range_def
      Let_def sched_flag_consts test_flag_def SCHED_CAPACITY_SCALE_def)

end
