(* ===== verification/Core_Sched.thy ===== *)
theory Core_Sched
  imports Resched Sample_Kapi
begin

text \<open>
  Core scheduling bookkeeping (\<open>core.c\<close>, \<open>CONFIG_SCHED_CORE\<close>): the priority order across
  classes, the tree of cookied tasks of a run queue, and switching the feature on and off
  by reference counting.  The red-black tree is the list of its in-order traversal: an
  insertion goes before the first element the new node is less than, the search for the
  leftmost match is \<open>find\<close>.  Locks are left out.
\<close>

section \<open>Priorities\<close>

definition us_task_prio :: "task_struct \<Rightarrow> int" where
  "us_task_prio t =
     (if t_sched_class t = stop_sched_class then -2
      else if rt_prio (t_prio t) then t_prio t
      else if t_sched_class t = idle_sched_class then MAX_RT_PRIO + NICE_WIDTH
      else MAX_RT_PRIO + MAX_NICE)"

definition dl_time_before :: "u64 \<Rightarrow> u64 \<Rightarrow> bool" where
  "dl_time_before x y \<longleftrightarrow> sint (x - y) < 0"

definition prio_less :: "kapi \<Rightarrow> tid \<Rightarrow> tid \<Rightarrow> bool \<Rightarrow> kernel \<Rightarrow> bool" where
  "prio_less a p q in_fi k =
     (let pa = us_task_prio (k_tasks k p); pb = us_task_prio (k_tasks k q)
      in if - pa < - pb then True
         else if - pb < - pa then False
         else if pa = -1
         then \<not> dl_time_before (dl_deadline (t_dl (k_tasks k p))) (dl_deadline (t_dl (k_tasks k q)))
         else if pa = MAX_RT_PRIO + MAX_NICE then ka_cfs_prio_less a p q in_fi k
         else False)"

definition us_sched_core_less :: "kapi \<Rightarrow> tid \<Rightarrow> tid \<Rightarrow> kernel \<Rightarrow> bool" where
  "us_sched_core_less a p q k =
     (let cp = t_core_cookie (k_tasks k p); cq = t_core_cookie (k_tasks k q)
      in if cp < cq then True
         else if cq < cp then False
         else prio_less a q p
                (rq_core_forceidle_count (k_rqs k (rq_core (k_rqs k (task_cpu k p)))) \<noteq> 0) k)"

definition rb_sched_core_less :: "kapi \<Rightarrow> tid \<Rightarrow> tid \<Rightarrow> kernel \<Rightarrow> bool" where
  "rb_sched_core_less a p q k = us_sched_core_less a p q k"

definition rb_sched_core_cmp :: "u64 \<Rightarrow> tid \<Rightarrow> kernel \<Rightarrow> int" where
  "rb_sched_core_cmp cookie p k =
     (let c = t_core_cookie (k_tasks k p)
      in if cookie < c then -1 else if c < cookie then 1 else 0)"

section \<open>The tree of cookied tasks\<close>

fun rb_add :: "('a \<Rightarrow> 'a \<Rightarrow> bool) \<Rightarrow> 'a \<Rightarrow> 'a list \<Rightarrow> 'a list" where
  "rb_add lt x [] = [x]"
| "rb_add lt x (y # ys) = (if lt x y then x # y # ys else y # rb_add lt x ys)"

definition sched_core_enqueue :: "kapi \<Rightarrow> cpu \<Rightarrow> tid \<Rightarrow> kernel \<Rightarrow> kernel" where
  "sched_core_enqueue a c p k =
     (let k1 = upd_rq (rq_core (k_rqs k c))
                 (\<lambda>r. r\<lparr>rq_core_task_seq := rq_core_task_seq r + 1\<rparr>) k
      in if t_core_cookie (k_tasks k1 p) = 0 then k1
         else upd_task p (\<lambda>t. t\<lparr>t_core_node := True\<rparr>)
                (upd_rq c (\<lambda>r. r\<lparr>rq_core_tree :=
                   rb_add (\<lambda>x y. rb_sched_core_less a x y k1) p (rq_core_tree r)\<rparr>) k1))"

definition sched_core_enqueued :: "task_struct \<Rightarrow> bool" where
  "sched_core_enqueued t \<longleftrightarrow> t_core_node t"

definition sched_core_dequeue :: "cpu \<Rightarrow> tid \<Rightarrow> u32 \<Rightarrow> kernel \<Rightarrow> kernel" where
  "sched_core_dequeue c p flags k =
     (let k1 = upd_rq (rq_core (k_rqs k c))
                 (\<lambda>r. r\<lparr>rq_core_task_seq := rq_core_task_seq r + 1\<rparr>) k;
          k2 = (if sched_core_enqueued (k_tasks k1 p)
                then upd_task p (\<lambda>t. t\<lparr>t_core_node := False\<rparr>)
                       (upd_rq c (\<lambda>r. r\<lparr>rq_core_tree := remove1 p (rq_core_tree r)\<rparr>) k1)
                else k1);
          r = k_rqs k2 c
      in if \<not> test_flag flags DEQUEUE_SAVE \<and> rq_nr_running r = 1 \<and>
            rq_core_forceidle_count (k_rqs k2 (rq_core r)) \<noteq> 0 \<and> rq_curr r = rq_idle r
         then resched_curr c k2 else k2)"

text \<open>The yat class sets no \<open>task_is_throttled\<close> operation.\<close>

definition sched_task_is_throttled :: "kapi \<Rightarrow> tid \<Rightarrow> cpu \<Rightarrow> kernel \<Rightarrow> bool" where
  "sched_task_is_throttled a p c k =
     (if t_sched_class (k_tasks k p) = yat_casched_sched_class then False
      else case ka_task_is_throttled a (t_sched_class (k_tasks k p)) of
        Some f \<Rightarrow> f p c k | None \<Rightarrow> False)"

text \<open>The tasks after \<open>p\<close> in the tree, and the loop over them.\<close>

fun rb_after :: "'a \<Rightarrow> 'a list \<Rightarrow> 'a list" where
  "rb_after x [] = []"
| "rb_after x (y # ys) = (if x = y then ys else rb_after x ys)"

fun core_next_loop :: "kapi \<Rightarrow> tid list \<Rightarrow> cpu \<Rightarrow> u64 \<Rightarrow> kernel \<Rightarrow> tid option" where
  "core_next_loop a [] c cookie k = None"
| "core_next_loop a (q # qs) c cookie k =
     (if t_core_cookie (k_tasks k q) \<noteq> cookie then None
      else if sched_task_is_throttled a q c k then core_next_loop a qs c cookie k
      else Some q)"

text \<open>\<open>p\<close> sits in the tree of the run queue it is enqueued on.\<close>

definition sched_core_next :: "kapi \<Rightarrow> tid \<Rightarrow> u64 \<Rightarrow> kernel \<Rightarrow> tid option" where
  "sched_core_next a p cookie k =
     (let c = task_cpu k p
      in core_next_loop a (rb_after p (rq_core_tree (k_rqs k c))) c cookie k)"

definition sched_core_find :: "kapi \<Rightarrow> cpu \<Rightarrow> u64 \<Rightarrow> kernel \<Rightarrow> tid option" where
  "sched_core_find a c cookie k =
     (case find (\<lambda>q. rb_sched_core_cmp cookie q k = 0) (rq_core_tree (k_rqs k c)) of
        None \<Rightarrow> None
      | Some p \<Rightarrow> if \<not> sched_task_is_throttled a p (rq_cpu (k_rqs k c)) k then Some p
                  else sched_core_next a p cookie k)"

section \<open>Switching the feature\<close>

definition set_core_enabled :: "bool \<Rightarrow> cpu \<Rightarrow> kernel \<Rightarrow> kernel" where
  "set_core_enabled enabled c = upd_rq c (\<lambda>r. r\<lparr>rq_core_enabled := enabled\<rparr>)"

text \<open>
  The walk over \<open>sched_core_mask\<close>: the CPUs are visited in order, and visiting one takes
  its siblings out of the mask.
\<close>

fun core_flip_loop :: "kapi \<Rightarrow> bool \<Rightarrow> cpu list \<Rightarrow> cpumask \<Rightarrow> kernel \<Rightarrow> kernel" where
  "core_flip_loop a enabled [] msk k = k"
| "core_flip_loop a enabled (c # cs) msk k =
     (if c \<notin> msk then core_flip_loop a enabled cs msk k
      else let smt_mask = ka_cpu_smt_mask a c;
               k1 = fold (set_core_enabled enabled) (for_each_cpu k smt_mask) k;
               k2 = upd_rq (rq_core (k_rqs k1 c)) (\<lambda>r. r\<lparr>rq_core_forceidle_start := 0\<rparr>) k1
           in core_flip_loop a enabled cs (msk - smt_mask) k2)"

definition us_sched_core_flip :: "kapi \<Rightarrow> bool \<Rightarrow> kernel \<Rightarrow> kernel" where
  "us_sched_core_flip a enabled k =
     (let k1 = core_flip_loop a enabled (for_each_cpu k (k_online k)) (k_online k) k
      in fold (set_core_enabled enabled) (for_each_cpu k1 (k_possible k1 - k_online k1)) k1)"

definition us_sched_core_enable :: "kapi \<Rightarrow> kernel \<Rightarrow> kernel" where
  "us_sched_core_enable a k = us_sched_core_flip a True (k\<lparr>k_sched_core_enabled := True\<rparr>)"

definition us_sched_core_disable :: "kapi \<Rightarrow> kernel \<Rightarrow> kernel" where
  "us_sched_core_disable a k = (us_sched_core_flip a False k)\<lparr>k_sched_core_enabled := False\<rparr>"

definition sched_core_get :: "kapi \<Rightarrow> kernel \<Rightarrow> kernel" where
  "sched_core_get a k =
     (if k_sched_core_count k \<noteq> 0 then k\<lparr>k_sched_core_count := k_sched_core_count k + 1\<rparr>
      else let k1 = us_sched_core_enable a k
           in k1\<lparr>k_sched_core_count := k_sched_core_count k1 + 1\<rparr>)"

text \<open>The work function, run when the pending work is executed.\<close>

definition us_sched_core_put :: "kapi \<Rightarrow> kernel \<Rightarrow> kernel" where
  "us_sched_core_put a k =
     (let k1 = k\<lparr>k_sched_core_put_pending := False, k_sched_core_count := k_sched_core_count k - 1\<rparr>
      in if k_sched_core_count k1 = 0 then us_sched_core_disable a k1 else k1)"

definition sched_core_put :: "kernel \<Rightarrow> kernel" where
  "sched_core_put k =
     (if k_sched_core_count k \<noteq> 1 then k\<lparr>k_sched_core_count := k_sched_core_count k - 1\<rparr>
      else k\<lparr>k_sched_core_put_pending := True\<rparr>)"

definition rq_sched_core_enabled :: "kernel \<Rightarrow> cpu \<Rightarrow> bool" where
  "rq_sched_core_enabled k c \<longleftrightarrow> k_sched_core_enabled k \<and> rq_core_enabled (k_rqs k c)"

end
