(* ===== verification/Core_Sched_Correct.thy ===== *)
theory Core_Sched_Correct
  imports Core_Sched
begin

text \<open>
  Properties of the core scheduling bookkeeping: the tree of cookied tasks stays sorted and
  the search in it finds a runnable match whenever there is one; the feature is on, on
  every CPU, exactly while somebody holds a reference.
\<close>

section \<open>The tree\<close>

definition core_tree_sorted :: "kernel \<Rightarrow> tid list \<Rightarrow> bool" where
  "core_tree_sorted k ts \<longleftrightarrow>
     sorted_wrt (\<lambda>x y. t_core_cookie (k_tasks k x) \<le> t_core_cookie (k_tasks k y)) ts"

lemma set_rb_add [simp]: "set (rb_add lt x ys) = insert x (set ys)"
  by (induction ys) auto

lemma rb_add_sorted:
  assumes "core_tree_sorted k ts"
  shows "core_tree_sorted k (rb_add (\<lambda>x y. rb_sched_core_less a x y k) p ts)"
  using assms
proof (induction ts)
  case Nil
  then show ?case by (simp add: core_tree_sorted_def)
next
  case (Cons q qs)
  let ?c = "\<lambda>x. t_core_cookie (k_tasks k x)"
  show ?case
  proof (cases "rb_sched_core_less a p q k")
    case True
    then have "?c p \<le> ?c q"
      by (auto simp: rb_sched_core_less_def us_sched_core_less_def Let_def split: if_splits)
    then show ?thesis using Cons.prems True by (fastforce simp: core_tree_sorted_def)
  next
    case False
    then have "?c q \<le> ?c p"
      by (auto simp: rb_sched_core_less_def us_sched_core_less_def Let_def split: if_splits)
    then show ?thesis using Cons False by (auto simp: core_tree_sorted_def)
  qed
qed

text \<open>
  Enqueueing a cookied task on a run queue whose tree is sorted by cookie puts it into
  the tree and keeps the tree sorted, without losing a task; a task without a cookie leaves
  the tree alone.  Either way the core's task sequence number moves on.
\<close>

theorem sched_core_enqueue_sorted:
  assumes "core_tree_sorted k (rq_core_tree (k_rqs k c))"
  shows "let k' = sched_core_enqueue a c p k; ts = rq_core_tree (k_rqs k c);
             ts' = rq_core_tree (k_rqs k' c)
         in core_tree_sorted k' ts' \<and>
            set ts' = (if t_core_cookie (k_tasks k p) = 0 then set ts else insert p (set ts)) \<and>
            rq_core_task_seq (k_rqs k' (rq_core (k_rqs k c))) =
              rq_core_task_seq (k_rqs k (rq_core (k_rqs k c))) + 1"
proof -
  let ?k1 = "upd_rq (rq_core (k_rqs k c)) (\<lambda>r. r\<lparr>rq_core_task_seq := rq_core_task_seq r + 1\<rparr>) k"
  let ?ts' = "rb_add (\<lambda>x y. rb_sched_core_less a x y ?k1) p (rq_core_tree (k_rqs k c))"
  have srt: "core_tree_sorted k ts \<Longrightarrow> core_tree_sorted (upd_rq d h k) ts"
    "core_tree_sorted k ts \<Longrightarrow> core_tree_sorted (upd_task q (\<lambda>t. t\<lparr>t_core_node := True\<rparr>) k) ts"
    for d h q k ts
    by (simp_all add: core_tree_sorted_def) (erule sorted_wrt_mono_rel [rotated], auto)
  have k1: "core_tree_sorted ?k1 (rq_core_tree (k_rqs k c))" by (rule srt [OF assms])
  show ?thesis
  proof (cases "t_core_cookie (k_tasks k p) = 0")
    case True
    then show ?thesis using srt(1) [OF assms] by (simp add: sched_core_enqueue_def Let_def)
  next
    case False
    have "core_tree_sorted (sched_core_enqueue a c p k) ?ts'"
      using False srt rb_add_sorted [OF k1, of a p] by (simp add: sched_core_enqueue_def Let_def)
    moreover have "rq_core_tree (k_rqs (sched_core_enqueue a c p k) c) = ?ts'"
      using False by (simp add: sched_core_enqueue_def Let_def)
    moreover have "rq_core_task_seq (k_rqs (sched_core_enqueue a c p k) (rq_core (k_rqs k c))) =
        rq_core_task_seq (k_rqs k (rq_core (k_rqs k c))) + 1"
      using False by (simp add: sched_core_enqueue_def Let_def)
    ultimately show ?thesis using False by (simp add: Let_def)
  qed
qed

definition sample_core_tree :: kernel where
  "sample_core_tree = upd_task 10 (\<lambda>t. t\<lparr>t_core_cookie := 7\<rparr>)
     (upd_task 11 (\<lambda>t. t\<lparr>t_core_cookie := 5, t_ti_cpu := 1\<rparr>)
       (upd_rq 1 (\<lambda>r. r\<lparr>rq_core_tree := [11]\<rparr>) sample_kernel))"

theorem sched_core_enqueue_sorted_witness:
  "let k' = sched_core_enqueue sample_kapi 1 10 sample_core_tree;
       ts = rq_core_tree (k_rqs sample_core_tree 1); ts' = rq_core_tree (k_rqs k' 1)
   in core_tree_sorted k' ts' \<and>
      set ts' = (if t_core_cookie (k_tasks sample_core_tree 10) = 0 then set ts else insert 10 (set ts)) \<and>
      rq_core_task_seq (k_rqs k' (rq_core (k_rqs sample_core_tree 1))) =
        rq_core_task_seq (k_rqs sample_core_tree (rq_core (k_rqs sample_core_tree 1))) + 1"
  by (rule sched_core_enqueue_sorted) (simp add: core_tree_sorted_def sample_core_tree_def)

lemma core_next_loop_Some:
  "core_next_loop a qs c cookie k = Some p \<Longrightarrow>
     p \<in> set qs \<and> t_core_cookie (k_tasks k p) = cookie \<and> \<not> sched_task_is_throttled a p c k"
  by (induction qs) (auto split: if_splits)

lemma core_next_loop_None:
  assumes "core_next_loop a qs c cookie k = None" "core_tree_sorted k qs"
    and "\<forall>q \<in> set qs. cookie \<le> t_core_cookie (k_tasks k q)"
    and "q \<in> set qs" "t_core_cookie (k_tasks k q) = cookie"
  shows "sched_task_is_throttled a q c k"
  using assms
proof (induction qs)
  case (Cons x qs)
  show ?case
  proof (cases "t_core_cookie (k_tasks k x) = cookie")
    case True
    then show ?thesis using Cons by (auto simp: core_tree_sorted_def split: if_splits)
  next
    case False
    then have "cookie < t_core_cookie (k_tasks k x)" using Cons.prems(3) by (simp add: order_le_neq_trans)
    moreover have "t_core_cookie (k_tasks k x) \<le> t_core_cookie (k_tasks k q)"
      using Cons.prems(2,4) by (auto simp: core_tree_sorted_def)
    ultimately show ?thesis using Cons.prems(5) by simp
  qed
qed simp

lemma rb_after_split:
  "distinct (xs @ p # ys) \<Longrightarrow> rb_after p (xs @ p # ys) = ys"
  by (induction xs) auto

text \<open>
  The search for a cookie returns a task of the run queue that carries the cookie and is
  not throttled, whenever there is one; it returns nothing only when every task with the
  cookie is throttled.
\<close>

theorem sched_core_find_complete:
  assumes "core_tree_sorted k (rq_core_tree (k_rqs k c))" "distinct (rq_core_tree (k_rqs k c))"
    and "rq_cpu (k_rqs k c) = c" "\<forall>p \<in> set (rq_core_tree (k_rqs k c)). task_cpu k p = c"
  shows "case sched_core_find a c cookie k of
      Some p \<Rightarrow> p \<in> set (rq_core_tree (k_rqs k c)) \<and> t_core_cookie (k_tasks k p) = cookie \<and>
        \<not> sched_task_is_throttled a p c k
    | None \<Rightarrow> (\<forall>p \<in> {p \<in> set (rq_core_tree (k_rqs k c)). t_core_cookie (k_tasks k p) = cookie}.
        sched_task_is_throttled a p c k)"
proof -
  let ?ts = "rq_core_tree (k_rqs k c)" and ?ck = "\<lambda>p. t_core_cookie (k_tasks k p)"
  have cmp: "rb_sched_core_cmp cookie q k = 0 \<longleftrightarrow> ?ck q = cookie" for q
    by (auto simp: rb_sched_core_cmp_def Let_def)
  show ?thesis
  proof (cases "find (\<lambda>q. rb_sched_core_cmp cookie q k = 0) ?ts")
    case None
    then have "sched_core_find a c cookie k = None" by (simp add: sched_core_find_def)
    then show ?thesis using None by (auto simp: cmp find_None_iff)
  next
    case (Some p)
    then obtain i where i: "i < length ?ts" "?ts ! i = p" "?ck p = cookie"
        "\<And>j. j < i \<Longrightarrow> ?ck (?ts ! j) \<noteq> cookie"
      by (auto simp: find_Some_iff cmp)
    define ys where "ys = drop (Suc i) ?ts"
    have split: "?ts = take i ?ts @ p # ys" using i(1,2) id_take_nth_drop ys_def by metis
    have first: "?ck q \<noteq> cookie" if "q \<in> set (take i ?ts)" for q
      using that i(1,4) by (metis in_set_conv_nth length_take min.absorb4 nth_take)
    have after: "rb_after p ?ts = ys" using assms(2) split by (metis rb_after_split)
    have srt: "core_tree_sorted k (take i ?ts @ p # ys)" using assms(1) split by simp
    then have ys: "core_tree_sorted k ys" "\<forall>q \<in> set ys. cookie \<le> ?ck q"
      using i(3) by (auto simp: core_tree_sorted_def sorted_wrt_append)
    have pin: "p \<in> set ?ts" using i(1,2) by auto
    have nxt: "sched_core_next a p cookie k = core_next_loop a ys c cookie k"
      using assms(4) pin after by (simp add: sched_core_next_def)
    show ?thesis
    proof (cases "sched_task_is_throttled a p c k")
      case False
      then show ?thesis using Some assms(3) i(3) pin by (simp add: sched_core_find_def)
    next
      case thr: True
      then have f: "sched_core_find a c cookie k = core_next_loop a ys c cookie k"
        using Some assms(3) nxt by (simp add: sched_core_find_def)
      show ?thesis
      proof (cases "core_next_loop a ys c cookie k")
        case (Some q)
        then show ?thesis using core_next_loop_Some [OF Some] f by (auto simp: ys_def dest: in_set_dropD)
      next
        case None
        have "sched_task_is_throttled a q c k" if "q \<in> set ?ts" "?ck q = cookie" for q
        proof -
          have "q = p \<or> q \<in> set ys" using that first [of q] split
            by (metis Un_iff insert_iff list.set(2) set_append)
          then show ?thesis using thr core_next_loop_None [OF None ys] that(2) by auto
        qed
        then show ?thesis using None f by simp
      qed
    qed
  qed
qed

theorem sched_core_find_complete_witness:
  "case sched_core_find sample_kapi 1 5 sample_core_tree of
      Some p \<Rightarrow> p \<in> set (rq_core_tree (k_rqs sample_core_tree 1)) \<and>
        t_core_cookie (k_tasks sample_core_tree p) = 5 \<and>
        \<not> sched_task_is_throttled sample_kapi p 1 sample_core_tree
    | None \<Rightarrow> (\<forall>p \<in> {p \<in> set (rq_core_tree (k_rqs sample_core_tree 1)).
          t_core_cookie (k_tasks sample_core_tree p) = 5}.
        sched_task_is_throttled sample_kapi p 1 sample_core_tree)"
  by (rule sched_core_find_complete)
    (simp_all add: core_tree_sorted_def sample_core_tree_def sample_rq_def task_cpu_def)

section \<open>Switching on and off\<close>

lemma set_core_enabled_fold [simp]:
  "rq_core_enabled (k_rqs (fold (set_core_enabled e) cs k) d) =
     (if d \<in> set cs then e else rq_core_enabled (k_rqs k d))"
  "k_online (fold (set_core_enabled e) cs k) = k_online k"
  "k_possible (fold (set_core_enabled e) cs k) = k_possible k"
  "k_nr_cpu_ids (fold (set_core_enabled e) cs k) = k_nr_cpu_ids k"
  "k_sched_core_count (fold (set_core_enabled e) cs k) = k_sched_core_count k"
  "k_sched_core_enabled (fold (set_core_enabled e) cs k) = k_sched_core_enabled k"
  "k_sched_core_put_pending (fold (set_core_enabled e) cs k) = k_sched_core_put_pending k"
  by (induction cs arbitrary: k) (auto simp: set_core_enabled_def)

lemma core_flip_loop_frame [simp]:
  "k_online (core_flip_loop a e cs m k) = k_online k"
  "k_possible (core_flip_loop a e cs m k) = k_possible k"
  "k_nr_cpu_ids (core_flip_loop a e cs m k) = k_nr_cpu_ids k"
  "k_sched_core_count (core_flip_loop a e cs m k) = k_sched_core_count k"
  "k_sched_core_enabled (core_flip_loop a e cs m k) = k_sched_core_enabled k"
  "k_sched_core_put_pending (core_flip_loop a e cs m k) = k_sched_core_put_pending k"
  by (induction cs arbitrary: m k) (simp_all add: Let_def)

text \<open>One visit of the walk.\<close>

definition core_flip_visit :: "kapi \<Rightarrow> bool \<Rightarrow> cpu \<Rightarrow> kernel \<Rightarrow> kernel" where
  "core_flip_visit a e c k =
     (let k1 = fold (set_core_enabled e) (for_each_cpu k (ka_cpu_smt_mask a c)) k
      in upd_rq (rq_core (k_rqs k1 c)) (\<lambda>r. r\<lparr>rq_core_forceidle_start := 0\<rparr>) k1)"

lemma core_flip_loop_Cons:
  "core_flip_loop a e (c # cs) m k =
     (if c \<notin> m then core_flip_loop a e cs m k
      else core_flip_loop a e cs (m - ka_cpu_smt_mask a c) (core_flip_visit a e c k))"
  by (simp add: core_flip_visit_def Let_def)

lemma core_flip_visit_enabled [simp]:
  "rq_core_enabled (k_rqs (core_flip_visit a e c k) d) =
     (if d \<in> set (for_each_cpu k (ka_cpu_smt_mask a c)) then e else rq_core_enabled (k_rqs k d))"
  "k_nr_cpu_ids (core_flip_visit a e c k) = k_nr_cpu_ids k"
  by (simp_all add: core_flip_visit_def Let_def)

lemma core_flip_loop_keeps:
  assumes "rq_core_enabled (k_rqs k d) \<longleftrightarrow> e"
  shows "rq_core_enabled (k_rqs (core_flip_loop a e cs m k) d) \<longleftrightarrow> e"
  using assms
proof (induction cs arbitrary: m k)
  case (Cons c cs)
  have "rq_core_enabled (k_rqs (core_flip_visit a e c k) d) \<longleftrightarrow> e" using Cons.prems by simp
  from Cons.IH [OF this] Cons.IH [OF Cons.prems] show ?case by (simp only: core_flip_loop_Cons) simp
qed simp

lemma core_flip_loop_sets:
  assumes "d \<in> set cs" "d \<in> m" "0 \<le> d" "d < k_nr_cpu_ids k"
    and "\<And>c. c \<in> set cs \<Longrightarrow> c \<in> ka_cpu_smt_mask a c"
  shows "rq_core_enabled (k_rqs (core_flip_loop a e cs m k) d) \<longleftrightarrow> e"
  using assms
proof (induction cs arbitrary: m k)
  case (Cons c cs)
  show ?case
  proof (cases "c \<in> m \<and> d \<in> ka_cpu_smt_mask a c")
    case True
    then have "rq_core_enabled (k_rqs (core_flip_visit a e c k) d) \<longleftrightarrow> e" using Cons.prems by simp
    from core_flip_loop_keeps [OF this] True show ?thesis by (simp only: core_flip_loop_Cons) simp
  next
    case False
    then have "d \<in> set cs" "c \<in> m \<Longrightarrow> d \<in> m - ka_cpu_smt_mask a c" using Cons.prems by auto
    then show ?thesis using Cons by (simp del: core_flip_loop.simps add: core_flip_loop_Cons)
  qed
qed simp

definition core_cpus :: "kernel \<Rightarrow> cpu set" where
  "core_cpus k = set (for_each_cpu k (k_online k \<union> k_possible k))"

lemma core_flip_all:
  assumes "\<And>c. c \<in> k_online k \<Longrightarrow> c \<in> ka_cpu_smt_mask a c" "d \<in> core_cpus k"
  shows "rq_core_enabled (k_rqs (us_sched_core_flip a e k) d) = e"
proof (cases "d \<in> k_online k")
  case True
  then show ?thesis
    using core_flip_loop_sets [of d "for_each_cpu k (k_online k)" "k_online k" k a e] assms
    by (simp add: us_sched_core_flip_def core_cpus_def Let_def)
next
  case False
  then show ?thesis using assms(2) by (auto simp: us_sched_core_flip_def core_cpus_def Let_def)
qed

lemma core_flip_frame [simp]:
  "k_online (us_sched_core_flip a e k) = k_online k"
  "k_possible (us_sched_core_flip a e k) = k_possible k"
  "k_nr_cpu_ids (us_sched_core_flip a e k) = k_nr_cpu_ids k"
  "k_sched_core_count (us_sched_core_flip a e k) = k_sched_core_count k"
  "k_sched_core_enabled (us_sched_core_flip a e k) = k_sched_core_enabled k"
  "k_sched_core_put_pending (us_sched_core_flip a e k) = k_sched_core_put_pending k"
  by (simp_all add: us_sched_core_flip_def Let_def)

text \<open>
  Users take and drop references; the work item queued by the last drop runs later, at any
  time.  \<open>n\<close> counts the references held.
\<close>

inductive core_step :: "kapi \<Rightarrow> kernel \<times> nat \<Rightarrow> kernel \<times> nat \<Rightarrow> bool" for a where
  get: "core_step a (k, n) (sched_core_get a k, Suc n)"
| put: "core_step a (k, Suc n) (sched_core_put k, n)"
| work: "k_sched_core_put_pending k \<Longrightarrow> core_step a (k, n) (us_sched_core_put a k, n)"

definition core_inv :: "kernel \<times> nat \<Rightarrow> bool" where
  "core_inv = (\<lambda>(k, n).
     k_sched_core_count k = int n + (if k_sched_core_put_pending k then 1 else 0) \<and>
     (k_sched_core_enabled k \<longleftrightarrow> k_sched_core_count k \<noteq> 0) \<and>
     (\<forall>c \<in> core_cpus k. rq_core_enabled (k_rqs k c) \<longleftrightarrow> k_sched_core_count k \<noteq> 0))"

lemma core_cpus_frame [simp]:
  "core_cpus (us_sched_core_flip a e k) = core_cpus k"
  "core_cpus (k\<lparr>k_sched_core_count := x\<rparr>) = core_cpus k"
  "core_cpus (k\<lparr>k_sched_core_enabled := b\<rparr>) = core_cpus k"
  "core_cpus (k\<lparr>k_sched_core_put_pending := b\<rparr>) = core_cpus k"
  by (simp_all add: core_cpus_def)

lemma core_step_inv:
  assumes "core_step a s s'" "core_inv s" "\<And>c. c \<in> k_online (fst s) \<Longrightarrow> c \<in> ka_cpu_smt_mask a c"
  shows "core_inv s' \<and> k_online (fst s') = k_online (fst s)"
  using assms
proof (induction rule: core_step.induct)
  case (get k n)
  then show ?case
    by (auto simp: core_inv_def sched_core_get_def us_sched_core_enable_def Let_def
        core_flip_all [of "k\<lparr>k_sched_core_enabled := True\<rparr>" a, simplified] split: if_splits)
next
  case (put k n)
  then show ?case by (auto simp: core_inv_def sched_core_put_def split: if_splits)
next
  case (work k n)
  let ?k = "k\<lparr>k_sched_core_put_pending := False, k_sched_core_count := k_sched_core_count k - 1\<rparr>"
  have "rq_core_enabled (k_rqs (us_sched_core_flip a False ?k) d) = False" if "d \<in> core_cpus k" for d
    using core_flip_all [of ?k a d False] work.prems that by (simp add: core_cpus_def)
  then show ?case
    using work
    by (auto simp: core_inv_def us_sched_core_put_def us_sched_core_disable_def Let_def core_cpus_def
        split: if_splits)
qed

text \<open>
  However gets, puts and the deferred put work interleave, core scheduling is enabled,
  globally and on every possible CPU, as long as a reference is held, and stays so only until
  the pending work has run; when no reference is held and no work is pending it is off
  everywhere.
\<close>

theorem core_sched_refcount:
  assumes "(core_step a)\<^sup>*\<^sup>* (k0, 0) (k, n)" "core_inv (k0, 0)"
    and "\<And>c. c \<in> k_online k0 \<Longrightarrow> c \<in> ka_cpu_smt_mask a c"
  shows "(k_sched_core_enabled k \<longleftrightarrow> 0 < n \<or> k_sched_core_put_pending k) \<and>
    (\<forall>c \<in> core_cpus k. rq_core_enabled (k_rqs k c) \<longleftrightarrow> 0 < n \<or> k_sched_core_put_pending k)"
proof -
  have "core_inv (k, n) \<and> k_online (fst (k, n)) = k_online k0"
    using assms(1)
  proof (induction rule: rtranclp_induct)
    case base
    then show ?case using assms(2) by simp
  next
    case (step s s')
    then show ?case using core_step_inv [of a s s'] assms(3) by auto
  qed
  then show ?thesis by (auto simp: core_inv_def split: if_splits)
qed

theorem core_sched_refcount_witness:
  "let k = sched_core_put (sched_core_get sample_kapi sample_kernel)
   in (k_sched_core_enabled k \<longleftrightarrow> 0 < (0 :: nat) \<or> k_sched_core_put_pending k) \<and>
      (\<forall>c \<in> core_cpus k. rq_core_enabled (k_rqs k c) \<longleftrightarrow> 0 < (0 :: nat) \<or> k_sched_core_put_pending k)"
  unfolding Let_def
proof (rule core_sched_refcount)
  show "(core_step sample_kapi)\<^sup>*\<^sup>* (sample_kernel, 0)
      (sched_core_put (sched_core_get sample_kapi sample_kernel), 0)"
    using core_step.get [of sample_kapi sample_kernel 0]
      core_step.put [of sample_kapi "sched_core_get sample_kapi sample_kernel" 0]
    by (metis (no_types) rtranclp.simps One_nat_def)
qed (simp_all add: core_inv_def sample_defs sample_kapi_def)

end
