(* ===== verification/Queue.thy ===== *)
theory Queue
  imports Yat_Casched Rq_Clock Uclamp Core_Sched
begin

text \<open>
  Putting tasks on run queues and taking them off (\<open>core.c\<close>, \<open>enqueue_task\<close> and its
  callers), with the dispatch to the scheduling class of the task: the yat class is the
  model's own, the others are parameters.  The dispatch follows the operation table at the
  end of \<open>yat_casched.c\<close>; operations the table leaves out are NULL there.  The scheduler
  statistics and pressure accounting of the code are not part of the modelled state.
\<close>

section \<open>Class dispatch\<close>

definition class_enqueue_task :: "kapi \<Rightarrow> sched_class \<Rightarrow> cpu \<Rightarrow> tid \<Rightarrow> u32 \<Rightarrow> kernel \<Rightarrow> kernel" where
  "class_enqueue_task a cls = (if cls = yat_casched_sched_class then enqueue_task_yat_casched
                               else ka_enqueue_task a cls)"

definition class_dequeue_task :: "kapi \<Rightarrow> sched_class \<Rightarrow> cpu \<Rightarrow> tid \<Rightarrow> u32 \<Rightarrow> kernel \<Rightarrow> kernel" where
  "class_dequeue_task a cls = (if cls = yat_casched_sched_class then dequeue_task_yat_casched
                               else ka_dequeue_task a cls)"

definition class_wakeup_preempt :: "kapi \<Rightarrow> sched_class \<Rightarrow> cpu \<Rightarrow> tid \<Rightarrow> u32 \<Rightarrow> kernel \<Rightarrow> kernel" where
  "class_wakeup_preempt a cls = (if cls = yat_casched_sched_class then wakeup_preempt_yat_casched
                                 else ka_wakeup_preempt a cls)"

definition class_put_prev_task :: "kapi \<Rightarrow> sched_class \<Rightarrow> cpu \<Rightarrow> tid \<Rightarrow> kernel \<Rightarrow> kernel" where
  "class_put_prev_task a cls = (if cls = yat_casched_sched_class then put_prev_task_yat_casched
                                else ka_put_prev_task a cls)"

definition class_set_next_task :: "kapi \<Rightarrow> sched_class \<Rightarrow> cpu \<Rightarrow> tid \<Rightarrow> bool \<Rightarrow> kernel \<Rightarrow> kernel" where
  "class_set_next_task a cls = (if cls = yat_casched_sched_class then set_next_task_yat_casched
                                else ka_set_next_task a cls)"

definition class_select_task_rq ::
  "kapi \<Rightarrow> sched_class \<Rightarrow> tid \<Rightarrow> cpu \<Rightarrow> u32 \<Rightarrow> kernel \<Rightarrow> cpu \<times> kernel" where
  "class_select_task_rq a cls = (if cls = yat_casched_sched_class then select_task_rq_yat_casched
                                 else ka_select_task_rq a cls)"

definition class_set_cpus_allowed ::
  "kapi \<Rightarrow> sched_class \<Rightarrow> tid \<Rightarrow> affinity_context \<Rightarrow> kernel \<Rightarrow> affinity_context \<times> kernel" where
  "class_set_cpus_allowed a cls = (if cls = yat_casched_sched_class then set_cpus_allowed_yat_casched
                                   else ka_set_cpus_allowed a cls)"

definition class_task_tick :: "kapi \<Rightarrow> sched_class \<Rightarrow> cpu \<Rightarrow> tid \<Rightarrow> bool \<Rightarrow> kernel \<Rightarrow> kernel" where
  "class_task_tick a cls = (if cls = yat_casched_sched_class then task_tick_yat_casched
                            else ka_task_tick a cls)"

definition class_switched_from ::
  "kapi \<Rightarrow> sched_class \<Rightarrow> (cpu \<Rightarrow> tid \<Rightarrow> kernel \<Rightarrow> kernel) option" where
  "class_switched_from a cls = (if cls = yat_casched_sched_class then None
                                else ka_switched_from a cls)"

definition class_switched_to :: "kapi \<Rightarrow> sched_class \<Rightarrow> cpu \<Rightarrow> tid \<Rightarrow> kernel \<Rightarrow> kernel" where
  "class_switched_to a cls = (if cls = yat_casched_sched_class then switched_to_yat_casched
                              else ka_switched_to a cls)"

definition class_prio_changed :: "kapi \<Rightarrow> sched_class \<Rightarrow> cpu \<Rightarrow> tid \<Rightarrow> int \<Rightarrow> kernel \<Rightarrow> kernel" where
  "class_prio_changed a cls = (if cls = yat_casched_sched_class then prio_changed_yat_casched
                               else ka_prio_changed a cls)"

definition class_yield_task :: "kapi \<Rightarrow> sched_class \<Rightarrow> cpu \<Rightarrow> kernel \<Rightarrow> kernel" where
  "class_yield_task a cls = (if cls = yat_casched_sched_class then yield_task_yat_casched
                             else ka_yield_task a cls)"

definition class_update_curr :: "kapi \<Rightarrow> sched_class \<Rightarrow> cpu \<Rightarrow> kernel \<Rightarrow> kernel" where
  "class_update_curr a cls = (if cls = yat_casched_sched_class then update_curr_yat_casched
                              else ka_update_curr a cls)"

definition class_balance :: "kapi \<Rightarrow> sched_class \<Rightarrow> cpu \<Rightarrow> tid \<Rightarrow> kernel \<Rightarrow> bool \<times> kernel" where
  "class_balance a cls c prev k =
     (if cls = yat_casched_sched_class
      then let (r, k1) = balance_yat_casched c prev k in (r \<noteq> 0, k1)
      else ka_balance a cls c prev k)"

definition class_pick_next_task ::
  "kapi \<Rightarrow> sched_class \<Rightarrow> cpu \<Rightarrow> kernel \<Rightarrow> tid option \<times> kernel" where
  "class_pick_next_task a cls = (if cls = yat_casched_sched_class then pick_next_task_yat_casched
                                 else ka_pick_next_task a cls)"

definition class_pick_task ::
  "kapi \<Rightarrow> sched_class \<Rightarrow> cpu \<Rightarrow> kernel \<Rightarrow> tid option \<times> kernel" where
  "class_pick_task a cls = (if cls = yat_casched_sched_class then pick_task_yat_casched
                            else ka_pick_task a cls)"

text \<open>Operations the yat class does not set.\<close>

definition class_migrate_task_rq ::
  "kapi \<Rightarrow> sched_class \<Rightarrow> (tid \<Rightarrow> cpu \<Rightarrow> kernel \<Rightarrow> kernel) option" where
  "class_migrate_task_rq a cls = (if cls = yat_casched_sched_class then None
                                  else ka_migrate_task_rq a cls)"

definition class_task_woken ::
  "kapi \<Rightarrow> sched_class \<Rightarrow> (cpu \<Rightarrow> tid \<Rightarrow> kernel \<Rightarrow> kernel) option" where
  "class_task_woken a cls = (if cls = yat_casched_sched_class then None else ka_task_woken a cls)"

definition class_find_lock_rq ::
  "kapi \<Rightarrow> sched_class \<Rightarrow> (tid \<Rightarrow> cpu \<Rightarrow> kernel \<Rightarrow> cpu option) option" where
  "class_find_lock_rq a cls = (if cls = yat_casched_sched_class then None else ka_find_lock_rq a cls)"

definition class_task_fork :: "kapi \<Rightarrow> sched_class \<Rightarrow> (tid \<Rightarrow> kernel \<Rightarrow> kernel) option" where
  "class_task_fork a cls = (if cls = yat_casched_sched_class then None else ka_task_fork a cls)"

definition class_task_dead :: "kapi \<Rightarrow> sched_class \<Rightarrow> (tid \<Rightarrow> kernel \<Rightarrow> kernel) option" where
  "class_task_dead a cls = (if cls = yat_casched_sched_class then None else ka_task_dead a cls)"

definition task_class :: "kernel \<Rightarrow> tid \<Rightarrow> sched_class" where
  "task_class k p = t_sched_class (k_tasks k p)"

definition task_current :: "kernel \<Rightarrow> cpu \<Rightarrow> tid \<Rightarrow> bool" where
  "task_current k c p \<longleftrightarrow> rq_curr (k_rqs k c) = p"

definition put_prev_task :: "kapi \<Rightarrow> cpu \<Rightarrow> tid \<Rightarrow> kernel \<Rightarrow> kernel" where
  "put_prev_task a c p k = class_put_prev_task a (task_class k p) c p k"

definition set_next_task :: "kapi \<Rightarrow> cpu \<Rightarrow> tid \<Rightarrow> kernel \<Rightarrow> kernel" where
  "set_next_task a c p k = class_set_next_task a (task_class k p) c p False k"

definition rq_clock_skip_update :: "cpu \<Rightarrow> kernel \<Rightarrow> kernel" where
  "rq_clock_skip_update c =
     upd_rq c (\<lambda>r. r\<lparr>rq_clock_update_flags := set_flag (rq_clock_update_flags r) RQCF_REQ_SKIP\<rparr>)"

section \<open>Enqueue and dequeue\<close>

definition enqueue_task :: "kapi \<Rightarrow> cpu \<Rightarrow> tid \<Rightarrow> u32 \<Rightarrow> kernel \<Rightarrow> kernel" where
  "enqueue_task a c p flags k =
     (let k1 = (if \<not> test_flag flags ENQUEUE_NOCLOCK then update_rq_clock a c k else k);
          k2 = uclamp_rq_inc a c p k1;
          k3 = class_enqueue_task a (task_class k2 p) c p flags k2
      in if rq_sched_core_enabled k3 c then sched_core_enqueue a c p k3 else k3)"

definition dequeue_task :: "kapi \<Rightarrow> cpu \<Rightarrow> tid \<Rightarrow> u32 \<Rightarrow> kernel \<Rightarrow> kernel" where
  "dequeue_task a c p flags k =
     (let k1 = (if rq_sched_core_enabled k c then sched_core_dequeue c p flags k else k);
          k2 = (if \<not> test_flag flags DEQUEUE_NOCLOCK then update_rq_clock a c k1 else k1);
          k3 = uclamp_rq_dec a c p k2
      in class_dequeue_task a (task_class k3 p) c p flags k3)"

definition activate_task :: "kapi \<Rightarrow> cpu \<Rightarrow> tid \<Rightarrow> u32 \<Rightarrow> kernel \<Rightarrow> kernel" where
  "activate_task a c p flags k =
     (let flags = (if task_on_rq_migrating (k_tasks k p) then flags OR ENQUEUE_MIGRATED else flags)
      in upd_task p (\<lambda>t. t\<lparr>t_on_rq := TASK_ON_RQ_QUEUED\<rparr>) (enqueue_task a c p flags k))"

definition deactivate_task :: "kapi \<Rightarrow> cpu \<Rightarrow> tid \<Rightarrow> u32 \<Rightarrow> kernel \<Rightarrow> kernel" where
  "deactivate_task a c p flags k =
     dequeue_task a c p flags
       (upd_task p (\<lambda>t. t\<lparr>t_on_rq := (if test_flag flags DEQUEUE_SLEEP then 0
                                     else TASK_ON_RQ_MIGRATING)\<rparr>) k)"

definition task_curr :: "kernel \<Rightarrow> tid \<Rightarrow> bool" where
  "task_curr k p \<longleftrightarrow> rq_curr (k_rqs k (task_cpu k p)) = p"

definition sched_task_on_rq :: "task_struct \<Rightarrow> bool" where
  "sched_task_on_rq t \<longleftrightarrow> task_on_rq_queued t"

definition dl_task :: "task_struct \<Rightarrow> bool" where
  "dl_task t \<longleftrightarrow> dl_prio (t_prio t)"

definition check_class_changed :: "kapi \<Rightarrow> cpu \<Rightarrow> tid \<Rightarrow> sched_class \<Rightarrow> int \<Rightarrow> kernel \<Rightarrow> kernel" where
  "check_class_changed a c p prev_class oldprio k =
     (if prev_class \<noteq> task_class k p
      then let k1 = (case class_switched_from a prev_class of Some f \<Rightarrow> f c p k | None \<Rightarrow> k)
           in class_switched_to a (task_class k1 p) c p k1
      else if oldprio \<noteq> t_prio (k_tasks k p) \<or> dl_task (k_tasks k p)
      then class_prio_changed a (task_class k p) c p oldprio k
      else k)"

definition wakeup_preempt :: "kapi \<Rightarrow> cpu \<Rightarrow> tid \<Rightarrow> u32 \<Rightarrow> kernel \<Rightarrow> kernel" where
  "wakeup_preempt a c p flags k =
     (let curr = rq_curr (k_rqs k c);
          k1 = (if task_class k p = task_class k curr
                then class_wakeup_preempt a (task_class k curr) c p flags k
                else if sched_class_above (task_class k p) (task_class k curr) then resched_curr c k
                else k);
          t = k_tasks k1 (rq_curr (k_rqs k1 c))
      in if task_on_rq_queued t \<and> test_tsk_need_resched t then rq_clock_skip_update c k1 else k1)"

section \<open>Balance callbacks\<close>

definition do_balance_callbacks :: "kapi \<Rightarrow> cpu \<Rightarrow> balance_callback list \<Rightarrow> kernel \<Rightarrow> kernel" where
  "do_balance_callbacks a c head = fold (\<lambda>cb. ka_balance_func a cb c) head"

definition us_splice_balance_callbacks ::
  "cpu \<Rightarrow> bool \<Rightarrow> kernel \<Rightarrow> balance_callback list \<times> kernel" where
  "us_splice_balance_callbacks c split k =
     (let head = rq_balance_callback (k_rqs k c)
      in if head = [] then ([], k)
         else if split \<and> hd head = CB_balance_push then ([], k)
         else (head, upd_rq c (\<lambda>r. r\<lparr>rq_balance_callback := []\<rparr>) k))"

definition splice_balance_callbacks :: "cpu \<Rightarrow> kernel \<Rightarrow> balance_callback list \<times> kernel" where
  "splice_balance_callbacks c k = us_splice_balance_callbacks c True k"

definition us_balance_callbacks :: "kapi \<Rightarrow> cpu \<Rightarrow> kernel \<Rightarrow> kernel" where
  "us_balance_callbacks a c k =
     (let (head, k1) = us_splice_balance_callbacks c False k in do_balance_callbacks a c head k1)"

definition balance_callbacks :: "kapi \<Rightarrow> cpu \<Rightarrow> balance_callback list \<Rightarrow> kernel \<Rightarrow> kernel" where
  "balance_callbacks a c head k = (if head \<noteq> [] then do_balance_callbacks a c head k else k)"

section \<open>Claiming and releasing a task\<close>

definition prepare_task :: "tid \<Rightarrow> kernel \<Rightarrow> kernel" where
  "prepare_task p = upd_task p (\<lambda>t. t\<lparr>t_on_cpu := True\<rparr>)"

definition finish_task :: "tid \<Rightarrow> kernel \<Rightarrow> kernel" where
  "finish_task p = upd_task p (\<lambda>t. t\<lparr>t_on_cpu := False\<rparr>)"

section \<open>Idle CPUs\<close>

definition idle_cpu :: "kernel \<Rightarrow> cpu \<Rightarrow> bool" where
  "idle_cpu k c \<longleftrightarrow>
     (let r = k_rqs k c
      in rq_curr r = rq_idle r \<and> rq_nr_running r = 0 \<and> \<not> rq_ttwu_pending r)"

definition vcpu_is_preempted :: "cpu \<Rightarrow> bool" where
  "vcpu_is_preempted c \<longleftrightarrow> False"

definition available_idle_cpu :: "kernel \<Rightarrow> cpu \<Rightarrow> bool" where
  "available_idle_cpu k c \<longleftrightarrow> idle_cpu k c \<and> \<not> vcpu_is_preempted c"

definition idle_task :: "kernel \<Rightarrow> cpu \<Rightarrow> tid" where
  "idle_task k c = rq_idle (k_rqs k c)"

definition sched_core_idle_cpu :: "kernel \<Rightarrow> cpu \<Rightarrow> bool" where
  "sched_core_idle_cpu k c \<longleftrightarrow>
     rq_sched_core_enabled k c \<and> rq_curr (k_rqs k c) = rq_idle (k_rqs k c) \<or> idle_cpu k c"

definition owner_on_cpu :: "kernel \<Rightarrow> tid \<Rightarrow> bool" where
  "owner_on_cpu k p \<longleftrightarrow> t_on_cpu (k_tasks k p) \<and> \<not> vcpu_is_preempted (task_cpu k p)"

section \<open>Timer interrupt of the high-resolution tick\<close>

definition hrtick :: "kapi \<Rightarrow> cpu \<Rightarrow> kernel \<Rightarrow> kernel" where
  "hrtick a c k =
     (let k1 = update_rq_clock a c k; curr = rq_curr (k_rqs k1 c)
      in class_task_tick a (task_class k1 curr) c curr True k1)"

end
