(* ===== verification/Prio.thy ===== *)
theory Prio
  imports Queue
begin

text \<open>
  Priorities (\<open>core.c\<close>): from policy and nice value to the kernel priority and the load
  weight, changing the nice value, and priority inheritance.  A read outside a weight table
  is recorded in \<open>k_undefined\<close>.
\<close>

section \<open>Load weights\<close>

definition sched_prio_to_weight :: "nat list" where
  "sched_prio_to_weight =
    [88761, 71755, 56483, 46273, 36291,
     29154, 23254, 18705, 14949, 11916,
     9548, 7620, 6100, 4904, 3906,
     3121, 2501, 1991, 1586, 1277,
     1024, 820, 655, 526, 423,
     335, 272, 215, 172, 137,
     110, 87, 70, 56, 45,
     36, 29, 23, 18, 15]"

definition sched_prio_to_wmult :: "nat list" where
  "sched_prio_to_wmult =
    [48388, 59856, 76040, 92818, 118348,
     147320, 184698, 229616, 287308, 360437,
     449829, 563644, 704093, 875809, 1099582,
     1376151, 1717300, 2157191, 2708050, 3363326,
     4194304, 5237765, 6557202, 8165337, 10153587,
     12820798, 15790321, 19976592, 24970740, 31350126,
     39045157, 49367440, 61356676, 76695844, 95443717,
     119304647, 148102320, 186737708, 238609294, 286331153]"

text \<open>Constants and scaling of \<open>kernel/sched/sched.h\<close> on a 64-bit machine.\<close>

definition WEIGHT_IDLEPRIO :: nat where "WEIGHT_IDLEPRIO = 3"
definition WMULT_IDLEPRIO :: nat where "WMULT_IDLEPRIO = 1431655765"
definition scale_load :: "nat \<Rightarrow> u64" where "scale_load w = push_bit 10 (of_nat w)"

definition set_load_weight :: "kapi \<Rightarrow> tid \<Rightarrow> bool \<Rightarrow> kernel \<Rightarrow> kernel" where
  "set_load_weight a p update_load k =
     (let t = k_tasks k p;
          prio = t_static_prio t - MAX_RT_PRIO;
          set_load = (\<lambda>w i. upd_task p (\<lambda>t. t\<lparr>t_se := (t_se t)\<lparr>se_load :=
                        \<lparr>lw_weight = scale_load w, lw_inv_weight = of_nat i\<rparr>\<rparr>\<rparr>) k)
      in if ka_idle_policy a (t_policy t) then set_load WEIGHT_IDLEPRIO WMULT_IDLEPRIO
         else if update_load \<and> t_sched_class t = fair_sched_class then ka_reweight_task a p prio k
         else if 0 \<le> prio \<and> prio < 40
         then set_load (sched_prio_to_weight ! nat prio) (sched_prio_to_wmult ! nat prio)
         else k\<lparr>k_undefined := True\<rparr>)"

section \<open>The kernel priority\<close>

definition us_normal_prio :: "kapi \<Rightarrow> int \<Rightarrow> int \<Rightarrow> int \<Rightarrow> int" where
  "us_normal_prio a policy rt_pri nice =
     (if ka_dl_policy a policy then MAX_DL_PRIO - 1
      else if ka_rt_policy a policy then MAX_RT_PRIO - 1 - rt_pri
      else NICE_TO_PRIO nice)"

definition normal_prio :: "kapi \<Rightarrow> task_struct \<Rightarrow> int" where
  "normal_prio a t =
     us_normal_prio a (t_policy t) (sint (t_rt_priority t)) (PRIO_TO_NICE (t_static_prio t))"

text \<open>Also stores \<open>normal_prio\<close>.\<close>

definition effective_prio :: "kapi \<Rightarrow> tid \<Rightarrow> kernel \<Rightarrow> int \<times> kernel" where
  "effective_prio a p k =
     (let k1 = upd_task p (\<lambda>t. t\<lparr>t_normal_prio := normal_prio a t\<rparr>) k;
          t = k_tasks k1 p
      in (if \<not> rt_prio (t_prio t) then t_normal_prio t else t_prio t, k1))"

definition us_setscheduler_prio :: "tid \<Rightarrow> int \<Rightarrow> kernel \<Rightarrow> kernel" where
  "us_setscheduler_prio p prio =
     upd_task p (\<lambda>t. t\<lparr>t_sched_class := (if dl_prio prio then dl_sched_class
                                        else if rt_prio prio then rt_sched_class
                                        else fair_sched_class),
                      t_prio := prio\<rparr>)"

definition task_prio :: "task_struct \<Rightarrow> int" where
  "task_prio t = t_prio t - MAX_RT_PRIO"

section \<open>Priority inheritance\<close>

definition us_rt_effective_prio :: "kernel \<Rightarrow> tid option \<Rightarrow> int \<Rightarrow> int" where
  "us_rt_effective_prio k pi_task prio =
     (case pi_task of Some q \<Rightarrow> min prio (t_prio (k_tasks k q)) | None \<Rightarrow> prio)"

text \<open>\<open>rt_mutex_get_top_task\<close> returns \<open>pi_top_task\<close>.\<close>

definition rt_effective_prio :: "kernel \<Rightarrow> tid \<Rightarrow> int \<Rightarrow> int" where
  "rt_effective_prio k p prio = us_rt_effective_prio k (t_pi_top_task (k_tasks k p)) prio"

definition set_pi_se :: "tid \<Rightarrow> tid \<Rightarrow> kernel \<Rightarrow> kernel" where
  "set_pi_se p q = upd_task p (\<lambda>t. t\<lparr>t_dl := (t_dl t)\<lparr>dl_pi_se := q\<rparr>\<rparr>)"

text \<open>The boosting conditions: the new state and the additional queue flags.\<close>

definition pi_boost :: "kapi \<Rightarrow> tid \<Rightarrow> tid option \<Rightarrow> int \<Rightarrow> int \<Rightarrow> u32 \<Rightarrow> kernel \<Rightarrow> u32 \<times> kernel" where
  "pi_boost a p pi_task prio oldprio queue_flag k =
     (if dl_prio prio
      then if \<not> dl_prio (t_normal_prio (k_tasks k p)) \<or>
              (case pi_task of None \<Rightarrow> False
               | Some q \<Rightarrow> dl_prio (t_prio (k_tasks k q)) \<and>
                           ka_dl_entity_preempt a (t_dl (k_tasks k q)) (t_dl (k_tasks k p)))
           then (queue_flag OR ENQUEUE_REPLENISH,
                 case pi_task of Some q \<Rightarrow> set_pi_se p (dl_pi_se (t_dl (k_tasks k q))) k
                 | None \<Rightarrow> k\<lparr>k_undefined := True\<rparr>)
           else (queue_flag, set_pi_se p p k)
      else if rt_prio prio
      then (if oldprio < prio then queue_flag OR ENQUEUE_HEAD else queue_flag,
            if dl_prio oldprio then set_pi_se p p k else k)
      else (queue_flag,
            let k1 = (if dl_prio oldprio then set_pi_se p p k else k)
            in if rt_prio oldprio
               then upd_task p (\<lambda>t. t\<lparr>t_rt := (t_rt t)\<lparr>rt_timeout := 0\<rparr>\<rparr>) k1 else k1))"

definition rt_mutex_setprio :: "kapi \<Rightarrow> tid \<Rightarrow> tid option \<Rightarrow> kernel \<Rightarrow> kernel" where
  "rt_mutex_setprio a p pi_task k =
     (let queue_flag = DEQUEUE_SAVE OR DEQUEUE_MOVE OR DEQUEUE_NOCLOCK;
          t = k_tasks k p;
          prio = us_rt_effective_prio k pi_task (t_normal_prio t)
      in if t_pi_top_task t = pi_task \<and> prio = t_prio t \<and> \<not> dl_prio prio then k
         else let c = task_cpu k p;
                  k = update_rq_clock a c k;
                  k = upd_task p (\<lambda>t. t\<lparr>t_pi_top_task := pi_task\<rparr>) k
              in if prio = t_prio (k_tasks k p) \<and> \<not> dl_prio prio then us_balance_callbacks a c k
                 else if p = rq_idle (k_rqs k c) then us_balance_callbacks a c k
                 else let oldprio = t_prio (k_tasks k p);
                          queue_flag = (if oldprio = prio then queue_flag AND NOT DEQUEUE_MOVE
                                        else queue_flag);
                          prev_class = task_class k p;
                          queued = task_on_rq_queued (k_tasks k p);
                          running = task_current k c p;
                          k = (if queued then dequeue_task a c p queue_flag k else k);
                          k = (if running then put_prev_task a c p k else k);
                          (queue_flag, k) = pi_boost a p pi_task prio oldprio queue_flag k;
                          k = us_setscheduler_prio p prio k;
                          k = (if queued then enqueue_task a c p queue_flag k else k);
                          k = (if running then set_next_task a c p k else k);
                          k = check_class_changed a c p prev_class oldprio k
                      in us_balance_callbacks a c k)"

section \<open>Nice values\<close>

definition set_user_nice :: "kapi \<Rightarrow> tid \<Rightarrow> int \<Rightarrow> kernel \<Rightarrow> kernel" where
  "set_user_nice a p nice k =
     (if task_nice (k_tasks k p) = nice \<or> nice < MIN_NICE \<or> MAX_NICE < nice then k
      else let c = task_cpu k p;
               k = update_rq_clock a c k;
               t = k_tasks k p
           in if ka_dl_policy a (t_policy t) \<or> ka_rt_policy a (t_policy t)
              then upd_task p (\<lambda>t. t\<lparr>t_static_prio := NICE_TO_PRIO nice\<rparr>) k
              else let queued = task_on_rq_queued t;
                       running = task_current k c p;
                       k = (if queued then dequeue_task a c p (DEQUEUE_SAVE OR DEQUEUE_NOCLOCK) k else k);
                       k = (if running then put_prev_task a c p k else k);
                       k = upd_task p (\<lambda>t. t\<lparr>t_static_prio := NICE_TO_PRIO nice\<rparr>) k;
                       k = set_load_weight a p True k;
                       old_prio = t_prio (k_tasks k p);
                       (prio, k) = effective_prio a p k;
                       k = upd_task p (\<lambda>t. t\<lparr>t_prio := prio\<rparr>) k;
                       k = (if queued then enqueue_task a c p (ENQUEUE_RESTORE OR ENQUEUE_NOCLOCK) k else k);
                       k = (if running then set_next_task a c p k else k)
                   in class_prio_changed a (task_class k p) c p old_prio k)"

definition is_nice_reduction :: "kapi \<Rightarrow> kernel \<Rightarrow> tid \<Rightarrow> int \<Rightarrow> bool" where
  "is_nice_reduction a k p nice \<longleftrightarrow> nice_to_rlimit nice \<le> ka_rlimit_nice a k p"

definition can_nice :: "kapi \<Rightarrow> kernel \<Rightarrow> tid \<Rightarrow> int \<Rightarrow> bool" where
  "can_nice a k p nice \<longleftrightarrow> is_nice_reduction a k p nice \<or> ka_capable_sys_nice a k"

definition clamp_int :: "int \<Rightarrow> int \<Rightarrow> int \<Rightarrow> int" where
  "clamp_int v lo hi = min (max v lo) hi"

definition sys_nice :: "kapi \<Rightarrow> int \<Rightarrow> kernel \<Rightarrow> int \<times> kernel" where
  "sys_nice a increment k =
     (let increment = clamp_int increment (- NICE_WIDTH) NICE_WIDTH;
          p = k_current k;
          nice = clamp_int (task_nice (k_tasks k p) + increment) MIN_NICE MAX_NICE
      in if increment < 0 \<and> \<not> can_nice a k p nice then (- EPERM, k)
         else let retval = ka_security_task_setnice a k p nice
              in if retval \<noteq> 0 then (retval, k) else (0, set_user_nice a p nice k))"

end
