(* ===== verification/Queue_Frame.thy ===== *)
theory Queue_Frame
  imports Queue Yat_Lemmas Uclamp_Lemmas
begin

text \<open>
  What queueing, dequeueing and switching tasks leaves alone.  An observation of the
  kernel that the clock, the clamp buckets, the core tree, rescheduling and the yat class
  do not disturb is not disturbed by the whole queue layer either, provided the classes of
  other files keep it: this contract is the locale \<open>queue_observer\<close>.  It is interpreted
  twice: for the fields of tasks that belong to the core scheduler, and for the machine
  itself (current tasks, CPU masks, affinity requests).
\<close>

section \<open>The classes of other files\<close>

definition class_ops_keep :: "(kernel \<Rightarrow> 'b) \<Rightarrow> kapi \<Rightarrow> bool" where
  "class_ops_keep obs a \<longleftrightarrow>
     (\<forall>cls c p f k. obs (ka_enqueue_task a cls c p f k) = obs k) \<and>
     (\<forall>cls c p f k. obs (ka_dequeue_task a cls c p f k) = obs k) \<and>
     (\<forall>cls c p k. obs (ka_put_prev_task a cls c p k) = obs k) \<and>
     (\<forall>cls c p b k. obs (ka_set_next_task a cls c p b k) = obs k) \<and>
     (\<forall>cls c p f k. ka_switched_from a cls = Some f \<longrightarrow> obs (f c p k) = obs k) \<and>
     (\<forall>cls c p k. obs (ka_switched_to a cls c p k) = obs k) \<and>
     (\<forall>cls c p old k. obs (ka_prio_changed a cls c p old k) = obs k) \<and>
     (\<forall>cls c p f k. obs (ka_wakeup_preempt a cls c p f k) = obs k) \<and>
     (\<forall>cls c p b k. obs (ka_task_tick a cls c p b k) = obs k) \<and>
     (\<forall>p prio k. obs (ka_reweight_task a p prio k) = obs k)"

section \<open>The contract of an undisturbed observation\<close>

locale queue_observer =
  fixes obs :: "kernel \<Rightarrow> 'b"
  assumes clock: "obs (update_rq_clock a c k) = obs k"
    and clock_flags: "obs (upd_rq c (\<lambda>r. r\<lparr>rq_clock_update_flags := h r\<rparr>) k) = obs k"
    and callbacks: "obs (upd_rq c (\<lambda>r. r\<lparr>rq_balance_callback := l\<rparr>) k) = obs k"
    and uclamp_inc: "obs (uclamp_rq_inc a c p k) = obs k"
    and uclamp_dec: "obs (uclamp_rq_dec a c p k) = obs k"
    and core_enqueue: "obs (sched_core_enqueue a c p k) = obs k"
    and core_dequeue: "obs (sched_core_dequeue c p f k) = obs k"
    and resched: "obs (resched_curr c k) = obs k"
    and yat_enqueue: "obs (enqueue_task_yat_casched c p f k) = obs k"
    and yat_dequeue: "obs (dequeue_task_yat_casched c p f k) = obs k"
    and yat_put_prev: "obs (put_prev_task_yat_casched c p k) = obs k"
    and yat_set_next: "obs (set_next_task_yat_casched c p b k) = obs k"
    and yat_tick: "obs (task_tick_yat_casched c p b k) = obs k"
begin

lemma keep_enqueue:
  assumes "class_ops_keep obs a" shows "obs (enqueue_task a c p f k) = obs k"
proof -
  have "obs (ka_enqueue_task a cls c p f k) = obs k" for cls k
    using assms by (auto simp: class_ops_keep_def)
  then show ?thesis
    by (simp add: enqueue_task_def class_enqueue_task_def Let_def core_enqueue yat_enqueue uclamp_inc clock)
qed

lemma keep_dequeue:
  assumes "class_ops_keep obs a" shows "obs (dequeue_task a c p f k) = obs k"
proof -
  have "obs (ka_dequeue_task a cls c p f k) = obs k" for cls k
    using assms by (auto simp: class_ops_keep_def)
  then show ?thesis
    by (simp add: dequeue_task_def class_dequeue_task_def Let_def core_dequeue yat_dequeue uclamp_dec clock)
qed

lemma keep_put_prev: "class_ops_keep obs a \<Longrightarrow> obs (put_prev_task a c p k) = obs k"
  by (auto simp: put_prev_task_def class_put_prev_task_def class_ops_keep_def yat_put_prev)

lemma keep_set_next: "class_ops_keep obs a \<Longrightarrow> obs (set_next_task a c p k) = obs k"
  by (auto simp: set_next_task_def class_set_next_task_def class_ops_keep_def yat_set_next)

lemma keep_prio_changed: "class_ops_keep obs a \<Longrightarrow> obs (class_prio_changed a cls c p old k) = obs k"
  by (auto simp: class_prio_changed_def class_ops_keep_def prio_changed_yat_casched_def)

lemma keep_check_class_changed:
  assumes "class_ops_keep obs a" shows "obs (check_class_changed a c p cls old k) = obs k"
proof -
  have "ka_switched_from a cls = Some h \<Longrightarrow> obs (h c p k) = obs k" for cls h k
    using assms by (auto simp: class_ops_keep_def)
  moreover have "obs (ka_switched_to a cls c p k) = obs k" for cls k
    using assms by (auto simp: class_ops_keep_def)
  ultimately show ?thesis using keep_prio_changed [OF assms]
    by (auto simp: check_class_changed_def class_switched_from_def class_switched_to_def
        switched_to_yat_casched_def Let_def split: option.split)
qed

lemma keep_wakeup_preempt:
  assumes "class_ops_keep obs a" shows "obs (wakeup_preempt a c p f k) = obs k"
proof -
  have "obs (ka_wakeup_preempt a cls c p f k) = obs k" for cls k
    using assms by (auto simp: class_ops_keep_def)
  then show ?thesis
    by (simp add: wakeup_preempt_def class_wakeup_preempt_def wakeup_preempt_yat_casched_def
        rq_clock_skip_update_def Let_def resched clock_flags)
qed

lemma keep_tick:
  "class_ops_keep obs a \<Longrightarrow> obs (class_task_tick a cls c p b k) = obs k"
  by (auto simp: class_task_tick_def class_ops_keep_def yat_tick)

lemma keep_splice:
  "obs (snd (us_splice_balance_callbacks c b k)) = obs k" "obs (snd (splice_balance_callbacks c k)) = obs k"
  by (simp_all add: us_splice_balance_callbacks_def splice_balance_callbacks_def Let_def callbacks)

lemma keep_do_balance:
  assumes "\<And>cb c k. obs (ka_balance_func a cb c k) = obs k"
  shows "obs (do_balance_callbacks a c head k) = obs k"
  unfolding do_balance_callbacks_def
  by (rule fold_invariant [where P = "\<lambda>s. obs s = obs k"]) (simp_all add: assms)

lemma keep_balance:
  assumes "\<And>cb c k. obs (ka_balance_func a cb c k) = obs k"
  shows "obs (balance_callbacks a c head k) = obs k" "obs (us_balance_callbacks a c k) = obs k"
proof -
  show "obs (balance_callbacks a c head k) = obs k"
    by (simp add: balance_callbacks_def keep_do_balance [OF assms])
  show "obs (us_balance_callbacks a c k) = obs k"
    using keep_splice(1) [of c False k]
    by (simp add: us_balance_callbacks_def case_prod_beta keep_do_balance [OF assms])
qed

text \<open>Whatever is computed from an undisturbed observation is one.\<close>

lemma observe_part: "queue_observer (\<lambda>k. g (obs k))"
  by unfold_locales
    (simp_all add: clock clock_flags callbacks uclamp_inc uclamp_dec core_enqueue core_dequeue resched
      yat_enqueue yat_dequeue yat_put_prev yat_set_next yat_tick)

lemmas keep_ops = keep_enqueue keep_dequeue keep_put_prev keep_set_next keep_prio_changed
  keep_check_class_changed keep_wakeup_preempt keep_tick

end

section \<open>The public part of tasks\<close>

text \<open>
  A task without the entities and counters the classes keep in it: two tasks with the same
  public part agree in state, policy, priorities, placement and affinity.
\<close>

definition public_part :: "task_struct \<Rightarrow> task_struct" where
  "public_part t = t\<lparr>t_se := t_se (sample_task 0), t_rt := t_rt (sample_task 0),
     t_dl := t_dl (sample_task 0), t_yat_casched := t_yat_casched (sample_task 0),
     t_uclamp := t_uclamp (sample_task 0), t_core_node := False, t_core_occupation := 0,
     t_stats := t_stats (sample_task 0), t_dl_server := False, t_ti_flags := 0\<rparr>"

definition public_tasks :: "kernel \<Rightarrow> tid \<Rightarrow> task_struct" where
  "public_tasks k q = public_part (k_tasks k q)"

lemma public_part_sel [simp]:
    "t_state (public_part t) = t_state t" "t_saved_state (public_part t) = t_saved_state t"
    "t_flags (public_part t) = t_flags t" "t_on_cpu (public_part t) = t_on_cpu t"
    "t_wake_cpu (public_part t) = t_wake_cpu t"
    "t_recent_used_cpu (public_part t) = t_recent_used_cpu t"
    "t_on_rq (public_part t) = t_on_rq t" "t_prio (public_part t) = t_prio t"
    "t_static_prio (public_part t) = t_static_prio t"
    "t_normal_prio (public_part t) = t_normal_prio t"
    "t_rt_priority (public_part t) = t_rt_priority t"
    "t_sched_class (public_part t) = t_sched_class t"
    "t_core_cookie (public_part t) = t_core_cookie t"
    "t_sched_task_group (public_part t) = t_sched_task_group t"
    "t_uclamp_req (public_part t) = t_uclamp_req t" "t_policy (public_part t) = t_policy t"
    "t_nr_cpus_allowed (public_part t) = t_nr_cpus_allowed t"
    "t_cpus_ptr (public_part t) = t_cpus_ptr t"
    "t_user_cpus_ptr (public_part t) = t_user_cpus_ptr t"
    "t_cpus_mask (public_part t) = t_cpus_mask t"
    "t_migration_disabled (public_part t) = t_migration_disabled t"
    "t_migration_flags (public_part t) = t_migration_flags t"
    "t_sched_reset_on_fork (public_part t) = t_sched_reset_on_fork t"
    "t_sched_contributes_to_load (public_part t) = t_sched_contributes_to_load t"
    "t_sched_remote_wakeup (public_part t) = t_sched_remote_wakeup t"
    "t_in_iowait (public_part t) = t_in_iowait t" "t_nvcsw (public_part t) = t_nvcsw t"
    "t_nivcsw (public_part t) = t_nivcsw t"
    "t_migration_pending (public_part t) = t_migration_pending t"
    "t_pi_top_task (public_part t) = t_pi_top_task t" "t_ti_cpu (public_part t) = t_ti_cpu t"
  by (simp_all add: public_part_def)

lemma public_part_upd [simp]:
  "public_part (t\<lparr>t_se := x1\<rparr>) = public_part t" "public_part (t\<lparr>t_rt := x2\<rparr>) = public_part t"
  "public_part (t\<lparr>t_dl := x3\<rparr>) = public_part t" "public_part (t\<lparr>t_yat_casched := x4\<rparr>) = public_part t"
  "public_part (t\<lparr>t_uclamp := x5\<rparr>) = public_part t" "public_part (t\<lparr>t_core_node := x6\<rparr>) = public_part t"
  "public_part (t\<lparr>t_core_occupation := x7\<rparr>) = public_part t" "public_part (t\<lparr>t_stats := x8\<rparr>) = public_part t"
  "public_part (t\<lparr>t_dl_server := x9\<rparr>) = public_part t" "public_part (t\<lparr>t_ti_flags := x10\<rparr>) = public_part t"
  by (simp_all add: public_part_def)

lemma public_part_eqD:
  assumes "public_part t = public_part u"
  shows "t_state t = t_state u" "t_saved_state t = t_saved_state u" "t_flags t = t_flags u"
    "t_on_cpu t = t_on_cpu u" "t_wake_cpu t = t_wake_cpu u"
    "t_recent_used_cpu t = t_recent_used_cpu u" "t_on_rq t = t_on_rq u" "t_prio t = t_prio u"
    "t_static_prio t = t_static_prio u" "t_normal_prio t = t_normal_prio u"
    "t_rt_priority t = t_rt_priority u" "t_sched_class t = t_sched_class u"
    "t_core_cookie t = t_core_cookie u" "t_sched_task_group t = t_sched_task_group u"
    "t_uclamp_req t = t_uclamp_req u" "t_policy t = t_policy u"
    "t_nr_cpus_allowed t = t_nr_cpus_allowed u" "t_cpus_ptr t = t_cpus_ptr u"
    "t_user_cpus_ptr t = t_user_cpus_ptr u" "t_cpus_mask t = t_cpus_mask u"
    "t_migration_disabled t = t_migration_disabled u" "t_migration_flags t = t_migration_flags u"
    "t_sched_reset_on_fork t = t_sched_reset_on_fork u"
    "t_sched_contributes_to_load t = t_sched_contributes_to_load u"
    "t_sched_remote_wakeup t = t_sched_remote_wakeup u" "t_in_iowait t = t_in_iowait u"
    "t_nvcsw t = t_nvcsw u" "t_nivcsw t = t_nivcsw u"
    "t_migration_pending t = t_migration_pending u" "t_pi_top_task t = t_pi_top_task u"
    "t_ti_cpu t = t_ti_cpu u"
proof -
  have e: "f (public_part t) = f (public_part u)" for f :: "task_struct \<Rightarrow> 'x"
    using assms by simp
  show "t_state t = t_state u" "t_saved_state t = t_saved_state u" "t_flags t = t_flags u"
    "t_on_cpu t = t_on_cpu u" "t_wake_cpu t = t_wake_cpu u"
    "t_recent_used_cpu t = t_recent_used_cpu u" "t_on_rq t = t_on_rq u" "t_prio t = t_prio u"
    "t_static_prio t = t_static_prio u" "t_normal_prio t = t_normal_prio u"
    "t_rt_priority t = t_rt_priority u" "t_sched_class t = t_sched_class u"
    "t_core_cookie t = t_core_cookie u" "t_sched_task_group t = t_sched_task_group u"
    "t_uclamp_req t = t_uclamp_req u" "t_policy t = t_policy u"
    "t_nr_cpus_allowed t = t_nr_cpus_allowed u" "t_cpus_ptr t = t_cpus_ptr u"
    "t_user_cpus_ptr t = t_user_cpus_ptr u" "t_cpus_mask t = t_cpus_mask u"
    "t_migration_disabled t = t_migration_disabled u" "t_migration_flags t = t_migration_flags u"
    "t_sched_reset_on_fork t = t_sched_reset_on_fork u"
    "t_sched_contributes_to_load t = t_sched_contributes_to_load u"
    "t_sched_remote_wakeup t = t_sched_remote_wakeup u" "t_in_iowait t = t_in_iowait u"
    "t_nvcsw t = t_nvcsw u" "t_nivcsw t = t_nivcsw u"
    "t_migration_pending t = t_migration_pending u" "t_pi_top_task t = t_pi_top_task u"
    "t_ti_cpu t = t_ti_cpu u"
    using e [of t_state] e [of t_saved_state] e [of t_flags] e [of t_on_cpu] e [of t_wake_cpu]
    e [of t_recent_used_cpu] e [of t_on_rq] e [of t_prio] e [of t_static_prio]
    e [of t_normal_prio] e [of t_rt_priority] e [of t_sched_class] e [of t_core_cookie]
    e [of t_sched_task_group] e [of t_uclamp_req] e [of t_policy] e [of t_nr_cpus_allowed]
    e [of t_cpus_ptr] e [of t_user_cpus_ptr] e [of t_cpus_mask] e [of t_migration_disabled]
    e [of t_migration_flags] e [of t_sched_reset_on_fork] e [of t_sched_contributes_to_load]
    e [of t_sched_remote_wakeup] e [of t_in_iowait] e [of t_nvcsw] e [of t_nivcsw]
    e [of t_migration_pending] e [of t_pi_top_task] e [of t_ti_cpu] by simp_all
qed

text \<open>The operations of the model keep it.\<close>

lemma public_tasks_upd_rq [simp]: "public_tasks (upd_rq c h k) = public_tasks k"
  by (rule ext) (simp add: public_tasks_def)

lemma public_tasks_upd_task:
  "public_part (f (k_tasks k p)) = public_part (k_tasks k p) \<Longrightarrow> public_tasks (upd_task p f k) = public_tasks k"
  by (rule ext) (simp add: public_tasks_def)

lemma public_tasks_upd_task_uc [simp]: "public_tasks (upd_task_uc p i f k) = public_tasks k"
  by (simp add: upd_task_uc_def public_tasks_upd_task)

lemma public_tasks_uc [simp]:
  "public_tasks (upd_uc_bucket c i b e k) = public_tasks k"
  "public_tasks (uclamp_rq_set c i v k) = public_tasks k"
  "public_tasks (set_uclamp_idle c k) = public_tasks k"
  "public_tasks (clear_uclamp_idle c k) = public_tasks k"
  by (simp_all add: upd_uc_bucket_def upd_uc_rq_def uclamp_rq_set_def set_uclamp_idle_def clear_uclamp_idle_def)

lemma public_tasks_yat [simp]:
  "public_tasks (upd_yat_rq c f k) = public_tasks k" "public_tasks (upd_yat_se p g k) = public_tasks k"
  "public_tasks (k\<lparr>k_list_corrupted := b\<rparr>) = public_tasks k"
  "public_tasks (k\<lparr>k_ipis := l\<rparr>) = public_tasks k"
  "public_tasks (k\<lparr>k_preempt_need_resched := b\<rparr>) = public_tasks k"
  "public_tasks (k\<lparr>k_undefined := b\<rparr>) = public_tasks k"
  by (simp_all add: upd_yat_rq_def upd_yat_se_def public_tasks_upd_task) (simp_all add: public_tasks_def fun_eq_iff)

lemma public_tasks_uclamp_steps [simp]:
  "public_tasks (uclamp_rq_inc_id c p i k) = public_tasks k"
  "public_tasks (uclamp_rq_dec_id c p i k) = public_tasks k"
  by (simp_all add: uclamp_rq_inc_id_def uclamp_idle_reset_def uclamp_rq_dec_id_def uclamp_rq_max_value_def
      uclamp_idle_value_def Let_def split: option.split)

lemma public_tasks_resched [simp]: "public_tasks (resched_curr c k) = public_tasks k"
  by (simp add: resched_curr_def set_tsk_need_resched_def set_nr_and_not_polling_def
      smp_send_reschedule_def public_tasks_upd_task Let_def)

interpretation pub: queue_observer public_tasks
proof
  show "public_tasks (update_rq_clock a c k) = public_tasks k" for a c k
    by (simp add: public_tasks_def fun_eq_iff)
  show "public_tasks (uclamp_rq_inc a c p k) = public_tasks k" for a c p k
    by (simp add: uclamp_rq_inc_def clamp_ids_def Let_def)
  show "public_tasks (uclamp_rq_dec a c p k) = public_tasks k" for a c p k
    by (simp add: uclamp_rq_dec_def clamp_ids_def)
  show "public_tasks (sched_core_enqueue a c p k) = public_tasks k" for a c p k
    by (simp add: sched_core_enqueue_def Let_def public_tasks_upd_task)
  show "public_tasks (sched_core_dequeue c p f k) = public_tasks k" for c p f k
    by (simp add: sched_core_dequeue_def Let_def public_tasks_upd_task)
  show "public_tasks (enqueue_task_yat_casched c p f k) = public_tasks k" for c p f k
    by (simp add: enqueue_task_yat_casched_def yat_list_add_tail_def Let_def)
  show "public_tasks (dequeue_task_yat_casched c p f k) = public_tasks k" for c p f k
    by (simp add: dequeue_task_yat_casched_def yat_list_del_init_def split: option.split)
  show tick0: "public_tasks (put_prev_task_yat_casched c p k) = public_tasks k" for c p k
    by (simp add: put_prev_task_yat_casched_def update_curr_yat_casched_def Let_def public_tasks_upd_task)
  show "public_tasks (set_next_task_yat_casched c p b k) = public_tasks k" for c p b k
    by (simp add: set_next_task_yat_casched_def public_tasks_upd_task)
  show "public_tasks (task_tick_yat_casched c p b k) = public_tasks k" for c p b k
    using tick0 [of c p k]
    by (simp add: put_prev_task_yat_casched_def task_tick_yat_casched_def Let_def public_tasks_upd_task)
qed simp_all

text \<open>Field by field.\<close>

lemma public_tasksD: "public_tasks k = public_tasks k' \<Longrightarrow> public_part (k_tasks k q) = public_part (k_tasks k' q)"
  by (auto simp: public_tasks_def dest: fun_cong)

section \<open>The machine\<close>

definition machine_part :: "kernel \<Rightarrow> (cpu \<Rightarrow> tid \<times> tid \<times> tid option \<times> cpu \<times> cpu \<times> bool) \<times> tid \<times> cpu \<times> int \<times>
    (cpumask \<times> cpumask \<times> cpumask) \<times> (nat \<Rightarrow> set_affinity_pending) \<times> nat \<times> (cpu \<times> stop_work) list" where
  "machine_part k =
     (\<lambda>c. let r = k_rqs k c in (rq_curr r, rq_idle r, rq_stop r, rq_cpu r, rq_core r, rq_push_busy r),
      k_current k, k_this_cpu k, k_nr_cpu_ids k, (k_online k, k_active k, k_possible k),
      k_pendings k, k_next_pending k, k_stop_works k)"

lemma machine_part_eqD:
  assumes "machine_part k = machine_part k'"
  shows "rq_curr (k_rqs k c) = rq_curr (k_rqs k' c)" "rq_idle (k_rqs k c) = rq_idle (k_rqs k' c)"
    "rq_stop (k_rqs k c) = rq_stop (k_rqs k' c)" "rq_cpu (k_rqs k c) = rq_cpu (k_rqs k' c)"
    "rq_core (k_rqs k c) = rq_core (k_rqs k' c)" "rq_push_busy (k_rqs k c) = rq_push_busy (k_rqs k' c)"
    "k_current k = k_current k'" "k_this_cpu k = k_this_cpu k'" "k_nr_cpu_ids k = k_nr_cpu_ids k'"
    "k_online k = k_online k'" "k_active k = k_active k'" "k_possible k = k_possible k'"
    "k_pendings k = k_pendings k'" "k_next_pending k = k_next_pending k'" "k_stop_works k = k_stop_works k'"
  using assms by (auto simp: machine_part_def Let_def dest: fun_cong [where x = c])

lemma machine_part_upd_task [simp]: "machine_part (upd_task p f k) = machine_part k"
  by (simp add: machine_part_def)

lemma machine_part_upd_rq:
  assumes "\<And>r. rq_curr (h r) = rq_curr r" "\<And>r. rq_idle (h r) = rq_idle r" "\<And>r. rq_stop (h r) = rq_stop r"
    "\<And>r. rq_cpu (h r) = rq_cpu r" "\<And>r. rq_core (h r) = rq_core r" "\<And>r. rq_push_busy (h r) = rq_push_busy r"
  shows "machine_part (upd_rq c h k) = machine_part k"
  using assms by (simp add: machine_part_def Let_def fun_eq_iff)

lemma machine_part_uc [simp]:
  "machine_part (upd_uc_bucket c i b e k) = machine_part k"
  "machine_part (uclamp_rq_set c i v k) = machine_part k"
  "machine_part (set_uclamp_idle c k) = machine_part k" "machine_part (clear_uclamp_idle c k) = machine_part k"
  "machine_part (upd_task_uc p i g k) = machine_part k"
  by (simp_all add: upd_uc_bucket_def upd_uc_rq_def uclamp_rq_set_def set_uclamp_idle_def
      clear_uclamp_idle_def upd_task_uc_def machine_part_upd_rq)

lemma machine_part_yat [simp]:
  "machine_part (upd_yat_rq c f k) = machine_part k" "machine_part (upd_yat_se p g k) = machine_part k"
  "machine_part (k\<lparr>k_list_corrupted := b\<rparr>) = machine_part k"
  "machine_part (k\<lparr>k_ipis := l\<rparr>) = machine_part k"
  "machine_part (k\<lparr>k_preempt_need_resched := b\<rparr>) = machine_part k"
  "machine_part (k\<lparr>k_undefined := b\<rparr>) = machine_part k"
  by (simp_all add: upd_yat_rq_def upd_yat_se_def machine_part_upd_rq) (simp_all add: machine_part_def)

lemma machine_part_uclamp_steps [simp]:
  "machine_part (uclamp_rq_inc_id c p i k) = machine_part k"
  "machine_part (uclamp_rq_dec_id c p i k) = machine_part k"
  by (simp_all add: uclamp_rq_inc_id_def uclamp_idle_reset_def uclamp_rq_dec_id_def uclamp_rq_max_value_def
      uclamp_idle_value_def Let_def split: option.split)

lemma machine_part_resched [simp]: "machine_part (resched_curr c k) = machine_part k"
  by (simp add: resched_curr_def set_tsk_need_resched_def set_nr_and_not_polling_def
      smp_send_reschedule_def Let_def)

interpretation mach: queue_observer machine_part
proof
  show "machine_part (update_rq_clock a c k) = machine_part k" for a c k
    by (simp add: update_rq_clock_def update_rq_clock_task_def Let_def machine_part_upd_rq)
  show "machine_part (uclamp_rq_inc a c p k) = machine_part k" for a c p k
    by (simp add: uclamp_rq_inc_def clamp_ids_def Let_def)
  show "machine_part (uclamp_rq_dec a c p k) = machine_part k" for a c p k
    by (simp add: uclamp_rq_dec_def clamp_ids_def)
  show "machine_part (sched_core_enqueue a c p k) = machine_part k" for a c p k
    by (simp add: sched_core_enqueue_def Let_def machine_part_upd_rq)
  show "machine_part (sched_core_dequeue c p f k) = machine_part k" for c p f k
    by (simp add: sched_core_dequeue_def Let_def machine_part_upd_rq)
  show "machine_part (enqueue_task_yat_casched c p f k) = machine_part k" for c p f k
    by (simp add: enqueue_task_yat_casched_def yat_list_add_tail_def Let_def)
  show "machine_part (dequeue_task_yat_casched c p f k) = machine_part k" for c p f k
    by (simp add: dequeue_task_yat_casched_def yat_list_del_init_def split: option.split)
  show "machine_part (put_prev_task_yat_casched c p k) = machine_part k" for c p k
    by (simp add: put_prev_task_yat_casched_def update_curr_yat_casched_def Let_def)
  show "machine_part (set_next_task_yat_casched c p b k) = machine_part k" for c p b k
    by (simp add: set_next_task_yat_casched_def)
  show "machine_part (task_tick_yat_casched c p b k) = machine_part k" for c p b k
    by (simp add: task_tick_yat_casched_def update_curr_yat_casched_def Let_def)
qed (simp_all add: machine_part_upd_rq)

section \<open>A concrete instance\<close>

lemma class_ops_keep_sample:
  "class_ops_keep public_tasks sample_kapi" "class_ops_keep machine_part sample_kapi"
  by (simp_all add: class_ops_keep_def sample_kapi_def machine_part_upd_rq)

end
