(* ===== verification/Prio_Correct.thy ===== *)
theory Prio_Correct
  imports Prio Queue_Frame
begin

text \<open>
  Properties of priorities: ranges and classes, the weight tables, and what changing the
  nice value and priority inheritance do to a task, for any classes that keep their hands
  off the scheduling parameters.
\<close>

section \<open>Operations that keep the scheduling parameters of tasks\<close>

type_synonym task_param =
  "int \<times> int \<times> int \<times> int \<times> u32 \<times> sched_class \<times> tid option \<times> bool"

definition task_params :: "task_struct \<Rightarrow> task_param" where
  "task_params t = (t_policy t, t_static_prio t, t_normal_prio t, t_prio t, t_rt_priority t,
     t_sched_class t, t_pi_top_task t, t_sched_reset_on_fork t)"

text \<open>
  What the properties below rely on: the operations of the other classes keep the public
  part of all tasks, and the balance callbacks, which may migrate tasks, their parameters.
\<close>

definition class_ops_keep_params :: "kapi \<Rightarrow> bool" where
  "class_ops_keep_params a \<longleftrightarrow> class_ops_keep public_tasks a \<and>
     (\<forall>cb c k q. task_params (k_tasks (ka_balance_func a cb c k) q) = task_params (k_tasks k q))"

text \<open>The parameters that remain equal, one by one.\<close>

lemma task_params_eqD:
  assumes "task_params t = task_params u"
  shows "t_policy t = t_policy u" "t_static_prio t = t_static_prio u"
    "t_normal_prio t = t_normal_prio u" "t_prio t = t_prio u" "t_rt_priority t = t_rt_priority u"
    "t_sched_class t = t_sched_class u" "t_pi_top_task t = t_pi_top_task u"
    "t_sched_reset_on_fork t = t_sched_reset_on_fork u"
  using assms by (auto simp: task_params_def)

lemma task_params_public:
  assumes "public_tasks k' = public_tasks k"
  shows "task_params (k_tasks k' q) = task_params (k_tasks k q)"
  using public_part_eqD [OF public_tasksD [OF assms, of q]] by (simp add: task_params_def)

lemma queue_ops_keep_params:
  assumes "class_ops_keep_params a"
  shows "task_params (k_tasks (enqueue_task a c p f k) q) = task_params (k_tasks k q)"
    and "task_params (k_tasks (dequeue_task a c p f k) q) = task_params (k_tasks k q)"
    and "task_params (k_tasks (put_prev_task a c p k) q) = task_params (k_tasks k q)"
    and "task_params (k_tasks (set_next_task a c p k) q) = task_params (k_tasks k q)"
    and "task_params (k_tasks (check_class_changed a c p cls old k) q) = task_params (k_tasks k q)"
    and "task_params (k_tasks (class_prio_changed a cls c p old k) q) = task_params (k_tasks k q)"
    and "task_params (k_tasks (us_balance_callbacks a c k) q) = task_params (k_tasks k q)"
    and "task_params (k_tasks (balance_callbacks a c head k) q) = task_params (k_tasks k q)"
proof -
  have keep: "class_ops_keep public_tasks a"
    and bal: "\<And>cb c k. task_params (k_tasks (ka_balance_func a cb c k) q) = task_params (k_tasks k q)"
    using assms by (auto simp: class_ops_keep_params_def)
  note pub = pub.keep_ops [OF keep, THEN task_params_public]
  show "task_params (k_tasks (enqueue_task a c p f k) q) = task_params (k_tasks k q)"
    "task_params (k_tasks (dequeue_task a c p f k) q) = task_params (k_tasks k q)"
    "task_params (k_tasks (put_prev_task a c p k) q) = task_params (k_tasks k q)"
    "task_params (k_tasks (set_next_task a c p k) q) = task_params (k_tasks k q)"
    "task_params (k_tasks (check_class_changed a c p cls old k) q) = task_params (k_tasks k q)"
    "task_params (k_tasks (class_prio_changed a cls c p old k) q) = task_params (k_tasks k q)"
    by (rule pub)+
  have do: "task_params (k_tasks (do_balance_callbacks a c head k) q) = task_params (k_tasks k q)" for head k
    unfolding do_balance_callbacks_def
    by (rule fold_invariant [where P = "\<lambda>s. task_params (k_tasks s q) = task_params (k_tasks k q)"])
      (simp_all add: bal)
  then show "task_params (k_tasks (us_balance_callbacks a c k) q) = task_params (k_tasks k q)"
    "task_params (k_tasks (balance_callbacks a c head k) q) = task_params (k_tasks k q)"
    by (simp_all add: us_balance_callbacks_def us_splice_balance_callbacks_def balance_callbacks_def Let_def)
qed

section \<open>Priorities and classes\<close>

text \<open>
  From a policy and valid parameters follow a priority in the policy's own range
  (deadline -1, real-time 0 to 98, others 100 to 139) and, through \<open>__setscheduler_prio\<close>,
  the class of that range: deadline, real-time or fair.  No priority leads to the yat
  class, so a task with the repository's own policy runs as a fair task.
\<close>

theorem normal_prio_class:
  assumes "1 \<le> rp" "rp \<le> 99" "MIN_NICE \<le> n" "n \<le> MAX_NICE"
  shows "let prio = us_normal_prio a policy rp n;
             t = k_tasks (us_setscheduler_prio p prio k) p
         in t_prio t = prio \<and> t_sched_class t \<noteq> yat_casched_sched_class \<and>
            (if ka_dl_policy a policy then prio = -1 \<and> t_sched_class t = dl_sched_class
             else if ka_rt_policy a policy then 0 \<le> prio \<and> prio \<le> 98 \<and> t_sched_class t = rt_sched_class
             else 100 \<le> prio \<and> prio \<le> 139 \<and> t_sched_class t = fair_sched_class)"
  using assms by (simp add: us_normal_prio_def us_setscheduler_prio_def prio_consts Let_def)

theorem normal_prio_class_witness:
  "let prio = us_normal_prio sample_kapi SCHED_YAT_CASCHED 1 0;
       t = k_tasks (us_setscheduler_prio 10 prio sample_kernel) 10
   in t_prio t = prio \<and> t_sched_class t \<noteq> yat_casched_sched_class \<and>
      (if ka_dl_policy sample_kapi SCHED_YAT_CASCHED then prio = -1 \<and> t_sched_class t = dl_sched_class
       else if ka_rt_policy sample_kapi SCHED_YAT_CASCHED
       then 0 \<le> prio \<and> prio \<le> 98 \<and> t_sched_class t = rt_sched_class
       else 100 \<le> prio \<and> prio \<le> 139 \<and> t_sched_class t = fair_sched_class)"
  by (rule normal_prio_class) (simp_all add: prio_consts)

section \<open>The weight tables\<close>

definition wmult_exact :: "nat \<Rightarrow> nat \<Rightarrow> bool" where
  "wmult_exact w i \<longleftrightarrow> w * i \<le> 2 ^ 32 + w div 2 \<and> 2 ^ 32 \<le> w * i + w"

text \<open>
  Both tables cover the 40 nice levels; every entry of the second is the inverse
  \<open>2^32 / w\<close> of the entry of the first, exact to one unit; and one nice level changes the
  weight by a factor between 1.19 and 1.31, the documented 10 percent of CPU time.
\<close>

theorem prio_tables_consistent:
  "length sched_prio_to_weight = 40 \<and> length sched_prio_to_wmult = 40 \<and>
   list_all2 wmult_exact sched_prio_to_weight sched_prio_to_wmult \<and>
   list_all2 (\<lambda>w w'. 119 * w' \<le> 100 * w \<and> 100 * w \<le> 131 * w')
     (butlast sched_prio_to_weight) (tl sched_prio_to_weight)"
  unfolding sched_prio_to_weight_def sched_prio_to_wmult_def wmult_exact_def by simp

text \<open>A static priority of a nice value never indexes outside the tables.\<close>

lemma set_load_weight_defined:
  "0 \<le> t_static_prio (k_tasks k p) - MAX_RT_PRIO \<Longrightarrow> t_static_prio (k_tasks k p) - MAX_RT_PRIO < 40 \<Longrightarrow>
   \<not> (update_load \<and> t_sched_class (k_tasks k p) = fair_sched_class) \<Longrightarrow>
     k_undefined (set_load_weight a p update_load k) = k_undefined k"
  by (auto simp: set_load_weight_def Let_def)

lemma set_load_weight_public:
  assumes "class_ops_keep public_tasks a"
  shows "public_tasks (set_load_weight a p b k) = public_tasks k"
proof -
  have "public_tasks (ka_reweight_task a p prio k) = public_tasks k" for prio k
    using assms by (auto simp: class_ops_keep_def)
  then show ?thesis by (simp add: set_load_weight_def Let_def public_tasks_upd_task)
qed

lemma set_load_weight_keep_params:
  "class_ops_keep_params a \<Longrightarrow>
     task_params (k_tasks (set_load_weight a p b k) q) = task_params (k_tasks k q)"
  by (rule task_params_public, rule set_load_weight_public) (simp add: class_ops_keep_params_def)

section \<open>Priority inheritance\<close>

definition prio_class :: "int \<Rightarrow> sched_class" where
  "prio_class prio = (if dl_prio prio then dl_sched_class else if rt_prio prio then rt_sched_class
                      else fair_sched_class)"

definition params_set_prio :: "int \<Rightarrow> task_param \<Rightarrow> task_param" where
  "params_set_prio prio = (\<lambda>(pol, st, nrm, _, rp, _, pi, ro). (pol, st, nrm, prio, rp, prio_class prio, pi, ro))"

lemma task_params_upd [simp]:
  "task_params (t\<lparr>t_dl := d\<rparr>) = task_params t" "task_params (t\<lparr>t_rt := r\<rparr>) = task_params t"
  "task_params (k_tasks (k\<lparr>k_undefined := b\<rparr>) q) = task_params (k_tasks k q)"
  by (simp_all add: task_params_def)

lemma us_setscheduler_prio_params:
  "task_params (k_tasks (us_setscheduler_prio p prio k) q) =
     (if q = p then params_set_prio prio (task_params (k_tasks k p)) else task_params (k_tasks k q))"
  by (simp add: us_setscheduler_prio_def task_params_def params_set_prio_def prio_class_def)

lemma pi_boost_params:
  "task_params (k_tasks (snd (pi_boost a p pi prio old fl k)) q) = task_params (k_tasks k q)"
  by (simp add: pi_boost_def set_pi_se_def Let_def split: option.split)

lemma task_class_params: "task_class k p = fst (snd (snd (snd (snd (snd (task_params (k_tasks k p)))))))"
  by (simp add: task_class_def task_params_def)

lemma rt_mutex_setprio_params:
  fixes pi
  assumes keep: "class_ops_keep_params a" and idle: "rq_idle (k_rqs k (task_cpu k p)) \<noteq> p"
  defines "prio \<equiv> us_rt_effective_prio k pi (t_normal_prio (k_tasks k p))"
  shows "task_params (k_tasks (rt_mutex_setprio a p pi k) q) =
    (if q \<noteq> p then task_params (k_tasks k q)
     else let t = (k_tasks k p)\<lparr>t_pi_top_task := pi\<rparr>
          in if prio = t_prio (k_tasks k p) \<and> \<not> dl_prio prio then task_params t
             else params_set_prio prio (task_params t))"
proof -
  note q = queue_ops_keep_params [OF keep]
  let ?c = "task_cpu k p"
  let ?k2 = "upd_task p (\<lambda>t. t\<lparr>t_pi_top_task := pi\<rparr>) (update_rq_clock a ?c k)"
  have k2: "task_params (k_tasks ?k2 r) =
      (if r = p then task_params ((k_tasks k p)\<lparr>t_pi_top_task := pi\<rparr>) else task_params (k_tasks k r))" for r
    by simp
  have idle2: "rq_idle (k_rqs ?k2 ?c) \<noteq> p" using idle by (simp add: frame)
  show ?thesis
  proof (cases "prio = t_prio (k_tasks k p) \<and> \<not> dl_prio prio")
    case True
    then have T: "t_prio (k_tasks k p) = prio" "\<not> dl_prio prio" by blast+
    have "rt_mutex_setprio a p pi k =
        (if t_pi_top_task (k_tasks k p) = pi then k else us_balance_callbacks a ?c ?k2)"
      unfolding rt_mutex_setprio_def Let_def prio_def [symmetric]
      using T by simp
    then show ?thesis using True k2 q(7) by (auto simp: Let_def task_params_def)
  next
    case False
    let ?t = "k_tasks ?k2 p"
    let ?fl = "(if t_prio ?t = prio
        then (DEQUEUE_SAVE OR DEQUEUE_MOVE OR DEQUEUE_NOCLOCK) AND NOT DEQUEUE_MOVE
        else DEQUEUE_SAVE OR DEQUEUE_MOVE OR DEQUEUE_NOCLOCK)"
    define k3 where "k3 = (if task_on_rq_queued ?t then dequeue_task a ?c p ?fl ?k2 else ?k2)"
    define k4 where "k4 = (if task_current ?k2 ?c p then put_prev_task a ?c p k3 else k3)"
    define b where "b = pi_boost a p pi prio (t_prio ?t) ?fl k4"
    define k5 where "k5 = us_setscheduler_prio p prio (snd b)"
    define k6 where "k6 = (if task_on_rq_queued ?t then enqueue_task a ?c p (fst b) k5 else k5)"
    define k7 where "k7 = (if task_current ?k2 ?c p then set_next_task a ?c p k6 else k6)"
    define k8 where "k8 = check_class_changed a ?c p (task_class ?k2 p) (t_prio ?t) k7"
    have F: "(prio = t_prio (k_tasks k p) \<and> \<not> dl_prio prio) \<longleftrightarrow> False" using False by blast
    have fin: "rt_mutex_setprio a p pi k = us_balance_callbacks a ?c k8"
      unfolding k8_def k7_def k6_def k5_def b_def k4_def k3_def rt_mutex_setprio_def Let_def
        prio_def [symmetric]
      using idle2 by (simp add: case_prod_beta F del: not_False_eq_True de_Morgan_conj)
    have "task_params (k_tasks k4 r) = task_params (k_tasks ?k2 r)" for r
      by (simp add: k4_def k3_def q del: k_tasks_upd)
    then have "task_params (k_tasks (snd b) r) = task_params (k_tasks ?k2 r)" for r
      by (simp add: b_def pi_boost_params del: k_tasks_upd)
    then have "task_params (k_tasks k5 r) =
        (if r = p then params_set_prio prio (task_params (k_tasks ?k2 p)) else task_params (k_tasks ?k2 r))" for r
      by (simp add: k5_def us_setscheduler_prio_params del: k_tasks_upd)
    then have "task_params (k_tasks k8 r) =
        (if r = p then params_set_prio prio (task_params (k_tasks ?k2 p)) else task_params (k_tasks ?k2 r))" for r
      by (simp add: k8_def k7_def k6_def q del: k_tasks_upd)
    then show ?thesis by (simp add: fin q k2 Let_def F del: k_tasks_upd not_False_eq_True de_Morgan_conj)
  qed
qed

text \<open>
  C22: Priority inheritance.  Setting the donor of a task (other than its CPU's idle task)
  gives it the better of its own normal priority and the donor's priority, and, when its
  priority changes, the class of that priority; without a donor it falls back to its normal
  priority.  Policy, nice value, normal and real-time priority stay, and no other task is
  touched, for any classes that leave those parameters alone.
\<close>

theorem rt_mutex_setprio_inherits:
  assumes "class_ops_keep_params a" "rq_idle (k_rqs k (task_cpu k p)) \<noteq> p"
  shows "let t = k_tasks k p; t' = k_tasks (rt_mutex_setprio a p pi k) p
         in t_prio t' = (case pi of None \<Rightarrow> t_normal_prio t
                         | Some q \<Rightarrow> min (t_normal_prio t) (t_prio (k_tasks k q))) \<and>
            t_sched_class t' = (if t_prio t' = t_prio t \<and> \<not> dl_prio (t_prio t) then t_sched_class t
                                else prio_class (t_prio t')) \<and>
            t_pi_top_task t' = pi \<and> t_normal_prio t' = t_normal_prio t \<and> t_policy t' = t_policy t \<and>
            t_static_prio t' = t_static_prio t \<and> t_rt_priority t' = t_rt_priority t \<and>
            (\<forall>q \<in> - {p}. t_prio (k_tasks (rt_mutex_setprio a p pi k) q) = t_prio (k_tasks k q))"
proof -
  let ?k = "rt_mutex_setprio a p pi k"
  note r = rt_mutex_setprio_params [OF assms, of pi]
  have o: "t_prio (k_tasks ?k q) = t_prio (k_tasks k q)" if "q \<noteq> p" for q
    using r [of q] that by (simp add: task_params_def)
  show ?thesis
    using r [of p] o
    by (auto simp: Let_def task_params_def params_set_prio_def us_rt_effective_prio_def
        split: if_splits option.splits)
qed

lemma class_ops_keep_params_sample: "class_ops_keep_params sample_kapi"
  using class_ops_keep_sample by (simp add: class_ops_keep_params_def) (simp add: sample_kapi_def)

theorem rt_mutex_setprio_inherits_witness:
  "let k = upd_task 11 (\<lambda>t. t\<lparr>t_prio := 50\<rparr>) sample_kernel;
       t = k_tasks k 10; t' = k_tasks (rt_mutex_setprio sample_kapi 10 (Some 11) k) 10
   in t_prio t' = (case Some 11 of None \<Rightarrow> t_normal_prio t
                   | Some q \<Rightarrow> min (t_normal_prio t) (t_prio (k_tasks k q))) \<and>
      t_sched_class t' = (if t_prio t' = t_prio t \<and> \<not> dl_prio (t_prio t) then t_sched_class t
                          else prio_class (t_prio t')) \<and>
      t_pi_top_task t' = Some 11 \<and> t_normal_prio t' = t_normal_prio t \<and> t_policy t' = t_policy t \<and>
      t_static_prio t' = t_static_prio t \<and> t_rt_priority t' = t_rt_priority t \<and>
      (\<forall>q \<in> - {10}. t_prio (k_tasks (rt_mutex_setprio sample_kapi 10 (Some 11) k) q) = t_prio (k_tasks k q))"
  unfolding Let_def [of "upd_task 11 (\<lambda>t. t\<lparr>t_prio := 50\<rparr>) sample_kernel"]
  by (rule rt_mutex_setprio_inherits [OF class_ops_keep_params_sample])
    (simp add: task_cpu_def sample_defs)

section \<open>Nice values\<close>

lemma set_user_nice_params:
  fixes nice
  assumes keep: "class_ops_keep_params a"
    and nice: "task_nice (k_tasks k p) \<noteq> nice" "MIN_NICE \<le> nice" "nice \<le> MAX_NICE"
  defines "t \<equiv> k_tasks k p"
  defines "nrm \<equiv> us_normal_prio a (t_policy t) (sint (t_rt_priority t)) nice"
  shows "task_params (k_tasks (set_user_nice a p nice k) q) =
    (if q \<noteq> p then task_params (k_tasks k q)
     else if ka_dl_policy a (t_policy t) \<or> ka_rt_policy a (t_policy t)
     then task_params (t\<lparr>t_static_prio := NICE_TO_PRIO nice\<rparr>)
     else task_params (t\<lparr>t_static_prio := NICE_TO_PRIO nice, t_normal_prio := nrm,
            t_prio := if rt_prio (t_prio t) then t_prio t else nrm\<rparr>))"
proof -
  note q = queue_ops_keep_params [OF keep] set_load_weight_keep_params [OF keep]
  let ?c = "task_cpu k p"
  let ?k1 = "update_rq_clock a ?c k"
  show ?thesis
  proof (cases "ka_dl_policy a (t_policy t) \<or> ka_rt_policy a (t_policy t)")
    case True
    then show ?thesis using nice by (auto simp: set_user_nice_def t_def Let_def task_params_def)
  next
    case False
    define k2 where "k2 = (if task_on_rq_queued (k_tasks ?k1 p)
        then dequeue_task a ?c p (DEQUEUE_SAVE OR DEQUEUE_NOCLOCK) ?k1 else ?k1)"
    define k3 where "k3 = (if task_current ?k1 ?c p then put_prev_task a ?c p k2 else k2)"
    define k4 where "k4 = set_load_weight a p True (upd_task p (\<lambda>t. t\<lparr>t_static_prio := NICE_TO_PRIO nice\<rparr>) k3)"
    define e where "e = effective_prio a p k4"
    define k5 where "k5 = upd_task p (\<lambda>t. t\<lparr>t_prio := fst e\<rparr>) (snd e)"
    define k6 where "k6 = (if task_on_rq_queued (k_tasks ?k1 p)
        then enqueue_task a ?c p (ENQUEUE_RESTORE OR ENQUEUE_NOCLOCK) k5 else k5)"
    define k7 where "k7 = (if task_current ?k1 ?c p then set_next_task a ?c p k6 else k6)"
    have fin: "set_user_nice a p nice k = class_prio_changed a (task_class k7 p) ?c p (t_prio (k_tasks k4 p)) k7"
      unfolding k7_def k6_def k5_def e_def k4_def k3_def k2_def set_user_nice_def Let_def
      using False nice by (simp add: t_def case_prod_beta)
    have k3: "task_params (k_tasks k3 r) = task_params (k_tasks k r)" for r
      by (simp add: k3_def k2_def q)
    have k4: "task_params (k_tasks k4 r) =
        (if r = p then task_params (t\<lparr>t_static_prio := NICE_TO_PRIO nice\<rparr>) else task_params (k_tasks k r))" for r
    proof -
      have "task_params (k_tasks k4 r) =
          task_params (k_tasks (upd_task p (\<lambda>t. t\<lparr>t_static_prio := NICE_TO_PRIO nice\<rparr>) k3) r)"
        unfolding k4_def by (rule q(9))
      then show ?thesis using k3 [of r] by (cases "r = p") (simp_all add: t_def task_params_def)
    qed
    note k4p = k4 [of p, simplified]
    have nrm: "normal_prio a (k_tasks k4 p) = nrm"
      using task_params_eqD [OF k4p] by (simp add: normal_prio_def nrm_def)
    have k5: "task_params (k_tasks k5 r) =
        (if r = p then task_params (t\<lparr>t_static_prio := NICE_TO_PRIO nice, t_normal_prio := nrm,
            t_prio := if rt_prio (t_prio t) then t_prio t else nrm\<rparr>) else task_params (k_tasks k r))" for r
      using k4 [of r] task_params_eqD [OF k4p]
      by (auto simp: k5_def e_def effective_prio_def Let_def nrm task_params_def)
    show ?thesis using False by (simp add: fin q k7_def k6_def k5)
  qed
qed

text \<open>
  \<open>set_user_nice\<close> ignores values outside -20 to 19; otherwise the task has the new
  nice value afterwards.  Deadline and real-time tasks change nothing else; other tasks get
  the priority of the new nice value, except that a task boosted into the real-time range
  keeps its boost.  The policy never changes and no other task is touched.
\<close>

theorem set_user_nice_sets:
  assumes "class_ops_keep_params a"
  shows "let t = k_tasks k p; k' = set_user_nice a p nice k; t' = k_tasks k' p
         in (if nice < MIN_NICE \<or> MAX_NICE < nice then k' = k
             else task_nice t' = nice \<and> t_policy t' = t_policy t \<and>
                  t_prio t' = (if task_nice t = nice \<or> ka_dl_policy a (t_policy t) \<or>
                                  ka_rt_policy a (t_policy t) \<or> rt_prio (t_prio t)
                               then t_prio t
                               else NICE_TO_PRIO nice)) \<and>
            (\<forall>q \<in> - {p}. task_params (k_tasks k' q) = task_params (k_tasks k q))"
proof (cases "task_nice (k_tasks k p) = nice \<or> nice < MIN_NICE \<or> MAX_NICE < nice")
  case True
  then have "set_user_nice a p nice k = k" by (simp add: set_user_nice_def)
  then show ?thesis using True by (auto simp: Let_def)
next
  case False
  then have nn: "task_nice (k_tasks k p) \<noteq> nice" "MIN_NICE \<le> nice" "nice \<le> MAX_NICE" by auto
  note r = set_user_nice_params [OF assms nn]
  have o: "task_params (k_tasks (set_user_nice a p nice k) q) = task_params (k_tasks k q)" if "q \<noteq> p" for q
    using r [of q] that by simp
  show ?thesis
    using False r [of p] o
    by (auto simp: Let_def task_params_def task_nice_def us_normal_prio_def split: if_splits)
qed

theorem set_user_nice_sets_witness:
  "let t = k_tasks sample_kernel 10; k' = set_user_nice sample_kapi 10 5 sample_kernel; t' = k_tasks k' 10
   in (if 5 < MIN_NICE \<or> MAX_NICE < 5 then k' = sample_kernel
       else task_nice t' = 5 \<and> t_policy t' = t_policy t \<and>
            t_prio t' = (if task_nice t = 5 \<or> ka_dl_policy sample_kapi (t_policy t) \<or>
                            ka_rt_policy sample_kapi (t_policy t) \<or> rt_prio (t_prio t)
                         then t_prio t else NICE_TO_PRIO 5)) \<and>
      (\<forall>q \<in> - {10}. task_params (k_tasks k' q) = task_params (k_tasks sample_kernel q))"
  by (rule set_user_nice_sets [OF class_ops_keep_params_sample])

section \<open>The nice system call\<close>

lemma clamp_int_bounds: "lo \<le> hi \<Longrightarrow> lo \<le> clamp_int v lo hi \<and> clamp_int v lo hi \<le> hi"
  by (simp add: clamp_int_def)

text \<open>
  \<open>sys_nice\<close>.  The nice value asked for is the current one plus the increment, brought
  into -20 to 19 whatever the increment.  A caller that lowers its nice value without the
  capability and beyond its resource limit gets \<open>EPERM\<close>, a refusal of the security module
  is returned as it is, and in both cases nothing changes; otherwise the call returns 0 and
  the calling task has exactly that nice value, its policy unchanged.
\<close>

theorem sys_nice_result:
  assumes "class_ops_keep_params a"
    and "MIN_NICE \<le> task_nice (k_tasks k (k_current k))" "task_nice (k_tasks k (k_current k)) \<le> MAX_NICE"
  shows "let p = k_current k; old = task_nice (k_tasks k p); nice = max MIN_NICE (min MAX_NICE (old + inc));
             (r, k') = sys_nice a inc k; t' = k_tasks k' p
         in (if inc < 0 \<and> \<not> ka_capable_sys_nice a k \<and> ka_rlimit_nice a k p < nice_to_rlimit nice
             then r = - EPERM \<and> k' = k
             else if ka_security_task_setnice a k p nice \<noteq> 0
             then r = ka_security_task_setnice a k p nice \<and> k' = k
             else r = 0 \<and> task_nice t' = nice \<and> t_policy t' = t_policy (k_tasks k p))"
proof -
  let ?p = "k_current k"
  let ?n = "clamp_int (task_nice (k_tasks k ?p) + clamp_int inc (- NICE_WIDTH) NICE_WIDTH) MIN_NICE MAX_NICE"
  have n: "?n = max MIN_NICE (min MAX_NICE (task_nice (k_tasks k ?p) + inc))"
    using assms(2,3) by (auto simp: clamp_int_def NICE_WIDTH_def MIN_NICE_def MAX_NICE_def)
  have i: "clamp_int inc (- NICE_WIDTH) NICE_WIDTH < 0 \<longleftrightarrow> inc < 0"
    by (auto simp: clamp_int_def NICE_WIDTH_def MIN_NICE_def MAX_NICE_def)
  have b: "MIN_NICE \<le> ?n" "?n \<le> MAX_NICE"
    using clamp_int_bounds [of MIN_NICE MAX_NICE] by (simp_all add: MIN_NICE_def MAX_NICE_def)
  have s: "task_nice (k_tasks (set_user_nice a ?p ?n k) ?p) = ?n \<and>
      t_policy (k_tasks (set_user_nice a ?p ?n k) ?p) = t_policy (k_tasks k ?p)"
  proof (cases "task_nice (k_tasks k ?p) = ?n")
    case True
    then have "set_user_nice a ?p ?n k = k" by (simp add: set_user_nice_def)
    then show ?thesis using True by simp
  next
    case False
    then show ?thesis using set_user_nice_params [OF assms(1) False b, of ?p]
      by (auto simp: Let_def task_params_def task_nice_def split: if_splits)
  qed
  have c: "\<not> can_nice a k ?p ?n \<longleftrightarrow>
      \<not> ka_capable_sys_nice a k \<and> ka_rlimit_nice a k ?p < nice_to_rlimit ?n"
    by (auto simp: can_nice_def is_nice_reduction_def)
  have "sys_nice a inc k =
      (if inc < 0 \<and> \<not> ka_capable_sys_nice a k \<and> ka_rlimit_nice a k ?p < nice_to_rlimit ?n then (- EPERM, k)
       else if ka_security_task_setnice a k ?p ?n \<noteq> 0 then (ka_security_task_setnice a k ?p ?n, k)
       else (0, set_user_nice a ?p ?n k))"
    unfolding sys_nice_def Let_def i c by simp
  then show ?thesis using s unfolding n by (simp add: Let_def)
qed

theorem sys_nice_result_witness:
  "let k = sample_kernel\<lparr>k_current := 10\<rparr>; p = k_current k; old = task_nice (k_tasks k p);
       nice = max MIN_NICE (min MAX_NICE (old + 7));
       (r, k') = sys_nice sample_kapi 7 k; t' = k_tasks k' p
   in (if 7 < (0::int) \<and> \<not> ka_capable_sys_nice sample_kapi k \<and>
          ka_rlimit_nice sample_kapi k p < nice_to_rlimit nice
       then r = - EPERM \<and> k' = k
       else if ka_security_task_setnice sample_kapi k p nice \<noteq> 0
       then r = ka_security_task_setnice sample_kapi k p nice \<and> k' = k
       else r = 0 \<and> task_nice t' = nice \<and> t_policy t' = t_policy (k_tasks k p))"
  unfolding Let_def [of "sample_kernel\<lparr>k_current := 10\<rparr>"]
  by (rule sys_nice_result [OF class_ops_keep_params_sample])
    (simp_all add: task_nice_def sample_defs MIN_NICE_def MAX_NICE_def PRIO_TO_NICE_def DEFAULT_PRIO_def
      MAX_RT_PRIO_def NICE_WIDTH_def)

end
