(* ===== verification/Setsched.thy ===== *)
theory Setsched
  imports Prio Uclamp_Control
begin

text \<open>
  Changing the policy and parameters of a task (\<open>core.c\<close>, \<open>__sched_setscheduler\<close> and the
  system calls around it).  The function checks the request without the run queue lock and
  then takes it; what other CPUs do in between is explicit: every attempt is given a state
  change \<open>env\<close> that happens just before the lock is taken.  When the policy has changed
  under a caller that wanted to keep it, the function starts over, with the next element of
  the list of changes; \<open>None\<close> means that the list ended while it was still retrying.
\<close>

section \<open>Permission and parameters\<close>

definition find_process_by_pid :: "kapi \<Rightarrow> kernel \<Rightarrow> int \<Rightarrow> tid option" where
  "find_process_by_pid a k pid = (if pid \<noteq> 0 then ka_find_task_by_vpid a k pid else Some (k_current k))"

definition SETPARAM_POLICY :: int where "SETPARAM_POLICY = -1"

definition us_setscheduler_params :: "kapi \<Rightarrow> tid \<Rightarrow> sched_attr \<Rightarrow> kernel \<Rightarrow> kernel" where
  "us_setscheduler_params a p attr k =
     (let policy = (if sa_policy attr = SETPARAM_POLICY then t_policy (k_tasks k p) else sa_policy attr);
          k = upd_task p (\<lambda>t. t\<lparr>t_policy := policy\<rparr>) k;
          k = (if ka_dl_policy a policy then ka_setparam_dl a p attr k
               else if ka_fair_policy a policy
               then upd_task p (\<lambda>t. t\<lparr>t_static_prio := NICE_TO_PRIO (sa_nice attr)\<rparr>) k
               else k);
          k = upd_task p (\<lambda>t. t\<lparr>t_rt_priority := sa_priority attr\<rparr>) k;
          k = upd_task p (\<lambda>t. t\<lparr>t_normal_prio := normal_prio a t\<rparr>) k
      in set_load_weight a p True k)"

definition check_same_owner :: "kapi \<Rightarrow> kernel \<Rightarrow> tid \<Rightarrow> bool" where
  "check_same_owner a k p \<longleftrightarrow>
     ka_euid a k (k_current k) = ka_euid a k p \<or> ka_euid a k (k_current k) = ka_uid a k p"

text \<open>The conditions that jump to \<open>req_priv\<close>, in order.\<close>

definition setscheduler_req_priv :: "kapi \<Rightarrow> kernel \<Rightarrow> tid \<Rightarrow> sched_attr \<Rightarrow> int \<Rightarrow> bool \<Rightarrow> bool" where
  "setscheduler_req_priv a k p attr policy reset_on_fork \<longleftrightarrow>
     (let t = k_tasks k p; rlim_rtprio = ka_rlimit_rtprio a k p
      in ka_fair_policy a policy \<and> sa_nice attr < task_nice t \<and> \<not> is_nice_reduction a k p (sa_nice attr) \<or>
         ka_rt_policy a policy \<and>
           (policy \<noteq> t_policy t \<and> rlim_rtprio = 0 \<or>
            t_rt_priority t < sa_priority attr \<and> rlim_rtprio < ucast (sa_priority attr)) \<or>
         ka_dl_policy a policy \<or>
         ka_idle_policy a (t_policy t) \<and> \<not> ka_idle_policy a policy \<and>
           \<not> is_nice_reduction a k p (task_nice t) \<or>
         \<not> check_same_owner a k p \<or>
         t_sched_reset_on_fork t \<and> \<not> reset_on_fork)"

definition user_check_sched_setscheduler ::
  "kapi \<Rightarrow> kernel \<Rightarrow> tid \<Rightarrow> sched_attr \<Rightarrow> int \<Rightarrow> bool \<Rightarrow> int" where
  "user_check_sched_setscheduler a k p attr policy reset_on_fork =
     (if setscheduler_req_priv a k p attr policy reset_on_fork \<and> \<not> ka_capable_sys_nice a k
      then - EPERM else 0)"

section \<open>One attempt\<close>

text \<open>
  The checks before the lock: an error, or the policy to set, the policy that must not
  have changed (-1 when it does not matter) and the reset-on-fork flag.
\<close>

definition setscheduler_checks ::
  "kapi \<Rightarrow> tid \<Rightarrow> sched_attr \<Rightarrow> bool \<Rightarrow> int \<Rightarrow> kernel \<Rightarrow> (int + int \<times> int \<times> bool) \<times> kernel" where
  "setscheduler_checks a p attr user policy k =
     (let keep = policy < 0;
          reset_on_fork = (if keep then t_sched_reset_on_fork (k_tasks k p)
                           else test_flag (sa_flags attr) SCHED_FLAG_RESET_ON_FORK);
          oldpolicy = (if keep then t_policy (k_tasks k p) else -1);
          policy = (if keep then t_policy (k_tasks k p) else policy)
      in if \<not> keep \<and> \<not> ka_valid_policy a policy then (Inl (- EINVAL), k)
         else if test_flag (sa_flags attr) (NOT (SCHED_FLAG_ALL OR SCHED_FLAG_SUGOV))
         then (Inl (- EINVAL), k)
         else if sa_priority attr > 99 then (Inl (- EINVAL), k)
         else if ka_dl_policy a policy \<and> \<not> ka_checkparam_dl a attr \<or>
                 ka_rt_policy a policy \<noteq> (sa_priority attr \<noteq> 0) then (Inl (- EINVAL), k)
         else let perm = (if \<not> user then 0
                          else let r = user_check_sched_setscheduler a k p attr policy reset_on_fork
                               in if r \<noteq> 0 then r
                                  else if test_flag (sa_flags attr) SCHED_FLAG_SUGOV then - EINVAL
                                  else ka_security_task_setscheduler a k p)
              in if perm \<noteq> 0 then (Inl perm, k)
                 else let (r, k) = (if test_flag (sa_flags attr) SCHED_FLAG_UTIL_CLAMP
                                    then uclamp_validate p attr k else (0, k))
                      in if r \<noteq> 0 then (Inl r, k) else (Inr (policy, oldpolicy, reset_on_fork), k))"

text \<open>Whether anything is to change, when the policy stays.\<close>

definition setscheduler_changes :: "kapi \<Rightarrow> task_struct \<Rightarrow> sched_attr \<Rightarrow> int \<Rightarrow> bool" where
  "setscheduler_changes a t attr policy \<longleftrightarrow>
     policy \<noteq> t_policy t \<or>
     ka_fair_policy a policy \<and> sa_nice attr \<noteq> task_nice t \<or>
     ka_rt_policy a policy \<and> sa_priority attr \<noteq> t_rt_priority t \<or>
     ka_dl_policy a policy \<and> ka_dl_param_changed a t attr \<or>
     test_flag (sa_flags attr) SCHED_FLAG_UTIL_CLAMP"

text \<open>The change itself, with the run queue of CPU \<open>c\<close> locked.\<close>

definition setscheduler_commit ::
  "kapi \<Rightarrow> tid \<Rightarrow> sched_attr \<Rightarrow> bool \<Rightarrow> int \<Rightarrow> bool \<Rightarrow> cpu \<Rightarrow> kernel \<Rightarrow> kernel" where
  "setscheduler_commit a p attr pi policy reset_on_fork c k =
     (let k = upd_task p (\<lambda>t. t\<lparr>t_sched_reset_on_fork := reset_on_fork\<rparr>) k;
          oldprio = t_prio (k_tasks k p);
          newprio = us_normal_prio a policy (sint (sa_priority attr)) (sa_nice attr);
          newprio = (if pi then rt_effective_prio k p newprio else newprio);
          queue_flags = (DEQUEUE_SAVE OR DEQUEUE_MOVE OR DEQUEUE_NOCLOCK);
          queue_flags = (if pi \<and> newprio = oldprio then queue_flags AND NOT DEQUEUE_MOVE else queue_flags);
          queued = task_on_rq_queued (k_tasks k p);
          running = task_current k c p;
          k = (if queued then dequeue_task a c p queue_flags k else k);
          k = (if running then put_prev_task a c p k else k);
          prev_class = task_class k p;
          k = (if \<not> test_flag (sa_flags attr) SCHED_FLAG_KEEP_PARAMS
               then us_setscheduler_prio p newprio (us_setscheduler_params a p attr k) else k);
          k = us_setscheduler_uclamp p attr k;
          queue_flags = (if queued \<and> oldprio < t_prio (k_tasks k p) then queue_flags OR ENQUEUE_HEAD
                         else queue_flags);
          k = (if queued then enqueue_task a c p queue_flags k else k);
          k = (if running then set_next_task a c p k else k);
          k = check_class_changed a c p prev_class oldprio k;
          (head, k) = splice_balance_callbacks c k;
          k = (if pi then ka_rt_mutex_adjust_pi a p k else k)
      in balance_callbacks a c head k)"

text \<open>
  With the lock: \<open>Inl\<close> is the return value, \<open>Inr\<close> the jump to \<open>recheck\<close>.  Groups with
  real-time bandwidth (\<open>CONFIG_RT_GROUP_SCHED\<close>) are not configured.
\<close>

definition setscheduler_locked ::
  "kapi \<Rightarrow> tid \<Rightarrow> sched_attr \<Rightarrow> bool \<Rightarrow> bool \<Rightarrow> int \<Rightarrow> int \<Rightarrow> bool \<Rightarrow> kernel \<Rightarrow> int \<times> kernel + kernel" where
  "setscheduler_locked a p attr user pi policy oldpolicy reset_on_fork k =
     (let c = task_cpu k p;
          k = update_rq_clock a c k;
          t = k_tasks k p
      in if rq_stop (k_rqs k c) = Some p then Inl (- EINVAL, k)
         else if \<not> setscheduler_changes a t attr policy
         then Inl (0, upd_task p (\<lambda>t. t\<lparr>t_sched_reset_on_fork := reset_on_fork\<rparr>) k)
         else if user \<and> ka_dl_bandwidth_enabled a k \<and> ka_dl_policy a policy \<and>
                 \<not> test_flag (sa_flags attr) SCHED_FLAG_SUGOV \<and>
                 (\<not> ka_rd_span a k c \<subseteq> cpus_ptr_mask t \<or> ka_rd_dl_bw a k c = 0)
         then Inl (- EPERM, k)
         else if oldpolicy \<noteq> -1 \<and> oldpolicy \<noteq> t_policy t then Inr k
         else let (overflow, k) = (if ka_dl_policy a policy \<or> dl_task t
                                   then ka_sched_dl_overflow a p policy attr k else (False, k))
              in if overflow then Inl (- EBUSY, k)
                 else Inl (0, setscheduler_commit a p attr pi policy reset_on_fork c k))"

definition setscheduler_attempt ::
  "kapi \<Rightarrow> (kernel \<Rightarrow> kernel) \<Rightarrow> tid \<Rightarrow> sched_attr \<Rightarrow> bool \<Rightarrow> bool \<Rightarrow> int \<Rightarrow> kernel \<Rightarrow> int \<times> kernel + kernel" where
  "setscheduler_attempt a env p attr user pi policy k =
     (case setscheduler_checks a p attr user policy k of
        (Inl err, k) \<Rightarrow> Inl (err, k)
      | (Inr (policy, oldpolicy, reset_on_fork), k) \<Rightarrow>
          setscheduler_locked a p attr user pi policy oldpolicy reset_on_fork (env k))"

section \<open>Starting over\<close>

fun setscheduler_loop ::
  "kapi \<Rightarrow> (kernel \<Rightarrow> kernel) list \<Rightarrow> tid \<Rightarrow> sched_attr \<Rightarrow> bool \<Rightarrow> bool \<Rightarrow> int \<Rightarrow> kernel \<Rightarrow> (int \<times> kernel) option" where
  "setscheduler_loop a [] p attr user pi policy k = None"
| "setscheduler_loop a (env # envs) p attr user pi policy k =
     (case setscheduler_attempt a env p attr user pi policy k of
        Inl r \<Rightarrow> Some r
      | Inr k \<Rightarrow> setscheduler_loop a envs p attr user pi (-1) k)"

definition us_sched_setscheduler ::
  "kapi \<Rightarrow> (kernel \<Rightarrow> kernel) list \<Rightarrow> tid \<Rightarrow> sched_attr \<Rightarrow> bool \<Rightarrow> bool \<Rightarrow> kernel \<Rightarrow> (int \<times> kernel) option" where
  "us_sched_setscheduler a envs p attr user pi k =
     setscheduler_loop a envs p attr user pi (sa_policy attr) k"

definition zero_attr :: sched_attr where
  "zero_attr = \<lparr>sa_size = 0, sa_policy = 0, sa_flags = 0, sa_nice = 0, sa_priority = 0, sa_runtime = 0,
     sa_deadline = 0, sa_period = 0, sa_util_min = 0, sa_util_max = 0\<rparr>"

text \<open>\<open>_sched_setscheduler\<close>; \<open>prio\<close> is \<open>param->sched_priority\<close>, an \<open>int\<close>.\<close>

definition u_sched_setscheduler ::
  "kapi \<Rightarrow> (kernel \<Rightarrow> kernel) list \<Rightarrow> tid \<Rightarrow> int \<Rightarrow> int \<Rightarrow> bool \<Rightarrow> kernel \<Rightarrow> (int \<times> kernel) option" where
  "u_sched_setscheduler a envs p policy prio check k =
     (let attr = zero_attr\<lparr>sa_policy := policy, sa_priority := word_of_int prio,
                   sa_nice := PRIO_TO_NICE (t_static_prio (k_tasks k p))\<rparr>;
          attr = (if policy \<noteq> SETPARAM_POLICY \<and> test_flag (word_of_int policy) SCHED_RESET_ON_FORK
                  then attr\<lparr>sa_flags := set_flag (sa_flags attr) SCHED_FLAG_RESET_ON_FORK,
                            sa_policy := sint (clear_flag (word_of_int policy) SCHED_RESET_ON_FORK)\<rparr>
                  else attr)
      in us_sched_setscheduler a envs p attr check True k)"

definition sched_setscheduler ::
  "kapi \<Rightarrow> (kernel \<Rightarrow> kernel) list \<Rightarrow> tid \<Rightarrow> int \<Rightarrow> int \<Rightarrow> kernel \<Rightarrow> (int \<times> kernel) option" where
  "sched_setscheduler a envs p policy prio k = u_sched_setscheduler a envs p policy prio True k"

definition sched_setattr ::
  "kapi \<Rightarrow> (kernel \<Rightarrow> kernel) list \<Rightarrow> tid \<Rightarrow> sched_attr \<Rightarrow> kernel \<Rightarrow> (int \<times> kernel) option" where
  "sched_setattr a envs p attr k = us_sched_setscheduler a envs p attr True True k"

definition sched_setattr_nocheck ::
  "kapi \<Rightarrow> (kernel \<Rightarrow> kernel) list \<Rightarrow> tid \<Rightarrow> sched_attr \<Rightarrow> kernel \<Rightarrow> (int \<times> kernel) option" where
  "sched_setattr_nocheck a envs p attr k = us_sched_setscheduler a envs p attr False True k"

definition sched_setscheduler_nocheck ::
  "kapi \<Rightarrow> (kernel \<Rightarrow> kernel) list \<Rightarrow> tid \<Rightarrow> int \<Rightarrow> int \<Rightarrow> kernel \<Rightarrow> (int \<times> kernel) option" where
  "sched_setscheduler_nocheck a envs p policy prio k = u_sched_setscheduler a envs p policy prio False k"

text \<open>The results of these three are only warned about.\<close>

definition sched_set_fifo :: "kapi \<Rightarrow> (kernel \<Rightarrow> kernel) list \<Rightarrow> tid \<Rightarrow> kernel \<Rightarrow> kernel option" where
  "sched_set_fifo a envs p k =
     map_option snd (sched_setscheduler_nocheck a envs p SCHED_FIFO (MAX_RT_PRIO div 2) k)"

definition sched_set_fifo_low :: "kapi \<Rightarrow> (kernel \<Rightarrow> kernel) list \<Rightarrow> tid \<Rightarrow> kernel \<Rightarrow> kernel option" where
  "sched_set_fifo_low a envs p k = map_option snd (sched_setscheduler_nocheck a envs p SCHED_FIFO 1 k)"

definition sched_set_normal :: "kapi \<Rightarrow> (kernel \<Rightarrow> kernel) list \<Rightarrow> tid \<Rightarrow> int \<Rightarrow> kernel \<Rightarrow> kernel option" where
  "sched_set_normal a envs p nice k =
     map_option snd (sched_setattr_nocheck a envs p (zero_attr\<lparr>sa_policy := SCHED_NORMAL, sa_nice := nice\<rparr>) k)"

text \<open>The stopper task of a CPU; \<open>None\<close> takes it away.\<close>

definition sched_set_stop_task ::
  "kapi \<Rightarrow> (kernel \<Rightarrow> kernel) list \<Rightarrow> cpu \<Rightarrow> tid option \<Rightarrow> kernel \<Rightarrow> kernel option" where
  "sched_set_stop_task a envs c stop k =
     (let old_stop = rq_stop (k_rqs k c);
          r = (case stop of None \<Rightarrow> Some k
               | Some s \<Rightarrow> map_option (\<lambda>(_, k). upd_task s (\<lambda>t. t\<lparr>t_sched_class := stop_sched_class\<rparr>) k)
                            (sched_setscheduler_nocheck a envs s SCHED_FIFO (MAX_RT_PRIO - 1) k))
      in map_option (\<lambda>k.
           let k = upd_rq c (\<lambda>r. r\<lparr>rq_stop := stop\<rparr>) k
           in case old_stop of None \<Rightarrow> k
              | Some old \<Rightarrow> upd_task old (\<lambda>t. t\<lparr>t_sched_class := rt_sched_class\<rparr>) k) r)"

section \<open>The system calls\<close>

definition do_sched_setscheduler ::
  "kapi \<Rightarrow> (kernel \<Rightarrow> kernel) list \<Rightarrow> int \<Rightarrow> int \<Rightarrow> u64 \<Rightarrow> kernel \<Rightarrow> (int \<times> kernel) option" where
  "do_sched_setscheduler a envs pid policy param k =
     (if param = 0 \<or> pid < 0 then Some (- EINVAL, k)
      else case ka_get_user_priority a k param of
        None \<Rightarrow> Some (- EFAULT, k)
      | Some lparam \<Rightarrow>
          (case find_process_by_pid a k pid of
             None \<Rightarrow> Some (- ESRCH, k)
           | Some p \<Rightarrow> sched_setscheduler a envs p policy lparam k))"

definition SCHED_ATTR_SIZE_VER0 :: u32 where "SCHED_ATTR_SIZE_VER0 = 48"
definition SCHED_ATTR_SIZE_VER1 :: u32 where "SCHED_ATTR_SIZE_VER1 = 56"

text \<open>\<open>sizeof(struct sched_attr)\<close> is the size of version 1.\<close>

definition sched_copy_attr :: "kapi \<Rightarrow> u64 \<Rightarrow> kernel \<Rightarrow> int \<times> sched_attr \<times> kernel" where
  "sched_copy_attr a uattr k =
     (let (ret, size) = ka_get_user_attr_size a k uattr;
          err_size = (- E2BIG, zero_attr, ka_put_user_attr_size a uattr SCHED_ATTR_SIZE_VER1 k)
      in if ret \<noteq> 0 then (ret, zero_attr, k)
         else let size = (if size = 0 then SCHED_ATTR_SIZE_VER0 else size)
              in if size < SCHED_ATTR_SIZE_VER0 \<or> ka_page_size a < size then err_size
                 else let (ret, attr) = ka_copy_attr_from_user a k uattr size
                      in if ret = - E2BIG then err_size
                         else if ret \<noteq> 0 then (ret, attr, k)
                         else if test_flag (sa_flags attr) SCHED_FLAG_UTIL_CLAMP \<and> size < SCHED_ATTR_SIZE_VER1
                         then (- EINVAL, attr, k)
                         else (0, attr\<lparr>sa_nice := clamp_int (sa_nice attr) MIN_NICE MAX_NICE\<rparr>, k))"

definition get_params :: "kapi \<Rightarrow> task_struct \<Rightarrow> sched_attr \<Rightarrow> sched_attr" where
  "get_params a t attr =
     (if ka_dl_policy a (t_policy t) then ka_getparam_dl a t attr
      else if ka_rt_policy a (t_policy t) then attr\<lparr>sa_priority := t_rt_priority t\<rparr>
      else attr\<lparr>sa_nice := task_nice t\<rparr>)"

definition sys_sched_setscheduler ::
  "kapi \<Rightarrow> (kernel \<Rightarrow> kernel) list \<Rightarrow> int \<Rightarrow> int \<Rightarrow> u64 \<Rightarrow> kernel \<Rightarrow> (int \<times> kernel) option" where
  "sys_sched_setscheduler a envs pid policy param k =
     (if policy < 0 then Some (- EINVAL, k) else do_sched_setscheduler a envs pid policy param k)"

definition sys_sched_setparam ::
  "kapi \<Rightarrow> (kernel \<Rightarrow> kernel) list \<Rightarrow> int \<Rightarrow> u64 \<Rightarrow> kernel \<Rightarrow> (int \<times> kernel) option" where
  "sys_sched_setparam a envs pid param k = do_sched_setscheduler a envs pid SETPARAM_POLICY param k"

definition sys_sched_setattr ::
  "kapi \<Rightarrow> (kernel \<Rightarrow> kernel) list \<Rightarrow> int \<Rightarrow> u64 \<Rightarrow> u32 \<Rightarrow> kernel \<Rightarrow> (int \<times> kernel) option" where
  "sys_sched_setattr a envs pid uattr flags k =
     (if uattr = 0 \<or> pid < 0 \<or> flags \<noteq> 0 then Some (- EINVAL, k)
      else let (retval, attr, k) = sched_copy_attr a uattr k
           in if retval \<noteq> 0 then Some (retval, k)
              else if sa_policy attr < 0 then Some (- EINVAL, k)
              else let attr = (if test_flag (sa_flags attr) SCHED_FLAG_KEEP_POLICY
                               then attr\<lparr>sa_policy := SETPARAM_POLICY\<rparr> else attr)
                   in case find_process_by_pid a k pid of
                        None \<Rightarrow> Some (- ESRCH, k)
                      | Some p \<Rightarrow>
                          let attr = (if test_flag (sa_flags attr) SCHED_FLAG_KEEP_PARAMS
                                      then get_params a (k_tasks k p) attr else attr)
                          in sched_setattr a envs p attr k)"

definition sys_sched_getscheduler :: "kapi \<Rightarrow> int \<Rightarrow> kernel \<Rightarrow> int" where
  "sys_sched_getscheduler a pid k =
     (if pid < 0 then - EINVAL
      else case find_process_by_pid a k pid of
        None \<Rightarrow> - ESRCH
      | Some p \<Rightarrow>
          let retval = ka_security_task_getscheduler a k p; t = k_tasks k p
          in if retval \<noteq> 0 then retval
             else if t_sched_reset_on_fork t
             then sint (set_flag (word_of_int (t_policy t)) SCHED_RESET_ON_FORK) else t_policy t)"

definition sys_sched_getparam :: "kapi \<Rightarrow> int \<Rightarrow> u64 \<Rightarrow> kernel \<Rightarrow> int \<times> kernel" where
  "sys_sched_getparam a pid param k =
     (if param = 0 \<or> pid < 0 then (- EINVAL, k)
      else case find_process_by_pid a k pid of
        None \<Rightarrow> (- ESRCH, k)
      | Some p \<Rightarrow>
          let retval = ka_security_task_getscheduler a k p; t = k_tasks k p
          in if retval \<noteq> 0 then (retval, k)
             else let lp = (if ka_rt_policy a (t_policy t) then sint (t_rt_priority t) else 0);
                      (fault, k) = ka_put_user_priority a param lp k
                  in (if fault then - EFAULT else 0, k))"

definition sched_attr_copy_to_user :: "kapi \<Rightarrow> u64 \<Rightarrow> sched_attr \<Rightarrow> u32 \<Rightarrow> kernel \<Rightarrow> int \<times> kernel" where
  "sched_attr_copy_to_user a uattr kattr usize k =
     (if \<not> ka_access_ok a uattr usize then (- EFAULT, k)
      else let kattr = kattr\<lparr>sa_size := min usize SCHED_ATTR_SIZE_VER1\<rparr>;
               (fault, k) = ka_copy_attr_to_user a uattr kattr (sa_size kattr) k
           in (if fault then - EFAULT else 0, k))"

text \<open>The attributes that \<open>sched_getattr\<close> reports for a task.\<close>

definition getattr_kattr :: "kapi \<Rightarrow> task_struct \<Rightarrow> sched_attr" where
  "getattr_kattr a t =
     (let kattr = zero_attr\<lparr>sa_policy := t_policy t\<rparr>;
          kattr = (if t_sched_reset_on_fork t
                   then kattr\<lparr>sa_flags := set_flag (sa_flags kattr) SCHED_FLAG_RESET_ON_FORK\<rparr> else kattr);
          kattr = get_params a t kattr;
          kattr = kattr\<lparr>sa_flags := sa_flags kattr AND SCHED_FLAG_ALL\<rparr>
      in kattr\<lparr>sa_util_min := of_nat (uc_value (t_uclamp_req t UCLAMP_MIN)),
               sa_util_max := of_nat (uc_value (t_uclamp_req t UCLAMP_MAX))\<rparr>)"

definition sys_sched_getattr :: "kapi \<Rightarrow> int \<Rightarrow> u64 \<Rightarrow> u32 \<Rightarrow> u32 \<Rightarrow> kernel \<Rightarrow> int \<times> kernel" where
  "sys_sched_getattr a pid uattr usize flags k =
     (if uattr = 0 \<or> pid < 0 \<or> ka_page_size a < usize \<or> usize < SCHED_ATTR_SIZE_VER0 \<or> flags \<noteq> 0
      then (- EINVAL, k)
      else case find_process_by_pid a k pid of
        None \<Rightarrow> (- ESRCH, k)
      | Some p \<Rightarrow>
          let retval = ka_security_task_getscheduler a k p
          in if retval \<noteq> 0 then (retval, k)
             else sched_attr_copy_to_user a uattr (getattr_kattr a (k_tasks k p)) usize k)"

end
