(* ===== verification/Setsched_Correct.thy ===== *)
theory Setsched_Correct
  imports Setsched Prio_Correct
begin

text \<open>
  Properties of \<open>__sched_setscheduler\<close>: what a successful call sets, that a failing call
  changes nothing, that a caller that keeps the policy cannot overwrite one set
  concurrently, and that \<open>sched_getattr\<close> reads back what was set.
\<close>

section \<open>What the other files promise\<close>

text \<open>
  Besides the contract of the classes: storing deadline parameters and checking deadline
  bandwidth leave the public part of tasks alone, and adjusting the lock chain of a task
  after a change leaves the parameters of that task alone.
\<close>

definition setscheduler_env_ok :: "kapi \<Rightarrow> bool" where
  "setscheduler_env_ok a \<longleftrightarrow> class_ops_keep_params a \<and>
     (\<forall>p at k. public_tasks (ka_setparam_dl a p at k) = public_tasks k) \<and>
     (\<forall>p pol at k. public_tasks (snd (ka_sched_dl_overflow a p pol at k)) = public_tasks k) \<and>
     (\<forall>p k. task_params (k_tasks (ka_rt_mutex_adjust_pi a p k) p) = task_params (k_tasks k p))"

lemma setscheduler_env_ok_sample: "setscheduler_env_ok sample_kapi"
  using class_ops_keep_params_sample
  by (simp add: setscheduler_env_ok_def) (simp add: sample_kapi_def public_tasks_upd_task)

section \<open>Effects on the public part\<close>

lemma uclamp_validate_tasks [simp]:
  "k_tasks (snd (uclamp_validate p attr k)) = k_tasks k"
  by (simp add: uclamp_validate_def Let_def uclamp_used_enable_def)

lemma setscheduler_checks_tasks:
  "k_tasks (snd (setscheduler_checks a p attr user policy k)) = k_tasks k"
  unfolding setscheduler_checks_def Let_def
  by (simp add: case_prod_beta if_distrib [of snd] if_distrib [of k_tasks] cong: if_cong)

lemma update_rq_clock_public [simp]: "public_tasks (update_rq_clock a c k) = public_tasks k"
  by (rule pub.clock)

lemma uclamp_req_params [simp]:
  "task_params (k_tasks (upd_task_uc_req p i f k) q) = task_params (k_tasks k q)"
  by (simp add: upd_task_uc_req_def task_params_def)

lemma us_setscheduler_uclamp_params [simp]:
  "task_params (k_tasks (us_setscheduler_uclamp p attr k) q) = task_params (k_tasks k q)"
  by (simp add: us_setscheduler_uclamp_def setscheduler_uclamp_reset_def clamp_ids_def Let_def)

text \<open>The parameters that \<open>__setscheduler_params\<close> and \<open>__setscheduler_prio\<close> leave behind.\<close>

definition set_params :: "kapi \<Rightarrow> task_struct \<Rightarrow> sched_attr \<Rightarrow> int \<Rightarrow> task_struct" where
  "set_params a t attr prio =
     (let pol = (if sa_policy attr = SETPARAM_POLICY then t_policy t else sa_policy attr);
          st = (if \<not> ka_dl_policy a pol \<and> ka_fair_policy a pol then NICE_TO_PRIO (sa_nice attr)
                else t_static_prio t)
      in t\<lparr>t_policy := pol, t_static_prio := st, t_rt_priority := sa_priority attr,
           t_normal_prio := us_normal_prio a pol (sint (sa_priority attr)) (PRIO_TO_NICE st),
           t_prio := prio, t_sched_class := prio_class prio\<rparr>)"

lemma us_setscheduler_params_params:
  assumes "setscheduler_env_ok a"
  shows "task_params (k_tasks (us_setscheduler_prio p prio (us_setscheduler_params a p attr k)) p) =
         task_params (set_params a (k_tasks k p) attr prio)"
proof -
  have keep: "class_ops_keep_params a"
    and dl: "\<And>k. public_tasks (ka_setparam_dl a p attr k) = public_tasks k"
    using assms by (auto simp: setscheduler_env_ok_def)
  let ?pol = "if sa_policy attr = SETPARAM_POLICY then t_policy (k_tasks k p) else sa_policy attr"
  define k1 where "k1 = upd_task p (\<lambda>t. t\<lparr>t_policy := ?pol\<rparr>) k"
  define k2 where "k2 = (if ka_dl_policy a ?pol then ka_setparam_dl a p attr k1
      else if ka_fair_policy a ?pol then upd_task p (\<lambda>t. t\<lparr>t_static_prio := NICE_TO_PRIO (sa_nice attr)\<rparr>) k1
      else k1)"
  define k3 where "k3 = upd_task p (\<lambda>t. t\<lparr>t_rt_priority := sa_priority attr\<rparr>) k2"
  define k4 where "k4 = upd_task p (\<lambda>t. t\<lparr>t_normal_prio := normal_prio a t\<rparr>) k3"
  have all: "us_setscheduler_params a p attr k = set_load_weight a p True k4"
    unfolding us_setscheduler_params_def Let_def k4_def k3_def k2_def k1_def by simp
  let ?st = "if \<not> ka_dl_policy a ?pol \<and> ka_fair_policy a ?pol then NICE_TO_PRIO (sa_nice attr)
             else t_static_prio (k_tasks k p)"
  have k2: "task_params (k_tasks k2 p) =
      task_params ((k_tasks k p)\<lparr>t_policy := ?pol, t_static_prio := ?st\<rparr>)"
  proof (cases "ka_dl_policy a ?pol")
    case True
    have "task_params (k_tasks k2 p) = task_params (k_tasks k1 p)"
      using True task_params_public [OF dl [of k1], of p] by (simp add: k2_def)
    then show ?thesis using True by (simp add: k1_def task_params_def)
  next
    case False
    then show ?thesis by (simp add: k2_def k1_def task_params_def)
  qed
  have "task_params (k_tasks k4 p) = task_params ((k_tasks k p)\<lparr>t_policy := ?pol, t_static_prio := ?st,
      t_rt_priority := sa_priority attr,
      t_normal_prio := us_normal_prio a ?pol (sint (sa_priority attr)) (PRIO_TO_NICE ?st)\<rparr>)"
    using task_params_eqD [OF k2] by (simp add: k4_def k3_def task_params_def normal_prio_def)
  then have "task_params (k_tasks (set_load_weight a p True k4) p) =
      task_params ((k_tasks k p)\<lparr>t_policy := ?pol, t_static_prio := ?st, t_rt_priority := sa_priority attr,
      t_normal_prio := us_normal_prio a ?pol (sint (sa_priority attr)) (PRIO_TO_NICE ?st)\<rparr>)"
    by (simp add: set_load_weight_keep_params [OF keep])
  then show ?thesis
    by (simp add: us_setscheduler_prio_params all set_params_def Let_def)
      (simp add: params_set_prio_def task_params_def)
qed

text \<open>The change as a whole.\<close>

lemma setscheduler_commit_params:
  fixes a k p attr policy pi c reset
  assumes ok: "setscheduler_env_ok a"
  defines "t \<equiv> (k_tasks k p)\<lparr>t_sched_reset_on_fork := reset\<rparr>"
  defines "np \<equiv> us_normal_prio a policy (sint (sa_priority attr)) (sa_nice attr)"
  defines "prio \<equiv> if pi then us_rt_effective_prio k (t_pi_top_task t) np else np"
  shows "task_params (k_tasks (setscheduler_commit a p attr pi policy reset c k) p) =
     task_params (if test_flag (sa_flags attr) SCHED_FLAG_KEEP_PARAMS then t else set_params a t attr prio)"
proof -
  have keep: "class_ops_keep_params a"
    and adj: "\<And>k. task_params (k_tasks (ka_rt_mutex_adjust_pi a p k) p) = task_params (k_tasks k p)"
    using ok by (auto simp: setscheduler_env_ok_def)
  note q = queue_ops_keep_params [OF keep]
  define k1 where "k1 = upd_task p (\<lambda>t. t\<lparr>t_sched_reset_on_fork := reset\<rparr>) k"
  define oldprio where "oldprio = t_prio (k_tasks k1 p)"
  define newprio where "newprio = (if pi then rt_effective_prio k1 p np else np)"
  define fl where "fl = (if pi \<and> newprio = oldprio
     then (DEQUEUE_SAVE OR DEQUEUE_MOVE OR DEQUEUE_NOCLOCK) AND NOT DEQUEUE_MOVE
     else (DEQUEUE_SAVE OR DEQUEUE_MOVE OR DEQUEUE_NOCLOCK))"
  define queued where "queued = task_on_rq_queued (k_tasks k1 p)"
  define running where "running = task_current k1 c p"
  define k2 where "k2 = (if queued then dequeue_task a c p fl k1 else k1)"
  define k3 where "k3 = (if running then put_prev_task a c p k2 else k2)"
  define k4 where "k4 = (if \<not> test_flag (sa_flags attr) SCHED_FLAG_KEEP_PARAMS
     then us_setscheduler_prio p newprio (us_setscheduler_params a p attr k3) else k3)"
  define k5 where "k5 = us_setscheduler_uclamp p attr k4"
  define fl2 where "fl2 = (if queued \<and> oldprio < t_prio (k_tasks k5 p) then fl OR ENQUEUE_HEAD else fl)"
  define k6 where "k6 = (if queued then enqueue_task a c p fl2 k5 else k5)"
  define k7 where "k7 = (if running then set_next_task a c p k6 else k6)"
  define k8 where "k8 = check_class_changed a c p (task_class k3 p) oldprio k7"
  define hk where "hk = splice_balance_callbacks c k8"
  define k9 where "k9 = (if pi then ka_rt_mutex_adjust_pi a p (snd hk) else snd hk)"
  have all: "setscheduler_commit a p attr pi policy reset c k = balance_callbacks a c (fst hk) k9"
    unfolding k9_def hk_def k8_def k7_def k6_def fl2_def k5_def k4_def k3_def k2_def fl_def queued_def
      running_def newprio_def oldprio_def k1_def np_def setscheduler_commit_def Let_def
    by (simp add: case_prod_beta)
  have new: "newprio = prio"
    by (simp add: newprio_def prio_def rt_effective_prio_def k1_def t_def us_rt_effective_prio_def
        split: option.split)
  have k1: "k_tasks k1 p = t" by (simp add: k1_def t_def)
  have k3: "task_params (k_tasks k3 p) = task_params t"
    by (simp add: k3_def k2_def q k1 del: k_tasks_upd)
  have "task_params (set_params a (k_tasks k3 p) attr prio) = task_params (set_params a t attr prio)"
    using task_params_eqD [OF k3] by (simp add: set_params_def Let_def task_params_def)
  then have k4: "task_params (k_tasks k4 p) = task_params
     (if test_flag (sa_flags attr) SCHED_FLAG_KEEP_PARAMS then t else set_params a t attr prio)"
    using k3 by (simp add: k4_def us_setscheduler_params_params [OF ok] new)
  have "task_params (k_tasks (snd hk) p) = task_params (k_tasks k8 p)"
    unfolding hk_def by (rule task_params_public, rule pub.keep_splice)
  then have "task_params (k_tasks k9 p) = task_params (k_tasks k4 p)"
    by (simp add: k9_def adj k8_def k7_def k6_def k5_def q)
  then show ?thesis by (simp add: all q k4)
qed

section \<open>The outcomes of an attempt\<close>

lemma setscheduler_checks_ok:
  assumes "setscheduler_checks a p attr user policy k = (Inr (pol, old, reset), k')"
  shows "pol = (if policy < 0 then t_policy (k_tasks k p) else policy)"
    and "old = (if policy < 0 then t_policy (k_tasks k p) else -1)"
    and "reset = (if policy < 0 then t_sched_reset_on_fork (k_tasks k p)
                  else test_flag (sa_flags attr) SCHED_FLAG_RESET_ON_FORK)"
  using assms unfolding setscheduler_checks_def Let_def
  by (auto split: if_split_asm prod.split_asm)

lemma setscheduler_checks_err:
  "setscheduler_checks a p attr user policy k = (Inl err, k') \<Longrightarrow> err \<noteq> 0"
  unfolding setscheduler_checks_def Let_def
  by (simp add: EINVAL_def split: if_split_asm prod.split_asm)

text \<open>With the lock held: an error leaves the tasks alone, a success commits.\<close>

lemma setscheduler_locked_cases:
  assumes "setscheduler_env_ok a"
  obtains (err) r k' where "setscheduler_locked a p attr user pi policy old reset k = Inl (r, k')" "r \<noteq> 0"
      "public_tasks k' = public_tasks k"
    | (again) k' where "setscheduler_locked a p attr user pi policy old reset k = Inr k'"
      "public_tasks k' = public_tasks k" "old \<noteq> -1" "old \<noteq> t_policy (k_tasks k p)"
    | (same) k' where "setscheduler_locked a p attr user pi policy old reset k = Inl (0, k')"
      "\<not> setscheduler_changes a (k_tasks k p) attr policy"
      "task_params (k_tasks k' p) = task_params ((k_tasks k p)\<lparr>t_sched_reset_on_fork := reset\<rparr>)"
    | (commit) s c where
      "setscheduler_locked a p attr user pi policy old reset k =
         Inl (0, setscheduler_commit a p attr pi policy reset c s)"
      "public_tasks s = public_tasks k" "old = -1 \<or> old = t_policy (k_tasks k p)"
      "setscheduler_changes a (k_tasks k p) attr policy"
proof -
  let ?c = "task_cpu k p"
  let ?k = "update_rq_clock a ?c k"
  let ?ov = "if ka_dl_policy a policy \<or> dl_task (k_tasks k p)
             then ka_sched_dl_overflow a p policy attr ?k else (False, ?k)"
  have "public_tasks (snd (ka_sched_dl_overflow a p policy attr ?k)) = public_tasks ?k"
    using assms by (simp add: setscheduler_env_ok_def)
  then have ov: "public_tasks (snd ?ov) = public_tasks k" by simp
  have tk: "k_tasks ?k = k_tasks k" by simp
  let ?perm = "user \<and> ka_dl_bandwidth_enabled a ?k \<and> ka_dl_policy a policy \<and>
      \<not> test_flag (sa_flags attr) SCHED_FLAG_SUGOV \<and>
      (\<not> ka_rd_span a ?k ?c \<subseteq> cpus_ptr_mask (k_tasks k p) \<or> ka_rd_dl_bw a ?k ?c = 0)"
  have l: "setscheduler_locked a p attr user pi policy old reset k =
     (if rq_stop (k_rqs ?k ?c) = Some p then Inl (- EINVAL, ?k)
      else if \<not> setscheduler_changes a (k_tasks k p) attr policy
      then Inl (0, upd_task p (\<lambda>t. t\<lparr>t_sched_reset_on_fork := reset\<rparr>) ?k)
      else if ?perm then Inl (- EPERM, ?k)
      else if old \<noteq> -1 \<and> old \<noteq> t_policy (k_tasks k p) then Inr ?k
      else if fst ?ov then Inl (- EBUSY, snd ?ov)
      else Inl (0, setscheduler_commit a p attr pi policy reset ?c (snd ?ov)))"
    unfolding setscheduler_locked_def Let_def tk case_prod_beta by (rule refl)
  consider "rq_stop (k_rqs ?k ?c) = Some p"
    | "rq_stop (k_rqs ?k ?c) \<noteq> Some p" "\<not> setscheduler_changes a (k_tasks k p) attr policy"
    | "rq_stop (k_rqs ?k ?c) \<noteq> Some p" "setscheduler_changes a (k_tasks k p) attr policy" by blast
  then show thesis
  proof cases
    case 1 then show thesis by (intro err [of "- EINVAL" ?k]) (simp_all add: l EINVAL_def)
  next
    case 2 then show thesis
      by (intro same [of "upd_task p (\<lambda>t. t\<lparr>t_sched_reset_on_fork := reset\<rparr>) ?k"]) (simp_all add: l)
  next
    case 3
    note c3 = 3
    consider "?perm" | "\<not> ?perm" "old \<noteq> -1 \<and> old \<noteq> t_policy (k_tasks k p)"
      | "\<not> ?perm" "\<not> (old \<noteq> -1 \<and> old \<noteq> t_policy (k_tasks k p))" by blast
    then show thesis
    proof cases
      case 1
      have "setscheduler_locked a p attr user pi policy old reset k = Inl (- EPERM, ?k)"
        unfolding l if_not_P [OF c3(1)] if_P [OF 1] using c3 by simp
      then show thesis by (intro err [of "- EPERM" ?k]) (simp_all add: EPERM_def)
    next
      case 2
      have "setscheduler_locked a p attr user pi policy old reset k = Inr ?k"
        unfolding l if_not_P [OF c3(1)] if_not_P [OF 2(1)] if_P [OF 2(2)] using c3 by simp
      then show thesis using 2(2) by (intro again [of ?k]) simp_all
    next
      case 3
      have e: "setscheduler_locked a p attr user pi policy old reset k =
          (if fst ?ov then Inl (- EBUSY, snd ?ov)
           else Inl (0, setscheduler_commit a p attr pi policy reset ?c (snd ?ov)))"
        unfolding l if_not_P [OF c3(1)] if_not_P [OF 3(1)] if_not_P [OF 3(2)] using c3 by simp
      show thesis
      proof (cases "fst ?ov")
        case True
        then show thesis using e ov by (intro err [of "- EBUSY" "snd ?ov"]) (simp_all add: EBUSY_def)
      next
        case False
        have e2: "setscheduler_locked a p attr user pi policy old reset k =
            Inl (0, setscheduler_commit a p attr pi policy reset ?c (snd ?ov))"
          unfolding e if_not_P [OF False] by (rule refl)
        show thesis by (rule commit [OF e2 ov]) (use 3(2) c3(2) in blast)+
      qed
    qed
  qed
qed

section \<open>Properties\<close>

text \<open>The priority a task gets from the request.\<close>

definition requested_prio :: "kapi \<Rightarrow> kernel \<Rightarrow> tid \<Rightarrow> sched_attr \<Rightarrow> int \<Rightarrow> bool \<Rightarrow> int" where
  "requested_prio a k p attr pol pi =
     (let np = us_normal_prio a pol (sint (sa_priority attr)) (sa_nice attr)
      in if pi then us_rt_effective_prio k (t_pi_top_task (k_tasks k p)) np else np)"

lemma us_rt_effective_prio_cong:
  assumes "\<And>q. t_prio (k_tasks k' q) = t_prio (k_tasks k q)"
  shows "us_rt_effective_prio k' pi np = us_rt_effective_prio k pi np"
  using assms by (simp add: us_rt_effective_prio_def split: option.split)

lemma prio_class_not_yat: "prio_class prio \<noteq> yat_casched_sched_class"
  by (simp add: prio_class_def)

text \<open>Without interference there is one attempt.\<close>

lemma us_sched_setscheduler_single:
  "us_sched_setscheduler a [\<lambda>k. k] p attr user pi k = Some (r, k') \<longleftrightarrow>
     setscheduler_attempt a (\<lambda>k. k) p attr user pi (sa_policy attr) k = Inl (r, k')"
  by (simp add: us_sched_setscheduler_def split: sum.split)

lemma setscheduler_success_facts:
  assumes "setscheduler_env_ok a"
    and "us_sched_setscheduler a [\<lambda>k. k] p attr user pi k = Some (0, k')"
    and "\<not> test_flag (sa_flags attr) SCHED_FLAG_KEEP_PARAMS" "SETPARAM_POLICY \<le> sa_policy attr"
    and "t_sched_class (k_tasks k p) = prio_class (t_prio (k_tasks k p))"
  shows "let t = k_tasks k p; t' = k_tasks k' p;
             pol = (if sa_policy attr < 0 then t_policy t else sa_policy attr)
         in t_policy t' = pol \<and>
            t_sched_reset_on_fork t' = (if sa_policy attr < 0 then t_sched_reset_on_fork t
              else test_flag (sa_flags attr) SCHED_FLAG_RESET_ON_FORK) \<and>
            (if ka_dl_policy a pol then True
             else if ka_fair_policy a pol then task_nice t' = sa_nice attr
             else task_nice t' = task_nice t) \<and>
            (ka_rt_policy a pol \<longrightarrow> t_rt_priority t' = sa_priority attr) \<and>
            t_prio t' = (if setscheduler_changes a t attr pol then requested_prio a k p attr pol pi
                         else t_prio t) \<and>
            t_sched_class t' = prio_class (t_prio t') \<and> t_sched_class t' \<noteq> yat_casched_sched_class"
proof -
  define t where "t = k_tasks k p"
  obtain pol old reset k1 where ch: "setscheduler_checks a p attr user (sa_policy attr) k = (Inr (pol, old, reset), k1)"
    and lk: "setscheduler_locked a p attr user pi pol old reset k1 = Inl (0, k')"
    using assms(2) setscheduler_checks_err [of a p attr user "sa_policy attr" k]
    by (auto simp: us_sched_setscheduler_single setscheduler_attempt_def split: prod.splits sum.splits)
  have tk: "k_tasks k1 = k_tasks k"
    using setscheduler_checks_tasks [of a p attr user "sa_policy attr" k] ch by simp
  note ok = setscheduler_checks_ok [OF ch, folded t_def]
  have sp: "sa_policy attr < 0 \<longleftrightarrow> sa_policy attr = SETPARAM_POLICY"
    using assms(4) by (auto simp: SETPARAM_POLICY_def)
  have cls: "t_sched_class t = prio_class (t_prio t)" using assms(5) by (simp add: t_def)
  show ?thesis
    using assms(1)
  proof (cases rule: setscheduler_locked_cases [where p = p and attr = attr and user = user and pi = pi
        and policy = pol and old = old and reset = reset and k = k1])
    case (same k2)
    have k': "k' = k2" using lk same(1) by simp
    show ?thesis unfolding k' Let_def t_def [symmetric] ok(1) [symmetric] ok(3) [symmetric]
      using task_params_eqD [OF same(3), unfolded tk, folded t_def] same(2) [unfolded tk, folded t_def] cls
      by (auto simp: setscheduler_changes_def task_nice_def prio_class_not_yat)
  next
    case (commit s c)
    have k': "k' = setscheduler_commit a p attr pi pol reset c s" using lk commit(1) by simp
    have ps: "task_params (k_tasks s q) = task_params (k_tasks k q)" for q
      using task_params_public [OF commit(2), of q] by (simp add: tk)
    note ts = task_params_eqD [OF ps [of p], folded t_def]
    have "task_params (k_tasks k' p) = task_params (set_params a ((k_tasks s p)\<lparr>t_sched_reset_on_fork := reset\<rparr>) attr
        (requested_prio a k p attr pol pi))"
      using assms(3) task_params_eqD [OF ps]
      by (simp add: k' setscheduler_commit_params [OF assms(1)] requested_prio_def Let_def
          us_rt_effective_prio_cong [of s k])
    moreover have "(if sa_policy attr = SETPARAM_POLICY then t_policy t else sa_policy attr) = pol"
      using sp ok(1) by simp
    ultimately show ?thesis
      unfolding Let_def t_def [symmetric] ok(1) [symmetric] ok(3) [symmetric]
      using ts commit(4) [unfolded tk, folded t_def]
      by (auto simp: set_params_def task_params_def task_nice_def prio_class_not_yat Let_def)
  qed (use lk in simp_all)
qed

text \<open>
  C11: A successful \<open>__sched_setscheduler\<close> (parameters not kept, policy -1 or above) leaves
  the task with the requested policy and reset-on-fork flag - its own when the policy is to
  be kept -, the requested nice value for fair and real-time priority for real-time
  policies, and, when anything was to change, the priority of the request, boosted by the
  task's donor if priority inheritance is respected.  The class always is the one of the
  priority: deadline, real-time or fair, so the yat class is never entered.
\<close>

theorem setscheduler_success:
  assumes "setscheduler_env_ok a"
    and "us_sched_setscheduler a [\<lambda>k. k] p attr user pi k = Some (0, k')"
    and "\<not> test_flag (sa_flags attr) SCHED_FLAG_KEEP_PARAMS" "SETPARAM_POLICY \<le> sa_policy attr"
    and "t_sched_class (k_tasks k p) = prio_class (t_prio (k_tasks k p))"
  shows "let t = k_tasks k p; t' = k_tasks k' p;
             pol = (if sa_policy attr < 0 then t_policy t else sa_policy attr)
         in t_policy t' = pol \<and>
            t_sched_reset_on_fork t' = (if sa_policy attr < 0 then t_sched_reset_on_fork t
              else test_flag (sa_flags attr) SCHED_FLAG_RESET_ON_FORK) \<and>
            (if ka_dl_policy a pol then True
             else if ka_fair_policy a pol then task_nice t' = sa_nice attr
             else task_nice t' = task_nice t) \<and>
            (ka_rt_policy a pol \<longrightarrow> t_rt_priority t' = sa_priority attr) \<and>
            t_prio t' = (if setscheduler_changes a t attr pol then requested_prio a k p attr pol pi
                         else t_prio t) \<and>
            t_sched_class t' = prio_class (t_prio t') \<and> t_sched_class t' \<noteq> yat_casched_sched_class"
  using assms by (rule setscheduler_success_facts)

definition yat_request :: sched_attr where
  "yat_request = zero_attr\<lparr>sa_policy := SCHED_YAT_CASCHED, sa_nice := 5\<rparr>"

text \<open>A request of the repository's own policy, by the task's owner.\<close>

lemma sample_yat_request:
  "\<exists>k'. us_sched_setscheduler sample_kapi [\<lambda>k. k] 10 yat_request False False sample_kernel = Some (0, k')"
  by (simp add: us_sched_setscheduler_single setscheduler_attempt_def setscheduler_checks_def
      setscheduler_locked_def setscheduler_changes_def yat_request_def zero_attr_def Let_def
      sched_flag_consts SCHED_YAT_CASCHED_def machine_part_eqD(3) [OF mach.clock], simp add: sample_defs sample_kapi_def task_cpu_def
      dl_task_def dl_prio_def MAX_DL_PRIO_def SCHED_NORMAL_def frame)

theorem setscheduler_success_witness:
  "\<exists>k'. us_sched_setscheduler sample_kapi [\<lambda>k. k] 10 yat_request False False sample_kernel = Some (0, k') \<and>
     (let t = k_tasks sample_kernel 10; t' = k_tasks k' 10;
          pol = (if sa_policy yat_request < 0 then t_policy t else sa_policy yat_request)
      in t_policy t' = pol \<and>
         t_sched_reset_on_fork t' = (if sa_policy yat_request < 0 then t_sched_reset_on_fork t
           else test_flag (sa_flags yat_request) SCHED_FLAG_RESET_ON_FORK) \<and>
         (if ka_dl_policy sample_kapi pol then True
          else if ka_fair_policy sample_kapi pol then task_nice t' = sa_nice yat_request
          else task_nice t' = task_nice t) \<and>
         (ka_rt_policy sample_kapi pol \<longrightarrow> t_rt_priority t' = sa_priority yat_request) \<and>
         t_prio t' = (if setscheduler_changes sample_kapi t yat_request pol
                      then requested_prio sample_kapi sample_kernel 10 yat_request pol False else t_prio t) \<and>
         t_sched_class t' = prio_class (t_prio t') \<and> t_sched_class t' \<noteq> yat_casched_sched_class)"
proof -
  obtain k' where k': "us_sched_setscheduler sample_kapi [\<lambda>k. k] 10 yat_request False False sample_kernel = Some (0, k')"
    using sample_yat_request by blast
  show ?thesis
    by (rule exI [of _ k'], rule conjI, rule k', rule setscheduler_success [OF setscheduler_env_ok_sample k'])
      (simp_all add: yat_request_def zero_attr_def SETPARAM_POLICY_def SCHED_YAT_CASCHED_def sample_defs
        prio_class_def prio_consts)
qed

text \<open>
  C21: A call of \<open>__sched_setscheduler\<close> that returns an error has changed nothing about
  any task: state, policy, priorities, placement and affinity of all tasks are as before,
  wherever the error was detected - in the checks, under the lock or by the deadline
  bandwidth test.
\<close>

theorem setscheduler_error_unchanged:
  assumes "setscheduler_env_ok a"
    and "us_sched_setscheduler a [\<lambda>k. k] p attr user pi k = Some (r, k')" "r \<noteq> 0"
  shows "public_tasks k' = public_tasks k"
proof -
  have at: "setscheduler_attempt a (\<lambda>k. k) p attr user pi (sa_policy attr) k = Inl (r, k')"
    using assms(2) by (simp add: us_sched_setscheduler_single)
  have pub: "public_tasks k1 = public_tasks k"
    if "setscheduler_checks a p attr user (sa_policy attr) k = (x, k1)" for x k1
    using setscheduler_checks_tasks [of a p attr user "sa_policy attr" k] that
    by (simp add: public_tasks_def fun_eq_iff)
  obtain x k1 where ch: "setscheduler_checks a p attr user (sa_policy attr) k = (x, k1)" by (cases "setscheduler_checks a p attr user (sa_policy attr) k")
  show ?thesis
  proof (cases x)
    case (Inl e)
    then show ?thesis using at ch pub [OF ch] by (simp add: setscheduler_attempt_def)
  next
    case (Inr c)
    obtain pol old reset where c: "c = (pol, old, reset)" by (cases c)
    have lk: "setscheduler_locked a p attr user pi pol old reset k1 = Inl (r, k')"
      using at ch by (simp add: setscheduler_attempt_def Inr c)
    show ?thesis using assms(1)
    proof (cases rule: setscheduler_locked_cases [where p = p and attr = attr and user = user and pi = pi
          and policy = pol and old = old and reset = reset and k = k1])
      case (err r2 k2)
      then show ?thesis using lk pub [OF ch] by simp
    qed (use lk assms(3) in simp_all)
  qed
qed

text \<open>Without privilege, an owner cannot enter the deadline class.\<close>

theorem setscheduler_error_unchanged_witness:
  "let attr = zero_attr\<lparr>sa_policy := SCHED_DEADLINE\<rparr>
   in \<exists>k'. us_sched_setscheduler sample_kapi [\<lambda>k. k] 10 attr True False sample_kernel = Some (- EPERM, k') \<and>
        public_tasks k' = public_tasks sample_kernel"
proof -
  let ?attr = "zero_attr\<lparr>sa_policy := SCHED_DEADLINE\<rparr>"
  have r: "us_sched_setscheduler sample_kapi [\<lambda>k. k] 10 ?attr True False sample_kernel = Some (- EPERM, sample_kernel)"
    by (simp add: us_sched_setscheduler_single setscheduler_attempt_def setscheduler_checks_def
      user_check_sched_setscheduler_def setscheduler_req_priv_def
      zero_attr_def Let_def sched_flag_consts policy_consts EPERM_def) (simp add: sample_kapi_def)
  show ?thesis unfolding Let_def
    by (rule exI [of _ sample_kernel], rule conjI, rule r,
        rule setscheduler_error_unchanged [OF setscheduler_env_ok_sample r]) (simp add: EPERM_def)
qed

section \<open>Races\<close>

lemma set_params_keeps_policy:
  "sa_policy attr = SETPARAM_POLICY \<Longrightarrow> t_policy (set_params a t attr prio) = t_policy t"
  by (simp add: set_params_def Let_def)

text \<open>A keeping caller never changes the policy that it finds under the lock.\<close>

lemma setscheduler_locked_keeps_policy:
  assumes "setscheduler_env_ok a" "sa_policy attr = SETPARAM_POLICY"
    and "setscheduler_locked a p attr user pi pol old reset k = Inl (0, k')"
  shows "t_policy (k_tasks k' p) = t_policy (k_tasks k p)"
  using assms(1)
proof (cases rule: setscheduler_locked_cases [where p = p and attr = attr and user = user and pi = pi
      and policy = pol and old = old and reset = reset and k = k])
  case (same k2)
  then show ?thesis using assms(3) task_params_eqD(1) [OF same(3)] by simp
next
  case (commit s c)
  have k': "k' = setscheduler_commit a p attr pi pol reset c s" using assms(3) commit(1) by simp
  have "t_policy (k_tasks s p) = t_policy (k_tasks k p)"
    by (rule public_part_eqD [OF public_tasksD [OF commit(2)]])
  then show ?thesis
    using task_params_eqD(1) [OF setscheduler_commit_params [OF assms(1), of p attr pi pol reset c s]]
    by (simp add: k' set_params_keeps_policy [OF assms(2)] split: if_splits)
qed (use assms(3) in simp_all)



section \<open>Reading back\<close>

lemma setscheduler_changes_KEEP: "\<not> setscheduler_changes a t attr (t_policy t) \<Longrightarrow>
    ka_rt_policy a (t_policy t) \<Longrightarrow> sa_priority attr = t_rt_priority t"
  by (simp add: setscheduler_changes_def)

text \<open>
  Round trip.  After a successful \<open>sched_setattr\<close> of a fair or real-time policy (no
  flag but reset-on-fork), \<open>sched_getattr\<close> reports exactly the policy, the reset-on-fork
  flag, and the nice value or real-time priority that were set, and nothing deadline.
\<close>

theorem setattr_getattr_roundtrip:
  assumes "setscheduler_env_ok a" "sched_setattr a [\<lambda>k. k] p attr k = Some (0, k')"
    and "t_sched_class (k_tasks k p) = prio_class (t_prio (k_tasks k p))"
    and "sa_flags attr = (if reset then SCHED_FLAG_RESET_ON_FORK else 0)" "0 \<le> sa_policy attr"
    and "ka_fair_policy a (sa_policy attr) \<noteq> ka_rt_policy a (sa_policy attr)"
    and "\<not> ka_dl_policy a (sa_policy attr)"
  shows "let g = getattr_kattr a (k_tasks k' p)
         in sa_policy g = sa_policy attr \<and> sa_flags g = sa_flags attr \<and>
            (if ka_rt_policy a (sa_policy attr) then sa_priority g = sa_priority attr \<and> sa_nice g = 0
             else sa_nice g = sa_nice attr \<and> sa_priority g = 0) \<and>
            sa_runtime g = 0 \<and> sa_deadline g = 0 \<and> sa_period g = 0"
proof -
  have nk: "\<not> test_flag (sa_flags attr) SCHED_FLAG_KEEP_PARAMS"
    using assms(4) by (simp add: sched_flag_consts test_flag_def)
  have ro: "test_flag (sa_flags attr) SCHED_FLAG_RESET_ON_FORK = reset"
    using assms(4) by (simp add: sched_flag_consts test_flag_def)
  have "SETPARAM_POLICY \<le> sa_policy attr" using assms(5) by (simp add: SETPARAM_POLICY_def)
  note s = setscheduler_success_facts [OF assms(1) assms(2) [unfolded sched_setattr_def] nk this assms(3)]
  show ?thesis
    using s assms(4-7) ro
    by (auto simp: Let_def getattr_kattr_def get_params_def zero_attr_def sched_flag_consts set_flag_def)
qed

theorem setattr_getattr_roundtrip_witness:
  "let attr = zero_attr\<lparr>sa_policy := SCHED_BATCH, sa_nice := 5\<rparr>
   in \<exists>k'. sched_setattr sample_kapi [\<lambda>k. k] 10 attr sample_kernel = Some (0, k') \<and>
       (let g = getattr_kattr sample_kapi (k_tasks k' 10)
        in sa_policy g = sa_policy attr \<and> sa_flags g = sa_flags attr \<and>
           (if ka_rt_policy sample_kapi (sa_policy attr) then sa_priority g = sa_priority attr \<and> sa_nice g = 0
            else sa_nice g = sa_nice attr \<and> sa_priority g = 0) \<and>
           sa_runtime g = 0 \<and> sa_deadline g = 0 \<and> sa_period g = 0)"
proof -
  let ?attr = "zero_attr\<lparr>sa_policy := SCHED_BATCH, sa_nice := 5\<rparr>"
  have "\<exists>k'. us_sched_setscheduler sample_kapi [\<lambda>k. k] 10 ?attr True True sample_kernel = Some (0, k')"
    by (simp add: us_sched_setscheduler_single setscheduler_attempt_def setscheduler_checks_def
        setscheduler_locked_def setscheduler_changes_def user_check_sched_setscheduler_def
        setscheduler_req_priv_def check_same_owner_def is_nice_reduction_def zero_attr_def Let_def
        sched_flag_consts SCHED_BATCH_def machine_part_eqD(3) [OF mach.clock],
        simp add: sample_defs sample_kapi_def task_cpu_def task_nice_def
        dl_task_def prio_consts SCHED_NORMAL_def frame)
  then obtain k' where k': "sched_setattr sample_kapi [\<lambda>k. k] 10 ?attr sample_kernel = Some (0, k')"
    by (auto simp: sched_setattr_def)
  show ?thesis unfolding Let_def [of ?attr]
    by (rule exI [of _ k'], rule conjI, rule k',
        rule setattr_getattr_roundtrip [OF setscheduler_env_ok_sample k', of False])
      (simp_all add: zero_attr_def SCHED_BATCH_def sample_defs prio_class_def prio_consts)
qed

end
