(* ===== verification/Affinity.thy ===== *)
theory Affinity
  imports Queue Task_State Setsched
begin

text \<open>
  CPU affinity and migration (\<open>core.c\<close>, lines 2402 to 3660 and 8320 to 8545).  A task that
  runs on a CPU it may no longer use is moved by that CPU's stopper thread; the caller of
  \<open>__set_cpus_allowed_ptr\<close> blocks on a completion meanwhile.  The works queued for the
  stoppers are the list \<open>k_stop_works\<close>; what happens while a caller is blocked is an
  argument \<open>env\<close>, and a result \<open>None\<close> means that the completion has not come.
\<close>

section \<open>Where a task may run\<close>

definition is_migration_disabled :: "task_struct \<Rightarrow> bool" where
  "is_migration_disabled t \<longleftrightarrow> t_migration_disabled t \<noteq> 0"

definition is_cpu_allowed :: "kapi \<Rightarrow> kernel \<Rightarrow> tid \<Rightarrow> cpu \<Rightarrow> bool" where
  "is_cpu_allowed a k p c \<longleftrightarrow>
     (let t = k_tasks k p
      in if c \<notin> cpus_ptr_mask t then False
         else if is_migration_disabled t then cpu_online k c
         else if \<not> test_flag (t_flags t) PF_KTHREAD
         then cpu_active k c \<and> c \<in> ka_task_cpu_possible_mask a k p
         else if ka_kthread_is_per_cpu a k p then cpu_online k c
         else if ka_cpu_dying a k c then False
         else cpu_online k c)"

definition rq_has_pinned_tasks :: "kernel \<Rightarrow> cpu \<Rightarrow> bool" where
  "rq_has_pinned_tasks k c \<longleftrightarrow> rq_nr_pinned (k_rqs k c) \<noteq> 0"

section \<open>Moving tasks\<close>

text \<open>The warnings of \<open>CONFIG_SCHED_DEBUG\<close> and the events for tracing have no effect here.\<close>

definition set_task_cpu :: "kapi \<Rightarrow> tid \<Rightarrow> cpu \<Rightarrow> kernel \<Rightarrow> kernel" where
  "set_task_cpu a p new_cpu k =
     (let k = (if task_cpu k p \<noteq> new_cpu
               then let k = (case class_migrate_task_rq a (task_class k p) of
                               Some f \<Rightarrow> f p new_cpu k | None \<Rightarrow> k)
                    in upd_task p (\<lambda>t. t\<lparr>t_se := (t_se t)\<lparr>se_nr_migrations := se_nr_migrations (t_se t) + 1\<rparr>\<rparr>) k
               else k)
      in ka_set_task_cpu a p new_cpu k)"

definition move_queued_task :: "kapi \<Rightarrow> cpu \<Rightarrow> tid \<Rightarrow> cpu \<Rightarrow> kernel \<Rightarrow> kernel" where
  "move_queued_task a c p new_cpu k =
     (let k = deactivate_task a c p DEQUEUE_NOCLOCK k;
          k = set_task_cpu a p new_cpu k;
          k = activate_task a new_cpu p 0 k
      in wakeup_preempt a new_cpu p 0 k)"

definition us_migrate_task :: "kapi \<Rightarrow> cpu \<Rightarrow> tid \<Rightarrow> cpu \<Rightarrow> kernel \<Rightarrow> kernel" where
  "us_migrate_task a c p dest_cpu k =
     (if \<not> is_cpu_allowed a k p dest_cpu then k else move_queued_task a c p dest_cpu k)"

section \<open>The stopper functions\<close>

definition upd_pending ::
  "nat \<Rightarrow> (set_affinity_pending \<Rightarrow> set_affinity_pending) \<Rightarrow> kernel \<Rightarrow> kernel" where
  "upd_pending n f k = k\<lparr>k_pendings := (k_pendings k)(n := f (k_pendings k n))\<rparr>"

definition stop_one_cpu_nowait :: "cpu \<Rightarrow> stop_work \<Rightarrow> kernel \<Rightarrow> kernel" where
  "stop_one_cpu_nowait c w k = k\<lparr>k_stop_works := k_stop_works k @ [(c, w)]\<rparr>"

definition complete_all :: "nat \<Rightarrow> kernel \<Rightarrow> kernel" where
  "complete_all n = upd_pending n (\<lambda>s. s\<lparr>sap_done := True\<rparr>)"

record migration_arg =
  ma_task :: tid
  ma_dest_cpu :: int
  ma_pending :: "nat option"

text \<open>The end of \<open>migration_cpu_stop\<close>, at its label \<open>out\<close>.\<close>

definition migration_stop_out :: "nat option \<Rightarrow> bool \<Rightarrow> kernel \<Rightarrow> kernel" where
  "migration_stop_out pending completes k =
     (case pending of None \<Rightarrow> k
      | Some n \<Rightarrow> let k = upd_pending n (\<lambda>s. s\<lparr>sap_stop_pending := False\<rparr>) k
                  in if completes then complete_all n k else k)"

definition migration_cpu_stop :: "kapi \<Rightarrow> migration_arg \<Rightarrow> kernel \<Rightarrow> kernel" where
  "migration_cpu_stop a arg k =
     (let pending = ma_pending arg; p = ma_task arg; c = k_this_cpu k;
          k = ka_flush_smp_call_function_queue a k;
          clear = upd_task p (\<lambda>t. t\<lparr>t_migration_pending := None\<rparr>)
      in if task_cpu k p = c
         then if is_migration_disabled (k_tasks k p) then migration_stop_out pending False k
              else let k = (if pending \<noteq> None then clear k else k)
                   in if pending \<noteq> None \<and> task_cpu k p \<in> t_cpus_mask (k_tasks k p)
                      then migration_stop_out pending True k
                      else let k = (if task_on_rq_queued (k_tasks k p)
                                    then us_migrate_task a c p (ma_dest_cpu arg) (update_rq_clock a c k)
                                    else upd_task p (\<lambda>t. t\<lparr>t_wake_cpu := ma_dest_cpu arg\<rparr>) k)
                           in migration_stop_out pending (pending \<noteq> None) k
         else case pending of
           None \<Rightarrow> k
         | Some n \<Rightarrow>
             if task_cpu k p \<in> cpus_ptr_mask (k_tasks k p) then migration_stop_out pending True (clear k)
             else stop_one_cpu_nowait (task_cpu k p) (Migration_cpu_stop n) k)"

definition push_cpu_stop :: "kapi \<Rightarrow> tid \<Rightarrow> kernel \<Rightarrow> kernel" where
  "push_cpu_stop a p k =
     (let c = k_this_cpu k; out_unlock = upd_rq c (\<lambda>r. r\<lparr>rq_push_busy := False\<rparr>)
      in if task_cpu k p \<noteq> c then out_unlock k
         else if is_migration_disabled (k_tasks k p)
         then out_unlock (upd_task p (\<lambda>t. t\<lparr>t_migration_flags := set_flag (t_migration_flags t) MDF_PUSH\<rparr>) k)
         else let k = upd_task p (\<lambda>t. t\<lparr>t_migration_flags := clear_flag (t_migration_flags t) MDF_PUSH\<rparr>) k;
                  lowest_rq = (case class_find_lock_rq a (task_class k p) of
                                 Some f \<Rightarrow> f p c k | None \<Rightarrow> None)
              in case lowest_rq of None \<Rightarrow> out_unlock k
                 | Some l \<Rightarrow>
                     out_unlock (if task_cpu k p = c
                       then let k = deactivate_task a c p 0 k;
                                k = set_task_cpu a p (rq_cpu (k_rqs k l)) k;
                                k = activate_task a l p 0 k
                            in resched_curr l k
                       else k))"

section \<open>Changing the mask\<close>

definition set_cpus_allowed_common ::
  "tid \<Rightarrow> affinity_context \<Rightarrow> kernel \<Rightarrow> affinity_context \<times> kernel" where
  "set_cpus_allowed_common p ctx k =
     (if test_flag (ac_flags ctx) (SCA_MIGRATE_ENABLE OR SCA_MIGRATE_DISABLE)
      then (ctx, upd_task p (\<lambda>t. t\<lparr>t_cpus_ptr := ac_new_mask ctx\<rparr>) k)
      else let mask = ac_mask (k_tasks k p) ctx;
               k = upd_task p (\<lambda>t. t\<lparr>t_cpus_mask := mask,
                     t_nr_cpus_allowed := int (length (for_each_cpu k mask))\<rparr>) k
           in if test_flag (ac_flags ctx) SCA_USER
              then (ctx\<lparr>ac_user_mask := t_user_cpus_ptr (k_tasks k p)\<rparr>,
                    upd_task p (\<lambda>t. t\<lparr>t_user_cpus_ptr := ac_user_mask ctx\<rparr>) k)
              else (ctx, k))"

definition us_do_set_cpus_allowed ::
  "kapi \<Rightarrow> tid \<Rightarrow> affinity_context \<Rightarrow> kernel \<Rightarrow> affinity_context \<times> kernel" where
  "us_do_set_cpus_allowed a p ctx k =
     (let c = task_cpu k p;
          queued = task_on_rq_queued (k_tasks k p);
          running = task_current k c p;
          k = (if queued then dequeue_task a c p (DEQUEUE_SAVE OR DEQUEUE_NOCLOCK) k else k);
          k = (if running then put_prev_task a c p k else k);
          (ctx, k) = class_set_cpus_allowed a (task_class k p) p ctx k;
          k = (if queued then enqueue_task a c p (ENQUEUE_RESTORE OR ENQUEUE_NOCLOCK) k else k);
          k = (if running then set_next_task a c p k else k)
      in (ctx, k))"

definition do_set_cpus_allowed :: "kapi \<Rightarrow> tid \<Rightarrow> cpumask \<Rightarrow> kernel \<Rightarrow> kernel" where
  "do_set_cpus_allowed a p new_mask k =
     snd (us_do_set_cpus_allowed a p
       \<lparr>ac_new_mask = Some new_mask, ac_user_mask = None, ac_flags = SCA_USER\<rparr> k)"

definition migrate_disable_switch :: "kapi \<Rightarrow> cpu \<Rightarrow> tid \<Rightarrow> kernel \<Rightarrow> kernel" where
  "migrate_disable_switch a c p k =
     (if t_migration_disabled (k_tasks k p) = 0 then k
      else if t_cpus_ptr (k_tasks k p) \<noteq> None then k
      else snd (us_do_set_cpus_allowed a p
             \<lparr>ac_new_mask = Some {rq_cpu (k_rqs k c)}, ac_user_mask = None, ac_flags = SCA_MIGRATE_DISABLE\<rparr> k))"

definition migrate_disable :: "kernel \<Rightarrow> kernel" where
  "migrate_disable k =
     (let p = k_current k
      in if t_migration_disabled (k_tasks k p) \<noteq> 0
         then upd_task p (\<lambda>t. t\<lparr>t_migration_disabled := t_migration_disabled t + 1\<rparr>) k
         else upd_task p (\<lambda>t. t\<lparr>t_migration_disabled := 1\<rparr>)
                (upd_rq (k_this_cpu k) (\<lambda>r. r\<lparr>rq_nr_pinned := rq_nr_pinned r + 1\<rparr>) k))"

text \<open>A user mask is a kernel allocation that may fail.\<close>

definition alloc_user_cpus_ptr :: "kapi \<Rightarrow> kernel \<Rightarrow> bool" where
  "alloc_user_cpus_ptr a k = ka_alloc_ok a k"

definition dup_user_cpus_ptr :: "kapi \<Rightarrow> tid \<Rightarrow> tid \<Rightarrow> kernel \<Rightarrow> int \<times> kernel" where
  "dup_user_cpus_ptr a dst src k =
     (let k = upd_task dst (\<lambda>t. t\<lparr>t_user_cpus_ptr := None\<rparr>) k
      in case t_user_cpus_ptr (k_tasks k src) of
           None \<Rightarrow> (0, k)
         | Some m \<Rightarrow> if \<not> alloc_user_cpus_ptr a k then (- ENOMEM, k)
                     else (0, upd_task dst (\<lambda>t. t\<lparr>t_user_cpus_ptr := Some m\<rparr>) k))"

definition clear_user_cpus_ptr :: "tid \<Rightarrow> kernel \<Rightarrow> cpumask option \<times> kernel" where
  "clear_user_cpus_ptr p k =
     (t_user_cpus_ptr (k_tasks k p), upd_task p (\<lambda>t. t\<lparr>t_user_cpus_ptr := None\<rparr>) k)"

definition release_user_cpus_ptr :: "tid \<Rightarrow> kernel \<Rightarrow> kernel" where
  "release_user_cpus_ptr p k = snd (clear_user_cpus_ptr p k)"

section \<open>Getting a task off a forbidden CPU\<close>

text \<open>
  The caller blocks: \<open>env\<close> runs, and then the request must have been completed.  The one
  who installed it (\<open>owner\<close>) also waits until all others have let go of it.
\<close>

definition wait_for_refs :: "(kernel \<Rightarrow> kernel) \<Rightarrow> nat \<Rightarrow> kernel \<Rightarrow> kernel option" where
  "wait_for_refs env n k =
     (let k = (if sap_refs (k_pendings k n) = 0 then k else env k)
      in if sap_refs (k_pendings k n) = 0 then Some k else None)"

definition wait_for_pending ::
  "(kernel \<Rightarrow> kernel) \<Rightarrow> bool \<Rightarrow> nat \<Rightarrow> kernel \<Rightarrow> (int \<times> kernel) option" where
  "wait_for_pending env owner n k =
     (let k = (if sap_done (k_pendings k n) then k else env k)
      in if sap_done (k_pendings k n)
         then let k = upd_pending n (\<lambda>s. s\<lparr>sap_refs := sap_refs s - 1\<rparr>) k
              in map_option (\<lambda>k. (0, k)) (if owner then wait_for_refs env n k else Some k)
         else None)"

definition affine_done :: "cpu \<Rightarrow> tid \<Rightarrow> u32 \<Rightarrow> kernel \<Rightarrow> kernel" where
  "affine_done c p flags k =
     (let t = k_tasks k p;
          push = (test_flag flags SCA_MIGRATE_ENABLE \<and> test_flag (t_migration_flags t) MDF_PUSH \<and>
                  \<not> rq_push_busy (k_rqs k c));
          k = (if push then upd_rq c (\<lambda>r. r\<lparr>rq_push_busy := True\<rparr>) k else k);
          completes = (case t_migration_pending t of None \<Rightarrow> None
                       | Some n \<Rightarrow> if \<not> sap_stop_pending (k_pendings k n) then Some n else None);
          k = (if completes \<noteq> None then upd_task p (\<lambda>t. t\<lparr>t_migration_pending := None\<rparr>) k else k);
          k = (if push then stop_one_cpu_nowait (rq_cpu (k_rqs k c)) (Push_cpu_stop p) k else k)
      in case completes of Some n \<Rightarrow> complete_all n k | None \<Rightarrow> k)"

definition install_pending :: "tid \<Rightarrow> int \<Rightarrow> kernel \<Rightarrow> kernel" where
  "install_pending p dest_cpu k =
     (case t_migration_pending (k_tasks k p) of
        None \<Rightarrow>
          let n = k_next_pending k;
              k = k\<lparr>k_next_pending := n + 1\<rparr>;
              k = upd_pending n (\<lambda>_. \<lparr>sap_refs = 1, sap_stop_pending = False, sap_done = False,
                                      sap_task = p, sap_dest_cpu = dest_cpu\<rparr>) k
          in upd_task p (\<lambda>t. t\<lparr>t_migration_pending := Some n\<rparr>) k
      | Some n \<Rightarrow>
          upd_pending n (\<lambda>s. s\<lparr>sap_refs := sap_refs s + 1, sap_dest_cpu := dest_cpu\<rparr>) k)"

definition affine_move_task ::
  "kapi \<Rightarrow> (kernel \<Rightarrow> kernel) \<Rightarrow> cpu \<Rightarrow> tid \<Rightarrow> int \<Rightarrow> u32 \<Rightarrow> kernel \<Rightarrow> (int \<times> kernel) option" where
  "affine_move_task a env c p dest_cpu flags k =
     (if task_cpu k p \<in> t_cpus_mask (k_tasks k p) then Some (0, affine_done c p flags k)
      else let owner = (\<not> test_flag flags SCA_MIGRATE_ENABLE \<and> t_migration_pending (k_tasks k p) = None);
               k = (if \<not> test_flag flags SCA_MIGRATE_ENABLE then install_pending p dest_cpu k else k)
           in case t_migration_pending (k_tasks k p) of
                None \<Rightarrow> Some (- EINVAL, k)
              | Some n \<Rightarrow>
                  if t_on_cpu (k_tasks k p) \<or> t_state (k_tasks k p) = TASK_WAKING
                  then let stop_pending = sap_stop_pending (k_pendings k n);
                           k = upd_pending n (\<lambda>s. s\<lparr>sap_stop_pending := True\<rparr>) k;
                           k = (if test_flag flags SCA_MIGRATE_ENABLE
                                then upd_task p (\<lambda>t. t\<lparr>t_migration_flags := clear_flag (t_migration_flags t) MDF_PUSH\<rparr>) k
                                else k);
                           k = (if \<not> stop_pending
                                then stop_one_cpu_nowait (rq_cpu (k_rqs k c)) (Migration_cpu_stop n) k else k)
                       in if test_flag flags SCA_MIGRATE_ENABLE then Some (0, k)
                          else wait_for_pending env owner n k
                  else let disabled = is_migration_disabled (k_tasks k p);
                           k = (if \<not> disabled \<and> task_on_rq_queued (k_tasks k p)
                                then move_queued_task a c p dest_cpu k else k);
                           completes = (\<not> disabled \<and> \<not> sap_stop_pending (k_pendings k n));
                           k = (if completes then complete_all n
                                  (upd_task p (\<lambda>t. t\<lparr>t_migration_pending := None\<rparr>) k) else k)
                       in wait_for_pending env owner n k)"

text \<open>The result, the context (its user mask may have been swapped) and the state.\<close>

definition us_set_cpus_allowed_ptr_locked ::
  "kapi \<Rightarrow> (kernel \<Rightarrow> kernel) \<Rightarrow> tid \<Rightarrow> affinity_context \<Rightarrow> cpu \<Rightarrow> kernel \<Rightarrow>
     (int \<times> affinity_context \<times> kernel) option" where
  "us_set_cpus_allowed_ptr_locked a env p ctx c k =
     (let k = update_rq_clock a c k;
          t = k_tasks k p;
          kthread = test_flag (t_flags t) PF_KTHREAD;
          cpu_valid_mask = (if kthread \<or> is_migration_disabled t then k_online k else k_active k);
          mask = ac_mask t ctx;
          enable = test_flag (ac_flags ctx) SCA_MIGRATE_ENABLE;
          dest_cpu = ka_cpumask_any_and_distribute a k cpu_valid_mask mask
      in if \<not> kthread \<and> \<not> mask \<subseteq> ka_task_cpu_possible_mask a k p then Some (- EINVAL, ctx, k)
         else if test_flag (ac_flags ctx) SCA_CHECK \<and> test_flag (t_flags t) PF_NO_SETAFFINITY
         then Some (- EINVAL, ctx, k)
         else if \<not> enable \<and> t_cpus_mask t = mask
         then if test_flag (ac_flags ctx) SCA_USER
              then Some (0, ctx\<lparr>ac_user_mask := t_user_cpus_ptr t\<rparr>,
                         upd_task p (\<lambda>t. t\<lparr>t_user_cpus_ptr := ac_user_mask ctx\<rparr>) k)
              else Some (0, ctx, k)
         else if \<not> enable \<and> p = k_current k \<and> is_migration_disabled t \<and> task_cpu k p \<notin> mask
         then Some (- EBUSY, ctx, k)
         else if k_nr_cpu_ids k \<le> dest_cpu then Some (- EINVAL, ctx, k)
         else let (ctx, k) = us_do_set_cpus_allowed a p ctx k
              in map_option (\<lambda>(r, k). (r, ctx, k)) (affine_move_task a env c p dest_cpu (ac_flags ctx) k))"

definition us_set_cpus_allowed_ptr ::
  "kapi \<Rightarrow> (kernel \<Rightarrow> kernel) \<Rightarrow> tid \<Rightarrow> affinity_context \<Rightarrow> kernel \<Rightarrow>
     (int \<times> affinity_context \<times> kernel) option" where
  "us_set_cpus_allowed_ptr a env p ctx k =
     (let t = k_tasks k p;
          ctx = (case t_user_cpus_ptr t of None \<Rightarrow> ctx
                 | Some user \<Rightarrow>
                     if \<not> test_flag (ac_flags ctx) (SCA_USER OR SCA_MIGRATE_ENABLE OR SCA_MIGRATE_DISABLE) \<and>
                        ac_mask t ctx \<inter> user \<noteq> {}
                     then ctx\<lparr>ac_new_mask := Some (ac_mask t ctx \<inter> user)\<rparr> else ctx)
      in us_set_cpus_allowed_ptr_locked a env p ctx (task_cpu k p) k)"

definition set_cpus_allowed_ptr ::
  "kapi \<Rightarrow> (kernel \<Rightarrow> kernel) \<Rightarrow> tid \<Rightarrow> cpumask \<Rightarrow> kernel \<Rightarrow> (int \<times> kernel) option" where
  "set_cpus_allowed_ptr a env p new_mask k =
     map_option (\<lambda>(r, _, k). (r, k)) (us_set_cpus_allowed_ptr a env p
       \<lparr>ac_new_mask = Some new_mask, ac_user_mask = None, ac_flags = 0\<rparr> k)"

text \<open>The block of the re-enabling task ends at once: it never waits.\<close>

definition migrate_enable :: "kapi \<Rightarrow> kernel \<Rightarrow> kernel option" where
  "migrate_enable a k =
     (let p = k_current k; t = k_tasks k p
      in if 1 < t_migration_disabled t
         then Some (upd_task p (\<lambda>t. t\<lparr>t_migration_disabled := t_migration_disabled t - 1\<rparr>) k)
         else if t_migration_disabled t = 0 then Some k
         else map_option (\<lambda>k. upd_rq (k_this_cpu k) (\<lambda>r. r\<lparr>rq_nr_pinned := rq_nr_pinned r - 1\<rparr>)
                           (upd_task p (\<lambda>t. t\<lparr>t_migration_disabled := 0\<rparr>) k))
                (if t_cpus_ptr t \<noteq> None
                 then map_option (\<lambda>(_, _, k). k) (us_set_cpus_allowed_ptr a (\<lambda>k. k) p
                        \<lparr>ac_new_mask = None, ac_user_mask = None, ac_flags = SCA_MIGRATE_ENABLE\<rparr> k)
                 else Some k))"

end
