(* ===== verification/Cpu_Select.thy ===== *)
theory Cpu_Select
  imports Affinity
begin

text \<open>
  Choosing a CPU for a task (\<open>select_task_rq\<close> and its fallback), the affinity system calls,
  affinity that follows the CPUs a task can execute on, and the swap of two tasks for NUMA
  balancing (\<open>core.c\<close>).
\<close>

section \<open>Affinity on behalf of user space\<close>

text \<open>\<open>task_user_cpus\<close>: the mask user space asked for, by default all possible CPUs.\<close>

definition task_user_cpus :: "kernel \<Rightarrow> tid \<Rightarrow> cpumask" where
  "task_user_cpus k p = (case t_user_cpus_ptr (k_tasks k p) of None \<Rightarrow> k_possible k | Some m \<Rightarrow> m)"

text \<open>The new mask is returned as well.\<close>

definition restrict_cpus_allowed_ptr ::
  "kapi \<Rightarrow> (kernel \<Rightarrow> kernel) \<Rightarrow> tid \<Rightarrow> cpumask \<Rightarrow> kernel \<Rightarrow> (int \<times> kernel) option" where
  "restrict_cpus_allowed_ptr a env p subset_mask k =
     (let new_mask = task_user_cpus k p \<inter> subset_mask
      in if ka_dl_policy a (t_policy (k_tasks k p)) \<and> ka_dl_bandwidth_enabled a k then Some (- EPERM, k)
         else if new_mask = {} then Some (- EINVAL, k)
         else map_option (\<lambda>(r, _, k). (r, k)) (us_set_cpus_allowed_ptr_locked a env p
                \<lparr>ac_new_mask = Some new_mask, ac_user_mask = None, ac_flags = 0\<rparr> (task_cpu k p) k))"

definition force_compatible_cpus_allowed_ptr ::
  "kapi \<Rightarrow> (kernel \<Rightarrow> kernel) \<Rightarrow> tid \<Rightarrow> kernel \<Rightarrow> kernel option" where
  "force_compatible_cpus_allowed_ptr a env p k =
     (let override_mask = ka_task_cpu_possible_mask a k p;
          set_mask = (\<lambda>m k. map_option snd (set_cpus_allowed_ptr a env p m k))
      in if \<not> ka_alloc_ok a k then set_mask override_mask k
         else case restrict_cpus_allowed_ptr a env p override_mask k of
                None \<Rightarrow> None
              | Some (ret, k) \<Rightarrow> if ret = 0 then Some k else set_mask (ka_cpuset_cpus_allowed a k p) k)"

definition dl_task_check_affinity :: "kapi \<Rightarrow> kernel \<Rightarrow> tid \<Rightarrow> cpumask \<Rightarrow> int" where
  "dl_task_check_affinity a k p m =
     (if \<not> ka_dl_policy a (t_policy (k_tasks k p)) \<or> \<not> ka_dl_bandwidth_enabled a k then 0
      else if \<not> ka_rd_span a k (task_cpu k p) \<subseteq> m then - EBUSY else 0)"

text \<open>Returns the context too; its user mask is freed by the caller.\<close>

definition us_sched_setaffinity ::
  "kapi \<Rightarrow> (kernel \<Rightarrow> kernel) \<Rightarrow> tid \<Rightarrow> affinity_context \<Rightarrow> kernel \<Rightarrow>
     (int \<times> affinity_context \<times> kernel) option" where
  "us_sched_setaffinity a env p ctx k =
     (if \<not> ka_alloc_ok a k then Some (- ENOMEM, ctx, k)
      else let new_mask = ac_mask (k_tasks k p) ctx \<inter> ka_cpuset_cpus_allowed a k p;
               ctx = ctx\<lparr>ac_new_mask := Some new_mask, ac_flags := set_flag (ac_flags ctx) SCA_CHECK\<rparr>;
               retval = dl_task_check_affinity a k p new_mask
           in if retval \<noteq> 0 then Some (retval, ctx, k)
              else case us_set_cpus_allowed_ptr a env p ctx k of
                None \<Rightarrow> None
              | Some (retval, ctx, k) \<Rightarrow>
                  if retval \<noteq> 0 then Some (retval, ctx, k)
                  else let cpus_allowed = ka_cpuset_cpus_allowed a k p
                       in if new_mask \<subseteq> cpus_allowed then Some (0, ctx, k)
                          else let m = (case ac_user_mask ctx of
                                 Some u \<Rightarrow> if test_flag (ac_flags ctx) SCA_USER \<and> cpus_allowed \<inter> u \<noteq> {}
                                           then cpus_allowed \<inter> u else cpus_allowed
                               | None \<Rightarrow> cpus_allowed)
                           in map_option (\<lambda>(_, ctx, k). (- EINVAL, ctx, k))
                                (us_set_cpus_allowed_ptr a env p (ctx\<lparr>ac_new_mask := Some m\<rparr>) k))"

definition relax_compatible_cpus_allowed_ptr ::
  "kapi \<Rightarrow> (kernel \<Rightarrow> kernel) \<Rightarrow> tid \<Rightarrow> kernel \<Rightarrow> kernel option" where
  "relax_compatible_cpus_allowed_ptr a env p k =
     map_option (\<lambda>(_, _, k). k) (us_sched_setaffinity a env p
       \<lparr>ac_new_mask = Some (task_user_cpus k p), ac_user_mask = None, ac_flags = 0\<rparr> k)"

definition sched_setaffinity ::
  "kapi \<Rightarrow> (kernel \<Rightarrow> kernel) \<Rightarrow> int \<Rightarrow> cpumask \<Rightarrow> kernel \<Rightarrow> (int \<times> kernel) option" where
  "sched_setaffinity a env pid in_mask k =
     (case find_process_by_pid a k pid of
        None \<Rightarrow> Some (- ESRCH, k)
      | Some p \<Rightarrow>
          if test_flag (t_flags (k_tasks k p)) PF_NO_SETAFFINITY then Some (- EINVAL, k)
          else if \<not> check_same_owner a k p \<and> \<not> ka_ns_capable_sys_nice a k p then Some (- EPERM, k)
          else let retval = ka_security_task_setscheduler a k p
               in if retval \<noteq> 0 then Some (retval, k)
                  else if \<not> alloc_user_cpus_ptr a k then Some (- ENOMEM, k)
                  else map_option (\<lambda>(r, _, k). (r, k)) (us_sched_setaffinity a env p
                         \<lparr>ac_new_mask = Some in_mask, ac_user_mask = Some in_mask, ac_flags = SCA_USER\<rparr> k))"

text \<open>The mask buffer holds \<open>m\<close> before the copy.\<close>

definition get_user_cpu_mask :: "kapi \<Rightarrow> u64 \<Rightarrow> nat \<Rightarrow> cpumask \<Rightarrow> kernel \<Rightarrow> int \<times> cpumask" where
  "get_user_cpu_mask a user_mask_ptr len m k =
     (let m = (if len < ka_cpumask_size a then {} else m);
          len = (if ka_cpumask_size a < len then ka_cpumask_size a else len)
      in case ka_copy_mask_from_user a k user_mask_ptr len m of
           None \<Rightarrow> (- EFAULT, m) | Some m \<Rightarrow> (0, m))"

definition sys_sched_setaffinity ::
  "kapi \<Rightarrow> (kernel \<Rightarrow> kernel) \<Rightarrow> int \<Rightarrow> nat \<Rightarrow> u64 \<Rightarrow> cpumask \<Rightarrow> kernel \<Rightarrow> (int \<times> kernel) option" where
  "sys_sched_setaffinity a env pid len user_mask_ptr garbage k =
     (if \<not> ka_alloc_ok a k then Some (- ENOMEM, k)
      else let (retval, new_mask) = get_user_cpu_mask a user_mask_ptr len garbage k
           in if retval = 0 then sched_setaffinity a env pid new_mask k else Some (retval, k))"

definition sched_getaffinity :: "kapi \<Rightarrow> int \<Rightarrow> kernel \<Rightarrow> int \<times> cpumask" where
  "sched_getaffinity a pid k =
     (case find_process_by_pid a k pid of
        None \<Rightarrow> (- ESRCH, {})
      | Some p \<Rightarrow>
          let retval = ka_security_task_getscheduler a k p
          in if retval \<noteq> 0 then (retval, {}) else (0, t_cpus_mask (k_tasks k p) \<inter> k_active k))"

text \<open>\<open>len\<close> is an \<open>unsigned int\<close>: the product with the bits per byte wraps.\<close>

definition sys_sched_getaffinity :: "kapi \<Rightarrow> int \<Rightarrow> u32 \<Rightarrow> u64 \<Rightarrow> kernel \<Rightarrow> int \<times> kernel" where
  "sys_sched_getaffinity a pid len user_mask_ptr k =
     (if len * 8 < word_of_int (k_nr_cpu_ids k) then (- EINVAL, k)
      else if test_flag len 7 then (- EINVAL, k)
      else if \<not> ka_alloc_ok a k then (- ENOMEM, k)
      else let (ret, msk) = sched_getaffinity a pid k
           in if ret \<noteq> 0 then (ret, k)
              else let retlen = min (unat len) (ka_cpumask_size a);
                       (fault, k) = ka_copy_mask_to_user a user_mask_ptr msk retlen k
                   in (if fault then - EFAULT else int retlen, k))"

section \<open>Choosing a CPU\<close>

definition first_allowed :: "kapi \<Rightarrow> kernel \<Rightarrow> tid \<Rightarrow> cpumask \<Rightarrow> cpu option" where
  "first_allowed a k p m = find (is_cpu_allowed a k p) (for_each_cpu k m)"

text \<open>
  The states of \<open>select_fallback_rq\<close>, last one first.  Each pass of its loop searches the
  task's mask; a failed pass widens the mask.  \<open>BUG()\<close> is recorded in \<open>k_undefined\<close>.
\<close>

definition fallback_fail :: "kapi \<Rightarrow> tid \<Rightarrow> kernel \<Rightarrow> cpu \<times> kernel" where
  "fallback_fail a p k =
     (case first_allowed a k p (cpus_ptr_mask (k_tasks k p)) of
        Some c \<Rightarrow> (c, k) | None \<Rightarrow> (-1, k\<lparr>k_undefined := True\<rparr>))"

definition fallback_widen :: "kapi \<Rightarrow> tid \<Rightarrow> kernel \<Rightarrow> cpu \<times> kernel" where
  "fallback_widen a p k =
     fallback_fail a p (do_set_cpus_allowed a p (ka_task_cpu_possible_mask a k p) k)"

definition fallback_possible :: "kapi \<Rightarrow> tid \<Rightarrow> kernel \<Rightarrow> cpu \<times> kernel" where
  "fallback_possible a p k =
     (case first_allowed a k p (cpus_ptr_mask (k_tasks k p)) of
        Some c \<Rightarrow> (c, k) | None \<Rightarrow> fallback_widen a p k)"

definition fallback_cpuset :: "kapi \<Rightarrow> tid \<Rightarrow> kernel \<Rightarrow> cpu \<times> kernel" where
  "fallback_cpuset a p k =
     (case first_allowed a k p (cpus_ptr_mask (k_tasks k p)) of
        Some c \<Rightarrow> (c, k)
      | None \<Rightarrow> let (changed, k) = ka_cpuset_cpus_allowed_fallback a p k
                in if changed then fallback_possible a p k else fallback_widen a p k)"

definition select_fallback_rq :: "kapi \<Rightarrow> cpu \<Rightarrow> tid \<Rightarrow> kernel \<Rightarrow> cpu \<times> kernel" where
  "select_fallback_rq a c p k =
     (let nid = ka_cpu_to_node a c
      in case (if nid \<noteq> -1 then first_allowed a k p (ka_cpumask_of_node a nid) else None) of
           Some d \<Rightarrow> (d, k) | None \<Rightarrow> fallback_cpuset a p k)"

definition select_task_rq :: "kapi \<Rightarrow> tid \<Rightarrow> cpu \<Rightarrow> u32 \<Rightarrow> kernel \<Rightarrow> cpu \<times> kernel" where
  "select_task_rq a p c wake_flags k =
     (let t = k_tasks k p;
          (c, k) = (if 1 < t_nr_cpus_allowed t \<and> \<not> is_migration_disabled t
                    then class_select_task_rq a (task_class k p) p c wake_flags k
                    else (ka_cpumask_any a k (cpus_ptr_mask t), k))
      in if \<not> is_cpu_allowed a k p c then select_fallback_rq a (task_cpu k p) p k else (c, k))"

section \<open>The stopper threads\<close>

definition us_balance_push_cpu_stop :: "kapi \<Rightarrow> tid \<Rightarrow> kernel \<Rightarrow> kernel" where
  "us_balance_push_cpu_stop a p k =
     (let c = k_this_cpu k; k = update_rq_clock a c k
      in if task_cpu k p = c \<and> task_on_rq_queued (k_tasks k p)
         then let (d, k) = select_fallback_rq a (rq_cpu (k_rqs k c)) p k in us_migrate_task a c p d k
         else k)"

text \<open>
  A stopper thread takes the next work of its CPU.  The argument of a queued migration is
  the one stored in the request.
\<close>

definition run_stop_work :: "kapi \<Rightarrow> cpu \<times> stop_work \<Rightarrow> kernel \<Rightarrow> kernel" where
  "run_stop_work a cw k =
     (let here = k_this_cpu k; k = k\<lparr>k_this_cpu := fst cw\<rparr>;
          k = (case snd cw of
                 Migration_cpu_stop n \<Rightarrow>
                   migration_cpu_stop a \<lparr>ma_task = sap_task (k_pendings k n),
                     ma_dest_cpu = sap_dest_cpu (k_pendings k n), ma_pending = Some n\<rparr> k
               | Push_cpu_stop p \<Rightarrow> push_cpu_stop a p k
               | Balance_push_cpu_stop p \<Rightarrow> us_balance_push_cpu_stop a p k)
      in k\<lparr>k_this_cpu := here\<rparr>)"

fun run_stoppers :: "kapi \<Rightarrow> nat \<Rightarrow> kernel \<Rightarrow> kernel" where
  "run_stoppers a 0 k = k"
| "run_stoppers a (Suc n) k =
     (case k_stop_works k of [] \<Rightarrow> k
      | w # ws \<Rightarrow> run_stoppers a n (run_stop_work a w (k\<lparr>k_stop_works := ws\<rparr>)))"

section \<open>Swapping two tasks\<close>

definition us_migrate_swap_task :: "kapi \<Rightarrow> tid \<Rightarrow> cpu \<Rightarrow> kernel \<Rightarrow> kernel" where
  "us_migrate_swap_task a p c k =
     (if task_on_rq_queued (k_tasks k p)
      then let k = deactivate_task a (task_cpu k p) p 0 k;
               k = set_task_cpu a p c k;
               k = activate_task a c p 0 k
           in wakeup_preempt a c p 0 k
      else upd_task p (\<lambda>t. t\<lparr>t_wake_cpu := c\<rparr>) k)"

record migration_swap_arg =
  msa_src_task :: tid
  msa_dst_task :: tid
  msa_src_cpu :: cpu
  msa_dst_cpu :: cpu

definition migrate_swap_stop :: "kapi \<Rightarrow> migration_swap_arg \<Rightarrow> kernel \<Rightarrow> int \<times> kernel" where
  "migrate_swap_stop a arg k =
     (let src = msa_src_task arg; dst = msa_dst_task arg; sc = msa_src_cpu arg; dc = msa_dst_cpu arg
      in if \<not> cpu_active k sc \<or> \<not> cpu_active k dc then (- EAGAIN, k)
         else if task_cpu k dst \<noteq> dc then (- EAGAIN, k)
         else if task_cpu k src \<noteq> sc then (- EAGAIN, k)
         else if dc \<notin> cpus_ptr_mask (k_tasks k src) then (- EAGAIN, k)
         else if sc \<notin> cpus_ptr_mask (k_tasks k dst) then (- EAGAIN, k)
         else (0, us_migrate_swap_task a dst sc (us_migrate_swap_task a src dc k)))"

text \<open>\<open>stop_two_cpus\<close> runs the function with both CPUs stopped; \<open>env\<close> happens before.\<close>

definition migrate_swap ::
  "kapi \<Rightarrow> (kernel \<Rightarrow> kernel) \<Rightarrow> tid \<Rightarrow> tid \<Rightarrow> cpu \<Rightarrow> cpu \<Rightarrow> kernel \<Rightarrow> int \<times> kernel" where
  "migrate_swap a env cur p target_cpu curr_cpu k =
     (let arg = \<lparr>msa_src_task = cur, msa_dst_task = p, msa_src_cpu = curr_cpu, msa_dst_cpu = target_cpu\<rparr>
      in if curr_cpu = target_cpu then (- EINVAL, k)
         else if \<not> cpu_active k curr_cpu \<or> \<not> cpu_active k target_cpu then (- EINVAL, k)
         else if target_cpu \<notin> cpus_ptr_mask (k_tasks k cur) then (- EINVAL, k)
         else if curr_cpu \<notin> cpus_ptr_mask (k_tasks k p) then (- EINVAL, k)
         else migrate_swap_stop a arg (env k))"

end
