(* ===== verification/Load_Frame.thy ===== *)
theory Load_Frame
  imports Queue_Frame
begin

text \<open>
  One more observation of the contract \<open>queue_observer\<close>: the counters of a run queue that
  only the classes and the sleep and wakeup paths change.  The queue operations themselves,
  the yat class included, leave them alone.
\<close>

definition load_view :: "kernel \<Rightarrow> cpu \<Rightarrow> u32 \<times> u32 \<times> int \<times> u32 \<times> u32 \<times> u32 \<times> bool" where
  "load_view k c = (rq_nr_running (k_rqs k c), rq_cfs_h_nr_running (k_rqs k c), rq_nr_uninterruptible (k_rqs k c),
     rq_dl_nr_running (k_rqs k c), rq_rr_nr_running (k_rqs k c), rq_rt_nr_running (k_rqs k c),
     rq_ttwu_pending (k_rqs k c))"

lemma load_viewD:
  assumes "load_view k = load_view k'"
  shows "rq_nr_running (k_rqs k c) = rq_nr_running (k_rqs k' c)"
    "rq_cfs_h_nr_running (k_rqs k c) = rq_cfs_h_nr_running (k_rqs k' c)"
    "rq_nr_uninterruptible (k_rqs k c) = rq_nr_uninterruptible (k_rqs k' c)"
    "rq_dl_nr_running (k_rqs k c) = rq_dl_nr_running (k_rqs k' c)"
    "rq_rr_nr_running (k_rqs k c) = rq_rr_nr_running (k_rqs k' c)"
    "rq_rt_nr_running (k_rqs k c) = rq_rt_nr_running (k_rqs k' c)"
    "rq_ttwu_pending (k_rqs k c) = rq_ttwu_pending (k_rqs k' c)"
  using fun_cong [OF assms, of c] by (simp_all add: load_view_def Let_def)

lemma load_view_upd_task [simp]: "load_view (upd_task p f k) = load_view k"
  by (simp add: load_view_def fun_eq_iff)

lemma load_view_upd_rq:
  assumes "\<And>r. rq_nr_running (h r) = rq_nr_running r" "\<And>r. rq_cfs_h_nr_running (h r) = rq_cfs_h_nr_running r"
    "\<And>r. rq_nr_uninterruptible (h r) = rq_nr_uninterruptible r"
    "\<And>r. rq_dl_nr_running (h r) = rq_dl_nr_running r" "\<And>r. rq_rr_nr_running (h r) = rq_rr_nr_running r"
    "\<And>r. rq_rt_nr_running (h r) = rq_rt_nr_running r" "\<And>r. rq_ttwu_pending (h r) = rq_ttwu_pending r"
  shows "load_view (upd_rq c h k) = load_view k"
  using assms by (simp add: load_view_def fun_eq_iff)

lemma load_view_steps [simp]:
  "load_view (upd_uc_bucket c i b e k) = load_view k"
  "load_view (uclamp_rq_set c i v k) = load_view k"
  "load_view (set_uclamp_idle c k) = load_view k" "load_view (clear_uclamp_idle c k) = load_view k"
  "load_view (upd_task_uc p i g k) = load_view k"
  "load_view (upd_yat_rq c f k) = load_view k" "load_view (upd_yat_se p g' k) = load_view k"
  "load_view (k\<lparr>k_list_corrupted := b'\<rparr>) = load_view k"
  "load_view (k\<lparr>k_ipis := l\<rparr>) = load_view k"
  "load_view (k\<lparr>k_preempt_need_resched := b'\<rparr>) = load_view k"
  "load_view (k\<lparr>k_undefined := b'\<rparr>) = load_view k"
  by (simp_all add: upd_uc_bucket_def upd_uc_rq_def uclamp_rq_set_def set_uclamp_idle_def
      clear_uclamp_idle_def upd_task_uc_def upd_yat_rq_def upd_yat_se_def load_view_upd_rq)
    (simp_all add: load_view_def fun_eq_iff)

lemma load_view_uclamp_steps [simp]:
  "load_view (uclamp_rq_inc_id c p i k) = load_view k"
  "load_view (uclamp_rq_dec_id c p i k) = load_view k"
  by (simp_all add: uclamp_rq_inc_id_def uclamp_idle_reset_def uclamp_rq_dec_id_def uclamp_rq_max_value_def
      uclamp_idle_value_def Let_def split: option.split)

lemma load_view_resched [simp]: "load_view (resched_curr c k) = load_view k"
  by (simp add: resched_curr_def set_tsk_need_resched_def set_nr_and_not_polling_def
      smp_send_reschedule_def Let_def)

interpretation load: queue_observer load_view
proof
  show "load_view (update_rq_clock a c k) = load_view k" for a c k
    by (simp add: update_rq_clock_def update_rq_clock_task_def Let_def load_view_upd_rq)
  show "load_view (uclamp_rq_inc a c p k) = load_view k" for a c p k
    by (simp add: uclamp_rq_inc_def clamp_ids_def Let_def)
  show "load_view (uclamp_rq_dec a c p k) = load_view k" for a c p k
    by (simp add: uclamp_rq_dec_def clamp_ids_def)
  show "load_view (sched_core_enqueue a c p k) = load_view k" for a c p k
    by (simp add: sched_core_enqueue_def Let_def load_view_upd_rq)
  show "load_view (sched_core_dequeue c p f k) = load_view k" for c p f k
    by (simp add: sched_core_dequeue_def Let_def load_view_upd_rq)
  show "load_view (enqueue_task_yat_casched c p f k) = load_view k" for c p f k
    by (simp add: enqueue_task_yat_casched_def yat_list_add_tail_def Let_def)
  show "load_view (dequeue_task_yat_casched c p f k) = load_view k" for c p f k
    by (simp add: dequeue_task_yat_casched_def yat_list_del_init_def split: option.split)
  show "load_view (put_prev_task_yat_casched c p k) = load_view k" for c p k
    by (simp add: put_prev_task_yat_casched_def update_curr_yat_casched_def Let_def)
  show "load_view (set_next_task_yat_casched c p b k) = load_view k" for c p b k
    by (simp add: set_next_task_yat_casched_def)
  show "load_view (task_tick_yat_casched c p b k) = load_view k" for c p b k
    by (simp add: task_tick_yat_casched_def update_curr_yat_casched_def Let_def)
qed (simp_all add: load_view_upd_rq)

section \<open>Single fields\<close>

lemma public_fields:
  assumes "public_tasks k = public_tasks k'"
  shows "t_sched_class (k_tasks k q) = t_sched_class (k_tasks k' q)"
    "t_ti_cpu (k_tasks k q) = t_ti_cpu (k_tasks k' q)" "t_cpus_mask (k_tasks k q) = t_cpus_mask (k_tasks k' q)"
    "t_cpus_ptr (k_tasks k q) = t_cpus_ptr (k_tasks k' q)" "t_on_rq (k_tasks k q) = t_on_rq (k_tasks k' q)"
    "t_on_cpu (k_tasks k q) = t_on_cpu (k_tasks k' q)" "t_state (k_tasks k q) = t_state (k_tasks k' q)"
    "t_migration_pending (k_tasks k q) = t_migration_pending (k_tasks k' q)"
    "t_migration_disabled (k_tasks k q) = t_migration_disabled (k_tasks k' q)"
    "t_migration_flags (k_tasks k q) = t_migration_flags (k_tasks k' q)"
    "t_flags (k_tasks k q) = t_flags (k_tasks k' q)"
    "t_user_cpus_ptr (k_tasks k q) = t_user_cpus_ptr (k_tasks k' q)"
    "t_sched_contributes_to_load (k_tasks k q) = t_sched_contributes_to_load (k_tasks k' q)"
    "t_core_cookie (k_tasks k q) = t_core_cookie (k_tasks k' q)"
  using public_part_eqD [OF public_tasksD [OF assms, of q]] by simp_all

lemmas public_views = public_fields [folded task_cpu_def task_class_def]

end
