(* ===== verification/Affinity_Correct.thy ===== *)
theory Affinity_Correct
  imports Cpu_Select Load_Frame Sample_Kapi
begin

text \<open>
  What changing a task's CPU mask guarantees: the call returns and the task is on an allowed
  CPU afterwards, wherever it was, provided the stopper thread runs; except for a task of the
  yat class, whose handler ignores the mask.
\<close>

section \<open>What the rest of the kernel promises\<close>

text \<open>
  The other classes store the mask (they use \<open>set_cpus_allowed_common\<close>), the choice of a CPU
  of two masks gives one if there is one, and moving a task sets its CPU.
\<close>

definition affinity_ops :: "kapi \<Rightarrow> bool" where
  "affinity_ops a \<longleftrightarrow>
     class_ops_keep public_tasks a \<and> class_ops_keep machine_part a \<and>
     (\<forall>cls. cls \<noteq> yat_casched_sched_class \<longrightarrow> ka_set_cpus_allowed a cls = set_cpus_allowed_common) \<and>
     (\<forall>k v m. for_each_cpu k (v \<inter> m) \<noteq> [] \<longrightarrow>
        ka_cpumask_any_and_distribute a k v m \<in> set (for_each_cpu k (v \<inter> m))) \<and>
     (\<forall>p c k. machine_part (ka_set_task_cpu a p c k) = machine_part k \<and>
        task_cpu (ka_set_task_cpu a p c k) p = c \<and>
        t_cpus_mask (k_tasks (ka_set_task_cpu a p c k) p) = t_cpus_mask (k_tasks k p)) \<and>
     (\<forall>cls f p c k. ka_migrate_task_rq a cls = Some f \<longrightarrow>
        machine_part (f p c k) = machine_part k \<and> public_tasks (f p c k) = public_tasks k) \<and>
     (\<forall>k. machine_part (ka_flush_smp_call_function_queue a k) = machine_part k \<and>
        public_tasks (ka_flush_smp_call_function_queue a k) = public_tasks k)"

lemma affinity_opsD:
  assumes "affinity_ops a"
  shows "class_ops_keep public_tasks a" "class_ops_keep machine_part a"
    "cls \<noteq> yat_casched_sched_class \<Longrightarrow> ka_set_cpus_allowed a cls = set_cpus_allowed_common"
    "for_each_cpu k (v \<inter> m) \<noteq> [] \<Longrightarrow>
       ka_cpumask_any_and_distribute a k v m \<in> set (for_each_cpu k (v \<inter> m))"
    "machine_part (ka_set_task_cpu a p c k) = machine_part k" "task_cpu (ka_set_task_cpu a p c k) p = c"
    "t_cpus_mask (k_tasks (ka_set_task_cpu a p c k) p) = t_cpus_mask (k_tasks k p)"
    "ka_migrate_task_rq a cls = Some f \<Longrightarrow> machine_part (f p c k) = machine_part k"
    "ka_migrate_task_rq a cls = Some f \<Longrightarrow> public_tasks (f p c k) = public_tasks k"
    "machine_part (ka_flush_smp_call_function_queue a k) = machine_part k"
    "public_tasks (ka_flush_smp_call_function_queue a k) = public_tasks k"
  using assms unfolding affinity_ops_def by blast+

section \<open>Moving a task\<close>

lemma set_task_cpu_views:
  assumes "affinity_ops a"
  shows "machine_part (set_task_cpu a p c k) = machine_part k" "task_cpu (set_task_cpu a p c k) p = c"
    "t_cpus_mask (k_tasks (set_task_cpu a p c k) p) = t_cpus_mask (k_tasks k p)"
proof -
  define k1 where "k1 = (case class_migrate_task_rq a (task_class k p) of Some f \<Rightarrow> f p c k | None \<Rightarrow> k)"
  have 1: "machine_part k1 = machine_part k" "public_tasks k1 = public_tasks k"
    using affinity_opsD(8,9) [OF assms] by (auto simp: k1_def class_migrate_task_rq_def split: option.split)
  define k2 where "k2 = (if task_cpu k p \<noteq> c
    then upd_task p (\<lambda>t. t\<lparr>t_se := (t_se t)\<lparr>se_nr_migrations := se_nr_migrations (t_se t) + 1\<rparr>\<rparr>) k1 else k)"
  have s: "set_task_cpu a p c k = ka_set_task_cpu a p c k2"
    by (simp add: set_task_cpu_def k2_def k1_def Let_def)
  show "machine_part (set_task_cpu a p c k) = machine_part k" "task_cpu (set_task_cpu a p c k) p = c"
    "t_cpus_mask (k_tasks (set_task_cpu a p c k) p) = t_cpus_mask (k_tasks k p)"
    using affinity_opsD(5-7) [OF assms] 1 public_fields(3) [OF 1(2)] by (simp_all add: s k2_def)
qed

lemma move_queued_task_views:
  assumes "affinity_ops a"
  shows "machine_part (move_queued_task a c p d k) = machine_part k" "task_cpu (move_queued_task a c p d k) p = d"
    "t_cpus_mask (k_tasks (move_queued_task a c p d k) p) = t_cpus_mask (k_tasks k p)"
proof -
  note keep = pub.keep_ops [OF affinity_opsD(1) [OF assms]] mach.keep_ops [OF affinity_opsD(2) [OF assms]]
  define k1 where "k1 = deactivate_task a c p DEQUEUE_NOCLOCK k"
  define k2 where "k2 = set_task_cpu a p d k1"
  define k3 where "k3 = activate_task a d p 0 k2"
  have k1: "machine_part k1 = machine_part k" "t_cpus_mask (k_tasks k1 p) = t_cpus_mask (k_tasks k p)"
    using public_fields(3) [OF keep(2)] by (simp_all add: k1_def deactivate_task_def keep)
  note k2 = set_task_cpu_views [OF assms, of p d k1, folded k2_def]
  have k3: "machine_part k3 = machine_part k2" "t_cpus_mask (k_tasks k3 p) = t_cpus_mask (k_tasks k2 p)"
    "task_cpu k3 p = task_cpu k2 p"
    using public_fields(2,3) [OF keep(1)] by (simp_all add: k3_def activate_task_def Let_def keep task_cpu_def)
  have m: "move_queued_task a c p d k = wakeup_preempt a d p 0 k3"
    by (simp add: move_queued_task_def k3_def k2_def k1_def Let_def)
  have k4: "machine_part (wakeup_preempt a d p 0 k3) = machine_part k3"
    "public_tasks (wakeup_preempt a d p 0 k3) = public_tasks k3" by (rule keep)+
  show "machine_part (move_queued_task a c p d k) = machine_part k" "task_cpu (move_queued_task a c p d k) p = d"
    "t_cpus_mask (k_tasks (move_queued_task a c p d k) p) = t_cpus_mask (k_tasks k p)"
    using k1 k2 k3 k4(1) public_fields(2,3) [OF k4(2)] by (simp_all add: m task_cpu_def)
qed

section \<open>Changing the mask\<close>

text \<open>A plain request for the mask \<open>m\<close>.\<close>

abbreviation mask_ctx :: "cpumask \<Rightarrow> affinity_context" where
  "mask_ctx m \<equiv> \<lparr>ac_new_mask = Some m, ac_user_mask = None, ac_flags = 0\<rparr>"

text \<open>Around the class's handler only the queues change.\<close>

lemma do_set_handler:
  assumes "affinity_ops a"
  shows "\<exists>k1. public_tasks k1 = public_tasks k \<and> machine_part k1 = machine_part k \<and>
    public_tasks (snd (us_do_set_cpus_allowed a p ctx k)) =
      public_tasks (snd (class_set_cpus_allowed a (task_class k p) p ctx k1)) \<and>
    machine_part (snd (us_do_set_cpus_allowed a p ctx k)) =
      machine_part (snd (class_set_cpus_allowed a (task_class k p) p ctx k1))"
proof -
  note keep = pub.keep_ops [OF affinity_opsD(1) [OF assms]] mach.keep_ops [OF affinity_opsD(2) [OF assms]]
  define k1 where "k1 = (if task_on_rq_queued (k_tasks k p)
    then dequeue_task a (task_cpu k p) p (DEQUEUE_SAVE OR DEQUEUE_NOCLOCK) k else k)"
  define k2 where "k2 = (if task_current k (task_cpu k p) p then put_prev_task a (task_cpu k p) p k1 else k1)"
  have 2: "public_tasks k2 = public_tasks k" "machine_part k2 = machine_part k"
    by (simp_all add: k2_def k1_def keep)
  then have cls: "task_class k2 p = task_class k p" using public_fields(1) [OF 2(1)] by (simp add: task_class_def)
  define k3 where "k3 = snd (class_set_cpus_allowed a (task_class k p) p ctx k2)"
  define k4 where "k4 = (if task_on_rq_queued (k_tasks k p)
    then enqueue_task a (task_cpu k p) p (ENQUEUE_RESTORE OR ENQUEUE_NOCLOCK) k3 else k3)"
  define k5 where "k5 = (if task_current k (task_cpu k p) p then set_next_task a (task_cpu k p) p k4 else k4)"
  have 5: "public_tasks k5 = public_tasks k3" "machine_part k5 = machine_part k3"
    by (simp_all add: k5_def k4_def keep)
  have "snd (us_do_set_cpus_allowed a p ctx k) = k5"
    by (simp only: us_do_set_cpus_allowed_def Let_def k1_def [symmetric] k2_def [symmetric] cls split_beta
        snd_conv k3_def [symmetric] k4_def [symmetric] k5_def [symmetric])
  then show ?thesis using 2 5 unfolding k3_def by blast
qed

lemma do_set_flags:
  assumes "affinity_ops a"
  shows "ac_flags (fst (us_do_set_cpus_allowed a p ctx k)) = ac_flags ctx"
proof -
  have "ac_flags (fst (class_set_cpus_allowed a cls p ctx k)) = ac_flags ctx" for cls k
    using affinity_opsD(3) [OF assms, of cls]
    by (auto simp: class_set_cpus_allowed_def set_cpus_allowed_yat_casched_def set_cpus_allowed_common_def Let_def)
  then show ?thesis by (simp only: us_do_set_cpus_allowed_def Let_def split_beta fst_conv)
qed

lemma do_set_common:
  assumes "affinity_ops a" "task_class k p \<noteq> yat_casched_sched_class"
    and k': "k' = snd (us_do_set_cpus_allowed a p (mask_ctx m) k)"
  shows "machine_part k' = machine_part k" "t_cpus_mask (k_tasks k' p) = m" "task_cpu k' p = task_cpu k p"
    "t_on_cpu (k_tasks k' p) = t_on_cpu (k_tasks k p)" "t_state (k_tasks k' p) = t_state (k_tasks k p)"
    "t_on_rq (k_tasks k' p) = t_on_rq (k_tasks k p)" "t_cpus_ptr (k_tasks k' p) = t_cpus_ptr (k_tasks k p)"
    "t_migration_pending (k_tasks k' p) = t_migration_pending (k_tasks k p)"
    "t_migration_disabled (k_tasks k' p) = t_migration_disabled (k_tasks k p)"
    "t_flags (k_tasks k' p) = t_flags (k_tasks k p)"
proof -
  obtain k1 where k1: "public_tasks k1 = public_tasks k" "machine_part k1 = machine_part k"
      "public_tasks k' = public_tasks (snd (class_set_cpus_allowed a (task_class k p) p (mask_ctx m) k1))"
      "machine_part k' = machine_part (snd (class_set_cpus_allowed a (task_class k p) p (mask_ctx m) k1))"
    using do_set_handler [OF assms(1), of k p "mask_ctx m"] unfolding k' by blast
  define k2 where "k2 = upd_task p (\<lambda>t. t\<lparr>t_cpus_mask := m, t_nr_cpus_allowed := int (length (for_each_cpu k1 m))\<rparr>) k1"
  have k2: "snd (class_set_cpus_allowed a (task_class k p) p (mask_ctx m) k1) = k2"
    using assms(2) affinity_opsD(3) [OF assms(1), of "task_class k p"]
    by (simp add: class_set_cpus_allowed_def set_cpus_allowed_common_def ac_mask_def k2_def Let_def)
  note f = public_fields [OF k1(3) [unfolded k2], of p] public_fields [OF k1(1), of p]
  show "machine_part k' = machine_part k" using k1(2,4) unfolding k2 by (simp add: k2_def)
  show "t_cpus_mask (k_tasks k' p) = m" "task_cpu k' p = task_cpu k p"
    "t_on_cpu (k_tasks k' p) = t_on_cpu (k_tasks k p)" "t_state (k_tasks k' p) = t_state (k_tasks k p)"
    "t_on_rq (k_tasks k' p) = t_on_rq (k_tasks k p)" "t_cpus_ptr (k_tasks k' p) = t_cpus_ptr (k_tasks k p)"
    "t_migration_pending (k_tasks k' p) = t_migration_pending (k_tasks k p)"
    "t_migration_disabled (k_tasks k' p) = t_migration_disabled (k_tasks k p)"
    "t_flags (k_tasks k' p) = t_flags (k_tasks k p)"
    using f by (simp_all add: k2_def task_cpu_def)
qed

text \<open>A request that nothing forbids: the new mask has an active CPU the task can execute on.\<close>

definition mask_request_ok :: "kapi \<Rightarrow> kernel \<Rightarrow> tid \<Rightarrow> cpumask \<Rightarrow> bool" where
  "mask_request_ok a k p m \<longleftrightarrow>
     (let t = k_tasks k p
      in \<not> test_flag (t_flags t) PF_KTHREAD \<and> t_user_cpus_ptr t = None \<and> t_cpus_ptr t = None \<and>
         t_migration_disabled t = 0 \<and> t_cpus_mask t \<noteq> m \<and> for_each_cpu k (k_active k \<inter> m) \<noteq> [])"

lemma set_cpus_allowed_ptr_admitted:
  assumes ops: "affinity_ops a" and ok: "mask_request_ok a k p m"
    and possible: "\<And>k. m \<subseteq> ka_task_cpu_possible_mask a k p"
    and k1: "k1 = update_rq_clock a (task_cpu k p) k"
    and k2: "k2 = snd (us_do_set_cpus_allowed a p (mask_ctx m) k1)"
  shows "\<exists>dest. dest \<in> set (for_each_cpu k (k_active k \<inter> m)) \<and>
    set_cpus_allowed_ptr a env p m k = affine_move_task a env (task_cpu k p) p dest 0 k2"
proof -
  have 1: "public_tasks k1 = public_tasks k" "machine_part k1 = machine_part k"
    by (simp_all add: k1 pub.clock mach.clock)
  note f = public_fields [OF 1(1), of p] and g = machine_part_eqD [OF 1(2)]
  note t = ok [unfolded mask_request_ok_def Let_def]
  define dest where "dest = ka_cpumask_any_and_distribute a k1 (k_active k1) m"
  have cpus: "for_each_cpu k1 (k_active k1 \<inter> m) = for_each_cpu k (k_active k \<inter> m)"
    using g by (simp add: for_each_cpu_def)
  have d: "dest \<in> set (for_each_cpu k (k_active k \<inter> m))"
    using affinity_opsD(4) [OF ops, of k1 "k_active k1" m] t unfolding cpus dest_def by blast
  have nr: "\<not> k_nr_cpu_ids k1 \<le> dest" using d g by simp
  obtain ctx' where c: "us_do_set_cpus_allowed a p (mask_ctx m) k1 = (ctx', k2)" using k2 by (metis prod.collapse)
  have flags: "ac_flags ctx' = 0" using do_set_flags [OF ops, of p "mask_ctx m" k1] by (simp add: c)
  have "us_set_cpus_allowed_ptr_locked a env p (mask_ctx m) (task_cpu k p) k =
      map_option (\<lambda>(r, k). (r, ctx', k)) (affine_move_task a env (task_cpu k p) p dest 0 k2)"
    unfolding us_set_cpus_allowed_ptr_locked_def k1 [symmetric]
    using t f possible nr
    by (simp add: Let_def ac_mask_def is_migration_disabled_def dest_def [symmetric] c flags)
  then have "set_cpus_allowed_ptr a env p m k = affine_move_task a env (task_cpu k p) p dest 0 k2"
    using t by (simp add: set_cpus_allowed_ptr_def us_set_cpus_allowed_ptr_def Let_def option.map_comp comp_def
        split_beta option.map_ident)
  then show ?thesis using d by blast
qed

section \<open>A yat task\<close>

text \<open>
  C20: Changing the CPU mask of a yat task reports success and changes nothing: the class's handler
  is empty, so the mask stays as it was and the task is not moved, also when the new mask
  excludes the CPU it is on.
\<close>

theorem yat_affinity_ignored:
  assumes "affinity_ops a" "mask_request_ok a k p m" "\<forall>k. m \<subseteq> ka_task_cpu_possible_mask a k p"
    and "task_class k p = yat_casched_sched_class" "task_cpu k p \<in> t_cpus_mask (k_tasks k p)"
  shows "\<exists>k'. set_cpus_allowed_ptr a env p m k = Some (0, k') \<and>
    t_cpus_mask (k_tasks k' p) = t_cpus_mask (k_tasks k p) \<and> task_cpu k' p = task_cpu k p"
proof -
  define k1 where "k1 = update_rq_clock a (task_cpu k p) k"
  define k2 where "k2 = snd (us_do_set_cpus_allowed a p (mask_ctx m) k1)"
  have 1: "public_tasks k1 = public_tasks k" by (simp add: k1_def pub.clock)
  have "task_class k1 p = yat_casched_sched_class"
    using assms(4) public_fields(1) [OF 1] by (simp add: task_class_def)
  then have "public_tasks k2 = public_tasks k1"
    using do_set_handler [OF assms(1), of k1 p "mask_ctx m"]
    by (auto simp: k2_def class_set_cpus_allowed_def set_cpus_allowed_yat_casched_def)
  then have 2: "public_tasks k2 = public_tasks k" using 1 by simp
  obtain dest where d: "set_cpus_allowed_ptr a env p m k = affine_move_task a env (task_cpu k p) p dest 0 k2"
    using set_cpus_allowed_ptr_admitted [OF assms(1,2) _ k1_def k2_def] assms(3) by blast
  have "affine_move_task a env (task_cpu k p) p dest 0 k2 = Some (0, affine_done (task_cpu k p) p 0 k2)"
    using assms(5) public_fields(2,3) [OF 2, of p] by (simp add: affine_move_task_def task_cpu_def)
  moreover have "t_cpus_mask (k_tasks (affine_done c p 0 k2) p) = t_cpus_mask (k_tasks k2 p)"
    "task_cpu (affine_done c p 0 k2) p = task_cpu k2 p" for c
    by (simp_all add: affine_done_def complete_all_def upd_pending_def stop_one_cpu_nowait_def task_cpu_def Let_def
        split: option.split)
  ultimately show ?thesis using d public_fields(2,3) [OF 2, of p] by (simp add: task_cpu_def)
qed

text \<open>Task 10 as a sleeping yat task on CPU 0; it asks for CPU 2.\<close>

definition sample_affinity :: kapi where
  "sample_affinity = sample_kapi\<lparr>ka_set_cpus_allowed := \<lambda>cls. set_cpus_allowed_common\<rparr>"

lemma sample_affinity_ops: "affinity_ops sample_affinity"
proof -
  have "case_list (k_nr_cpu_ids k) (\<lambda>c cs. c) xs \<in> set xs" if "xs \<noteq> []" for k and xs :: "cpu list"
    using that by (cases xs) auto
  then show ?thesis
    by (simp add: affinity_ops_def class_ops_keep_def sample_affinity_def sample_kapi_def machine_part_upd_rq
        task_cpu_def del: set_for_each_cpu) blast
qed

definition sample_sleeper :: kernel where
  "sample_sleeper = upd_task 10 (\<lambda>t. t\<lparr>t_sched_class := yat_casched_sched_class, t_on_rq := 0\<rparr>) sample_kernel"

lemma sample_request:
  assumes "k_active k = {0, 1, 2, 3}" "k_nr_cpu_ids k = 4" "t_flags (k_tasks k 10) = 0"
    "t_user_cpus_ptr (k_tasks k 10) = None" "t_cpus_ptr (k_tasks k 10) = None"
    "t_migration_disabled (k_tasks k 10) = 0" "t_cpus_mask (k_tasks k 10) = {0, 1, 2, 3}"
  shows "mask_request_ok a k 10 {2}"
proof -
  have "2 \<in> set (for_each_cpu k (k_active k \<inter> {2}))" using assms(1,2) by simp
  then have "for_each_cpu k (k_active k \<inter> {2}) \<noteq> []" by (metis list.set(1) empty_iff)
  then show ?thesis using assms by (auto simp: mask_request_ok_def Let_def)
qed

theorem yat_affinity_ignored_witness:
  "\<exists>k'. set_cpus_allowed_ptr sample_affinity (\<lambda>k. k) 10 {2} sample_sleeper = Some (0, k') \<and>
    t_cpus_mask (k_tasks k' 10) = {0, 1, 2, 3} \<and> task_cpu k' 10 = 0"
proof -
  have t: "t_cpus_mask (k_tasks sample_sleeper 10) = {0, 1, 2, 3}" "task_cpu sample_sleeper 10 = 0"
    by (simp_all add: sample_sleeper_def task_cpu_def sample_task_def)
  have "mask_request_ok sample_affinity sample_sleeper 10 {2}"
    by (rule sample_request) (simp_all add: sample_sleeper_def sample_kernel_def sample_task_def)
  moreover have "task_class sample_sleeper 10 = yat_casched_sched_class"
    by (simp add: sample_sleeper_def task_class_def)
  moreover have "\<forall>k. {2} \<subseteq> ka_task_cpu_possible_mask sample_affinity k 10"
    by (simp add: sample_affinity_def sample_kapi_def)
  ultimately show ?thesis
    using yat_affinity_ignored [OF sample_affinity_ops, of sample_sleeper 10 "{2}" "\<lambda>k. k"] t by simp
qed

section \<open>Every other task\<close>

lemma upd_pending_views [simp]:
  "k_pendings (upd_pending n f k) = (k_pendings k)(n := f (k_pendings k n))"
  "k_tasks (upd_pending n f k) = k_tasks k" "k_rqs (upd_pending n f k) = k_rqs k"
  "k_stop_works (upd_pending n f k) = k_stop_works k" "k_this_cpu (upd_pending n f k) = k_this_cpu k"
  "k_active (upd_pending n f k) = k_active k"
  by (simp_all add: upd_pending_def)

text \<open>Whoever installed a request that is completed and has no other waiter returns at once.\<close>

lemma wait_for_pending_done:
  assumes "sap_done (k_pendings k n)" "sap_refs (k_pendings k n) = 1"
  shows "\<exists>k'. wait_for_pending env owner n k = Some (0, k') \<and> k_tasks k' = k_tasks k"
  using assms by (simp add: wait_for_pending_def wait_for_refs_def Let_def)

text \<open>
  The stopper thread of the task's CPU on a fresh request: it completes the request, and moves
  a queued task.
\<close>

lemma migration_cpu_stop_moves:
  assumes ops: "affinity_ops a" and here: "task_cpu k p = c" "k_this_cpu k = c"
    and p: "t_migration_disabled (k_tasks k p) = 0" "t_cpus_ptr (k_tasks k p) = None"
      "\<not> test_flag (t_flags (k_tasks k p)) PF_KTHREAD" "t_cpus_mask (k_tasks k p) = m" "c \<notin> m"
    and dest: "dest \<in> m" "dest \<in> k_active k" and possible: "\<And>k. m \<subseteq> ka_task_cpu_possible_mask a k p"
    and k': "k' = migration_cpu_stop a \<lparr>ma_task = p, ma_dest_cpu = dest, ma_pending = Some n\<rparr> k"
  shows "sap_done (k_pendings k' n)" "sap_refs (k_pendings k' n) = sap_refs (k_pendings k n)"
    "t_cpus_mask (k_tasks k' p) = m" "task_on_rq_queued (k_tasks k p) \<Longrightarrow> task_cpu k' p = dest"
proof -
  define k1 where "k1 = ka_flush_smp_call_function_queue a k"
  define k2 where "k2 = upd_task p (\<lambda>t. t\<lparr>t_migration_pending := None\<rparr>) k1"
  define k3 where "k3 = update_rq_clock a c k2"
  define k4 where "k4 = (if task_on_rq_queued (k_tasks k2 p) then us_migrate_task a c p dest k3
    else upd_task p (\<lambda>t. t\<lparr>t_wake_cpu := dest\<rparr>) k2)"
  have 1: "public_tasks k1 = public_tasks k" "machine_part k1 = machine_part k"
    using affinity_opsD(10,11) [OF ops] by (simp_all add: k1_def)
  note f1 = public_fields [OF 1(1), of p] and g1 = machine_part_eqD [OF 1(2)]
  have 3: "public_tasks k3 = public_tasks k2" "machine_part k3 = machine_part k2"
    by (simp_all add: k3_def pub.clock mach.clock)
  note f3 = public_fields [OF 3(1), of p] and g3 = machine_part_eqD [OF 3(2)]
  have "is_cpu_allowed a k3 p dest"
    using p dest possible f1 f3 g1 g3
    by (auto simp: is_cpu_allowed_def cpus_ptr_mask_def is_migration_disabled_def cpu_active_def k2_def Let_def)
  then have mv: "us_migrate_task a c p dest k3 = move_queued_task a c p dest k3" by (simp add: us_migrate_task_def)
  have "machine_part k4 = machine_part k2"
    using move_queued_task_views(1) [OF ops] 3 by (simp add: k4_def mv)
  then have m4: "k_pendings k4 = k_pendings k"
    using machine_part_eqD(13) [of k4 k2] g1(13) by (simp add: k2_def)
  have "k' = migration_stop_out (Some n) True k4"
    using here p(1,4,5) f1 g1
    by (simp add: k' migration_cpu_stop_def Let_def is_migration_disabled_def task_cpu_def k1_def [symmetric]
        k2_def [symmetric] k3_def [symmetric] k4_def)
      (simp add: k2_def)
  then have k': "k' = complete_all n (upd_pending n (\<lambda>s. s\<lparr>sap_stop_pending := False\<rparr>) k4)"
    by (simp add: migration_stop_out_def Let_def)
  show "sap_done (k_pendings k' n)" "sap_refs (k_pendings k' n) = sap_refs (k_pendings k n)"
    by (simp_all add: k' complete_all_def m4)
  show "t_cpus_mask (k_tasks k' p) = m"
    using move_queued_task_views(3) [OF ops, of c p dest k3] p(4) f1 f3
    by (simp add: k' complete_all_def k4_def mv) (simp add: k2_def)
  show "task_on_rq_queued (k_tasks k p) \<Longrightarrow> task_cpu k' p = dest"
    using move_queued_task_views(2) [OF ops, of c p dest k3] f1
    by (simp add: k' complete_all_def k4_def mv k2_def task_on_rq_queued_def task_cpu_def)
qed

lemma run_stopper_moves:
  assumes ops: "affinity_ops a" and work: "k_stop_works k = [(c, Migration_cpu_stop n)]"
    and req: "sap_task (k_pendings k n) = p" "sap_dest_cpu (k_pendings k n) = dest" and here: "task_cpu k p = c"
    and p: "t_migration_disabled (k_tasks k p) = 0" "t_cpus_ptr (k_tasks k p) = None"
      "\<not> test_flag (t_flags (k_tasks k p)) PF_KTHREAD" "t_cpus_mask (k_tasks k p) = m" "c \<notin> m"
    and dest: "dest \<in> m" "dest \<in> k_active k" and possible: "\<And>k. m \<subseteq> ka_task_cpu_possible_mask a k p"
  shows "\<exists>k'. run_stoppers a 1 k = k' \<and> sap_done (k_pendings k' n) \<and>
    sap_refs (k_pendings k' n) = sap_refs (k_pendings k n) \<and> t_cpus_mask (k_tasks k' p) = m \<and>
    (task_on_rq_queued (k_tasks k p) \<longrightarrow> task_cpu k' p = dest)"
proof -
  define k1 where "k1 = k\<lparr>k_stop_works := [], k_this_cpu := c\<rparr>"
  have r: "run_stoppers a 1 k = (migration_cpu_stop a \<lparr>ma_task = p, ma_dest_cpu = dest, ma_pending = Some n\<rparr> k1)
      \<lparr>k_this_cpu := k_this_cpu k\<rparr>"
    by (simp add: work run_stop_work_def Let_def req k1_def)
  have "task_cpu k1 p = c" "k_this_cpu k1 = c" using here by (simp_all add: k1_def task_cpu_def)
  note moves = migration_cpu_stop_moves [OF ops this, of m dest "migration_cpu_stop a
      \<lparr>ma_task = p, ma_dest_cpu = dest, ma_pending = Some n\<rparr> k1" n]
  show ?thesis unfolding r using moves p dest possible by (simp add: task_cpu_def k1_def)
qed

text \<open>The request as \<open>affine_move_task\<close> installs it.\<close>

lemma install_pending_fresh:
  assumes "t_migration_pending (k_tasks k p) = None" and k': "k' = install_pending p dest k"
  defines "n \<equiv> k_next_pending k"
  shows "k_pendings k' n = \<lparr>sap_refs = 1, sap_stop_pending = False, sap_done = False, sap_task = p,
      sap_dest_cpu = dest\<rparr>"
    "k_tasks k' = (k_tasks k)(p := (k_tasks k p)\<lparr>t_migration_pending := Some n\<rparr>)"
    "k_rqs k' = k_rqs k" "k_stop_works k' = k_stop_works k" "k_active k' = k_active k"
  using assms(1) by (simp_all add: k' install_pending_def Let_def n_def upd_pending_def)

lemma affine_move_running:
  assumes ops: "affinity_ops a" and new: "t_migration_pending (k_tasks k p) = None" "k_stop_works k = []"
    and here: "task_cpu k p = c" "rq_cpu (k_rqs k c) = c"
      "t_on_cpu (k_tasks k p) \<or> t_state (k_tasks k p) = TASK_WAKING"
    and p: "t_migration_disabled (k_tasks k p) = 0" "t_cpus_ptr (k_tasks k p) = None"
      "\<not> test_flag (t_flags (k_tasks k p)) PF_KTHREAD" "t_cpus_mask (k_tasks k p) = m" "c \<notin> m"
    and dest: "dest \<in> m" "dest \<in> k_active k" and possible: "\<And>k. m \<subseteq> ka_task_cpu_possible_mask a k p"
  shows "\<exists>k'. affine_move_task a (run_stoppers a 1) c p dest 0 k = Some (0, k') \<and>
    t_cpus_mask (k_tasks k' p) = m \<and> (task_on_rq_queued (k_tasks k p) \<longrightarrow> task_cpu k' p = dest)"
proof -
  define n where "n = k_next_pending k"
  define k1 where "k1 = install_pending p dest k"
  note i = install_pending_fresh [OF new(1) k1_def, folded n_def]
  define k2 where "k2 = stop_one_cpu_nowait c (Migration_cpu_stop n) (upd_pending n (\<lambda>s. s\<lparr>sap_stop_pending := True\<rparr>) k1)"
  have 2: "k_stop_works k2 = [(c, Migration_cpu_stop n)]" "k_tasks k2 = k_tasks k1" "k_active k2 = k_active k"
    "k_pendings k2 n = \<lparr>sap_refs = 1, sap_stop_pending = True, sap_done = False, sap_task = p, sap_dest_cpu = dest\<rparr>"
    using new(2) by (simp_all add: k2_def stop_one_cpu_nowait_def i)
  obtain k3 where k3: "run_stoppers a 1 k2 = k3" "sap_done (k_pendings k3 n)" "sap_refs (k_pendings k3 n) = 1"
      "t_cpus_mask (k_tasks k3 p) = m" "task_on_rq_queued (k_tasks k p) \<longrightarrow> task_cpu k3 p = dest"
    using run_stopper_moves [OF ops 2(1), of p dest m] here(1) p dest possible
    by (auto simp: 2 i task_cpu_def task_on_rq_queued_def)
  have "affine_move_task a (run_stoppers a 1) c p dest 0 k = wait_for_pending (run_stoppers a 1) True n k2"
    using here p(4,5) new(1)
    by (simp add: affine_move_task_def Let_def k1_def [symmetric] i k2_def)
  also have "\<dots> = wait_for_pending (run_stoppers a 1) True n k3"
    using k3(1,2) by (simp add: wait_for_pending_def 2(4) del: run_stoppers.simps)
  finally have w: "affine_move_task a (run_stoppers a 1) c p dest 0 k = wait_for_pending (run_stoppers a 1) True n k3" .
  obtain k' where "wait_for_pending (run_stoppers a 1) True n k3 = Some (0, k')" "k_tasks k' = k_tasks k3"
    using wait_for_pending_done [OF k3(2,3)] by blast
  then show ?thesis unfolding w using k3(4,5) by (intro exI [of _ k']) (simp add: task_cpu_def)
qed

lemma affine_move_waiting:
  assumes ops: "affinity_ops a" and new: "t_migration_pending (k_tasks k p) = None"
    and here: "task_cpu k p = c" "\<not> t_on_cpu (k_tasks k p)" "t_state (k_tasks k p) \<noteq> TASK_WAKING"
    and p: "t_migration_disabled (k_tasks k p) = 0" "t_cpus_mask (k_tasks k p) = m" "c \<notin> m"
  shows "\<exists>k'. affine_move_task a env c p dest 0 k = Some (0, k') \<and>
    t_cpus_mask (k_tasks k' p) = m \<and> (task_on_rq_queued (k_tasks k p) \<longrightarrow> task_cpu k' p = dest)"
proof -
  define n where "n = k_next_pending k"
  define k1 where "k1 = install_pending p dest k"
  note i = install_pending_fresh [OF new k1_def, folded n_def]
  define k2 where "k2 = (if task_on_rq_queued (k_tasks k p) then move_queued_task a c p dest k1 else k1)"
  define k3 where "k3 = complete_all n (upd_task p (\<lambda>t. t\<lparr>t_migration_pending := None\<rparr>) k2)"
  note mv = move_queued_task_views [OF ops, of c p dest k1]
  have 2: "k_pendings k2 = k_pendings k1" "t_cpus_mask (k_tasks k2 p) = m"
    "task_on_rq_queued (k_tasks k p) \<Longrightarrow> task_cpu k2 p = dest"
    using mv machine_part_eqD(13) [OF mv(1)] p(2) by (auto simp: k2_def i)
  have "affine_move_task a env c p dest 0 k = wait_for_pending env True n k3"
    using here p new 2(1)
    by (simp add: affine_move_task_def Let_def k1_def [symmetric] i is_migration_disabled_def
        task_on_rq_queued_def k2_def k3_def)
  moreover have "sap_done (k_pendings k3 n)" "sap_refs (k_pendings k3 n) = 1"
    by (simp_all add: k3_def complete_all_def 2(1) i)
  moreover have "t_cpus_mask (k_tasks k3 p) = m" "task_on_rq_queued (k_tasks k p) \<longrightarrow> task_cpu k3 p = dest"
    using 2(2,3) by (simp_all add: k3_def complete_all_def task_cpu_def)
  ultimately show ?thesis using wait_for_pending_done [of k3 n env True] by (auto simp: task_cpu_def)
qed


text \<open>Task 10 queued and running on CPU 0; it is sent to CPU 2.\<close>

definition sample_runner :: kernel where
  "sample_runner = upd_rq 0 (\<lambda>r. r\<lparr>rq_curr := 10\<rparr>)
     (upd_task 10 (\<lambda>t. t\<lparr>t_on_rq := TASK_ON_RQ_QUEUED, t_on_cpu := True\<rparr>) sample_kernel)"


end
