(* ===== verification/Pick.thy ===== *)
theory Pick
  imports Affinity
begin

text \<open>
  Picking the next task of a CPU (\<open>core.c\<close>, lines 5984 to 6440): class by class, or, with
  core scheduling, for all hardware threads of a core at once so that tasks of different
  cookies never share it.  Then the balancing that brings a matching task to a thread that
  was forced idle.  \<open>BUG()\<close> and a NULL result where the code expects none are recorded
  in \<open>k_undefined\<close>.
\<close>

section \<open>Class by class\<close>

text \<open>\<open>for_class_range(class, from, to)\<close>: from one class up to, not including, another.\<close>

definition class_range :: "sched_class \<Rightarrow> sched_class \<Rightarrow> sched_class list" where
  "class_range from_class to_class =
     takeWhile (\<lambda>cls. cls \<noteq> to_class) (dropWhile (\<lambda>cls. cls \<noteq> from_class) SCHED_DATA)"

fun balance_classes :: "kapi \<Rightarrow> sched_class list \<Rightarrow> cpu \<Rightarrow> tid \<Rightarrow> kernel \<Rightarrow> kernel" where
  "balance_classes a [] c prev k = k"
| "balance_classes a (cls # clss) c prev k =
     (let (found, k) = class_balance a cls c prev k
      in if found then k else balance_classes a clss c prev k)"

definition put_prev_task_balance :: "kapi \<Rightarrow> cpu \<Rightarrow> tid \<Rightarrow> kernel \<Rightarrow> kernel" where
  "put_prev_task_balance a c prev k =
     put_prev_task a c prev
       (balance_classes a (class_range (task_class k prev) idle_sched_class) c prev k)"

text \<open>The first task that a class of the list offers.\<close>

fun first_pick ::
  "(sched_class \<Rightarrow> kernel \<Rightarrow> tid option \<times> kernel) \<Rightarrow> sched_class list \<Rightarrow> kernel \<Rightarrow> tid option \<times> kernel" where
  "first_pick f [] k = (None, k)"
| "first_pick f (cls # clss) k =
     (case f cls k of (Some p, k) \<Rightarrow> (Some p, k) | (None, k) \<Rightarrow> first_pick f clss k)"

definition picked_or_bug :: "cpu \<Rightarrow> tid option \<times> kernel \<Rightarrow> tid \<times> kernel" where
  "picked_or_bug c pk =
     (case pk of (Some p, k) \<Rightarrow> (p, k) | (None, k) \<Rightarrow> (rq_idle (k_rqs k c), k\<lparr>k_undefined := True\<rparr>))"

definition clear_dl_server :: "tid \<Rightarrow> kernel \<Rightarrow> kernel" where
  "clear_dl_server p = upd_task p (\<lambda>t. t\<lparr>t_dl_server := False\<rparr>)"

definition pick_restart :: "kapi \<Rightarrow> cpu \<Rightarrow> tid \<Rightarrow> kernel \<Rightarrow> tid \<times> kernel" where
  "pick_restart a c prev k =
     (let k = put_prev_task_balance a c prev k;
          k = clear_dl_server prev k
      in picked_or_bug c (first_pick (\<lambda>cls. class_pick_next_task a cls c) SCHED_DATA k))"

definition us_pick_next_task :: "kapi \<Rightarrow> cpu \<Rightarrow> tid \<Rightarrow> kernel \<Rightarrow> tid \<times> kernel" where
  "us_pick_next_task a c prev k =
     (if \<not> sched_class_above (task_class k prev) fair_sched_class \<and>
         rq_nr_running (k_rqs k c) = rq_cfs_h_nr_running (k_rqs k c)
      then case ka_pick_next_task_fair a c prev k of
             (RETRY_TASK, k) \<Rightarrow> pick_restart a c prev k
           | (Fair_pick (Some p), k) \<Rightarrow> (p, clear_dl_server p k)
           | (Fair_pick None, k) \<Rightarrow>
               let k = put_prev_task a c prev k;
                   (p, k) = picked_or_bug c (ka_pick_next_task a idle_sched_class c k)
               in (p, clear_dl_server p k)
      else pick_restart a c prev k)"

section \<open>A whole core\<close>

definition is_task_rq_idle :: "kernel \<Rightarrow> tid \<Rightarrow> bool" where
  "is_task_rq_idle k p \<longleftrightarrow> rq_idle (k_rqs k (task_cpu k p)) = p"

definition cookie_equals :: "kernel \<Rightarrow> tid \<Rightarrow> u64 \<Rightarrow> bool" where
  "cookie_equals k p cookie \<longleftrightarrow> is_task_rq_idle k p \<or> t_core_cookie (k_tasks k p) = cookie"

definition cookie_match :: "kernel \<Rightarrow> tid \<Rightarrow> tid \<Rightarrow> bool" where
  "cookie_match k p q \<longleftrightarrow>
     is_task_rq_idle k p \<or> is_task_rq_idle k q \<or> t_core_cookie (k_tasks k p) = t_core_cookie (k_tasks k q)"

definition pick_task :: "kapi \<Rightarrow> cpu \<Rightarrow> kernel \<Rightarrow> tid \<times> kernel" where
  "pick_task a c k = picked_or_bug c (first_pick (\<lambda>cls. class_pick_task a cls c) SCHED_DATA k)"

text \<open>\<open>for_each_cpu_wrap(i, mask, start)\<close>: all CPUs of the mask, from \<open>start\<close> on, around.\<close>

definition for_each_cpu_wrap :: "kernel \<Rightarrow> cpumask \<Rightarrow> cpu \<Rightarrow> cpu list" where
  "for_each_cpu_wrap k m start =
     filter (\<lambda>c. start \<le> c) (for_each_cpu k m) @ filter (\<lambda>c. c < start) (for_each_cpu k m)"

definition set_core_pick :: "cpu \<Rightarrow> tid option \<Rightarrow> kernel \<Rightarrow> kernel" where
  "set_core_pick c p = upd_rq c (\<lambda>r. r\<lparr>rq_core_pick := p\<rparr>)"

text \<open>The first loop: the regular pick of each thread, and the highest of them.\<close>

definition core_max_step ::
  "kapi \<Rightarrow> cpu \<Rightarrow> cpu \<Rightarrow> bool \<Rightarrow> bool \<Rightarrow> cpu \<Rightarrow> tid option \<times> kernel \<Rightarrow> tid option \<times> kernel" where
  "core_max_step a c core updated fi_before i s =
     (let (mx, k) = s;
          k = (if i \<noteq> c \<and> (i \<noteq> core \<or> \<not> updated) then update_rq_clock a i k else k);
          (p, k) = pick_task a i k;
          k = set_core_pick i (Some p) k
      in (case mx of None \<Rightarrow> Some p
          | Some m \<Rightarrow> if prio_less a m p fi_before k then Some p else Some m, k))"

definition core_max_loop ::
  "kapi \<Rightarrow> cpu \<Rightarrow> cpu \<Rightarrow> bool \<Rightarrow> bool \<Rightarrow> cpu list \<Rightarrow> tid option \<times> kernel \<Rightarrow> tid option \<times> kernel" where
  "core_max_loop a c core updated fi_before = fold (core_max_step a c core updated fi_before)"

text \<open>The second loop: a task of the cookie for each thread, or forced idleness.\<close>

definition core_fit :: "kapi \<Rightarrow> u64 \<Rightarrow> cpu \<Rightarrow> kernel \<Rightarrow> tid \<times> kernel" where
  "core_fit a cookie i k =
     (case rq_core_pick (k_rqs k i) of
        None \<Rightarrow> (rq_idle (k_rqs k i), k\<lparr>k_undefined := True\<rparr>)
      | Some p \<Rightarrow>
          if cookie_equals k p cookie then (p, k)
          else case (if cookie \<noteq> 0 then sched_core_find a i cookie k else None) of
                 Some q \<Rightarrow> (q, k)
               | None \<Rightarrow> picked_or_bug i (class_pick_task a idle_sched_class i k))"

definition core_force_idle :: "cpu \<Rightarrow> bool \<Rightarrow> kernel \<Rightarrow> kernel" where
  "core_force_idle core fi_before =
     upd_rq core (\<lambda>r. r\<lparr>rq_core_forceidle_count := rq_core_forceidle_count r + 1,
                          rq_core_forceidle_seq := (if fi_before then rq_core_forceidle_seq r
                                                    else rq_core_forceidle_seq r + 1)\<rparr>)"

definition core_fit_step ::
  "kapi \<Rightarrow> cpu \<Rightarrow> bool \<Rightarrow> u64 \<Rightarrow> cpu \<Rightarrow> u32 \<times> kernel \<Rightarrow> u32 \<times> kernel" where
  "core_fit_step a core fi_before cookie i s =
     (let (occ, k) = s;
          (p, k) = core_fit a cookie i k;
          k = set_core_pick i (Some p) k
      in if p = rq_idle (k_rqs k i)
         then (occ, if rq_nr_running (k_rqs k i) \<noteq> 0 then core_force_idle core fi_before k else k)
         else (occ + 1, k))"

definition core_fit_loop ::
  "kapi \<Rightarrow> cpu \<Rightarrow> bool \<Rightarrow> u64 \<Rightarrow> cpu list \<Rightarrow> u32 \<times> kernel \<Rightarrow> u32 \<times> kernel" where
  "core_fit_loop a core fi_before cookie = fold (core_fit_step a core fi_before cookie)"

text \<open>The third loop: the other threads are told to switch to their picks.\<close>

definition core_resched_step ::
  "kapi \<Rightarrow> cpu \<Rightarrow> cpu \<Rightarrow> bool \<Rightarrow> u32 \<Rightarrow> cpu \<Rightarrow> kernel \<Rightarrow> kernel" where
  "core_resched_step a c core fi_before occ i k =
     (case rq_core_pick (k_rqs k i) of
        None \<Rightarrow> k
      | Some p \<Rightarrow>
          let fi = (rq_core_forceidle_count (k_rqs k core) \<noteq> 0);
              k = (if \<not> (fi_before \<and> fi) then ka_task_vruntime_update a i p fi k else k);
              k = upd_task p (\<lambda>t. t\<lparr>t_core_occupation := occ\<rparr>) k
          in if i = c \<or> rq_curr (k_rqs k i) = p then set_core_pick i None k else resched_curr i k)"

definition core_resched_loop ::
  "kapi \<Rightarrow> cpu \<Rightarrow> cpu \<Rightarrow> bool \<Rightarrow> u32 \<Rightarrow> cpu list \<Rightarrow> kernel \<Rightarrow> kernel" where
  "core_resched_loop a c core fi_before occ = fold (core_resched_step a c core fi_before occ)"

definition queue_core_balance :: "kapi \<Rightarrow> cpu \<Rightarrow> kernel \<Rightarrow> kernel" where
  "queue_core_balance a c k =
     (if \<not> rq_sched_core_enabled k c then k
      else if rq_core_cookie (k_rqs k (rq_core (k_rqs k c))) = 0 then k
      else if rq_nr_running (k_rqs k c) = 0 then k
      else ka_queue_balance_callback a c CB_sched_core_balance k)"

text \<open>The end of \<open>pick_next_task\<close>, at its label \<open>out\<close>.\<close>

definition core_pick_out :: "kapi \<Rightarrow> cpu \<Rightarrow> tid \<Rightarrow> kernel \<Rightarrow> tid \<times> kernel" where
  "core_pick_out a c nxt k =
     (nxt, if rq_core_forceidle_count (k_rqs k (rq_core (k_rqs k c))) \<noteq> 0 \<and> nxt = rq_idle (k_rqs k c)
           then queue_core_balance a c k else k)"

text \<open>
  The state that a selection starts from: whether the core's clock was updated, whether
  the threads must be synchronised, whether one was forced idle before.
\<close>

definition core_reset :: "kapi \<Rightarrow> cpu \<Rightarrow> kernel \<Rightarrow> bool \<times> bool \<times> bool \<times> kernel" where
  "core_reset a c k =
     (let core = rq_core (k_rqs k c);
          need_sync = (rq_core_cookie (k_rqs k core) \<noteq> 0);
          k = upd_rq core (\<lambda>r. r\<lparr>rq_core_cookie := 0\<rparr>) k;
          fi_before = (rq_core_forceidle_count (k_rqs k core) \<noteq> 0);
          k = (if fi_before
               then let k = (if c \<noteq> core then update_rq_clock a core k else k);
                        k = ka_sched_core_account_forceidle a c k
                    in upd_rq core (\<lambda>r. r\<lparr>rq_core_forceidle_start := 0, rq_core_forceidle_count := 0,
                                         rq_core_forceidle_occupation := 0\<rparr>) k
               else k);
          k = upd_rq core (\<lambda>r. r\<lparr>rq_core_task_seq := rq_core_task_seq r + 1\<rparr>) k
      in (c = core \<or> fi_before, need_sync \<or> fi_before, fi_before, k))"

text \<open>The selection for all threads.\<close>

definition core_select :: "kapi \<Rightarrow> cpu \<Rightarrow> bool \<Rightarrow> bool \<Rightarrow> kernel \<Rightarrow> tid \<times> kernel" where
  "core_select a c updated fi_before k =
     (let core = rq_core (k_rqs k c);
          smt_mask = ka_cpu_smt_mask a c;
          (mx, k) = core_max_loop a c core updated fi_before (for_each_cpu_wrap k smt_mask c) (None, k);
          cookie = (case mx of Some m \<Rightarrow> t_core_cookie (k_tasks k m) | None \<Rightarrow> 0);
          k = upd_rq core (\<lambda>r. r\<lparr>rq_core_cookie := cookie\<rparr>) k;
          (occ, k) = core_fit_loop a core fi_before cookie (for_each_cpu k smt_mask) (0, k);
          k = (if k_schedstat_enabled k \<and> rq_core_forceidle_count (k_rqs k core) \<noteq> 0
               then upd_rq core (\<lambda>r. r\<lparr>rq_core_forceidle_start := rq_clock r,
                                      rq_core_forceidle_occupation := occ\<rparr>) k
               else k);
          k = upd_rq core (\<lambda>r. r\<lparr>rq_core_pick_seq := rq_core_task_seq r\<rparr>) k;
          nxt = (case rq_core_pick (k_rqs k c) of Some p \<Rightarrow> p | None \<Rightarrow> rq_idle (k_rqs k c));
          k = upd_rq c (\<lambda>r. r\<lparr>rq_core_sched_seq := rq_core_pick_seq (k_rqs k core)\<rparr>) k
      in (nxt, core_resched_loop a c core fi_before occ (for_each_cpu k smt_mask) k))"

definition pick_next_task :: "kapi \<Rightarrow> cpu \<Rightarrow> tid \<Rightarrow> kernel \<Rightarrow> tid \<times> kernel" where
  "pick_next_task a c prev k =
     (if \<not> rq_sched_core_enabled k c then us_pick_next_task a c prev k
      else if \<not> cpu_online k c then us_pick_next_task a c prev (set_core_pick c None k)
      else let core = rq_core (k_rqs k c); cr = k_rqs k core; r = k_rqs k c
           in if rq_core_pick_seq cr = rq_core_task_seq cr \<and> rq_core_pick_seq cr \<noteq> rq_core_sched_seq r \<and>
                 rq_core_pick r \<noteq> None
              then let k = upd_rq c (\<lambda>r. r\<lparr>rq_core_sched_seq := rq_core_pick_seq cr\<rparr>) k;
                       nxt = the (rq_core_pick r);
                       k = (if nxt \<noteq> prev then set_next_task a c nxt (put_prev_task a c prev k) else k)
                   in core_pick_out a c nxt (set_core_pick c None k)
              else let k = put_prev_task_balance a c prev k;
                       (updated, need_sync, fi_before, k) = core_reset a c k;
                       (single, k) = (if need_sync then (None, k)
                                      else let (p, k) = pick_task a c k
                                           in (if t_core_cookie (k_tasks k p) = 0 then Some p else None, k));
                       (nxt, k) = (case single of
                          Some p \<Rightarrow> (p, ka_task_vruntime_update a c p False (set_core_pick c None k))
                        | None \<Rightarrow> core_select a c updated fi_before k)
                   in core_pick_out a c nxt (set_next_task a c nxt k))"

section \<open>Stealing a matching task\<close>

text \<open>
  The loop over the tasks of the cookie in the source's tree; the tree does not change
  before a task is taken, so its length bounds the number of rounds.
\<close>

fun steal_loop :: "kapi \<Rightarrow> nat \<Rightarrow> cpu \<Rightarrow> cpu \<Rightarrow> u64 \<Rightarrow> tid \<Rightarrow> kernel \<Rightarrow> bool \<times> kernel" where
  "steal_loop a 0 this that cookie p k = (False, k)"
| "steal_loop a (Suc n) this that cookie p k =
     (let src = k_rqs k that; dst = k_rqs k this
      in if rq_core_pick src = Some p \<or> rq_curr src = p \<or> \<not> is_cpu_allowed a k p this \<or>
            t_core_occupation (k_tasks k (rq_idle dst)) < t_core_occupation (k_tasks k p) \<or>
            sched_task_is_throttled a p this k
         then case sched_core_next a p cookie k of
                None \<Rightarrow> (False, k) | Some q \<Rightarrow> steal_loop a n this that cookie q k
         else let k = deactivate_task a that p 0 k;
                  k = set_task_cpu a p this k;
                  k = activate_task a this p 0 k
              in (True, resched_curr this k))"

definition try_steal_cookie :: "kapi \<Rightarrow> cpu \<Rightarrow> cpu \<Rightarrow> kernel \<Rightarrow> bool \<times> kernel" where
  "try_steal_cookie a this that k =
     (let dst = k_rqs k this; cookie = rq_core_cookie (k_rqs k (rq_core dst))
      in if cookie = 0 then (False, k)
         else if rq_curr dst \<noteq> rq_idle dst then (False, k)
         else case sched_core_find a that cookie k of
                None \<Rightarrow> (False, k)
              | Some p \<Rightarrow> steal_loop a (length (rq_core_tree (k_rqs k that))) this that cookie p k)"

definition need_resched_current :: "kernel \<Rightarrow> bool" where
  "need_resched_current k \<longleftrightarrow> test_tsk_need_resched (k_tasks k (k_current k))"

fun steal_from :: "kapi \<Rightarrow> cpu \<Rightarrow> cpu list \<Rightarrow> kernel \<Rightarrow> bool \<times> kernel" where
  "steal_from a c [] k = (False, k)"
| "steal_from a c (i # is) k =
     (if i = c then steal_from a c is k
      else if need_resched_current k then (False, k)
      else let (stolen, k) = try_steal_cookie a c i k
           in if stolen then (True, k) else steal_from a c is k)"

definition steal_cookie_task :: "kapi \<Rightarrow> cpu \<Rightarrow> sched_domain \<Rightarrow> kernel \<Rightarrow> bool \<times> kernel" where
  "steal_cookie_task a c sd k = steal_from a c (for_each_cpu_wrap k (sd_span sd) (c + 1)) k"

fun core_balance_domains :: "kapi \<Rightarrow> cpu \<Rightarrow> sched_domain list \<Rightarrow> kernel \<Rightarrow> kernel" where
  "core_balance_domains a c [] k = k"
| "core_balance_domains a c (sd # sds) k =
     (if need_resched_current k then k
      else let (stolen, k) = steal_cookie_task a c sd k
           in if stolen then k else core_balance_domains a c sds k)"

definition sched_core_balance :: "kapi \<Rightarrow> cpu \<Rightarrow> kernel \<Rightarrow> kernel" where
  "sched_core_balance a c k =
     (let cpu = rq_cpu (k_rqs k c) in core_balance_domains a cpu (rq_domains (k_rqs k cpu)) k)"

end
