(* ===== verification/Pick_Correct.thy ===== *)
theory Pick_Correct
  imports Pick Load_Frame Core_Sched_Correct Yat_Lemmas Sample_Kapi
begin

text \<open>
  What picking guarantees: with core scheduling all threads of a core switch to tasks of one
  cookie; and what it does not: the fast path for the fair class passes over the yat class.
\<close>

section \<open>The fast path\<close>

text \<open>
  What the fast path relies on from the other classes: the fair class finds nothing where it
  has no task, without changing the state; the idle class offers the idle task of the CPU.
\<close>

definition nothing_but_idle :: "kapi \<Rightarrow> bool" where
  "nothing_but_idle a \<longleftrightarrow>
     (\<forall>c prev k. rq_cfs_h_nr_running (k_rqs k c) = 0 \<longrightarrow> ka_pick_next_task_fair a c prev k = (Fair_pick None, k)) \<and>
     (\<forall>c k. ka_pick_next_task a idle_sched_class c k = (Some (rq_idle (k_rqs k c)), k)) \<and>
     (\<forall>c p k. ka_put_prev_task a idle_sched_class c p k = k)"

lemma sched_core_enqueue_yat [simp]: "yat_rq (sched_core_enqueue a c p k) d = yat_rq k d"
  by (simp add: sched_core_enqueue_def yat_rq_def Let_def)

lemma enqueue_task_yat:
  assumes "task_class k p = yat_casched_sched_class"
  shows "load_view (enqueue_task a c p f k) = load_view k"
    "public_tasks (enqueue_task a c p f k) = public_tasks k"
    "machine_part (enqueue_task a c p f k) = machine_part k"
    "p \<in> set (yrq_tasks (yat_rq (enqueue_task a c p f k) c))"
proof -
  define k1 where "k1 = (if \<not> test_flag f ENQUEUE_NOCLOCK then update_rq_clock a c k else k)"
  define k2 where "k2 = uclamp_rq_inc a c p k1"
  define k3 where "k3 = enqueue_task_yat_casched c p f k2"
  have pub: "public_tasks k2 = public_tasks k" by (simp add: k2_def k1_def pub.uclamp_inc pub.clock)
  have "task_class k2 p = yat_casched_sched_class"
    using assms public_fields(1) [OF pub] by (simp add: task_class_def)
  then have e: "enqueue_task a c p f k = (if rq_sched_core_enabled k3 c then sched_core_enqueue a c p k3 else k3)"
    by (simp add: enqueue_task_def class_enqueue_task_def Let_def k3_def k2_def k1_def)
  show "load_view (enqueue_task a c p f k) = load_view k"
    by (simp add: e k3_def k2_def k1_def load.core_enqueue load.yat_enqueue load.uclamp_inc load.clock)
  show "public_tasks (enqueue_task a c p f k) = public_tasks k"
    by (simp add: e k3_def pub pub.core_enqueue pub.yat_enqueue)
  show "machine_part (enqueue_task a c p f k) = machine_part k"
    by (simp add: e k3_def k2_def k1_def mach.core_enqueue mach.yat_enqueue mach.uclamp_inc mach.clock)
  show "p \<in> set (yrq_tasks (yat_rq (enqueue_task a c p f k) c))"
    by (simp add: e k3_def)
qed


text \<open>Task 10 as a yat task, put on the queue of CPU 1.\<close>

definition sample_yat :: kernel where
  "sample_yat = upd_task 10 (\<lambda>t. t\<lparr>t_sched_class := yat_casched_sched_class\<rparr>) sample_kernel"


section \<open>One cookie for a whole core\<close>

text \<open>What a selection must not disturb: cookies, CPUs of tasks, the idle tasks, the cores.\<close>

definition core_view :: "kernel \<Rightarrow> (tid \<Rightarrow> u64 \<times> cpu) \<times> (cpu \<Rightarrow> tid \<times> cpu \<times> tid) \<times> int" where
  "core_view k = (\<lambda>p. (t_core_cookie (k_tasks k p), task_cpu k p),
     \<lambda>c. (rq_idle (k_rqs k c), rq_core (k_rqs k c), rq_curr (k_rqs k c)), k_nr_cpu_ids k)"

definition picks_view :: "kernel \<Rightarrow> cpu \<Rightarrow> tid option \<times> u64" where
  "picks_view k c = (rq_core_pick (k_rqs k c), rq_core_cookie (k_rqs k c))"

definition pick_ops_keep :: "kapi \<Rightarrow> bool" where
  "pick_ops_keep a \<longleftrightarrow>
     (\<forall>cls c k. core_view (snd (ka_pick_task a cls c k)) = core_view k \<and>
        picks_view (snd (ka_pick_task a cls c k)) = picks_view k) \<and>
     (\<forall>c k. fst (ka_pick_task a idle_sched_class c k) = Some (rq_idle (k_rqs k c))) \<and>
     (\<forall>c p fi k. core_view (ka_task_vruntime_update a c p fi k) = core_view k \<and>
        picks_view (ka_task_vruntime_update a c p fi k) = picks_view k)"

lemma core_viewD:
  assumes "core_view k = core_view k'"
  shows "t_core_cookie (k_tasks k p) = t_core_cookie (k_tasks k' p)" "task_cpu k p = task_cpu k' p"
    "rq_idle (k_rqs k c) = rq_idle (k_rqs k' c)" "rq_core (k_rqs k c) = rq_core (k_rqs k' c)"
    "rq_curr (k_rqs k c) = rq_curr (k_rqs k' c)" "k_nr_cpu_ids k = k_nr_cpu_ids k'"
  using assms by (auto simp: core_view_def dest: fun_cong [where x = p] fun_cong [where x = c])

lemma picks_viewD:
  assumes "picks_view k = picks_view k'"
  shows "rq_core_pick (k_rqs k c) = rq_core_pick (k_rqs k' c)"
    "rq_core_cookie (k_rqs k c) = rq_core_cookie (k_rqs k' c)"
  using fun_cong [OF assms, of c] by (simp_all add: picks_view_def)

lemma cookie_equals_cong: "core_view k = core_view k' \<Longrightarrow> cookie_equals k p w = cookie_equals k' p w"
  using core_viewD [of k k'] by (simp add: cookie_equals_def is_task_rq_idle_def)

lemma core_view_upd_rq:
  assumes "\<And>r. rq_idle (h r) = rq_idle r" "\<And>r. rq_core (h r) = rq_core r" "\<And>r. rq_curr (h r) = rq_curr r"
  shows "core_view (upd_rq c h k) = core_view k"
  using assms by (simp add: core_view_def task_cpu_def fun_eq_iff)

lemma picks_view_upd_rq:
  assumes "\<And>r. rq_core_pick (h r) = rq_core_pick r" "\<And>r. rq_core_cookie (h r) = rq_core_cookie r"
  shows "picks_view (upd_rq c h k) = picks_view k"
  using assms by (simp add: picks_view_def fun_eq_iff)

lemma core_view_upd_task:
  assumes "\<And>t. t_core_cookie (f t) = t_core_cookie t" "\<And>t. t_ti_cpu (f t) = t_ti_cpu t"
  shows "core_view (upd_task p f k) = core_view k"
  using assms by (simp add: core_view_def task_cpu_def fun_eq_iff)

lemma picks_view_upd_task [simp]: "picks_view (upd_task p f k) = picks_view k"
  by (simp add: picks_view_def fun_eq_iff)

lemma views_fields [simp]:
  "core_view (k\<lparr>k_undefined := b\<rparr>) = core_view k" "picks_view (k\<lparr>k_undefined := b\<rparr>) = picks_view k"
  "core_view (k\<lparr>k_ipis := l\<rparr>) = core_view k" "picks_view (k\<lparr>k_ipis := l\<rparr>) = picks_view k"
  "core_view (k\<lparr>k_preempt_need_resched := b\<rparr>) = core_view k"
  "picks_view (k\<lparr>k_preempt_need_resched := b\<rparr>) = picks_view k"
  by (simp_all add: core_view_def picks_view_def task_cpu_def fun_eq_iff)

lemma views_clock [simp]:
  "core_view (update_rq_clock a c k) = core_view k" "picks_view (update_rq_clock a c k) = picks_view k"
  by (simp_all add: update_rq_clock_def update_rq_clock_task_def Let_def core_view_upd_rq picks_view_upd_rq)

lemma views_resched [simp]:
  "core_view (resched_curr c k) = core_view k" "picks_view (resched_curr c k) = picks_view k"
  by (simp_all add: resched_curr_def set_tsk_need_resched_def set_nr_and_not_polling_def
      smp_send_reschedule_def core_view_upd_task Let_def)

lemma views_pick_task:
  assumes "pick_ops_keep a"
  shows "core_view (snd (class_pick_task a cls c k)) = core_view k"
    "picks_view (snd (class_pick_task a cls c k)) = picks_view k"
  using assms
  by (auto simp: class_pick_task_def pick_task_yat_casched_def pick_next_task_yat_casched_def pick_ops_keep_def
      upd_yat_se_def upd_yat_rq_def core_view_upd_task core_view_upd_rq picks_view_upd_rq Let_def split: list.split)

lemma views_first_pick:
  assumes "pick_ops_keep a"
  shows "core_view (snd (first_pick (\<lambda>cls. class_pick_task a cls c) clss k)) = core_view k \<and>
    picks_view (snd (first_pick (\<lambda>cls. class_pick_task a cls c) clss k)) = picks_view k"
proof (induction clss arbitrary: k)
  case (Cons cls clss)
  obtain r k1 where r: "class_pick_task a cls c k = (r, k1)" by fastforce
  then show ?case
    using views_pick_task [OF assms, of cls c k] Cons [of k1] by (simp split: option.split)
qed simp

lemma views_picked [simp]:
  "core_view (snd (picked_or_bug c pk)) = core_view (snd pk)"
  "picks_view (snd (picked_or_bug c pk)) = picks_view (snd pk)"
  by (simp_all add: picked_or_bug_def split: prod.split option.split)

lemma views_pick_any:
  assumes "pick_ops_keep a"
  shows "core_view (snd (pick_task a c k)) = core_view k" "picks_view (snd (pick_task a c k)) = picks_view k"
  using views_first_pick [OF assms] by (simp_all add: pick_task_def)

lemma core_view_max_loop:
  assumes "pick_ops_keep a"
  shows "core_view (snd (core_max_loop a c core updated fi_before cs s)) = core_view (snd s)"
  unfolding core_max_loop_def
proof (rule fold_invariant [where P = "\<lambda>s'. core_view (snd s') = core_view (snd s)"])
  fix i and s' :: "tid option \<times> kernel"
  assume "core_view (snd s') = core_view (snd s)"
  then show "core_view (snd (core_max_step a c core updated fi_before i s')) = core_view (snd s)"
    using views_pick_any(1) [OF assms]
    by (simp add: core_max_step_def set_core_pick_def core_view_upd_rq Let_def split_beta)
qed simp

text \<open>A thread's pick after the second loop: present, and of the core's cookie.\<close>

definition fits :: "u64 \<Rightarrow> cpu \<Rightarrow> kernel \<Rightarrow> bool" where
  "fits cookie i k \<longleftrightarrow>
     (case rq_core_pick (k_rqs k i) of None \<Rightarrow> False | Some p \<Rightarrow> cookie_equals k p cookie)"

lemma sched_core_find_cookie:
  assumes "sched_core_find a c cookie k = Some p"
  shows "t_core_cookie (k_tasks k p) = cookie"
  using assms
  by (auto simp: sched_core_find_def sched_core_next_def rb_sched_core_cmp_def Let_def
      dest!: find_SomeD core_next_loop_Some split: option.splits if_splits)

lemma core_fit_correct:
  assumes "pick_ops_keep a" "task_cpu k (rq_idle (k_rqs k i)) = i" "core_fit a cookie i k = (p, k')"
  shows "cookie_equals k p cookie \<and> core_view k' = core_view k \<and> picks_view k' = picks_view k"
proof -
  have idle: "cookie_equals k (rq_idle (k_rqs k i)) cookie"
    using assms(2) by (simp add: cookie_equals_def is_task_rq_idle_def)
  have pick: "fst (picked_or_bug i (class_pick_task a idle_sched_class i k)) = rq_idle (k_rqs k i)"
  proof -
    have "fst (class_pick_task a idle_sched_class i k) = Some (rq_idle (k_rqs k i))"
      using assms(1) by (simp add: class_pick_task_def pick_ops_keep_def)
    then show ?thesis
      by (cases "class_pick_task a idle_sched_class i k") (simp add: picked_or_bug_def)
  qed
  have found: "cookie_equals k q cookie" if "sched_core_find a i cookie k = Some q" for q
    using sched_core_find_cookie [OF that] by (simp add: cookie_equals_def)
  obtain q k1 where q: "picked_or_bug i (class_pick_task a idle_sched_class i k) = (q, k1)" by fastforce
  have v1: "core_view k1 = core_view k \<and> picks_view k1 = picks_view k"
    using views_pick_task [OF assms(1), of idle_sched_class i k]
      views_picked [of i "class_pick_task a idle_sched_class i k"] unfolding q by simp
  show ?thesis
    using assms(3) idle found pick v1 unfolding core_fit_def q
    by (auto split: option.splits if_splits)
qed

lemma core_fit_step_correct:
  assumes "pick_ops_keep a" "task_cpu k (rq_idle (k_rqs k i)) = i"
    and "core_fit_step a core fi_before cookie i (occ, k) = (occ', k')"
  shows "core_view k' = core_view k" "fits cookie i k'"
    "j \<noteq> i \<Longrightarrow> rq_core_pick (k_rqs k' j) = rq_core_pick (k_rqs k j)"
    "rq_core_cookie (k_rqs k' j) = rq_core_cookie (k_rqs k j)"
proof -
  obtain p k1 where f: "core_fit a cookie i k = (p, k1)" by fastforce
  note fit = core_fit_correct [OF assms(1,2) f]
  define k2 where "k2 = set_core_pick i (Some p) k1"
  have k': "k' = k2 \<or> k' = core_force_idle core fi_before k2"
    using assms(3) by (auto simp: core_fit_step_def f k2_def Let_def split: if_splits)
  have c2: "core_view k2 = core_view k" using fit by (simp add: k2_def set_core_pick_def core_view_upd_rq)
  have force: "core_view (core_force_idle core fi_before k2) = core_view k2"
    "picks_view (core_force_idle core fi_before k2) = picks_view k2"
    by (simp_all add: core_force_idle_def core_view_upd_rq picks_view_upd_rq)
  then have p': "picks_view k' = picks_view k2" "core_view k' = core_view k2" using k' by auto
  show c: "core_view k' = core_view k" using p'(2) c2 by simp
  show "fits cookie i k'"
    using fit cookie_equals_cong [OF c] picks_viewD(1) [OF p'(1), of i]
    by (simp add: fits_def k2_def set_core_pick_def)
  show "j \<noteq> i \<Longrightarrow> rq_core_pick (k_rqs k' j) = rq_core_pick (k_rqs k j)"
    "rq_core_cookie (k_rqs k' j) = rq_core_cookie (k_rqs k j)"
    using picks_viewD [OF p'(1), of j] fit picks_viewD [of k1 k j] by (auto simp: k2_def set_core_pick_def)
qed

lemma core_fit_loop_correct:
  assumes "pick_ops_keep a"
  shows "core_fit_loop a core fi_before cookie cs (occ, k) = (occ', k') \<Longrightarrow>
    \<forall>i \<in> set cs. task_cpu k (rq_idle (k_rqs k i)) = i \<Longrightarrow>
    core_view k' = core_view k \<and> (\<forall>i. i \<in> set cs \<or> fits cookie i k \<longrightarrow> fits cookie i k') \<and>
    (\<forall>j. rq_core_cookie (k_rqs k' j) = rq_core_cookie (k_rqs k j))"
  unfolding core_fit_loop_def
proof (induction cs arbitrary: occ k)
  case (Cons i cs)
  obtain occ1 k1 where s: "core_fit_step a core fi_before cookie i (occ, k) = (occ1, k1)" by fastforce
  have home: "task_cpu k (rq_idle (k_rqs k i)) = i" using Cons.prems(2) by simp
  note step = core_fit_step_correct [OF assms home s]
  have keep: "fits cookie j k1" if "fits cookie j k" for j
    using that step(2) step(3) [of j] cookie_equals_cong [OF step(1)]
    by (cases "j = i") (auto simp: fits_def split: option.splits)
  have "core_view k' = core_view k1 \<and> (\<forall>j. j \<in> set cs \<or> fits cookie j k1 \<longrightarrow> fits cookie j k') \<and>
      (\<forall>j. rq_core_cookie (k_rqs k' j) = rq_core_cookie (k_rqs k1 j))"
    by (rule Cons.IH) (use Cons.prems core_viewD [OF step(1)] in \<open>auto simp: s\<close>)
  then show ?case using step keep by (simp add: step(4))
qed simp

text \<open>What a thread is going to run once it has switched, or runs already.\<close>

definition core_choice :: "cpu \<Rightarrow> tid \<Rightarrow> kernel \<Rightarrow> cpu \<Rightarrow> tid" where
  "core_choice c nxt k i =
     (case rq_core_pick (k_rqs k i) of Some p \<Rightarrow> p | None \<Rightarrow> if i = c then nxt else rq_curr (k_rqs k i))"

lemma core_resched_step_correct:
  assumes "pick_ops_keep a" "rq_core_pick (k_rqs k i) = Some p" "i = c \<Longrightarrow> p = nxt"
    and k': "k' = core_resched_step a c core fi_before occ i k"
  shows "core_view k' = core_view k" "core_choice c nxt k' i = core_choice c nxt k i"
    "j \<noteq> i \<Longrightarrow> rq_core_pick (k_rqs k' j) = rq_core_pick (k_rqs k j)"
    "rq_core_cookie (k_rqs k' j) = rq_core_cookie (k_rqs k j)"
proof -
  define fi where "fi = (rq_core_forceidle_count (k_rqs k core) \<noteq> 0)"
  define k1 where "k1 = (if \<not> (fi_before \<and> fi) then ka_task_vruntime_update a i p fi k else k)"
  define k2 where "k2 = upd_task p (\<lambda>t. t\<lparr>t_core_occupation := occ\<rparr>) k1"
  have v1: "core_view k1 = core_view k" "picks_view k1 = picks_view k"
    using assms(1) by (simp_all add: k1_def pick_ops_keep_def)
  have v2: "core_view k2 = core_view k" "picks_view k2 = picks_view k"
    by (simp_all add: k2_def core_view_upd_task v1)
  have k': "k' = (if i = c \<or> rq_curr (k_rqs k2 i) = p then set_core_pick i None k2 else resched_curr i k2)"
    by (simp add: k' core_resched_step_def assms(2) Let_def k2_def k1_def fi_def)
  show c: "core_view k' = core_view k" by (simp add: k' v2 set_core_pick_def core_view_upd_rq)
  have "rq_core_pick (k_rqs k' i) = (if i = c \<or> rq_curr (k_rqs k i) = p then None else Some p)"
    using picks_viewD [OF v2(2), of i] picks_viewD [OF views_resched(2), of i k2 i] core_viewD(5) [OF v2(1), of i] assms(2)
    by (simp add: k' set_core_pick_def)
  then show "core_choice c nxt k' i = core_choice c nxt k i"
    using assms(2,3) core_viewD(5) [OF c, of i] by (auto simp: core_choice_def)
  show "j \<noteq> i \<Longrightarrow> rq_core_pick (k_rqs k' j) = rq_core_pick (k_rqs k j)"
    "rq_core_cookie (k_rqs k' j) = rq_core_cookie (k_rqs k j)"
    using picks_viewD [OF v2(2), of j] picks_viewD [OF views_resched(2), of i k2 j]
    by (auto simp: k' set_core_pick_def)
qed

lemma core_resched_loop_correct:
  assumes "pick_ops_keep a"
  shows "distinct cs \<Longrightarrow> \<forall>i \<in> set cs. \<exists>p. rq_core_pick (k_rqs k i) = Some p \<and> (i = c \<longrightarrow> p = nxt) \<Longrightarrow>
    k' = core_resched_loop a c core fi_before occ cs k \<Longrightarrow>
    core_view k' = core_view k \<and> (\<forall>i. core_choice c nxt k' i = core_choice c nxt k i) \<and>
    (\<forall>j. rq_core_cookie (k_rqs k' j) = rq_core_cookie (k_rqs k j))"
  unfolding core_resched_loop_def
proof (induction cs arbitrary: k)
  case (Cons i cs)
  define k1 where "k1 = core_resched_step a c core fi_before occ i k"
  obtain p where p: "rq_core_pick (k_rqs k i) = Some p" "i = c \<Longrightarrow> p = nxt" using Cons.prems(2) by auto
  note step = core_resched_step_correct [OF assms p k1_def]
  have choice: "core_choice c nxt k1 j = core_choice c nxt k j" for j
    using step(2) step(3) [of j] core_viewD(5) [OF step(1), of j]
    by (cases "j = i") (auto simp: core_choice_def split: option.split)
  have "core_view k' = core_view k1 \<and> (\<forall>i. core_choice c nxt k' i = core_choice c nxt k1 i) \<and>
      (\<forall>j. rq_core_cookie (k_rqs k' j) = rq_core_cookie (k_rqs k1 j))"
  proof (rule Cons.IH)
    show "\<forall>j \<in> set cs. \<exists>p. rq_core_pick (k_rqs k1 j) = Some p \<and> (j = c \<longrightarrow> p = nxt)"
    proof
      fix j assume "j \<in> set cs"
      then have "j \<noteq> i" "j \<in> set (i # cs)" using Cons.prems(1) by auto
      then show "\<exists>p. rq_core_pick (k_rqs k1 j) = Some p \<and> (j = c \<longrightarrow> p = nxt)"
        using step(3) [of j] Cons.prems(2) by simp
    qed
  qed (use Cons.prems in \<open>auto simp: k1_def\<close>)
  then show ?case using step choice by simp
qed simp

text \<open>
  C6: When a CPU selects for its whole core, every thread of the core ends up with a task of the
  core's cookie or with its idle task: the one it is told to switch to, or, where no switch is
  asked for, the one it runs already.
\<close>

theorem core_select_one_cookie:
  assumes "pick_ops_keep a" "c \<in> set (for_each_cpu k (ka_cpu_smt_mask a c))"
    and idle: "\<forall>i \<in> set (for_each_cpu k (ka_cpu_smt_mask a c)). task_cpu k (rq_idle (k_rqs k i)) = i"
    and sel: "core_select a c updated fi_before k = (nxt, k')"
  shows "let cookie = rq_core_cookie (k_rqs k' (rq_core (k_rqs k c))) in
    \<forall>i \<in> set (for_each_cpu k (ka_cpu_smt_mask a c)). cookie_equals k' (core_choice c nxt k' i) cookie"
proof -
  define core where "core = rq_core (k_rqs k c)"
  define m where "m = ka_cpu_smt_mask a c"
  obtain mx k1 where 1: "core_max_loop a c core updated fi_before (for_each_cpu_wrap k m c) (None, k) = (mx, k1)"
    by fastforce
  have v1: "core_view k1 = core_view k"
    using core_view_max_loop [OF assms(1), of c core updated fi_before "for_each_cpu_wrap k m c" "(None, k)"]
    by (simp add: 1)
  define cookie where "cookie = (case mx of Some m \<Rightarrow> t_core_cookie (k_tasks k1 m) | None \<Rightarrow> 0)"
  define k2 where "k2 = upd_rq core (\<lambda>r. r\<lparr>rq_core_cookie := cookie\<rparr>) k1"
  have v2: "core_view k2 = core_view k" using v1 by (simp add: k2_def core_view_upd_rq)
  define cs where "cs = for_each_cpu k m"
  have cs: "for_each_cpu k2 m = cs" using core_viewD(6) [OF v2] by (simp add: cs_def for_each_cpu_def)
  obtain occ k3 where 3: "core_fit_loop a core fi_before cookie cs (0, k2) = (occ, k3)" by fastforce
  have l3: "core_view k3 = core_view k2 \<and> (\<forall>i. i \<in> set cs \<or> fits cookie i k2 \<longrightarrow> fits cookie i k3) \<and>
      (\<forall>j. rq_core_cookie (k_rqs k3 j) = rq_core_cookie (k_rqs k2 j))"
    by (rule core_fit_loop_correct [OF assms(1) 3]) (use idle core_viewD [OF v2] in \<open>simp add: cs_def m_def\<close>)
  define k4 where "k4 = (if k_schedstat_enabled k3 \<and> rq_core_forceidle_count (k_rqs k3 core) \<noteq> 0
    then upd_rq core (\<lambda>r. r\<lparr>rq_core_forceidle_start := rq_clock r, rq_core_forceidle_occupation := occ\<rparr>) k3
    else k3)"
  define k5 where "k5 = upd_rq core (\<lambda>r. r\<lparr>rq_core_pick_seq := rq_core_task_seq r\<rparr>) k4"
  define k6 where "k6 = upd_rq c (\<lambda>r. r\<lparr>rq_core_sched_seq := rq_core_pick_seq (k_rqs k5 core)\<rparr>) k5"
  have v6: "core_view k6 = core_view k3" "picks_view k6 = picks_view k3"
    by (simp_all add: k6_def k5_def k4_def core_view_upd_rq picks_view_upd_rq)
  have fit6: "fits cookie i k6" if "i \<in> set cs" for i
  proof -
    have "fits cookie i k3" using l3 that by blast
    then show ?thesis
      using picks_viewD(1) [OF v6(2), of i] cookie_equals_cong [OF v6(1)] by (simp add: fits_def split: option.splits)
  qed
  have nxt: "(case rq_core_pick (k_rqs k5 c) of Some p \<Rightarrow> p | None \<Rightarrow> rq_idle (k_rqs k5 c)) = nxt"
    and k': "k' = core_resched_loop a c core fi_before occ (for_each_cpu k6 m) k6"
    using sel
    by (simp_all only: core_select_def Let_def core_def [symmetric] m_def [symmetric] 1 cookie_def [symmetric]
        k2_def [symmetric] cs 3 k4_def [symmetric] k5_def [symmetric] k6_def [symmetric] prod.case prod.inject)
  have cs6: "for_each_cpu k6 m = cs"
    using core_viewD(6) [OF v6(1)] l3 core_viewD(6) [OF v2] core_viewD(6) [of k3 k2]
    by (simp add: cs_def for_each_cpu_def)
  have "core_view k' = core_view k6 \<and> (\<forall>i. core_choice c nxt k' i = core_choice c nxt k6 i) \<and>
      (\<forall>j. rq_core_cookie (k_rqs k' j) = rq_core_cookie (k_rqs k6 j))"
  proof (rule core_resched_loop_correct [OF assms(1), where cs = cs])
    show "distinct cs" by (simp add: cs_def for_each_cpu_def)
    show "\<forall>i \<in> set cs. \<exists>p. rq_core_pick (k_rqs k6 i) = Some p \<and> (i = c \<longrightarrow> p = nxt)"
    proof
      fix i assume "i \<in> set cs"
      then obtain q where q: "rq_core_pick (k_rqs k6 i) = Some q" using fit6 [of i]
        by (cases "rq_core_pick (k_rqs k6 i)") (auto simp: fits_def)
      moreover have "rq_core_pick (k_rqs k5 c) = rq_core_pick (k_rqs k6 c)" by (simp add: k6_def)
      ultimately show "\<exists>p. rq_core_pick (k_rqs k6 i) = Some p \<and> (i = c \<longrightarrow> p = nxt)" using nxt by auto
    qed
  qed (simp add: k' cs6)
  then have end_: "core_view k' = core_view k6" "\<And>i. core_choice c nxt k' i = core_choice c nxt k6 i"
    "rq_core_cookie (k_rqs k' core) = cookie"
    using picks_viewD(2) [OF v6(2), of core] l3 by (auto simp: k2_def)
  have "cookie_equals k' (core_choice c nxt k' i) cookie" if "i \<in> set cs" for i
    using fit6 [OF that] cookie_equals_cong [OF end_(1)] end_(2) by (auto simp: fits_def core_choice_def split: option.splits)
  then show ?thesis by (simp add: core_def [symmetric] m_def [symmetric] cs_def [symmetric] end_(3) del: set_for_each_cpu)
qed

text \<open>Two threads; on CPU 1 a task of cookie 5 is the best, CPU 0 has only its idle task.\<close>

definition sample_smt_pick :: kapi where
  "sample_smt_pick = sample_kapi\<lparr>ka_cpu_smt_mask := \<lambda>c. {0, 1},
     ka_pick_task := \<lambda>cls c k. (if cls = idle_sched_class then Some (rq_idle (k_rqs k c))
       else if cls = fair_sched_class \<and> c = 1 then Some 10 else None, k)\<rparr>"

theorem core_select_one_cookie_witness:
  "\<exists>nxt k'. core_select sample_smt_pick 0 True False sample_kernel = (nxt, k') \<and>
    cookie_equals k' (core_choice 0 nxt k' 1) (rq_core_cookie (k_rqs k' 0))"
proof -
  obtain nxt k' where s: "core_select sample_smt_pick 0 True False sample_kernel = (nxt, k')" by fastforce
  have cpus: "for_each_cpu sample_kernel (ka_cpu_smt_mask sample_smt_pick 0) = [0, 1]"
    by (simp add: for_each_cpu_def sample_smt_pick_def sample_kernel_def upto_rec1)
  have "let cookie = rq_core_cookie (k_rqs k' (rq_core (k_rqs sample_kernel 0))) in
      \<forall>i \<in> set (for_each_cpu sample_kernel (ka_cpu_smt_mask sample_smt_pick 0)).
        cookie_equals k' (core_choice 0 nxt k' i) cookie"
    by (rule core_select_one_cookie [OF _ _ _ s])
      (simp_all only: cpus, simp_all add: pick_ops_keep_def sample_smt_pick_def sample_kapi_def task_cpu_def
        sample_task_def sample_rq_def)
  then show ?thesis using s by (simp add: cpus sample_rq_def Let_def del: set_for_each_cpu)
qed

end
