(* ===== verification/Wakeup.thy ===== *)
theory Wakeup
  imports Cpu_Select
begin

text \<open>
  Waking a task (\<open>core.c\<close>, \<open>try_to_wake_up\<close> and what it calls), wake queues, remote
  wake lists, and waiting for a task to leave its CPU.  Where the code spins until another
  CPU has let go of the task, what that CPU does is an argument \<open>env\<close>; \<open>None\<close> means that
  the wait has not ended.  Tracing, delay accounting and pressure accounting have no effect
  on the modelled state, and reference counts of tasks are not modelled.
\<close>

section \<open>Statistics\<close>

text \<open>The first domain of this CPU that spans the wakee's CPU counts the wakeup.\<close>

fun count_wake_remote :: "cpu \<Rightarrow> sched_domain list \<Rightarrow> sched_domain list" where
  "count_wake_remote c [] = []"
| "count_wake_remote c (sd # sds) =
     (if c \<in> sd_span sd then sd\<lparr>sd_ttwu_wake_remote := sd_ttwu_wake_remote sd + 1\<rparr> # sds
      else sd # count_wake_remote c sds)"

definition upd_stats :: "tid \<Rightarrow> (sched_statistics \<Rightarrow> sched_statistics) \<Rightarrow> kernel \<Rightarrow> kernel" where
  "upd_stats p f = upd_task p (\<lambda>t. t\<lparr>t_stats := f (t_stats t)\<rparr>)"

definition ttwu_stat :: "tid \<Rightarrow> cpu \<Rightarrow> u32 \<Rightarrow> kernel \<Rightarrow> kernel" where
  "ttwu_stat p c wake_flags k =
     (if \<not> k_schedstat_enabled k then k
      else let this = k_this_cpu k;
               k = (if c = rq_cpu (k_rqs k this)
                    then upd_stats p (\<lambda>s. s\<lparr>ss_nr_wakeups_local := ss_nr_wakeups_local s + 1\<rparr>)
                           (upd_rq this (\<lambda>r. r\<lparr>rq_ttwu_local := rq_ttwu_local r + 1\<rparr>) k)
                    else upd_rq this (\<lambda>r. r\<lparr>rq_domains := count_wake_remote c (rq_domains r)\<rparr>)
                           (upd_stats p (\<lambda>s. s\<lparr>ss_nr_wakeups_remote := ss_nr_wakeups_remote s + 1\<rparr>) k));
               k = (if test_flag wake_flags WF_MIGRATED
                    then upd_stats p (\<lambda>s. s\<lparr>ss_nr_wakeups_migrate := ss_nr_wakeups_migrate s + 1\<rparr>) k
                    else k);
               k = upd_rq this (\<lambda>r. r\<lparr>rq_ttwu_count := rq_ttwu_count r + 1\<rparr>) k;
               k = upd_stats p (\<lambda>s. s\<lparr>ss_nr_wakeups := ss_nr_wakeups s + 1\<rparr>) k
           in if test_flag wake_flags WF_SYNC
              then upd_stats p (\<lambda>s. s\<lparr>ss_nr_wakeups_sync := ss_nr_wakeups_sync s + 1\<rparr>) k else k)"

section \<open>Activation\<close>

definition ttwu_do_wakeup :: "tid \<Rightarrow> kernel \<Rightarrow> kernel" where
  "ttwu_do_wakeup p = upd_task p (\<lambda>t. t\<lparr>t_state := TASK_RUNNING\<rparr>)"

definition dec_nr_iowait :: "tid \<Rightarrow> kernel \<Rightarrow> kernel" where
  "dec_nr_iowait p k = upd_rq (task_cpu k p) (\<lambda>r. r\<lparr>rq_nr_iowait := rq_nr_iowait r - 1\<rparr>) k"

definition update_avg_idle :: "kapi \<Rightarrow> rq \<Rightarrow> rq" where
  "update_avg_idle a r =
     (if rq_idle_stamp r = 0 then r
      else let avg = ka_update_avg a (rq_avg_idle r) (rq_clock r - rq_idle_stamp r);
               limit = 2 * rq_max_idle_balance_cost r
           in r\<lparr>rq_avg_idle := (if limit < avg then limit else avg), rq_idle_stamp := 0\<rparr>)"

definition ttwu_do_activate :: "kapi \<Rightarrow> cpu \<Rightarrow> tid \<Rightarrow> u32 \<Rightarrow> kernel \<Rightarrow> kernel" where
  "ttwu_do_activate a c p wake_flags k =
     (let t = k_tasks k p;
          k = (if t_sched_contributes_to_load t
               then upd_rq c (\<lambda>r. r\<lparr>rq_nr_uninterruptible := rq_nr_uninterruptible r - 1\<rparr>) k else k);
          migrated = test_flag wake_flags WF_MIGRATED;
          en_flags = ENQUEUE_WAKEUP OR ENQUEUE_NOCLOCK OR (if migrated then ENQUEUE_MIGRATED else 0);
          k = (if \<not> migrated \<and> t_in_iowait t then dec_nr_iowait p k else k);
          k = activate_task a c p en_flags k;
          k = wakeup_preempt a c p wake_flags k;
          k = ttwu_do_wakeup p k;
          k = (case class_task_woken a (task_class k p) of Some f \<Rightarrow> f c p k | None \<Rightarrow> k);
          k = upd_rq c (update_avg_idle a) k
      in upd_task p (\<lambda>t. t\<lparr>t_dl_server := False\<rparr>) k)"

definition ttwu_runnable :: "kapi \<Rightarrow> tid \<Rightarrow> u32 \<Rightarrow> kernel \<Rightarrow> bool \<times> kernel" where
  "ttwu_runnable a p wake_flags k =
     (if task_on_rq_queued (k_tasks k p)
      then let c = task_cpu k p;
               k = (if \<not> t_on_cpu (k_tasks k p)
                    then wakeup_preempt a c p wake_flags (update_rq_clock a c k) else k)
           in (True, ttwu_do_wakeup p k)
      else (False, k))"

text \<open>\<open>smp_cond_load_acquire(&p->on_cpu, !VAL)\<close>: spin until the task is off its CPU.\<close>

definition wait_off_cpu :: "(kernel \<Rightarrow> kernel) \<Rightarrow> tid \<Rightarrow> kernel \<Rightarrow> kernel option" where
  "wait_off_cpu env p k =
     (let k = (if t_on_cpu (k_tasks k p) then env k else k)
      in if t_on_cpu (k_tasks k p) then None else Some k)"

section \<open>Remote wake lists\<close>

definition sched_ttwu_one ::
  "kapi \<Rightarrow> (kernel \<Rightarrow> kernel) \<Rightarrow> cpu \<Rightarrow> tid \<Rightarrow> kernel \<Rightarrow> kernel option" where
  "sched_ttwu_one a env c p k =
     (case wait_off_cpu env p k of
        None \<Rightarrow> None
      | Some k \<Rightarrow>
          let k = (if task_cpu k p \<noteq> rq_cpu (k_rqs k c) then set_task_cpu a p (rq_cpu (k_rqs k c)) k else k)
          in Some (ttwu_do_activate a c p (if t_sched_remote_wakeup (k_tasks k p) then WF_MIGRATED else 0) k))"

fun sched_ttwu_loop ::
  "kapi \<Rightarrow> (kernel \<Rightarrow> kernel) \<Rightarrow> cpu \<Rightarrow> tid list \<Rightarrow> kernel \<Rightarrow> kernel option" where
  "sched_ttwu_loop a env c [] k = Some k"
| "sched_ttwu_loop a env c (p # ps) k =
     Option.bind (sched_ttwu_one a env c p k) (sched_ttwu_loop a env c ps)"

definition sched_ttwu_pending ::
  "kapi \<Rightarrow> (kernel \<Rightarrow> kernel) \<Rightarrow> tid list \<Rightarrow> kernel \<Rightarrow> kernel option" where
  "sched_ttwu_pending a env llist k =
     (let c = k_this_cpu k
      in if llist = [] then Some k
         else map_option (upd_rq c (\<lambda>r. r\<lparr>rq_ttwu_pending := False\<rparr>))
                (sched_ttwu_loop a env c llist (update_rq_clock a c k)))"

definition us_ttwu_queue_wakelist :: "kapi \<Rightarrow> tid \<Rightarrow> cpu \<Rightarrow> u32 \<Rightarrow> kernel \<Rightarrow> kernel" where
  "us_ttwu_queue_wakelist a p c wake_flags k =
     (let k = upd_task p (\<lambda>t. t\<lparr>t_sched_remote_wakeup := test_flag wake_flags WF_MIGRATED\<rparr>) k;
          k = upd_rq c (\<lambda>r. r\<lparr>rq_ttwu_pending := True\<rparr>) k
      in ka_smp_call_single_queue a c p k)"

definition cpus_share_cache :: "kapi \<Rightarrow> cpu \<Rightarrow> cpu \<Rightarrow> bool" where
  "cpus_share_cache a this_cpu that_cpu \<longleftrightarrow>
     this_cpu = that_cpu \<or> ka_sd_llc_id a this_cpu = ka_sd_llc_id a that_cpu"

definition cpus_share_resources :: "kapi \<Rightarrow> cpu \<Rightarrow> cpu \<Rightarrow> bool" where
  "cpus_share_resources a this_cpu that_cpu \<longleftrightarrow>
     this_cpu = that_cpu \<or> ka_sd_share_id a this_cpu = ka_sd_share_id a that_cpu"

definition ttwu_queue_cond :: "kapi \<Rightarrow> kernel \<Rightarrow> tid \<Rightarrow> cpu \<Rightarrow> bool" where
  "ttwu_queue_cond a k p c =
     (if \<not> cpu_active k c then False
      else if c \<notin> cpus_ptr_mask (k_tasks k p) then False
      else if \<not> cpus_share_cache a (k_this_cpu k) c then True
      else if c = k_this_cpu k then False
      else rq_nr_running (k_rqs k c) = 0)"

definition ttwu_queue_wakelist :: "kapi \<Rightarrow> tid \<Rightarrow> cpu \<Rightarrow> u32 \<Rightarrow> kernel \<Rightarrow> bool \<times> kernel" where
  "ttwu_queue_wakelist a p c wake_flags k =
     (if ka_sched_feat_TTWU_QUEUE a \<and> ttwu_queue_cond a k p c
      then (True, us_ttwu_queue_wakelist a p c wake_flags k) else (False, k))"

definition ttwu_queue :: "kapi \<Rightarrow> tid \<Rightarrow> cpu \<Rightarrow> u32 \<Rightarrow> kernel \<Rightarrow> kernel" where
  "ttwu_queue a p c wake_flags k =
     (let (queued, k) = ttwu_queue_wakelist a p c wake_flags k
      in if queued then k else ttwu_do_activate a c p wake_flags (update_rq_clock a c k))"

section \<open>The wakeup\<close>

text \<open>The label \<open>out\<close>.\<close>

definition ttwu_out :: "tid \<Rightarrow> bool \<Rightarrow> u32 \<Rightarrow> kernel \<Rightarrow> bool \<times> kernel" where
  "ttwu_out p success wake_flags k =
     (success, if success then ttwu_stat p (task_cpu k p) wake_flags k else k)"

text \<open>Placing a task that is off its CPU; the wake flags are returned with \<open>WF_MIGRATED\<close>.\<close>

definition ttwu_place :: "kapi \<Rightarrow> tid \<Rightarrow> u32 \<Rightarrow> kernel \<Rightarrow> u32 \<times> kernel" where
  "ttwu_place a p wake_flags k =
     (let (c, k) = select_task_rq a p (t_wake_cpu (k_tasks k p)) (wake_flags OR WF_TTWU) k
      in if task_cpu k p \<noteq> c
         then let k = (if t_in_iowait (k_tasks k p) then dec_nr_iowait p k else k);
                  wake_flags = wake_flags OR WF_MIGRATED;
                  k = set_task_cpu a p c k
              in (wake_flags, ttwu_queue a p c wake_flags k)
         else (wake_flags, ttwu_queue a p c wake_flags k))"

text \<open>A task whose state matches and that is not running on this CPU.\<close>

definition ttwu_wake ::
  "kapi \<Rightarrow> (kernel \<Rightarrow> kernel) \<Rightarrow> tid \<Rightarrow> u32 \<Rightarrow> kernel \<Rightarrow> (u32 \<times> kernel) option" where
  "ttwu_wake a env p wake_flags k =
     (let (runnable, k) = (if t_on_rq (k_tasks k p) \<noteq> 0 then ttwu_runnable a p wake_flags k else (False, k))
      in if runnable then Some (wake_flags, k)
         else let k = upd_task p (\<lambda>t. t\<lparr>t_state := TASK_WAKING\<rparr>) k;
                  (queued, k) = (if t_on_cpu (k_tasks k p)
                                 then ttwu_queue_wakelist a p (task_cpu k p) wake_flags k else (False, k))
              in if queued then Some (wake_flags, k)
                 else map_option (ttwu_place a p wake_flags) (wait_off_cpu env p k))"

definition try_to_wake_up ::
  "kapi \<Rightarrow> (kernel \<Rightarrow> kernel) \<Rightarrow> tid \<Rightarrow> u32 \<Rightarrow> u32 \<Rightarrow> kernel \<Rightarrow> (bool \<times> kernel) option" where
  "try_to_wake_up a env p state wake_flags k =
     (let (matches, success, k) = ttwu_state_match p state k
      in if \<not> matches then Some (ttwu_out p success wake_flags k)
         else if p = k_current k then Some (ttwu_out p success wake_flags (ttwu_do_wakeup p k))
         else map_option (\<lambda>(wake_flags, k). ttwu_out p success wake_flags k) (ttwu_wake a env p wake_flags k))"

definition wake_up_process ::
  "kapi \<Rightarrow> (kernel \<Rightarrow> kernel) \<Rightarrow> tid \<Rightarrow> kernel \<Rightarrow> (bool \<times> kernel) option" where
  "wake_up_process a env p = try_to_wake_up a env p TASK_NORMAL 0"

definition wake_up_state ::
  "kapi \<Rightarrow> (kernel \<Rightarrow> kernel) \<Rightarrow> tid \<Rightarrow> u32 \<Rightarrow> kernel \<Rightarrow> (bool \<times> kernel) option" where
  "wake_up_state a env p state = try_to_wake_up a env p state 0"

definition default_wake_function ::
  "kapi \<Rightarrow> (kernel \<Rightarrow> kernel) \<Rightarrow> tid \<Rightarrow> u32 \<Rightarrow> u32 \<Rightarrow> kernel \<Rightarrow> (bool \<times> kernel) option" where
  "default_wake_function a env p mode wake_flags k = try_to_wake_up a env p mode wake_flags k"

section \<open>Wake queues\<close>

text \<open>
  A \<open>wake_q_head\<close> is the list of the tasks on it; a task whose node is in use (\<open>t_wake_q\<close>)
  is on some queue already.
\<close>

definition us_wake_q_add :: "tid list \<Rightarrow> tid \<Rightarrow> kernel \<Rightarrow> bool \<times> tid list \<times> kernel" where
  "us_wake_q_add head p k =
     (if t_wake_q (k_tasks k p) then (False, head, k)
      else (True, head @ [p], upd_task p (\<lambda>t. t\<lparr>t_wake_q := True\<rparr>) k))"

definition wake_q_add :: "tid list \<Rightarrow> tid \<Rightarrow> kernel \<Rightarrow> tid list \<times> kernel" where
  "wake_q_add head p k = snd (us_wake_q_add head p k)"

definition wake_q_add_safe :: "tid list \<Rightarrow> tid \<Rightarrow> kernel \<Rightarrow> tid list \<times> kernel" where
  "wake_q_add_safe head p k = snd (us_wake_q_add head p k)"

fun wake_up_q :: "kapi \<Rightarrow> (kernel \<Rightarrow> kernel) \<Rightarrow> tid list \<Rightarrow> kernel \<Rightarrow> kernel option" where
  "wake_up_q a env [] k = Some k"
| "wake_up_q a env (p # ps) k =
     Option.bind (wake_up_process a env p (upd_task p (\<lambda>t. t\<lparr>t_wake_q := False\<rparr>) k))
       (\<lambda>r. wake_up_q a env ps (snd r))"

section \<open>A task in a fixed state\<close>

definition us_task_needs_rq_lock ::
  "(kernel \<Rightarrow> kernel) \<Rightarrow> tid \<Rightarrow> kernel \<Rightarrow> (bool \<times> kernel) option" where
  "us_task_needs_rq_lock env p k =
     (let state = t_state (k_tasks k p)
      in if state = TASK_RUNNING \<or> state = TASK_WAKING then Some (True, k)
         else if t_on_rq (k_tasks k p) \<noteq> 0 then Some (True, k)
         else map_option (\<lambda>k. (False, k)) (wait_off_cpu env p k))"

definition task_call_func ::
  "(kernel \<Rightarrow> kernel) \<Rightarrow> tid \<Rightarrow> (tid \<Rightarrow> kernel \<Rightarrow> int \<times> kernel) \<Rightarrow> kernel \<Rightarrow> (int \<times> kernel) option" where
  "task_call_func env p func k =
     map_option (\<lambda>(needs_lock, k). func p k) (us_task_needs_rq_lock env p k)"

definition cpu_curr_snapshot :: "kernel \<Rightarrow> cpu \<Rightarrow> tid" where
  "cpu_curr_snapshot k c = rq_curr (k_rqs k c)"

section \<open>Waiting until a task is inactive\<close>

text \<open>
  The loop of \<open>wait_task_inactive\<close>; \<open>env n\<close> is what happens between its steps and, when it
  sleeps for a tick, during the sleep.  It may run forever, then the result is \<open>None\<close>.
\<close>

definition LONG_MIN :: u64 where "LONG_MIN = 0x8000000000000000"

partial_function (option) wait_task_inactive ::
  "(nat \<Rightarrow> kernel \<Rightarrow> kernel) \<Rightarrow> nat \<Rightarrow> tid \<Rightarrow> u32 \<Rightarrow> kernel \<Rightarrow> (u64 \<times> kernel) option" where
  "wait_task_inactive env n p match_state k =
     (if t_on_cpu (k_tasks k p)
      then if task_state_match (k_tasks k p) match_state = 0 then Some (0, k)
           else wait_task_inactive env (n + 1) p match_state (env n k)
      else let k = env n k;
               t = k_tasks k p;
               match = us_task_state_match t match_state
           in if match = 0 then Some (0, k)
              else if t_on_cpu t then wait_task_inactive env (n + 1) p match_state k
              else if task_on_rq_queued t \<or> match < 0
              then wait_task_inactive env (n + 2) p match_state
                     (env (n + 1) (set_current_state TASK_UNINTERRUPTIBLE k))
              else Some (t_nvcsw t OR LONG_MIN, k))"

end
