(* ===== verification/Schedule.thy ===== *)
theory Schedule
  imports Pick Wakeup
begin

text \<open>
  The scheduler proper (\<open>core.c\<close>): \<open>__schedule\<close> with the context switch, the entry points
  around it, yielding, and the scheduler tick.  \<open>switch_to\<close> makes the next task the current
  one of this CPU; what follows it in \<open>context_switch\<close> is executed by that task.  The mm,
  the notifiers, the debug checks and the accounting hooks are parameters or have no effect
  on the modelled state.
\<close>

section \<open>Context switch\<close>

definition prepare_task_switch :: "tid \<Rightarrow> tid \<Rightarrow> kernel \<Rightarrow> kernel" where
  "prepare_task_switch prev nxt k = prepare_task nxt k"

definition finish_lock_switch :: "kapi \<Rightarrow> cpu \<Rightarrow> kernel \<Rightarrow> kernel" where
  "finish_lock_switch a c k = us_balance_callbacks a c k"

definition finish_task_switch :: "kapi \<Rightarrow> tid \<Rightarrow> kernel \<Rightarrow> kernel" where
  "finish_task_switch a prev k =
     (let c = k_this_cpu k;
          prev_state = t_state (k_tasks k prev);
          k = finish_task prev k;
          k = finish_lock_switch a c k
      in if prev_state = TASK_DEAD
         then case class_task_dead a (task_class k prev) of Some f \<Rightarrow> f prev k | None \<Rightarrow> k
         else k)"

definition schedule_tail :: "kapi \<Rightarrow> tid \<Rightarrow> kernel \<Rightarrow> kernel" where
  "schedule_tail a prev k = finish_task_switch a prev k"

definition context_switch :: "kapi \<Rightarrow> tid \<Rightarrow> tid \<Rightarrow> kernel \<Rightarrow> kernel" where
  "context_switch a prev nxt k =
     (let k = prepare_task_switch prev nxt k;
          k = ka_switch_mm a prev nxt k;
          k = k\<lparr>k_current := nxt\<rparr>
      in finish_task_switch a prev k)"

section \<open>The main scheduler function\<close>

definition SM_NONE :: u32 where "SM_NONE = 0x0"
definition SM_PREEMPT :: u32 where "SM_PREEMPT = 0x1"
definition SM_RTLOCK_WAIT :: u32 where "SM_RTLOCK_WAIT = 0x2"
definition SM_MASK_PREEMPT :: u32 where "SM_MASK_PREEMPT = 0xffffffff"

definition schedule_debug :: "kernel \<Rightarrow> kernel" where
  "schedule_debug k =
     (if k_schedstat_enabled k
      then upd_rq (k_this_cpu k) (\<lambda>r. r\<lparr>rq_sched_count := rq_sched_count r + 1\<rparr>) k else k)"

text \<open>What makes a sleep count as load.\<close>

definition sleep_contributes_to_load :: "u32 \<Rightarrow> bool" where
  "sleep_contributes_to_load prev_state \<longleftrightarrow>
     test_flag prev_state TASK_UNINTERRUPTIBLE \<and> \<not> test_flag prev_state TASK_NOLOAD \<and>
     \<not> test_flag prev_state TASK_FROZEN"

text \<open>
  The block that takes a sleeping \<open>prev\<close> off the run queue; the result tells whether the
  switch counts as voluntary.
\<close>

definition schedule_deactivate :: "kapi \<Rightarrow> u32 \<Rightarrow> cpu \<Rightarrow> tid \<Rightarrow> kernel \<Rightarrow> bool \<times> kernel" where
  "schedule_deactivate a sched_mode c prev k =
     (let prev_state = t_state (k_tasks k prev)
      in if test_flag sched_mode SM_MASK_PREEMPT \<or> prev_state = 0 then (False, k)
         else if ka_signal_pending_state a k prev_state prev
         then (True, upd_task prev (\<lambda>t. t\<lparr>t_state := TASK_RUNNING\<rparr>) k)
         else let load = sleep_contributes_to_load prev_state;
                  k = upd_task prev (\<lambda>t. t\<lparr>t_sched_contributes_to_load := load\<rparr>) k;
                  k = (if load then upd_rq c (\<lambda>r. r\<lparr>rq_nr_uninterruptible := rq_nr_uninterruptible r + 1\<rparr>) k
                       else k);
                  k = deactivate_task a c prev (DEQUEUE_SLEEP OR DEQUEUE_NOCLOCK) k
              in (True, if t_in_iowait (k_tasks k prev)
                        then upd_rq c (\<lambda>r. r\<lparr>rq_nr_iowait := rq_nr_iowait r + 1\<rparr>) k else k))"

definition count_switch :: "bool \<Rightarrow> tid \<Rightarrow> kernel \<Rightarrow> kernel" where
  "count_switch voluntary prev =
     upd_task prev (\<lambda>t. if voluntary then t\<lparr>t_nvcsw := t_nvcsw t + 1\<rparr> else t\<lparr>t_nivcsw := t_nivcsw t + 1\<rparr>)"

text \<open>After the pick: the switch, or the callbacks if \<open>prev\<close> goes on.\<close>

definition schedule_switch :: "kapi \<Rightarrow> bool \<Rightarrow> cpu \<Rightarrow> tid \<Rightarrow> tid \<Rightarrow> kernel \<Rightarrow> kernel" where
  "schedule_switch a voluntary c prev nxt k =
     (if prev \<noteq> nxt
      then let k = upd_rq c (\<lambda>r. r\<lparr>rq_nr_switches := rq_nr_switches r + 1, rq_curr := nxt\<rparr>) k;
               k = count_switch voluntary prev k;
               k = migrate_disable_switch a c prev k
           in context_switch a prev nxt k
      else us_balance_callbacks a c k)"

definition us_schedule :: "kapi \<Rightarrow> u32 \<Rightarrow> kernel \<Rightarrow> kernel" where
  "us_schedule a sched_mode k =
     (let c = k_this_cpu k;
          prev = rq_curr (k_rqs k c);
          k = schedule_debug k;
          k = (if ka_sched_feat_HRTICK a \<or> ka_sched_feat_HRTICK_DL a then hrtick_clear c k else k);
          k = upd_rq c (\<lambda>r. r\<lparr>rq_clock_update_flags := push_bit 1 (rq_clock_update_flags r)\<rparr>) k;
          k = update_rq_clock a c k;
          k = upd_rq c (\<lambda>r. r\<lparr>rq_clock_update_flags := RQCF_UPDATED\<rparr>) k;
          (voluntary, k) = schedule_deactivate a sched_mode c prev k;
          (nxt, k) = pick_next_task a c prev k;
          k = clear_tsk_need_resched prev k;
          k = k\<lparr>k_preempt_need_resched := False\<rparr>;
          k = upd_rq c (\<lambda>r. r\<lparr>rq_last_seen_need_resched_ns := 0\<rparr>) k
      in schedule_switch a voluntary c prev nxt k)"

section \<open>Entry points\<close>

text \<open>
  The loops \<open>do __schedule(mode) while (need_resched())\<close>, as one task executes them: after a
  switch to another task, \<open>env n\<close> is all that happens until this task runs again (nothing if
  there was no switch).  A loop need not end: then the result is \<open>None\<close>.
\<close>

partial_function (option) us_schedule_loop ::
  "kapi \<Rightarrow> (nat \<Rightarrow> kernel \<Rightarrow> kernel) \<Rightarrow> nat \<Rightarrow> u32 \<Rightarrow> kernel \<Rightarrow> kernel option" where
  "us_schedule_loop a env n sched_mode k =
     (let k = env n (us_schedule a sched_mode k)
      in if need_resched k then us_schedule_loop a env (n + 1) sched_mode k else Some k)"

definition sched_submit_work :: "kapi \<Rightarrow> tid \<Rightarrow> kernel \<Rightarrow> kernel" where
  "sched_submit_work a tsk k =
     (let task_flags = t_flags (k_tasks k tsk);
          k = (if test_flag task_flags PF_WQ_WORKER then ka_wq_worker_sleeping a tsk k
               else if test_flag task_flags PF_IO_WORKER then ka_io_wq_worker_sleeping a tsk k
               else k)
      in ka_blk_flush_plug a tsk k)"

definition sched_update_worker :: "kapi \<Rightarrow> tid \<Rightarrow> kernel \<Rightarrow> kernel" where
  "sched_update_worker a tsk k =
     (let flags = t_flags (k_tasks k tsk)
      in if test_flag flags (PF_WQ_WORKER OR PF_IO_WORKER)
         then if test_flag flags PF_WQ_WORKER then ka_wq_worker_running a tsk k
              else ka_io_wq_worker_running a tsk k
         else k)"

definition schedule :: "kapi \<Rightarrow> (nat \<Rightarrow> kernel \<Rightarrow> kernel) \<Rightarrow> kernel \<Rightarrow> kernel option" where
  "schedule a env k =
     (let tsk = k_current k;
          k = (if \<not> task_is_running (k_tasks k tsk) then sched_submit_work a tsk k else k)
      in map_option (sched_update_worker a tsk) (us_schedule_loop a env 0 SM_NONE k))"

definition rt_mutex_schedule :: "kapi \<Rightarrow> (nat \<Rightarrow> kernel \<Rightarrow> kernel) \<Rightarrow> kernel \<Rightarrow> kernel option" where
  "rt_mutex_schedule a env k = us_schedule_loop a env 0 SM_NONE k"

definition rt_mutex_pre_schedule :: "kapi \<Rightarrow> kernel \<Rightarrow> kernel" where
  "rt_mutex_pre_schedule a k = sched_submit_work a (k_current k) k"

definition rt_mutex_post_schedule :: "kapi \<Rightarrow> kernel \<Rightarrow> kernel" where
  "rt_mutex_post_schedule a k = sched_update_worker a (k_current k) k"

definition schedule_idle :: "kapi \<Rightarrow> (nat \<Rightarrow> kernel \<Rightarrow> kernel) \<Rightarrow> kernel \<Rightarrow> kernel option" where
  "schedule_idle a env k = us_schedule_loop a env 0 SM_NONE k"

definition schedule_preempt_disabled ::
  "kapi \<Rightarrow> (nat \<Rightarrow> kernel \<Rightarrow> kernel) \<Rightarrow> kernel \<Rightarrow> kernel option" where
  "schedule_preempt_disabled a env k = schedule a env k"

definition preempt_schedule_common ::
  "kapi \<Rightarrow> (nat \<Rightarrow> kernel \<Rightarrow> kernel) \<Rightarrow> kernel \<Rightarrow> kernel option" where
  "preempt_schedule_common a env k = us_schedule_loop a env 0 SM_PREEMPT k"

text \<open>\<open>preemptible()\<close>, which reads the CPU's preemption count, is an argument.\<close>

definition preempt_schedule ::
  "kapi \<Rightarrow> (nat \<Rightarrow> kernel \<Rightarrow> kernel) \<Rightarrow> bool \<Rightarrow> kernel \<Rightarrow> kernel option" where
  "preempt_schedule a env preemptible k =
     (if \<not> preemptible then Some k else preempt_schedule_common a env k)"

definition preempt_schedule_notrace ::
  "kapi \<Rightarrow> (nat \<Rightarrow> kernel \<Rightarrow> kernel) \<Rightarrow> bool \<Rightarrow> kernel \<Rightarrow> kernel option" where
  "preempt_schedule_notrace a env preemptible k =
     (if \<not> preemptible then Some k else us_schedule_loop a env 0 SM_PREEMPT k)"

definition preempt_schedule_irq ::
  "kapi \<Rightarrow> (nat \<Rightarrow> kernel \<Rightarrow> kernel) \<Rightarrow> kernel \<Rightarrow> kernel option" where
  "preempt_schedule_irq a env k = us_schedule_loop a env 0 SM_PREEMPT k"

text \<open>A dying task switches away for the last time.\<close>

definition do_task_dead :: "kapi \<Rightarrow> kernel \<Rightarrow> kernel" where
  "do_task_dead a k =
     (let k = set_special_state TASK_DEAD k;
          k = upd_task (k_current k) (\<lambda>t. t\<lparr>t_flags := set_flag (t_flags t) PF_NOFREEZE\<rparr>) k
      in us_schedule a SM_NONE k)"

section \<open>Yielding\<close>

definition count_yield :: "cpu \<Rightarrow> kernel \<Rightarrow> kernel" where
  "count_yield c k =
     (if k_schedstat_enabled k then upd_rq c (\<lambda>r. r\<lparr>rq_yld_count := rq_yld_count r + 1\<rparr>) k else k)"

definition do_sched_yield :: "kapi \<Rightarrow> (nat \<Rightarrow> kernel \<Rightarrow> kernel) \<Rightarrow> kernel \<Rightarrow> kernel option" where
  "do_sched_yield a env k =
     (let c = k_this_cpu k;
          k = count_yield c k;
          k = class_yield_task a (task_class k (k_current k)) c k
      in schedule a env k)"

definition sys_sched_yield :: "kapi \<Rightarrow> (nat \<Rightarrow> kernel \<Rightarrow> kernel) \<Rightarrow> kernel \<Rightarrow> (int \<times> kernel) option" where
  "sys_sched_yield a env k = map_option (\<lambda>k. (0, k)) (do_sched_yield a env k)"

definition yield_proc :: "kapi \<Rightarrow> (nat \<Rightarrow> kernel \<Rightarrow> kernel) \<Rightarrow> kernel \<Rightarrow> kernel option" where
  "yield_proc a env k = do_sched_yield a env (set_current_state TASK_RUNNING k)"

text \<open>The yat class has a \<open>yield_to_task\<close>; of the others it is a parameter.\<close>

definition class_yield_to_task ::
  "kapi \<Rightarrow> sched_class \<Rightarrow> (cpu \<Rightarrow> tid \<Rightarrow> kernel \<Rightarrow> bool \<times> kernel) option" where
  "class_yield_to_task a cls =
     (if cls = yat_casched_sched_class then Some yield_to_task_yat_casched else ka_yield_to_task a cls)"

definition yield_to ::
  "kapi \<Rightarrow> (nat \<Rightarrow> kernel \<Rightarrow> kernel) \<Rightarrow> tid \<Rightarrow> bool \<Rightarrow> kernel \<Rightarrow> (int \<times> kernel) option" where
  "yield_to a env p preempt k =
     (let curr = k_current k; c = k_this_cpu k; p_rq = task_cpu k p
      in if rq_nr_running (k_rqs k c) = 1 \<and> rq_nr_running (k_rqs k p_rq) = 1 then Some (- ESRCH, k)
         else case class_yield_to_task a (task_class k curr) of
           None \<Rightarrow> Some (0, k)
         | Some f \<Rightarrow>
             if task_class k curr \<noteq> task_class k p then Some (0, k)
             else if t_on_cpu (k_tasks k p) \<or> \<not> task_is_running (k_tasks k p) then Some (0, k)
             else let (yielded, k) = f c p k;
                      k = (if yielded then count_yield c k else k);
                      k = (if yielded \<and> preempt \<and> c \<noteq> p_rq then resched_curr p_rq k else k)
                  in if yielded then map_option (\<lambda>k. (1, k)) (schedule a env k) else Some (0, k))"

definition us_cond_resched ::
  "kapi \<Rightarrow> (nat \<Rightarrow> kernel \<Rightarrow> kernel) \<Rightarrow> bool \<Rightarrow> kernel \<Rightarrow> (int \<times> kernel) option" where
  "us_cond_resched a env should_resched k =
     (if should_resched then map_option (\<lambda>k. (1, k)) (preempt_schedule_common a env k) else Some (0, k))"

section \<open>Waiting for I/O\<close>

definition io_schedule_prepare :: "kapi \<Rightarrow> kernel \<Rightarrow> bool \<times> kernel" where
  "io_schedule_prepare a k =
     (let p = k_current k; old_iowait = t_in_iowait (k_tasks k p)
      in (old_iowait, ka_blk_flush_plug a p (upd_task p (\<lambda>t. t\<lparr>t_in_iowait := True\<rparr>) k)))"

definition io_schedule_finish :: "bool \<Rightarrow> kernel \<Rightarrow> kernel" where
  "io_schedule_finish token k = upd_task (k_current k) (\<lambda>t. t\<lparr>t_in_iowait := token\<rparr>) k"

definition io_schedule :: "kapi \<Rightarrow> (nat \<Rightarrow> kernel \<Rightarrow> kernel) \<Rightarrow> kernel \<Rightarrow> kernel option" where
  "io_schedule a env k =
     (let (token, k) = io_schedule_prepare a k
      in map_option (io_schedule_finish token) (schedule a env k))"

definition io_schedule_timeout :: "kapi \<Rightarrow> int \<Rightarrow> kernel \<Rightarrow> int \<times> kernel" where
  "io_schedule_timeout a timeout k =
     (let (token, k) = io_schedule_prepare a k;
          (ret, k) = ka_schedule_timeout a timeout k
      in (ret, io_schedule_finish token k))"

section \<open>Counting\<close>

definition nr_running :: "kernel \<Rightarrow> u32" where
  "nr_running k = sum_list (map (\<lambda>c. rq_nr_running (k_rqs k c)) (for_each_cpu k (k_online k)))"

definition single_task_running :: "kernel \<Rightarrow> bool" where
  "single_task_running k \<longleftrightarrow> rq_nr_running (k_rqs k (k_this_cpu k)) = 1"

definition nr_context_switches_cpu :: "kernel \<Rightarrow> cpu \<Rightarrow> u64" where
  "nr_context_switches_cpu k c = rq_nr_switches (k_rqs k c)"

definition nr_context_switches :: "kernel \<Rightarrow> u64" where
  "nr_context_switches k = sum_list (map (nr_context_switches_cpu k) (for_each_cpu k (k_possible k)))"

definition nr_iowait_cpu :: "kernel \<Rightarrow> cpu \<Rightarrow> u32" where
  "nr_iowait_cpu k c = word_of_int (rq_nr_iowait (k_rqs k c))"

definition nr_iowait :: "kernel \<Rightarrow> u32" where
  "nr_iowait k = sum_list (map (nr_iowait_cpu k) (for_each_cpu k (k_possible k)))"

section \<open>Balancing at exec\<close>

text \<open>
  \<open>stop_one_cpu\<close> runs a function on the stopper thread of a CPU and waits for it; \<open>env\<close> is
  what happens before, among it the switch of that CPU to its stopper.
\<close>

definition stop_one_cpu_migration ::
  "kapi \<Rightarrow> (kernel \<Rightarrow> kernel) \<Rightarrow> cpu \<Rightarrow> migration_arg \<Rightarrow> kernel \<Rightarrow> kernel" where
  "stop_one_cpu_migration a env c arg k =
     (let k = env k; here = k_this_cpu k
      in (migration_cpu_stop a arg (k\<lparr>k_this_cpu := c\<rparr>))\<lparr>k_this_cpu := here\<rparr>)"

definition sched_exec :: "kapi \<Rightarrow> (kernel \<Rightarrow> kernel) \<Rightarrow> kernel \<Rightarrow> kernel" where
  "sched_exec a env k =
     (let p = k_current k;
          (dest_cpu, k) = class_select_task_rq a (task_class k p) p (task_cpu k p) WF_EXEC k
      in if dest_cpu = k_this_cpu k then k
         else if \<not> cpu_active k dest_cpu then k
         else stop_one_cpu_migration a env (task_cpu k p)
                \<lparr>ma_task = p, ma_dest_cpu = dest_cpu, ma_pending = None\<rparr> k)"

section \<open>The tick\<close>

definition task_sched_runtime :: "kapi \<Rightarrow> tid \<Rightarrow> kernel \<Rightarrow> u64 \<times> kernel" where
  "task_sched_runtime a p k =
     (if \<not> t_on_cpu (k_tasks k p) \<or> \<not> task_on_rq_queued (k_tasks k p)
      then (se_sum_exec_runtime (t_se (k_tasks k p)), k)
      else let c = task_cpu k p;
               k = (if task_current k c p \<and> task_on_rq_queued (k_tasks k p)
                    then let k = update_rq_clock a c k in class_update_curr a (task_class k p) c k
                    else k)
           in (se_sum_exec_runtime (t_se (k_tasks k p)), k))"

definition cpu_resched_latency :: "cpu \<Rightarrow> kernel \<Rightarrow> u64 \<times> kernel" where
  "cpu_resched_latency c k =
     (let latency_warn_ms = k_sysctl_resched_latency_warn_ms k;
          now = rq_clock (k_rqs k c)
      in if k_sysctl_resched_latency_warn_once k \<and> k_resched_latency_warned k then (0, k)
         else if \<not> need_resched k \<or> latency_warn_ms = 0 then (0, k)
         else if k_system_booting k then (0, k)
         else if rq_last_seen_need_resched_ns (k_rqs k c) = 0
         then (0, upd_rq c (\<lambda>r. r\<lparr>rq_last_seen_need_resched_ns := now, rq_ticks_without_resched := 0\<rparr>) k)
         else let k = upd_rq c (\<lambda>r. r\<lparr>rq_ticks_without_resched := rq_ticks_without_resched r + 1\<rparr>) k;
                  resched_latency = now - rq_last_seen_need_resched_ns (k_rqs k c)
              in if resched_latency \<le> word_of_int latency_warn_ms * NSEC_PER_MSEC then (0, k)
                 else (resched_latency, k\<lparr>k_resched_latency_warned := True\<rparr>))"

definition scheduler_tick :: "kapi \<Rightarrow> kernel \<Rightarrow> kernel" where
  "scheduler_tick a k =
     (let c = k_this_cpu k;
          curr = rq_curr (k_rqs k c);
          k = ka_sched_clock_tick a k;
          k = update_rq_clock a c k;
          k = ka_update_thermal_load_avg a c k;
          k = class_task_tick a (task_class k curr) c curr False k;
          k = (if ka_sched_feat_LATENCY_WARN a then snd (cpu_resched_latency c k) else k);
          k = ka_calc_global_load_tick a c k;
          k = ka_sched_core_tick a c k;
          k = (if test_flag (t_flags (k_tasks k curr)) PF_WQ_WORKER then ka_wq_worker_tick a curr k else k);
          k = upd_rq c (\<lambda>r. r\<lparr>rq_idle_balance := idle_cpu k c\<rparr>) k
      in ka_trigger_load_balance a c k)"

end
