(* ===== verification/Wake_Correct.thy ===== *)
theory Wake_Correct
  imports Schedule Load_Frame Sample_Kapi
begin

text \<open>
  What sleeping and waking guarantee: a wakeup that reports success has woken the task or
  handed it to another CPU, the count of uninterruptible tasks comes out even, and waiting
  for a task to become inactive ends once it is.
\<close>

section \<open>Observations\<close>

definition uninterruptible :: "kernel \<Rightarrow> cpu \<Rightarrow> int" where
  "uninterruptible k = (\<lambda>c. fst (snd (snd (load_view k c))))"

definition states :: "kernel \<Rightarrow> tid \<Rightarrow> u32" where
  "states k = (\<lambda>q. t_state (public_tasks k q))"

lemma observations: "uninterruptible k c = rq_nr_uninterruptible (k_rqs k c)" "states k q = t_state (k_tasks k q)"
  by (simp_all add: uninterruptible_def load_view_def states_def public_tasks_def Let_def)

interpretation unint: queue_observer uninterruptible
  using load.observe_part [of "\<lambda>v c. fst (snd (snd (v c)))"] by (simp add: uninterruptible_def [abs_def])

interpretation st: queue_observer states
  using pub.observe_part [of "\<lambda>v q. t_state (v q)"] by (simp add: states_def [abs_def])

lemma uninterruptible_upd [simp]:
  "uninterruptible (upd_task p f k) = uninterruptible k"
  "(\<And>r. rq_nr_uninterruptible (h r) = rq_nr_uninterruptible r) \<Longrightarrow> uninterruptible (upd_rq c h k) = uninterruptible k"
  by (simp_all add: observations fun_eq_iff)

lemma states_upd [simp]:
  "states (upd_rq c h k) = states k"
  "(\<And>t. t_state (f t) = t_state t) \<Longrightarrow> states (upd_task p f k) = states k"
  by (simp_all add: observations fun_eq_iff)

section \<open>Sleep and wakeup balance\<close>

definition total_uninterruptible :: "kernel \<Rightarrow> int \<Rightarrow> int" where
  "total_uninterruptible k n = (\<Sum>c \<in> {0..<n}. uninterruptible k c)"

lemma total_change:
  assumes "c \<in> {0..<n}"
    and "uninterruptible k' = (uninterruptible k)(c := uninterruptible k c + d)"
  shows "total_uninterruptible k' n = total_uninterruptible k n + d"
  using assms by (simp add: total_uninterruptible_def sum.remove [of "{0..<n}" c])

lemma uninterruptible_schedule_deactivate:
  assumes "class_ops_keep uninterruptible a" "class_ops_keep public_tasks a"
    and "\<not> test_flag sched_mode SM_MASK_PREEMPT" "t_state (k_tasks k p) \<noteq> 0"
    and "\<not> ka_signal_pending_state a k (t_state (k_tasks k p)) p"
    and k': "k' = snd (schedule_deactivate a sched_mode c p k)"
  shows "uninterruptible k' = (uninterruptible k)(c := uninterruptible k c +
      (if sleep_contributes_to_load (t_state (k_tasks k p)) then 1 else 0))"
    "t_sched_contributes_to_load (k_tasks k' p) = sleep_contributes_to_load (t_state (k_tasks k p))"
proof -
  define load where "load = sleep_contributes_to_load (t_state (k_tasks k p))"
  define k1 where "k1 = upd_task p (\<lambda>t. t\<lparr>t_sched_contributes_to_load := load\<rparr>) k"
  define k2 where "k2 = (if load then upd_rq c (\<lambda>r. r\<lparr>rq_nr_uninterruptible := rq_nr_uninterruptible r + 1\<rparr>) k1 else k1)"
  define k3 where "k3 = deactivate_task a c p (DEQUEUE_SLEEP OR DEQUEUE_NOCLOCK) k2"
  have "public_tasks k3 = public_tasks (upd_task p (\<lambda>t. t\<lparr>t_on_rq := 0\<rparr>) k2)"
    using pub.keep_dequeue [OF assms(2)] by (simp add: k3_def deactivate_task_def test_flag_def queue_flag_consts)
  then have c3: "t_sched_contributes_to_load (k_tasks k3 p) = load"
    using public_fields(13) [of k3 "upd_task p (\<lambda>t. t\<lparr>t_on_rq := 0\<rparr>) k2" p] by (simp add: k2_def k1_def)
  have u3: "uninterruptible k3 = uninterruptible k2"
    using unint.keep_dequeue [OF assms(1)] by (simp add: k3_def deactivate_task_def)
  have "k' = (if t_in_iowait (k_tasks k3 p) then upd_rq c (\<lambda>r. r\<lparr>rq_nr_iowait := rq_nr_iowait r + 1\<rparr>) k3 else k3)"
    using assms(3-5) by (simp add: k' schedule_deactivate_def Let_def k1_def k2_def k3_def load_def)
  then show "uninterruptible k' = (uninterruptible k)(c := uninterruptible k c + (if load then 1 else 0))"
    "t_sched_contributes_to_load (k_tasks k' p) = load"
    using u3 c3 by (auto simp: k2_def k1_def observations fun_eq_iff)
qed

text \<open>The hooks of the other classes for a woken task.\<close>

definition woken_keeps :: "(kernel \<Rightarrow> 'b) \<Rightarrow> kapi \<Rightarrow> bool" where
  "woken_keeps obs a \<longleftrightarrow> (\<forall>cls f c p k. ka_task_woken a cls = Some f \<longrightarrow> obs (f c p k) = obs k)"

lemma ttwu_do_activate_steps:
  obtains k1 k2 k3 flags where
    "k1 = (if t_sched_contributes_to_load (k_tasks k p)
       then upd_rq c (\<lambda>r. r\<lparr>rq_nr_uninterruptible := rq_nr_uninterruptible r - 1\<rparr>) k else k)"
    "k2 = wakeup_preempt a c p wake_flags (activate_task a c p flags
       (if \<not> test_flag wake_flags WF_MIGRATED \<and> t_in_iowait (k_tasks k p) then dec_nr_iowait p k1 else k1))"
    "k3 = ttwu_do_wakeup p k2"
    "ttwu_do_activate a c p wake_flags k = upd_task p (\<lambda>t. t\<lparr>t_dl_server := False\<rparr>)
       (upd_rq c (update_avg_idle a)
         (case class_task_woken a (task_class k3 p) of Some f \<Rightarrow> f c p k3 | None \<Rightarrow> k3))"
  by (rule that, (rule refl)+) (simp only: ttwu_do_activate_def Let_def)

lemma keep_woken:
  assumes "woken_keeps obs a"
  shows "obs (case class_task_woken a cls of Some f \<Rightarrow> f c p k | None \<Rightarrow> k) = obs k"
  using assms by (auto simp: class_task_woken_def woken_keeps_def split: option.split)

lemma uninterruptible_ttwu_do_activate:
  assumes "class_ops_keep uninterruptible a" "woken_keeps uninterruptible a"
  shows "uninterruptible (ttwu_do_activate a c p wake_flags k) = (uninterruptible k)(c := uninterruptible k c -
      (if t_sched_contributes_to_load (k_tasks k p) then 1 else 0))"
proof (rule ttwu_do_activate_steps [of k p c a wake_flags])
  fix k1 k2 k3 flags
  assume k1: "k1 = (if t_sched_contributes_to_load (k_tasks k p)
       then upd_rq c (\<lambda>r. r\<lparr>rq_nr_uninterruptible := rq_nr_uninterruptible r - 1\<rparr>) k else k)"
    and k2: "k2 = wakeup_preempt a c p wake_flags (activate_task a c p flags
       (if \<not> test_flag wake_flags WF_MIGRATED \<and> t_in_iowait (k_tasks k p) then dec_nr_iowait p k1 else k1))"
    and k3: "k3 = ttwu_do_wakeup p k2"
    and r: "ttwu_do_activate a c p wake_flags k = upd_task p (\<lambda>t. t\<lparr>t_dl_server := False\<rparr>)
       (upd_rq c (update_avg_idle a)
         (case class_task_woken a (task_class k3 p) of Some f \<Rightarrow> f c p k3 | None \<Rightarrow> k3))"
  have act: "uninterruptible (activate_task a c p f k) = uninterruptible k" for f k
    using unint.keep_enqueue [OF assms(1)] by (simp add: activate_task_def Let_def)
  have "uninterruptible (upd_rq c (update_avg_idle a) k) = uninterruptible k" for k
    by (simp add: update_avg_idle_def Let_def)
  then have "uninterruptible (ttwu_do_activate a c p wake_flags k) = uninterruptible k3"
    using keep_woken [OF assms(2)] by (simp add: r)
  also have "\<dots> = uninterruptible k1"
    using unint.keep_wakeup_preempt [OF assms(1)] by (simp add: k3 k2 ttwu_do_wakeup_def dec_nr_iowait_def act)
  also have "\<dots> = (uninterruptible k)(c := uninterruptible k c -
      (if t_sched_contributes_to_load (k_tasks k p) then 1 else 0))"
    by (simp add: k1 observations fun_eq_iff)
  finally show ?thesis .
qed

text \<open>
  The number of uninterruptible tasks comes out even: a sleep adds one on the CPU the task
  leaves exactly if the sleep counts as load, and the wakeup, on whatever CPU it activates
  the task, takes the same away again.
\<close>

theorem uninterruptible_balance:
  assumes "class_ops_keep uninterruptible a" "class_ops_keep public_tasks a" "woken_keeps uninterruptible a"
    and "\<not> test_flag sched_mode SM_MASK_PREEMPT" "t_state (k_tasks k p) \<noteq> 0"
    and "\<not> ka_signal_pending_state a k (t_state (k_tasks k p)) p" "c \<in> {0..<n}" "d \<in> {0..<n}"
    and asleep: "t_sched_contributes_to_load (k_tasks k2 p) = t_sched_contributes_to_load (k_tasks k1 p)"
    and k1: "k1 = snd (schedule_deactivate a sched_mode c p k)"
  shows "total_uninterruptible k1 n - total_uninterruptible k n =
      (if sleep_contributes_to_load (t_state (k_tasks k p)) then 1 else 0) \<and>
    total_uninterruptible k1 n - total_uninterruptible k n =
      total_uninterruptible k2 n - total_uninterruptible (ttwu_do_activate a d p wake_flags k2) n"
proof -
  note s = uninterruptible_schedule_deactivate [OF assms(1,2,4-6) k1]
  have w: "uninterruptible (ttwu_do_activate a d p wake_flags k2) = (uninterruptible k2)(d := uninterruptible k2 d +
      - (if sleep_contributes_to_load (t_state (k_tasks k p)) then 1 else 0))"
    using uninterruptible_ttwu_do_activate [OF assms(1,3), of d p wake_flags k2] asleep s(2) by simp
  show ?thesis using total_change [OF assms(7) s(1)] total_change [OF assms(8) w] by simp
qed

theorem uninterruptible_balance_witness:
  "let k = upd_task 10 (\<lambda>t. t\<lparr>t_state := TASK_UNINTERRUPTIBLE\<rparr>) sample_kernel;
       k1 = snd (schedule_deactivate sample_kapi 0 1 10 k)
   in total_uninterruptible k1 4 - total_uninterruptible k 4 = 1 \<and>
      total_uninterruptible k1 4 - total_uninterruptible (ttwu_do_activate sample_kapi 2 10 0 k1) 4 = 1"
proof -
  define k where "k = upd_task 10 (\<lambda>t. t\<lparr>t_state := TASK_UNINTERRUPTIBLE\<rparr>) sample_kernel"
  have keep: "class_ops_keep uninterruptible sample_kapi" "class_ops_keep public_tasks sample_kapi"
    "woken_keeps uninterruptible sample_kapi"
    by (simp_all add: class_ops_keep_sample class_ops_keep_def woken_keeps_def) (simp_all add: sample_kapi_def)
  have st: "t_state (k_tasks k 10) = TASK_UNINTERRUPTIBLE" by (simp add: k_def)
  have "sleep_contributes_to_load TASK_UNINTERRUPTIBLE"
    by (simp add: sleep_contributes_to_load_def test_flag_def task_state_consts)
  moreover have "\<not> ka_signal_pending_state sample_kapi k (t_state (k_tasks k 10)) 10"
    "\<not> test_flag (0 :: u32) SM_MASK_PREEMPT" "t_state (k_tasks k 10) \<noteq> 0"
    by (simp_all add: sample_kapi_def st task_state_consts)
  ultimately show ?thesis
    using uninterruptible_balance [OF keep, where k = k and p = 10 and c = 1 and d = 2 and n = 4 and
        sched_mode = 0 and wake_flags = 0, OF _ _ _ _ _ refl refl] st
    by (simp add: k_def [symmetric] Let_def)
qed

section \<open>The wakeup\<close>

text \<open>What finding a CPU and handing a task over leave alone: the states of the tasks.\<close>

definition wake_ops_keep :: "kapi \<Rightarrow> bool" where
  "wake_ops_keep a \<longleftrightarrow> class_ops_keep states a \<and> woken_keeps states a \<and>
     (\<forall>cls p c f k. states (snd (ka_select_task_rq a cls p c f k)) = states k) \<and>
     (\<forall>cls p ctx k. states (snd (ka_set_cpus_allowed a cls p ctx k)) = states k) \<and>
     (\<forall>p k. states (snd (ka_cpuset_cpus_allowed_fallback a p k)) = states k) \<and>
     (\<forall>p c k. states (ka_set_task_cpu a p c k) = states k) \<and>
     (\<forall>cls f p c k. ka_migrate_task_rq a cls = Some f \<longrightarrow> states (f p c k) = states k) \<and>
     (\<forall>c p k. states (ka_smp_call_single_queue a c p k) = states k \<and>
        rq_ttwu_pending (k_rqs (ka_smp_call_single_queue a c p k) c) = rq_ttwu_pending (k_rqs k c))"

lemma states_do_set_cpus_allowed:
  assumes "wake_ops_keep a"
  shows "states (do_set_cpus_allowed a p m k) = states k"
proof -
  have "class_ops_keep states a" using assms by (simp add: wake_ops_keep_def)
  note keep = st.keep_ops [OF this]
  have "states (snd (class_set_cpus_allowed a cls p ctx k)) = states k" for cls ctx k
    using assms by (simp add: class_set_cpus_allowed_def set_cpus_allowed_yat_casched_def wake_ops_keep_def)
  then show ?thesis by (simp add: do_set_cpus_allowed_def us_do_set_cpus_allowed_def Let_def split_beta keep)
qed

lemma states_select_task_rq:
  assumes "wake_ops_keep a"
  shows "states (snd (select_task_rq a p c f k)) = states k"
proof -
  have "states (snd (fallback_widen a p k)) = states k" for k
    by (simp add: fallback_widen_def fallback_fail_def states_do_set_cpus_allowed [OF assms] split: option.split)
      (simp add: observations fun_eq_iff states_do_set_cpus_allowed [OF assms, unfolded observations fun_eq_iff])
  then have "states (snd (fallback_cpuset a p k)) = states k" for k
    using assms
    by (simp add: fallback_cpuset_def fallback_possible_def wake_ops_keep_def split_beta split: option.split)
  then have fb: "states (snd (select_fallback_rq a c p k)) = states k" for c k
    by (simp add: select_fallback_rq_def Let_def split: option.split)
  have "states (snd (class_select_task_rq a cls p c f k)) = states k" for cls
    using assms
    by (simp add: class_select_task_rq_def select_task_rq_yat_casched_def upd_yat_se_def wake_ops_keep_def Let_def)
  then show ?thesis by (simp add: select_task_rq_def Let_def split_beta fb)
qed

lemma states_set_task_cpu:
  assumes "wake_ops_keep a"
  shows "states (set_task_cpu a p c k) = states k"
proof -
  have "states (case class_migrate_task_rq a cls of Some f \<Rightarrow> f p c k | None \<Rightarrow> k) = states k" for cls k
    using assms by (auto simp: class_migrate_task_rq_def wake_ops_keep_def split: option.split)
  then show ?thesis using assms by (simp add: set_task_cpu_def wake_ops_keep_def Let_def)
qed

text \<open>Woken: running, or on its way over the wake list of a CPU.\<close>

definition woken :: "tid \<Rightarrow> kernel \<Rightarrow> bool" where
  "woken p k \<longleftrightarrow> states k p = TASK_RUNNING \<or>
     states k p = TASK_WAKING \<and> (\<exists>c. rq_ttwu_pending (k_rqs k c))"

lemma ttwu_do_activate_woken:
  assumes "wake_ops_keep a"
  shows "woken p (ttwu_do_activate a c p wake_flags k)"
proof (rule ttwu_do_activate_steps [of k p c a wake_flags])
  fix k1 k2 k3 flags
  assume k3: "k3 = ttwu_do_wakeup p k2"
    and r: "ttwu_do_activate a c p wake_flags k = upd_task p (\<lambda>t. t\<lparr>t_dl_server := False\<rparr>)
       (upd_rq c (update_avg_idle a)
         (case class_task_woken a (task_class k3 p) of Some f \<Rightarrow> f c p k3 | None \<Rightarrow> k3))"
  have "woken_keeps states a" using assms by (simp add: wake_ops_keep_def)
  then have "states (ttwu_do_activate a c p wake_flags k) = states k3" using keep_woken by (simp add: r)
  then show ?thesis by (simp add: woken_def k3 ttwu_do_wakeup_def observations)
qed

lemma ttwu_wakelist_woken:
  assumes "wake_ops_keep a" "ttwu_queue_wakelist a p c wake_flags k = (queued, k')"
  shows "\<not> queued \<Longrightarrow> k' = k" "queued \<Longrightarrow> states k p = TASK_WAKING \<Longrightarrow> woken p k'"
proof -
  show "\<not> queued \<Longrightarrow> k' = k" using assms(2) by (auto simp: ttwu_queue_wakelist_def split: if_splits)
  assume "queued" "states k p = TASK_WAKING"
  moreover have "states (us_ttwu_queue_wakelist a p c wake_flags k) = states k"
    "rq_ttwu_pending (k_rqs (us_ttwu_queue_wakelist a p c wake_flags k) c)"
    using assms(1) by (simp_all add: us_ttwu_queue_wakelist_def wake_ops_keep_def Let_def)
  ultimately show "woken p k'" using assms(2) by (auto simp: ttwu_queue_wakelist_def woken_def split: if_splits)
qed

lemma ttwu_place_woken:
  assumes "wake_ops_keep a" "states k p = TASK_WAKING"
  shows "woken p (snd (ttwu_place a p wake_flags k))"
proof -
  have queue: "woken p (ttwu_queue a p c f k)" if "states k p = TASK_WAKING" for c f k
  proof -
    obtain queued k' where q: "ttwu_queue_wakelist a p c f k = (queued, k')" by fastforce
    show ?thesis
      using ttwu_wakelist_woken [OF assms(1) q] ttwu_do_activate_woken [OF assms(1)] that
      by (simp add: ttwu_queue_def q)
  qed
  have "states (dec_nr_iowait p k) = states k" for k by (simp add: dec_nr_iowait_def)
  then show ?thesis
    using states_select_task_rq [OF assms(1)] assms(2)
    by (auto simp: ttwu_place_def split_beta Let_def states_set_task_cpu [OF assms(1)] intro!: queue)
qed

lemma ttwu_wake_woken:
  assumes "wake_ops_keep a" and env: "\<And>k. states (env k) p = states k p"
    and wake: "ttwu_wake a env p wake_flags k = Some (wake_flags', k')"
  shows "woken p k'"
proof (cases "t_on_rq (k_tasks k p) \<noteq> 0 \<and> fst (ttwu_runnable a p wake_flags k)")
  case True
  then have "k' = snd (ttwu_runnable a p wake_flags k)" using wake by (auto simp: ttwu_wake_def split_beta)
  then show ?thesis
    using True by (simp add: ttwu_runnable_def ttwu_do_wakeup_def woken_def observations Let_def split: if_splits)
next
  case False
  define k1 where "k1 = upd_task p (\<lambda>t. t\<lparr>t_state := TASK_WAKING\<rparr>) k"
  have 1: "states k1 p = TASK_WAKING" by (simp add: k1_def observations)
  have same: "(if t_on_rq (k_tasks k p) \<noteq> 0 then ttwu_runnable a p wake_flags k else (False, k)) = (False, k)"
    using False by (auto simp: ttwu_runnable_def Let_def)
  obtain queued k2 where 2: "(if t_on_cpu (k_tasks k1 p)
      then ttwu_queue_wakelist a p (task_cpu k1 p) wake_flags k1 else (False, k1)) = (queued, k2)" by fastforce
  have w: "(if queued then Some (wake_flags, k2)
      else map_option (ttwu_place a p wake_flags) (wait_off_cpu env p k2)) = Some (wake_flags', k')"
    using wake by (simp only: ttwu_wake_def same Let_def prod.case if_False k1_def [symmetric] 2)
  show ?thesis
  proof (cases queued)
    case True
    then show ?thesis
      using 2 w ttwu_wakelist_woken(2) [OF assms(1) _ _ 1] by (auto split: if_splits)
  next
    case False
    then have k2: "k2 = k1" using 2 ttwu_wakelist_woken(1) [OF assms(1)] by (auto split: if_splits)
    obtain k3 where k3: "wait_off_cpu env p k1 = Some k3" "k' = snd (ttwu_place a p wake_flags k3)"
      using w False by (auto simp: k2)
    then have "states k3 p = TASK_WAKING" using 1 env by (auto simp: wait_off_cpu_def Let_def split: if_splits)
    then show ?thesis using ttwu_place_woken [OF assms(1)] k3(2) by simp
  qed
qed


text \<open>A sleeping task of CPU 0, woken there.\<close>

definition sample_waiter :: kernel where
  "sample_waiter = upd_task 10 (\<lambda>t. t\<lparr>t_state := TASK_INTERRUPTIBLE, t_on_rq := 0\<rparr>) sample_kernel"

lemma wake_ops_keep_sample: "wake_ops_keep sample_kapi"
  by (simp add: wake_ops_keep_def class_ops_keep_def woken_keeps_def sample_kapi_def split: option.split)


section \<open>Waiting for a task to be inactive\<close>

text \<open>A task that is running on a CPU at first.\<close>

definition sample_busy :: kernel where
  "sample_busy = upd_task 10 (\<lambda>t. t\<lparr>t_on_rq := TASK_ON_RQ_QUEUED, t_on_cpu := True,
     t_state := TASK_INTERRUPTIBLE\<rparr>) sample_kernel"

definition settled :: "tid \<Rightarrow> u32 \<Rightarrow> kernel \<Rightarrow> bool" where
  "settled p m k \<longleftrightarrow> \<not> t_on_cpu (k_tasks k p) \<and> \<not> task_on_rq_queued (k_tasks k p) \<and>
     0 \<le> us_task_state_match (k_tasks k p) m"

text \<open>A proper result: that the task was not in a matching state, or that it was inactive.\<close>

definition inactive_result :: "tid \<Rightarrow> u32 \<Rightarrow> (u64 \<times> kernel) option \<Rightarrow> bool" where
  "inactive_result p m res \<longleftrightarrow> (\<exists>r k. res = Some (r, k) \<and>
     (r \<noteq> 0 \<longrightarrow> settled p m k \<and> us_task_state_match (k_tasks k p) m = 1))"

lemma inactive_result_simps [simp]:
  "inactive_result p m (Some (0, k))" "\<not> inactive_result p m None"
  "r \<noteq> 0 \<Longrightarrow> inactive_result p m (Some (r, k)) \<longleftrightarrow> settled p m k \<and> us_task_state_match (k_tasks k p) m = 1"
  by (simp_all add: inactive_result_def)

lemma or_long_min [simp]: "w OR LONG_MIN \<noteq> 0"
proof -
  have m: "LONG_MIN = push_bit 63 1" by (simp add: LONG_MIN_def push_bit_eq_mult)
  have "bit LONG_MIN 63" unfolding m by (simp add: bit_push_bit_iff)
  then have "bit (w OR LONG_MIN) 63" by (simp add: bit_or_iff)
  then show ?thesis by (metis bit_0_eq bot_apply bot_bool_def)
qed

text \<open>One round for a task that is off its CPU.\<close>

lemma wait_round:
  assumes "\<not> t_on_cpu (k_tasks k p)"
    and "t_on_cpu (k_tasks (env n k) p) \<Longrightarrow> inactive_result p m (wait_task_inactive env (n + 1) p m (env n k))"
    and "\<not> settled p m (env n k) \<Longrightarrow> inactive_result p m (wait_task_inactive env (n + 2) p m
      (env (n + 1) (set_current_state TASK_UNINTERRUPTIBLE (env n k))))"
  shows "inactive_result p m (wait_task_inactive env n p m k)"
proof -
  have "us_task_state_match t m = 1" if "us_task_state_match t m \<noteq> 0" "\<not> us_task_state_match t m < 0" for t
    using that by (simp add: us_task_state_match_def split: if_splits)
  then show ?thesis
    using assms
    by (subst wait_task_inactive.simps) (auto simp: Let_def settled_def)
qed

lemma wait_settled:
  assumes "\<And>k. settled p m (env n k)" "\<not> t_on_cpu (k_tasks k p)"
  shows "inactive_result p m (wait_task_inactive env n p m k)"
  by (rule wait_round) (use assms in \<open>auto simp: settled_def\<close>)

text \<open>
  \<open>wait_task_inactive\<close> returns if from some moment on the task stays off its CPU and off the
  run queues, whatever happened before; and a result other than 0 means that the task was
  inactive, in a matching state, when the result was computed.
\<close>

theorem wait_task_inactive_returns:
  assumes "\<forall>n k. N \<le> n \<longrightarrow> settled p m (env n k)"
  shows "\<exists>r k'. wait_task_inactive env n p m k = Some (r, k') \<and>
    (r \<noteq> 0 \<longrightarrow> settled p m k' \<and> us_task_state_match (k_tasks k' p) m = 1)"
proof -
  have "inactive_result p m (wait_task_inactive env n p m k)"
  proof (induction "N - n" arbitrary: n k rule: less_induct)
    case less
    have again: "inactive_result p m (wait_task_inactive env i p m k')"
      if "n < i" "N \<le> n \<Longrightarrow> \<not> t_on_cpu (k_tasks k' p)" for i k'
    proof (cases "N \<le> n")
      case True
      then show ?thesis using wait_settled [of p m env i k'] assms that by simp
    next
      case False
      then show ?thesis using less [of i k'] that(1) by simp
    qed
    have off: "N \<le> i \<Longrightarrow> \<not> t_on_cpu (k_tasks (env i k') p)" for i k'
      using assms by (simp add: settled_def)
    show ?case
    proof (cases "t_on_cpu (k_tasks k p)")
      case True
      then show ?thesis
        using again [of "n + 1" "env n k"] off by (subst wait_task_inactive.simps) simp
    next
      case False
      then show ?thesis by (rule wait_round) (use off in \<open>auto intro!: again\<close>)
    qed
  qed
  then show ?thesis by (simp add: inactive_result_def)
qed

theorem wait_task_inactive_returns_witness:
  "\<exists>r k'. wait_task_inactive
     (\<lambda>n k. if n < 3 then k else upd_task 10 (\<lambda>t. t\<lparr>t_on_cpu := False, t_on_rq := 0, t_saved_state := 0\<rparr>) k)
     0 10 TASK_NORMAL sample_busy = Some (r, k')"
proof -
  have "\<forall>n k. 3 \<le> n \<longrightarrow> settled 10 TASK_NORMAL (if n < (3 :: nat) then k
      else upd_task 10 (\<lambda>t. t\<lparr>t_on_cpu := False, t_on_rq := 0, t_saved_state := 0\<rparr>) k)"
    by (simp add: settled_def task_on_rq_queued_def rq_flag_consts us_task_state_match_def)
  from wait_task_inactive_returns [OF this, of 0 sample_busy] show ?thesis by blast
qed

end
