(* ===== verification/Fork_Init.thy ===== *)
theory Fork_Init
  imports Wakeup Prio Uclamp_Control
begin

text \<open>
  The life of a task before it runs (\<open>core.c\<close>): fork, its first wakeup, the idle threads
  and the boot-time initialisation of the run queues.  Fields of a task that the model does
  not have (list nodes of other classes, accounting, the mm) are left out; what other files
  initialise is a parameter.
\<close>

section \<open>Fork\<close>

definition us_sched_fork :: "kapi \<Rightarrow> u64 \<Rightarrow> tid \<Rightarrow> kernel \<Rightarrow> kernel" where
  "us_sched_fork a clone_flags p k =
     (let k = upd_task p (\<lambda>t. t\<lparr>t_on_rq := 0,
            t_se := (t_se t)\<lparr>se_on_rq := 0, se_exec_start := 0, se_sum_exec_runtime := 0,
              se_prev_sum_exec_runtime := 0, se_nr_migrations := 0, se_vruntime := 0, se_vlag := 0,
              se_slice := ucast (k_sysctl_sched_base_slice k)\<rparr>,
            t_stats := \<lparr>ss_nr_wakeups = 0, ss_nr_wakeups_sync = 0, ss_nr_wakeups_migrate = 0,
              ss_nr_wakeups_local = 0, ss_nr_wakeups_remote = 0\<rparr>\<rparr>) k;
          k = ka_init_dl_entity a p k;
          k = upd_task p (\<lambda>t. t\<lparr>
            t_rt := \<lparr>rt_timeout = 0, rt_time_slice = k_sched_rr_timeslice k, rt_on_rq = 0, rt_on_list = 0\<rparr>,
            t_yat_casched := \<lparr>yse_run_list = None, yse_vruntime = 0, yse_slice = 0, yse_last_cpu = -1\<rparr>\<rparr>) k;
          k = ka_init_numa_balancing a clone_flags p k
      in upd_task p (\<lambda>t. t\<lparr>t_migration_pending := None\<rparr>) k)"

text \<open>Reverting to the defaults when \<open>sched_reset_on_fork\<close> is set.\<close>

definition sched_fork_reset :: "kapi \<Rightarrow> tid \<Rightarrow> kernel \<Rightarrow> kernel" where
  "sched_fork_reset a p k =
     (let t = k_tasks k p;
          k = (if ka_dl_policy a (t_policy t) \<or> ka_rt_policy a (t_policy t)
               then upd_task p (\<lambda>t. t\<lparr>t_policy := SCHED_NORMAL, t_static_prio := NICE_TO_PRIO 0,
                                      t_rt_priority := 0\<rparr>) k
               else if PRIO_TO_NICE (t_static_prio t) < 0
               then upd_task p (\<lambda>t. t\<lparr>t_static_prio := NICE_TO_PRIO 0\<rparr>) k else k);
          k = upd_task p (\<lambda>t. t\<lparr>t_prio := t_static_prio t, t_normal_prio := t_static_prio t\<rparr>) k;
          k = set_load_weight a p False k
      in upd_task p (\<lambda>t. t\<lparr>t_sched_reset_on_fork := False\<rparr>) k)"

definition sched_fork :: "kapi \<Rightarrow> u64 \<Rightarrow> tid \<Rightarrow> kernel \<Rightarrow> int \<times> kernel" where
  "sched_fork a clone_flags p k =
     (let k = us_sched_fork a clone_flags p k;
          k = upd_task p (\<lambda>t. t\<lparr>t_state := TASK_NEW\<rparr>) k;
          k = upd_task p (\<lambda>t. t\<lparr>t_prio := t_normal_prio (k_tasks k (k_current k))\<rparr>) k;
          k = uclamp_fork p k;
          k = (if t_sched_reset_on_fork (k_tasks k p) then sched_fork_reset a p k else k);
          prio = t_prio (k_tasks k p)
      in if dl_prio prio then (- EAGAIN, k)
         else let k = upd_task p (\<lambda>t. t\<lparr>t_sched_class :=
                        (if rt_prio prio then rt_sched_class else fair_sched_class)\<rparr>) k;
                  k = ka_init_entity_runnable_average a p k
              in (0, upd_task p (\<lambda>t. t\<lparr>t_on_cpu := False\<rparr>) k))"

text \<open>\<open>tg\<close> is the group of the control group the child is created in.\<close>

definition sched_cgroup_fork :: "kapi \<Rightarrow> tgid \<Rightarrow> tid \<Rightarrow> kernel \<Rightarrow> kernel" where
  "sched_cgroup_fork a tg p k =
     (let k = upd_task p (\<lambda>t. t\<lparr>t_sched_task_group := ka_autogroup_task_group a k p tg\<rparr>) k;
          k = ka_set_task_cpu a p (k_this_cpu k) k
      in case class_task_fork a (task_class k p) of Some f \<Rightarrow> f p k | None \<Rightarrow> k)"

definition sched_post_fork :: "tid \<Rightarrow> kernel \<Rightarrow> kernel" where
  "sched_post_fork p = uclamp_post_fork p"

definition wake_up_new_task :: "kapi \<Rightarrow> tid \<Rightarrow> kernel \<Rightarrow> kernel" where
  "wake_up_new_task a p k =
     (let k = upd_task p (\<lambda>t. t\<lparr>t_state := TASK_RUNNING\<rparr>) k;
          k = upd_task p (\<lambda>t. t\<lparr>t_recent_used_cpu := task_cpu k p\<rparr>) k;
          (c, k) = select_task_rq a p (task_cpu k p) WF_FORK k;
          k = ka_set_task_cpu a p c k;
          c = task_cpu k p;
          k = update_rq_clock a c k;
          k = ka_post_init_entity_util_avg a p k;
          k = activate_task a c p ENQUEUE_NOCLOCK k;
          k = wakeup_preempt a c p WF_FORK k
      in case class_task_woken a (task_class k p) of Some f \<Rightarrow> f c p k | None \<Rightarrow> k)"

section \<open>Schedstats\<close>

definition set_schedstats :: "bool \<Rightarrow> kernel \<Rightarrow> kernel" where
  "set_schedstats enabled k = k\<lparr>k_schedstat_enabled := enabled\<rparr>"

definition force_schedstat_enabled :: "kernel \<Rightarrow> kernel" where
  "force_schedstat_enabled k =
     (if \<not> k_schedstat_enabled k then k\<lparr>k_schedstat_enabled := True\<rparr> else k)"

definition setup_schedstats :: "string option \<Rightarrow> kernel \<Rightarrow> int \<times> kernel" where
  "setup_schedstats str k =
     (case str of
        None \<Rightarrow> (0, k)
      | Some s \<Rightarrow> if s = ''enable'' then (1, set_schedstats True k)
                  else if s = ''disable'' then (1, set_schedstats False k) else (0, k))"

text \<open>
  \<open>proc_dointvec_minmax\<close> on a copy of the state: its error and the value it leaves there;
  \<open>capable\<close> is \<open>CAP_SYS_ADMIN\<close>.
\<close>

definition sysctl_schedstats ::
  "bool \<Rightarrow> (int \<Rightarrow> int \<times> int) \<Rightarrow> bool \<Rightarrow> kernel \<Rightarrow> int \<times> kernel" where
  "sysctl_schedstats capable dointvec write k =
     (let state = (if k_schedstat_enabled k then 1 else 0)
      in if write \<and> \<not> capable then (- EPERM, k)
         else let (err, state) = dointvec state
              in if err < 0 then (err, k)
                 else (err, if write then set_schedstats (state \<noteq> 0) k else k))"

section \<open>Idle threads\<close>

definition init_idle :: "kapi \<Rightarrow> tid \<Rightarrow> cpu \<Rightarrow> kernel \<Rightarrow> kernel" where
  "init_idle a idle c k =
     (let k = us_sched_fork a 0 idle k;
          k = upd_task idle (\<lambda>t. t\<lparr>t_state := TASK_RUNNING,
                t_se := (t_se t)\<lparr>se_exec_start := ka_sched_clock a k\<rparr>,
                t_flags := set_flag (t_flags t) (PF_KTHREAD OR PF_NO_SETAFFINITY)\<rparr>) k;
          k = ka_kthread_set_per_cpu a idle c k;
          k = snd (set_cpus_allowed_common idle
                     \<lparr>ac_new_mask = Some {c}, ac_user_mask = None, ac_flags = 0\<rparr> k);
          k = ka_set_task_cpu a idle c k;
          k = upd_rq c (\<lambda>r. r\<lparr>rq_idle := idle, rq_curr := idle\<rparr>) k
      in upd_task idle (\<lambda>t. t\<lparr>t_on_rq := TASK_ON_RQ_QUEUED, t_on_cpu := True,
                              t_sched_class := idle_sched_class\<rparr>) k)"

section \<open>Boot\<close>

text \<open>\<open>LOAD_FREQ\<close> of \<open>loadavg.h\<close>: five seconds and a tick.\<close>

definition LOAD_FREQ :: "kernel \<Rightarrow> u64" where "LOAD_FREQ k = 5 * k_HZ k + 1"

definition balance_push_set :: "cpu \<Rightarrow> bool \<Rightarrow> kernel \<Rightarrow> kernel" where
  "balance_push_set c on =
     upd_rq c (\<lambda>r. if on then r\<lparr>rq_balance_callback := [CB_balance_push]\<rparr>
                   else if rq_balance_callback r = [CB_balance_push] then r\<lparr>rq_balance_callback := []\<rparr>
                   else r)"

text \<open>The body of the loop of \<open>sched_init\<close> over the possible CPUs.\<close>

definition sched_init_rq :: "kapi \<Rightarrow> cpu \<Rightarrow> kernel \<Rightarrow> kernel" where
  "sched_init_rq a i k =
     (let k = upd_rq i (\<lambda>r. r\<lparr>rq_nr_running := 0, rq_calc_load_active := 0,
                rq_calc_load_update := k_jiffies k + LOAD_FREQ k\<rparr>) k;
          k = ka_init_class_rqs a i k;
          k = init_yat_casched_rq i k;
          cost = ka_sysctl_sched_migration_cost a;
          k = upd_rq i (\<lambda>r. r\<lparr>rq_domains := [], rq_rd := None, rq_cpu_capacity := 1024,
                rq_balance_callback := [CB_balance_push], rq_active_balance := 0,
                rq_next_balance := k_jiffies k, rq_push_cpu := 0, rq_cpu := i, rq_online := False,
                rq_idle_stamp := 0, rq_avg_idle := 2 * cost, rq_max_idle_balance_cost := cost\<rparr>) k;
          k = ka_rq_attach_root a i k;
          k = upd_rq i (\<lambda>r. r\<lparr>rq_last_blocked_load_update_tick := k_jiffies k, rq_nohz_flags := 0,
                rq_hotplug_wait := False\<rparr>) k;
          k = hrtick_rq_init i k
      in upd_rq i (\<lambda>r. r\<lparr>rq_nr_iowait := 0, rq_core := i, rq_core_pick := None,
           rq_core_enabled := False, rq_core_tree := [], rq_core_forceidle_count := 0,
           rq_core_forceidle_occupation := 0, rq_core_forceidle_start := 0, rq_core_cookie := 0\<rparr>) k)"

text \<open>
  \<open>BUG_ON\<close> of \<open>sched_init\<close>: the linker placed the classes one after the other, in the
  order that \<open>sched_class_above\<close> relies on.
\<close>

definition sched_class_order_bug :: bool where
  "sched_class_order_bug \<longleftrightarrow>
     class_address idle_sched_class \<noteq> class_address yat_casched_sched_class + 1 \<or>
     class_address yat_casched_sched_class \<noteq> class_address fair_sched_class + 1 \<or>
     class_address fair_sched_class \<noteq> class_address rt_sched_class + 1 \<or>
     class_address rt_sched_class \<noteq> class_address dl_sched_class + 1 \<or>
     class_address dl_sched_class \<noteq> class_address stop_sched_class + 1"

definition ROOT_TASK_GROUP_LOAD :: u64 where "ROOT_TASK_GROUP_LOAD = 1048576"

definition sched_init :: "kapi \<Rightarrow> kernel \<Rightarrow> kernel" where
  "sched_init a k =
     (let k = (if sched_class_order_bug then k\<lparr>k_undefined := True\<rparr> else k);
          k = upd_tg (k_root_tg k) (\<lambda>g. g\<lparr>tg_shares := ROOT_TASK_GROUP_LOAD, tg_children := []\<rparr>) k;
          k = k\<lparr>k_task_groups := k_root_tg k # k_task_groups k\<rparr>;
          k = fold (sched_init_rq a) (for_each_cpu k (k_possible k)) k;
          init = k_current k;
          k = set_load_weight a init False k;
          k = init_idle a init (k_this_cpu k) k;
          k = k\<lparr>k_calc_load_update := k_jiffies k + LOAD_FREQ k\<rparr>;
          k = balance_push_set (k_this_cpu k) False k;
          k = init_uclamp init k
      in k\<lparr>k_scheduler_running := True\<rparr>)"

end
