(* ===== verification/Fork_Correct.thy ===== *)
theory Fork_Correct
  imports Fork_Init Sample_Kapi
begin

text \<open>
  What a child of \<open>fork\<close> starts with: its scheduling attributes, class and queue links.
\<close>

text \<open>The part of a task that decides how it is scheduled.\<close>

definition fork_view :: "kernel \<Rightarrow> tid \<Rightarrow> int \<times> int \<times> int \<times> u32 \<times> int \<times> int \<times> u32 \<times> bool \<times> sched_yat_casched_entity" where
  "fork_view k q = (let t = k_tasks k q in
     (t_prio t, t_normal_prio t, t_static_prio t, t_rt_priority t, t_policy t, t_on_rq t, t_state t,
      t_sched_reset_on_fork t, t_yat_casched t))"

definition fork_ops_keep :: "kapi \<Rightarrow> bool" where
  "fork_ops_keep a \<longleftrightarrow>
     (\<forall>p k. fork_view (ka_init_dl_entity a p k) = fork_view k) \<and>
     (\<forall>f p k. fork_view (ka_init_numa_balancing a f p k) = fork_view k) \<and>
     (\<forall>p k. fork_view (ka_init_entity_runnable_average a p k) = fork_view k \<and>
        t_sched_class (k_tasks (ka_init_entity_runnable_average a p k) p) = t_sched_class (k_tasks k p)) \<and>
     (\<forall>p k. k_current (ka_init_dl_entity a p k) = k_current k) \<and>
     (\<forall>f p k. k_current (ka_init_numa_balancing a f p k) = k_current k)"

lemma fork_viewD:
  assumes "fork_view k = fork_view k'"
  shows "t_prio (k_tasks k q) = t_prio (k_tasks k' q)" "t_normal_prio (k_tasks k q) = t_normal_prio (k_tasks k' q)"
    "t_static_prio (k_tasks k q) = t_static_prio (k_tasks k' q)"
    "t_rt_priority (k_tasks k q) = t_rt_priority (k_tasks k' q)" "t_policy (k_tasks k q) = t_policy (k_tasks k' q)"
    "t_on_rq (k_tasks k q) = t_on_rq (k_tasks k' q)" "t_state (k_tasks k q) = t_state (k_tasks k' q)"
    "t_sched_reset_on_fork (k_tasks k q) = t_sched_reset_on_fork (k_tasks k' q)"
    "t_yat_casched (k_tasks k q) = t_yat_casched (k_tasks k' q)"
  using fun_cong [OF assms, of q] by (simp_all add: fork_view_def Let_def)

text \<open>The entity of the yat class on no list, with no history.\<close>

definition fresh_yat :: sched_yat_casched_entity where
  "fresh_yat = \<lparr>yse_run_list = None, yse_vruntime = 0, yse_slice = 0, yse_last_cpu = -1\<rparr>"

lemma us_sched_fork_fields:
  assumes "fork_ops_keep a"
  shows "k_current (us_sched_fork a f p k) = k_current k"
    "fork_view (us_sched_fork a f p k) = (fork_view k)(p := (let t = k_tasks k p in
      (t_prio t, t_normal_prio t, t_static_prio t, t_rt_priority t, t_policy t, 0, t_state t,
       t_sched_reset_on_fork t, fresh_yat)))"
proof -
  define k1 where "k1 = upd_task p (\<lambda>t. t\<lparr>t_on_rq := 0,
            t_se := (t_se t)\<lparr>se_on_rq := 0, se_exec_start := 0, se_sum_exec_runtime := 0,
              se_prev_sum_exec_runtime := 0, se_nr_migrations := 0, se_vruntime := 0, se_vlag := 0,
              se_slice := ucast (k_sysctl_sched_base_slice k)\<rparr>,
            t_stats := \<lparr>ss_nr_wakeups = 0, ss_nr_wakeups_sync = 0, ss_nr_wakeups_migrate = 0,
              ss_nr_wakeups_local = 0, ss_nr_wakeups_remote = 0\<rparr>\<rparr>) k"
  define k2 where "k2 = ka_init_dl_entity a p k1"
  define k3 where "k3 = upd_task p (\<lambda>t. t\<lparr>
            t_rt := \<lparr>rt_timeout = 0, rt_time_slice = k_sched_rr_timeslice k2, rt_on_rq = 0, rt_on_list = 0\<rparr>,
            t_yat_casched := fresh_yat\<rparr>) k2"
  define k4 where "k4 = ka_init_numa_balancing a f p k3"
  have s: "us_sched_fork a f p k = upd_task p (\<lambda>t. t\<lparr>t_migration_pending := None\<rparr>) k4"
    by (simp only: us_sched_fork_def Let_def k1_def k2_def k3_def k4_def fresh_yat_def)
  have v: "fork_view k2 = fork_view k1" "fork_view k4 = fork_view k3" "k_current k2 = k_current k1"
      "k_current k4 = k_current k3"
    using assms by (simp_all add: k2_def k4_def fork_ops_keep_def)
  show "k_current (us_sched_fork a f p k) = k_current k" by (simp add: s v k3_def k1_def)
  have "fork_view (us_sched_fork a f p k) = fork_view k3"
    unfolding s v(2) [symmetric] by (simp add: fork_view_def Let_def fun_eq_iff)
  also have "\<dots> = (fork_view k)(p := (let t = k_tasks k p in
      (t_prio t, t_normal_prio t, t_static_prio t, t_rt_priority t, t_policy t, 0, t_state t,
       t_sched_reset_on_fork t, fresh_yat)))"
    using fork_viewD [OF v(1)] by (simp add: fork_view_def k3_def Let_def fun_eq_iff) (simp add: k1_def)
  finally show "fork_view (us_sched_fork a f p k) = (fork_view k)(p := (let t = k_tasks k p in
      (t_prio t, t_normal_prio t, t_static_prio t, t_rt_priority t, t_policy t, 0, t_state t,
       t_sched_reset_on_fork t, fresh_yat)))" .
qed

lemma fork_view_uclamp_fork [simp]: "fork_view (uclamp_fork p k) = fork_view k"
  by (simp add: uclamp_fork_def clamp_ids_def upd_task_uc_def upd_task_uc_req_def Let_def fork_view_def fun_eq_iff)

text \<open>What reverting to the defaults leaves: a normal policy and a nice value of at least 0.\<close>

definition reset_policy :: "kapi \<Rightarrow> task_struct \<Rightarrow> int" where
  "reset_policy a t = (if ka_dl_policy a (t_policy t) \<or> ka_rt_policy a (t_policy t) then SCHED_NORMAL else t_policy t)"

definition reset_static_prio :: "kapi \<Rightarrow> task_struct \<Rightarrow> int" where
  "reset_static_prio a t =
     (if ka_dl_policy a (t_policy t) \<or> ka_rt_policy a (t_policy t) \<or> PRIO_TO_NICE (t_static_prio t) < 0
      then NICE_TO_PRIO 0 else t_static_prio t)"

lemma sched_fork_reset_fields:
  "t_policy (k_tasks (sched_fork_reset a p k) p) = reset_policy a (k_tasks k p)"
  "t_static_prio (k_tasks (sched_fork_reset a p k) p) = reset_static_prio a (k_tasks k p)"
  "t_prio (k_tasks (sched_fork_reset a p k) p) = reset_static_prio a (k_tasks k p)"
  "t_on_rq (k_tasks (sched_fork_reset a p k) p) = t_on_rq (k_tasks k p)"
  "t_state (k_tasks (sched_fork_reset a p k) p) = t_state (k_tasks k p)"
  "t_yat_casched (k_tasks (sched_fork_reset a p k) p) = t_yat_casched (k_tasks k p)"
  by (simp_all add: sched_fork_reset_def set_load_weight_def reset_policy_def reset_static_prio_def Let_def)

text \<open>
  C27: A child gets the parent's own priority, not one it was boosted to, or, when the policy is
  reset on fork, a normal policy and a nice value of at least 0; it is new, on no queue, with
  an empty yat entity.  A child of deadline priority is refused; any other one gets the
  real-time or the fair class, also when its policy is that of the yat class.
\<close>

theorem sched_fork_child:
  assumes "fork_ops_keep a" "k_current k \<noteq> p" "sched_fork a clone_flags p k = (r, k')"
  shows "let t = k_tasks k p; t' = k_tasks k' p; reset = t_sched_reset_on_fork t in
    t_policy t' = (if reset then reset_policy a t else t_policy t) \<and>
    t_prio t' = (if reset then reset_static_prio a t else t_normal_prio (k_tasks k (k_current k))) \<and>
    t_state t' = TASK_NEW \<and> t_on_rq t' = 0 \<and> t_yat_casched t' = fresh_yat \<and>
    r = (if dl_prio (t_prio t') then - EAGAIN else 0) \<and>
    (r = 0 \<longrightarrow> t_sched_class t' = (if rt_prio (t_prio t') then rt_sched_class else fair_sched_class) \<and>
               \<not> t_on_cpu t')"
proof -
  define k1 where "k1 = us_sched_fork a clone_flags p k"
  define k2 where "k2 = upd_task p (\<lambda>t. t\<lparr>t_state := TASK_NEW\<rparr>) k1"
  define k3 where "k3 = upd_task p (\<lambda>t. t\<lparr>t_prio := t_normal_prio (k_tasks k2 (k_current k2))\<rparr>) k2"
  define k4 where "k4 = uclamp_fork p k3"
  define k5 where "k5 = (if t_sched_reset_on_fork (k_tasks k4 p) then sched_fork_reset a p k4 else k4)"
  define prio where "prio = t_prio (k_tasks k5 p)"
  define k6 where "k6 = upd_task p (\<lambda>t. t\<lparr>t_sched_class := (if rt_prio prio then rt_sched_class else fair_sched_class)\<rparr>) k5"
  define k7 where "k7 = ka_init_entity_runnable_average a p k6"
  note f1 = us_sched_fork_fields [OF assms(1), of clone_flags p k, folded k1_def]
  have 4: "fork_view k4 = fork_view k3" by (simp add: k4_def)
  note f4 = fork_viewD [OF 4, of p]
  have t1: "t_policy (k_tasks k1 p) = t_policy (k_tasks k p)" "t_on_rq (k_tasks k1 p) = 0"
    "t_static_prio (k_tasks k1 p) = t_static_prio (k_tasks k p)"
    "t_sched_reset_on_fork (k_tasks k1 p) = t_sched_reset_on_fork (k_tasks k p)"
    "t_yat_casched (k_tasks k1 p) = fresh_yat"
    "t_normal_prio (k_tasks k1 (k_current k)) = t_normal_prio (k_tasks k (k_current k))"
    using fun_cong [OF f1(2), of p] fun_cong [OF f1(2), of "k_current k"] assms(2)
    by (simp_all add: fork_view_def Let_def)
  have t4: "t_policy (k_tasks k4 p) = t_policy (k_tasks k p)" "t_on_rq (k_tasks k4 p) = 0"
    "t_static_prio (k_tasks k4 p) = t_static_prio (k_tasks k p)" "t_state (k_tasks k4 p) = TASK_NEW"
    "t_sched_reset_on_fork (k_tasks k4 p) = t_sched_reset_on_fork (k_tasks k p)"
    "t_yat_casched (k_tasks k4 p) = fresh_yat"
    "t_prio (k_tasks k4 p) = t_normal_prio (k_tasks k (k_current k))"
    unfolding f4 using t1 assms(2) by (simp_all add: k3_def k2_def f1(1))
  have t5: "t_policy (k_tasks k5 p) = (if t_sched_reset_on_fork (k_tasks k p) then reset_policy a (k_tasks k p)
      else t_policy (k_tasks k p))" "t_on_rq (k_tasks k5 p) = 0" "t_state (k_tasks k5 p) = TASK_NEW"
    "t_yat_casched (k_tasks k5 p) = fresh_yat"
    "t_prio (k_tasks k5 p) = (if t_sched_reset_on_fork (k_tasks k p) then reset_static_prio a (k_tasks k p)
      else t_normal_prio (k_tasks k (k_current k)))"
    using t4 by (simp_all add: k5_def sched_fork_reset_fields) (simp_all add: reset_policy_def reset_static_prio_def)
  have r: "(r, k') = (if dl_prio prio then (- EAGAIN, k5) else (0, upd_task p (\<lambda>t. t\<lparr>t_on_cpu := False\<rparr>) k7))"
    using assms(3) by (simp only: sched_fork_def Let_def k1_def k2_def k3_def k4_def k5_def prio_def k6_def k7_def)
  have "fork_view k6 = fork_view k5" by (simp add: k6_def fork_view_def fun_eq_iff Let_def)
  then have 7: "fork_view k7 = fork_view k5" "t_sched_class (k_tasks k7 p) = t_sched_class (k_tasks k6 p)"
    using assms(1) by (simp_all add: k7_def fork_ops_keep_def)
  note f7 = fork_viewD [OF 7(1), of p]
  show ?thesis
  proof (cases "dl_prio prio")
    case True
    then show ?thesis using r t5 by (simp add: Let_def prio_def errno_defs)
  next
    case False
    then show ?thesis using r t5 f7 7(2) by (simp add: Let_def prio_def) (simp add: k6_def prio_def)
  qed
qed

text \<open>A yat parent (task 0) forks task 10, with the policy kept.\<close>

definition sample_parent :: kernel where
  "sample_parent = upd_task 10 (\<lambda>t. t\<lparr>t_policy := SCHED_YAT_CASCHED, t_sched_class := yat_casched_sched_class\<rparr>)
     (upd_task 0 (\<lambda>t. t\<lparr>t_policy := SCHED_YAT_CASCHED, t_sched_class := yat_casched_sched_class, t_prio := 50,
         t_normal_prio := 120\<rparr>)
       sample_kernel)"

lemma fork_ops_keep_sample: "fork_ops_keep sample_kapi"
  by (simp add: fork_ops_keep_def sample_kapi_def)

theorem sched_fork_child_witness:
  "\<exists>r k'. sched_fork sample_kapi 0 10 sample_parent = (r, k') \<and> t_policy (k_tasks k' 10) = SCHED_YAT_CASCHED \<and>
    t_prio (k_tasks k' 10) = 120 \<and> t_sched_class (k_tasks k' 10) = fair_sched_class"
proof -
  obtain r k' where f: "sched_fork sample_kapi 0 10 sample_parent = (r, k')" by fastforce
  have p: "k_current sample_parent = 0" "t_normal_prio (k_tasks sample_parent 0) = 120"
    "t_policy (k_tasks sample_parent 10) = SCHED_YAT_CASCHED" "\<not> t_sched_reset_on_fork (k_tasks sample_parent 10)"
    by (simp_all add: sample_parent_def sample_kernel_def sample_task_def)
  show ?thesis
    using sched_fork_child [OF fork_ops_keep_sample _ f] p f by (simp add: prio_consts Let_def split: if_splits)
qed

end
