(* ===== verification/Hotplug.thy ===== *)
theory Hotplug
  imports Fork_Init
begin

text \<open>
  CPU hotplug (\<open>core.c\<close>): the leader of a core that shares its core-scheduling state, pushing
  tasks off a CPU that goes down, and the callbacks that bring a CPU up and down.  Waiting
  for a grace period is no step of the sequential model.
\<close>

section \<open>The leader of a core\<close>

definition sched_core_cpu_starting :: "kapi \<Rightarrow> cpu \<Rightarrow> kernel \<Rightarrow> kernel" where
  "sched_core_cpu_starting a c k =
     (let smt_mask = ka_cpu_smt_mask a c
      in if length (for_each_cpu k smt_mask) = 1 then k
         else case find (\<lambda>t. t \<noteq> c \<and> rq_core (k_rqs k t) = t) (for_each_cpu k smt_mask) of
                None \<Rightarrow> k
              | Some core_rq \<Rightarrow>
                  fold (\<lambda>t k. if t = c then upd_rq t (\<lambda>r. r\<lparr>rq_core := core_rq\<rparr>) k else k)
                    (for_each_cpu k smt_mask) k)"

text \<open>The shared state goes from the old leader to the new one.\<close>

definition copy_core_state :: "cpu \<Rightarrow> cpu \<Rightarrow> kernel \<Rightarrow> kernel" where
  "copy_core_state from_cpu to_cpu k =
     (let r = k_rqs k from_cpu
      in upd_rq to_cpu (\<lambda>s. s\<lparr>rq_core_task_seq := rq_core_task_seq r, rq_core_pick_seq := rq_core_pick_seq r,
           rq_core_cookie := rq_core_cookie r, rq_core_forceidle_count := rq_core_forceidle_count r,
           rq_core_forceidle_seq := rq_core_forceidle_seq r,
           rq_core_forceidle_occupation := rq_core_forceidle_occupation r,
           rq_core_forceidle_start := 0\<rparr>) k)"

definition sched_core_cpu_deactivate :: "kapi \<Rightarrow> cpu \<Rightarrow> kernel \<Rightarrow> kernel" where
  "sched_core_cpu_deactivate a c k =
     (let smt_mask = ka_cpu_smt_mask a c
      in if length (for_each_cpu k smt_mask) = 1 then k
         else if rq_core (k_rqs k c) \<noteq> c then k
         else case find (\<lambda>t. t \<noteq> c) (for_each_cpu k smt_mask) of
                None \<Rightarrow> k
              | Some core_rq \<Rightarrow>
                  fold (\<lambda>t. upd_rq t (\<lambda>r. r\<lparr>rq_core := core_rq\<rparr>)) (for_each_cpu k smt_mask)
                    (copy_core_state c core_rq k))"

definition sched_core_cpu_dying :: "cpu \<Rightarrow> kernel \<Rightarrow> kernel" where
  "sched_core_cpu_dying c k =
     (if rq_core (k_rqs k c) \<noteq> c then upd_rq c (\<lambda>r. r\<lparr>rq_core := c\<rparr>) k else k)"

section \<open>Remote ticks\<close>

text \<open>
  The per-CPU work that ticks for a CPU in full dynticks mode.  Its state is the machine that
  the comment before \<open>tick_work_cpu\<close> draws; \<open>tw_queued\<close> counts how often the work is queued.
\<close>

definition TICK_SCHED_REMOTE_OFFLINE :: int where "TICK_SCHED_REMOTE_OFFLINE = 0"
definition TICK_SCHED_REMOTE_OFFLINING :: int where "TICK_SCHED_REMOTE_OFFLINING = 1"
definition TICK_SCHED_REMOTE_RUNNING :: int where "TICK_SCHED_REMOTE_RUNNING = 2"

record tick_work =
  tw_cpu :: cpu
  tw_state :: int
  tw_queued :: nat

definition queue_tick_work :: "tick_work \<Rightarrow> tick_work" where
  "queue_tick_work w = w\<lparr>tw_queued := tw_queued w + 1\<rparr>"

definition remote_tick :: "kapi \<Rightarrow> cpu \<Rightarrow> kernel \<Rightarrow> kernel" where
  "remote_tick a c k =
     (if ka_tick_nohz_tick_stopped_cpu a k c \<and> cpu_online k c
      then let curr = rq_curr (k_rqs k c);
               k = update_rq_clock a c k;
               k = class_task_tick a (task_class k curr) c curr False k
           in ka_calc_load_nohz_remote a c k
      else k)"

definition sched_tick_remote :: "kapi \<Rightarrow> tick_work \<Rightarrow> kernel \<Rightarrow> tick_work \<times> kernel" where
  "sched_tick_remote a w k =
     (let k = remote_tick a (tw_cpu w) k;
          os = tw_state w;
          w = (if os \<noteq> TICK_SCHED_REMOTE_RUNNING then w\<lparr>tw_state := os - 1\<rparr> else w)
      in (if os = TICK_SCHED_REMOTE_RUNNING then queue_tick_work w else w, k))"

definition sched_tick_start :: "kapi \<Rightarrow> cpu \<Rightarrow> tick_work \<Rightarrow> tick_work" where
  "sched_tick_start a c w =
     (if ka_housekeeping_tick_cpu a c then w
      else let os = tw_state w; w = w\<lparr>tw_state := TICK_SCHED_REMOTE_RUNNING\<rparr>
           in if os = TICK_SCHED_REMOTE_OFFLINE then queue_tick_work (w\<lparr>tw_cpu := c\<rparr>) else w)"

definition sched_tick_stop :: "kapi \<Rightarrow> cpu \<Rightarrow> tick_work \<Rightarrow> tick_work" where
  "sched_tick_stop a c w =
     (if ka_housekeeping_tick_cpu a c then w else w\<lparr>tw_state := TICK_SCHED_REMOTE_OFFLINING\<rparr>)"

section \<open>Pushing tasks off a dying CPU\<close>

definition balance_push :: "kapi \<Rightarrow> cpu \<Rightarrow> kernel \<Rightarrow> kernel" where
  "balance_push a c k =
     (let push_task = rq_curr (k_rqs k c);
          k = upd_rq c (\<lambda>r. r\<lparr>rq_balance_callback := [CB_balance_push]\<rparr>) k
      in if \<not> ka_cpu_dying a k (rq_cpu (k_rqs k c)) \<or> c \<noteq> k_this_cpu k then k
         else if ka_kthread_is_per_cpu a k push_task \<or> is_migration_disabled (k_tasks k push_task)
         then if rq_nr_running (k_rqs k c) = 0 \<and> \<not> rq_has_pinned_tasks k c \<and> rq_hotplug_wait (k_rqs k c)
              then upd_rq c (\<lambda>r. r\<lparr>rq_hotplug_wait := False\<rparr>) k else k
         else stop_one_cpu_nowait (rq_cpu (k_rqs k c)) (Balance_push_cpu_stop push_task) k)"

text \<open>The wait ends when \<open>env\<close> has emptied the CPU but for the hotplug thread.\<close>

definition balance_hotplug_wait :: "(kernel \<Rightarrow> kernel) \<Rightarrow> kernel \<Rightarrow> kernel option" where
  "balance_hotplug_wait env k =
     (let c = k_this_cpu k;
          empty = (\<lambda>k. rq_nr_running (k_rqs k c) = 1 \<and> \<not> rq_has_pinned_tasks k c);
          k = (if empty k then k else env (upd_rq c (\<lambda>r. r\<lparr>rq_hotplug_wait := True\<rparr>) k))
      in if empty k then Some k else None)"

definition sched_cpu_wait_empty :: "(kernel \<Rightarrow> kernel) \<Rightarrow> cpu \<Rightarrow> kernel \<Rightarrow> (int \<times> kernel) option" where
  "sched_cpu_wait_empty env c k = map_option (\<lambda>k. (0, k)) (balance_hotplug_wait env k)"

section \<open>Run queues online and offline\<close>

definition class_rq_online :: "kapi \<Rightarrow> sched_class \<Rightarrow> (cpu \<Rightarrow> kernel \<Rightarrow> kernel) option" where
  "class_rq_online a cls = (if cls = yat_casched_sched_class then Some rq_online_yat_casched
                            else ka_rq_online a cls)"

definition class_rq_offline :: "kapi \<Rightarrow> sched_class \<Rightarrow> (cpu \<Rightarrow> kernel \<Rightarrow> kernel) option" where
  "class_rq_offline a cls = (if cls = yat_casched_sched_class then Some rq_offline_yat_casched
                             else ka_rq_offline a cls)"

definition call_class_hooks ::
  "(sched_class \<Rightarrow> (cpu \<Rightarrow> kernel \<Rightarrow> kernel) option) \<Rightarrow> cpu \<Rightarrow> kernel \<Rightarrow> kernel" where
  "call_class_hooks hook c =
     fold (\<lambda>cls k. case hook cls of Some f \<Rightarrow> f c k | None \<Rightarrow> k) SCHED_DATA"

definition upd_rd_online :: "nat option \<Rightarrow> (cpumask \<Rightarrow> cpumask) \<Rightarrow> kernel \<Rightarrow> kernel" where
  "upd_rd_online rd f k =
     (case rd of None \<Rightarrow> k | Some d \<Rightarrow> k\<lparr>k_rd_online := (k_rd_online k)(d := f (k_rd_online k d))\<rparr>)"

definition set_rq_online :: "kapi \<Rightarrow> cpu \<Rightarrow> kernel \<Rightarrow> kernel" where
  "set_rq_online a c k =
     (if \<not> rq_online (k_rqs k c)
      then let k = upd_rd_online (rq_rd (k_rqs k c)) (insert (rq_cpu (k_rqs k c))) k;
               k = upd_rq c (\<lambda>r. r\<lparr>rq_online := True\<rparr>) k
           in call_class_hooks (class_rq_online a) c k
      else k)"

definition set_rq_offline :: "kapi \<Rightarrow> cpu \<Rightarrow> kernel \<Rightarrow> kernel" where
  "set_rq_offline a c k =
     (if rq_online (k_rqs k c)
      then let k = update_rq_clock a c k;
               k = call_class_hooks (class_rq_offline a) c k;
               k = upd_rd_online (rq_rd (k_rqs k c)) (\<lambda>m. m - {rq_cpu (k_rqs k c)}) k
           in upd_rq c (\<lambda>r. r\<lparr>rq_online := False\<rparr>) k
      else k)"

section \<open>Cpusets and the hotplug callbacks\<close>

definition cpuset_cpu_active :: "kapi \<Rightarrow> kernel \<Rightarrow> kernel" where
  "cpuset_cpu_active a k =
     (if k_cpuhp_tasks_frozen k
      then let k = ka_partition_sched_domains a k;
               k = k\<lparr>k_num_cpus_frozen := k_num_cpus_frozen k - 1\<rparr>
           in if k_num_cpus_frozen k \<noteq> 0 then k
              else ka_cpuset_update_active_cpus a (ka_cpuset_force_rebuild a k)
      else ka_cpuset_update_active_cpus a k)"

definition cpuset_cpu_inactive :: "kapi \<Rightarrow> cpu \<Rightarrow> kernel \<Rightarrow> int \<times> kernel" where
  "cpuset_cpu_inactive a c k =
     (if \<not> k_cpuhp_tasks_frozen k
      then let ret = ka_dl_bw_check_overflow a k c
           in if ret \<noteq> 0 then (ret, k) else (0, ka_cpuset_update_active_cpus a k)
      else (0, ka_partition_sched_domains a (k\<lparr>k_num_cpus_frozen := k_num_cpus_frozen k + 1\<rparr>)))"

definition set_cpu_active :: "cpu \<Rightarrow> bool \<Rightarrow> kernel \<Rightarrow> kernel" where
  "set_cpu_active c on k =
     k\<lparr>k_active := (if on then insert c (k_active k) else k_active k - {c})\<rparr>"

definition add_smt_present :: "kapi \<Rightarrow> cpu \<Rightarrow> int \<Rightarrow> kernel \<Rightarrow> kernel" where
  "add_smt_present a c n k =
     (if length (for_each_cpu k (ka_cpu_smt_mask a c)) = 2 then k\<lparr>k_sched_smt_present := k_sched_smt_present k + n\<rparr> else k)"

definition sched_cpu_activate :: "kapi \<Rightarrow> cpu \<Rightarrow> kernel \<Rightarrow> int \<times> kernel" where
  "sched_cpu_activate a c k =
     (let k = balance_push_set c False k;
          k = add_smt_present a c 1 k;
          k = set_cpu_active c True k;
          k = (if k_sched_smp_initialized k
               then let k = ka_sched_update_numa a c True k;
                        k = ka_sched_domains_numa_masks_set a c k
                    in cpuset_cpu_active a k
               else k)
      in (0, if rq_rd (k_rqs k c) \<noteq> None then set_rq_online a c k else k))"

definition sched_cpu_deactivate :: "kapi \<Rightarrow> cpu \<Rightarrow> kernel \<Rightarrow> int \<times> kernel" where
  "sched_cpu_deactivate a c k =
     (let k = ka_nohz_balance_exit_idle a c k;
          k = set_cpu_active c False k;
          k = balance_push_set c True k;
          k = (if rq_rd (k_rqs k c) \<noteq> None then set_rq_offline a c k else k);
          k = add_smt_present a c (-1) k;
          k = sched_core_cpu_deactivate a c k
      in if \<not> k_sched_smp_initialized k then (0, k)
         else let k = ka_sched_update_numa a c False k;
                  (ret, k) = cpuset_cpu_inactive a c k
              in if ret \<noteq> 0
                 then let k = balance_push_set c False k;
                          k = set_cpu_active c True k
                      in (ret, ka_sched_update_numa a c True k)
                 else (0, ka_sched_domains_numa_masks_clear a c k))"

definition sched_rq_cpu_starting :: "kapi \<Rightarrow> cpu \<Rightarrow> kernel \<Rightarrow> kernel" where
  "sched_rq_cpu_starting a c k =
     ka_update_max_interval a (upd_rq c (\<lambda>r. r\<lparr>rq_calc_load_update := k_calc_load_update k\<rparr>) k)"

definition sched_cpu_starting :: "kapi \<Rightarrow> cpu \<Rightarrow> tick_work \<Rightarrow> kernel \<Rightarrow> int \<times> tick_work \<times> kernel" where
  "sched_cpu_starting a c w k =
     (let k = sched_core_cpu_starting a c k;
          k = sched_rq_cpu_starting a c k
      in (0, sched_tick_start a c w, k))"

definition calc_load_migrate :: "kapi \<Rightarrow> cpu \<Rightarrow> kernel \<Rightarrow> kernel" where
  "calc_load_migrate a c k =
     (let (delta, k) = ka_calc_load_fold_active a c 1 k
      in if delta \<noteq> 0 then k\<lparr>k_calc_load_tasks := k_calc_load_tasks k + delta\<rparr> else k)"

definition sched_cpu_dying :: "kapi \<Rightarrow> cpu \<Rightarrow> tick_work \<Rightarrow> kernel \<Rightarrow> int \<times> tick_work \<times> kernel" where
  "sched_cpu_dying a c w k =
     (let w = sched_tick_stop a c w;
          k = calc_load_migrate a c k;
          k = ka_update_max_interval a k;
          k = hrtick_clear c k
      in (0, w, sched_core_cpu_dying c k))"

section \<open>Cpusets and NUMA\<close>

definition cpuset_cpumask_can_shrink :: "kapi \<Rightarrow> kernel \<Rightarrow> cpumask \<Rightarrow> cpumask \<Rightarrow> int" where
  "cpuset_cpumask_can_shrink a k cur trial =
     (if cur = {} then 1 else ka_dl_cpuset_can_shrink a k cur trial)"

definition task_can_attach :: "kernel \<Rightarrow> tid \<Rightarrow> int" where
  "task_can_attach k p = (if test_flag (t_flags (k_tasks k p)) PF_NO_SETAFFINITY then - EINVAL else 0)"

text \<open>\<open>stop_one_cpu\<close>, as for \<open>sched_exec\<close>.\<close>

definition migrate_task_to :: "kapi \<Rightarrow> (kernel \<Rightarrow> kernel) \<Rightarrow> tid \<Rightarrow> cpu \<Rightarrow> kernel \<Rightarrow> int \<times> kernel" where
  "migrate_task_to a env p target_cpu k =
     (let curr_cpu = task_cpu k p
      in if curr_cpu = target_cpu then (0, k)
         else if target_cpu \<notin> cpus_ptr_mask (k_tasks k p) then (- EINVAL, k)
         else let k = env k; here = k_this_cpu k
              in (0, (migration_cpu_stop a \<lparr>ma_task = p, ma_dest_cpu = target_cpu, ma_pending = None\<rparr>
                        (k\<lparr>k_this_cpu := curr_cpu\<rparr>))\<lparr>k_this_cpu := here\<rparr>))"

definition sched_setnuma :: "kapi \<Rightarrow> tid \<Rightarrow> int \<Rightarrow> kernel \<Rightarrow> kernel" where
  "sched_setnuma a p nid k =
     (let c = task_cpu k p;
          queued = task_on_rq_queued (k_tasks k p);
          running = task_current k c p;
          k = (if queued then dequeue_task a c p DEQUEUE_SAVE k else k);
          k = (if running then put_prev_task a c p k else k);
          k = upd_task p (\<lambda>t. t\<lparr>t_numa_preferred_nid := nid\<rparr>) k;
          k = (if queued then enqueue_task a c p (ENQUEUE_RESTORE OR ENQUEUE_NOCLOCK) k else k)
      in if running then set_next_task a c p k else k)"

end
