(* ===== verification/Hotplug_Correct.thy ===== *)
theory Hotplug_Correct
  imports Hotplug Queue_Frame Sample_Kapi
begin

text \<open>
  What hotplug guarantees: the remote tick's state machine queues its work exactly once
  while it runs, the threads of a core always share one leader and its state moves with the
  leadership, and what a refused \<open>sched_cpu_deactivate\<close> leaves behind.
\<close>

section \<open>Remote ticks\<close>

text \<open>
  Hotplug starts a CPU's remote tick when it is not running and stops it when it is; the work
  queue runs the work when it is queued, taking it off the queue first.
\<close>

inductive tick_step :: "kapi \<Rightarrow> cpu \<Rightarrow> tick_work \<Rightarrow> tick_work \<Rightarrow> bool" for a c where
  start: "tw_state w \<noteq> TICK_SCHED_REMOTE_RUNNING \<Longrightarrow> tick_step a c w (sched_tick_start a c w)"
| stop: "tw_state w = TICK_SCHED_REMOTE_RUNNING \<Longrightarrow> tick_step a c w (sched_tick_stop a c w)"
| run: "0 < tw_queued w \<Longrightarrow>
    tick_step a c w (fst (sched_tick_remote a (w\<lparr>tw_queued := tw_queued w - 1\<rparr>) k))"

inductive_cases tick_stepE: "tick_step a c w w'"

definition tick_work_ok :: "cpu \<Rightarrow> tick_work \<Rightarrow> bool" where
  "tick_work_ok c w \<longleftrightarrow>
     (tw_state w = TICK_SCHED_REMOTE_OFFLINE \<and> tw_queued w = 0) \<or>
     (tw_state w \<in> {TICK_SCHED_REMOTE_OFFLINING, TICK_SCHED_REMOTE_RUNNING} \<and>
      tw_queued w = 1 \<and> tw_cpu w = c)"

lemmas tick_defs = TICK_SCHED_REMOTE_OFFLINE_def TICK_SCHED_REMOTE_OFFLINING_def
  TICK_SCHED_REMOTE_RUNNING_def

lemma tick_step_ok:
  assumes "\<not> ka_housekeeping_tick_cpu a c"
  shows "tick_step a c w w' \<Longrightarrow> tick_work_ok c w \<Longrightarrow> tick_work_ok c w'"
  using assms
  by (elim tick_stepE)
    (auto simp: sched_tick_start_def sched_tick_stop_def sched_tick_remote_def queue_tick_work_def
      tick_work_ok_def tick_defs Let_def split: if_splits)

text \<open>
  C26: On a CPU without a tick of its own, the remote tick is queued exactly once while the CPU
  is running or going offline, and not at all once it is offline, along every sequence of
  starts, stops and runs; a CPU that comes back before the last run went off is not queued twice.
\<close>

theorem remote_tick_queued_once:
  assumes "\<not> ka_housekeeping_tick_cpu a c"
    and "(tick_step a c)\<^sup>*\<^sup>* \<lparr>tw_cpu = c0, tw_state = TICK_SCHED_REMOTE_OFFLINE, tw_queued = 0\<rparr> w"
  shows "tw_state w \<in> {TICK_SCHED_REMOTE_OFFLINE, TICK_SCHED_REMOTE_OFFLINING, TICK_SCHED_REMOTE_RUNNING} \<and>
    tw_queued w = (if tw_state w = TICK_SCHED_REMOTE_OFFLINE then 0 else 1)"
proof -
  have "tick_work_ok c w"
    using assms(2)
  proof induction
    case base
    then show ?case by (simp add: tick_work_ok_def)
  next
    case (step y z)
    then show ?case using tick_step_ok [OF assms(1)] by blast
  qed
  then show ?thesis by (auto simp: tick_work_ok_def tick_defs)
qed

text \<open>Started, stopped, and started again before the work ran.\<close>

lemma sample_tick_path:
  "(tick_step sample_kapi 1)\<^sup>*\<^sup>* \<lparr>tw_cpu = 0, tw_state = TICK_SCHED_REMOTE_OFFLINE, tw_queued = 0\<rparr>
     \<lparr>tw_cpu = 1, tw_state = TICK_SCHED_REMOTE_RUNNING, tw_queued = 1\<rparr>"
proof -
  define w0 where "w0 = \<lparr>tw_cpu = 0, tw_state = TICK_SCHED_REMOTE_OFFLINE, tw_queued = 0\<rparr>"
  have hk: "\<not> ka_housekeeping_tick_cpu sample_kapi 1" by (simp add: sample_kapi_def)
  define w1 where "w1 = sched_tick_start sample_kapi 1 w0"
  define w2 where "w2 = sched_tick_stop sample_kapi 1 w1"
  have w: "w1 = \<lparr>tw_cpu = 1, tw_state = TICK_SCHED_REMOTE_RUNNING, tw_queued = 1\<rparr>"
    "w2 = \<lparr>tw_cpu = 1, tw_state = TICK_SCHED_REMOTE_OFFLINING, tw_queued = 1\<rparr>"
    "sched_tick_start sample_kapi 1 w2 = w1"
    by (simp_all add: w2_def w1_def w0_def sched_tick_start_def sched_tick_stop_def queue_tick_work_def hk tick_defs)
  have "tick_step sample_kapi 1 w0 w1" unfolding w1_def by (rule tick_step.start) (simp add: w0_def tick_defs)
  moreover have "tick_step sample_kapi 1 w1 w2" unfolding w2_def by (rule tick_step.stop) (simp add: w)
  moreover have "tick_step sample_kapi 1 w2 w1"
    using tick_step.start [of w2 sample_kapi 1] unfolding w(3) by (simp add: w(2) tick_defs)
  ultimately have "(tick_step sample_kapi 1)\<^sup>*\<^sup>* w0 w1"
    by (meson converse_rtranclp_into_rtranclp rtranclp.rtrancl_refl)
  then show ?thesis by (simp add: w0_def w)
qed

theorem remote_tick_queued_once_witness:
  "let w = \<lparr>tw_cpu = 1, tw_state = TICK_SCHED_REMOTE_RUNNING, tw_queued = 1\<rparr> in
    tw_queued w = (if tw_state w = TICK_SCHED_REMOTE_OFFLINE then 0 else 1)"
  using remote_tick_queued_once [OF _ sample_tick_path] by (simp add: sample_kapi_def)

section \<open>The leader of a core\<close>

definition core_state :: "kernel \<Rightarrow> cpu \<Rightarrow> u32 \<times> u32 \<times> u64 \<times> u32 \<times> u32 \<times> u32" where
  "core_state k c = (let r = k_rqs k c in
     (rq_core_task_seq r, rq_core_pick_seq r, rq_core_cookie r, rq_core_forceidle_count r,
      rq_core_forceidle_seq r, rq_core_forceidle_occupation r))"

lemma rq_core_fold [simp]:
  "rq_core (k_rqs (fold (\<lambda>t. upd_rq t (\<lambda>r. r\<lparr>rq_core := l\<rparr>)) ts k) t) =
     (if t \<in> set ts then l else rq_core (k_rqs k t))"
  "core_state (fold (\<lambda>t. upd_rq t (\<lambda>r. r\<lparr>rq_core := l\<rparr>)) ts k) = core_state k"
  by (induction ts arbitrary: k) (auto simp: core_state_def Let_def fun_eq_iff)

lemma copy_core_state [simp]:
  "core_state (copy_core_state c l k) l = core_state k c"
  "rq_core (k_rqs (copy_core_state c l k) t) = rq_core (k_rqs k t)"
  by (simp_all add: copy_core_state_def core_state_def Let_def)

lemma fold_if_same:
  "fold (\<lambda>t k. if t = c then f t k else k) ts k = fold (\<lambda>_. f c) (filter (\<lambda>t. t = c) ts) k"
  by (induction ts arbitrary: k) auto

lemma rq_core_fold_const [simp]:
  "rq_core (k_rqs (fold (\<lambda>_. upd_rq c (\<lambda>r. r\<lparr>rq_core := l\<rparr>)) ts k) t) =
     (if t = c \<and> ts \<noteq> [] then l else rq_core (k_rqs k t))"
  by (induction ts arbitrary: k) auto

lemma nr_cpu_ids_copy [simp]: "k_nr_cpu_ids (copy_core_state c l k) = k_nr_cpu_ids k"
  by (simp add: copy_core_state_def Let_def)

lemma nr_cpu_ids_fold [simp]: "k_nr_cpu_ids (fold (\<lambda>t. upd_rq t (f t)) ts k) = k_nr_cpu_ids k"
  by (rule fold_invariant [where P = "\<lambda>s. k_nr_cpu_ids s = k_nr_cpu_ids k"]) simp_all

lemma find_unique: "x \<in> set xs \<Longrightarrow> (\<And>y. y \<in> set xs \<Longrightarrow> P y \<longleftrightarrow> y = x) \<Longrightarrow> find P xs = Some x"
  by (induction xs) auto

lemma two_not_single: "c \<in> set xs \<Longrightarrow> d \<in> set xs \<Longrightarrow> c \<noteq> d \<Longrightarrow> length xs \<noteq> 1"
  by (auto simp: length_Suc_conv)

text \<open>
  C28: When the leader of a core goes down, the other threads get one new leader among them, with
  the shared state of the old one; the thread leads itself while it is down, and joins the
  others' leader when it comes up again.
\<close>

theorem core_leader_handover:
  assumes "c \<in> set (for_each_cpu k (ka_cpu_smt_mask a c))" "d \<in> set (for_each_cpu k (ka_cpu_smt_mask a c))"
    and "c \<noteq> d" and lead: "\<And>t. t \<in> set (for_each_cpu k (ka_cpu_smt_mask a c)) \<Longrightarrow> rq_core (k_rqs k t) = c"
  shows "\<exists>l k1 k2. l \<noteq> c \<and> k1 = sched_core_cpu_deactivate a c k \<and> k2 = sched_core_cpu_dying c k1 \<and>
    core_state k1 l = core_state k c \<and> rq_core (k_rqs k2 c) = c \<and>
    (\<forall>t \<in> set (for_each_cpu k (ka_cpu_smt_mask a c)).
       rq_core (k_rqs k1 t) = l \<and> rq_core (k_rqs (sched_core_cpu_starting a c k2) t) = l)"
proof -
  define ts where "ts = for_each_cpu k (ka_cpu_smt_mask a c)"
  have len: "length ts \<noteq> 1" using two_not_single assms(1-3) unfolding ts_def by metis
  obtain l where l: "find (\<lambda>t. t \<noteq> c) ts = Some l"
    using assms(2,3) find_Some_iff_ex [of "\<lambda>t. t \<noteq> c" ts] unfolding ts_def by metis
  then have lt: "l \<in> set ts" "l \<noteq> c" using find_SomeD by (fastforce, fastforce)
  define k1 where "k1 = sched_core_cpu_deactivate a c k"
  define k2 where "k2 = sched_core_cpu_dying c k1"
  have k1: "k1 = fold (\<lambda>t. upd_rq t (\<lambda>r. r\<lparr>rq_core := l\<rparr>)) ts (copy_core_state c l k)"
    using len l lead [OF assms(1)] by (simp add: k1_def sched_core_cpu_deactivate_def Let_def ts_def)
  have c1: "rq_core (k_rqs k1 t) = (if t \<in> set ts then l else rq_core (k_rqs k t))" for t by (simp add: k1)
  have k2: "k2 = upd_rq c (\<lambda>r. r\<lparr>rq_core := c\<rparr>) k1"
    using lt assms(1) by (simp add: k2_def sched_core_cpu_dying_def c1 ts_def)
  have ts2: "for_each_cpu k2 (ka_cpu_smt_mask a c) = ts"
    by (simp add: k2 k1 for_each_cpu_def ts_def nr_cpu_ids_copy nr_cpu_ids_fold)
  have "find (\<lambda>t. t \<noteq> c \<and> rq_core (k_rqs k2 t) = t) ts = Some l"
    by (rule find_unique) (use lt in \<open>auto simp: k2 c1\<close>)
  then have "sched_core_cpu_starting a c k2 =
      fold (\<lambda>t k. if t = c then upd_rq t (\<lambda>r. r\<lparr>rq_core := l\<rparr>) k else k) ts k2"
    using len by (simp add: sched_core_cpu_starting_def ts2 Let_def)
  moreover have "c \<in> set ts" using assms(1) by (simp add: ts_def)
  ultimately have "rq_core (k_rqs (sched_core_cpu_starting a c k2) t) = l" if "t \<in> set ts" for t
    using that by (auto simp: fold_if_same filter_empty_conv k2 c1)
  moreover have "rq_core (k_rqs k2 c) = c" "core_state k1 l = core_state k c"
    by (simp add: k2) (simp add: k1)
  ultimately show ?thesis
    using lt(2) c1 k1_def k2_def unfolding ts_def [symmetric] by (metis (no_types))
qed

text \<open>The two threads 0 and 1 of one core, led by 0.\<close>

definition sample_smt :: kapi where
  "sample_smt = sample_kapi\<lparr>ka_cpu_smt_mask := (\<lambda>c. {0, 1})\<rparr>"

definition sample_core :: kernel where
  "sample_core = upd_rq 0 (\<lambda>r. r\<lparr>rq_core_cookie := 5\<rparr>) (upd_rq 1 (\<lambda>r. r\<lparr>rq_core := 0\<rparr>) sample_kernel)"

lemma sample_core_cpus [simp]: "for_each_cpu sample_core {0, 1} = [0, 1]"
  by (simp add: for_each_cpu_def sample_core_def sample_kernel_def upto_rec1)

theorem core_leader_handover_witness:
  "\<exists>l k1. l \<noteq> 0 \<and> k1 = sched_core_cpu_deactivate sample_smt 0 sample_core \<and>
    core_state k1 l = core_state sample_core 0 \<and> rq_core_cookie (k_rqs sample_core 0) = 5"
proof -
  have "\<exists>l k1 k2. l \<noteq> 0 \<and> k1 = sched_core_cpu_deactivate sample_smt 0 sample_core \<and>
      k2 = sched_core_cpu_dying 0 k1 \<and> core_state k1 l = core_state sample_core 0 \<and> rq_core (k_rqs k2 0) = 0 \<and>
      (\<forall>t \<in> set (for_each_cpu sample_core (ka_cpu_smt_mask sample_smt 0)).
         rq_core (k_rqs k1 t) = l \<and> rq_core (k_rqs (sched_core_cpu_starting sample_smt 0 k2) t) = l)"
    by (rule core_leader_handover [where d = 1])
      (auto simp: sample_smt_def simp del: set_for_each_cpu, auto simp: sample_core_def sample_defs)
  then show ?thesis by (auto simp: sample_core_def)
qed

section \<open>A refused deactivation\<close>

text \<open>What the code outside \<open>core.c\<close> that hotplug calls leaves alone.\<close>

definition hotplug_view :: "kernel \<Rightarrow> cpumask \<times> int \<times> bool \<times> bool \<times> int \<times>
    (cpu \<Rightarrow> bool \<times> nat option \<times> balance_callback list)" where
  "hotplug_view k = (k_active k, k_sched_smt_present k, k_sched_smp_initialized k, k_cpuhp_tasks_frozen k,
     k_nr_cpu_ids k, \<lambda>c. (rq_online (k_rqs k c), rq_rd (k_rqs k c), rq_balance_callback (k_rqs k c)))"

definition hotplug_ops_keep :: "kapi \<Rightarrow> bool" where
  "hotplug_ops_keep a \<longleftrightarrow>
     (\<forall>c k. hotplug_view (ka_nohz_balance_exit_idle a c k) = hotplug_view k) \<and>
     (\<forall>c b k. hotplug_view (ka_sched_update_numa a c b k) = hotplug_view k) \<and>
     (\<forall>cls f c k. ka_rq_offline a cls = Some f \<longrightarrow> hotplug_view (f c k) = hotplug_view k)"

lemma hotplug_viewD:
  assumes "hotplug_view k = hotplug_view k'"
  shows "k_active k = k_active k'" "k_sched_smt_present k = k_sched_smt_present k'"
    "k_sched_smp_initialized k = k_sched_smp_initialized k'"
    "k_cpuhp_tasks_frozen k = k_cpuhp_tasks_frozen k'" "k_nr_cpu_ids k = k_nr_cpu_ids k'"
    "rq_online (k_rqs k c) = rq_online (k_rqs k' c)" "rq_rd (k_rqs k c) = rq_rd (k_rqs k' c)"
    "rq_balance_callback (k_rqs k c) = rq_balance_callback (k_rqs k' c)"
  using assms by (auto simp: hotplug_view_def dest: fun_cong [where x = c])

lemma hotplug_view_upd_rq:
  assumes "\<And>r. rq_online (h r) = rq_online r" "\<And>r. rq_rd (h r) = rq_rd r"
    "\<And>r. rq_balance_callback (h r) = rq_balance_callback r"
  shows "hotplug_view (upd_rq c h k) = hotplug_view k"
  using assms by (simp add: hotplug_view_def fun_eq_iff)

lemma hotplug_view_core [simp]: "hotplug_view (sched_core_cpu_deactivate a c k) = hotplug_view k"
proof -
  have "hotplug_view (fold (\<lambda>t. upd_rq t (\<lambda>r. r\<lparr>rq_core := l\<rparr>)) ts k) = hotplug_view k" for l ts k
    by (rule fold_invariant [where P = "\<lambda>s. hotplug_view s = hotplug_view k"])
      (simp_all add: hotplug_view_upd_rq)
  then show ?thesis
    by (simp add: sched_core_cpu_deactivate_def copy_core_state_def Let_def hotplug_view_upd_rq
        split: option.split)
qed

lemma hotplug_view_offline_hooks:
  assumes "hotplug_ops_keep a"
  shows "hotplug_view (call_class_hooks (class_rq_offline a) c k) = hotplug_view k"
  unfolding call_class_hooks_def
  by (rule fold_invariant [where P = "\<lambda>s. hotplug_view s = hotplug_view k"])
    (use assms in \<open>auto simp: class_rq_offline_def rq_offline_yat_casched_def hotplug_ops_keep_def split: option.split\<close>)

lemma hotplug_view_clock [simp]: "hotplug_view (update_rq_clock a c k) = hotplug_view k"
  by (simp add: update_rq_clock_def update_rq_clock_task_def Let_def hotplug_view_upd_rq)

lemma set_rq_offline_view:
  assumes "hotplug_ops_keep a" "rq_online (k_rqs k c)"
  shows "hotplug_view (set_rq_offline a c k) = hotplug_view (upd_rq c (\<lambda>r. r\<lparr>rq_online := False\<rparr>) k)"
proof -
  have rd: "hotplug_view (upd_rd_online d f k') = hotplug_view k'" for d f k'
    by (simp add: upd_rd_online_def hotplug_view_def split: option.split)
  have eq: "hotplug_view (upd_rq c (\<lambda>r. r\<lparr>rq_online := False\<rparr>) k') =
      hotplug_view (upd_rq c (\<lambda>r. r\<lparr>rq_online := False\<rparr>) k)" if "hotplug_view k' = hotplug_view k" for k'
    using hotplug_viewD [OF that] by (simp add: hotplug_view_def fun_eq_iff)
  show ?thesis
    using assms(2)
    by (simp add: set_rq_offline_def Let_def)
      (rule eq, simp add: rd hotplug_view_offline_hooks [OF assms(1)])
qed

text \<open>
  C29: When the deadline class refuses that a CPU goes down, \<open>sched_cpu_deactivate\<close> returns its
  error with the CPU active and not pushing its tasks away again, but the count of cores with
  two threads up stays decremented and the run queue stays offline.
\<close>

theorem sched_cpu_deactivate_refused:
  assumes keep: "hotplug_ops_keep a" and smt: "length (for_each_cpu k (ka_cpu_smt_mask a c)) = 2"
    and up: "k_sched_smp_initialized k" "\<not> k_cpuhp_tasks_frozen k"
    and refuse: "\<And>k. ka_dl_bw_check_overflow a k c = e" "e \<noteq> 0"
    and rd: "rq_rd (k_rqs k c) \<noteq> None" "rq_online (k_rqs k c)"
  shows "\<exists>k'. sched_cpu_deactivate a c k = (e, k') \<and> c \<in> k_active k' \<and>
    rq_balance_callback (k_rqs k' c) = [] \<and>
    k_sched_smt_present k' = k_sched_smt_present k - 1 \<and> \<not> rq_online (k_rqs k' c)"
proof -
  define k0 where "k0 = ka_nohz_balance_exit_idle a c k"
  define k1 where "k1 = balance_push_set c True (set_cpu_active c False k0)"
  define k2 where "k2 = set_rq_offline a c k1"
  define k3 where "k3 = sched_core_cpu_deactivate a c (add_smt_present a c (- 1) k2)"
  define k4 where "k4 = ka_sched_update_numa a c False k3"
  have v0: "hotplug_view k0 = hotplug_view k" using keep by (simp add: k0_def hotplug_ops_keep_def)
  have 1: "rq_online (k_rqs k1 c)" "rq_rd (k_rqs k1 c) \<noteq> None" "k_sched_smt_present k1 = k_sched_smt_present k"
    "k_sched_smp_initialized k1" "\<not> k_cpuhp_tasks_frozen k1" "k_nr_cpu_ids k1 = k_nr_cpu_ids k"
    "rq_balance_callback (k_rqs k1 c) = [CB_balance_push]"
    using hotplug_viewD [OF v0] up rd by (simp_all add: k1_def balance_push_set_def set_cpu_active_def)
  have 2: "k_sched_smt_present k2 = k_sched_smt_present k" "k_sched_smp_initialized k2" "\<not> k_cpuhp_tasks_frozen k2"
    "k_nr_cpu_ids k2 = k_nr_cpu_ids k" "\<not> rq_online (k_rqs k2 c)"
    "rq_balance_callback (k_rqs k2 c) = [CB_balance_push]"
    using hotplug_viewD [OF set_rq_offline_view [OF keep 1(1)]] 1(3-) by (simp_all add: k2_def)
  have v3: "hotplug_view k3 = hotplug_view (k2\<lparr>k_sched_smt_present := k_sched_smt_present k - 1\<rparr>)"
    using smt 2(1,4) by (simp add: k3_def add_smt_present_def for_each_cpu_def)
  have v4: "hotplug_view k4 = hotplug_view k3" using keep by (simp add: k4_def hotplug_ops_keep_def)
  have 4: "k_sched_smp_initialized k3" "\<not> k_cpuhp_tasks_frozen k4"
    using hotplug_viewD [OF v3] hotplug_viewD [OF v4] 2 by simp_all
  have "sched_cpu_deactivate a c k = (e, ka_sched_update_numa a c True (set_cpu_active c True
      (balance_push_set c False k4)))"
    using 1(2) 4 refuse
    by (simp add: sched_cpu_deactivate_def cpuset_cpu_inactive_def Let_def flip: k0_def k1_def k2_def k3_def k4_def)
  moreover have "hotplug_view (ka_sched_update_numa a c True k') = hotplug_view k'" for k'
    using keep by (simp add: hotplug_ops_keep_def)
  ultimately show ?thesis
    using hotplug_viewD [OF v3] hotplug_viewD [OF v4] 2
    by (auto simp: hotplug_viewD [of "ka_sched_update_numa a c True k'" k' for k'] set_cpu_active_def balance_push_set_def)
qed

theorem sched_cpu_deactivate_refused_witness:
  "\<exists>k'. sched_cpu_deactivate (sample_kapi\<lparr>ka_cpu_smt_mask := \<lambda>c. {2, 3}\<rparr>) 3 sample_kernel = (- 16, k') \<and>
    3 \<in> k_active k' \<and> k_sched_smt_present k' = - 1 \<and> \<not> rq_online (k_rqs k' 3)"
proof -
  have "\<exists>k'. sched_cpu_deactivate (sample_kapi\<lparr>ka_cpu_smt_mask := \<lambda>c. {2, 3}\<rparr>) 3 sample_kernel = (- 16, k') \<and>
    3 \<in> k_active k' \<and> rq_balance_callback (k_rqs k' 3) = [] \<and>
    k_sched_smt_present k' = k_sched_smt_present sample_kernel - 1 \<and> \<not> rq_online (k_rqs k' 3)"
    by (rule sched_cpu_deactivate_refused)
      (simp_all add: hotplug_ops_keep_def sample_kapi_def sample_kernel_def sample_rq_def for_each_cpu_def
        upto_rec1)
  moreover have "k_sched_smt_present sample_kernel = 0" by (simp add: sample_kernel_def)
  ultimately show ?thesis by auto
qed

end
