(* ===== verification/Task_Groups.thy ===== *)
theory Task_Groups
  imports Queue Uclamp_Control Prio
begin

text \<open>
  Task groups (\<open>core.c\<close>): creating, linking and releasing them, moving tasks between them, the
  walk over their tree, the bandwidth limits with their hierarchy, and the cgroup files for
  shares, weights and limits.  The fair class's part of a group is a parameter.
\<close>

section \<open>The walk over the tree\<close>

text \<open>
  \<open>walk_tg_tree_from\<close> jumps between its labels: \<open>Walk_down g\<close> is the entry of a group, at the
  label \<open>down\<close>; \<open>Walk_up g\<close> the point after the loop over its children.
\<close>

datatype walk_pos = Walk_down tgid | Walk_up tgid

type_synonym tg_visitor = "tgid \<Rightarrow> kernel \<Rightarrow> int \<times> kernel"

definition next_sibling :: "tgid list \<Rightarrow> tgid \<Rightarrow> tgid option" where
  "next_sibling gs g = (case dropWhile (\<lambda>c. c \<noteq> g) gs of _ # c # _ \<Rightarrow> Some c | _ \<Rightarrow> None)"

partial_function (option) walk_tg ::
  "tgid \<Rightarrow> tg_visitor \<Rightarrow> tg_visitor \<Rightarrow> walk_pos \<Rightarrow> kernel \<Rightarrow> (int \<times> kernel) option" where
  "walk_tg from_tg down up pos k =
     (case pos of
        Walk_down g \<Rightarrow>
          (case down g k of (ret, k) \<Rightarrow>
             if ret \<noteq> 0 then Some (ret, k)
             else case tg_children (k_tgs k g) of
                    [] \<Rightarrow> walk_tg from_tg down up (Walk_up g) k
                  | c # _ \<Rightarrow> walk_tg from_tg down up (Walk_down c) k)
      | Walk_up g \<Rightarrow>
          (case up g k of (ret, k) \<Rightarrow>
             if ret \<noteq> 0 \<or> g = from_tg then Some (ret, k)
             else case tg_parent (k_tgs k g) of
                    None \<Rightarrow> Some (ret, k)
                  | Some q \<Rightarrow>
                      (case next_sibling (tg_children (k_tgs k q)) g of
                         None \<Rightarrow> walk_tg from_tg down up (Walk_up q) k
                       | Some c \<Rightarrow> walk_tg from_tg down up (Walk_down c) k)))"

definition walk_tg_tree_from ::
  "tgid \<Rightarrow> tg_visitor \<Rightarrow> tg_visitor \<Rightarrow> kernel \<Rightarrow> (int \<times> kernel) option" where
  "walk_tg_tree_from from_tg down up k = walk_tg from_tg down up (Walk_down from_tg) k"

definition walk_tg_tree :: "tg_visitor \<Rightarrow> tg_visitor \<Rightarrow> kernel \<Rightarrow> (int \<times> kernel) option" where
  "walk_tg_tree down up k = walk_tg_tree_from (k_root_tg k) down up k"

definition tg_nop :: tg_visitor where
  "tg_nop g k = (0, k)"

section \<open>The life of a group\<close>

definition alloc_uclamp_sched_group :: "tgid \<Rightarrow> tgid \<Rightarrow> kernel \<Rightarrow> kernel" where
  "alloc_uclamp_sched_group tg parent k =
     fold (\<lambda>i k. upd_tg_uc tg i (\<lambda>_. tg_uc k parent i)
                   (upd_tg_uc_req tg i (uclamp_se_set k (uclamp_none i) False) k)) clamp_ids k"

text \<open>A zeroed group, as \<open>kmem_cache_alloc\<close> returns it.\<close>

definition zero_uclamp_se :: uclamp_se where
  "zero_uclamp_se = \<lparr>uc_value = 0, uc_bucket_id = 0, uc_active = False, uc_user_defined = False\<rparr>"

definition zero_task_group :: task_group where
  "zero_task_group =
     \<lparr>tg_parent = None, tg_children = [], tg_autogroup = False, tg_shares = 0,
      tg_uclamp_req = (\<lambda>_. zero_uclamp_se), tg_uclamp = (\<lambda>_. zero_uclamp_se), tg_uclamp_pct = (\<lambda>_. 0),
      tg_cfs_bandwidth = \<lparr>cb_period = 0, cb_quota = 0, cb_burst = 0, cb_hierarchical_quota = 0\<rparr>\<rparr>"

definition sched_free_group :: "kapi \<Rightarrow> tgid \<Rightarrow> kernel \<Rightarrow> kernel" where
  "sched_free_group a tg k = ka_free_sched_group_parts a tg k"

text \<open>\<open>None\<close> is \<open>ERR_PTR(-ENOMEM)\<close>.\<close>

definition sched_create_group :: "kapi \<Rightarrow> tgid \<Rightarrow> kernel \<Rightarrow> tgid option \<times> kernel" where
  "sched_create_group a parent k =
     (case ka_new_task_group a k of
        None \<Rightarrow> (None, k)
      | Some tg \<Rightarrow>
          let k = upd_tg tg (\<lambda>_. zero_task_group) k;
              (fair_ok, k) = ka_alloc_fair_sched_group a tg parent k
          in if \<not> fair_ok then (None, sched_free_group a tg k)
             else let (rt_ok, k) = ka_alloc_rt_sched_group a tg parent k
                  in if \<not> rt_ok then (None, sched_free_group a tg k)
                     else (Some tg, alloc_uclamp_sched_group tg parent k))"

definition sched_online_group :: "kapi \<Rightarrow> tgid \<Rightarrow> tgid \<Rightarrow> kernel \<Rightarrow> kernel" where
  "sched_online_group a tg parent k =
     (let k = k\<lparr>k_task_groups := tg # k_task_groups k\<rparr>;
          k = upd_tg tg (\<lambda>g. g\<lparr>tg_parent := Some parent, tg_children := []\<rparr>) k;
          k = upd_tg parent (\<lambda>g. g\<lparr>tg_children := tg # tg_children g\<rparr>) k
      in ka_online_fair_sched_group a tg k)"

text \<open>The group keeps its own links; only its neighbours forget it.\<close>

definition sched_release_group :: "tgid \<Rightarrow> kernel \<Rightarrow> kernel" where
  "sched_release_group tg k =
     (let k = k\<lparr>k_task_groups := remove1 tg (k_task_groups k)\<rparr>
      in case tg_parent (k_tgs k tg) of
           None \<Rightarrow> k
         | Some q \<Rightarrow> upd_tg q (\<lambda>g. g\<lparr>tg_children := remove1 tg (tg_children g)\<rparr>) k)"

text \<open>What the grace periods of \<open>sched_destroy_group\<close> and \<open>css_free\<close> lead to.\<close>

definition sched_unregister_group :: "kapi \<Rightarrow> tgid \<Rightarrow> kernel \<Rightarrow> kernel" where
  "sched_unregister_group a tg k = sched_free_group a tg (ka_unregister_sched_group a tg k)"

definition cpu_cgroup_css_alloc :: "kapi \<Rightarrow> tgid option \<Rightarrow> kernel \<Rightarrow> tgid option \<times> kernel" where
  "cpu_cgroup_css_alloc a parent k =
     (case parent of None \<Rightarrow> (Some (k_root_tg k), k) | Some q \<Rightarrow> sched_create_group a q k)"

definition cpu_cgroup_css_online :: "kapi \<Rightarrow> tgid \<Rightarrow> tgid option \<Rightarrow> kernel \<Rightarrow> int \<times> kernel" where
  "cpu_cgroup_css_online a tg parent k =
     (let k = (case parent of None \<Rightarrow> k | Some q \<Rightarrow> sched_online_group a tg q k)
      in (0, cpu_util_update_eff a (k_tg_depth k) tg k))"

definition cpu_cgroup_css_released :: "tgid \<Rightarrow> kernel \<Rightarrow> kernel" where
  "cpu_cgroup_css_released tg k = sched_release_group tg k"

definition cpu_cgroup_css_free :: "kapi \<Rightarrow> tgid \<Rightarrow> kernel \<Rightarrow> kernel" where
  "cpu_cgroup_css_free a tg k = sched_unregister_group a tg k"

section \<open>Moving a task\<close>

definition sched_get_task_group :: "kapi \<Rightarrow> kernel \<Rightarrow> tid \<Rightarrow> tgid" where
  "sched_get_task_group a k p = ka_autogroup_task_group a k p (ka_task_css a k p)"

text \<open>The yat class sets no \<open>task_change_group\<close>.\<close>

definition class_task_change_group ::
  "kapi \<Rightarrow> sched_class \<Rightarrow> (tid \<Rightarrow> kernel \<Rightarrow> kernel) option" where
  "class_task_change_group a cls =
     (if cls = yat_casched_sched_class then None else ka_task_change_group a cls)"

definition sched_change_group :: "kapi \<Rightarrow> tid \<Rightarrow> tgid \<Rightarrow> kernel \<Rightarrow> kernel" where
  "sched_change_group a p grp k =
     (let k = upd_task p (\<lambda>t. t\<lparr>t_sched_task_group := grp\<rparr>) k
      in case class_task_change_group a (task_class k p) of
           Some f \<Rightarrow> f p k
         | None \<Rightarrow> ka_set_task_rq a p (task_cpu k p) k)"

definition sched_move_task :: "kapi \<Rightarrow> tid \<Rightarrow> kernel \<Rightarrow> kernel" where
  "sched_move_task a p k =
     (let queue_flags = DEQUEUE_SAVE OR DEQUEUE_MOVE OR DEQUEUE_NOCLOCK;
          c = task_cpu k p;
          grp = sched_get_task_group a k p
      in if grp = t_sched_task_group (k_tasks k p) then k
         else let k = update_rq_clock a c k;
                  running = task_current k c p;
                  queued = task_on_rq_queued (k_tasks k p);
                  k = (if queued then dequeue_task a c p queue_flags k else k);
                  k = (if running then put_prev_task a c p k else k);
                  k = sched_change_group a p grp k;
                  k = (if queued then enqueue_task a c p queue_flags k else k)
              in if running then resched_curr c (set_next_task a c p k) else k)"

definition cpu_cgroup_attach :: "kapi \<Rightarrow> tid list \<Rightarrow> kernel \<Rightarrow> kernel" where
  "cpu_cgroup_attach a tset = fold (sched_move_task a) tset"

section \<open>Bandwidth\<close>

definition BW_SHIFT :: nat where "BW_SHIFT = 20"
definition BW_UNIT :: u64 where "BW_UNIT = 0x100000"
definition MAX_BW :: u64 where "MAX_BW = 0xfffffffffff"
definition max_cfs_quota_period :: u64 where "max_cfs_quota_period = 1 * NSEC_PER_SEC"
definition min_cfs_quota_period :: u64 where "min_cfs_quota_period = 1 * NSEC_PER_MSEC"
definition max_cfs_runtime :: u64 where "max_cfs_runtime = MAX_BW * NSEC_PER_USEC"

lemmas bw_consts = BW_SHIFT_def BW_UNIT_def MAX_BW_def max_cfs_quota_period_def
  min_cfs_quota_period_def max_cfs_runtime_def time_consts

definition to_ratio :: "u64 \<Rightarrow> u64 \<Rightarrow> u64" where
  "to_ratio period runtime =
     (if runtime = RUNTIME_INF then BW_UNIT
      else if period = 0 then 0
      else push_bit BW_SHIFT runtime div period)"

definition upd_cfs_b :: "tgid \<Rightarrow> (cfs_bandwidth \<Rightarrow> cfs_bandwidth) \<Rightarrow> kernel \<Rightarrow> kernel" where
  "upd_cfs_b tg f = upd_tg tg (\<lambda>g. g\<lparr>tg_cfs_bandwidth := f (tg_cfs_bandwidth g)\<rparr>)"

definition cfs_b :: "kernel \<Rightarrow> tgid \<Rightarrow> cfs_bandwidth" where
  "cfs_b k tg = tg_cfs_bandwidth (k_tgs k tg)"

text \<open>Readings in microseconds; a \<open>long\<close> here is its 64-bit word.\<close>

definition tg_get_cfs_quota :: "kernel \<Rightarrow> tgid \<Rightarrow> u64" where
  "tg_get_cfs_quota k tg =
     (if cb_quota (cfs_b k tg) = RUNTIME_INF then -1 else cb_quota (cfs_b k tg) div NSEC_PER_USEC)"

definition tg_get_cfs_period :: "kernel \<Rightarrow> tgid \<Rightarrow> u64" where
  "tg_get_cfs_period k tg = cb_period (cfs_b k tg) div NSEC_PER_USEC"

definition tg_get_cfs_burst :: "kernel \<Rightarrow> tgid \<Rightarrow> u64" where
  "tg_get_cfs_burst k tg = cb_burst (cfs_b k tg) div NSEC_PER_USEC"

record cfs_schedulable_data =
  csd_tg :: tgid
  csd_period :: u64
  csd_quota :: u64

definition normalize_cfs_quota :: "kernel \<Rightarrow> tgid \<Rightarrow> cfs_schedulable_data \<Rightarrow> u64" where
  "normalize_cfs_quota k tg d =
     (let (period, quota) =
            (if tg = csd_tg d then (csd_period d, csd_quota d)
             else (tg_get_cfs_period k tg, tg_get_cfs_quota k tg))
      in if quota = RUNTIME_INF \<or> quota = -1 then RUNTIME_INF else to_ratio period quota)"

text \<open>\<open>quota\<close> and \<open>parent_quota\<close> are \<open>s64\<close>: compared by \<open>sint\<close>, and \<open>RUNTIME_INF\<close> is \<open>-1\<close>.\<close>

definition tg_cfs_schedulable_down :: "kapi \<Rightarrow> cfs_schedulable_data \<Rightarrow> tg_visitor" where
  "tg_cfs_schedulable_down a d tg k =
     (let set_quota = (\<lambda>q. (0, upd_cfs_b tg (\<lambda>b. b\<lparr>cb_hierarchical_quota := q\<rparr>) k))
      in case tg_parent (k_tgs k tg) of
           None \<Rightarrow> set_quota RUNTIME_INF
         | Some p \<Rightarrow>
             let quota = normalize_cfs_quota k tg d;
                 parent_quota = cb_hierarchical_quota (cfs_b k p)
             in if ka_cgroup_on_dfl a
                then if quota = RUNTIME_INF then set_quota parent_quota
                     else if parent_quota \<noteq> RUNTIME_INF
                     then set_quota (if sint quota < sint parent_quota then quota else parent_quota)
                     else set_quota quota
                else if quota = RUNTIME_INF then set_quota parent_quota
                     else if parent_quota \<noteq> RUNTIME_INF \<and> sint parent_quota < sint quota
                     then (- EINVAL, k)
                     else set_quota quota)"

definition us_cfs_schedulable :: "kapi \<Rightarrow> tgid \<Rightarrow> u64 \<Rightarrow> u64 \<Rightarrow> kernel \<Rightarrow> (int \<times> kernel) option" where
  "us_cfs_schedulable a tg period quota k =
     (let d = (if quota \<noteq> RUNTIME_INF
               then \<lparr>csd_tg = tg, csd_period = period div NSEC_PER_USEC, csd_quota = quota div NSEC_PER_USEC\<rparr>
               else \<lparr>csd_tg = tg, csd_period = period, csd_quota = quota\<rparr>)
      in walk_tg_tree (tg_cfs_schedulable_down a d) tg_nop k)"

definition set_cfs_rq_runtime :: "kapi \<Rightarrow> tgid \<Rightarrow> bool \<Rightarrow> cpu \<Rightarrow> kernel \<Rightarrow> kernel" where
  "set_cfs_rq_runtime a tg runtime_enabled i k =
     (let q = (k_cfs_rqs k tg i)\<lparr>cr_runtime_enabled := runtime_enabled, cr_runtime_remaining := 0\<rparr>;
          k = k\<lparr>k_cfs_rqs := (k_cfs_rqs k)(tg := (k_cfs_rqs k tg)(i := q))\<rparr>
      in if cr_throttled q then ka_unthrottle_cfs_rq a tg i k else k)"

text \<open>The guards of \<open>tg_set_cfs_bandwidth\<close>, and what it does once the limits are admitted.\<close>

definition cfs_bandwidth_invalid :: "kernel \<Rightarrow> tgid \<Rightarrow> u64 \<Rightarrow> u64 \<Rightarrow> u64 \<Rightarrow> bool" where
  "cfs_bandwidth_invalid k tg period quota burst \<longleftrightarrow>
     tg = k_root_tg k \<or>
     quota < min_cfs_quota_period \<or> period < min_cfs_quota_period \<or>
     max_cfs_quota_period < period \<or>
     quota \<noteq> RUNTIME_INF \<and> max_cfs_runtime < quota \<or>
     quota \<noteq> RUNTIME_INF \<and> (quota < burst \<or> max_cfs_runtime < burst + quota)"

definition commit_cfs_bandwidth :: "kapi \<Rightarrow> tgid \<Rightarrow> u64 \<Rightarrow> u64 \<Rightarrow> u64 \<Rightarrow> kernel \<Rightarrow> kernel" where
  "commit_cfs_bandwidth a tg period quota burst k =
     (let runtime_enabled = (quota \<noteq> RUNTIME_INF);
          runtime_was_enabled = (cb_quota (cfs_b k tg) \<noteq> RUNTIME_INF);
          k = (if runtime_enabled \<and> \<not> runtime_was_enabled then ka_cfs_bandwidth_usage_inc a k else k);
          k = upd_cfs_b tg (\<lambda>b. b\<lparr>cb_period := period, cb_quota := quota, cb_burst := burst\<rparr>) k;
          k = ka_refill_cfs_bandwidth_runtime a tg k;
          k = (if runtime_enabled then ka_start_cfs_bandwidth a tg k else k);
          k = fold (set_cfs_rq_runtime a tg runtime_enabled) (for_each_cpu k (k_online k)) k
      in if runtime_was_enabled \<and> \<not> runtime_enabled then ka_cfs_bandwidth_usage_dec a k else k)"

definition tg_set_cfs_bandwidth ::
  "kapi \<Rightarrow> tgid \<Rightarrow> u64 \<Rightarrow> u64 \<Rightarrow> u64 \<Rightarrow> kernel \<Rightarrow> (int \<times> kernel) option" where
  "tg_set_cfs_bandwidth a tg period quota burst k =
     (if cfs_bandwidth_invalid k tg period quota burst then Some (- EINVAL, k)
      else map_option (\<lambda>(ret, k). if ret \<noteq> 0 then (ret, k)
                                  else (0, commit_cfs_bandwidth a tg period quota burst k))
             (us_cfs_schedulable a tg period quota k))"

definition U64_MAX :: u64 where "U64_MAX = 0xffffffffffffffff"

definition tg_set_cfs_quota :: "kapi \<Rightarrow> tgid \<Rightarrow> u64 \<Rightarrow> kernel \<Rightarrow> (int \<times> kernel) option" where
  "tg_set_cfs_quota a tg cfs_quota_us k =
     (let set_quota = (\<lambda>q. tg_set_cfs_bandwidth a tg (cb_period (cfs_b k tg)) q (cb_burst (cfs_b k tg)) k)
      in if sint cfs_quota_us < 0 then set_quota RUNTIME_INF
         else if cfs_quota_us \<le> U64_MAX div NSEC_PER_USEC then set_quota (cfs_quota_us * NSEC_PER_USEC)
         else Some (- EINVAL, k))"

definition tg_set_cfs_period :: "kapi \<Rightarrow> tgid \<Rightarrow> u64 \<Rightarrow> kernel \<Rightarrow> (int \<times> kernel) option" where
  "tg_set_cfs_period a tg cfs_period_us k =
     (if U64_MAX div NSEC_PER_USEC < cfs_period_us then Some (- EINVAL, k)
      else tg_set_cfs_bandwidth a tg (cfs_period_us * NSEC_PER_USEC) (cb_quota (cfs_b k tg))
             (cb_burst (cfs_b k tg)) k)"

definition tg_set_cfs_burst :: "kapi \<Rightarrow> tgid \<Rightarrow> u64 \<Rightarrow> kernel \<Rightarrow> (int \<times> kernel) option" where
  "tg_set_cfs_burst a tg cfs_burst_us k =
     (if U64_MAX div NSEC_PER_USEC < cfs_burst_us then Some (- EINVAL, k)
      else tg_set_cfs_bandwidth a tg (cb_period (cfs_b k tg)) (cb_quota (cfs_b k tg))
             (cfs_burst_us * NSEC_PER_USEC) k)"

section \<open>The cgroup files\<close>

definition cpu_cfs_quota_read_s64 where "cpu_cfs_quota_read_s64 k tg = tg_get_cfs_quota k tg"
definition cpu_cfs_quota_write_s64 where "cpu_cfs_quota_write_s64 a tg v k = tg_set_cfs_quota a tg v k"
definition cpu_cfs_period_read_u64 where "cpu_cfs_period_read_u64 k tg = tg_get_cfs_period k tg"
definition cpu_cfs_period_write_u64 where "cpu_cfs_period_write_u64 a tg v k = tg_set_cfs_period a tg v k"
definition cpu_cfs_burst_read_u64 where "cpu_cfs_burst_read_u64 k tg = tg_get_cfs_burst k tg"
definition cpu_cfs_burst_write_u64 where "cpu_cfs_burst_write_u64 a tg v k = tg_set_cfs_burst a tg v k"

text \<open>\<open>scale_load_down\<close> keeps a non-zero weight at two or above; \<open>MAX_SHARES\<close> is \<open>1UL << 18\<close>.\<close>

definition scale_load_down :: "u64 \<Rightarrow> u64" where
  "scale_load_down w = (if w = 0 then 0 else max 2 (drop_bit SCHED_CAPACITY_SHIFT w))"

definition MAX_SHARES :: u64 where "MAX_SHARES = 0x40000"

definition cpu_shares_write_u64 :: "kapi \<Rightarrow> tgid \<Rightarrow> u64 \<Rightarrow> kernel \<Rightarrow> int \<times> kernel" where
  "cpu_shares_write_u64 a tg shareval k =
     (let shareval = (if scale_load_down ULONG_MAX < shareval then MAX_SHARES else shareval)
      in ka_sched_group_set_shares a tg (push_bit SCHED_CAPACITY_SHIFT shareval) k)"

definition cpu_shares_read_u64 :: "kernel \<Rightarrow> tgid \<Rightarrow> u64" where
  "cpu_shares_read_u64 k tg = scale_load_down (tg_shares (k_tgs k tg))"

definition CGROUP_WEIGHT_MIN :: u64 where "CGROUP_WEIGHT_MIN = 1"
definition CGROUP_WEIGHT_DFL :: u64 where "CGROUP_WEIGHT_DFL = 100"
definition CGROUP_WEIGHT_MAX :: u64 where "CGROUP_WEIGHT_MAX = 10000"

definition DIV_ROUND_CLOSEST_ULL :: "u64 \<Rightarrow> u64 \<Rightarrow> u64" where
  "DIV_ROUND_CLOSEST_ULL x d = (x + d div 2) div d"

definition cpu_weight_read_u64 :: "kernel \<Rightarrow> tgid \<Rightarrow> u64" where
  "cpu_weight_read_u64 k tg =
     DIV_ROUND_CLOSEST_ULL (scale_load_down (tg_shares (k_tgs k tg)) * CGROUP_WEIGHT_DFL) 1024"

definition cpu_weight_write_u64 :: "kapi \<Rightarrow> tgid \<Rightarrow> u64 \<Rightarrow> kernel \<Rightarrow> int \<times> kernel" where
  "cpu_weight_write_u64 a tg weight k =
     (if weight < CGROUP_WEIGHT_MIN \<or> CGROUP_WEIGHT_MAX < weight then (- ERANGE, k)
      else let weight = DIV_ROUND_CLOSEST_ULL (weight * 1024) CGROUP_WEIGHT_DFL
           in ka_sched_group_set_shares a tg (push_bit SCHED_CAPACITY_SHIFT weight) k)"

text \<open>
  The search for the nice level whose weight is closest: it stops at the first level that is
  not closer than the one before.  \<open>delta\<close> is an \<open>int\<close>.
\<close>

fun closest_prio :: "u64 \<Rightarrow> nat list \<Rightarrow> int \<Rightarrow> int \<Rightarrow> int" where
  "closest_prio weight [] prio last_delta = prio"
| "closest_prio weight (w # ws) prio last_delta =
     (let delta = sint (ucast (word_of_int \<bar>sint (of_nat w - weight)\<bar> :: u64) :: u32)
      in if last_delta \<le> delta then prio else closest_prio weight ws (prio + 1) delta)"

definition INT_MAX :: int where "INT_MAX = 2147483647"

definition cpu_weight_nice_read_s64 :: "kernel \<Rightarrow> tgid \<Rightarrow> int" where
  "cpu_weight_nice_read_s64 k tg =
     (let weight = scale_load_down (tg_shares (k_tgs k tg))
      in PRIO_TO_NICE (closest_prio weight sched_prio_to_weight 0 INT_MAX - 1 + MAX_RT_PRIO))"

definition cpu_weight_nice_write_s64 :: "kapi \<Rightarrow> tgid \<Rightarrow> int \<Rightarrow> kernel \<Rightarrow> int \<times> kernel" where
  "cpu_weight_nice_write_s64 a tg nice k =
     (if nice < MIN_NICE \<or> MAX_NICE < nice then (- ERANGE, k)
      else let weight = sched_prio_to_weight ! nat (NICE_TO_PRIO nice - MAX_RT_PRIO)
           in ka_sched_group_set_shares a tg (push_bit SCHED_CAPACITY_SHIFT (of_nat weight)) k)"

text \<open>\<open>%ld\<close> of a period and of a quota that is \<open>max\<close> when negative.\<close>

definition show_signed :: "u64 \<Rightarrow> string" where
  "show_signed w = (if sint w < 0 then ''-'' @ show_dec (nat (- sint w)) else show_dec (nat (sint w)))"

definition cpu_period_quota_print :: "u64 \<Rightarrow> u64 \<Rightarrow> string" where
  "cpu_period_quota_print period quota =
     (if sint quota < 0 then ''max'' else show_signed quota) @ '' '' @ show_signed period @
     [char_of (10 :: nat)]"

definition cpu_max_show :: "kernel \<Rightarrow> tgid \<Rightarrow> string" where
  "cpu_max_show k tg = cpu_period_quota_print (tg_get_cfs_period k tg) (tg_get_cfs_quota k tg)"

text \<open>
  \<open>sscanf\<close> of the library: the first token, with the number after it if there is one, and a
  number at the start of a string.  The result is the error, the period and the quota.
\<close>

definition cpu_period_quota_parse :: "kapi \<Rightarrow> string \<Rightarrow> u64 \<Rightarrow> int \<times> u64 \<times> u64" where
  "cpu_period_quota_parse a buf period =
     (case ka_scan_max a buf of
        None \<Rightarrow> (- EINVAL, period, 0)
      | Some (tok, second) \<Rightarrow>
          let period = (case second of None \<Rightarrow> period | Some p \<Rightarrow> p) * NSEC_PER_USEC
          in case ka_scan_u64 a tok of
               Some q \<Rightarrow> (0, period, q * NSEC_PER_USEC)
             | None \<Rightarrow> if tok = ''max'' then (0, period, RUNTIME_INF) else (- EINVAL, period, 0))"

definition cpu_max_write :: "kapi \<Rightarrow> tgid \<Rightarrow> string \<Rightarrow> int \<Rightarrow> kernel \<Rightarrow> (int \<times> kernel) option" where
  "cpu_max_write a tg buf nbytes k =
     (let burst = tg_get_cfs_burst k tg;
          (ret, period, quota) = cpu_period_quota_parse a buf (tg_get_cfs_period k tg)
      in map_option (\<lambda>(ret, k). (if ret \<noteq> 0 then ret else nbytes, k))
           (if ret = 0 then tg_set_cfs_bandwidth a tg period quota burst k else Some (ret, k)))"


end
