(* ===== verification/Groups_Correct.thy ===== *)
theory Groups_Correct
  imports Task_Groups Uclamp_Groups
begin

text \<open>
  Properties of task groups: the walk with its jumps is the recursive traversal of the tree,
  weights written to the cgroup files are read back, and two defects of the bandwidth code.
\<close>

section \<open>The walk is a traversal\<close>

text \<open>The reference: a recursive depth-first traversal that stops at the first error.\<close>

fun visit_all :: "tg_visitor \<Rightarrow> tgid list \<Rightarrow> kernel \<Rightarrow> int \<times> kernel" where
  "visit_all f [] k = (0, k)"
| "visit_all f (g # gs) k =
     (case f g k of (ret, k) \<Rightarrow> if ret \<noteq> 0 then (ret, k) else visit_all f gs k)"

primrec tg_dfs :: "tg_visitor \<Rightarrow> tg_visitor \<Rightarrow> nat \<Rightarrow> tg_visitor" where
  "tg_dfs down up 0 g k = (0, k)"
| "tg_dfs down up (Suc n) g k =
     (case down g k of (ret, k) \<Rightarrow>
        if ret \<noteq> 0 then (ret, k)
        else case visit_all (tg_dfs down up n) (tg_children (k_tgs k g)) k of (ret, k) \<Rightarrow>
          if ret \<noteq> 0 then (ret, k) else up g k)"

definition tree_shape :: "kernel \<Rightarrow> tgid \<Rightarrow> tgid option \<times> tgid list" where
  "tree_shape k g = (tg_parent (k_tgs k g), tg_children (k_tgs k g))"

definition keeps_tree :: "tg_visitor \<Rightarrow> bool" where
  "keeps_tree f \<longleftrightarrow> (\<forall>g k. tree_shape (snd (f g k)) = tree_shape k)"

lemma keeps_treeD: "keeps_tree f \<Longrightarrow> f g k = (ret, k') \<Longrightarrow> tree_shape k' = tree_shape k"
  by (metis keeps_tree_def snd_conv)

lemma tree_shapeD:
  assumes "tree_shape k = tree_shape k'"
  shows "tg_parent (k_tgs k g) = tg_parent (k_tgs k' g)" "tg_children (k_tgs k g) = tg_children (k_tgs k' g)"
  using fun_cong [OF assms, of g] by (simp_all add: tree_shape_def)

lemma visit_all_keeps: "keeps_tree f \<Longrightarrow> tree_shape (snd (visit_all f gs k)) = tree_shape k"
  by (induction gs arbitrary: k) (auto split: prod.split dest: keeps_treeD)

lemma tg_dfs_keeps: "keeps_tree down \<Longrightarrow> keeps_tree up \<Longrightarrow> keeps_tree (tg_dfs down up n)"
proof (induction n)
  case (Suc n)
  then have "keeps_tree (tg_dfs down up n)" by simp
  then show ?case
    using visit_all_keeps [of "tg_dfs down up n"] Suc.prems
    by (auto simp: keeps_tree_def split: prod.split) (metis snd_conv)+
qed (simp add: keeps_tree_def)

lemma next_sibling_append:
  assumes "distinct (pre @ c # cs)"
  shows "next_sibling (pre @ c # cs) c = (case cs of [] \<Rightarrow> None | d # _ \<Rightarrow> Some d)"
proof -
  have "dropWhile (\<lambda>x. x \<noteq> c) (pre @ c # cs) = c # cs"
    using assms by (subst dropWhile_append2) auto
  then show ?thesis by (simp add: next_sibling_def split: list.split)
qed

text \<open>What the walk does after it has left a group for the last time.\<close>

definition walk_after :: "tgid \<Rightarrow> tg_visitor \<Rightarrow> tg_visitor \<Rightarrow> tgid \<Rightarrow> kernel \<Rightarrow> (int \<times> kernel) option" where
  "walk_after from_tg down up g k =
     (case tg_parent (k_tgs k g) of
        None \<Rightarrow> Some (0, k)
      | Some q \<Rightarrow>
          (case next_sibling (tg_children (k_tgs k q)) g of
             None \<Rightarrow> walk_tg from_tg down up (Walk_up q) k
           | Some c \<Rightarrow> walk_tg from_tg down up (Walk_down c) k))"

lemma walk_up_after:
  "walk_tg from_tg down up (Walk_up g) k =
     (case up g k of (ret, k) \<Rightarrow>
        if ret \<noteq> 0 \<or> g = from_tg then Some (ret, k) else walk_after from_tg down up g k)"
  by (subst walk_tg.simps) (auto simp: walk_after_def split: prod.split option.split)

lemma forest_child:
  assumes "tg_forest k lvl" "tg_children (k_tgs k g) = pre @ c # cs"
  shows "tg_parent (k_tgs k c) = Some g" "distinct (pre @ c # cs)" "lvl c = Suc (lvl g)"
proof -
  have "c \<in> set (tg_children (k_tgs k g))" by (simp add: assms(2))
  then show p: "tg_parent (k_tgs k c) = Some g" using assms(1) unfolding tg_forest_def by blast
  show "distinct (pre @ c # cs)" using assms unfolding tg_forest_def by metis
  show "lvl c = Suc (lvl g)" using assms(1) p unfolding tg_forest_def by blast
qed

text \<open>After a child, the walk goes to its next sibling, or up.\<close>

lemma walk_after_child:
  assumes "tg_forest k0 lvl" "tg_children (k_tgs k0 g) = pre @ c # cs" "tree_shape k = tree_shape k0"
  shows "walk_after from_tg down up c k =
    (case cs of [] \<Rightarrow> walk_tg from_tg down up (Walk_up g) k
     | d # _ \<Rightarrow> walk_tg from_tg down up (Walk_down d) k)"
  unfolding walk_after_def tree_shapeD [OF assms(3)] forest_child(1) [OF assms(1,2)] option.case
    assms(2) next_sibling_append [OF forest_child(2) [OF assms(1,2)]]
  by (simp split: list.split)

lemma walk_children:
  assumes dfs: "keeps_tree (tg_dfs down up n)"
    and forest: "tg_forest k0 lvl" and above: "lvl from_tg \<le> lvl g"
    and kids: "tg_children (k_tgs k0 g) = pre @ c # cs"
    and child: "\<And>d k. d \<in> set (c # cs) \<Longrightarrow> tree_shape k = tree_shape k0 \<Longrightarrow>
      walk_tg from_tg down up (Walk_down d) k =
        (case tg_dfs down up n d k of (ret, k) \<Rightarrow>
           if ret \<noteq> 0 \<or> d = from_tg then Some (ret, k) else walk_after from_tg down up d k)"
    and shape: "tree_shape k = tree_shape k0"
  shows "walk_tg from_tg down up (Walk_down c) k =
    (case visit_all (tg_dfs down up n) (c # cs) k of (ret, k) \<Rightarrow>
       if ret \<noteq> 0 then Some (ret, k) else walk_tg from_tg down up (Walk_up g) k)"
  using kids child shape
proof (induction cs arbitrary: pre c k)
  case (Nil pre c k)
  obtain ret k' where r: "tg_dfs down up n c k = (ret, k')" by fastforce
  have s: "tree_shape k' = tree_shape k0" using keeps_treeD [OF dfs r] Nil.prems(3) by simp
  have "c \<noteq> from_tg" using forest_child(3) [OF forest Nil.prems(1)] above by auto
  then have "walk_tg from_tg down up (Walk_down c) k =
      (if ret \<noteq> 0 then Some (ret, k') else walk_after from_tg down up c k')"
    using Nil.prems(2) [of c k] Nil.prems(3) by (simp add: r)
  then show ?case by (simp add: r walk_after_child [OF forest Nil.prems(1) s])
next
  case (Cons d cs pre c k)
  obtain ret k' where r: "tg_dfs down up n c k = (ret, k')" by fastforce
  have s: "tree_shape k' = tree_shape k0" using keeps_treeD [OF dfs r] Cons.prems(3) by simp
  have "c \<noteq> from_tg" using forest_child(3) [OF forest Cons.prems(1)] above by auto
  then have c: "walk_tg from_tg down up (Walk_down c) k =
      (if ret \<noteq> 0 then Some (ret, k') else walk_after from_tg down up c k')"
    using Cons.prems(2) [of c k] Cons.prems(3) by (simp add: r)
  have "walk_tg from_tg down up (Walk_down d) k' =
      (case visit_all (tg_dfs down up n) (d # cs) k' of (ret, k) \<Rightarrow>
         if ret \<noteq> 0 then Some (ret, k) else walk_tg from_tg down up (Walk_up g) k)"
    by (rule Cons.IH [of "pre @ [c]" d k']) (simp_all add: Cons.prems s)
  then show ?case by (simp add: c r walk_after_child [OF forest Cons.prems(1) s])
qed

lemma walk_down_dfs:
  assumes keep: "keeps_tree down" "keeps_tree up" and forest: "tg_forest k0 lvl"
  shows "tg_depth_le k0 n g \<Longrightarrow> lvl from_tg \<le> lvl g \<Longrightarrow> tree_shape k = tree_shape k0 \<Longrightarrow>
    walk_tg from_tg down up (Walk_down g) k =
      (case tg_dfs down up n g k of (ret, k) \<Rightarrow>
         if ret \<noteq> 0 \<or> g = from_tg then Some (ret, k) else walk_after from_tg down up g k)"
proof (induction n arbitrary: g k)
  case (Suc n g k)
  obtain ret k1 where d: "down g k = (ret, k1)" by fastforce
  have s1: "tree_shape k1 = tree_shape k0" using keeps_treeD [OF keep(1) d] Suc.prems(3) by simp
  show ?case
  proof (cases "tg_children (k_tgs k0 g)")
    case Nil
    then show ?thesis
      by (subst walk_tg.simps) (simp add: d tree_shapeD(2) [OF s1] walk_up_after)
  next
    case (Cons c cs)
    have "walk_tg from_tg down up (Walk_down c) k1 =
      (case visit_all (tg_dfs down up n) (c # cs) k1 of (ret, k) \<Rightarrow>
         if ret \<noteq> 0 then Some (ret, k) else walk_tg from_tg down up (Walk_up g) k)"
    proof (rule walk_children [OF tg_dfs_keeps [OF keep] forest Suc.prems(2), where pre = "[]"])
      fix d' k' assume d': "d' \<in> set (c # cs)" "tree_shape k' = tree_shape k0"
      then have "d' \<in> set (tg_children (k_tgs k0 g))" by (simp add: Cons)
      then have "lvl from_tg \<le> lvl d'" "tg_depth_le k0 n d'"
        using forest Suc.prems(1,2) unfolding tg_forest_def by (metis le_SucI, simp)
      then show "walk_tg from_tg down up (Walk_down d') k' =
          (case tg_dfs down up n d' k' of (ret, k) \<Rightarrow>
             if ret \<noteq> 0 \<or> d' = from_tg then Some (ret, k) else walk_after from_tg down up d' k)"
        by (intro Suc.IH) (use d'(2) in simp_all)
    qed (simp_all add: Cons s1)
    then show ?thesis
      by (subst walk_tg.simps)
        (simp add: d tree_shapeD(2) [OF s1] Cons walk_up_after del: visit_all.simps split: prod.split)
  qed
qed simp

text \<open>
  C23: The loop of \<open>walk_tg_tree_from\<close>, with its jumps into and out of the list iteration,
  terminates on every finite group tree and equals the recursive traversal: \<open>down\<close> before the
  children, the children in list order, \<open>up\<close> after them, ending at the first error.
\<close>

theorem walk_tg_tree_from_dfs:
  assumes "keeps_tree down" "keeps_tree up" "tg_forest k lvl" "tg_depth_le k n from_tg"
  shows "walk_tg_tree_from from_tg down up k = Some (tg_dfs down up n from_tg k)"
  using walk_down_dfs [OF assms(1-3) assms(4), of from_tg k]
  by (simp add: walk_tg_tree_from_def split: prod.split)

lemma tg_nop_apply: "tg_nop g k = (0, k)"
  by (simp add: tg_nop_def)

lemma tg_nop_keeps: "keeps_tree tg_nop"
  by (simp add: keeps_tree_def tg_nop_def)

lemma upd_cfs_b_shape [simp]: "tree_shape (upd_cfs_b tg f k) = tree_shape k"
  by (rule ext) (simp add: tree_shape_def upd_cfs_b_def)

lemma schedulable_down_keeps: "keeps_tree (tg_cfs_schedulable_down a d)"
  by (simp add: keeps_tree_def tg_cfs_schedulable_down_def Let_def split: option.split)

theorem walk_tg_tree_from_dfs_witness:
  "walk_tg_tree_from 0 (tg_cfs_schedulable_down sample_kapi \<lparr>csd_tg = 1, csd_period = 100, csd_quota = 50\<rparr>)
     tg_nop sample_groups =
   Some (tg_dfs (tg_cfs_schedulable_down sample_kapi \<lparr>csd_tg = 1, csd_period = 100, csd_quota = 50\<rparr>)
     tg_nop 2 0 sample_groups)"
proof (rule walk_tg_tree_from_dfs)
  show "tg_forest sample_groups (\<lambda>g. g)"
    by (auto simp: tg_forest_def sample_groups_def upd_tg_uc_req_def sample_defs)
  show "tg_depth_le sample_groups 2 0"
    by (simp add: numeral_2_eq_2 sample_groups_def upd_tg_uc_req_def sample_defs)
qed (rule schedulable_down_keeps tg_nop_keeps)+

section \<open>Weights\<close>

text \<open>
  What \<open>sched_group_set_shares\<close> of the fair class promises for shares within its bounds: it
  stores them.
\<close>

definition set_shares_stores :: "kapi \<Rightarrow> bool" where
  "set_shares_stores a \<longleftrightarrow>
     (\<forall>tg s k. 2048 \<le> s \<and> s \<le> push_bit 10 MAX_SHARES \<longrightarrow>
        ka_sched_group_set_shares a tg s k = (0, upd_tg tg (\<lambda>g. g\<lparr>tg_shares := s\<rparr>) k))"

lemma weight_conversions:
  fixes n :: nat
  assumes "1 \<le> n" "n \<le> 10000"
  defines "w \<equiv> (n * 1024 + 50) div 100"
  shows "10 \<le> w" "w \<le> 102400" "(w * 100 + 512) div 1024 = n"
proof -
  have w: "100 * w \<le> n * 1024 + 50" "n * 1024 + 50 < 100 * w + 100"
    by (simp_all add: w_def)
  show "10 \<le> w" "w \<le> 102400" using w assms(1,2) by simp_all
  have "1024 * n \<le> w * 100 + 512" "w * 100 + 512 < 1024 * (n + 1)" using w by simp_all
  then show "(w * 100 + 512) div 1024 = n" by (simp add: div_nat_eqI mult.commute)
qed

lemma word_of_weight:
  assumes "n \<le> 10000"
  shows "DIV_ROUND_CLOSEST_ULL (of_nat n * 1024) CGROUP_WEIGHT_DFL = of_nat ((n * 1024 + 50) div 100)"
  using assms
  by (simp add: DIV_ROUND_CLOSEST_ULL_def CGROUP_WEIGHT_DFL_def word_unat_eq_iff unat_div unat_word_ariths
      unat_of_nat)

lemma word_of_shares:
  assumes "10 \<le> w" "w \<le> 102400"
  shows "2048 \<le> push_bit 10 (of_nat w :: u64)" "push_bit 10 (of_nat w :: u64) \<le> push_bit 10 MAX_SHARES"
    "scale_load_down (push_bit 10 (of_nat w)) = of_nat w"
proof -
  have p: "push_bit 10 (of_nat w :: u64) = of_nat (w * 1024)" by (simp add: push_bit_eq_mult)
  have u: "unat (of_nat (w * 1024) :: u64) = w * 1024" "unat (of_nat w :: u64) = w"
    using assms by (simp_all add: unat_of_nat del: of_nat_mult)
  show le: "2048 \<le> push_bit 10 (of_nat w :: u64)" "push_bit 10 (of_nat w :: u64) \<le> push_bit 10 MAX_SHARES"
    unfolding p word_le_nat_alt u using assms by (simp_all add: MAX_SHARES_def)
  have "unat (drop_bit 10 (of_nat (w * 1024) :: u64)) = unat (of_nat w :: u64)"
    by (simp only: drop_bit_eq_div unat_div u) simp
  then have d: "drop_bit 10 (of_nat (w * 1024) :: u64) = of_nat w" by (rule word_unat_eq_iff [THEN iffD2])
  have "(of_nat (w * 1024) :: u64) \<noteq> 0" "max 2 (of_nat w) = (of_nat w :: u64)"
    using le(1) assms unfolding p by (auto simp: max_def word_le_nat_alt u)
  then show "scale_load_down (push_bit 10 (of_nat w)) = of_nat w"
    unfolding scale_load_down_def p SCHED_CAPACITY_SHIFT_def by (simp only: d if_False)
qed

text \<open>The search on plain integers, for weights that fit.\<close>

fun closest_level :: "int \<Rightarrow> nat list \<Rightarrow> int \<Rightarrow> int \<Rightarrow> int" where
  "closest_level weight [] prio last_delta = prio"
| "closest_level weight (w # ws) prio last_delta =
     (if last_delta \<le> \<bar>int w - weight\<bar> then prio
      else closest_level weight ws (prio + 1) \<bar>int w - weight\<bar>)"

lemma word_delta:
  assumes "w < 2 ^ 20" "v < 2 ^ 20"
  shows "sint (ucast (word_of_int \<bar>sint (of_nat w - of_nat v :: u64)\<bar> :: u64) :: u32) = \<bar>int w - int v\<bar>"
proof -
  have s: "sint (of_nat n :: u64) = int n" if "n < 2 ^ 20" for n
    using that by (simp add: sint_uint uint_nat unat_of_nat signed_take_bit_int_eq_self)
  have "sint (of_nat w - of_nat v :: u64) = int w - int v"
    using assms by (simp add: s sint_word_ariths signed_take_bit_int_eq_self)
  moreover have "sint (ucast (word_of_int x :: u64) :: u32) = x" if "0 \<le> x" "x < 2 ^ 21" for x
    using that by (simp add: signed_take_bit_int_eq_self sint_uint unsigned_ucast_eq
        take_bit_int_eq_self uint_word_of_int)
  ultimately show ?thesis using assms by simp
qed

lemma closest_prio_level:
  "\<lbrakk> list_all (\<lambda>w. w < 2 ^ 20) ws; v < 2 ^ 20 \<rbrakk> \<Longrightarrow>
   closest_prio (of_nat v) ws prio d = closest_level (int v) ws prio d"
  by (induction ws arbitrary: prio d) (simp_all add: word_delta Let_def)

text \<open>In a decreasing table the search stops right after the weight itself.\<close>

lemma closest_level_found:
  assumes "sorted_wrt (>) (xs @ v # ys)" "list_all (\<lambda>w. int w - int v < d) xs" "0 < d"
  shows "closest_level (int v) (xs @ v # ys) prio d = prio + int (length xs) + 1"
  using assms
proof (induction xs arbitrary: prio d)
  case Nil
  then show ?case by (cases ys) simp_all
next
  case (Cons x xs)
  then have x: "v < x" "list_all (\<lambda>w. int w - int v < int x - int v) xs"
    by (auto simp: list_all_iff)
  then show ?case using Cons.IH [of "int x - int v" "prio + 1"] Cons.prems by simp
qed

lemma closest_level_nth:
  assumes "sorted_wrt (>) ws" "i < length ws" "list_all (\<lambda>w. int w < d) ws"
  shows "closest_level (int (ws ! i)) ws prio d = prio + int i + 1"
proof -
  have "int (ws ! n) < d" if "n < length ws" for n
    using assms(3) that by (simp add: list_all_length)
  then have "int (ws ! n) - int (ws ! i) < d" if "n < length ws" for n
    using that by fastforce
  moreover have "0 < d"
    using assms(2,3) by (cases ws) auto
  ultimately show ?thesis
    using closest_level_found [of "take i ws" "ws ! i" "drop (Suc i) ws" d prio] assms(1,2)
    by (simp add: id_take_nth_drop [symmetric] list_all_length)
qed

lemma sched_prio_to_weight_facts:
  "sorted_wrt (>) sched_prio_to_weight" "length sched_prio_to_weight = 40"
  "list_all (\<lambda>w. 10 \<le> w \<and> w \<le> 102400) sched_prio_to_weight"
  by (simp_all add: sched_prio_to_weight_def)

lemma closest_prio_nth:
  assumes "i < 40"
  shows "closest_prio (of_nat (sched_prio_to_weight ! i)) sched_prio_to_weight 0 INT_MAX = int i + 1"
proof -
  have "list_all (\<lambda>w. w < 2 ^ 20) sched_prio_to_weight" "sched_prio_to_weight ! i < 2 ^ 20"
    "list_all (\<lambda>w. int w < INT_MAX) sched_prio_to_weight"
    using sched_prio_to_weight_facts assms by (auto simp: list_all_length INT_MAX_def)
  then show ?thesis
    using closest_level_nth [of sched_prio_to_weight i INT_MAX 0] sched_prio_to_weight_facts assms
    by (simp add: closest_prio_level)
qed

lemma cpu_weight_write_read:
  assumes "set_shares_stores a" "1 \<le> w" "w \<le> 10000"
  shows "\<exists>k'. cpu_weight_write_u64 a tg w k = (0, k') \<and> cpu_weight_read_u64 k' tg = w"
proof -
  define n where "n = unat w"
  have n: "1 \<le> n" "n \<le> 10000" "w = of_nat n"
    using assms(2,3) by (simp_all add: n_def word_le_nat_alt)
  let ?w = "(n * 1024 + 50) div 100"
  note c = weight_conversions [OF n(1,2)]
  note sh = word_of_shares [OF c(1,2)]
  have "\<not> (w < CGROUP_WEIGHT_MIN \<or> CGROUP_WEIGHT_MAX < w)"
    using assms(2,3) by (simp only: CGROUP_WEIGHT_MIN_def CGROUP_WEIGHT_MAX_def not_less de_Morgan_disj)
  then have "cpu_weight_write_u64 a tg w k =
      (0, upd_tg tg (\<lambda>g. g\<lparr>tg_shares := push_bit 10 (of_nat ?w)\<rparr>) k)"
    using assms(1) sh(1,2) word_of_weight [OF n(2)]
    by (simp add: cpu_weight_write_u64_def n(3) [symmetric] set_shares_stores_def SCHED_CAPACITY_SHIFT_def)
  moreover have "DIV_ROUND_CLOSEST_ULL (of_nat ?w * CGROUP_WEIGHT_DFL) 1024 = w"
  proof -
    have "unat (of_nat ?w * CGROUP_WEIGHT_DFL + 1024 div 2 :: u64) = ?w * 100 + 512"
      using c(2) by (simp add: CGROUP_WEIGHT_DFL_def unat_word_ariths unat_of_nat)
    then have "unat (DIV_ROUND_CLOSEST_ULL (of_nat ?w * CGROUP_WEIGHT_DFL) 1024) = n"
      unfolding DIV_ROUND_CLOSEST_ULL_def unat_div using c(3) by simp
    then show ?thesis by (simp add: n_def word_unat_eq_iff)
  qed
  ultimately show ?thesis by (simp add: cpu_weight_read_u64_def sh(3))
qed

lemma cpu_weight_nice_write_read:
  assumes "set_shares_stores a" "MIN_NICE \<le> nice" "nice \<le> MAX_NICE"
  shows "\<exists>k'. cpu_weight_nice_write_s64 a tg nice k = (0, k') \<and> cpu_weight_nice_read_s64 k' tg = nice"
proof -
  define i where "i = nat (NICE_TO_PRIO nice - MAX_RT_PRIO)"
  let ?w = "sched_prio_to_weight ! i"
  have i: "i < 40" "nice = PRIO_TO_NICE (int i + MAX_RT_PRIO)"
    using assms(2,3) by (auto simp: i_def prio_consts)
  have "10 \<le> ?w" "?w \<le> 102400"
    using sched_prio_to_weight_facts(2,3) i(1) by (auto simp: list_all_length)
  note sh = word_of_shares [OF this]
  have "cpu_weight_nice_write_s64 a tg nice k =
      (0, upd_tg tg (\<lambda>g. g\<lparr>tg_shares := push_bit 10 (of_nat ?w)\<rparr>) k)"
    using assms sh(1,2)
    by (simp add: cpu_weight_nice_write_s64_def i_def set_shares_stores_def SCHED_CAPACITY_SHIFT_def not_less)
  then show ?thesis
    by (simp add: cpu_weight_nice_read_s64_def sh(3) closest_prio_nth [OF i(1)] i(2))
qed

text \<open>
  C34: What is written to \<open>cpu.weight\<close> (1 to 10000) is read back from it, although it is stored
  in other units, and what is written to \<open>cpu.weight.nice\<close> (-20 to 19) is read back from that.
\<close>

theorem cpu_weight_roundtrip:
  assumes "set_shares_stores a" "1 \<le> w" "w \<le> 10000" "MIN_NICE \<le> nice" "nice \<le> MAX_NICE"
  shows "(\<exists>k'. cpu_weight_write_u64 a tg w k = (0, k') \<and> cpu_weight_read_u64 k' tg = w) \<and>
    (\<exists>k'. cpu_weight_nice_write_s64 a tg nice k = (0, k') \<and> cpu_weight_nice_read_s64 k' tg = nice)"
  using assms by (intro conjI cpu_weight_write_read cpu_weight_nice_write_read)

theorem cpu_weight_roundtrip_witness:
  "(\<exists>k'. cpu_weight_write_u64 sample_kapi 1 7 sample_groups = (0, k') \<and> cpu_weight_read_u64 k' 1 = 7) \<and>
   (\<exists>k'. cpu_weight_nice_write_s64 sample_kapi 1 3 sample_groups = (0, k') \<and>
         cpu_weight_nice_read_s64 k' 1 = 3)"
  by (rule cpu_weight_roundtrip)
    (simp_all add: set_shares_stores_def sample_kapi_def prio_consts)

section \<open>Bandwidth\<close>

text \<open>What the fair class's part of a limit change must leave alone: the limits of the groups.\<close>

definition bandwidth_ops_keep :: "kapi \<Rightarrow> bool" where
  "bandwidth_ops_keep a \<longleftrightarrow>
     (\<forall>k. k_tgs (ka_cfs_bandwidth_usage_inc a k) = k_tgs k) \<and>
     (\<forall>k. k_tgs (ka_cfs_bandwidth_usage_dec a k) = k_tgs k) \<and>
     (\<forall>tg k. k_tgs (ka_refill_cfs_bandwidth_runtime a tg k) = k_tgs k) \<and>
     (\<forall>tg k. k_tgs (ka_start_cfs_bandwidth a tg k) = k_tgs k) \<and>
     (\<forall>tg c k. k_tgs (ka_unthrottle_cfs_rq a tg c k) = k_tgs k)"

lemma commit_cfs_bandwidth_tgs:
  assumes "bandwidth_ops_keep a"
  shows "k_tgs (commit_cfs_bandwidth a tg period quota burst k) =
    k_tgs (upd_cfs_b tg (\<lambda>b. b\<lparr>cb_period := period, cb_quota := quota, cb_burst := burst\<rparr>) k)"
proof -
  have fold: "k_tgs (fold (set_cfs_rq_runtime a tg e) cs k) = k_tgs k" for e cs k
    by (rule fold_invariant [where P = "\<lambda>s. k_tgs s = k_tgs k"])
      (use assms in \<open>simp_all add: set_cfs_rq_runtime_def bandwidth_ops_keep_def Let_def\<close>)
  have upd: "k_tgs (upd_cfs_b tg f k) = (k_tgs k)(tg := (k_tgs k tg)\<lparr>tg_cfs_bandwidth :=
      f (tg_cfs_bandwidth (k_tgs k tg))\<rparr>)" for f k
    by (simp add: upd_cfs_b_def)
  show ?thesis
    using assms by (simp add: commit_cfs_bandwidth_def Let_def fold upd bandwidth_ops_keep_def)
qed

text \<open>The admission check only writes hierarchical quotas, and its only error is \<open>-EINVAL\<close>.\<close>

definition same_limits :: "kernel \<Rightarrow> kernel \<Rightarrow> bool" where
  "same_limits k k' \<longleftrightarrow> (\<forall>g. cb_period (cfs_b k' g) = cb_period (cfs_b k g) \<and>
     cb_quota (cfs_b k' g) = cb_quota (cfs_b k g) \<and> cb_burst (cfs_b k' g) = cb_burst (cfs_b k g))"

lemma same_limits_trans: "same_limits k k' \<Longrightarrow> same_limits k' k'' \<Longrightarrow> same_limits k k''"
  by (simp add: same_limits_def)

lemma same_limits_hierarchy:
  "same_limits k (upd_cfs_b tg (\<lambda>b. b\<lparr>cb_hierarchical_quota := q\<rparr>) k)"
  by (simp add: same_limits_def cfs_b_def upd_cfs_b_def)

lemma schedulable_down_same:
  "tg_cfs_schedulable_down a d tg k = (ret, k') \<Longrightarrow> same_limits k k' \<and> (ret = 0 \<or> ret = - EINVAL)"
  by (auto simp: tg_cfs_schedulable_down_def Let_def same_limits_hierarchy same_limits_def
      cfs_b_def upd_cfs_b_def split: option.splits if_splits)

lemma visit_all_same:
  assumes "\<And>g k ret k'. f g k = (ret, k') \<Longrightarrow> same_limits k k' \<and> (ret = 0 \<or> ret = - EINVAL)"
  shows "visit_all f gs k = (ret, k') \<Longrightarrow> same_limits k k' \<and> (ret = 0 \<or> ret = - EINVAL)"
proof (induction gs arbitrary: k)
  case (Cons g gs)
  then show ?case
    by (cases "f g k") (auto split: if_splits dest: assms same_limits_trans)
qed (simp add: same_limits_def)

lemma tg_dfs_same:
  assumes "\<And>g k. up g k = (0, k)"
  shows "tg_dfs (tg_cfs_schedulable_down a d) up n g k = (ret, k') \<Longrightarrow>
   same_limits k k' \<and> (ret = 0 \<or> ret = - EINVAL)"
proof (induction n arbitrary: g k ret k')
  case (Suc n)
  obtain r1 k1 where 1: "tg_cfs_schedulable_down a d g k = (r1, k1)" by fastforce
  obtain r2 k2 where 2: "visit_all (tg_dfs (tg_cfs_schedulable_down a d) up n)
      (tg_children (k_tgs k1 g)) k1 = (r2, k2)" by fastforce
  have "same_limits k k1 \<and> (r1 = 0 \<or> r1 = - EINVAL)" using schedulable_down_same [OF 1] .
  moreover have "same_limits k1 k2 \<and> (r2 = 0 \<or> r2 = - EINVAL)"
    using Suc.IH by (rule visit_all_same [OF _ 2])
  ultimately show ?case
    using Suc.prems by (auto simp: 1 2 assms [of g k2] split: if_splits dest: same_limits_trans)
qed (simp add: same_limits_def)

lemma us_cfs_schedulable_returns:
  assumes "tg_forest k lvl" "tg_depth_le k n (k_root_tg k)"
  shows "\<exists>ret k'. us_cfs_schedulable a tg period quota k = Some (ret, k') \<and>
    same_limits k k' \<and> (ret = 0 \<or> ret = - EINVAL)"
proof -
  have "\<exists>ret k'. walk_tg_tree (tg_cfs_schedulable_down a d) tg_nop k = Some (ret, k') \<and>
    same_limits k k' \<and> (ret = 0 \<or> ret = - EINVAL)" for d
  proof -
    obtain ret k' where r: "tg_dfs (tg_cfs_schedulable_down a d) tg_nop n (k_root_tg k) k = (ret, k')"
      by fastforce
    have "walk_tg_tree (tg_cfs_schedulable_down a d) tg_nop k = Some (ret, k')"
      using walk_down_dfs [OF schedulable_down_keeps tg_nop_keeps assms(1) assms(2), of "k_root_tg k" k a d]
      by (simp add: walk_tg_tree_def walk_tg_tree_from_def r)
    then show ?thesis using tg_dfs_same [OF tg_nop_apply r] by blast
  qed
  then show ?thesis by (simp add: us_cfs_schedulable_def)
qed

text \<open>
  C30: A write to \<open>cpu.max\<close> that succeeds stores the period and the quota it parsed, and divides the
  group's burst by 1000: the code passes the old burst on in microseconds where nanoseconds are
  expected.
\<close>

theorem cpu_max_write_scales_burst:
  assumes "bandwidth_ops_keep a" "tg_forest k lvl" "tg_depth_le k n (k_root_tg k)"
    and "cpu_max_write a tg buf nbytes k = Some (nbytes, k')" "0 \<le> nbytes"
  shows "\<exists>period quota. cpu_period_quota_parse a buf (tg_get_cfs_period k tg) = (0, period, quota) \<and>
    cb_period (cfs_b k' tg) = period \<and> cb_quota (cfs_b k' tg) = quota \<and>
    cb_burst (cfs_b k' tg) = cb_burst (cfs_b k tg) div 1000"
proof -
  obtain ret period quota where p: "cpu_period_quota_parse a buf (tg_get_cfs_period k tg) = (ret, period, quota)"
    using prod_cases3 by blast
  have ret: "ret = 0"
  proof (rule ccontr)
    assume "ret \<noteq> 0"
    then have "nbytes = ret" using assms(4) by (simp add: cpu_max_write_def p Let_def)
    moreover have "ret = - EINVAL"
      using p \<open>ret \<noteq> 0\<close> by (auto simp: cpu_period_quota_parse_def Let_def split: option.splits if_splits)
    ultimately show False using assms(5) by (simp add: errno_defs)
  qed
  obtain r k1 where s: "us_cfs_schedulable a tg period quota k = Some (r, k1)" "same_limits k k1" "r = 0 \<or> r = - EINVAL"
    using us_cfs_schedulable_returns [OF assms(2,3)] by blast
  have "map_option (\<lambda>(ret, k). (if ret \<noteq> 0 then ret else nbytes, k))
      (tg_set_cfs_bandwidth a tg period quota (tg_get_cfs_burst k tg) k) = Some (nbytes, k')"
    using assms(4) by (simp add: cpu_max_write_def p ret)
  then have "k' = commit_cfs_bandwidth a tg period quota (tg_get_cfs_burst k tg) k1"
    using assms(5) s(3) by (auto simp: tg_set_cfs_bandwidth_def s(1) errno_defs split: if_splits)
  then show ?thesis
    by (simp add: p ret cfs_b_def commit_cfs_bandwidth_tgs [OF assms(1)])
      (simp add: upd_cfs_b_def tg_get_cfs_burst_def cfs_b_def NSEC_PER_USEC_def)
qed

text \<open>The two sample groups, the child with a burst of 5000 ns.\<close>

definition sample_burst :: kernel where
  "sample_burst = upd_cfs_b 1 (\<lambda>b. b\<lparr>cb_burst := 5000\<rparr>) sample_groups"

lemma sample_burst_tree:
  "tg_forest sample_burst (\<lambda>g. g)" "tg_depth_le sample_burst 2 0"
  by (auto simp: tg_forest_def sample_burst_def upd_cfs_b_def sample_groups_def upd_tg_uc_req_def
      sample_defs numeral_2_eq_2)

lemma sample_burst_write:
  "\<exists>k'. cpu_max_write sample_kapi 1 ''max 100000'' 10 sample_burst = Some (10, k')"
proof -
  define d where "d = \<lparr>csd_tg = 1 :: tgid, csd_period = 100000000 :: u64, csd_quota = RUNTIME_INF\<rparr>"
  have root: "k_root_tg sample_burst = 0"
    by (simp add: sample_burst_def upd_cfs_b_def sample_groups_def upd_tg_uc_req_def sample_defs)
  have par: "tg_parent (k_tgs sample_burst 0) = None" "tg_parent (k_tgs sample_burst 1) = Some 0"
    "tg_children (k_tgs sample_burst 0) = [1]" "tg_children (k_tgs sample_burst 1) = []"
    by (simp_all add: sample_burst_def upd_cfs_b_def sample_groups_def upd_tg_uc_req_def sample_defs)
  have dfl: "\<not> ka_cgroup_on_dfl sample_kapi" by (simp add: sample_kapi_def)
  have "fst (tg_dfs (tg_cfs_schedulable_down sample_kapi d) tg_nop 2 0 sample_burst) = 0"
    by (simp add: numeral_2_eq_2 tg_cfs_schedulable_down_def d_def normalize_cfs_quota_def
        par [unfolded One_nat_def] upd_cfs_b_def tg_nop_def dfl)
  then obtain k1 where "tg_dfs (tg_cfs_schedulable_down sample_kapi d) tg_nop 2 0 sample_burst = (0, k1)"
    by (metis prod.collapse)
  then have "us_cfs_schedulable sample_kapi 1 100000000 RUNTIME_INF sample_burst = Some (0, k1)"
    using walk_down_dfs [OF schedulable_down_keeps tg_nop_keeps sample_burst_tree, of 0 sample_burst sample_kapi d]
    by (simp add: us_cfs_schedulable_def walk_tg_tree_def walk_tg_tree_from_def root d_def)
  moreover have "cpu_period_quota_parse sample_kapi ''max 100000'' 100000 = (0, 100000000, RUNTIME_INF)"
    by (simp add: cpu_period_quota_parse_def sample_kapi_def NSEC_PER_USEC_def)
  moreover have "tg_get_cfs_period sample_burst 1 = 100000"
    by (simp add: tg_get_cfs_period_def cfs_b_def sample_burst_def upd_cfs_b_def sample_groups_def
        upd_tg_uc_req_def sample_defs NSEC_PER_USEC_def)
  moreover have "\<not> cfs_bandwidth_invalid sample_burst 1 100000000 RUNTIME_INF b" for b
    by (simp add: cfs_bandwidth_invalid_def root bw_consts RUNTIME_INF_def)
  ultimately show ?thesis by (simp add: cpu_max_write_def tg_set_cfs_bandwidth_def)
qed

theorem cpu_max_write_scales_burst_witness:
  "\<exists>k' period quota. cpu_max_write sample_kapi 1 ''max 100000'' 10 sample_burst = Some (10, k') \<and>
    cpu_period_quota_parse sample_kapi ''max 100000'' (tg_get_cfs_period sample_burst 1) = (0, period, quota) \<and>
    cb_burst (cfs_b sample_burst 1) = 5000 \<and> cb_burst (cfs_b k' 1) = 5"
proof -
  obtain k' where w: "cpu_max_write sample_kapi 1 ''max 100000'' 10 sample_burst = Some (10, k')"
    using sample_burst_write ..
  have keep: "bandwidth_ops_keep sample_kapi" by (simp add: bandwidth_ops_keep_def sample_kapi_def)
  have root: "tg_depth_le sample_burst 2 (k_root_tg sample_burst)"
    using sample_burst_tree(2)
    by (simp add: sample_burst_def upd_cfs_b_def sample_groups_def upd_tg_uc_req_def sample_defs)
  have "cb_burst (cfs_b sample_burst 1) = 5000" by (simp add: sample_burst_def cfs_b_def upd_cfs_b_def)
  then show ?thesis
    using cpu_max_write_scales_burst [OF keep sample_burst_tree(1) root w] w by auto
qed

end
