(* ===== verification/Nohz_Util.thy ===== *)
theory Nohz_Util
  imports Setsched Task_State
begin

text \<open>
  Decisions about the tick and about frequency (\<open>core.c\<close>): where timers go, waking an idle or
  tickless CPU, whether the tick may stop, the effective utilization of a CPU.  Then the
  queries and resets of policies that need no other component.
\<close>

section \<open>Timers and idle CPUs\<close>

text \<open>The two nested loops: the first busy housekeeping CPU of the closest domain.\<close>

fun busy_housekeeper :: "kapi \<Rightarrow> kernel \<Rightarrow> cpu \<Rightarrow> sched_domain list \<Rightarrow> cpu option" where
  "busy_housekeeper a k c [] = None"
| "busy_housekeeper a k c (sd # sds) =
     (case find (\<lambda>i. c \<noteq> i \<and> \<not> idle_cpu k i) (for_each_cpu k (sd_span sd \<inter> ka_housekeeping_cpumask a)) of
        Some i \<Rightarrow> Some i | None \<Rightarrow> busy_housekeeper a k c sds)"

definition get_nohz_timer_target :: "kapi \<Rightarrow> kernel \<Rightarrow> cpu" where
  "get_nohz_timer_target a k =
     (let c = k_this_cpu k; housekeeping = (c \<in> ka_housekeeping_cpumask a)
      in if housekeeping \<and> \<not> idle_cpu k c then c
         else case busy_housekeeper a k c (rq_domains (k_rqs k c)) of
                Some i \<Rightarrow> i
              | None \<Rightarrow> if housekeeping then c else ka_housekeeping_any_cpu a k)"

definition wake_up_full_nohz_cpu :: "kapi \<Rightarrow> cpu \<Rightarrow> kernel \<Rightarrow> bool \<times> kernel" where
  "wake_up_full_nohz_cpu a c k =
     (if \<not> cpu_online k c then (True, k)
      else if ka_tick_nohz_full_cpu a c
      then (True, if c \<noteq> k_this_cpu k \<or> ka_tick_nohz_tick_stopped a k
                  then ka_tick_nohz_full_kick_cpu a c k else k)
      else (False, k))"

definition wake_up_nohz_cpu :: "kapi \<Rightarrow> cpu \<Rightarrow> kernel \<Rightarrow> kernel" where
  "wake_up_nohz_cpu a c k =
     (let (done, k) = wake_up_full_nohz_cpu a c k in if done then k else wake_up_idle_cpu c k)"

text \<open>Flags of \<open>kernel/sched/sched.h\<close>.\<close>

definition NOHZ_KICK_MASK :: u32 where "NOHZ_KICK_MASK = 0xb"
definition NOHZ_NEWILB_KICK :: u32 where "NOHZ_NEWILB_KICK = 0x4"

definition nohz_csd_func :: "kapi \<Rightarrow> cpu \<Rightarrow> kernel \<Rightarrow> kernel" where
  "nohz_csd_func a rq k =
     (let c = rq_cpu (k_rqs k rq);
          flags = rq_nohz_flags (k_rqs k c);
          k = upd_rq c (\<lambda>r. r\<lparr>rq_nohz_flags := clear_flag flags (NOHZ_KICK_MASK OR NOHZ_NEWILB_KICK)\<rparr>) k;
          k = upd_rq rq (\<lambda>r. r\<lparr>rq_idle_balance := idle_cpu k c\<rparr>) k
      in if rq_idle_balance (k_rqs k rq) \<and> \<not> need_resched k
         then ka_raise_softirq a (upd_rq rq (\<lambda>r. r\<lparr>rq_nohz_idle_balance := flags\<rparr>) k)
         else k)"

section \<open>Stopping the tick\<close>

definition us_need_bw_check :: "kernel \<Rightarrow> cpu \<Rightarrow> tid \<Rightarrow> bool" where
  "us_need_bw_check k c p \<longleftrightarrow>
     rq_nr_running (k_rqs k c) = 1 \<and> task_class k p = fair_sched_class \<and> task_on_rq_queued (k_tasks k p)"

definition sched_can_stop_tick :: "kapi \<Rightarrow> kernel \<Rightarrow> cpu \<Rightarrow> bool" where
  "sched_can_stop_tick a k c =
     (let r = k_rqs k c
      in if rq_dl_nr_running r \<noteq> 0 then False
         else if rq_rr_nr_running r \<noteq> 0 then rq_rr_nr_running r = 1
         else if rq_rt_nr_running r - rq_rr_nr_running r \<noteq> 0 then True
         else if 1 < rq_nr_running r then False
         else if ka_sched_feat_HZ_BW a \<and> us_need_bw_check k c (rq_curr r) \<and>
                 ka_cfs_task_bw_constrained a k (rq_curr r)
         then False else True)"

section \<open>Effective utilization\<close>

text \<open>The result, \<open>*min\<close> and \<open>*max\<close>.\<close>

definition effective_cpu_util :: "kapi \<Rightarrow> kernel \<Rightarrow> cpu \<Rightarrow> u64 \<Rightarrow> u64 \<times> u64 \<times> u64" where
  "effective_cpu_util a k c util_cfs =
     (let scale = ka_cpu_capacity a c;
          irq = ka_cpu_util_irq a k c
      in if scale \<le> irq then (scale, scale, scale)
         else let mn = max (irq + ka_cpu_bw_dl a k c) (of_nat (uclamp_rq_get k c UCLAMP_MIN));
                  mn = (if \<not> k_sched_uclamp_used k \<and> ka_rt_rq_is_runnable a k c then max mn scale else mn);
                  util = util_cfs + ka_cpu_util_rt a k c + ka_cpu_util_dl a k c;
                  mx = min scale (of_nat (uclamp_rq_get k c UCLAMP_MAX))
              in if scale \<le> util then (scale, mn, mx)
                 else (min scale (ka_scale_irq_capacity a util irq scale + irq), mn, mx))"

definition sched_cpu_util :: "kapi \<Rightarrow> kernel \<Rightarrow> cpu \<Rightarrow> u64" where
  "sched_cpu_util a k c = fst (effective_cpu_util a k c (ka_cpu_util_cfs a k c))"

section \<open>Policy queries\<close>

definition sys_sched_get_priority_max :: "int \<Rightarrow> int" where
  "sys_sched_get_priority_max policy =
     (if policy = SCHED_FIFO \<or> policy = SCHED_RR then MAX_RT_PRIO - 1
      else if policy = SCHED_DEADLINE \<or> policy = SCHED_NORMAL \<or> policy = SCHED_BATCH \<or> policy = SCHED_IDLE
      then 0 else - EINVAL)"

definition sys_sched_get_priority_min :: "int \<Rightarrow> int" where
  "sys_sched_get_priority_min policy =
     (if policy = SCHED_FIFO \<or> policy = SCHED_RR then 1
      else if policy = SCHED_DEADLINE \<or> policy = SCHED_NORMAL \<or> policy = SCHED_BATCH \<or> policy = SCHED_IDLE
      then 0 else - EINVAL)"

text \<open>The yat class sets no \<open>get_rr_interval\<close>.\<close>

definition class_get_rr_interval :: "kapi \<Rightarrow> sched_class \<Rightarrow> (kernel \<Rightarrow> cpu \<Rightarrow> tid \<Rightarrow> u32) option" where
  "class_get_rr_interval a cls =
     (if cls = yat_casched_sched_class then None else ka_get_rr_interval a cls)"

text \<open>The error, and the time slice in jiffies.\<close>

definition sched_rr_get_interval :: "kapi \<Rightarrow> int \<Rightarrow> kernel \<Rightarrow> int \<times> u32" where
  "sched_rr_get_interval a pid k =
     (if pid < 0 then (- EINVAL, 0)
      else case find_process_by_pid a k pid of
             None \<Rightarrow> (- ESRCH, 0)
           | Some p \<Rightarrow>
               let retval = ka_security_task_getscheduler a k p
               in if retval \<noteq> 0 then (retval, 0)
                  else (0, case class_get_rr_interval a (task_class k p) of
                             Some f \<Rightarrow> f k (task_cpu k p) p | None \<Rightarrow> 0))"

definition sys_sched_rr_get_interval :: "kapi \<Rightarrow> int \<Rightarrow> u64 \<Rightarrow> kernel \<Rightarrow> int \<times> kernel" where
  "sys_sched_rr_get_interval a pid interval k =
     (let (retval, t) = sched_rr_get_interval a pid k
      in if retval = 0 then ka_put_timespec a interval t k else (retval, k))"

section \<open>Resetting all real-time tasks\<close>

text \<open>\<open>envs\<close>: what happens before each lock of \<open>__sched_setscheduler\<close>.\<close>

definition normalize_rt_task ::
  "kapi \<Rightarrow> (kernel \<Rightarrow> kernel) list \<Rightarrow> tid \<Rightarrow> kernel \<Rightarrow> kernel option" where
  "normalize_rt_task a envs p k =
     (if test_flag (t_flags (k_tasks k p)) PF_KTHREAD then Some k
      else let k = upd_task p (\<lambda>t. t\<lparr>t_se := (t_se t)\<lparr>se_exec_start := 0\<rparr>\<rparr>) k
           in if \<not> dl_task (k_tasks k p) \<and> \<not> rt_task (k_tasks k p)
              then Some (if task_nice (k_tasks k p) < 0 then set_user_nice a p 0 k else k)
              else map_option snd (us_sched_setscheduler a envs p (zero_attr\<lparr>sa_policy := SCHED_NORMAL\<rparr>)
                                     False False k))"

fun normalize_rt_loop ::
  "kapi \<Rightarrow> (kernel \<Rightarrow> kernel) list \<Rightarrow> tid list \<Rightarrow> kernel \<Rightarrow> kernel option" where
  "normalize_rt_loop a envs [] k = Some k"
| "normalize_rt_loop a envs (p # ps) k =
     Option.bind (normalize_rt_task a envs p k) (normalize_rt_loop a envs ps)"

definition normalize_rt_tasks :: "kapi \<Rightarrow> (kernel \<Rightarrow> kernel) list \<Rightarrow> kernel \<Rightarrow> kernel option" where
  "normalize_rt_tasks a envs k = normalize_rt_loop a envs (ka_process_threads a k) k"

definition curr_task :: "kernel \<Rightarrow> cpu \<Rightarrow> tid" where
  "curr_task k c = rq_curr (k_rqs k c)"

end
