(* ===== verification/Dynamic_Preempt.thy ===== *)
theory Dynamic_Preempt
  imports Prelude
begin

text \<open>
  Choosing the preemption model at boot or at run time (\<open>core.c\<close>, lines 8707 to 8885), with
  static calls: each of the five functions is patched to its enabled or its disabled target,
  and live patching may replace \<open>cond_resched\<close>.
\<close>

section \<open>State\<close>

definition preempt_dynamic_undefined :: int where "preempt_dynamic_undefined = -1"
definition preempt_dynamic_none :: int where "preempt_dynamic_none = 0"
definition preempt_dynamic_voluntary :: int where "preempt_dynamic_voluntary = 1"
definition preempt_dynamic_full :: int where "preempt_dynamic_full = 2"

lemmas preempt_dynamic_modes = preempt_dynamic_undefined_def preempt_dynamic_none_def
  preempt_dynamic_voluntary_def preempt_dynamic_full_def

text \<open>
  What a static call runs: its function, nothing, or the variant of \<open>cond_resched\<close> that live
  patching installs.
\<close>

datatype call_target = Dynamic_enabled | Dynamic_disabled | Klp_cond_resched

record preempt_dynamic =
  pd_mode :: int
  pd_klp_override :: bool
  pd_cond_resched :: call_target
  pd_might_resched :: call_target
  pd_preempt_schedule :: call_target
  pd_preempt_schedule_notrace :: call_target
  pd_irqentry_exit_cond_resched :: call_target

section \<open>Operations\<close>

definition sched_dynamic_mode :: "string \<Rightarrow> int" where
  "sched_dynamic_mode str =
     (if str = ''none'' then preempt_dynamic_none
      else if str = ''voluntary'' then preempt_dynamic_voluntary
      else if str = ''full'' then preempt_dynamic_full
      else - EINVAL)"

definition set_cond_resched :: "call_target \<Rightarrow> preempt_dynamic \<Rightarrow> preempt_dynamic" where
  "set_cond_resched t d = (if \<not> pd_klp_override d then d\<lparr>pd_cond_resched := t\<rparr> else d)"

definition set_might_resched :: "call_target \<Rightarrow> preempt_dynamic \<Rightarrow> preempt_dynamic" where
  "set_might_resched t d = d\<lparr>pd_might_resched := t\<rparr>"

definition set_preempt_calls :: "call_target \<Rightarrow> preempt_dynamic \<Rightarrow> preempt_dynamic" where
  "set_preempt_calls t d =
     d\<lparr>pd_preempt_schedule := t, pd_preempt_schedule_notrace := t, pd_irqentry_exit_cond_resched := t\<rparr>"

definition us_sched_dynamic_update :: "int \<Rightarrow> preempt_dynamic \<Rightarrow> preempt_dynamic" where
  "us_sched_dynamic_update mode d =
     (let d = set_cond_resched Dynamic_enabled d;
          d = set_might_resched Dynamic_enabled d;
          d = set_preempt_calls Dynamic_enabled d;
          d = (if mode = preempt_dynamic_none
               then set_preempt_calls Dynamic_disabled
                      (set_might_resched Dynamic_disabled (set_cond_resched Dynamic_enabled d))
               else if mode = preempt_dynamic_voluntary
               then set_preempt_calls Dynamic_disabled
                      (set_might_resched Dynamic_enabled (set_cond_resched Dynamic_enabled d))
               else if mode = preempt_dynamic_full
               then set_preempt_calls Dynamic_enabled
                      (set_might_resched Dynamic_disabled (set_cond_resched Dynamic_disabled d))
               else d)
      in d\<lparr>pd_mode := mode\<rparr>)"

definition sched_dynamic_update :: "int \<Rightarrow> preempt_dynamic \<Rightarrow> preempt_dynamic" where
  "sched_dynamic_update mode d = us_sched_dynamic_update mode d"

definition sched_dynamic_klp_enable :: "preempt_dynamic \<Rightarrow> preempt_dynamic" where
  "sched_dynamic_klp_enable d = d\<lparr>pd_klp_override := True, pd_cond_resched := Klp_cond_resched\<rparr>"

definition sched_dynamic_klp_disable :: "preempt_dynamic \<Rightarrow> preempt_dynamic" where
  "sched_dynamic_klp_disable d = us_sched_dynamic_update (pd_mode d) (d\<lparr>pd_klp_override := False\<rparr>)"

definition setup_preempt_mode :: "string \<Rightarrow> preempt_dynamic \<Rightarrow> int \<times> preempt_dynamic" where
  "setup_preempt_mode str d =
     (let mode = sched_dynamic_mode str
      in if mode < 0 then (0, d) else (1, sched_dynamic_update mode d))"

text \<open>The build's default model: at most one of the two flags is set, none means full.\<close>

definition preempt_dynamic_init :: "bool \<Rightarrow> bool \<Rightarrow> preempt_dynamic \<Rightarrow> preempt_dynamic" where
  "preempt_dynamic_init config_none config_voluntary d =
     (if pd_mode d = preempt_dynamic_undefined
      then if config_none then sched_dynamic_update preempt_dynamic_none d
           else if config_voluntary then sched_dynamic_update preempt_dynamic_voluntary d
           else d\<lparr>pd_mode := preempt_dynamic_full\<rparr>
      else d)"

definition preempt_model_none :: "preempt_dynamic \<Rightarrow> bool" where
  "preempt_model_none d \<longleftrightarrow> pd_mode d = preempt_dynamic_none"

definition preempt_model_voluntary :: "preempt_dynamic \<Rightarrow> bool" where
  "preempt_model_voluntary d \<longleftrightarrow> pd_mode d = preempt_dynamic_voluntary"

definition preempt_model_full :: "preempt_dynamic \<Rightarrow> bool" where
  "preempt_model_full d \<longleftrightarrow> pd_mode d = preempt_dynamic_full"

section \<open>The invariant\<close>

text \<open>
  The table in the comment before \<open>preempt_dynamic_mode\<close>: which calls run in which model.
  Under live patching \<open>cond_resched\<close> is the patched variant in every model.
\<close>

definition preempt_table :: "int \<Rightarrow> call_target \<times> call_target \<times> call_target" where
  "preempt_table mode =
     (if mode = preempt_dynamic_none then (Dynamic_enabled, Dynamic_disabled, Dynamic_disabled)
      else if mode = preempt_dynamic_voluntary then (Dynamic_enabled, Dynamic_enabled, Dynamic_disabled)
      else (Dynamic_disabled, Dynamic_disabled, Dynamic_enabled))"

definition preempt_dynamic_ok :: "preempt_dynamic \<Rightarrow> bool" where
  "preempt_dynamic_ok d \<longleftrightarrow>
     pd_mode d \<in> {preempt_dynamic_none, preempt_dynamic_voluntary, preempt_dynamic_full} \<and>
     (case preempt_table (pd_mode d) of (cond, might, preempt) \<Rightarrow>
        pd_cond_resched d = (if pd_klp_override d then Klp_cond_resched else cond) \<and>
        pd_might_resched d = might \<and> pd_preempt_schedule d = preempt \<and>
        pd_preempt_schedule_notrace d = preempt \<and> pd_irqentry_exit_cond_resched d = preempt)"

text \<open>The operations of the interface: an administrator's changes and live patching.\<close>

datatype dynamic_op = Op_update string | Op_klp_enable | Op_klp_disable

fun run_dynamic_op :: "dynamic_op \<Rightarrow> preempt_dynamic \<Rightarrow> preempt_dynamic" where
  "run_dynamic_op (Op_update str) d = snd (setup_preempt_mode str d)"
| "run_dynamic_op Op_klp_enable d = sched_dynamic_klp_enable d"
| "run_dynamic_op Op_klp_disable d = sched_dynamic_klp_disable d"

lemmas dynamic_defs = preempt_dynamic_ok_def preempt_table_def us_sched_dynamic_update_def
  sched_dynamic_update_def sched_dynamic_klp_enable_def sched_dynamic_klp_disable_def
  set_cond_resched_def set_might_resched_def set_preempt_calls_def preempt_dynamic_modes

lemma update_ok:
  assumes "mode = 0 \<or> mode = 1 \<or> mode = 2" "pd_klp_override d \<Longrightarrow> pd_cond_resched d = Klp_cond_resched"
  shows "preempt_dynamic_ok (us_sched_dynamic_update mode d)"
  using assms(1) by (elim disjE) (use assms(2) in \<open>simp_all add: dynamic_defs\<close>)

lemma preempt_dynamic_okD:
  assumes "preempt_dynamic_ok d"
  shows "pd_mode d = 0 \<or> pd_mode d = 1 \<or> pd_mode d = 2"
    "pd_klp_override d \<Longrightarrow> pd_cond_resched d = Klp_cond_resched"
  using assms by (simp_all add: preempt_dynamic_ok_def preempt_dynamic_modes split: prod.splits)

lemma setup_preempt_mode_ok: "preempt_dynamic_ok d \<Longrightarrow> preempt_dynamic_ok (snd (setup_preempt_mode str d))"
  using update_ok [of _ d] preempt_dynamic_okD [of d]
  by (simp add: setup_preempt_mode_def sched_dynamic_update_def sched_dynamic_mode_def
      preempt_dynamic_modes errno_defs)

lemma run_dynamic_op_ok: "preempt_dynamic_ok d \<Longrightarrow> preempt_dynamic_ok (run_dynamic_op op d)"
proof (cases op)
  case Op_klp_enable
  assume "preempt_dynamic_ok d"
  then show ?thesis
    by (simp add: Op_klp_enable sched_dynamic_klp_enable_def preempt_dynamic_ok_def split: prod.splits)
next
  case Op_klp_disable
  assume "preempt_dynamic_ok d"
  then show ?thesis
    using preempt_dynamic_okD [of d] update_ok [of "pd_mode d" "d\<lparr>pd_klp_override := False\<rparr>"]
    by (simp add: Op_klp_disable sched_dynamic_klp_disable_def)
qed (simp add: setup_preempt_mode_ok)

text \<open>The state at boot, as the static calls are defined: no model is chosen, the two functions
  declared with \<open>DEFINE_STATIC_CALL_RET0\<close> do nothing.\<close>

definition preempt_dynamic_boot :: preempt_dynamic where
  "preempt_dynamic_boot =
     \<lparr>pd_mode = preempt_dynamic_undefined, pd_klp_override = False, pd_cond_resched = Dynamic_disabled,
      pd_might_resched = Dynamic_disabled, pd_preempt_schedule = Dynamic_enabled,
      pd_preempt_schedule_notrace = Dynamic_enabled, pd_irqentry_exit_cond_resched = Dynamic_enabled\<rparr>"

lemma preempt_dynamic_init_ok:
  "preempt_dynamic_ok (preempt_dynamic_init config_none config_voluntary preempt_dynamic_boot)"
  by (simp add: preempt_dynamic_init_def preempt_dynamic_boot_def dynamic_defs)

text \<open>
  C25: Whatever the build's default and whatever sequence of mode changes, valid or not, and of
  live-patching switches follows, the five functions run as the table in the source's comment
  says for the mode that \<open>preempt_dynamic_mode\<close> records, except that \<open>cond_resched\<close> is the
  patched variant exactly while live patching overrides it.
\<close>

theorem dynamic_preempt_table:
  "preempt_dynamic_ok (fold run_dynamic_op ops
     (preempt_dynamic_init config_none config_voluntary preempt_dynamic_boot))"
  by (rule fold_invariant) (auto intro: preempt_dynamic_init_ok run_dynamic_op_ok)

end
