(* ===== verification/Schedule_Correct.thy ===== *)
theory Schedule_Correct
  imports Schedule Load_Frame Sample_Kapi
begin

text \<open>
  The main scheduler function: what it decides about the task that calls it, and the switch to
  the task it picks.
\<close>

section \<open>Contract of the hooks\<close>

text \<open>
  What the code of other files keeps of an observation on the way through \<open>__schedule\<close>, the
  pick apart: the classes, their affinity handlers, the balance callbacks, the switch of the
  address space and the hook for dead tasks.
\<close>

definition switch_ops_keep :: "(kernel \<Rightarrow> 'b) \<Rightarrow> kapi \<Rightarrow> bool" where
  "switch_ops_keep obs a \<longleftrightarrow> class_ops_keep obs a \<and>
     (\<forall>cls p ctx k. obs (snd (ka_set_cpus_allowed a cls p ctx k)) = obs k) \<and>
     (\<forall>cb c k. obs (ka_balance_func a cb c k) = obs k) \<and>
     (\<forall>p q k. obs (ka_switch_mm a p q k) = obs k) \<and>
     (\<forall>cls f p k. ka_task_dead a cls = Some f \<longrightarrow> obs (f p k) = obs k)"

context queue_observer
begin

lemma keep_migrate_disable_switch:
  assumes "switch_ops_keep obs a"
  shows "obs (migrate_disable_switch a c p k) = obs k"
proof -
  have "class_ops_keep obs a" using assms by (simp add: switch_ops_keep_def)
  note keep = keep_ops [OF this]
  have "obs (snd (class_set_cpus_allowed a cls p ctx k)) = obs k" for cls ctx k
    using assms by (simp add: class_set_cpus_allowed_def set_cpus_allowed_yat_casched_def switch_ops_keep_def)
  then show ?thesis
    by (simp add: migrate_disable_switch_def us_do_set_cpus_allowed_def Let_def split_beta keep)
qed

lemma keep_callbacks:
  assumes "switch_ops_keep obs a" shows "obs (us_balance_callbacks a c k) = obs k"
  using assms keep_balance(2) [of a c k] by (simp add: switch_ops_keep_def)

lemma keep_task_dead:
  assumes "switch_ops_keep obs a"
  shows "obs (case class_task_dead a cls of Some f \<Rightarrow> f p k | None \<Rightarrow> k) = obs k"
  using assms by (auto simp: class_task_dead_def switch_ops_keep_def split: option.split)

end

section \<open>Who runs\<close>

definition run_view :: "kernel \<Rightarrow> tid \<Rightarrow> int \<times> bool \<times> u32" where
  "run_view k q = (t_on_rq (k_tasks k q), t_on_cpu (k_tasks k q), t_state (k_tasks k q))"

lemma run_view_public: "run_view k = (\<lambda>q. let t = public_tasks k q in (t_on_rq t, t_on_cpu t, t_state t))"
  by (simp add: run_view_def public_tasks_def fun_eq_iff)

interpretation run_queue: queue_observer run_view
  using pub.observe_part [of "\<lambda>v q. let t = v q in (t_on_rq t, t_on_cpu t, t_state t)"]
  by (simp add: run_view_public [abs_def])

lemma run_viewD:
  assumes "run_view k = run_view k'"
  shows "t_on_rq (k_tasks k q) = t_on_rq (k_tasks k' q)" "t_on_cpu (k_tasks k q) = t_on_cpu (k_tasks k' q)"
    "t_state (k_tasks k q) = t_state (k_tasks k' q)"
  using fun_cong [OF assms, of q] by (simp_all add: run_view_def)

lemma run_view_upd [simp]:
  "run_view (upd_rq c h k) = run_view k"
  "(\<And>t. t_on_rq (f t) = t_on_rq t) \<Longrightarrow> (\<And>t. t_on_cpu (f t) = t_on_cpu t) \<Longrightarrow>
   (\<And>t. t_state (f t) = t_state t) \<Longrightarrow> run_view (upd_task p f k) = run_view k"
  "run_view (k\<lparr>k_current := p\<rparr>) = run_view k" "run_view (k\<lparr>k_preempt_need_resched := b\<rparr>) = run_view k"
  by (simp_all add: run_view_def fun_eq_iff)

text \<open>A call blocks the task: it is no preemption, and the task sleeps with no signal to see.\<close>

definition schedule_sleeps :: "kapi \<Rightarrow> u32 \<Rightarrow> kernel \<Rightarrow> tid \<Rightarrow> bool" where
  "schedule_sleeps a sched_mode k p \<longleftrightarrow>
     \<not> test_flag sched_mode SM_MASK_PREEMPT \<and> t_state (k_tasks k p) \<noteq> 0 \<and>
     \<not> ka_signal_pending_state a k (t_state (k_tasks k p)) p"

text \<open>A pending signal wakes it instead.\<close>

definition schedule_interrupted :: "kapi \<Rightarrow> u32 \<Rightarrow> kernel \<Rightarrow> tid \<Rightarrow> bool" where
  "schedule_interrupted a sched_mode k p \<longleftrightarrow>
     \<not> test_flag sched_mode SM_MASK_PREEMPT \<and> t_state (k_tasks k p) \<noteq> 0 \<and>
     ka_signal_pending_state a k (t_state (k_tasks k p)) p"

lemma schedule_deactivate_run:
  assumes "class_ops_keep run_view a"
  shows "run_view (snd (schedule_deactivate a sched_mode c p k)) =
    (let (on_rq, on_cpu, state) = run_view k p in
     (run_view k)(p := (if schedule_sleeps a sched_mode k p then 0 else on_rq, on_cpu,
                        if schedule_interrupted a sched_mode k p then TASK_RUNNING else state)))"
proof -
  note deq = run_queue.keep_dequeue [OF assms]
  have "run_view (deactivate_task a c p (DEQUEUE_SLEEP OR DEQUEUE_NOCLOCK) k) =
      run_view (upd_task p (\<lambda>t. t\<lparr>t_on_rq := 0\<rparr>) k)" for k
    by (simp add: deactivate_task_def deq test_flag_def queue_flag_consts)
  moreover have "run_view (upd_task p (\<lambda>t. t\<lparr>t_on_rq := v\<rparr>) k) = (run_view k)(p := (v, snd (run_view k p)))" for v k
    by (simp add: run_view_def fun_eq_iff)
  moreover have "run_view (upd_task p (\<lambda>t. t\<lparr>t_state := v\<rparr>) k) =
      (run_view k)(p := (fst (run_view k p), fst (snd (run_view k p)), v))" for v k
    by (simp add: run_view_def fun_eq_iff)
  ultimately show ?thesis
    by (auto simp: schedule_deactivate_def schedule_sleeps_def schedule_interrupted_def Let_def split_beta
        run_view_def [of k p])
qed

text \<open>Who is current, and where.\<close>

definition cpu_view :: "kernel \<Rightarrow> (cpu \<Rightarrow> tid) \<times> tid \<times> cpu" where
  "cpu_view k = (\<lambda>c. rq_curr (k_rqs k c), k_current k, k_this_cpu k)"

lemma cpu_view_machine:
  "cpu_view k = (case machine_part k of (f, p, c, _) \<Rightarrow> (\<lambda>d. fst (f d), p, c))"
  by (simp add: cpu_view_def machine_part_def Let_def)

interpretation cpus: queue_observer cpu_view
  using mach.observe_part [of "\<lambda>(f, p, c, _). (\<lambda>d. fst (f d), p, c)"]
  by (simp add: cpu_view_machine [abs_def])

lemma cpu_viewD:
  assumes "cpu_view k = cpu_view k'"
  shows "rq_curr (k_rqs k c) = rq_curr (k_rqs k' c)" "k_current k = k_current k'" "k_this_cpu k = k_this_cpu k'"
  using assms by (auto simp: cpu_view_def dest: fun_cong [where x = c])

lemma cpu_view_upd [simp]:
  "cpu_view (upd_task p f k) = cpu_view k"
  "(\<And>r. rq_curr (h r) = rq_curr r) \<Longrightarrow> cpu_view (upd_rq c h k) = cpu_view k"
  by (simp_all add: cpu_view_def fun_eq_iff)

lemma cpu_view_current:
  "cpu_view (k\<lparr>k_current := p\<rparr>) = (case cpu_view k of (f, _, c) \<Rightarrow> (f, p, c))"
  by (simp add: cpu_view_def)

lemma schedule_switch_run:
  assumes run: "switch_ops_keep run_view a" and mach: "switch_ops_keep cpu_view a" and "prev \<noteq> nxt"
    and k': "k' = schedule_switch a v c prev nxt k"
  shows "k_current k' = nxt" "rq_curr (k_rqs k' c) = nxt" "t_on_cpu (k_tasks k' nxt)" "\<not> t_on_cpu (k_tasks k' prev)"
    "t_on_rq (k_tasks k' prev) = t_on_rq (k_tasks k prev)" "t_state (k_tasks k' prev) = t_state (k_tasks k prev)"
proof -
  define k1 where "k1 = upd_rq c (\<lambda>r. r\<lparr>rq_nr_switches := rq_nr_switches r + 1, rq_curr := nxt\<rparr>) k"
  define k2 where "k2 = count_switch v prev k1"
  define k3 where "k3 = migrate_disable_switch a c prev k2"
  define k4 where "k4 = ka_switch_mm a prev nxt (prepare_task nxt k3)"
  define k5 where "k5 = us_balance_callbacks a (k_this_cpu k4) (finish_task prev (k4\<lparr>k_current := nxt\<rparr>))"
  obtain k6 where k6: "k' = k6" "run_view k6 = run_view k5" "cpu_view k6 = cpu_view k5"
  proof
    show "k' = finish_task_switch a prev (k4\<lparr>k_current := nxt\<rparr>)"
      using assms(3) by (simp only: k' schedule_switch_def context_switch_def prepare_task_switch_def Let_def
          k1_def [symmetric] k2_def [symmetric] k3_def [symmetric] k4_def [symmetric] if_True not_False_eq_True)
    have "k_this_cpu (k4\<lparr>k_current := nxt\<rparr>) = k_this_cpu k4" by simp
    then show "run_view (finish_task_switch a prev (k4\<lparr>k_current := nxt\<rparr>)) = run_view k5"
      "cpu_view (finish_task_switch a prev (k4\<lparr>k_current := nxt\<rparr>)) = cpu_view k5"
      by (simp_all add: finish_task_switch_def finish_lock_switch_def k5_def Let_def
          run_queue.keep_task_dead [OF run] cpus.keep_task_dead [OF mach])
  qed
  have r2: "run_view k2 = run_view k" by (simp add: k2_def k1_def count_switch_def)
  have r3: "run_view k3 = run_view k2" unfolding k3_def by (rule run_queue.keep_migrate_disable_switch [OF run])
  have sw: "run_view (ka_switch_mm a prev nxt s) = run_view s" "cpu_view (ka_switch_mm a prev nxt s) = cpu_view s"
    for s using run mach by (simp_all add: switch_ops_keep_def)
  have r5: "run_view k5 = run_view (finish_task prev (k4\<lparr>k_current := nxt\<rparr>))"
    unfolding k5_def by (rule run_queue.keep_callbacks [OF run])
  have v4: "run_view k4 = run_view (prepare_task nxt k)"
    unfolding k4_def sw using r2 r3 by (simp add: prepare_task_def run_view_def fun_eq_iff)
  have v: "run_view k' = run_view (finish_task prev (prepare_task nxt k))"
    using k6(1,2) r5 v4 by (simp add: finish_task_def run_view_def fun_eq_iff)
  show "t_on_cpu (k_tasks k' nxt)" "\<not> t_on_cpu (k_tasks k' prev)"
    "t_on_rq (k_tasks k' prev) = t_on_rq (k_tasks k prev)" "t_state (k_tasks k' prev) = t_state (k_tasks k prev)"
    using run_viewD [OF v, of nxt] run_viewD [OF v, of prev] assms(3)
    by (simp_all add: finish_task_def prepare_task_def)
  have m5: "cpu_view k5 = cpu_view (k4\<lparr>k_current := nxt\<rparr>)"
    unfolding k5_def by (subst cpus.keep_callbacks [OF mach]) (simp add: finish_task_def)
  have m4: "cpu_view k4 = cpu_view k1"
    unfolding k4_def sw using cpus.keep_migrate_disable_switch [OF mach]
    by (simp add: prepare_task_def k3_def k2_def count_switch_def)
  show "k_current k' = nxt" using cpu_viewD(2) [OF m5] k6(1) cpu_viewD(2) [OF k6(3)] by simp
  show "rq_curr (k_rqs k' c) = nxt"
    using cpu_viewD(1) [OF m5, of c] k6(1) cpu_viewD(1) [OF k6(3), of c] cpu_viewD(1) [OF m4, of c]
    by (simp add: k1_def)
qed

section \<open>Picking a task moves none\<close>

text \<open>What the classes and the core accounting of other files keep while a task is picked.\<close>

definition balance_ops_keep :: "(kernel \<Rightarrow> 'b) \<Rightarrow> kapi \<Rightarrow> bool" where
  "balance_ops_keep obs a \<longleftrightarrow>
     (\<forall>cls c p k. obs (snd (ka_balance a cls c p k)) = obs k) \<and>
     (\<forall>cls c k. obs (snd (ka_pick_next_task a cls c k)) = obs k) \<and>
     (\<forall>cls c k. obs (snd (ka_pick_task a cls c k)) = obs k) \<and>
     (\<forall>c p k. obs (snd (ka_pick_next_task_fair a c p k)) = obs k) \<and>
     (\<forall>c p fi k. obs (ka_task_vruntime_update a c p fi k) = obs k) \<and>
     (\<forall>c k. obs (ka_sched_core_account_forceidle a c k) = obs k) \<and>
     (\<forall>c cb k. obs (ka_queue_balance_callback a c cb k) = obs k)"

text \<open>An observation that no field of a run queue enters.\<close>

locale pick_observer = queue_observer obs for obs :: "kernel \<Rightarrow> 'b" +
  assumes any_rq: "obs (upd_rq c h k) = obs k"
    and undefined_mark: "obs (k\<lparr>k_undefined := b\<rparr>) = obs k"
    and dl_server: "obs (clear_dl_server p k) = obs k"
    and occupation: "obs (upd_task p (\<lambda>t. t\<lparr>t_core_occupation := w\<rparr>) k) = obs k"
    and last_cpu: "obs (upd_yat_se p g k) = obs k"
begin

lemma keep_yat_pick: "obs (snd (pick_next_task_yat_casched c k)) = obs k"
  by (simp add: pick_next_task_yat_casched_def upd_yat_rq_def any_rq last_cpu Let_def split: list.split)

lemma keep_class_picks:
  assumes "balance_ops_keep obs a"
  shows "obs (snd (class_pick_next_task a cls c k)) = obs k" "obs (snd (class_pick_task a cls c k)) = obs k"
    "obs (snd (class_balance a cls c p k)) = obs k"
  using assms
  by (simp_all add: class_pick_next_task_def class_pick_task_def class_balance_def balance_ops_keep_def
      pick_task_yat_casched_def keep_yat_pick balance_yat_casched_def)

lemma keep_first_pick:
  assumes "\<And>cls k. obs (snd (f cls k)) = obs k"
  shows "obs (snd (first_pick f clss k)) = obs k"
proof (induction clss arbitrary: k)
  case (Cons cls clss)
  obtain r k1 where "f cls k = (r, k1)" by fastforce
  then show ?case using assms [of cls k] Cons [of k1] by (simp split: option.split)
qed simp

lemma keep_picked: "obs (snd (picked_or_bug c pk)) = obs (snd pk)"
  by (simp add: picked_or_bug_def undefined_mark split: prod.split option.split)

lemma keep_put_prev_balance:
  assumes "class_ops_keep obs a" "balance_ops_keep obs a"
  shows "obs (put_prev_task_balance a c prev k) = obs k"
proof -
  have "obs (balance_classes a clss c prev k) = obs k" for clss k
  proof (induction clss arbitrary: k)
    case (Cons cls clss)
    obtain b k1 where "class_balance a cls c prev k = (b, k1)" by fastforce
    then show ?case using keep_class_picks(3) [OF assms(2), of cls c prev k] Cons [of k1] by simp
  qed simp
  then show ?thesis by (simp add: put_prev_task_balance_def keep_put_prev [OF assms(1)])
qed

lemma keep_us_pick:
  assumes "class_ops_keep obs a" "balance_ops_keep obs a"
  shows "obs (snd (us_pick_next_task a c prev k)) = obs k"
proof -
  have "obs (snd (pick_restart a c prev k)) = obs k" for k
    by (simp add: pick_restart_def Let_def keep_picked keep_first_pick keep_class_picks [OF assms(2)] dl_server
        keep_put_prev_balance [OF assms])
  moreover have "obs (snd (ka_pick_next_task_fair a c p k)) = obs k" "obs (snd (ka_pick_next_task a cls c k)) = obs k"
    for p cls k using assms(2) by (simp_all add: balance_ops_keep_def)
  moreover obtain r k1 where "ka_pick_next_task_fair a c prev k = (r, k1)" by fastforce
  ultimately show ?thesis
    using assms(1) by (auto simp: us_pick_next_task_def Let_def split_beta keep_picked keep_put_prev dl_server
        split: fair_pick.split option.split) (metis snd_conv)+
qed

lemma keep_core_select:
  assumes "balance_ops_keep obs a"
  shows "obs (snd (core_select a c updated fi_before k)) = obs k"
proof -
  have pick: "obs (snd (pick_task a i k)) = obs k" for i k
    by (simp add: pick_task_def keep_picked keep_first_pick keep_class_picks [OF assms])
  have vrt: "obs (ka_task_vruntime_update a i p fi k) = obs k" for i p fi k
    using assms by (simp add: balance_ops_keep_def)
  have max_loop: "obs (snd (core_max_loop a c core updated fi_before cs s)) = obs (snd s)" for core cs s
    unfolding core_max_loop_def
    by (rule fold_invariant [where P = "\<lambda>s'. obs (snd s') = obs (snd s)"])
      (simp_all add: core_max_step_def set_core_pick_def any_rq clock pick Let_def split_beta)
  have fit: "obs (snd (core_fit a cookie i k)) = obs k" for cookie i k
    by (simp add: core_fit_def keep_picked keep_class_picks [OF assms] undefined_mark split: option.split)
  have fit_loop: "obs (snd (core_fit_loop a core fi_before cookie cs s)) = obs (snd s)" for core cookie cs s
    unfolding core_fit_loop_def
    by (rule fold_invariant [where P = "\<lambda>s'. obs (snd s') = obs (snd s)"])
      (simp_all add: core_fit_step_def core_force_idle_def set_core_pick_def any_rq fit Let_def split_beta)
  have resched_loop: "obs (core_resched_loop a c core fi_before occ cs k) = obs k" for core occ cs k
    unfolding core_resched_loop_def
    by (rule fold_invariant [where P = "\<lambda>s'. obs s' = obs k"])
      (simp_all add: core_resched_step_def set_core_pick_def any_rq vrt occupation resched Let_def split: option.split)
  show ?thesis
    by (simp add: core_select_def Let_def split_beta max_loop fit_loop resched_loop any_rq)
qed

lemma keep_pick_next_task:
  assumes "class_ops_keep obs a" "balance_ops_keep obs a"
  shows "obs (snd (pick_next_task a c prev k)) = obs k"
proof -
  have others: "obs (ka_task_vruntime_update a i p fi k) = obs k" "obs (ka_sched_core_account_forceidle a c k) = obs k"
    "obs (ka_queue_balance_callback a c cb k) = obs k" for i p fi cb k
    using assms(2) by (simp_all add: balance_ops_keep_def)
  have out: "obs (snd (core_pick_out a c nxt k)) = obs k" for nxt k
    by (simp add: core_pick_out_def queue_core_balance_def others)
  have reset: "obs (snd (snd (snd (core_reset a c k)))) = obs k" for k
    by (simp add: core_reset_def Let_def any_rq clock others)
  have pick: "obs (snd (pick_task a c k)) = obs k" for k
    by (simp add: pick_task_def keep_picked keep_first_pick keep_class_picks [OF assms(2)])
  show ?thesis
    by (simp add: pick_next_task_def Let_def split_beta out reset pick others keep_core_select [OF assms(2)]
        keep_us_pick [OF assms] keep_put_prev_balance [OF assms] keep_put_prev [OF assms(1)] keep_set_next [OF assms(1)]
        set_core_pick_def any_rq split: option.split)
qed

end

interpretation run: pick_observer run_view
  by unfold_locales (simp_all add: clear_dl_server_def upd_yat_se_def run_view_def fun_eq_iff)

section \<open>The whole of \<open>__schedule\<close>\<close>

text \<open>The state in which the decision falls: the run queue clock has just been updated.\<close>

definition schedule_clocked :: "kapi \<Rightarrow> cpu \<Rightarrow> kernel \<Rightarrow> kernel" where
  "schedule_clocked a c k =
     upd_rq c (\<lambda>r. r\<lparr>rq_clock_update_flags := RQCF_UPDATED\<rparr>)
       (update_rq_clock a c
         (upd_rq c (\<lambda>r. r\<lparr>rq_clock_update_flags := push_bit 1 (rq_clock_update_flags r)\<rparr>)
           ((\<lambda>k. if ka_sched_feat_HRTICK a \<or> ka_sched_feat_HRTICK_DL a then hrtick_clear c k else k)
             (schedule_debug k))))"

lemma schedule_clocked_run [simp]: "run_view (schedule_clocked a c k) = run_view k"
  by (simp add: schedule_clocked_def run_queue.clock schedule_debug_def hrtick_clear_def)

lemma schedule_steps:
  assumes "c = k_this_cpu k" "prev = rq_curr (k_rqs k c)"
    and "schedule_deactivate a sched_mode c prev (schedule_clocked a c k) = (voluntary, k1)"
    and "pick_next_task a c prev k1 = (nxt, k2)"
  shows "us_schedule a sched_mode k =
    schedule_switch a voluntary c prev nxt
      (upd_rq c (\<lambda>r. r\<lparr>rq_last_seen_need_resched_ns := 0\<rparr>)
        ((clear_tsk_need_resched prev k2)\<lparr>k_preempt_need_resched := False\<rparr>))"
  using assms(3,4) unfolding us_schedule_def schedule_clocked_def assms(1,2) by (simp add: Let_def)

text \<open>
  C2: What a call of \<open>__schedule\<close> does to the task that was running. It leaves the run queue
  exactly when the call is no preemption and it sleeps with no signal to see; a pending signal
  sets it running again instead. If the pick is another task, that one is the current task of
  the machine and of the run queue afterwards, it is marked as on the CPU and the old one is not.
  The classes and hooks of other files keep who runs; the pick, core scheduling included, is the
  model's own.
\<close>

theorem schedule_switches:
  assumes "switch_ops_keep run_view a" "switch_ops_keep cpu_view a" "balance_ops_keep run_view a"
    and c: "c = k_this_cpu k" and prev: "prev = rq_curr (k_rqs k c)" and k': "k' = us_schedule a sched_mode k"
    and k0: "k0 = schedule_clocked a c k"
  shows "t_on_rq (k_tasks k' prev) = (if schedule_sleeps a sched_mode k0 prev then 0 else t_on_rq (k_tasks k prev)) \<and>
    t_state (k_tasks k' prev) =
      (if schedule_interrupted a sched_mode k0 prev then TASK_RUNNING else t_state (k_tasks k prev)) \<and>
    (let nxt = fst (pick_next_task a c prev (snd (schedule_deactivate a sched_mode c prev k0)))
     in nxt \<noteq> prev \<longrightarrow> k_current k' = nxt \<and> rq_curr (k_rqs k' c) = nxt \<and>
          t_on_cpu (k_tasks k' nxt) \<and> \<not> t_on_cpu (k_tasks k' prev))"
proof -
  have ops: "class_ops_keep run_view a" using assms(1) by (simp add: switch_ops_keep_def)
  obtain v k1 where d: "schedule_deactivate a sched_mode c prev k0 = (v, k1)" by fastforce
  obtain nxt k2 where n: "pick_next_task a c prev k1 = (nxt, k2)" by fastforce
  define k3 where "k3 = upd_rq c (\<lambda>r. r\<lparr>rq_last_seen_need_resched_ns := 0\<rparr>)
      ((clear_tsk_need_resched prev k2)\<lparr>k_preempt_need_resched := False\<rparr>)"
  have k': "k' = schedule_switch a v c prev nxt k3"
    using schedule_steps [OF c prev d [unfolded k0] n] k' by (simp add: k3_def)
  have r3: "run_view k3 = run_view k1"
    using run.keep_pick_next_task [OF ops assms(3), of c prev k1] n
    by (simp add: k3_def clear_tsk_need_resched_def)
  have r1: "run_view k1 prev =
      (if schedule_sleeps a sched_mode k0 prev then 0 else t_on_rq (k_tasks k prev), t_on_cpu (k_tasks k prev),
       if schedule_interrupted a sched_mode k0 prev then TASK_RUNNING else t_state (k_tasks k prev))"
    using schedule_deactivate_run [OF ops, of sched_mode c prev k0] schedule_clocked_run [of a c k] d
    by (simp add: k0 run_view_def [of k])
  have same: "t_on_rq (k_tasks k' prev) = t_on_rq (k_tasks k3 prev) \<and> t_state (k_tasks k' prev) = t_state (k_tasks k3 prev)"
  proof (cases "prev = nxt")
    case True
    then have "run_view k' = run_view k3"
      by (simp add: k' schedule_switch_def run_queue.keep_callbacks [OF assms(1)])
    then show ?thesis using run_viewD by blast
  qed (use schedule_switch_run [OF assms(1,2) _ k'] in blast)
  then show ?thesis
    using r1 fun_cong [OF r3, of prev] schedule_switch_run [OF assms(1,2) _ k']
    by (auto simp: run_view_def d n Let_def)
qed

text \<open>Task 10 runs on CPU 0 and goes to sleep: the idle task is the next.\<close>

definition sample_sleeper :: kernel where
  "sample_sleeper = upd_task 10 (\<lambda>t. t\<lparr>t_state := TASK_INTERRUPTIBLE, t_on_rq := 1, t_on_cpu := True\<rparr>)
     (upd_rq 0 (\<lambda>r. r\<lparr>rq_curr := 10\<rparr>) (sample_kernel\<lparr>k_current := 10\<rparr>))"

lemma sample_switch_ops:
  "switch_ops_keep run_view sample_kapi" "switch_ops_keep cpu_view sample_kapi" "balance_ops_keep run_view sample_kapi"
  by (auto simp: switch_ops_keep_def balance_ops_keep_def class_ops_keep_def sample_kapi_def cpu_view_def fun_eq_iff
      split: option.split)

theorem schedule_switches_witness:
  "t_on_rq (k_tasks (us_schedule sample_kapi SM_NONE sample_sleeper) 10) = 0"
proof -
  have "schedule_sleeps sample_kapi SM_NONE (schedule_clocked sample_kapi 0 sample_sleeper) 10"
    using run_viewD(3) [OF schedule_clocked_run [of sample_kapi 0 sample_sleeper], of 10]
    by (simp add: schedule_sleeps_def test_flag_def SM_NONE_def)
      (simp add: sample_kapi_def sample_sleeper_def TASK_INTERRUPTIBLE_def)
  moreover note sample_switch_ops
  moreover have "k_this_cpu sample_sleeper = 0" "rq_curr (k_rqs sample_sleeper 0) = 10"
    by (simp_all add: sample_sleeper_def)
  ultimately show ?thesis
    using schedule_switches [of sample_kapi 0 sample_sleeper 10 "us_schedule sample_kapi SM_NONE sample_sleeper" SM_NONE
        "schedule_clocked sample_kapi 0 sample_sleeper"]
    by simp
qed

section \<open>The loop around it\<close>

text \<open>
  The entry points call \<open>__schedule\<close> again while a reschedule is requested: once the requests
  stop, they return, and with none pending.
\<close>

lemma us_schedule_loop_returns:
  assumes settles: "\<And>n k. settled \<le> n \<Longrightarrow> \<not> need_resched (env n k)"
  shows "\<exists>k'. us_schedule_loop a env n sched_mode k = Some k' \<and> \<not> need_resched k'"
proof (induction "settled - n" arbitrary: n k)
  case 0
  then show ?case using settles [of n] by (subst us_schedule_loop.simps) (simp add: Let_def)
next
  case (Suc d)
  define k1 where "k1 = env n (us_schedule a sched_mode k)"
  have "d = settled - (n + 1)" using Suc(2) by arith
  from Suc(1) [OF this, of k1]
  obtain k' where "us_schedule_loop a env (n + 1) sched_mode k1 = Some k'" "\<not> need_resched k'"
    by blast
  then show ?case
    by (subst us_schedule_loop.simps) (simp add: Let_def k1_def [symmetric])
qed

lemma schedule_returns:
  assumes settles: "\<And>n k. settled \<le> n \<Longrightarrow> \<not> need_resched (env n k)"
  shows "\<exists>k'. schedule a env k = Some k'" "\<exists>k'. preempt_schedule_common a env k = Some k'"
    "\<exists>ret k'. us_cond_resched a env should_resched k = Some (ret, k')"
proof -
  have loop: "\<exists>k'. us_schedule_loop a env 0 sched_mode k = Some k'" for sched_mode k
    using us_schedule_loop_returns [of settled env, OF settles] by blast
  show "\<exists>k'. schedule a env k = Some k'" by (simp add: schedule_def Let_def loop)
  show pre: "\<exists>k'. preempt_schedule_common a env k = Some k'"
    by (simp add: preempt_schedule_common_def loop)
  show "\<exists>ret k'. us_cond_resched a env should_resched k = Some (ret, k')"
    using pre by (cases should_resched) (auto simp: us_cond_resched_def)
qed

end
