(* ===== verification/Context_Mm.thy ===== *)
theory Context_Mm
  imports Schedule
begin

text \<open>
  Address spaces across the context switch (\<open>core.c\<close>).  A kernel thread has no address space of
  its own and borrows the active one of the task it follows; the borrowed one is kept alive by a
  reference, which is passed on from kernel thread to kernel thread and given back after the
  switch to a user task.  The scheduler's own part of the switch is that of \<open>Schedule\<close>, where
  the address spaces are one hook.
\<close>

section \<open>State\<close>

type_synonym mm_id = nat

text \<open>
  \<open>sw_mm\<close> and \<open>sw_active_mm\<close> are the fields of \<open>task_struct\<close>, \<open>sw_prev_mm\<close> that of the run queue,
  \<open>sw_mm_count\<close> the reference counter of \<open>struct mm_struct\<close>, \<open>sw_loaded\<close> the page tables a CPU
  uses.  \<open>sw_undefined\<close> records that a NULL pointer was used.
\<close>

record mm_state =
  sw_kernel :: kernel
  sw_mm :: "tid \<Rightarrow> mm_id option"
  sw_active_mm :: "tid \<Rightarrow> mm_id option"
  sw_prev_mm :: "cpu \<Rightarrow> mm_id option"
  sw_mm_count :: "mm_id \<Rightarrow> int"
  sw_loaded :: "cpu \<Rightarrow> mm_id option"
  sw_undefined :: bool

definition on_sw :: "(kernel \<Rightarrow> kernel) \<Rightarrow> mm_state \<Rightarrow> mm_state" where
  "on_sw f s = s\<lparr>sw_kernel := f (sw_kernel s)\<rparr>"

definition set_active_mm :: "tid \<Rightarrow> mm_id option \<Rightarrow> mm_state \<Rightarrow> mm_state" where
  "set_active_mm p m s = s\<lparr>sw_active_mm := (sw_active_mm s)(p := m)\<rparr>"

definition set_prev_mm :: "cpu \<Rightarrow> mm_id option \<Rightarrow> mm_state \<Rightarrow> mm_state" where
  "set_prev_mm c m s = s\<lparr>sw_prev_mm := (sw_prev_mm s)(c := m)\<rparr>"

text \<open>The memory management, the architecture and the release of a dead task.\<close>

record mm_api =
  ma_enter_lazy_tlb :: "mm_id option \<Rightarrow> tid \<Rightarrow> mm_state \<Rightarrow> mm_state"
  ma_mmgrab_lazy_tlb :: "mm_id \<Rightarrow> mm_state \<Rightarrow> mm_state"
  ma_mmdrop_lazy_tlb_sched :: "mm_id \<Rightarrow> mm_state \<Rightarrow> mm_state"
  ma_membarrier_switch_mm :: "cpu \<Rightarrow> mm_id option \<Rightarrow> mm_id \<Rightarrow> mm_state \<Rightarrow> mm_state"
  ma_membarrier_mm_sync_core :: "mm_id \<Rightarrow> mm_state \<Rightarrow> mm_state"
  ma_switch_mm_irqs_off :: "cpu \<Rightarrow> mm_id option \<Rightarrow> mm_id \<Rightarrow> tid \<Rightarrow> mm_state \<Rightarrow> mm_state"
  ma_lru_gen_use_mm :: "mm_id \<Rightarrow> mm_state \<Rightarrow> mm_state"
  ma_switch_mm_cid :: "cpu \<Rightarrow> tid \<Rightarrow> tid \<Rightarrow> mm_state \<Rightarrow> mm_state"
  ma_put_task :: "tid \<Rightarrow> mm_state \<Rightarrow> mm_state"

section \<open>The switch\<close>

text \<open>A reference to what may be no address space.\<close>

definition mmgrab_active :: "mm_api \<Rightarrow> mm_id option \<Rightarrow> mm_state \<Rightarrow> mm_state" where
  "mmgrab_active ma m s =
     (case m of Some m \<Rightarrow> ma_mmgrab_lazy_tlb ma m s | None \<Rightarrow> s\<lparr>sw_undefined := True\<rparr>)"

text \<open>The branches of \<open>context_switch\<close>: to a kernel thread, or to a user task.\<close>

definition switch_address_space :: "mm_api \<Rightarrow> cpu \<Rightarrow> tid \<Rightarrow> tid \<Rightarrow> mm_state \<Rightarrow> mm_state" where
  "switch_address_space ma c prev nxt s =
     (case sw_mm s nxt of
        None \<Rightarrow>
          let s = ma_enter_lazy_tlb ma (sw_active_mm s prev) nxt s;
              s = set_active_mm nxt (sw_active_mm s prev) s
          in if sw_mm s prev \<noteq> None then mmgrab_active ma (sw_active_mm s prev) s
             else set_active_mm prev None s
      | Some m \<Rightarrow>
          let s = ma_membarrier_switch_mm ma c (sw_active_mm s prev) m s;
              s = ma_switch_mm_irqs_off ma c (sw_active_mm s prev) m nxt s;
              s = ma_lru_gen_use_mm ma m s
          in if sw_mm s prev = None
             then set_active_mm prev None (set_prev_mm c (sw_active_mm s prev) s)
             else s)"

definition finish_task_switch_mm :: "kapi \<Rightarrow> mm_api \<Rightarrow> tid \<Rightarrow> mm_state \<Rightarrow> mm_state" where
  "finish_task_switch_mm a ma prev s =
     (let c = k_this_cpu (sw_kernel s);
          mm = sw_prev_mm s c;
          s = set_prev_mm c None s;
          prev_state = t_state (k_tasks (sw_kernel s) prev);
          s = on_sw (finish_task prev) s;
          s = on_sw (finish_lock_switch a c) s;
          s = (case mm of None \<Rightarrow> s
               | Some m \<Rightarrow> ma_mmdrop_lazy_tlb_sched ma m (ma_membarrier_mm_sync_core ma m s))
      in if prev_state = TASK_DEAD
         then ma_put_task ma prev
                (on_sw (\<lambda>k. case class_task_dead a (task_class k prev) of Some f \<Rightarrow> f prev k | None \<Rightarrow> k) s)
         else s)"

definition context_switch_mm :: "kapi \<Rightarrow> mm_api \<Rightarrow> cpu \<Rightarrow> tid \<Rightarrow> tid \<Rightarrow> mm_state \<Rightarrow> mm_state" where
  "context_switch_mm a ma c prev nxt s =
     (let s = on_sw (prepare_task_switch prev nxt) s;
          s = switch_address_space ma c prev nxt s;
          s = ma_switch_mm_cid ma c prev nxt s;
          s = on_sw (\<lambda>k. k\<lparr>k_current := nxt\<rparr>) s
      in finish_task_switch_mm a ma prev s)"

text \<open>The switch as \<open>__schedule\<close> makes it, once the next task is picked.\<close>

definition schedule_switch_mm ::
  "kapi \<Rightarrow> mm_api \<Rightarrow> bool \<Rightarrow> cpu \<Rightarrow> tid \<Rightarrow> tid \<Rightarrow> mm_state \<Rightarrow> mm_state" where
  "schedule_switch_mm a ma voluntary c prev nxt s =
     (if prev \<noteq> nxt
      then let s = on_sw (upd_rq c (\<lambda>r. r\<lparr>rq_nr_switches := rq_nr_switches r + 1, rq_curr := nxt\<rparr>)) s;
               s = on_sw (count_switch voluntary prev) s;
               s = on_sw (migrate_disable_switch a c prev) s
           in context_switch_mm a ma c prev nxt s
      else on_sw (us_balance_callbacks a c) s)"

section \<open>The idle task\<close>

text \<open>Before its CPU goes away the idle task stops using a borrowed address space.\<close>

definition idle_task_exit :: "mm_api \<Rightarrow> mm_id \<Rightarrow> mm_state \<Rightarrow> mm_state" where
  "idle_task_exit ma init_mm s =
     (let k = sw_kernel s; c = k_this_cpu k; curr = k_current k; mm = sw_active_mm s curr
      in if cpu_online k c \<or> curr \<noteq> rq_idle (k_rqs k c) then s\<lparr>sw_undefined := True\<rparr>
         else if mm \<noteq> Some init_mm then ma_switch_mm_irqs_off ma c mm init_mm curr s else s)"

text \<open>The boot task borrows \<open>init_mm\<close>.\<close>

definition sched_init_mm :: "mm_api \<Rightarrow> mm_id \<Rightarrow> mm_state \<Rightarrow> mm_state" where
  "sched_init_mm ma init_mm s =
     ma_enter_lazy_tlb ma (Some init_mm) (k_current (sw_kernel s)) (ma_mmgrab_lazy_tlb ma init_mm s)"

end
