(* ===== verification/Context_Mm_Correct.thy ===== *)
theory Context_Mm_Correct
  imports Context_Mm Schedule_Correct
begin

text \<open>
  The switch with its address spaces implements the switch of \<open>Schedule\<close>, and the references to
  borrowed address spaces balance over any run of the machine.
\<close>

section \<open>Documented behaviour of the memory management\<close>

definition mm_ops_ok :: "mm_api \<Rightarrow> bool" where
  "mm_ops_ok ma \<longleftrightarrow>
     (\<forall>m s. ma_mmgrab_lazy_tlb ma m s = s\<lparr>sw_mm_count := (sw_mm_count s)(m := sw_mm_count s m + 1)\<rparr>) \<and>
     (\<forall>m s. ma_mmdrop_lazy_tlb_sched ma m s = s\<lparr>sw_mm_count := (sw_mm_count s)(m := sw_mm_count s m - 1)\<rparr>) \<and>
     (\<forall>c m n p s. ma_switch_mm_irqs_off ma c m n p s = s\<lparr>sw_loaded := (sw_loaded s)(c := Some n)\<rparr>) \<and>
     (\<forall>m p s. ma_enter_lazy_tlb ma m p s = s) \<and> (\<forall>c m n s. ma_membarrier_switch_mm ma c m n s = s) \<and>
     (\<forall>m s. ma_membarrier_mm_sync_core ma m s = s) \<and> (\<forall>m s. ma_lru_gen_use_mm ma m s = s) \<and>
     (\<forall>c p q s. ma_switch_mm_cid ma c p q s = s) \<and> (\<forall>p s. ma_put_task ma p s = s)"

lemma mm_opsD:
  assumes "mm_ops_ok ma"
  shows "ma_mmgrab_lazy_tlb ma m s = s\<lparr>sw_mm_count := (sw_mm_count s)(m := sw_mm_count s m + 1)\<rparr>"
    "ma_mmdrop_lazy_tlb_sched ma m s = s\<lparr>sw_mm_count := (sw_mm_count s)(m := sw_mm_count s m - 1)\<rparr>"
    "ma_switch_mm_irqs_off ma c old m p s = s\<lparr>sw_loaded := (sw_loaded s)(c := Some m)\<rparr>"
    "ma_enter_lazy_tlb ma old p s = s" "ma_membarrier_switch_mm ma c old m s = s"
    "ma_membarrier_mm_sync_core ma m s = s" "ma_lru_gen_use_mm ma m s = s"
    "ma_switch_mm_cid ma c p q s = s" "ma_put_task ma p s = s"
  using assms by (simp_all add: mm_ops_ok_def)

section \<open>Refinement\<close>

text \<open>The address spaces of a state, without the kernel and the mark.\<close>

definition spaces :: "mm_state \<Rightarrow> (tid \<Rightarrow> mm_id option) \<times> (tid \<Rightarrow> mm_id option) \<times> (cpu \<Rightarrow> mm_id option) \<times>
    (mm_id \<Rightarrow> int) \<times> (cpu \<Rightarrow> mm_id option) \<times> bool" where
  "spaces s = (sw_mm s, sw_active_mm s, sw_prev_mm s, sw_mm_count s, sw_loaded s, sw_undefined s)"

lemma spaces_on_sw [simp]: "spaces (on_sw f s) = spaces s" "sw_kernel (on_sw f s) = f (sw_kernel s)"
  by (simp_all add: spaces_def on_sw_def)

lemma sw_eqI: "spaces s = spaces t \<Longrightarrow> sw_kernel s = sw_kernel t \<Longrightarrow> s = (t :: mm_state)"
  by (cases s; cases t) (simp add: spaces_def)

lemma kernel_switch_address_space:
  assumes "mm_ops_ok ma" shows "sw_kernel (switch_address_space ma c prev nxt s) = sw_kernel s"
  by (simp add: switch_address_space_def mmgrab_active_def set_active_mm_def set_prev_mm_def mm_opsD [OF assms]
      Let_def split: option.split)

lemma kernel_schedule_switch_mm:
  assumes "mm_ops_ok ma" "\<forall>p q k. ka_switch_mm a p q k = k"
  shows "sw_kernel (schedule_switch_mm a ma voluntary c prev nxt s) =
    schedule_switch a voluntary c prev nxt (sw_kernel s)"
proof -
  have "sw_kernel (finish_task_switch_mm a ma prev s) = finish_task_switch a prev (sw_kernel s)" for s
    by (simp add: finish_task_switch_mm_def finish_task_switch_def set_prev_mm_def mm_opsD [OF assms(1)]
        Let_def split: option.split)
  then show ?thesis
    by (simp add: schedule_switch_mm_def schedule_switch_def context_switch_mm_def context_switch_def
        kernel_switch_address_space [OF assms(1)] mm_opsD [OF assms(1)] assms(2) Let_def)
qed

section \<open>References to borrowed address spaces\<close>

text \<open>
  \<open>cur c\<close> is the task that runs on CPU \<open>c\<close>; \<open>base m\<close> are the references that do not belong to
  lazily borrowing CPUs.
\<close>

abbreviation cur :: "mm_state \<Rightarrow> cpu \<Rightarrow> tid" where
  "cur s c \<equiv> rq_curr (k_rqs (sw_kernel s) c)"

definition borrows :: "mm_state \<Rightarrow> cpu \<Rightarrow> mm_id \<Rightarrow> bool" where
  "borrows s c m \<longleftrightarrow> sw_mm s (cur s c) = None \<and> sw_active_mm s (cur s c) = Some m"

definition mm_inv :: "cpu set \<Rightarrow> (mm_id \<Rightarrow> int) \<Rightarrow> mm_state \<Rightarrow> bool" where
  "mm_inv cpus base s \<longleftrightarrow>
     inj_on (cur s) cpus \<and> \<not> sw_undefined s \<and>
     (\<forall>p m. sw_mm s p = Some m \<longrightarrow> sw_active_mm s p = Some m) \<and>
     (\<forall>p. sw_mm s p = None \<and> p \<notin> cur s ` cpus \<longrightarrow> sw_active_mm s p = None) \<and>
     (\<forall>c \<in> cpus. sw_prev_mm s c = None \<and> sw_active_mm s (cur s c) \<noteq> None \<and>
        sw_loaded s c = sw_active_mm s (cur s c)) \<and>
     (\<forall>m. sw_mm_count s m = base m + (\<Sum>c\<in>cpus. of_bool (borrows s c m)))"

text \<open>One CPU switches to a task that runs nowhere.\<close>

inductive mm_step :: "kapi \<Rightarrow> mm_api \<Rightarrow> cpu set \<Rightarrow> mm_state \<Rightarrow> mm_state \<Rightarrow> bool" for a ma cpus where
  "\<lbrakk>c \<in> cpus; nxt \<notin> cur s ` cpus;
    s' = schedule_switch_mm a ma voluntary c (cur s c) nxt
           (on_sw (\<lambda>k. k\<lparr>k_this_cpu := c, k_current := rq_curr (k_rqs k c)\<rparr>) s)\<rbrakk>
   \<Longrightarrow> mm_step a ma cpus s s'"

inductive mm_path :: "kapi \<Rightarrow> mm_api \<Rightarrow> cpu set \<Rightarrow> mm_state \<Rightarrow> mm_state \<Rightarrow> bool" for a ma cpus where
  "mm_path a ma cpus s s"
| "mm_path a ma cpus s t \<Longrightarrow> mm_step a ma cpus t u \<Longrightarrow> mm_path a ma cpus s u"

lemma cpu_view_schedule_switch:
  assumes mach: "switch_ops_keep cpu_view a" and "prev \<noteq> nxt"
  shows "cpu_view (schedule_switch a v c prev nxt k) =
    cpu_view ((upd_rq c (\<lambda>r. r\<lparr>rq_curr := nxt\<rparr>) k)\<lparr>k_current := nxt\<rparr>)"
proof -
  have sw: "cpu_view (ka_switch_mm a p q s) = cpu_view s" for p q s
    using mach by (simp add: switch_ops_keep_def)
  have fin: "cpu_view (finish_task_switch a prev s) = cpu_view s" for s
    by (simp add: finish_task_switch_def finish_lock_switch_def Let_def cpus.keep_task_dead [OF mach]
        cpus.keep_callbacks [OF mach] finish_task_def)
  have count: "cpu_view (upd_rq c (\<lambda>r. r\<lparr>rq_nr_switches := rq_nr_switches r + 1, rq_curr := nxt\<rparr>) k) =
      cpu_view (upd_rq c (\<lambda>r. r\<lparr>rq_curr := nxt\<rparr>) k)"
    by (simp add: cpu_view_def fun_eq_iff)
  show ?thesis
    using assms(2) by (simp add: schedule_switch_def context_switch_def prepare_task_switch_def prepare_task_def Let_def fin
        cpu_view_current sw cpus.keep_migrate_disable_switch [OF mach] count_switch_def count)
qed

lemma cur_schedule_switch_mm:
  assumes "mm_ops_ok ma" "\<forall>p q k. ka_switch_mm a p q k = k" "switch_ops_keep cpu_view a" "prev \<noteq> nxt"
  shows "cur (schedule_switch_mm a ma v c prev nxt s) d = (if d = c then nxt else cur s d)"
    "k_this_cpu (sw_kernel (schedule_switch_mm a ma v c prev nxt s)) = k_this_cpu (sw_kernel s)"
proof -
  have "sw_kernel (schedule_switch_mm a ma v c prev nxt s) = schedule_switch a v c prev nxt (sw_kernel s)"
    by (rule kernel_schedule_switch_mm [OF assms(1,2)])
  then show "cur (schedule_switch_mm a ma v c prev nxt s) d = (if d = c then nxt else cur s d)"
    "k_this_cpu (sw_kernel (schedule_switch_mm a ma v c prev nxt s)) = k_this_cpu (sw_kernel s)"
    using cpu_viewD(1,3) [OF cpu_view_schedule_switch [OF assms(3,4), of v c "sw_kernel s"]]
    by auto
qed

text \<open>What a switch does to the address spaces when \<open>prev\<close> uses or borrows \<open>b\<close>.\<close>

lemma spaces_schedule_switch_mm:
  assumes ok: "mm_ops_ok ma" and mach: "switch_ops_keep cpu_view a" and "prev \<noteq> nxt"
    and c: "k_this_cpu (sw_kernel s) = c" and b: "sw_active_mm s prev = Some b" and clean: "sw_prev_mm s c = None"
  shows "spaces (schedule_switch_mm a ma v c prev nxt s) =
    (sw_mm s,
     (let act = (if sw_mm s prev = None then (sw_active_mm s)(prev := None) else sw_active_mm s)
      in if sw_mm s nxt = None then act(nxt := Some b) else act),
     sw_prev_mm s,
     (sw_mm_count s)(b := sw_mm_count s b + of_bool (sw_mm s nxt = None) - of_bool (sw_mm s prev = None)),
     (case sw_mm s nxt of None \<Rightarrow> sw_loaded s | Some m \<Rightarrow> (sw_loaded s)(c := Some m)),
     sw_undefined s)"
proof -
  define s1 where "s1 = on_sw (prepare_task_switch prev nxt) (on_sw (migrate_disable_switch a c prev)
    (on_sw (count_switch v prev) (on_sw (upd_rq c (\<lambda>r. r\<lparr>rq_nr_switches := rq_nr_switches r + 1, rq_curr := nxt\<rparr>)) s)))"
  define s2 where "s2 = on_sw (\<lambda>k. k\<lparr>k_current := nxt\<rparr>) (switch_address_space ma c prev nxt s1)"
  have s1: "spaces s1 = spaces s" by (simp add: s1_def)
  have "cpu_view (sw_kernel s1) = cpu_view (upd_rq c (\<lambda>r. r\<lparr>rq_nr_switches := rq_nr_switches r + 1, rq_curr := nxt\<rparr>) (sw_kernel s))"
    by (simp add: s1_def prepare_task_switch_def prepare_task_def count_switch_def cpus.keep_migrate_disable_switch [OF mach])
  from cpu_viewD(3) [OF this] have here: "k_this_cpu (sw_kernel s1) = c" by (simp add: c)
  then have k2: "k_this_cpu (sw_kernel s2) = c"
    by (simp add: s2_def kernel_switch_address_space [OF ok])
  have fin: "spaces (finish_task_switch_mm a ma prev s2) =
    (sw_mm s2, sw_active_mm s2, (sw_prev_mm s2)(c := None),
     (case sw_prev_mm s2 c of None \<Rightarrow> sw_mm_count s2 | Some m \<Rightarrow> (sw_mm_count s2)(m := sw_mm_count s2 m - 1)),
     sw_loaded s2, sw_undefined s2)"
    by (simp add: finish_task_switch_mm_def Let_def k2 mm_opsD [OF ok] set_prev_mm_def split: option.split)
      (simp add: spaces_def on_sw_def)
  have "schedule_switch_mm a ma v c prev nxt s = finish_task_switch_mm a ma prev s2"
    using assms(3) by (simp add: schedule_switch_mm_def context_switch_mm_def Let_def mm_opsD [OF ok] s2_def s1_def)
  moreover have "spaces s2 = spaces (switch_address_space ma c prev nxt s1)" by (simp add: s2_def)
  moreover have "spaces (switch_address_space ma c prev nxt s1) = (sw_mm s,
     (let act = (if sw_mm s prev = None then (sw_active_mm s)(prev := None) else sw_active_mm s)
      in if sw_mm s nxt = None then act(nxt := Some b) else act),
     (if sw_mm s prev = None \<and> sw_mm s nxt \<noteq> None then (sw_prev_mm s)(c := Some b) else sw_prev_mm s),
     (if sw_mm s prev \<noteq> None \<and> sw_mm s nxt = None then (sw_mm_count s)(b := sw_mm_count s b + 1) else sw_mm_count s),
     (case sw_mm s nxt of None \<Rightarrow> sw_loaded s | Some m \<Rightarrow> (sw_loaded s)(c := Some m)),
     sw_undefined s)"
    using s1 b assms(3)
    by (auto simp: spaces_def switch_address_space_def mmgrab_active_def set_active_mm_def set_prev_mm_def
        mm_opsD [OF ok] Let_def split: option.split)
  ultimately show ?thesis
    using fin clean by (auto simp: spaces_def fun_upd_idem split: option.split)
qed

lemma mm_step_inv:
  assumes ok: "mm_ops_ok ma" and hook: "\<forall>p q k. ka_switch_mm a p q k = k" and mach: "switch_ops_keep cpu_view a"
    and fin: "finite cpus" and inv: "mm_inv cpus base s" and step: "mm_step a ma cpus s s'"
  shows "mm_inv cpus base s'"
  using step
proof cases
  case (1 c nxt voluntary)
  define prev where "prev = cur s c"
  define t where "t = on_sw (\<lambda>k. k\<lparr>k_this_cpu := c, k_current := rq_curr (k_rqs k c)\<rparr>) s"
  have t: "spaces t = spaces s" "cur t d = cur s d" "k_this_cpu (sw_kernel t) = c" for d by (simp_all add: t_def)
  have tf: "sw_mm t = sw_mm s" "sw_active_mm t = sw_active_mm s" "sw_prev_mm t = sw_prev_mm s"
    "sw_mm_count t = sw_mm_count s" "sw_loaded t = sw_loaded s" "sw_undefined t = sw_undefined s"
    by (simp_all add: t_def on_sw_def)
  have s': "s' = schedule_switch_mm a ma voluntary c prev nxt t" using 1(3) by (simp add: t_def prev_def)
  have clean: "sw_prev_mm s c = None" using inv 1(1) by (simp add: mm_inv_def)
  have ne: "prev \<noteq> nxt" using 1 by (auto simp: prev_def)
  obtain b where b: "sw_active_mm s prev = Some b" using inv 1(1) by (auto simp: mm_inv_def prev_def)
  have cur': "cur s' d = (if d = c then nxt else cur s d)" for d
    unfolding s' by (simp add: cur_schedule_switch_mm(1) [OF ok hook mach ne] t(2))
  have inj: "inj_on (cur s) cpus" using inv by (simp add: mm_inv_def)
  have others: "cur s d \<noteq> prev" "cur s d \<noteq> nxt" if "d \<in> cpus" "d \<noteq> c" for d
    using that 1(1,2) inj by (auto simp: prev_def inj_on_def)
  have sp: "spaces s' =
    (sw_mm s,
     (let act = (if sw_mm s prev = None then (sw_active_mm s)(prev := None) else sw_active_mm s)
      in if sw_mm s nxt = None then act(nxt := Some b) else act),
     sw_prev_mm s,
     (sw_mm_count s)(b := sw_mm_count s b + of_bool (sw_mm s nxt = None) - of_bool (sw_mm s prev = None)),
     (case sw_mm s nxt of None \<Rightarrow> sw_loaded s | Some m \<Rightarrow> (sw_loaded s)(c := Some m)),
     sw_undefined s)"
    unfolding s'
    by (subst spaces_schedule_switch_mm [OF ok mach ne t(3), of b]) (use b clean in \<open>simp_all add: tf split: option.split\<close>)
  then have f: "sw_mm s' = sw_mm s" "sw_prev_mm s' = sw_prev_mm s" "sw_undefined s' = sw_undefined s"
    "sw_active_mm s' = (let act = (if sw_mm s prev = None then (sw_active_mm s)(prev := None) else sw_active_mm s)
      in if sw_mm s nxt = None then act(nxt := Some b) else act)"
    "sw_mm_count s' = (sw_mm_count s)(b := sw_mm_count s b + of_bool (sw_mm s nxt = None) - of_bool (sw_mm s prev = None))"
    "sw_loaded s' = (case sw_mm s nxt of None \<Rightarrow> sw_loaded s | Some m \<Rightarrow> (sw_loaded s)(c := Some m))"
    by (simp_all add: spaces_def)
  have same: "borrows s' d m = borrows s d m" if "d \<in> cpus" "d \<noteq> c" for d m
    using others [OF that] that by (simp add: borrows_def cur' f Let_def)
  have here: "borrows s c m \<longleftrightarrow> sw_mm s prev = None \<and> m = b" "borrows s' c m \<longleftrightarrow> sw_mm s nxt = None \<and> m = b" for m
    using b by (auto simp: borrows_def cur' f prev_def [symmetric] Let_def)
  have sum: "(\<Sum>d\<in>cpus. of_bool (borrows s' d m)) =
      (\<Sum>d\<in>cpus. of_bool (borrows s d m)) + of_bool (borrows s' c m) - (of_bool (borrows s c m) :: int)" for m
    by (subst (1 2) sum.remove [OF fin 1(1)]) (simp add: same)
  have count: "sw_mm_count s' m = base m + (\<Sum>d\<in>cpus. of_bool (borrows s' d m))" for m
    using inv unfolding sum here by (auto simp: mm_inv_def f)
  have act: "sw_mm s p = Some m \<Longrightarrow> sw_active_mm s p = Some m" for p m using inv by (auto simp: mm_inv_def)
  have idle: "sw_mm s p = None \<Longrightarrow> p \<notin> cur s ` cpus \<Longrightarrow> sw_active_mm s p = None" for p
    using inv by (auto simp: mm_inv_def)
  have on: "d \<in> cpus \<Longrightarrow> sw_prev_mm s d = None \<and> sw_active_mm s (cur s d) \<noteq> None \<and>
      sw_loaded s d = sw_active_mm s (cur s d)" for d using inv by (auto simp: mm_inv_def)
  have cpus': "cur s' ` cpus = insert nxt (cur s ` cpus - {prev})"
    using 1(1,2) others(1) by (auto simp: cur' prev_def)
  show ?thesis unfolding mm_inv_def
  proof (intro conjI allI ballI impI)
    show "inj_on (cur s') cpus" using inj 1(2) by (auto simp: cur' inj_on_def)
    show "\<not> sw_undefined s'" using inv by (simp add: f mm_inv_def)
    show "sw_active_mm s' p = Some m" if "sw_mm s' p = Some m" for p m
      using act that by (auto simp: f Let_def)
    show "sw_active_mm s' p = None" if "sw_mm s' p = None \<and> p \<notin> cur s' ` cpus" for p
    proof -
      have "p \<noteq> nxt" "p = prev \<or> p \<notin> cur s ` cpus" "sw_mm s p = None"
        using that unfolding cpus' by (simp_all add: f) blast
      then show ?thesis using idle [of p] by (auto simp: f Let_def)
    qed
    show "sw_prev_mm s' d = None" if "d \<in> cpus" for d using on that by (simp add: f)
    show "sw_active_mm s' (cur s' d) \<noteq> None" if "d \<in> cpus" for d
      using on [OF that] others [OF that] act [of nxt] by (auto simp: f cur' Let_def)
    show "sw_loaded s' d = sw_active_mm s' (cur s' d)" if "d \<in> cpus" for d
      using on [OF that] others [OF that] act [of nxt] b
      by (auto simp: f cur' Let_def prev_def [symmetric] split: option.split)
    show "sw_mm_count s' m = base m + (\<Sum>d\<in>cpus. of_bool (borrows s' d m))" for m by (rule count)
  qed
qed

text \<open>
  C8: Along every run of context switches on any CPUs, references balance: the counter of an
  address space is its base value plus the number of CPUs whose kernel thread borrows it, no
  reference waits to be dropped between switches, each CPU has loaded exactly the address space
  of its task, and no task that is off every CPU holds on to a borrowed one. So an address space
  that some kernel thread still uses keeps a reference of its own.
\<close>

theorem mm_references_balance:
  assumes "mm_ops_ok ma" "\<forall>p q k. ka_switch_mm a p q k = k" "switch_ops_keep cpu_view a" "finite cpus"
    and "mm_path a ma cpus s t" "mm_inv cpus base s"
  shows "mm_inv cpus base t \<and>
    (\<forall>c \<in> cpus. \<forall>m. borrows t c m \<longrightarrow> sw_loaded t c = Some m \<and> base m < sw_mm_count t m)"
proof -
  have inv: "mm_inv cpus base t"
    using assms(5,6) by induction (auto intro: mm_step_inv [OF assms(1-4)])
  moreover have "sw_loaded t c = Some m \<and> base m < sw_mm_count t m" if "c \<in> cpus" "borrows t c m" for c m
  proof -
    have "(of_bool (borrows t c m) :: int) \<le> (\<Sum>d\<in>cpus. of_bool (borrows t d m))"
      by (rule member_le_sum) (use that assms(4) in auto)
    then show ?thesis using inv that by (auto simp: mm_inv_def borrows_def)
  qed
  ultimately show ?thesis by blast
qed

text \<open>
  CPU 0 runs the user task 10 with address space 7, CPU 1 its idle task, which borrows address
  space 3. CPU 0 switches to its idle task 0, which borrows 7 from now on.
\<close>

definition sample_mm_api :: mm_api where
  "sample_mm_api =
     \<lparr>ma_enter_lazy_tlb = (\<lambda>m p s. s),
      ma_mmgrab_lazy_tlb = (\<lambda>m s. s\<lparr>sw_mm_count := (sw_mm_count s)(m := sw_mm_count s m + 1)\<rparr>),
      ma_mmdrop_lazy_tlb_sched = (\<lambda>m s. s\<lparr>sw_mm_count := (sw_mm_count s)(m := sw_mm_count s m - 1)\<rparr>),
      ma_membarrier_switch_mm = (\<lambda>c m n s. s), ma_membarrier_mm_sync_core = (\<lambda>m s. s),
      ma_switch_mm_irqs_off = (\<lambda>c m n p s. s\<lparr>sw_loaded := (sw_loaded s)(c := Some n)\<rparr>),
      ma_lru_gen_use_mm = (\<lambda>m s. s), ma_switch_mm_cid = (\<lambda>c p q s. s), ma_put_task = (\<lambda>p s. s)\<rparr>"

definition sample_spaces :: mm_state where
  "sample_spaces =
     \<lparr>sw_kernel = upd_rq 0 (\<lambda>r. r\<lparr>rq_curr := 10\<rparr>) sample_kernel,
      sw_mm = (\<lambda>p. if p = 10 then Some 7 else None),
      sw_active_mm = (\<lambda>p. if p = 10 then Some 7 else if p = 1 then Some 3 else None),
      sw_prev_mm = (\<lambda>c. None), sw_mm_count = (\<lambda>m. if m = 7 then 1 else if m = 3 then 2 else 0),
      sw_loaded = (\<lambda>c. if c = 0 then Some 7 else Some 3), sw_undefined = False\<rparr>"

lemma sample_mm_ok:
  "mm_ops_ok sample_mm_api" "\<forall>p q k. ka_switch_mm sample_kapi p q k = k"
  by (simp_all add: mm_ops_ok_def sample_mm_api_def sample_kapi_def)

theorem mm_references_balance_witness:
  "\<exists>t. mm_path sample_kapi sample_mm_api {0, 1} sample_spaces t \<and> borrows t 0 7 \<and> sw_loaded t 0 = Some 7 \<and>
    1 < sw_mm_count t 7"
proof -
  define s where "s = sample_spaces"
  define t where "t = schedule_switch_mm sample_kapi sample_mm_api True 0 (cur s 0) 0
    (on_sw (\<lambda>k. k\<lparr>k_this_cpu := 0, k_current := rq_curr (k_rqs k 0)\<rparr>) s)"
  have cur: "cur s 0 = 10" "cur s 1 = 1"
    by (simp_all add: s_def sample_spaces_def sample_rq_def)
  note ok = sample_mm_ok(1) and hook = sample_mm_ok(2) and mach = sample_switch_ops(2)
  have step: "mm_step sample_kapi sample_mm_api {0, 1} s t"
    by (rule mm_step.intros [where c = 0 and nxt = 0 and voluntary = True]) (simp_all add: cur t_def)
  have path: "mm_path sample_kapi sample_mm_api {0, 1} s t"
    by (rule mm_path.intros(2) [OF mm_path.intros(1) step])
  have inv: "mm_inv {0, 1} (\<lambda>m. if m = 3 \<or> m = 7 then 1 else 0) s"
    using cur by (simp add: mm_inv_def borrows_def) (simp add: s_def sample_spaces_def)
  have "cur t 0 = 0"
    unfolding t_def using cur_schedule_switch_mm(1) [OF ok hook mach, of "cur s 0" 0] cur by simp
  moreover have "spaces t = (sw_mm s, (sw_active_mm s)(0 := Some 7), sw_prev_mm s, (sw_mm_count s)(7 := 2), sw_loaded s, False)"
    unfolding t_def
    by (subst spaces_schedule_switch_mm [OF ok mach, where b = 7])
      (simp_all add: cur, simp_all add: s_def sample_spaces_def on_sw_def)
  ultimately have b: "borrows t 0 7" by (simp add: borrows_def spaces_def s_def sample_spaces_def)
  then show ?thesis
    using mm_references_balance [OF ok hook mach _ path inv] path [unfolded s_def] by (intro exI [of _ t]) auto
qed

section \<open>Runs of the machine and runs of the scheduler\<close>

text \<open>The same runs, seen by the scheduler.\<close>

inductive switch_path :: "kapi \<Rightarrow> cpu set \<Rightarrow> kernel \<Rightarrow> kernel \<Rightarrow> bool" for a cpus where
  "switch_path a cpus k k"
| "switch_path a cpus k k1 \<Longrightarrow> c \<in> cpus \<Longrightarrow> nxt \<notin> (\<lambda>d. rq_curr (k_rqs k1 d)) ` cpus \<Longrightarrow>
   k2 = schedule_switch a voluntary c (rq_curr (k_rqs k1 c)) nxt
     (k1\<lparr>k_this_cpu := c, k_current := rq_curr (k_rqs k1 c)\<rparr>) \<Longrightarrow> switch_path a cpus k k2"



end
