(* ===== verification/Jiffies.thy ===== *)
theory Jiffies
  imports State
begin

text \<open>
  Comparing times in jiffies (\<open>time_before(a, b)\<close> of \<open>linux/jiffies.h\<close>: the sign of the
  wrapped difference).
\<close>

definition time_before :: "u64 \<Rightarrow> u64 \<Rightarrow> bool" where
  "time_before a b \<longleftrightarrow> sint (a - b) < 0"

lemma time_before_later:
  assumes "0 < sint d" shows "time_before now (now + d)"
proof -
  have "sint (now - (now + d)) = sint (- d)" by simp
  also have "\<dots> = signed_take_bit 63 (- sint d)"
    by (simp add: sint_word_ariths)
  also have "\<dots> = - sint d"
    using assms sint_lt [of d] by (intro signed_take_bit_int_eq_self) auto
  finally show ?thesis using assms by (simp add: time_before_def)
qed

end
