(* ===== verification/Mm_Cid.thy ===== *)
theory Mm_Cid
  imports Task_State Affinity Jiffies
begin

text \<open>
  Concurrency ids of address spaces (\<open>core.c\<close>, \<open>CONFIG_SCHED_MM_CID\<close>).  Every address space
  has one id per CPU and a bitmap of the ids given out; an id on a CPU is a valid number,
  \<open>MM_CID_UNSET\<close>, or a valid number with the lazy-put flag.  The code runs without a common
  lock, so an operation here takes the interference of the other CPUs as an argument: \<open>env pt\<close>
  is what they do at the point \<open>pt\<close> of the operation, between two of its accesses to shared
  memory.  With \<open>env = quiet\<close> nothing else runs.
\<close>

section \<open>State\<close>

type_synonym mmid = nat

record mm_cid =
  mc_cid :: int
  mc_time :: u64

text \<open>
  The fields of \<open>task_struct\<close> of this configuration.  \<open>ct_cid_work_queued\<close> tells whether
  \<open>cid_work.next\<close> points away from the work itself.
\<close>

record cid_task =
  ct_mm :: "mmid option"
  ct_mm_cid :: int
  ct_last_mm_cid :: int
  ct_migrate_from_cpu :: int
  ct_mm_cid_active :: bool
  ct_cid_work_queued :: bool

record mm_struct =
  mm_pcpu_cid :: "cpu \<Rightarrow> mm_cid"
  mm_cidmask :: "int set"
  mm_users :: int
  mm_cid_next_scan :: u64

text \<open>\<open>ck_kernel\<close> is the kernel of the other components, whose fields these never overlap.\<close>

record cid_kernel =
  ck_kernel :: kernel
  ck_tasks :: "tid \<Rightarrow> cid_task"
  ck_mms :: "mmid \<Rightarrow> mm_struct"
  ck_warned :: bool

definition upd_cid_task :: "tid \<Rightarrow> (cid_task \<Rightarrow> cid_task) \<Rightarrow> cid_kernel \<Rightarrow> cid_kernel" where
  "upd_cid_task p f k = k\<lparr>ck_tasks := (ck_tasks k)(p := f (ck_tasks k p))\<rparr>"

definition upd_mm :: "mmid \<Rightarrow> (mm_struct \<Rightarrow> mm_struct) \<Rightarrow> cid_kernel \<Rightarrow> cid_kernel" where
  "upd_mm m f k = k\<lparr>ck_mms := (ck_mms k)(m := f (ck_mms k m))\<rparr>"

definition pcpu_cid :: "mmid \<Rightarrow> cpu \<Rightarrow> cid_kernel \<Rightarrow> int" where
  "pcpu_cid m c k = mc_cid (mm_pcpu_cid (ck_mms k m) c)"

definition set_pcpu_cid :: "mmid \<Rightarrow> cpu \<Rightarrow> int \<Rightarrow> cid_kernel \<Rightarrow> cid_kernel" where
  "set_pcpu_cid m c v =
     upd_mm m (\<lambda>s. s\<lparr>mm_pcpu_cid := (mm_pcpu_cid s)(c := (mm_pcpu_cid s c)\<lparr>mc_cid := v\<rparr>)\<rparr>)"

section \<open>What the code relies on\<close>

text \<open>
  The helpers of \<open>linux/mm_types.h\<close> and \<open>kernel/sched/sched.h\<close>, which are not in the
  repository: the encoding of an id, \<open>mm_cid_get\<close> and \<open>mm_cid_put\<close> (the \<open>us_\<close> one clears a
  bit of the bitmap), the time stamp, and the task work.
\<close>

record cid_api =
  ci_UNSET :: int
  ci_is_unset :: "int \<Rightarrow> bool"
  ci_is_valid :: "int \<Rightarrow> bool"
  ci_set_lazy_put :: "int \<Rightarrow> int"
  ci_mm_cid_get :: "cpu \<Rightarrow> mmid \<Rightarrow> cid_kernel \<Rightarrow> int \<times> cid_kernel"
  ci_mm_cid_put :: "mmid \<Rightarrow> cid_kernel \<Rightarrow> cid_kernel"
  ci_us_mm_cid_put :: "mmid \<Rightarrow> int \<Rightarrow> cid_kernel \<Rightarrow> cid_kernel"
  ci_snapshot_time :: "cpu \<Rightarrow> mmid \<Rightarrow> cid_kernel \<Rightarrow> cid_kernel"
  ci_task_work_add :: "tid \<Rightarrow> cid_kernel \<Rightarrow> cid_kernel"
  ci_rseq_set_notify_resume :: "tid \<Rightarrow> cid_kernel \<Rightarrow> cid_kernel"
  ci_PERIOD_NS :: u64
  ci_scan_delay_jiffies :: u64

text \<open>The points between the shared accesses of the operations.\<close>

datatype cid_point =
  Fetch_before_curr | Steal_before_lazy | Steal_before_curr | Steal_before_unset
| Move_before_write
| Clear_before_lazy | Clear_before_curr | Clear_before_unset | Clear_before_put
| Old_before_curr | Old_before_clear | Weight_before_clear
| Scan_before_first | Scan_before_claim | Scan_before_weight | Leave_before_put

type_synonym cid_env = "cid_point \<Rightarrow> cid_kernel \<Rightarrow> cid_kernel"

definition quiet :: cid_env where
  "quiet pt k = k"

text \<open>\<open>READ_ONCE(t->mm_cid_active) && t->mm == mm\<close> for the current task of a run queue.\<close>

definition mm_cid_active_on :: "mmid \<Rightarrow> cpu \<Rightarrow> cid_kernel \<Rightarrow> bool" where
  "mm_cid_active_on m c k =
     (let t = ck_tasks k (rq_curr (k_rqs (ck_kernel k) c)) in ct_mm_cid_active t \<and> ct_mm t = Some m)"

section \<open>Migration\<close>

definition sched_mm_cid_migrate_from :: "tid \<Rightarrow> cid_kernel \<Rightarrow> cid_kernel" where
  "sched_mm_cid_migrate_from p k =
     upd_cid_task p (\<lambda>t. t\<lparr>ct_migrate_from_cpu := task_cpu (ck_kernel k) p\<rparr>) k"

definition us_sched_mm_cid_migrate_from_fetch_cid ::
  "cid_api \<Rightarrow> cid_env \<Rightarrow> cpu \<Rightarrow> tid \<Rightarrow> cid_kernel \<Rightarrow> int \<times> cid_kernel" where
  "us_sched_mm_cid_migrate_from_fetch_cid ci env src_cpu p k =
     (case ct_mm (ck_tasks k p) of
        None \<Rightarrow> (-1, k)
      | Some m \<Rightarrow>
          let last_mm_cid = ct_last_mm_cid (ck_tasks k p) in
          if last_mm_cid = -1 then (-1, k)
          else let src_cid = pcpu_cid m src_cpu k in
          if \<not> ci_is_valid ci src_cid \<or> last_mm_cid \<noteq> src_cid then (-1, k)
          else let k = env Fetch_before_curr k in
          if mm_cid_active_on m src_cpu k
          then (-1, upd_cid_task p (\<lambda>t. t\<lparr>ct_last_mm_cid := -1\<rparr>) k)
          else (src_cid, k))"

text \<open>\<open>m\<close> is \<open>t->mm\<close>, which the caller has found not to be NULL.\<close>

definition us_sched_mm_cid_migrate_from_try_steal_cid ::
  "cid_api \<Rightarrow> cid_env \<Rightarrow> cpu \<Rightarrow> tid \<Rightarrow> mmid \<Rightarrow> int \<Rightarrow> cid_kernel \<Rightarrow> int \<times> cid_kernel" where
  "us_sched_mm_cid_migrate_from_try_steal_cid ci env src_cpu p m src_cid k =
     (if src_cid = -1 then (-1, k)
      else let lazy_cid = ci_set_lazy_put ci src_cid;
               k = env Steal_before_lazy k in
      if pcpu_cid m src_cpu k \<noteq> src_cid then (-1, k)
      else let k = env Steal_before_curr (set_pcpu_cid m src_cpu lazy_cid k) in
      if mm_cid_active_on m src_cpu k
      then (-1, upd_cid_task p (\<lambda>t. t\<lparr>ct_last_mm_cid := -1\<rparr>) k)
      else let k = env Steal_before_unset k in
      if pcpu_cid m src_cpu k \<noteq> lazy_cid then (-1, k)
      else (src_cid, set_pcpu_cid m src_cpu (ci_UNSET ci) k))"

definition sched_mm_cid_migrate_to ::
  "cid_api \<Rightarrow> cid_env \<Rightarrow> cpu \<Rightarrow> tid \<Rightarrow> cid_kernel \<Rightarrow> cid_kernel" where
  "sched_mm_cid_migrate_to ci env dst_cpu p k =
     (case ct_mm (ck_tasks k p) of
        None \<Rightarrow> k
      | Some m \<Rightarrow>
          let src_cpu = ct_migrate_from_cpu (ck_tasks k p) in
          if src_cpu = -1 then upd_cid_task p (\<lambda>t. t\<lparr>ct_last_mm_cid := -1\<rparr>) k
          else let dst_cid = pcpu_cid m dst_cpu k in
          if \<not> ci_is_unset ci dst_cid \<and>
             t_nr_cpus_allowed (k_tasks (ck_kernel k) p) \<le> mm_users (ck_mms k m) then k
          else case us_sched_mm_cid_migrate_from_fetch_cid ci env src_cpu p k of (src_cid, k) \<Rightarrow>
          if src_cid = -1 then k
          else case us_sched_mm_cid_migrate_from_try_steal_cid ci env src_cpu p m src_cid k of
                 (src_cid, k) \<Rightarrow>
          if src_cid = -1 then k
          else let k = env Move_before_write k in
          if \<not> ci_is_unset ci dst_cid then ci_us_mm_cid_put ci m src_cid k
          else set_pcpu_cid m dst_cpu src_cid (ci_snapshot_time ci dst_cpu m k))"

section \<open>Remote clear\<close>

definition sched_mm_cid_remote_clear ::
  "cid_api \<Rightarrow> cid_env \<Rightarrow> mmid \<Rightarrow> cpu \<Rightarrow> cid_kernel \<Rightarrow> cid_kernel" where
  "sched_mm_cid_remote_clear ci env m c k =
     (let cid = pcpu_cid m c k in
      if \<not> ci_is_valid ci cid then k
      else let lazy_cid = ci_set_lazy_put ci cid;
               k = env Clear_before_lazy k in
      if pcpu_cid m c k \<noteq> cid then k
      else let k = env Clear_before_curr (set_pcpu_cid m c lazy_cid k) in
      if mm_cid_active_on m c k then k
      else let k = env Clear_before_unset k in
      if pcpu_cid m c k \<noteq> lazy_cid then k
      else let k = env Clear_before_put (set_pcpu_cid m c (ci_UNSET ci) k)
      in ci_us_mm_cid_put ci m cid k)"

definition sched_mm_cid_remote_clear_old ::
  "cid_api \<Rightarrow> cid_env \<Rightarrow> mmid \<Rightarrow> cpu \<Rightarrow> cid_kernel \<Rightarrow> cid_kernel" where
  "sched_mm_cid_remote_clear_old ci env m c k =
     (let rq_clock = rq_clock (k_rqs (ck_kernel k) c);
          k = env Old_before_curr k in
      if mm_cid_active_on m c k
      then upd_mm m (\<lambda>s. s\<lparr>mm_pcpu_cid := (mm_pcpu_cid s)(c := (mm_pcpu_cid s c)\<lparr>mc_time := rq_clock\<rparr>)\<rparr>) k
      else if rq_clock < mc_time (mm_pcpu_cid (ck_mms k m) c) + ci_PERIOD_NS ci then k
      else sched_mm_cid_remote_clear ci env m c (env Old_before_clear k))"

definition sched_mm_cid_remote_clear_weight ::
  "cid_api \<Rightarrow> cid_env \<Rightarrow> mmid \<Rightarrow> cpu \<Rightarrow> int \<Rightarrow> cid_kernel \<Rightarrow> cid_kernel" where
  "sched_mm_cid_remote_clear_weight ci env m c weight k =
     (let cid = pcpu_cid m c k in
      if \<not> ci_is_valid ci cid \<or> cid < weight then k
      else sched_mm_cid_remote_clear ci env m c (env Weight_before_clear k))"

section \<open>The scan\<close>

definition for_each_possible_cpu :: "cid_kernel \<Rightarrow> cpu list" where
  "for_each_possible_cpu k = for_each_cpu (ck_kernel k) (k_possible (ck_kernel k))"

text \<open>
  The claim of the scan: \<open>None\<close> when another task has it or it is not due, otherwise the
  state with the time of the next scan advanced.
\<close>

definition cid_scan_claim :: "cid_api \<Rightarrow> cid_env \<Rightarrow> mmid \<Rightarrow> cid_kernel \<Rightarrow> bool \<times> cid_kernel" where
  "cid_scan_claim ci env m k =
     (let now = k_jiffies (ck_kernel k);
          old_scan = mm_cid_next_scan (ck_mms k m);
          next_scan = now + ci_scan_delay_jiffies ci;
          (old_scan, k) =
            (if old_scan = 0
             then let k = env Scan_before_first k;
                      res = mm_cid_next_scan (ck_mms k m)
                  in if res = 0 then (next_scan, upd_mm m (\<lambda>s. s\<lparr>mm_cid_next_scan := next_scan\<rparr>) k)
                     else (res, k)
             else (old_scan, k))
      in if time_before now old_scan then (False, k)
         else let k = env Scan_before_claim k in
         if mm_cid_next_scan (ck_mms k m) \<noteq> old_scan then (False, k)
         else (True, upd_mm m (\<lambda>s. s\<lparr>mm_cid_next_scan := next_scan\<rparr>) k))"

text \<open>
  \<open>old_env c\<close> and \<open>weight_env c\<close> are the interference while CPU \<open>c\<close> is visited by the
  first and by the second loop.
\<close>

definition cid_scan ::
  "cid_api \<Rightarrow> (cpu \<Rightarrow> cid_env) \<Rightarrow> cid_env \<Rightarrow> (cpu \<Rightarrow> cid_env) \<Rightarrow> mmid \<Rightarrow> cid_kernel \<Rightarrow> cid_kernel" where
  "cid_scan ci old_env env weight_env m k =
     (let k = fold (\<lambda>c. sched_mm_cid_remote_clear_old ci (old_env c) m c) (for_each_possible_cpu k) k;
          k = env Scan_before_weight k;
          weight = int (card (mm_cidmask (ck_mms k m)))
      in fold (\<lambda>c. sched_mm_cid_remote_clear_weight ci (weight_env c) m c weight)
           (for_each_possible_cpu k) k)"

definition task_mm_cid_work ::
  "cid_api \<Rightarrow> (cpu \<Rightarrow> cid_env) \<Rightarrow> cid_env \<Rightarrow> (cpu \<Rightarrow> cid_env) \<Rightarrow> cid_kernel \<Rightarrow> cid_kernel" where
  "task_mm_cid_work ci old_env env weight_env k =
     (let p = k_current (ck_kernel k);
          k = upd_cid_task p (\<lambda>t. t\<lparr>ct_cid_work_queued := False\<rparr>) k in
      if test_flag (t_flags (k_tasks (ck_kernel k) p)) PF_EXITING then k
      else case ct_mm (ck_tasks k p) of
        None \<Rightarrow> k
      | Some m \<Rightarrow> (case cid_scan_claim ci env m k of (claimed, k) \<Rightarrow>
          if claimed then cid_scan ci old_env env weight_env m k else k))"

section \<open>Set-up, tick and the life of a task\<close>

definition init_sched_mm_cid :: "cid_api \<Rightarrow> tid \<Rightarrow> cid_kernel \<Rightarrow> cid_kernel" where
  "init_sched_mm_cid ci p k =
     (let k = (case ct_mm (ck_tasks k p) of
                 None \<Rightarrow> k
               | Some m \<Rightarrow>
                   if mm_users (ck_mms k m) = 1
                   then upd_mm m (\<lambda>s. s\<lparr>mm_cid_next_scan :=
                          k_jiffies (ck_kernel k) + ci_scan_delay_jiffies ci\<rparr>) k
                   else k)
      in upd_cid_task p (\<lambda>t. t\<lparr>ct_cid_work_queued := False\<rparr>) k)"

definition task_tick_mm_cid :: "cid_api \<Rightarrow> tid \<Rightarrow> cid_kernel \<Rightarrow> cid_kernel" where
  "task_tick_mm_cid ci p k =
     (case ct_mm (ck_tasks k p) of
        None \<Rightarrow> k
      | Some m \<Rightarrow>
          if test_flag (t_flags (k_tasks (ck_kernel k) p)) (PF_EXITING OR PF_KTHREAD) \<or>
             ct_cid_work_queued (ck_tasks k p) then k
          else if time_before (k_jiffies (ck_kernel k)) (mm_cid_next_scan (ck_mms k m)) then k
          else ci_task_work_add ci p k)"

definition sched_mm_cid_exit_signals :: "cid_api \<Rightarrow> cid_env \<Rightarrow> tid \<Rightarrow> cid_kernel \<Rightarrow> cid_kernel" where
  "sched_mm_cid_exit_signals ci env p k =
     (case ct_mm (ck_tasks k p) of
        None \<Rightarrow> k
      | Some m \<Rightarrow>
          let k = upd_cid_task p (\<lambda>t. t\<lparr>ct_mm_cid_active := False\<rparr>) k;
              k = env Leave_before_put k;
              k = ci_mm_cid_put ci m k
          in upd_cid_task p (\<lambda>t. t\<lparr>ct_last_mm_cid := -1, ct_mm_cid := -1\<rparr>) k)"

definition sched_mm_cid_before_execve :: "cid_api \<Rightarrow> cid_env \<Rightarrow> tid \<Rightarrow> cid_kernel \<Rightarrow> cid_kernel" where
  "sched_mm_cid_before_execve ci env p k =
     (case ct_mm (ck_tasks k p) of
        None \<Rightarrow> k
      | Some m \<Rightarrow>
          let k = upd_cid_task p (\<lambda>t. t\<lparr>ct_mm_cid_active := False\<rparr>) k;
              k = env Leave_before_put k;
              k = ci_mm_cid_put ci m k
          in upd_cid_task p (\<lambda>t. t\<lparr>ct_last_mm_cid := -1, ct_mm_cid := -1\<rparr>) k)"

definition sched_mm_cid_after_execve :: "cid_api \<Rightarrow> cid_env \<Rightarrow> tid \<Rightarrow> cid_kernel \<Rightarrow> cid_kernel" where
  "sched_mm_cid_after_execve ci env p k =
     (case ct_mm (ck_tasks k p) of
        None \<Rightarrow> k
      | Some m \<Rightarrow>
          let k = upd_cid_task p (\<lambda>t. t\<lparr>ct_mm_cid_active := True\<rparr>) k;
              k = env Leave_before_put k;
              (cid, k) = ci_mm_cid_get ci (k_this_cpu (ck_kernel k)) m k;
              k = upd_cid_task p (\<lambda>t. t\<lparr>ct_mm_cid := cid, ct_last_mm_cid := cid\<rparr>) k
          in ci_rseq_set_notify_resume ci p k)"

definition sched_mm_cid_fork :: "tid \<Rightarrow> cid_kernel \<Rightarrow> cid_kernel" where
  "sched_mm_cid_fork p k =
     (let k = (if ct_mm (ck_tasks k p) = None \<or> ct_mm_cid (ck_tasks k p) \<noteq> -1
               then k\<lparr>ck_warned := True\<rparr> else k)
      in upd_cid_task p (\<lambda>t. t\<lparr>ct_mm_cid_active := True\<rparr>) k)"

section \<open>The callers in the scheduler\<close>

text \<open>
  \<open>set_task_cpu\<close>, \<open>activate_task\<close> and \<open>move_queued_task\<close> with the calls of this
  configuration, over the operations of the other components.
\<close>

definition on_kernel :: "(kernel \<Rightarrow> kernel) \<Rightarrow> cid_kernel \<Rightarrow> cid_kernel" where
  "on_kernel f k = k\<lparr>ck_kernel := f (ck_kernel k)\<rparr>"

definition set_task_cpu_cid :: "kapi \<Rightarrow> tid \<Rightarrow> cpu \<Rightarrow> cid_kernel \<Rightarrow> cid_kernel" where
  "set_task_cpu_cid a p new_cpu k =
     (let k = (if task_cpu (ck_kernel k) p \<noteq> new_cpu then sched_mm_cid_migrate_from p k else k)
      in on_kernel (set_task_cpu a p new_cpu) k)"

definition activate_task_cid ::
  "kapi \<Rightarrow> cid_api \<Rightarrow> cid_env \<Rightarrow> cpu \<Rightarrow> tid \<Rightarrow> u32 \<Rightarrow> cid_kernel \<Rightarrow> cid_kernel" where
  "activate_task_cid a ci env c p flags k =
     (let flags = (if task_on_rq_migrating (k_tasks (ck_kernel k) p) then flags OR ENQUEUE_MIGRATED else flags);
          k = (if test_flag flags ENQUEUE_MIGRATED then sched_mm_cid_migrate_to ci env c p k else k)
      in on_kernel (activate_task a c p flags) k)"

definition move_queued_task_cid ::
  "kapi \<Rightarrow> cid_api \<Rightarrow> cid_env \<Rightarrow> cpu \<Rightarrow> tid \<Rightarrow> cpu \<Rightarrow> cid_kernel \<Rightarrow> cid_kernel" where
  "move_queued_task_cid a ci env c p new_cpu k =
     (let k = on_kernel (deactivate_task a c p DEQUEUE_NOCLOCK) k;
          k = set_task_cpu_cid a p new_cpu k;
          k = activate_task_cid a ci env new_cpu p 0 k
      in on_kernel (wakeup_preempt a new_cpu p 0) k)"

end
