(* ===== verification/Mm_Cid_Correct.thy ===== *)
theory Mm_Cid_Correct
  imports Mm_Cid Affinity_Correct
begin

text \<open>
  Concurrency ids: no two CPUs of an address space hold the same id and the bitmap is exactly
  the ids held or in transit, whatever the other CPUs do between the steps of a remote clear,
  a migration or a scan, as long as they keep that themselves; an id in use by a running task is
  never taken away by a remote clear, so two running tasks of one address space never share an
  id; the scan runs at most once per period and is won by one of two racing tasks.
\<close>

section \<open>What the helpers of other files promise\<close>

definition cid_encoding_ok :: "cid_api \<Rightarrow> bool" where
  "cid_encoding_ok ci \<longleftrightarrow>
     (\<forall>x. ci_is_valid ci x \<longrightarrow> 0 \<le> x) \<and>
     (\<forall>x. ci_is_valid ci x \<longrightarrow> \<not> ci_is_valid ci (ci_set_lazy_put ci x)) \<and>
     (\<forall>x y. ci_is_valid ci x \<longrightarrow> ci_is_valid ci y \<longrightarrow>
        ci_set_lazy_put ci x = ci_set_lazy_put ci y \<longrightarrow> x = y) \<and>
     (\<forall>x. ci_is_valid ci x \<longrightarrow> ci_set_lazy_put ci x \<noteq> ci_UNSET ci) \<and>
     \<not> ci_is_valid ci (ci_UNSET ci) \<and> (\<forall>x. ci_is_unset ci x \<longleftrightarrow> x = ci_UNSET ci)"

lemma cid_encodingD:
  assumes "cid_encoding_ok ci"
  shows "ci_is_valid ci x \<Longrightarrow> x \<noteq> -1"
    and "ci_is_valid ci x \<Longrightarrow> \<not> ci_is_valid ci (ci_set_lazy_put ci x)"
    and "ci_is_valid ci x \<Longrightarrow> ci_is_valid ci y \<Longrightarrow>
           ci_set_lazy_put ci x = ci_set_lazy_put ci y \<longleftrightarrow> x = y"
    and "ci_is_valid ci x \<Longrightarrow> ci_set_lazy_put ci x \<noteq> ci_UNSET ci"
    and "\<not> ci_is_valid ci (ci_UNSET ci)" and "ci_is_unset ci x \<longleftrightarrow> x = ci_UNSET ci"
  using assms by (force simp: cid_encoding_ok_def)+

text \<open>\<open>__mm_cid_put\<close> clears the id's bit; the time stamp is no id.\<close>

definition cid_ops_ok :: "cid_api \<Rightarrow> bool" where
  "cid_ops_ok ci \<longleftrightarrow> cid_encoding_ok ci \<and>
     (\<forall>m x k. ci_us_mm_cid_put ci m x k = upd_mm m (\<lambda>s. s\<lparr>mm_cidmask := mm_cidmask s - {x}\<rparr>) k) \<and>
     (\<forall>c m k. \<exists>now. ci_snapshot_time ci c m k =
        upd_mm m (\<lambda>s. s\<lparr>mm_pcpu_cid := (mm_pcpu_cid s)(c := (mm_pcpu_cid s c)\<lparr>mc_time := now\<rparr>)\<rparr>) k)"

section \<open>Ownership\<close>

definition holds_cid :: "cid_api \<Rightarrow> int \<Rightarrow> int \<Rightarrow> bool" where
  "holds_cid ci v x \<longleftrightarrow> ci_is_valid ci x \<and> (v = x \<or> v = ci_set_lazy_put ci x)"

lemma holds_cid_simps:
  assumes "cid_encoding_ok ci"
  shows "\<not> holds_cid ci (ci_UNSET ci) x"
    and "ci_is_valid ci y \<Longrightarrow> holds_cid ci y x \<longleftrightarrow> x = y"
    and "ci_is_valid ci y \<Longrightarrow> holds_cid ci (ci_set_lazy_put ci y) x \<longleftrightarrow> x = y"
  unfolding holds_cid_def using cid_encodingD [OF assms] by metis+

text \<open>\<open>transit m\<close>: the ids of \<open>m\<close> that an operation has taken off a CPU and not put down yet.\<close>

definition cid_owned :: "cid_api \<Rightarrow> (mmid \<Rightarrow> int set) \<Rightarrow> cid_kernel \<Rightarrow> bool" where
  "cid_owned ci transit k \<longleftrightarrow>
     (\<forall>m c d x. holds_cid ci (pcpu_cid m c k) x \<longrightarrow> holds_cid ci (pcpu_cid m d k) x \<longrightarrow> c = d) \<and>
     (\<forall>m c x. holds_cid ci (pcpu_cid m c k) x \<longrightarrow> x \<notin> transit m) \<and>
     (\<forall>m. mm_cidmask (ck_mms k m) = {x. \<exists>c. holds_cid ci (pcpu_cid m c k) x} \<union> transit m)"

text \<open>The task that runs on CPU \<open>c\<close> uses the id \<open>x\<close> of the address space \<open>m\<close>.\<close>

definition cid_in_use :: "mmid \<Rightarrow> cpu \<Rightarrow> int \<Rightarrow> cid_kernel \<Rightarrow> bool" where
  "cid_in_use m c x k \<longleftrightarrow> mm_cid_active_on m c k \<and>
     ct_mm_cid (ck_tasks k (rq_curr (k_rqs (ck_kernel k) c))) = x \<and> x \<noteq> -1"

definition cid_use_held :: "cid_api \<Rightarrow> cid_kernel \<Rightarrow> bool" where
  "cid_use_held ci k \<longleftrightarrow> (\<forall>m c x. cid_in_use m c x k \<longrightarrow> holds_cid ci (pcpu_cid m c k) x)"

definition cid_safe :: "cid_api \<Rightarrow> (mmid \<Rightarrow> int set) \<Rightarrow> cid_kernel \<Rightarrow> bool" where
  "cid_safe ci transit k \<longleftrightarrow> cid_owned ci transit k \<and> cid_use_held ci k"

abbreviation no_transit :: "mmid \<Rightarrow> int set" where
  "no_transit \<equiv> (\<lambda>_. {})"

text \<open>
  What the other CPUs promise at every point: they keep the ownership, the id in transit
  included; a task that starts to use an id leaves the CPU with that id set and not lazy
  (\<open>mm_cid_get\<close> replaces a lazy id, and no other remote clear marks it again before this one is
  done); and an unset id of a CPU whose run queue lock is held stays unset.
\<close>

definition cid_env_ok :: "cid_api \<Rightarrow> cid_env \<Rightarrow> bool" where
  "cid_env_ok ci env \<longleftrightarrow>
     (\<forall>pt transit k. cid_safe ci transit k \<longrightarrow> cid_safe ci transit (env pt k)) \<and>
     (\<forall>pt k m c x. cid_in_use m c x (env pt k) \<longrightarrow> cid_in_use m c x k \<or> pcpu_cid m c (env pt k) = x)"

definition cid_env_locked :: "cid_api \<Rightarrow> cid_env \<Rightarrow> cpu \<Rightarrow> bool" where
  "cid_env_locked ci env c \<longleftrightarrow>
     (\<forall>pt k m. pcpu_cid m c k = ci_UNSET ci \<longrightarrow> pcpu_cid m c (env pt k) = ci_UNSET ci)"

lemma cid_env_okD:
  assumes "cid_env_ok ci env"
  shows "cid_safe ci transit k \<Longrightarrow> cid_safe ci transit (env pt k)"
    and "cid_in_use m c x (env pt k) \<Longrightarrow> \<not> cid_in_use m c x k \<Longrightarrow> pcpu_cid m c (env pt k) = x"
  using assms unfolding cid_env_ok_def by blast+

section \<open>The single writes\<close>

lemma pcpu_cid_set [simp]:
  "pcpu_cid m c (set_pcpu_cid m' c' v k) = (if m = m' \<and> c = c' then v else pcpu_cid m c k)"
  by (simp add: pcpu_cid_def set_pcpu_cid_def upd_mm_def)

lemma cid_set_frame [simp]:
  "mm_cidmask (ck_mms (set_pcpu_cid m c v k) m') = mm_cidmask (ck_mms k m')"
  "ck_tasks (set_pcpu_cid m c v k) = ck_tasks k" "ck_kernel (set_pcpu_cid m c v k) = ck_kernel k"
  "mm_cid_next_scan (ck_mms (set_pcpu_cid m c v k) m') = mm_cid_next_scan (ck_mms k m')"
  "mm_users (ck_mms (set_pcpu_cid m c v k) m') = mm_users (ck_mms k m')"
  by (simp_all add: set_pcpu_cid_def upd_mm_def)

lemma cid_task_frame [simp]:
  "pcpu_cid m c (upd_cid_task p f k) = pcpu_cid m c k" "ck_mms (upd_cid_task p f k) = ck_mms k"
  "ck_kernel (upd_cid_task p f k) = ck_kernel k"
  "ck_tasks (upd_cid_task p f k) = (ck_tasks k)(p := f (ck_tasks k p))"
  by (simp_all add: upd_cid_task_def pcpu_cid_def)

lemma cid_in_use_cong:
  assumes "ck_kernel k' = ck_kernel k"
    and "\<And>p. ct_mm (ck_tasks k' p) = ct_mm (ck_tasks k p) \<and>
             ct_mm_cid (ck_tasks k' p) = ct_mm_cid (ck_tasks k p) \<and>
             ct_mm_cid_active (ck_tasks k' p) = ct_mm_cid_active (ck_tasks k p)"
  shows "cid_in_use m c x k' \<longleftrightarrow> cid_in_use m c x k"
  using assms by (simp add: cid_in_use_def mm_cid_active_on_def Let_def)

lemma cid_in_use_set [simp]: "cid_in_use m c x (set_pcpu_cid m' c' v k) \<longleftrightarrow> cid_in_use m c x k"
  by (rule cid_in_use_cong) simp_all

lemma cid_in_use_active: "cid_in_use m c x k \<Longrightarrow> mm_cid_active_on m c k"
  by (simp add: cid_in_use_def)

text \<open>Steps that touch neither the ids, the bitmap nor what is in use.\<close>

lemma cid_safe_cong:
  assumes "\<And>m c. pcpu_cid m c k' = pcpu_cid m c k"
    and "\<And>m. mm_cidmask (ck_mms k' m) = mm_cidmask (ck_mms k m)"
    and "\<And>m c x. cid_in_use m c x k' \<longleftrightarrow> cid_in_use m c x k"
  shows "cid_safe ci transit k' \<longleftrightarrow> cid_safe ci transit k"
  unfolding cid_safe_def cid_owned_def cid_use_held_def by (simp add: assms)

lemma cid_safe_last [simp]:
  "cid_safe ci transit (upd_cid_task p (\<lambda>t. t\<lparr>ct_last_mm_cid := v\<rparr>) k) \<longleftrightarrow> cid_safe ci transit k"
  "cid_safe ci transit (upd_cid_task p (\<lambda>t. t\<lparr>ct_cid_work_queued := b\<rparr>) k) \<longleftrightarrow> cid_safe ci transit k"
  by (rule cid_safe_cong; (rule cid_in_use_cong)?; simp)+

lemma cid_safe_time [simp]:
  "cid_safe ci transit (upd_mm m (\<lambda>s. s\<lparr>mm_pcpu_cid :=
     (mm_pcpu_cid s)(c := (mm_pcpu_cid s c)\<lparr>mc_time := now\<rparr>)\<rparr>) k) \<longleftrightarrow> cid_safe ci transit k"
  "cid_safe ci transit (upd_mm m (\<lambda>s. s\<lparr>mm_cid_next_scan := w\<rparr>) k) \<longleftrightarrow> cid_safe ci transit k"
  by (rule cid_safe_cong; (rule cid_in_use_cong)?; simp add: pcpu_cid_def upd_mm_def)+

text \<open>Setting the lazy flag.\<close>

lemma cid_safe_set_lazy:
  assumes enc: "cid_encoding_ok ci" and "ci_is_valid ci x"
    and at: "pcpu_cid m c k = x" and safe: "cid_safe ci transit k"
  shows "cid_safe ci transit (set_pcpu_cid m c (ci_set_lazy_put ci x) k)"
proof -
  have "holds_cid ci (pcpu_cid m' c' (set_pcpu_cid m c (ci_set_lazy_put ci x) k)) y \<longleftrightarrow>
        holds_cid ci (pcpu_cid m' c' k) y" for m' c' y
    using at assms(2) by (simp add: holds_cid_simps [OF enc])
  with safe show ?thesis
    unfolding cid_safe_def cid_owned_def cid_use_held_def by (simp del: pcpu_cid_set)
qed

text \<open>Taking the id off a CPU on which nobody uses it: it is in transit.\<close>

lemma cid_safe_unset:
  assumes enc: "cid_encoding_ok ci" and valid: "ci_is_valid ci x"
    and at: "pcpu_cid m c k = ci_set_lazy_put ci x" and safe: "cid_safe ci no_transit k"
    and idle: "\<And>y. \<not> cid_in_use m c y k"
  shows "cid_safe ci (no_transit(m := {x})) (set_pcpu_cid m c (ci_UNSET ci) k)"
proof -
  note H = holds_cid_simps [OF enc]
  have own: "\<And>m c d x. holds_cid ci (pcpu_cid m c k) x \<Longrightarrow> holds_cid ci (pcpu_cid m d k) x \<Longrightarrow> c = d"
    and mask: "\<And>m. mm_cidmask (ck_mms k m) = {x. \<exists>c. holds_cid ci (pcpu_cid m c k) x}"
    and used: "\<And>m c x. cid_in_use m c x k \<Longrightarrow> holds_cid ci (pcpu_cid m c k) x"
    using safe by (auto simp: cid_safe_def cid_owned_def cid_use_held_def)
  have at_x: "holds_cid ci (pcpu_cid m c k) y \<longleftrightarrow> y = x" for y
    using at valid by (simp add: H)
  let ?k = "set_pcpu_cid m c (ci_UNSET ci) k"
  have held: "holds_cid ci (pcpu_cid m' d ?k) y \<longleftrightarrow> holds_cid ci (pcpu_cid m' d k) y \<and> (m', d) \<noteq> (m, c)"
    for m' d y by (auto simp: H(1))
  have "cid_owned ci (no_transit(m := {x})) ?k"
    unfolding cid_owned_def held using own at_x
    by (auto simp: mask) metis+
  moreover have "cid_use_held ci ?k"
    unfolding cid_use_held_def held using used idle by auto
  ultimately show ?thesis by (simp add: cid_safe_def)
qed

text \<open>Putting the id in transit down: back to the bitmap, or on a CPU without an id.\<close>

lemma cid_safe_put:
  assumes "cid_safe ci (no_transit(m := {x})) k"
  shows "cid_safe ci no_transit (upd_mm m (\<lambda>s. s\<lparr>mm_cidmask := mm_cidmask s - {x}\<rparr>) k)"
proof -
  let ?k = "upd_mm m (\<lambda>s. s\<lparr>mm_cidmask := mm_cidmask s - {x}\<rparr>) k"
  have p: "pcpu_cid m' c ?k = pcpu_cid m' c k" for m' c by (simp add: pcpu_cid_def upd_mm_def)
  have u: "cid_in_use m' c y ?k \<longleftrightarrow> cid_in_use m' c y k" for m' c y
    by (rule cid_in_use_cong) (simp_all add: upd_mm_def)
  have msk: "mm_cidmask (ck_mms ?k m') = mm_cidmask (ck_mms k m') - (if m' = m then {x} else {})" for m'
    by (simp add: upd_mm_def)
  show ?thesis
    using assms unfolding cid_safe_def cid_owned_def cid_use_held_def p u msk
    by (fastforce split: if_splits)
qed

lemma cid_safe_land:
  assumes enc: "cid_encoding_ok ci" and valid: "ci_is_valid ci x"
    and at: "pcpu_cid m c k = ci_UNSET ci" and safe: "cid_safe ci (no_transit(m := {x})) k"
  shows "cid_safe ci no_transit (set_pcpu_cid m c x k)"
proof -
  note H = holds_cid_simps [OF enc]
  have own: "\<And>m c d x. holds_cid ci (pcpu_cid m c k) x \<Longrightarrow> holds_cid ci (pcpu_cid m d k) x \<Longrightarrow> c = d"
    and free: "\<And>d. \<not> holds_cid ci (pcpu_cid m d k) x"
    and mask: "\<And>m'. mm_cidmask (ck_mms k m') =
                 {y. \<exists>c. holds_cid ci (pcpu_cid m' c k) y} \<union> (if m' = m then {x} else {})"
    and used: "\<And>m c x. cid_in_use m c x k \<Longrightarrow> holds_cid ci (pcpu_cid m c k) x"
    using safe by (auto simp: cid_safe_def cid_owned_def cid_use_held_def split: if_splits)
  have none: "\<not> holds_cid ci (pcpu_cid m c k) y" for y using at by (simp add: H)
  let ?k = "set_pcpu_cid m c x k"
  have held: "holds_cid ci (pcpu_cid m' d ?k) y \<longleftrightarrow>
      holds_cid ci (pcpu_cid m' d k) y \<or> (m' = m \<and> d = c \<and> y = x)" for m' d y
    using valid none by (auto simp: H)
  have "cid_owned ci no_transit ?k"
    unfolding cid_owned_def held using own free by (auto simp: mask)
  moreover have "cid_use_held ci ?k"
    unfolding cid_use_held_def held using used by auto
  ultimately show ?thesis by (simp add: cid_safe_def)
qed


section \<open>Every operation keeps the ownership\<close>

lemma cid_ops_okD:
  assumes "cid_ops_ok ci"
  shows "cid_encoding_ok ci"
    and "ci_us_mm_cid_put ci m x k = upd_mm m (\<lambda>s. s\<lparr>mm_cidmask := mm_cidmask s - {x}\<rparr>) k"
    and "cid_safe ci transit (ci_snapshot_time ci c m k) \<longleftrightarrow> cid_safe ci transit k"
    and "pcpu_cid m' c' (ci_snapshot_time ci c m k) = pcpu_cid m' c' k"
    and "mm_cidmask (ck_mms (ci_snapshot_time ci c m k) m') = mm_cidmask (ck_mms k m')"
    and "ck_kernel (ci_snapshot_time ci c m k) = ck_kernel k"
proof -
  obtain now where "ci_snapshot_time ci c m k =
      upd_mm m (\<lambda>s. s\<lparr>mm_pcpu_cid := (mm_pcpu_cid s)(c := (mm_pcpu_cid s c)\<lparr>mc_time := now\<rparr>)\<rparr>) k"
    using assms unfolding cid_ops_ok_def by blast
  then show "cid_safe ci transit (ci_snapshot_time ci c m k) \<longleftrightarrow> cid_safe ci transit k"
    and "pcpu_cid m' c' (ci_snapshot_time ci c m k) = pcpu_cid m' c' k"
    and "mm_cidmask (ck_mms (ci_snapshot_time ci c m k) m') = mm_cidmask (ck_mms k m')"
    and "ck_kernel (ci_snapshot_time ci c m k) = ck_kernel k"
    by (simp_all only: cid_safe_time) (simp_all add: pcpu_cid_def upd_mm_def)
qed (use assms in \<open>simp_all add: cid_ops_ok_def\<close>)

text \<open>
  The heart of the protocol: after the lazy flag is set and no active task is seen, nobody can
  start to use the id without replacing it, so taking it away is safe.
\<close>

lemma cid_take_away:
  assumes ops: "cid_ops_ok ci" and env: "cid_env_ok ci env" and valid: "ci_is_valid ci x"
    and safe: "cid_safe ci no_transit k" and idle: "\<not> mm_cid_active_on m c k"
    and lazy: "pcpu_cid m c (env pt k) = ci_set_lazy_put ci x"
  shows "cid_safe ci (no_transit(m := {x})) (set_pcpu_cid m c (ci_UNSET ci) (env pt k))"
proof (rule cid_safe_unset [OF cid_ops_okD(1) [OF ops] valid lazy])
  show safe': "cid_safe ci no_transit (env pt k)" using cid_env_okD(1) [OF env safe] .
  show "\<not> cid_in_use m c y (env pt k)" for y
  proof
    assume use: "cid_in_use m c y (env pt k)"
    have "pcpu_cid m c (env pt k) = y"
      using cid_env_okD(2) [OF env use] idle cid_in_use_active by blast
    moreover have "ci_is_valid ci y"
      using safe' use by (auto simp: cid_safe_def cid_use_held_def holds_cid_def)
    ultimately show False
      using lazy cid_encodingD(2) [OF cid_ops_okD(1) [OF ops] valid] by simp
  qed
qed

lemma remote_clear_safe:
  assumes ops: "cid_ops_ok ci" and env: "cid_env_ok ci env" and safe: "cid_safe ci no_transit k"
  shows "cid_safe ci no_transit (sched_mm_cid_remote_clear ci env m c k)"
proof -
  define cid where "cid = pcpu_cid m c k"
  define k1 where "k1 = env Clear_before_lazy k"
  define k2 where "k2 = env Clear_before_curr (set_pcpu_cid m c (ci_set_lazy_put ci cid) k1)"
  define k3 where "k3 = env Clear_before_unset k2"
  define k4 where "k4 = env Clear_before_put (set_pcpu_cid m c (ci_UNSET ci) k3)"
  note keep = cid_env_okD(1) [OF env]
  have eq: "sched_mm_cid_remote_clear ci env m c k =
      (if \<not> ci_is_valid ci cid then k
       else if pcpu_cid m c k1 \<noteq> cid then k1
       else if mm_cid_active_on m c k2 then k2
       else if pcpu_cid m c k3 \<noteq> ci_set_lazy_put ci cid then k3
       else ci_us_mm_cid_put ci m cid k4)"
    by (simp add: sched_mm_cid_remote_clear_def Let_def cid_def k1_def k2_def k3_def k4_def)
  have s1: "cid_safe ci no_transit k1" using keep [OF safe] by (simp add: k1_def)
  have s2: "cid_safe ci no_transit k2" if "ci_is_valid ci cid" "pcpu_cid m c k1 = cid"
    unfolding k2_def by (rule keep, rule cid_safe_set_lazy [OF cid_ops_okD(1) [OF ops] that s1])
  have s3: "cid_safe ci no_transit k3" if "cid_safe ci no_transit k2"
    using keep [OF that] by (simp add: k3_def)
  have s4: "cid_safe ci no_transit (ci_us_mm_cid_put ci m cid k4)"
    if "ci_is_valid ci cid" "cid_safe ci no_transit k2" "\<not> mm_cid_active_on m c k2"
      "pcpu_cid m c k3 = ci_set_lazy_put ci cid"
    unfolding cid_ops_okD(2) [OF ops] k4_def k3_def
    by (rule cid_safe_put, rule keep, rule cid_take_away [OF ops env that(1-3)])
      (use that(4) in \<open>simp add: k3_def\<close>)
  show ?thesis unfolding eq using safe s1 s2 s3 s4 by simp
qed

lemma remote_clear_old_safe:
  assumes "cid_ops_ok ci" "cid_env_ok ci env" "cid_safe ci no_transit k"
  shows "cid_safe ci no_transit (sched_mm_cid_remote_clear_old ci env m c k)"
  using assms remote_clear_safe [OF assms(1,2)]
  by (simp add: sched_mm_cid_remote_clear_old_def Let_def cid_env_okD(1))

lemma remote_clear_weight_safe:
  assumes "cid_ops_ok ci" "cid_env_ok ci env" "cid_safe ci no_transit k"
  shows "cid_safe ci no_transit (sched_mm_cid_remote_clear_weight ci env m c w k)"
  using assms remote_clear_safe [OF assms(1,2)]
  by (simp add: sched_mm_cid_remote_clear_weight_def Let_def cid_env_okD(1))

lemma scan_claim_safe:
  assumes env: "cid_env_ok ci env" and safe: "cid_safe ci no_transit k"
    and claim: "cid_scan_claim ci env m k = (b, k')"
  shows "cid_safe ci no_transit k'"
  using claim safe
  by (auto simp: cid_scan_claim_def Let_def cid_env_okD(1) [OF env] split: if_splits prod.splits)

lemma scan_safe:
  assumes ops: "cid_ops_ok ci" and env: "cid_env_ok ci env" and "\<And>c. cid_env_ok ci (old_env c)"
    and "\<And>c. cid_env_ok ci (weight_env c)" and safe: "cid_safe ci no_transit k"
  shows "cid_safe ci no_transit (cid_scan ci old_env env weight_env m k)"
proof -
  have "cid_safe ci no_transit
      (fold (\<lambda>c. sched_mm_cid_remote_clear_old ci (old_env c) m c) (for_each_possible_cpu k) k)"
    by (rule fold_invariant [where P = "cid_safe ci no_transit"])
      (simp_all add: safe remote_clear_old_safe [OF ops assms(3)])
  from cid_env_okD(1) [OF env this] show ?thesis
    unfolding cid_scan_def Let_def
    by (rule fold_invariant [where P = "cid_safe ci no_transit"])
      (simp add: remote_clear_weight_safe [OF ops assms(4)])
qed

lemma mm_cid_work_safe:
  assumes "cid_ops_ok ci" "cid_env_ok ci env" "\<And>c. cid_env_ok ci (old_env c)"
    and "\<And>c. cid_env_ok ci (weight_env c)" "cid_safe ci no_transit k"
  shows "cid_safe ci no_transit (task_mm_cid_work ci old_env env weight_env k)"
proof -
  define k1 where "k1 = upd_cid_task (k_current (ck_kernel k)) (\<lambda>t. t\<lparr>ct_cid_work_queued := False\<rparr>) k"
  have k1: "cid_safe ci no_transit k1" using assms(5) by (simp add: k1_def)
  have "cid_safe ci no_transit (case cid_scan_claim ci env m k1 of (claimed, k) \<Rightarrow>
      if claimed then cid_scan ci old_env env weight_env m k else k)" for m
    by (cases "cid_scan_claim ci env m k1")
      (simp add: scan_claim_safe [OF assms(2) k1] scan_safe [OF assms(1-4)])
  then show ?thesis
    using k1 unfolding task_mm_cid_work_def Let_def k1_def [symmetric]
    by (simp split: option.split)
qed

lemma fetch_cid_safe:
  assumes env: "cid_env_ok ci env" and safe: "cid_safe ci no_transit k"
    and lock: "cid_env_locked ci env d" and dst: "pcpu_cid m d k = ci_UNSET ci \<or> \<not> u"
    and fetch: "us_sched_mm_cid_migrate_from_fetch_cid ci env c p k = (x, k')"
  shows "cid_safe ci no_transit k' \<and> (x = -1 \<or> ci_is_valid ci x) \<and>
    (pcpu_cid m d k' = ci_UNSET ci \<or> \<not> u)"
  using fetch safe dst lock
  by (auto simp: us_sched_mm_cid_migrate_from_fetch_cid_def Let_def cid_env_locked_def
      cid_env_okD(1) [OF env] split: if_splits option.splits)

lemma steal_cid_safe:
  assumes ops: "cid_ops_ok ci" and env: "cid_env_ok ci env" and safe: "cid_safe ci no_transit k"
    and lock: "cid_env_locked ci env d" and dst: "pcpu_cid m d k = ci_UNSET ci \<or> \<not> u"
    and valid: "ci_is_valid ci x"
    and steal: "us_sched_mm_cid_migrate_from_try_steal_cid ci env c p m x k = (y, k')"
  shows "(if y = -1 then cid_safe ci no_transit k' else y = x \<and> cid_safe ci (no_transit(m := {x})) k') \<and>
    (pcpu_cid m d k' = ci_UNSET ci \<or> \<not> u)"
proof -
  define k1 where "k1 = env Steal_before_lazy k"
  define k2 where "k2 = env Steal_before_curr (set_pcpu_cid m c (ci_set_lazy_put ci x) k1)"
  define k3 where "k3 = env Steal_before_unset k2"
  note keep = cid_env_okD(1) [OF env] and enc = cid_ops_okD(1) [OF ops]
  note x = cid_encodingD(1) [OF enc valid]
  have eq: "us_sched_mm_cid_migrate_from_try_steal_cid ci env c p m x k =
      (if pcpu_cid m c k1 \<noteq> x then (-1, k1)
       else if mm_cid_active_on m c k2 then (-1, upd_cid_task p (\<lambda>t. t\<lparr>ct_last_mm_cid := -1\<rparr>) k2)
       else if pcpu_cid m c k3 \<noteq> ci_set_lazy_put ci x then (-1, k3)
       else (x, set_pcpu_cid m c (ci_UNSET ci) k3))"
    using x by (simp add: us_sched_mm_cid_migrate_from_try_steal_cid_def Let_def k1_def k2_def k3_def)
  have d1: "pcpu_cid m d k1 = ci_UNSET ci \<or> \<not> u"
    using dst lock by (auto simp: k1_def cid_env_locked_def)
  have d2: "pcpu_cid m d k2 = ci_UNSET ci \<or> \<not> u" if "pcpu_cid m c k1 = x"
  proof -
    have "pcpu_cid m d (set_pcpu_cid m c (ci_set_lazy_put ci x) k1) = ci_UNSET ci \<or> \<not> u"
      using d1 that valid cid_encodingD(5) [OF enc] by auto
    then show ?thesis using lock by (auto simp: k2_def cid_env_locked_def)
  qed
  have d3: "pcpu_cid m d k3 = ci_UNSET ci \<or> \<not> u" if "pcpu_cid m c k1 = x"
    using d2 [OF that] lock by (auto simp: k3_def cid_env_locked_def)
  have s1: "cid_safe ci no_transit k1" using keep [OF safe] by (simp add: k1_def)
  have s2: "cid_safe ci no_transit k2" if "pcpu_cid m c k1 = x"
    unfolding k2_def by (rule keep, rule cid_safe_set_lazy [OF enc valid that s1])
  have s3: "cid_safe ci no_transit k3" if "cid_safe ci no_transit k2"
    using keep [OF that] by (simp add: k3_def)
  have s4: "cid_safe ci (no_transit(m := {x})) (set_pcpu_cid m c (ci_UNSET ci) k3)"
    if "cid_safe ci no_transit k2" "\<not> mm_cid_active_on m c k2"
      "pcpu_cid m c k3 = ci_set_lazy_put ci x"
    using cid_take_away [OF ops env valid that(1,2), of Steal_before_unset] that(3)
    by (simp add: k3_def)
  show ?thesis
    using steal s1 s2 s3 s4 d1 d2 d3 x unfolding eq by (auto split: if_splits)
qed

lemma migrate_to_safe:
  assumes ops: "cid_ops_ok ci" and env: "cid_env_ok ci env" and lock: "cid_env_locked ci env d"
    and safe: "cid_safe ci no_transit k"
  shows "cid_safe ci no_transit (sched_mm_cid_migrate_to ci env d p k)"
proof (cases "ct_mm (ck_tasks k p)")
  case None
  with safe show ?thesis by (simp add: sched_mm_cid_migrate_to_def)
next
  case (Some m)
  define src where "src = ct_migrate_from_cpu (ck_tasks k p)"
  define u where "u = ci_is_unset ci (pcpu_cid m d k)"
  note enc = cid_ops_okD(1) [OF ops]
  obtain x k1 where fetch: "us_sched_mm_cid_migrate_from_fetch_cid ci env src p k = (x, k1)"
    by fastforce
  obtain y k2 where steal: "us_sched_mm_cid_migrate_from_try_steal_cid ci env src p m x k1 = (y, k2)"
    by fastforce
  have "pcpu_cid m d k = ci_UNSET ci \<or> \<not> u" by (simp add: u_def cid_encodingD(6) [OF enc])
  from fetch_cid_safe [OF env safe lock this fetch]
  have 1: "cid_safe ci no_transit k1" "x = -1 \<or> ci_is_valid ci x" "pcpu_cid m d k1 = ci_UNSET ci \<or> \<not> u"
    by auto
  have 2: "if y = -1 then cid_safe ci no_transit k2 else y = x \<and> cid_safe ci (no_transit(m := {x})) k2"
    "pcpu_cid m d k2 = ci_UNSET ci \<or> \<not> u" if "x \<noteq> -1"
    using steal_cid_safe [OF ops env 1(1) lock 1(3) _ steal] 1(2) that by auto
  have land: "cid_safe ci no_transit (set_pcpu_cid m d x (ci_snapshot_time ci d m (env Move_before_write k2)))"
    if "x \<noteq> -1" "y \<noteq> -1" u
  proof (rule cid_safe_land [OF enc])
    show "ci_is_valid ci x" using 1(2) that(1) by simp
    show "pcpu_cid m d (ci_snapshot_time ci d m (env Move_before_write k2)) = ci_UNSET ci"
      using 2(2) [OF that(1)] that(3) lock by (simp add: cid_ops_okD(4) [OF ops] cid_env_locked_def)
    show "cid_safe ci (no_transit(m := {x})) (ci_snapshot_time ci d m (env Move_before_write k2))"
      using 2(1) [OF that(1)] that(2) by (simp add: cid_ops_okD(3) [OF ops] cid_env_okD(1) [OF env])
  qed
  have put: "cid_safe ci no_transit (ci_us_mm_cid_put ci m x (env Move_before_write k2))"
    if "x \<noteq> -1" "y \<noteq> -1"
    unfolding cid_ops_okD(2) [OF ops]
    by (rule cid_safe_put, rule cid_env_okD(1) [OF env]) (use 2(1) [OF that(1)] that(2) in simp)
  have "sched_mm_cid_migrate_to ci env d p k =
     (if src = -1 then upd_cid_task p (\<lambda>t. t\<lparr>ct_last_mm_cid := -1\<rparr>) k
      else if \<not> u \<and> t_nr_cpus_allowed (k_tasks (ck_kernel k) p) \<le> mm_users (ck_mms k m) then k
      else if x = -1 then k1 else if y = -1 then k2
      else if \<not> u then ci_us_mm_cid_put ci m y (env Move_before_write k2)
      else set_pcpu_cid m d y (ci_snapshot_time ci d m (env Move_before_write k2)))"
    by (simp only: sched_mm_cid_migrate_to_def Some option.case Let_def src_def [symmetric]
        u_def [symmetric] fetch prod.case steal)
  then show ?thesis
    using safe 1(1) 2(1) land put by (cases "x = -1"; cases "y = -1"; cases u) auto
qed

section \<open>Running tasks never share an id\<close>

text \<open>
  The system: any CPU clears, migrates or scans at any time, and in between the others do
  what they promise (\<open>Cid_others\<close>: task switches, new address spaces, exits).
\<close>

inductive cid_step :: "cid_api \<Rightarrow> cid_kernel \<Rightarrow> cid_kernel \<Rightarrow> bool" for ci where
  Cid_others: "cid_env_ok ci env \<Longrightarrow> cid_step ci k (env pt k)"
| Cid_clear: "cid_env_ok ci env \<Longrightarrow> cid_step ci k (sched_mm_cid_remote_clear ci env m c k)"
| Cid_migrate: "cid_env_ok ci env \<Longrightarrow> cid_env_locked ci env c \<Longrightarrow>
    cid_step ci k (sched_mm_cid_migrate_to ci env c p k)"
| Cid_work: "cid_env_ok ci env \<Longrightarrow> (\<And>c. cid_env_ok ci (old_env c)) \<Longrightarrow> (\<And>c. cid_env_ok ci (weight_env c)) \<Longrightarrow>
    cid_step ci k (task_mm_cid_work ci old_env env weight_env k)"

inductive cid_path :: "cid_api \<Rightarrow> cid_kernel \<Rightarrow> cid_kernel \<Rightarrow> bool" for ci where
  Cid_stop: "cid_path ci k k"
| Cid_more: "cid_step ci k k' \<Longrightarrow> cid_path ci k' k'' \<Longrightarrow> cid_path ci k k''"

lemma cid_step_safe:
  assumes "cid_step ci k k'" "cid_ops_ok ci" "cid_safe ci no_transit k"
  shows "cid_safe ci no_transit k'"
  using assms(1)
  by cases (simp_all add: assms cid_env_okD(1) remote_clear_safe migrate_to_safe mm_cid_work_safe)

lemma cid_path_safe:
  assumes "cid_path ci k k'" "cid_ops_ok ci" "cid_safe ci no_transit k"
  shows "cid_safe ci no_transit k'"
  using assms by (induction rule: cid_path.induct) (auto dest: cid_step_safe)

lemma cid_safe_unshared:
  assumes "cid_safe ci transit k" "cid_in_use m c x k"
  shows "x \<in> mm_cidmask (ck_mms k m)" and "cid_in_use m d x k \<Longrightarrow> c = d"
  using assms unfolding cid_safe_def cid_owned_def cid_use_held_def by blast+


section \<open>A concrete address space\<close>

text \<open>
  The encoding of the kernel: a valid id is not negative, \<open>-1\<close> is unset and the lazy flag is
  the sign bit.  \<open>mm_cid_get\<close> keeps a valid id, otherwise it gives a lazy one back and takes
  the first free one.
\<close>

definition sample_put_cid :: "mmid \<Rightarrow> int \<Rightarrow> cid_kernel \<Rightarrow> cid_kernel" where
  "sample_put_cid m x = upd_mm m (\<lambda>s. s\<lparr>mm_cidmask := mm_cidmask s - {x}\<rparr>)"

definition sample_get_cid :: "cpu \<Rightarrow> mmid \<Rightarrow> cid_kernel \<Rightarrow> int \<times> cid_kernel" where
  "sample_get_cid c m k =
     (let v = pcpu_cid m c k in
      if 0 \<le> v then (v, k)
      else let k = (if v < -1 then sample_put_cid m (v + 2147483648) k else k);
               x = (if 0 \<in> mm_cidmask (ck_mms k m) then if 1 \<in> mm_cidmask (ck_mms k m) then 2 else 1 else 0)
           in (x, set_pcpu_cid m c x (upd_mm m (\<lambda>s. s\<lparr>mm_cidmask := insert x (mm_cidmask s)\<rparr>) k)))"

definition sample_cid_api :: cid_api where
  "sample_cid_api = \<lparr>ci_UNSET = -1, ci_is_unset = (\<lambda>x. x = -1),
     ci_is_valid = (\<lambda>x. 0 \<le> x \<and> x < 1000),
     ci_set_lazy_put = (\<lambda>x. x - 2147483648), ci_mm_cid_get = sample_get_cid,
     ci_mm_cid_put = (\<lambda>m k. k), ci_us_mm_cid_put = sample_put_cid,
     ci_snapshot_time = (\<lambda>c m. upd_mm m (\<lambda>s. s\<lparr>mm_pcpu_cid :=
        (mm_pcpu_cid s)(c := (mm_pcpu_cid s c)\<lparr>mc_time := 0\<rparr>)\<rparr>)),
     ci_task_work_add = (\<lambda>p. upd_cid_task p (\<lambda>t. t\<lparr>ct_cid_work_queued := True\<rparr>)),
     ci_rseq_set_notify_resume = (\<lambda>p k. k), ci_PERIOD_NS = 100000000, ci_scan_delay_jiffies = 100\<rparr>"

lemma sample_cid_api_sel [simp]:
  "ci_UNSET sample_cid_api = -1" "ci_is_unset sample_cid_api x \<longleftrightarrow> x = -1"
  "ci_is_valid sample_cid_api x \<longleftrightarrow> 0 \<le> x \<and> x < 1000"
  "ci_set_lazy_put sample_cid_api x = x - 2147483648"
  "ci_us_mm_cid_put sample_cid_api = sample_put_cid" "ci_scan_delay_jiffies sample_cid_api = 100"
  by (simp_all add: sample_cid_api_def)

lemma sample_cid_ops: "cid_ops_ok sample_cid_api"
proof -
  have "cid_encoding_ok sample_cid_api"
    by (auto simp: cid_encoding_ok_def)
  then show ?thesis
    by (auto simp: cid_ops_ok_def sample_put_cid_def) (auto simp: sample_cid_api_def)
qed

text \<open>Task 10 runs on CPU 0 with id 0; CPU 1, where nothing of the address space runs, still has id 1.\<close>

definition sample_cids :: cid_kernel where
  "sample_cids = \<lparr>
     ck_kernel = sample_kernel\<lparr>k_rqs := (\<lambda>c. (sample_rq c)\<lparr>rq_curr := if c = 0 then 10 else 1\<rparr>),
       k_current := 10, k_jiffies := 5\<rparr>,
     ck_tasks = (\<lambda>p. \<lparr>ct_mm = (if p < 4 then None else Some 5), ct_mm_cid = (if p = 10 then 0 else -1),
       ct_last_mm_cid = (if p = 11 then 1 else -1), ct_migrate_from_cpu = -1,
       ct_mm_cid_active = (4 \<le> p), ct_cid_work_queued = False\<rparr>),
     ck_mms = (\<lambda>m. \<lparr>mm_pcpu_cid = (\<lambda>c. \<lparr>mc_cid = (if m = 5 \<and> c = 0 then 0 else if m = 5 \<and> c = 1 then 1 else -1),
         mc_time = 0\<rparr>),
       mm_cidmask = (if m = 5 then {0, 1} else {}), mm_users = 2, mm_cid_next_scan = 0\<rparr>),
     ck_warned = False\<rparr>"

lemma sample_cids_pcpu [simp]:
  "pcpu_cid m c sample_cids = (if m = 5 \<and> c = 0 then 0 else if m = 5 \<and> c = 1 then 1 else -1)"
  by (simp add: pcpu_cid_def sample_cids_def)

lemma sample_cids_sel [simp]:
  "rq_curr (k_rqs (ck_kernel sample_cids) c) = (if c = 0 then 10 else 1)"
  "ct_mm (ck_tasks sample_cids p) = (if p < 4 then None else Some 5)"
  "ct_mm_cid (ck_tasks sample_cids p) = (if p = 10 then 0 else -1)"
  "ct_mm_cid_active (ck_tasks sample_cids p) \<longleftrightarrow> 4 \<le> p"
  "ct_last_mm_cid (ck_tasks sample_cids p) = (if p = 11 then 1 else -1)"
  "mm_cidmask (ck_mms sample_cids m) = (if m = 5 then {0, 1} else {})"
  by (simp_all add: sample_cids_def)

lemma sample_cids_in_use [simp]: "cid_in_use m c x sample_cids \<longleftrightarrow> m = 5 \<and> c = 0 \<and> x = 0"
  by (auto simp: cid_in_use_def mm_cid_active_on_def Let_def)

lemma sample_holds [simp]:
  "holds_cid sample_cid_api v x \<longleftrightarrow> 0 \<le> x \<and> x < 1000 \<and> (v = x \<or> v = x - 2147483648)"
  by (simp add: holds_cid_def)

lemma sample_cids_safe: "cid_safe sample_cid_api no_transit sample_cids"
  by (auto simp: cid_safe_def cid_owned_def cid_use_held_def split: if_splits)

lemma quiet_ok: "cid_env_ok ci quiet" "cid_env_locked ci quiet c"
  by (simp_all add: cid_env_ok_def cid_env_locked_def quiet_def)

lemma quiet_clear_frame:
  "ck_tasks (sched_mm_cid_remote_clear sample_cid_api quiet m c k) = ck_tasks k"
  "ck_kernel (sched_mm_cid_remote_clear sample_cid_api quiet m c k) = ck_kernel k"
  by (simp_all add: sched_mm_cid_remote_clear_def quiet_def sample_put_cid_def upd_mm_def Let_def)


section \<open>Two remote clears at once\<close>

text \<open>
  The promise of \<open>cid_env_ok\<close> that a lazy flag is not set again is needed.  Here a task is
  switched in on CPU 1 while the flag is set, gets the same number again, and a second remote
  clear, which had read the number before, sets the flag again.
\<close>

definition sample_switch_in :: "tid \<Rightarrow> cpu \<Rightarrow> cid_kernel \<Rightarrow> cid_kernel" where
  "sample_switch_in p c k =
     (let k = on_kernel (upd_rq c (\<lambda>r. r\<lparr>rq_curr := p\<rparr>)) k;
          (x, k) = ci_mm_cid_get sample_cid_api c 5 k
      in upd_cid_task p (\<lambda>t. t\<lparr>ct_mm_cid := x\<rparr>) k)"

definition second_clear_late :: cid_env where
  "second_clear_late pt k =
     (if pt = Clear_before_unset
      then let k = sample_switch_in 12 1 k
           in if pcpu_cid 5 1 k = 1 then set_pcpu_cid 5 1 (ci_set_lazy_put sample_cid_api 1) k else k
      else k)"

lemma ck_on_kernel [simp]:
  "ck_mms (on_kernel f k) = ck_mms k" "ck_tasks (on_kernel f k) = ck_tasks k"
  "ck_kernel (on_kernel f k) = f (ck_kernel k)" "pcpu_cid m c (on_kernel f k) = pcpu_cid m c k"
  by (simp_all add: on_kernel_def pcpu_cid_def)

lemma ck_upd_mm [simp]:
  "ck_mms (upd_mm m f k) = (ck_mms k)(m := f (ck_mms k m))" "ck_tasks (upd_mm m f k) = ck_tasks k"
  "ck_kernel (upd_mm m f k) = ck_kernel k"
  by (simp_all add: upd_mm_def)

lemma pcpu_upd_mask [simp]:
  "pcpu_cid m c (upd_mm m' (\<lambda>s. s\<lparr>mm_cidmask := f s\<rparr>) k) = pcpu_cid m c k"
  by (simp add: pcpu_cid_def)


section \<open>The id moves with its task\<close>

lemma migrate_to_moves:
  assumes ops: "cid_ops_ok ci" and "ct_mm (ck_tasks k p) = Some m" "ct_migrate_from_cpu (ck_tasks k p) = c"
    and "c \<noteq> -1" "c \<noteq> d" "ct_last_mm_cid (ck_tasks k p) = x" "pcpu_cid m c k = x" "ci_is_valid ci x"
    and "\<not> mm_cid_active_on m c k" "pcpu_cid m d k = ci_UNSET ci"
  shows "sched_mm_cid_migrate_to ci quiet d p k =
    set_pcpu_cid m d x (ci_snapshot_time ci d m
      (set_pcpu_cid m c (ci_UNSET ci) (set_pcpu_cid m c (ci_set_lazy_put ci x) k)))"
proof -
  note enc = cid_encodingD [OF cid_ops_okD(1) [OF ops]]
  have x: "x \<noteq> -1" using enc(1) assms(8) .
  have "us_sched_mm_cid_migrate_from_fetch_cid ci quiet c p k = (x, k)"
    using assms(2-9) x by (simp add: us_sched_mm_cid_migrate_from_fetch_cid_def quiet_def Let_def)
  moreover have "us_sched_mm_cid_migrate_from_try_steal_cid ci quiet c p m x k =
      (x, set_pcpu_cid m c (ci_UNSET ci) (set_pcpu_cid m c (ci_set_lazy_put ci x) k))"
    using assms(7,9) x
    by (simp add: us_sched_mm_cid_migrate_from_try_steal_cid_def quiet_def mm_cid_active_on_def Let_def)
  ultimately show ?thesis
    using assms(2-4,10) x by (simp add: sched_mm_cid_migrate_to_def enc(6) quiet_def Let_def)
qed

lemma mm_cid_active_on_kernel:
  assumes "\<And>c. rq_curr (k_rqs (ck_kernel k') c) = rq_curr (k_rqs (ck_kernel k) c)"
    and "\<And>q. ct_mm (ck_tasks k' q) = ct_mm (ck_tasks k q) \<and>
              ct_mm_cid_active (ck_tasks k' q) = ct_mm_cid_active (ck_tasks k q)"
  shows "mm_cid_active_on m c k' \<longleftrightarrow> mm_cid_active_on m c k"
  using assms by (simp add: mm_cid_active_on_def Let_def)

text \<open>moving a queued task whose address space no longer runs on the old CPU moves the id
  along when the new CPU has none: the new CPU has the task's last id, the old one is unset, and
  no bit of the bitmap changes.\<close>

theorem cid_follows_task:
  assumes ops: "cid_ops_ok ci" and aff: "affinity_ops a"
    and keeps_on_rq: "\<And>q b s. t_on_rq (k_tasks (ka_set_task_cpu a q b s) q) = t_on_rq (k_tasks s q)"
    and mm: "ct_mm (ck_tasks k p) = Some m" and on: "task_cpu (ck_kernel k) p = c" "c \<noteq> -1" "c \<noteq> d"
    and cid: "ct_last_mm_cid (ck_tasks k p) = x" "pcpu_cid m c k = x" "ci_is_valid ci x"
    and idle: "\<not> mm_cid_active_on m c k" and free: "pcpu_cid m d k = ci_UNSET ci"
  shows "let k' = move_queued_task_cid a ci quiet c p d k in
    pcpu_cid m d k' = x \<and> pcpu_cid m c k' = ci_UNSET ci \<and>
    mm_cidmask (ck_mms k' m) = mm_cidmask (ck_mms k m) \<and> task_cpu (ck_kernel k') p = d"
proof -
  note keep = pub.keep_ops [OF affinity_opsD(1) [OF aff]] mach.keep_ops [OF affinity_opsD(2) [OF aff]]
  define d1 where "d1 = deactivate_task a c p DEQUEUE_NOCLOCK (ck_kernel k)"
  have pd1: "public_tasks d1 = public_tasks (upd_task p (\<lambda>t. t\<lparr>t_on_rq := TASK_ON_RQ_MIGRATING\<rparr>) (ck_kernel k))"
    unfolding d1_def deactivate_task_def keep by (simp add: test_flag_def queue_flag_consts)
  have md1: "machine_part d1 = machine_part (ck_kernel k)"
    by (simp add: d1_def deactivate_task_def keep)
  have cpu1: "task_cpu d1 p = c" "t_on_rq (k_tasks d1 p) = TASK_ON_RQ_MIGRATING"
    using public_fields(2,5) [OF pd1, of p] on(1) by (simp_all add: task_cpu_def)
  define d2 where "d2 = set_task_cpu a p d d1"
  have md2: "machine_part d2 = machine_part (ck_kernel k)" and cpu2: "task_cpu d2 p = d"
    using set_task_cpu_views(1,2) [OF aff, of p d d1] by (simp_all add: d2_def md1)
  have on2: "t_on_rq (k_tasks d2 p) = TASK_ON_RQ_MIGRATING"
  proof -
    have "public_tasks (case class_migrate_task_rq a (task_class d1 p) of Some f \<Rightarrow> f p d d1 | None \<Rightarrow> d1) = public_tasks d1"
      using affinity_opsD(9) [OF aff] by (auto simp: class_migrate_task_rq_def split: option.split)
    from public_fields(5) [OF this, of p] show ?thesis
      using cpu1 by (simp add: d2_def set_task_cpu_def Let_def keeps_on_rq)
  qed
  define k2 where "k2 = set_task_cpu_cid a p d (on_kernel (deactivate_task a c p DEQUEUE_NOCLOCK) k)"
  have k2: "ck_kernel k2 = d2" "ck_mms k2 = ck_mms k"
    "ck_tasks k2 = (ck_tasks k)(p := (ck_tasks k p)\<lparr>ct_migrate_from_cpu := c\<rparr>)"
    using on(3) cpu1(1)
    by (simp_all add: k2_def set_task_cpu_cid_def sched_mm_cid_migrate_from_def Let_def d1_def [symmetric] d2_def)
  have pc: "pcpu_cid m' c' k2 = pcpu_cid m' c' k" for m' c' by (simp add: pcpu_cid_def k2)
  have act: "\<not> mm_cid_active_on m c k2"
    using idle mm_cid_active_on_kernel [of k2 k m c] machine_part_eqD(1) [OF md2] by (auto simp: k2)
  define k3 where "k3 = sched_mm_cid_migrate_to ci quiet d p k2"
  have k3: "k3 = set_pcpu_cid m d x (ci_snapshot_time ci d m
      (set_pcpu_cid m c (ci_UNSET ci) (set_pcpu_cid m c (ci_set_lazy_put ci x) k2)))"
    unfolding k3_def
    by (rule migrate_to_moves [OF ops]) (use mm on cid free act in \<open>simp_all add: k2 pc\<close>)
  have "test_flag (0 OR ENQUEUE_MIGRATED) ENQUEUE_MIGRATED"
    by (simp add: test_flag_def queue_flag_consts)
  then have "move_queued_task_cid a ci quiet c p d k =
      on_kernel (wakeup_preempt a d p 0) (on_kernel (activate_task a d p (0 OR ENQUEUE_MIGRATED)) k3)"
    using on2 by (simp only: move_queued_task_cid_def Let_def k2_def [symmetric] activate_task_cid_def k2(1)
        task_on_rq_migrating_def if_True k3_def [symmetric] simp_thms)
  moreover have "task_cpu (wakeup_preempt a d p 0 (activate_task a d p (0 OR ENQUEUE_MIGRATED) (ck_kernel k3))) p = d"
  proof -
    have "ck_kernel k3 = d2" by (simp add: k3 cid_ops_okD(6) [OF ops] k2)
    moreover have "task_cpu (wakeup_preempt a d p 0 s) p = task_cpu s p" for s
      using public_views(2) [OF keep(7)] .
    moreover have "task_cpu (activate_task a d p f s) p = task_cpu s p" for f s
      using public_fields(2) [OF keep(1)] by (simp add: activate_task_def Let_def task_cpu_def)
    ultimately show ?thesis using cpu2 by simp
  qed
  ultimately show ?thesis
    using on(3) by (simp add: Let_def k3 cid_ops_okD(4,5) [OF ops] k2(2) pc)
qed

lemma cid_follows_task_witness:
  "let k' = move_queued_task_cid sample_affinity sample_cid_api quiet 1 11 2
       (on_kernel (upd_task 11 (\<lambda>t. t\<lparr>t_ti_cpu := 1\<rparr>)) sample_cids)
   in pcpu_cid 5 2 k' = 1 \<and> pcpu_cid 5 1 k' = -1 \<and>
      mm_cidmask (ck_mms k' 5) = mm_cidmask (ck_mms sample_cids 5) \<and> task_cpu (ck_kernel k') 11 = 2"
proof -
  define k where "k = on_kernel (upd_task 11 (\<lambda>t. t\<lparr>t_ti_cpu := 1\<rparr>)) sample_cids"
  have on_rq: "t_on_rq (k_tasks (ka_set_task_cpu sample_affinity q b s) q) = t_on_rq (k_tasks s q)" for q b s
    by (simp add: sample_affinity_def sample_kapi_def)
  have "let k' = move_queued_task_cid sample_affinity sample_cid_api quiet 1 11 2 k in
    pcpu_cid 5 2 k' = 1 \<and> pcpu_cid 5 1 k' = ci_UNSET sample_cid_api \<and>
    mm_cidmask (ck_mms k' 5) = mm_cidmask (ck_mms k 5) \<and> task_cpu (ck_kernel k') 11 = 2"
    by (rule cid_follows_task [OF sample_cid_ops sample_affinity_ops on_rq])
      (simp_all add: k_def task_cpu_def mm_cid_active_on_def)
  then show ?thesis by (simp add: k_def Let_def)
qed

section \<open>The scan\<close>

text \<open>Without interference a remote clear changes only ids and bitmaps.\<close>

definition cid_scan_frame :: "cid_kernel \<Rightarrow> kernel \<times> (tid \<Rightarrow> cid_task) \<times> (mmid \<Rightarrow> u64)" where
  "cid_scan_frame k = (ck_kernel k, ck_tasks k, \<lambda>m. mm_cid_next_scan (ck_mms k m))"

lemma scan_frame_clear:
  assumes "cid_ops_ok ci"
  shows "cid_scan_frame (sched_mm_cid_remote_clear ci quiet m c k) = cid_scan_frame k"
  by (simp add: sched_mm_cid_remote_clear_def quiet_def Let_def cid_ops_okD(2) [OF assms] cid_scan_frame_def fun_eq_iff)

lemma scan_frame_scan:
  assumes ops: "cid_ops_ok ci"
  shows "cid_scan_frame (cid_scan ci (\<lambda>_. quiet) quiet (\<lambda>_. quiet) m k) = cid_scan_frame k"
proof -
  have old: "cid_scan_frame (sched_mm_cid_remote_clear_old ci quiet m c s) = cid_scan_frame s" for c s
    by (simp add: sched_mm_cid_remote_clear_old_def quiet_def [abs_def] Let_def
        scan_frame_clear [OF ops, unfolded quiet_def [abs_def]]) (simp add: cid_scan_frame_def fun_eq_iff)
  have weight: "cid_scan_frame (sched_mm_cid_remote_clear_weight ci quiet m c w s) = cid_scan_frame s" for c w s
    by (simp add: sched_mm_cid_remote_clear_weight_def quiet_def [abs_def] Let_def
        scan_frame_clear [OF ops, unfolded quiet_def [abs_def]])
  have fold: "cid_scan_frame (fold f cs s) = cid_scan_frame s"
    if "\<And>c s. cid_scan_frame (f c s) = cid_scan_frame s" for f cs s
    by (rule fold_invariant [where P = "\<lambda>t. cid_scan_frame t = cid_scan_frame s"]) (simp_all add: that)
  show ?thesis unfolding cid_scan_def Let_def by (simp add: fold old weight quiet_def)
qed

text \<open>The claim alone, when nobody interferes.\<close>

lemma scan_claim_quiet:
  "cid_scan_claim ci quiet m k =
     (let now = k_jiffies (ck_kernel k); old = mm_cid_next_scan (ck_mms k m);
          later = now + ci_scan_delay_jiffies ci;
          k' = upd_mm m (\<lambda>s. s\<lparr>mm_cid_next_scan := later\<rparr>) k in
      if old = 0 then (\<not> time_before now later, k')
      else if time_before now old then (False, k) else (True, k'))"
  by (simp add: cid_scan_claim_def quiet_def Let_def upd_mm_def)

lemma cid_work_twice:
  assumes ops: "cid_ops_ok ci" and delay: "0 < sint (ci_scan_delay_jiffies ci)"
    and nz: "k_jiffies (ck_kernel k) + ci_scan_delay_jiffies ci \<noteq> 0"
    and work_def: "work = task_mm_cid_work ci (\<lambda>_. quiet) quiet (\<lambda>_. quiet)"
  shows "ck_mms (work (work k)) = ck_mms (work k)"
proof -
  note later = time_before_later [OF delay]
  have work: "work s = (let p = k_current (ck_kernel s);
        s = upd_cid_task p (\<lambda>t. t\<lparr>ct_cid_work_queued := False\<rparr>) s in
      if test_flag (t_flags (k_tasks (ck_kernel s) p)) PF_EXITING then s
      else case ct_mm (ck_tasks s p) of None \<Rightarrow> s
      | Some m \<Rightarrow> (case cid_scan_claim ci quiet m s of (b, s) \<Rightarrow>
          if b then cid_scan ci (\<lambda>_. quiet) quiet (\<lambda>_. quiet) m s else s))" for s
    by (simp add: work_def task_mm_cid_work_def Let_def)
  define p where "p = k_current (ck_kernel k)"
  show ?thesis
  proof (cases "test_flag (t_flags (k_tasks (ck_kernel k) p)) PF_EXITING \<or> ct_mm (ck_tasks k p) = None")
    case True
    then show ?thesis by (auto simp: work p_def Let_def)
  next
    case False
    then obtain m where m: "ct_mm (ck_tasks k p) = Some m" by auto
    have idem: "ck_mms (work s) = ck_mms s"
      if "ck_kernel s = ck_kernel k" "ct_mm (ck_tasks s p) = Some m" "mm_cid_next_scan (ck_mms s m) \<noteq> 0"
        "time_before (k_jiffies (ck_kernel k)) (mm_cid_next_scan (ck_mms s m))" for s
      using that False by (simp add: work p_def [symmetric] scan_claim_quiet Let_def)
    define k1 where "k1 = upd_cid_task p (\<lambda>t. t\<lparr>ct_cid_work_queued := False\<rparr>) k"
    obtain b k2 where claim: "cid_scan_claim ci quiet m k1 = (b, k2)" by fastforce
    have k2: "ck_kernel k2 = ck_kernel k" "ct_mm (ck_tasks k2 p) = Some m"
      "mm_cid_next_scan (ck_mms k2 m) \<noteq> 0"
      "time_before (k_jiffies (ck_kernel k)) (mm_cid_next_scan (ck_mms k2 m))"
      using claim m nz later [of "k_jiffies (ck_kernel k)"]
      by (auto simp: scan_claim_quiet k1_def Let_def upd_mm_def split: if_splits)
    define k3 where "k3 = (if b then cid_scan ci (\<lambda>_. quiet) quiet (\<lambda>_. quiet) m k2 else k2)"
    have "cid_scan_frame k3 = cid_scan_frame k2"
      by (simp add: k3_def scan_frame_scan [OF ops])
    then have "ck_kernel k3 = ck_kernel k2" "ck_tasks k3 = ck_tasks k2"
      "mm_cid_next_scan (ck_mms k3 m) = mm_cid_next_scan (ck_mms k2 m)"
      by (auto simp: cid_scan_frame_def dest: fun_cong)
    then have "ck_mms (work k3) = ck_mms k3" using k2 by (intro idem) simp_all
    moreover have "work k = k3"
      using False m by (simp add: work p_def [symmetric] Let_def claim [unfolded k1_def] k3_def)
    ultimately show ?thesis by simp
  qed
qed

text \<open>the scan is rate limited: a second run of the work in the same period changes no id
  and no bitmap, and of two tasks that race for a due scan exactly one gets it.\<close>

theorem cid_scan_once:
  assumes ops: "cid_ops_ok ci" and delay: "0 < sint (ci_scan_delay_jiffies ci)"
    and nz: "k_jiffies (ck_kernel k) + ci_scan_delay_jiffies ci \<noteq> 0"
  shows "let work = task_mm_cid_work ci (\<lambda>_. quiet) quiet (\<lambda>_. quiet);
             other = (\<lambda>pt s. if pt = Scan_before_claim then snd (cid_scan_claim ci quiet m s) else s)
         in ck_mms (work (work k)) = ck_mms (work k) \<and>
            (fst (cid_scan_claim ci quiet m k) \<longrightarrow> \<not> fst (cid_scan_claim ci other m k))"
proof -
  note later = time_before_later [OF delay]
  have "\<not> fst (cid_scan_claim ci
      (\<lambda>pt s. if pt = Scan_before_claim then snd (cid_scan_claim ci quiet m s) else s) m k)"
    if "fst (cid_scan_claim ci quiet m k)"
    using that later [of "k_jiffies (ck_kernel k)"]
    by (auto simp: cid_scan_claim_def quiet_def Let_def upd_mm_def split: if_splits)
  then show ?thesis using cid_work_twice [OF ops delay nz refl] by (simp add: Let_def)
qed

lemma cid_scan_once_witness:
  "let work = task_mm_cid_work sample_cid_api (\<lambda>_. quiet) quiet (\<lambda>_. quiet)
   in ck_mms (work (work sample_cids)) = ck_mms (work sample_cids)"
proof -
  have j: "k_jiffies (ck_kernel sample_cids) = 5" by (simp add: sample_cids_def)
  show ?thesis
    using cid_scan_once [OF sample_cid_ops, of sample_cids 5] by (simp add: j Let_def)
qed

end
