(* ===== verification/Rq_Lock.thy ===== *)
theory Rq_Lock
  imports Affinity
begin

text \<open>
  Taking run queue locks (\<open>core.c\<close>).  Which lock guards a run queue changes with core
  scheduling, and which run queue a task is on changes with migration, so the code locks
  first and checks afterwards.  A call takes the other CPUs as an argument: \<open>env n\<close> is what
  they do while this CPU waits for its \<open>n\<close>-th lock (or goes round a waiting loop); a call that
  never gets through is \<open>None\<close>.  The operations of the other theories run with the locks held
  and do not mention them.
\<close>

section \<open>Locks held\<close>

text \<open>A raw spin lock: the \<open>__lock\<close> of a run queue, or the \<open>pi_lock\<close> of a task.\<close>

datatype raw_spinlock = Rq_lock cpu | Pi_lock tid

text \<open>
  The view of one CPU: the kernel, the locks it holds (the latest first), the preemption
  count (every raw spin lock counts one), and the number of waits so far.
\<close>

record lock_state =
  ls_kernel :: kernel
  ls_held :: "raw_spinlock list"
  ls_preempt :: int
  ls_waits :: nat

text \<open>
  \<open>__rq_lockp\<close>, \<open>rq_order_less\<close> and \<open>double_rq_clock_clear_update\<close> are inline functions of
  \<open>kernel/sched/sched.h\<close>, which is not in the repository; \<open>la_trylock\<close> tells whether the
  architecture's trylock gets the lock.
\<close>

record lock_api =
  la_rq_lockp :: "kernel \<Rightarrow> cpu \<Rightarrow> raw_spinlock"
  la_rq_order_less :: "kernel \<Rightarrow> cpu \<Rightarrow> cpu \<Rightarrow> bool"
  la_double_rq_clock_clear_update :: "cpu \<Rightarrow> cpu \<Rightarrow> kernel \<Rightarrow> kernel"
  la_trylock :: "raw_spinlock \<Rightarrow> lock_state \<Rightarrow> bool"

type_synonym lock_env = "nat \<Rightarrow> kernel \<Rightarrow> kernel"

text \<open>One wait: time passes for the others.\<close>

definition cpu_relax :: "lock_env \<Rightarrow> lock_state \<Rightarrow> lock_state" where
  "cpu_relax env s = s\<lparr>ls_kernel := env (ls_waits s) (ls_kernel s), ls_waits := ls_waits s + 1\<rparr>"

definition preempt_disable :: "lock_state \<Rightarrow> lock_state" where
  "preempt_disable s = s\<lparr>ls_preempt := ls_preempt s + 1\<rparr>"

definition preempt_enable :: "lock_state \<Rightarrow> lock_state" where
  "preempt_enable s = s\<lparr>ls_preempt := ls_preempt s - 1\<rparr>"

definition raw_spin_lock :: "lock_env \<Rightarrow> raw_spinlock \<Rightarrow> lock_state \<Rightarrow> lock_state" where
  "raw_spin_lock env l s =
     (let s = cpu_relax env s in s\<lparr>ls_held := l # ls_held s, ls_preempt := ls_preempt s + 1\<rparr>)"

definition raw_spin_unlock :: "raw_spinlock \<Rightarrow> lock_state \<Rightarrow> lock_state" where
  "raw_spin_unlock l s = s\<lparr>ls_held := remove1 l (ls_held s), ls_preempt := ls_preempt s - 1\<rparr>"

definition raw_spin_trylock :: "lock_api \<Rightarrow> lock_env \<Rightarrow> raw_spinlock \<Rightarrow> lock_state \<Rightarrow> bool \<times> lock_state" where
  "raw_spin_trylock la env l s =
     (let s = cpu_relax env s in
      if la_trylock la l s
      then (True, s\<lparr>ls_held := l # ls_held s, ls_preempt := ls_preempt s + 1\<rparr>) else (False, s))"

section \<open>One run queue\<close>

partial_function (option) rq_lock_loop ::
  "lock_api \<Rightarrow> lock_env \<Rightarrow> cpu \<Rightarrow> lock_state \<Rightarrow> lock_state option" where
  "rq_lock_loop la env rq s =
     (let lock = la_rq_lockp la (ls_kernel s) rq;
          s = raw_spin_lock env lock s
      in if lock = la_rq_lockp la (ls_kernel s) rq then Some (preempt_enable s)
         else rq_lock_loop la env rq (raw_spin_unlock lock s))"

definition raw_spin_rq_lock_nested ::
  "lock_api \<Rightarrow> lock_env \<Rightarrow> cpu \<Rightarrow> lock_state \<Rightarrow> lock_state option" where
  "raw_spin_rq_lock_nested la env rq s =
     (let s = preempt_disable s in
      if \<not> k_sched_core_enabled (ls_kernel s)
      then Some (preempt_enable (raw_spin_lock env (Rq_lock rq) s))
      else rq_lock_loop la env rq s)"

partial_function (option) rq_trylock_loop ::
  "lock_api \<Rightarrow> lock_env \<Rightarrow> cpu \<Rightarrow> lock_state \<Rightarrow> (bool \<times> lock_state) option" where
  "rq_trylock_loop la env rq s =
     (let lock = la_rq_lockp la (ls_kernel s) rq in
      case raw_spin_trylock la env lock s of (ret, s) \<Rightarrow>
        if \<not> ret \<or> lock = la_rq_lockp la (ls_kernel s) rq then Some (ret, preempt_enable s)
        else rq_trylock_loop la env rq (raw_spin_unlock lock s))"

definition raw_spin_rq_trylock ::
  "lock_api \<Rightarrow> lock_env \<Rightarrow> cpu \<Rightarrow> lock_state \<Rightarrow> (bool \<times> lock_state) option" where
  "raw_spin_rq_trylock la env rq s =
     (let s = preempt_disable s in
      if \<not> k_sched_core_enabled (ls_kernel s)
      then (case raw_spin_trylock la env (Rq_lock rq) s of (ret, s) \<Rightarrow> Some (ret, preempt_enable s))
      else rq_trylock_loop la env rq s)"

definition raw_spin_rq_unlock :: "lock_api \<Rightarrow> cpu \<Rightarrow> lock_state \<Rightarrow> lock_state" where
  "raw_spin_rq_unlock la rq s = raw_spin_unlock (la_rq_lockp la (ls_kernel s) rq) s"

section \<open>Two run queues\<close>

definition double_rq_lock ::
  "lock_api \<Rightarrow> lock_env \<Rightarrow> cpu \<Rightarrow> cpu \<Rightarrow> lock_state \<Rightarrow> lock_state option" where
  "double_rq_lock la env rq1 rq2 s =
     (let (rq1, rq2) = (if la_rq_order_less la (ls_kernel s) rq2 rq1 then (rq2, rq1) else (rq1, rq2)) in
      case raw_spin_rq_lock_nested la env rq1 s of
        None \<Rightarrow> None
      | Some s \<Rightarrow>
          (case (if la_rq_lockp la (ls_kernel s) rq1 \<noteq> la_rq_lockp la (ls_kernel s) rq2
                 then raw_spin_rq_lock_nested la env rq2 s else Some s) of
             None \<Rightarrow> None
           | Some s \<Rightarrow> Some (s\<lparr>ls_kernel :=
               la_double_rq_clock_clear_update la rq1 rq2 (ls_kernel s)\<rparr>)))"

section \<open>The run queue of a task\<close>

text \<open>\<open>while (task_on_rq_migrating(p)) cpu_relax();\<close>\<close>

partial_function (option) wait_not_migrating :: "lock_env \<Rightarrow> tid \<Rightarrow> lock_state \<Rightarrow> lock_state option" where
  "wait_not_migrating env p s =
     (if task_on_rq_migrating (k_tasks (ls_kernel s) p)
      then wait_not_migrating env p (cpu_relax env s) else Some s)"

partial_function (option) us_task_rq_lock ::
  "lock_api \<Rightarrow> lock_env \<Rightarrow> tid \<Rightarrow> lock_state \<Rightarrow> (cpu \<times> lock_state) option" where
  "us_task_rq_lock la env p s =
     (let rq = task_cpu (ls_kernel s) p in
      case raw_spin_rq_lock_nested la env rq s of
        None \<Rightarrow> None
      | Some s \<Rightarrow>
          if rq = task_cpu (ls_kernel s) p \<and> \<not> task_on_rq_migrating (k_tasks (ls_kernel s) p)
          then Some (rq, s)
          else (case wait_not_migrating env p (raw_spin_rq_unlock la rq s) of
                  None \<Rightarrow> None
                | Some s \<Rightarrow> us_task_rq_lock la env p s))"

partial_function (option) task_rq_lock ::
  "lock_api \<Rightarrow> lock_env \<Rightarrow> tid \<Rightarrow> lock_state \<Rightarrow> (cpu \<times> lock_state) option" where
  "task_rq_lock la env p s =
     (let s = raw_spin_lock env (Pi_lock p) s;
          rq = task_cpu (ls_kernel s) p in
      case raw_spin_rq_lock_nested la env rq s of
        None \<Rightarrow> None
      | Some s \<Rightarrow>
          if rq = task_cpu (ls_kernel s) p \<and> \<not> task_on_rq_migrating (k_tasks (ls_kernel s) p)
          then Some (rq, s)
          else (case wait_not_migrating env p
                       (raw_spin_unlock (Pi_lock p) (raw_spin_rq_unlock la rq s)) of
                  None \<Rightarrow> None
                | Some s \<Rightarrow> task_rq_lock la env p s))"

end
