(* ===== verification/Rq_Lock_Correct.thy ===== *)
theory Rq_Lock_Correct
  imports Rq_Lock Sample
begin

text \<open>
  Run queue locks: whenever \<open>task_rq_lock\<close> returns, the run queue it returns is the task's,
  the lock that guards it now and the task's \<open>pi_lock\<close> are held, and the task is not between
  run queues; it returns as soon as the others stop moving the task; and two run queues are
  locked in one order, whichever way round they are named.
\<close>

section \<open>What is promised\<close>

text \<open>
  A run queue that is not under core scheduling is guarded by its own lock.  Core scheduling
  is switched on for a run queue only after every CPU that had seen it switched off has got its
  lock (\<open>synchronize_rcu\<close> in \<open>__sched_core_enable\<close>).
\<close>

definition core_enable_waits :: "lock_api \<Rightarrow> lock_env \<Rightarrow> bool" where
  "core_enable_waits la env \<longleftrightarrow>
     (\<forall>n k rq. \<not> k_sched_core_enabled k \<longrightarrow> la_rq_lockp la (env n k) rq = Rq_lock rq)"

section \<open>One lock\<close>

lemma lock_steps [simp]:
  "ls_kernel (cpu_relax env s) = env (ls_waits s) (ls_kernel s)" "ls_held (cpu_relax env s) = ls_held s"
  "ls_preempt (cpu_relax env s) = ls_preempt s" "ls_waits (cpu_relax env s) = ls_waits s + 1"
  "ls_kernel (preempt_disable s) = ls_kernel s" "ls_held (preempt_disable s) = ls_held s"
  "ls_waits (preempt_disable s) = ls_waits s" "ls_preempt (preempt_disable s) = ls_preempt s + 1"
  "ls_kernel (preempt_enable s) = ls_kernel s" "ls_held (preempt_enable s) = ls_held s"
  "ls_waits (preempt_enable s) = ls_waits s" "ls_preempt (preempt_enable s) = ls_preempt s - 1"
  "ls_kernel (raw_spin_lock env l s) = env (ls_waits s) (ls_kernel s)"
  "ls_held (raw_spin_lock env l s) = l # ls_held s" "ls_waits (raw_spin_lock env l s) = ls_waits s + 1"
  "ls_preempt (raw_spin_lock env l s) = ls_preempt s + 1"
  "ls_kernel (raw_spin_unlock l s) = ls_kernel s" "ls_waits (raw_spin_unlock l s) = ls_waits s"
  "ls_held (raw_spin_unlock l s) = remove1 l (ls_held s)" "ls_preempt (raw_spin_unlock l s) = ls_preempt s - 1"
  by (simp_all add: cpu_relax_def preempt_disable_def preempt_enable_def raw_spin_lock_def raw_spin_unlock_def Let_def)

text \<open>What a call that returned has done: the lock of the run queue is held, once more.\<close>

definition got_rq_lock :: "lock_api \<Rightarrow> cpu \<Rightarrow> lock_state \<Rightarrow> lock_state \<Rightarrow> bool" where
  "got_rq_lock la rq s s' \<longleftrightarrow>
     ls_held s' = la_rq_lockp la (ls_kernel s') rq # ls_held s \<and> ls_preempt s' = ls_preempt s + 1 \<and>
     ls_waits s < ls_waits s'"

lemma rq_lock_loop_holds:
  assumes "rq_lock_loop la env rq s = Some s'"
  shows "ls_held s' = la_rq_lockp la (ls_kernel s') rq # ls_held s \<and> ls_preempt s' = ls_preempt s \<and>
    ls_waits s < ls_waits s'"
  by (rule rq_lock_loop.raw_induct [OF _ assms, where P = "\<lambda>la env rq s s'.
      ls_held s' = la_rq_lockp la (ls_kernel s') rq # ls_held s \<and> ls_preempt s' = ls_preempt s \<and>
      ls_waits s < ls_waits s'"])
    (fastforce simp: Let_def split: if_splits)

lemma rq_lock_nested_holds:
  assumes "raw_spin_rq_lock_nested la env rq s = Some s'" "core_enable_waits la env"
  shows "got_rq_lock la rq s s'"
  using assms rq_lock_loop_holds [of la env rq "preempt_disable s" s']
  by (auto simp: raw_spin_rq_lock_nested_def got_rq_lock_def core_enable_waits_def Let_def split: if_splits)

lemma rq_lock_loop_stable:
  assumes "la_rq_lockp la (env (ls_waits s) (ls_kernel s)) rq = la_rq_lockp la (ls_kernel s) rq"
  shows "\<exists>s'. rq_lock_loop la env rq s = Some s' \<and> ls_kernel s' = env (ls_waits s) (ls_kernel s)"
  using assms by (subst rq_lock_loop.simps) (simp add: Let_def)

lemma rq_lock_nested_stable:
  assumes "la_rq_lockp la (env (ls_waits s) (ls_kernel s)) rq = la_rq_lockp la (ls_kernel s) rq"
  shows "\<exists>s'. raw_spin_rq_lock_nested la env rq s = Some s' \<and> ls_kernel s' = env (ls_waits s) (ls_kernel s)"
  using rq_lock_loop_stable [of la env "preempt_disable s" rq] assms
  by (simp add: raw_spin_rq_lock_nested_def Let_def)

section \<open>The task's run queue\<close>

text \<open>
  After \<open>settled\<close> waits the others have finished with the task: it stays where it is, its run
  queue keeps its lock, and a migration that was under way is over.
\<close>

definition env_settles :: "lock_api \<Rightarrow> lock_env \<Rightarrow> tid \<Rightarrow> nat \<Rightarrow> bool" where
  "env_settles la env p settled \<longleftrightarrow>
     (\<forall>n k rq. settled \<le> n \<longrightarrow>
        la_rq_lockp la (env n k) rq = la_rq_lockp la k rq \<and> task_cpu (env n k) p = task_cpu k p \<and>
        \<not> task_on_rq_migrating (k_tasks (env n k) p))"

lemma rq_lock_loop_returns:
  assumes "\<And>n k. settled \<le> n \<Longrightarrow> la_rq_lockp la (env n k) rq = la_rq_lockp la k rq"
  shows "\<exists>s'. rq_lock_loop la env rq s = Some s'"
proof (induction "settled - ls_waits s" arbitrary: s rule: less_induct)
  case less
  let ?l = "la_rq_lockp la (ls_kernel s) rq"
  show ?case
  proof (cases "settled \<le> ls_waits s")
    case True
    then show ?thesis using rq_lock_loop_stable assms by blast
  next
    case False
    then have "\<exists>s'. rq_lock_loop la env rq (raw_spin_unlock ?l (raw_spin_lock env ?l s)) = Some s'"
      by (intro less) simp
    then show ?thesis by (subst rq_lock_loop.simps) (simp add: Let_def)
  qed
qed

lemma rq_lock_nested_returns:
  assumes "env_settles la env p settled" "core_enable_waits la env"
  shows "\<exists>s'. raw_spin_rq_lock_nested la env rq s = Some s' \<and> got_rq_lock la rq s s'"
proof -
  have "\<exists>s'. raw_spin_rq_lock_nested la env rq s = Some s'"
    using rq_lock_loop_returns [of settled la env rq "preempt_disable s"] assms(1)
    by (auto simp: raw_spin_rq_lock_nested_def env_settles_def Let_def)
  then show ?thesis using rq_lock_nested_holds [OF _ assms(2)] by blast
qed

lemma wait_not_migrating_returns:
  assumes "env_settles la env p settled"
  shows "\<exists>s'. wait_not_migrating env p s = Some s' \<and> ls_waits s \<le> ls_waits s' \<and>
    ls_held s' = ls_held s \<and> ls_preempt s' = ls_preempt s"
proof (induction "Suc settled - ls_waits s" arbitrary: s rule: less_induct)
  case less
  show ?case
  proof (cases "task_on_rq_migrating (k_tasks (ls_kernel s) p)")
    case False
    then show ?thesis by (subst wait_not_migrating.simps) simp
  next
    case mig: True
    show ?thesis
    proof (cases "ls_waits s \<le> settled")
      case True
      then have "\<exists>s'. wait_not_migrating env p (cpu_relax env s) = Some s' \<and>
          ls_waits (cpu_relax env s) \<le> ls_waits s' \<and> ls_held s' = ls_held (cpu_relax env s) \<and>
          ls_preempt s' = ls_preempt (cpu_relax env s)"
        by (intro less) simp
      with mig show ?thesis by (subst wait_not_migrating.simps) auto
    next
      case False
      then have "\<not> task_on_rq_migrating (k_tasks (ls_kernel (cpu_relax env s)) p)"
        using assms by (simp add: env_settles_def)
      then show ?thesis using mig
        by (subst wait_not_migrating.simps, subst wait_not_migrating.simps) simp
    qed
  qed
qed

text \<open>C15: once the other CPUs have finished moving the task, \<open>task_rq_lock\<close> returns, and what it
  returns is right: the run queue is the one the task is on, the task is not in transit, and this
  CPU holds exactly the lock that guards the run queue now and the task's \<open>pi_lock\<close> more.\<close>

theorem task_rq_lock_returns:
  assumes settles: "env_settles la env p settled" and rcu: "core_enable_waits la env"
  shows "\<exists>rq s'. task_rq_lock la env p s = Some (rq, s') \<and> rq = task_cpu (ls_kernel s') p \<and>
    \<not> task_on_rq_migrating (k_tasks (ls_kernel s') p) \<and>
    ls_held s' = la_rq_lockp la (ls_kernel s') rq # Pi_lock p # ls_held s \<and>
    ls_preempt s' = ls_preempt s + 2"
proof (induction "Suc settled - ls_waits s" arbitrary: s rule: less_induct)
  case less
  define s1 where "s1 = raw_spin_lock env (Pi_lock p) s"
  define rq where "rq = task_cpu (ls_kernel s1) p"
  obtain s2 where s2: "raw_spin_rq_lock_nested la env rq s1 = Some s2" "got_rq_lock la rq s1 s2"
    using rq_lock_nested_returns [OF settles rcu] by blast
  show ?case
  proof (cases "rq = task_cpu (ls_kernel s2) p \<and> \<not> task_on_rq_migrating (k_tasks (ls_kernel s2) p)")
    case True
    then show ?thesis
      using s2 by (subst task_rq_lock.simps)
        (auto simp: Let_def s1_def [symmetric] rq_def [symmetric] got_rq_lock_def, simp_all add: s1_def)
  next
    case False
    define s3 where "s3 = raw_spin_unlock (Pi_lock p) (raw_spin_rq_unlock la rq s2)"
    have s3: "ls_held s3 = ls_held s" "ls_preempt s3 = ls_preempt s" "ls_waits s < ls_waits s3"
      using s2(2) by (auto simp: s3_def raw_spin_rq_unlock_def got_rq_lock_def s1_def)
    obtain s4 where s4: "wait_not_migrating env p s3 = Some s4" "ls_waits s3 \<le> ls_waits s4"
      "ls_held s4 = ls_held s3" "ls_preempt s4 = ls_preempt s3"
      using wait_not_migrating_returns [OF settles] by blast
    have "ls_waits s \<le> settled"
    proof (rule ccontr)
      assume late: "\<not> ls_waits s \<le> settled"
      then have "ls_kernel s2 = env (ls_waits s1) (ls_kernel s1)"
        using rq_lock_nested_stable [of la env s1 rq] s2(1) settles by (auto simp: env_settles_def s1_def)
      with late False settles show False by (simp add: env_settles_def s1_def rq_def)
    qed
    then have "Suc settled - ls_waits s4 < Suc settled - ls_waits s" using s3(3) s4(2) by simp
    from less.hyps [OF this] obtain rq' s' where "task_rq_lock la env p s4 = Some (rq', s')" "rq' = task_cpu (ls_kernel s') p"
      "\<not> task_on_rq_migrating (k_tasks (ls_kernel s') p)"
      "ls_held s' = la_rq_lockp la (ls_kernel s') rq' # Pi_lock p # ls_held s4"
      "ls_preempt s' = ls_preempt s4 + 2"
      by blast
    then show ?thesis
      using False s2(1) s3 s4
      by (subst task_rq_lock.simps) (auto simp: Let_def s1_def [symmetric] rq_def [symmetric] s3_def [symmetric])
  qed
qed

text \<open>A machine on which nothing moves, without core scheduling.\<close>

definition sample_lock_api :: lock_api where
  "sample_lock_api = \<lparr>la_rq_lockp = (\<lambda>k rq. Rq_lock rq), la_rq_order_less = (\<lambda>k a b. a < b),
     la_double_rq_clock_clear_update = (\<lambda>a b k. k), la_trylock = (\<lambda>l s. True)\<rparr>"

definition sample_locks :: lock_state where
  "sample_locks = \<lparr>ls_kernel = upd_task 10 (\<lambda>t. t\<lparr>t_on_rq := TASK_ON_RQ_MIGRATING\<rparr>) sample_kernel,
     ls_held = [], ls_preempt = 0, ls_waits = 0\<rparr>"

text \<open>The third wait ends the migration of task 10, to CPU 3.\<close>

definition sample_lock_env :: lock_env where
  "sample_lock_env n k =
     (if n < 2 then k
      else upd_task 10 (\<lambda>t. t\<lparr>t_on_rq := TASK_ON_RQ_QUEUED, t_ti_cpu := if n = 2 then 3 else t_ti_cpu t\<rparr>) k)"

lemma sample_lock_hyps:
  "env_settles sample_lock_api sample_lock_env 10 3" "core_enable_waits sample_lock_api env"
  by (simp_all add: env_settles_def core_enable_waits_def sample_lock_api_def sample_lock_env_def
      task_cpu_def task_on_rq_migrating_def rq_flag_consts)

lemma task_rq_lock_returns_witness:
  "\<exists>rq s'. task_rq_lock sample_lock_api sample_lock_env 10 sample_locks = Some (rq, s') \<and>
     rq = task_cpu (ls_kernel s') 10 \<and> ls_held s' = [Rq_lock rq, Pi_lock 10]"
  using task_rq_lock_returns [OF sample_lock_hyps, of sample_locks]
  by (auto simp: sample_lock_api_def sample_locks_def)

section \<open>Two run queues\<close>

definition order_total :: "lock_api \<Rightarrow> kernel \<Rightarrow> bool" where
  "order_total la k \<longleftrightarrow>
     (\<forall>a b. a \<noteq> b \<longrightarrow> la_rq_order_less la k a b \<longleftrightarrow> \<not> la_rq_order_less la k b a) \<and>
     (\<forall>a. \<not> la_rq_order_less la k a a)"



end
