(* ===== verification/Preempt_Debug.thy ===== *)
theory Preempt_Debug
  imports Resched Task_State Jiffies
begin

text \<open>
  Debugging aids for preemption (\<open>core.c\<close>): the checked preemption count, the reports of
  sleeping in a context that must not sleep, with their rate limits, and the preemption
  notifiers of a task.  A message that the code prints is an entry of \<open>at_reports\<close>, latest first.
\<close>

section \<open>The context of one CPU\<close>

datatype preempt_trace = Preempt_off u64 | Preempt_on u64

text \<open>Each report with the values it prints.\<close>

datatype report =
  Scheduling_while_atomic tid u32
| Preemption_disabled_at u64
| Sleeping_in_invalid_context bool bool int tid u32 u32
| Rcu_nest_depth u32 u32
| Assuming_atomic_context bool bool tid
| Assuming_non_migratable_context bool bool nat tid
| Blocking_when_not_running u32
| Stack_overrun
| Taint_warn

text \<open>
  \<open>at_rcu_depth\<close> is \<open>rcu_preempt_depth()\<close>, the fields from \<open>at_task_state_change\<close> on are read
  from \<open>current\<close> and from global flags; the three \<open>prev\<close> fields and \<open>at_blocking_warned\<close> (of a
  \<open>WARN_ONCE\<close>) are static variables of the checks.
\<close>

record atomic_ctx =
  at_preempt_count :: u32
  at_preempt_disable_ip :: u64
  at_trace :: "preempt_trace list"
  at_debug_warned :: bool
  at_reports :: "report list"
  at_prev_might_resched :: u64
  at_prev_cant_sleep :: u64
  at_prev_cant_migrate :: u64
  at_blocking_warned :: bool
  at_irqs_disabled :: bool
  at_rcu_depth :: u32
  at_task_state_change :: bool
  at_non_block_count :: int
  at_stack_corrupted :: bool
  at_system_state :: nat
  at_oops_in_progress :: bool

text \<open>Values of \<open>linux/preempt.h\<close> and \<open>linux/kernel.h\<close>.\<close>

definition PREEMPT_MASK :: u32 where "PREEMPT_MASK = 0xff"
definition SYSTEM_BOOTING :: nat where "SYSTEM_BOOTING = 0"
definition SYSTEM_RUNNING :: nat where "SYSTEM_RUNNING = 3"

definition MIGHT_RESCHED_RCU_SHIFT :: nat where "MIGHT_RESCHED_RCU_SHIFT = 8"
definition MIGHT_RESCHED_PREEMPT_MASK :: u32 where
  "MIGHT_RESCHED_PREEMPT_MASK = push_bit MIGHT_RESCHED_RCU_SHIFT 1 - 1"

definition preempt_count :: "atomic_ctx \<Rightarrow> int" where
  "preempt_count c = sint (at_preempt_count c)"

definition print_report :: "report \<Rightarrow> atomic_ctx \<Rightarrow> atomic_ctx" where
  "print_report r c = c\<lparr>at_reports := r # at_reports c\<rparr>"

section \<open>The preemption count\<close>

text \<open>\<open>ip\<close> is the caller's address, \<open>get_lock_parent_ip()\<close>.\<close>

definition preempt_latency_start :: "u32 \<Rightarrow> u64 \<Rightarrow> atomic_ctx \<Rightarrow> atomic_ctx" where
  "preempt_latency_start val ip c =
     (if at_preempt_count c = val
      then c\<lparr>at_preempt_disable_ip := ip, at_trace := Preempt_off ip # at_trace c\<rparr> else c)"

definition preempt_count_add :: "u32 \<Rightarrow> u64 \<Rightarrow> atomic_ctx \<Rightarrow> atomic_ctx" where
  "preempt_count_add val ip c =
     (if preempt_count c < 0 then c\<lparr>at_debug_warned := True\<rparr>
      else let c = c\<lparr>at_preempt_count := at_preempt_count c + val\<rparr>;
               c = (if PREEMPT_MASK - 10 \<le> at_preempt_count c AND PREEMPT_MASK
                    then c\<lparr>at_debug_warned := True\<rparr> else c)
           in preempt_latency_start val ip c)"

definition preempt_latency_stop :: "u32 \<Rightarrow> u64 \<Rightarrow> atomic_ctx \<Rightarrow> atomic_ctx" where
  "preempt_latency_stop val ip c =
     (if at_preempt_count c = val then c\<lparr>at_trace := Preempt_on ip # at_trace c\<rparr> else c)"

definition preempt_count_sub :: "u32 \<Rightarrow> u64 \<Rightarrow> atomic_ctx \<Rightarrow> atomic_ctx" where
  "preempt_count_sub val ip c =
     (if preempt_count c < sint val then c\<lparr>at_debug_warned := True\<rparr>
      else if val < PREEMPT_MASK \<and> at_preempt_count c AND PREEMPT_MASK = 0
      then c\<lparr>at_debug_warned := True\<rparr>
      else let c = preempt_latency_stop val ip c
           in c\<lparr>at_preempt_count := at_preempt_count c - val\<rparr>)"

definition get_preempt_disable_ip :: "atomic_ctx \<Rightarrow> u64" where
  "get_preempt_disable_ip c = at_preempt_disable_ip c"

section \<open>Sanity checks\<close>

definition us_schedule_bug :: "tid \<Rightarrow> atomic_ctx \<Rightarrow> atomic_ctx" where
  "us_schedule_bug prev c =
     (let ip = get_preempt_disable_ip c in
      if at_oops_in_progress c then c
      else let c = print_report (Scheduling_while_atomic prev (at_preempt_count c)) c;
               c = print_report (Preemption_disabled_at ip) c
           in print_report Taint_warn c)"

text \<open>\<open>IS_ENABLED(CONFIG_DEBUG_PREEMPT)\<close> holds.\<close>

definition print_preempt_disable_ip :: "u32 \<Rightarrow> u64 \<Rightarrow> atomic_ctx \<Rightarrow> atomic_ctx" where
  "print_preempt_disable_ip preempt_offset ip c =
     (if at_preempt_count c = preempt_offset then c else print_report (Preemption_disabled_at ip) c)"

definition resched_offsets_ok :: "u32 \<Rightarrow> atomic_ctx \<Rightarrow> bool" where
  "resched_offsets_ok offsets c \<longleftrightarrow>
     at_preempt_count c + push_bit MIGHT_RESCHED_RCU_SHIFT (at_rcu_depth c) = offsets"

text \<open>
  The rate limit: no report when less than \<open>HZ\<close> jiffies have passed since the last one
  (\<open>prev = 0\<close>: there was none).
\<close>

definition jiffy_limited :: "kernel \<Rightarrow> u64 \<Rightarrow> bool" where
  "jiffy_limited k prev \<longleftrightarrow> time_before (k_jiffies k) (prev + k_HZ k) \<and> prev \<noteq> 0"

definition might_resched_fine :: "kernel \<Rightarrow> u32 \<Rightarrow> atomic_ctx \<Rightarrow> bool" where
  "might_resched_fine k offsets c \<longleftrightarrow>
     (resched_offsets_ok offsets c \<and> \<not> at_irqs_disabled c \<and>
      \<not> is_idle_task (k_tasks k (k_current k)) \<and> at_non_block_count c = 0) \<or>
     at_system_state c = SYSTEM_BOOTING \<or> SYSTEM_RUNNING < at_system_state c \<or> at_oops_in_progress c"

definition us_might_resched :: "kernel \<Rightarrow> u32 \<Rightarrow> atomic_ctx \<Rightarrow> atomic_ctx" where
  "us_might_resched k offsets c =
     (if might_resched_fine k offsets c then c
      else if jiffy_limited k (at_prev_might_resched c) then c
      else let c = c\<lparr>at_prev_might_resched := k_jiffies k\<rparr>;
               ip = get_preempt_disable_ip c;
               in_atomic = at_preempt_count c \<noteq> 0;
               c = print_report (Sleeping_in_invalid_context in_atomic (at_irqs_disabled c)
                     (at_non_block_count c) (k_current k) (at_preempt_count c)
                     (offsets AND MIGHT_RESCHED_PREEMPT_MASK)) c;
               c = print_report (Rcu_nest_depth (at_rcu_depth c)
                     (drop_bit MIGHT_RESCHED_RCU_SHIFT offsets)) c;
               c = (if at_stack_corrupted c then print_report Stack_overrun c else c);
               c = print_preempt_disable_ip (offsets AND MIGHT_RESCHED_PREEMPT_MASK) ip c
           in print_report Taint_warn c)"

definition us_might_sleep :: "kernel \<Rightarrow> atomic_ctx \<Rightarrow> atomic_ctx" where
  "us_might_sleep k c =
     (let state = t_state (k_tasks k (k_current k));
          c = (if state \<noteq> TASK_RUNNING \<and> at_task_state_change c \<and> \<not> at_blocking_warned c
               then print_report (Blocking_when_not_running state) (c\<lparr>at_blocking_warned := True\<rparr>) else c)
      in us_might_resched k 0 c)"

text \<open>\<open>IS_ENABLED(CONFIG_PREEMPT_COUNT)\<close> holds.\<close>

definition us_cant_sleep :: "kernel \<Rightarrow> int \<Rightarrow> atomic_ctx \<Rightarrow> atomic_ctx" where
  "us_cant_sleep k preempt_offset c =
     (if at_irqs_disabled c then c
      else if preempt_offset < preempt_count c then c
      else if jiffy_limited k (at_prev_cant_sleep c) then c
      else let c = c\<lparr>at_prev_cant_sleep := k_jiffies k\<rparr>;
               c = print_report (Assuming_atomic_context (at_preempt_count c \<noteq> 0)
                     (at_irqs_disabled c) (k_current k)) c
           in print_report Taint_warn c)"

definition us_cant_migrate :: "kernel \<Rightarrow> atomic_ctx \<Rightarrow> atomic_ctx" where
  "us_cant_migrate k c =
     (if at_irqs_disabled c then c
      else if t_migration_disabled (k_tasks k (k_current k)) \<noteq> 0 then c
      else if 0 < preempt_count c then c
      else if jiffy_limited k (at_prev_cant_migrate c) then c
      else let c = c\<lparr>at_prev_cant_migrate := k_jiffies k\<rparr>;
               c = print_report (Assuming_non_migratable_context (at_preempt_count c \<noteq> 0)
                     (at_irqs_disabled c) (t_migration_disabled (k_tasks k (k_current k)))
                     (k_current k)) c
           in print_report Taint_warn c)"

section \<open>Preemption notifiers\<close>

text \<open>
  \<open>pn_key\<close> is the static key's count; a task's list is in hlist order.  The callbacks
  \<open>sched_in\<close> and \<open>sched_out\<close> of the notifiers are parameters.
\<close>

type_synonym notifier = nat

record preempt_notifiers =
  pn_key :: int
  pn_list :: "tid \<Rightarrow> notifier list"
  pn_warned :: bool

definition preempt_notifier_inc :: "preempt_notifiers \<Rightarrow> preempt_notifiers" where
  "preempt_notifier_inc s = s\<lparr>pn_key := pn_key s + 1\<rparr>"

definition preempt_notifier_dec :: "preempt_notifiers \<Rightarrow> preempt_notifiers" where
  "preempt_notifier_dec s = s\<lparr>pn_key := pn_key s - 1\<rparr>"

definition preempt_notifier_register :: "tid \<Rightarrow> notifier \<Rightarrow> preempt_notifiers \<Rightarrow> preempt_notifiers" where
  "preempt_notifier_register p n s =
     (let s = (if pn_key s > 0 then s else s\<lparr>pn_warned := True\<rparr>)
      in s\<lparr>pn_list := (pn_list s)(p := n # pn_list s p)\<rparr>)"

text \<open>\<open>p\<close> is the task whose list the notifier is on.\<close>

definition preempt_notifier_unregister :: "tid \<Rightarrow> notifier \<Rightarrow> preempt_notifiers \<Rightarrow> preempt_notifiers" where
  "preempt_notifier_unregister p n s = s\<lparr>pn_list := (pn_list s)(p := remove1 n (pn_list s p))\<rparr>"

definition us_fire_sched_in_preempt_notifiers ::
  "(notifier \<Rightarrow> cpu \<Rightarrow> 'w \<Rightarrow> 'w) \<Rightarrow> preempt_notifiers \<Rightarrow> tid \<Rightarrow> cpu \<Rightarrow> 'w \<Rightarrow> 'w" where
  "us_fire_sched_in_preempt_notifiers sched_in s p this_cpu w =
     fold (\<lambda>n. sched_in n this_cpu) (pn_list s p) w"

definition fire_sched_in_preempt_notifiers ::
  "(notifier \<Rightarrow> cpu \<Rightarrow> 'w \<Rightarrow> 'w) \<Rightarrow> preempt_notifiers \<Rightarrow> tid \<Rightarrow> cpu \<Rightarrow> 'w \<Rightarrow> 'w" where
  "fire_sched_in_preempt_notifiers sched_in s p this_cpu w =
     (if pn_key s > 0 then us_fire_sched_in_preempt_notifiers sched_in s p this_cpu w else w)"

definition us_fire_sched_out_preempt_notifiers ::
  "(notifier \<Rightarrow> tid \<Rightarrow> 'w \<Rightarrow> 'w) \<Rightarrow> preempt_notifiers \<Rightarrow> tid \<Rightarrow> tid \<Rightarrow> 'w \<Rightarrow> 'w" where
  "us_fire_sched_out_preempt_notifiers sched_out s p next_task w =
     fold (\<lambda>n. sched_out n next_task) (pn_list s p) w"

definition fire_sched_out_preempt_notifiers ::
  "(notifier \<Rightarrow> tid \<Rightarrow> 'w \<Rightarrow> 'w) \<Rightarrow> preempt_notifiers \<Rightarrow> tid \<Rightarrow> tid \<Rightarrow> 'w \<Rightarrow> 'w" where
  "fire_sched_out_preempt_notifiers sched_out s p next_task w =
     (if pn_key s > 0 then us_fire_sched_out_preempt_notifiers sched_out s p next_task w else w)"

end
