(* ===== verification/Preempt_Debug_Correct.thy ===== *)
theory Preempt_Debug_Correct
  imports Preempt_Debug Sample
begin

text \<open>
  The preemption count goes back to where it was and its on and off traces pair up; reports
  of sleeping in the wrong context appear exactly when they should, at most once per second.
\<close>

section \<open>The count\<close>

lemma preempt_count_add_ok:
  assumes "0 \<le> preempt_count c"
  shows "at_preempt_count (preempt_count_add val ip c) = at_preempt_count c + val"
    and "at_trace (preempt_count_add val ip c) =
      (if at_preempt_count c = 0 then Preempt_off ip # at_trace c else at_trace c)"
  using assms by (auto simp: preempt_count_add_def preempt_latency_start_def Let_def)

text \<open>with a count that is not about to overflow, \<open>preempt_count_add\<close> and
  \<open>preempt_count_sub\<close> of the same amount restore the count, and they trace that preemption went
  off and on again exactly when it was on before.\<close>

theorem preempt_count_roundtrip:
  assumes count: "0 \<le> preempt_count c" and val: "0 < sint val" and fits: "preempt_count c + sint val < 2 ^ 31"
    and spin: "val < PREEMPT_MASK \<longrightarrow> (at_preempt_count c + val) AND PREEMPT_MASK \<noteq> 0"
  shows "let c' = preempt_count_sub val ip' (preempt_count_add val ip c) in
    at_preempt_count c' = at_preempt_count c \<and>
    at_trace c' = (if at_preempt_count c = 0 then Preempt_on ip' # Preempt_off ip # at_trace c else at_trace c)"
proof -
  define c1 where "c1 = preempt_count_add val ip c"
  note c1 = preempt_count_add_ok [OF count, of val ip, folded c1_def]
  have "sint (at_preempt_count c + val) = preempt_count c + sint val"
    using count val fits unfolding preempt_count_def
    by (simp add: sint_word_ariths signed_take_bit_int_eq_self)
  then have "\<not> preempt_count c1 < sint val" using count by (simp add: preempt_count_def c1(1))
  then show ?thesis
    using c1 spin by (auto simp: preempt_count_sub_def preempt_latency_stop_def Let_def c1_def [symmetric])
qed

definition sample_atomic :: atomic_ctx where
  "sample_atomic = \<lparr>at_preempt_count = 0, at_preempt_disable_ip = 0, at_trace = [], at_debug_warned = False,
     at_reports = [], at_prev_might_resched = 0, at_prev_cant_sleep = 0, at_prev_cant_migrate = 0,
     at_blocking_warned = False, at_irqs_disabled = False, at_rcu_depth = 0, at_task_state_change = False,
     at_non_block_count = 0, at_stack_corrupted = False, at_system_state = SYSTEM_RUNNING,
     at_oops_in_progress = False\<rparr>"

lemma preempt_count_roundtrip_witness:
  "at_trace (preempt_count_sub 1 77 (preempt_count_add 1 66 sample_atomic)) = [Preempt_on 77, Preempt_off 66]"
  using preempt_count_roundtrip [of sample_atomic 1 77 66]
  by (simp add: sample_atomic_def preempt_count_def PREEMPT_MASK_def Let_def)

section \<open>Reports\<close>

definition sleeping_report :: "kernel \<Rightarrow> u32 \<Rightarrow> atomic_ctx \<Rightarrow> report" where
  "sleeping_report k offsets c = Sleeping_in_invalid_context (at_preempt_count c \<noteq> 0)
     (at_irqs_disabled c) (at_non_block_count c) (k_current k) (at_preempt_count c)
     (offsets AND MIGHT_RESCHED_PREEMPT_MASK)"

text \<open>\<open>__might_resched\<close> says nothing in a context that may sleep, while booting, shutting down
  or oopsing; otherwise it reports exactly when no report was made within the last \<open>HZ\<close> jiffies, and
  a second violation in that time is not reported.\<close>

theorem might_resched_reports_once:
  assumes hz: "0 < sint (k_HZ k)" and later: "k_jiffies k \<noteq> 0"
  shows "if might_resched_fine k offsets c \<or> jiffy_limited k (at_prev_might_resched c)
    then us_might_resched k offsets c = c
    else (\<exists>rs. at_reports (us_might_resched k offsets c) = rs @ at_reports c \<and>
            {Taint_warn, sleeping_report k offsets c} \<subseteq> set rs) \<and>
         us_might_resched k offsets (us_might_resched k offsets c) = us_might_resched k offsets c"
proof (cases "might_resched_fine k offsets c \<or> jiffy_limited k (at_prev_might_resched c)")
  case True
  then show ?thesis by (auto simp: us_might_resched_def)
next
  case False
  define c' where "c' = us_might_resched k offsets c"
  have prev: "at_prev_might_resched c' = k_jiffies k"
    using False by (auto simp: c'_def us_might_resched_def print_report_def print_preempt_disable_ip_def Let_def)
  have "jiffy_limited k (at_prev_might_resched c')"
    using later time_before_later [OF hz] by (simp add: prev jiffy_limited_def)
  then have "us_might_resched k offsets c' = c'" by (simp add: us_might_resched_def)
  moreover have "\<exists>rs. at_reports c' = rs @ at_reports c \<and>
      {Taint_warn, sleeping_report k offsets c} \<subseteq> set rs"
  proof -
    have "\<exists>more. at_reports c' = Taint_warn # more @ sleeping_report k offsets c # at_reports c"
      using False
      by (auto simp: c'_def us_might_resched_def print_report_def print_preempt_disable_ip_def Let_def
          sleeping_report_def)
    then obtain more where "at_reports c' = (Taint_warn # more @ [sleeping_report k offsets c]) @ at_reports c"
      by auto
    then show ?thesis by (intro exI [of _ "Taint_warn # more @ [sleeping_report k offsets c]"]) auto
  qed
  ultimately show ?thesis using False by (simp add: c'_def)
qed

lemma might_resched_reports_once_witness:
  "us_might_resched (sample_kernel\<lparr>k_jiffies := 5, k_current := 10\<rparr>) 0 (sample_atomic\<lparr>at_irqs_disabled := True\<rparr>) \<noteq>
     sample_atomic\<lparr>at_irqs_disabled := True\<rparr>"
proof -
  define k where "k = sample_kernel\<lparr>k_jiffies := 5, k_current := 10\<rparr>"
  define c where "c = sample_atomic\<lparr>at_irqs_disabled := True\<rparr>"
  have "\<not> (might_resched_fine k 0 c \<or> jiffy_limited k (at_prev_might_resched c))"
    by (simp add: might_resched_fine_def jiffy_limited_def c_def sample_atomic_def SYSTEM_BOOTING_def SYSTEM_RUNNING_def)
  moreover have "0 < sint (k_HZ k)" "k_jiffies k \<noteq> 0" by (simp_all add: k_def)
  ultimately have "\<exists>rs. at_reports (us_might_resched k 0 c) = rs @ at_reports c \<and> Taint_warn \<in> set rs"
    using might_resched_reports_once [of k 0 c] by auto
  then have "us_might_resched k 0 c \<noteq> c" by auto
  then show ?thesis by (simp add: k_def c_def)
qed

section \<open>Notifiers\<close>

lemma notifier_register_unregister:
  assumes "0 < pn_key s"
  shows "preempt_notifier_unregister p n (preempt_notifier_register p n s) = s"
  using assms by (simp add: preempt_notifier_unregister_def preempt_notifier_register_def Let_def)

text \<open>the notifiers of a task are called latest registration first, each once, at every switch
  in and out, and only while the notifiers are enabled.\<close>

theorem notifiers_fire_in_order:
  assumes "pn_list s p = []"
  shows "fire_sched_in_preempt_notifiers (\<lambda>n c w. w @ [(n, c)])
      (fold (preempt_notifier_register p) ns s) p this_cpu w =
      (if 0 < pn_key s then w @ map (\<lambda>n. (n, this_cpu)) (rev ns) else w) \<and>
    fire_sched_out_preempt_notifiers (\<lambda>n q w. w @ [(n, q)])
      (fold (preempt_notifier_register p) ns s) p next_task w' =
      (if 0 < pn_key s then w' @ map (\<lambda>n. (n, next_task)) (rev ns) else w')"
proof -
  have reg: "pn_key (fold (preempt_notifier_register p) ns s) = pn_key s \<and>
      pn_list (fold (preempt_notifier_register p) ns s) p = rev ns @ pn_list s p" for s
    by (induction ns arbitrary: s) (simp_all add: preempt_notifier_register_def Let_def)
  have log: "fold (\<lambda>n w. w @ [(n, x)]) ms w = w @ map (\<lambda>n. (n, x)) ms" for ms w and x :: 'x
    by (induction ms arbitrary: w) simp_all
  show ?thesis
    using assms
    by (simp add: fire_sched_in_preempt_notifiers_def us_fire_sched_in_preempt_notifiers_def
        fire_sched_out_preempt_notifiers_def us_fire_sched_out_preempt_notifiers_def reg log)
qed

lemma notifiers_fire_in_order_witness:
  "fire_sched_in_preempt_notifiers (\<lambda>n c w. w @ [(n, c)])
     (fold (preempt_notifier_register 10) [1, 2] \<lparr>pn_key = 1, pn_list = \<lambda>_. [], pn_warned = False\<rparr>) 10 3 [] =
   [(2, 3), (1, 3)]"
  using notifiers_fire_in_order [of "\<lparr>pn_key = 1, pn_list = \<lambda>_. [], pn_warned = False\<rparr>" 10 "[1, 2]" 3 "[]" 0 "[]"]
  by simp

end
