(* ===== verification/Lock_Break.thy ===== *)
theory Lock_Break
  imports Schedule Dynamic_Preempt Preempt_Debug Sample_Kapi
begin

text \<open>
  Rescheduling in the middle of a locked section (\<open>core.c\<close>): \<open>__cond_resched_lock\<close> and its
  variants for read-write locks, over \<open>_cond_resched\<close> (\<open>sched.h\<close>), whose static call the
  preemption model chooses.
\<close>

section \<open>Locks held by this CPU\<close>

datatype sleepless_lock = Spin_lock nat | Read_lock nat | Write_lock nat

text \<open>\<open>lb_log\<close> records, latest first, what was held whenever \<open>schedule\<close> was entered.\<close>

record lock_break_state =
  lb_kernel :: kernel
  lb_held :: "sleepless_lock list"
  lb_log :: "sleepless_lock list list"

text \<open>
  What is decided elsewhere: \<open>should_resched(offset)\<close> of the architecture, the \<open>needbreak\<close>
  tests of \<open>linux/spinlock.h\<close>, the hook of live patching, and what the other CPUs do while this
  one waits for the lock again.
\<close>

record lock_break_api =
  lb_should_resched :: "u32 \<Rightarrow> kernel \<Rightarrow> bool"
  lb_needbreak :: "sleepless_lock \<Rightarrow> kernel \<Rightarrow> bool"
  lb_klp_sched_try_switch :: "kernel \<Rightarrow> kernel"
  lb_lock_wait :: "kernel \<Rightarrow> kernel"

definition PREEMPT_LOCK_OFFSET :: u32 where "PREEMPT_LOCK_OFFSET = 1"

definition cond_resched_here ::
  "kapi \<Rightarrow> lock_break_api \<Rightarrow> (nat \<Rightarrow> kernel \<Rightarrow> kernel) \<Rightarrow> lock_break_state \<Rightarrow>
   (int \<times> lock_break_state) option" where
  "cond_resched_here a la env s =
     (let resched = lb_should_resched la 0 (lb_kernel s);
          s = (if resched then s\<lparr>lb_log := lb_held s # lb_log s\<rparr> else s)
      in map_option (\<lambda>(ret, k). (ret, s\<lparr>lb_kernel := k\<rparr>)) (us_cond_resched a env resched (lb_kernel s)))"

definition klp_cond_resched ::
  "kapi \<Rightarrow> lock_break_api \<Rightarrow> (nat \<Rightarrow> kernel \<Rightarrow> kernel) \<Rightarrow> lock_break_state \<Rightarrow>
   (int \<times> lock_break_state) option" where
  "klp_cond_resched a la env s =
     cond_resched_here a la env (s\<lparr>lb_kernel := lb_klp_sched_try_switch la (lb_kernel s)\<rparr>)"

definition u_cond_resched ::
  "kapi \<Rightarrow> lock_break_api \<Rightarrow> (nat \<Rightarrow> kernel \<Rightarrow> kernel) \<Rightarrow> preempt_dynamic \<Rightarrow> lock_break_state \<Rightarrow>
   (int \<times> lock_break_state) option" where
  "u_cond_resched a la env d s =
     (case pd_cond_resched d of
        Dynamic_enabled \<Rightarrow> cond_resched_here a la env s
      | Dynamic_disabled \<Rightarrow> Some (0, s)
      | Klp_cond_resched \<Rightarrow> klp_cond_resched a la env s)"

section \<open>Breaking a lock\<close>

definition break_unlock :: "sleepless_lock \<Rightarrow> lock_break_state \<Rightarrow> lock_break_state" where
  "break_unlock l s = s\<lparr>lb_held := remove1 l (lb_held s)\<rparr>"

definition break_lock :: "lock_break_api \<Rightarrow> sleepless_lock \<Rightarrow> lock_break_state \<Rightarrow> lock_break_state" where
  "break_lock la l s = s\<lparr>lb_kernel := lb_lock_wait la (lb_kernel s), lb_held := l # lb_held s\<rparr>"

definition us_cond_resched_lock ::
  "kapi \<Rightarrow> lock_break_api \<Rightarrow> (nat \<Rightarrow> kernel \<Rightarrow> kernel) \<Rightarrow> preempt_dynamic \<Rightarrow> nat \<Rightarrow> lock_break_state \<Rightarrow>
   (int \<times> lock_break_state) option" where
  "us_cond_resched_lock a la env d l s =
     (let resched = lb_should_resched la PREEMPT_LOCK_OFFSET (lb_kernel s) in
      if lb_needbreak la (Spin_lock l) (lb_kernel s) \<or> resched
      then (case u_cond_resched a la env d (break_unlock (Spin_lock l) s) of
              None \<Rightarrow> None
            | Some (_, s) \<Rightarrow> Some (1, break_lock la (Spin_lock l) s))
      else Some (0, s))"

definition us_cond_resched_rwlock_read ::
  "kapi \<Rightarrow> lock_break_api \<Rightarrow> (nat \<Rightarrow> kernel \<Rightarrow> kernel) \<Rightarrow> preempt_dynamic \<Rightarrow> nat \<Rightarrow> lock_break_state \<Rightarrow>
   (int \<times> lock_break_state) option" where
  "us_cond_resched_rwlock_read a la env d l s =
     (let resched = lb_should_resched la PREEMPT_LOCK_OFFSET (lb_kernel s) in
      if lb_needbreak la (Read_lock l) (lb_kernel s) \<or> resched
      then (case u_cond_resched a la env d (break_unlock (Read_lock l) s) of
              None \<Rightarrow> None
            | Some (_, s) \<Rightarrow> Some (1, break_lock la (Read_lock l) s))
      else Some (0, s))"

definition us_cond_resched_rwlock_write ::
  "kapi \<Rightarrow> lock_break_api \<Rightarrow> (nat \<Rightarrow> kernel \<Rightarrow> kernel) \<Rightarrow> preempt_dynamic \<Rightarrow> nat \<Rightarrow> lock_break_state \<Rightarrow>
   (int \<times> lock_break_state) option" where
  "us_cond_resched_rwlock_write a la env d l s =
     (let resched = lb_should_resched la PREEMPT_LOCK_OFFSET (lb_kernel s) in
      if lb_needbreak la (Write_lock l) (lb_kernel s) \<or> resched
      then (case u_cond_resched a la env d (break_unlock (Write_lock l) s) of
              None \<Rightarrow> None
            | Some (_, s) \<Rightarrow> Some (1, break_lock la (Write_lock l) s))
      else Some (0, s))"

section \<open>The checked entry points\<close>

text \<open>The macros of \<open>sched.h\<close> first check that the context may sleep.\<close>

definition PREEMPT_LOCK_RESCHED_OFFSETS :: u32 where
  "PREEMPT_LOCK_RESCHED_OFFSETS = PREEMPT_LOCK_OFFSET"

definition cond_resched ::
  "kapi \<Rightarrow> lock_break_api \<Rightarrow> (nat \<Rightarrow> kernel \<Rightarrow> kernel) \<Rightarrow> preempt_dynamic \<Rightarrow>
   atomic_ctx \<times> lock_break_state \<Rightarrow> (int \<times> atomic_ctx \<times> lock_break_state) option" where
  "cond_resched a la env d cs =
     (let (c, s) = cs; c = us_might_resched (lb_kernel s) 0 c
      in map_option (\<lambda>(ret, s). (ret, c, s)) (u_cond_resched a la env d s))"

definition cond_resched_lock ::
  "kapi \<Rightarrow> lock_break_api \<Rightarrow> (nat \<Rightarrow> kernel \<Rightarrow> kernel) \<Rightarrow> preempt_dynamic \<Rightarrow> nat \<Rightarrow>
   atomic_ctx \<times> lock_break_state \<Rightarrow> (int \<times> atomic_ctx \<times> lock_break_state) option" where
  "cond_resched_lock a la env d l cs =
     (let (c, s) = cs; c = us_might_resched (lb_kernel s) PREEMPT_LOCK_RESCHED_OFFSETS c
      in map_option (\<lambda>(ret, s). (ret, c, s)) (us_cond_resched_lock a la env d l s))"

definition cond_resched_rwlock_read ::
  "kapi \<Rightarrow> lock_break_api \<Rightarrow> (nat \<Rightarrow> kernel \<Rightarrow> kernel) \<Rightarrow> preempt_dynamic \<Rightarrow> nat \<Rightarrow>
   atomic_ctx \<times> lock_break_state \<Rightarrow> (int \<times> atomic_ctx \<times> lock_break_state) option" where
  "cond_resched_rwlock_read a la env d l cs =
     (let (c, s) = cs; c = us_might_resched (lb_kernel s) PREEMPT_LOCK_RESCHED_OFFSETS c
      in map_option (\<lambda>(ret, s). (ret, c, s)) (us_cond_resched_rwlock_read a la env d l s))"

definition cond_resched_rwlock_write ::
  "kapi \<Rightarrow> lock_break_api \<Rightarrow> (nat \<Rightarrow> kernel \<Rightarrow> kernel) \<Rightarrow> preempt_dynamic \<Rightarrow> nat \<Rightarrow>
   atomic_ctx \<times> lock_break_state \<Rightarrow> (int \<times> atomic_ctx \<times> lock_break_state) option" where
  "cond_resched_rwlock_write a la env d l cs =
     (let (c, s) = cs; c = us_might_resched (lb_kernel s) PREEMPT_LOCK_RESCHED_OFFSETS c
      in map_option (\<lambda>(ret, s). (ret, c, s)) (us_cond_resched_rwlock_write a la env d l s))"

section \<open>What holds afterwards\<close>

text \<open>Only the kernel and the log change while the lock is dropped.\<close>

lemma u_cond_resched_held:
  assumes "u_cond_resched a la env d s = Some (ret, s')"
  shows "lb_held s' = lb_held s \<and> (lb_log s' = lb_log s \<or> lb_log s' = lb_held s # lb_log s)"
  using assms
  by (auto simp: u_cond_resched_def klp_cond_resched_def cond_resched_here_def Let_def split: call_target.splits if_splits)

text \<open>whichever way a reschedule is needed, \<open>__cond_resched_lock\<close> returns with the lock held
  again exactly when it took place, the other locks untouched; the lock is never held while
  another task runs; and without a need nothing happens.\<close>

theorem cond_resched_lock_rebalances:
  assumes "us_cond_resched_lock a la env d l s = Some (ret, s')" "Spin_lock l \<in> set (lb_held s)"
    and "distinct (lb_held s)"
  shows "set (lb_held s') = set (lb_held s) \<and> distinct (lb_held s') \<and>
    (if lb_needbreak la (Spin_lock l) (lb_kernel s) \<or> lb_should_resched la PREEMPT_LOCK_OFFSET (lb_kernel s)
     then ret = 1 else ret = 0 \<and> s' = s) \<and>
    (lb_log s' = lb_log s \<or> (\<exists>held. lb_log s' = held # lb_log s \<and> Spin_lock l \<notin> set held))"
proof (cases "lb_needbreak la (Spin_lock l) (lb_kernel s) \<or> lb_should_resched la PREEMPT_LOCK_OFFSET (lb_kernel s)")
  case True
  with assms(1) obtain r s2 where s2: "u_cond_resched a la env d (break_unlock (Spin_lock l) s) = Some (r, s2)"
    and s': "s' = break_lock la (Spin_lock l) s2" "ret = 1"
    by (auto simp: us_cond_resched_lock_def Let_def split: option.splits)
  show ?thesis
    using u_cond_resched_held [OF s2] s' True assms(2,3)
    by (auto simp: break_lock_def break_unlock_def set_remove1_eq)
next
  case False
  then show ?thesis using assms by (simp add: us_cond_resched_lock_def Let_def)
qed

lemma cond_resched_lock_rebalances_witness:
  "\<exists>s'. us_cond_resched_lock sample_kapi
       \<lparr>lb_should_resched = (\<lambda>f k. False), lb_needbreak = (\<lambda>l k. True),
        lb_klp_sched_try_switch = (\<lambda>k. k), lb_lock_wait = (\<lambda>k. k)\<rparr> (\<lambda>n k. k) preempt_dynamic_boot 1
       \<lparr>lb_kernel = sample_kernel, lb_held = [Read_lock 2, Spin_lock 1], lb_log = []\<rparr> = Some (1, s') \<and>
     set (lb_held s') = {Read_lock 2, Spin_lock 1}"
proof -
  define la where "la = \<lparr>lb_should_resched = (\<lambda>(f::u32) (k::kernel). False),
    lb_needbreak = (\<lambda>(l::sleepless_lock) (k::kernel). True),
    lb_klp_sched_try_switch = (\<lambda>k::kernel. k), lb_lock_wait = (\<lambda>k::kernel. k)\<rparr>"
  define s where "s = \<lparr>lb_kernel = sample_kernel, lb_held = [Read_lock 2, Spin_lock 1], lb_log = []\<rparr>"
  obtain ret s' where run: "us_cond_resched_lock sample_kapi la (\<lambda>n k. k) preempt_dynamic_boot 1 s = Some (ret, s')"
    by (simp add: us_cond_resched_lock_def u_cond_resched_def preempt_dynamic_boot_def Let_def la_def)
  from cond_resched_lock_rebalances [OF run] have "ret = 1 \<and> set (lb_held s') = {Read_lock 2, Spin_lock 1}"
    by (simp add: s_def la_def insert_commute)
  then show ?thesis using run by (auto simp: s_def la_def)
qed

end
