(* ===== verification/Stat_Files.thy ===== *)
theory Stat_Files
  imports Task_State Schedule Nohz_Util Hotplug Task_Groups
begin

text \<open>
  What the scheduler shows and its remaining switches (\<open>core.c\<close>): the statistics files of a
  control group, the dump of tasks by state, the NUMA balancing sysctl, and the last step of the
  initialisation on several CPUs.
\<close>

section \<open>Statistics of a control group\<close>

text \<open>
  The counters that other files keep: \<open>struct cfs_bandwidth\<close>'s, the self time of each
  \<open>cfs_rq\<close>, and the wait sums of the group's entities.
\<close>

record cfs_stats =
  fs_nr_periods :: int
  fs_nr_throttled :: int
  fs_nr_burst :: int
  fs_throttled_time :: u64
  fs_burst_time :: u64
  fs_throttled_clock_self_time :: "cpu \<Rightarrow> u64"
  fs_wait_sum :: "cpu \<Rightarrow> u64"

text \<open>One \<open>name value\<close> line of a file, printed with \<open>%d\<close> or \<open>%llu\<close>.\<close>

datatype seq_line = Seq_d string int | Seq_llu string u64

definition sum_possible :: "kernel \<Rightarrow> (cpu \<Rightarrow> u64) \<Rightarrow> u64" where
  "sum_possible k f = fold (\<lambda>c total. total + f c) (for_each_cpu k (k_possible k)) 0"

definition cpu_cfs_stat_show :: "(tgid \<Rightarrow> cfs_stats) \<Rightarrow> kernel \<Rightarrow> tgid \<Rightarrow> seq_line list" where
  "cpu_cfs_stat_show st k tg =
     (let s = st tg in
      [Seq_d ''nr_periods'' (fs_nr_periods s), Seq_d ''nr_throttled'' (fs_nr_throttled s),
       Seq_llu ''throttled_time'' (fs_throttled_time s)] @
      (if k_schedstat_enabled k \<and> tg \<noteq> k_root_tg k
       then [Seq_llu ''wait_sum'' (sum_possible k (fs_wait_sum s))] else []) @
      [Seq_d ''nr_bursts'' (fs_nr_burst s), Seq_llu ''burst_time'' (fs_burst_time s)])"

definition throttled_time_self :: "(tgid \<Rightarrow> cfs_stats) \<Rightarrow> kernel \<Rightarrow> tgid \<Rightarrow> u64" where
  "throttled_time_self st k tg = sum_possible k (fs_throttled_clock_self_time (st tg))"

definition cpu_cfs_local_stat_show :: "(tgid \<Rightarrow> cfs_stats) \<Rightarrow> kernel \<Rightarrow> tgid \<Rightarrow> seq_line list" where
  "cpu_cfs_local_stat_show st k tg = [Seq_llu ''throttled_time'' (throttled_time_self st k tg)]"

definition cpu_extra_stat_show :: "(tgid \<Rightarrow> cfs_stats) \<Rightarrow> tgid \<Rightarrow> seq_line list" where
  "cpu_extra_stat_show st tg =
     (let s = st tg;
          throttled_usec = fs_throttled_time s div NSEC_PER_USEC;
          burst_usec = fs_burst_time s div NSEC_PER_USEC
      in [Seq_d ''nr_periods'' (fs_nr_periods s), Seq_d ''nr_throttled'' (fs_nr_throttled s),
          Seq_llu ''throttled_usec'' throttled_usec, Seq_d ''nr_bursts'' (fs_nr_burst s),
          Seq_llu ''burst_usec'' burst_usec])"

definition cpu_local_stat_show :: "(tgid \<Rightarrow> cfs_stats) \<Rightarrow> kernel \<Rightarrow> tgid \<Rightarrow> seq_line list" where
  "cpu_local_stat_show st k tg =
     [Seq_llu ''throttled_usec'' (throttled_time_self st k tg div NSEC_PER_USEC)]"

text \<open>\<open>idle\<close> is the group's field of \<open>fair.c\<close>, \<open>set_idle\<close> is \<open>sched_group_set_idle\<close>.\<close>

definition cpu_idle_read_s64 :: "(tgid \<Rightarrow> int) \<Rightarrow> tgid \<Rightarrow> int" where
  "cpu_idle_read_s64 idle tg = idle tg"

definition cpu_idle_write_s64 ::
  "(tgid \<Rightarrow> int \<Rightarrow> kernel \<Rightarrow> int \<times> kernel) \<Rightarrow> tgid \<Rightarrow> int \<Rightarrow> kernel \<Rightarrow> int \<times> kernel" where
  "cpu_idle_write_s64 set_idle tg idle k = set_idle tg idle k"

section \<open>Dumping tasks\<close>

text \<open>
  What other files tell about a task: whether its stack can be pinned, whether it is alive,
  and the identifiers that are printed.
\<close>

record task_ids =
  ti_stack_pinned :: bool
  ti_stack_free :: u64
  ti_alive :: bool
  ti_pid :: int
  ti_tgid :: int
  ti_ppid :: int
  ti_comm :: string

datatype task_dump =
  Dump_task string "char option" bool u64 int int int u64
| Dump_cpu_registers
| Dump_cpu_header cpu
| Dump_sched_debug
| Dump_all_locks

definition sched_show_task :: "(tid \<Rightarrow> task_ids) \<Rightarrow> kernel \<Rightarrow> tid \<Rightarrow> task_dump list" where
  "sched_show_task ti k p =
     (let t = k_tasks k p; i = ti p in
      if \<not> ti_stack_pinned i then []
      else let ppid = (if ti_alive i then ti_ppid i else 0)
           in [Dump_task (ti_comm i) (task_state_to_char t) (task_is_running t) (ti_stack_free i)
                 (ti_pid i) (ti_tgid i) ppid (t_ti_flags t)])"

definition state_filter_match :: "u32 \<Rightarrow> task_struct \<Rightarrow> bool" where
  "state_filter_match state_filter t =
     (let state = t_state t in
      if state_filter = 0 then True
      else if state AND state_filter = 0 then False
      else if state_filter = TASK_UNINTERRUPTIBLE \<and> state AND TASK_NOLOAD \<noteq> 0 then False
      else True)"

text \<open>\<open>CONFIG_SCHED_DEBUG\<close> is set.\<close>

definition show_state_filter :: "kapi \<Rightarrow> (tid \<Rightarrow> task_ids) \<Rightarrow> kernel \<Rightarrow> u32 \<Rightarrow> task_dump list" where
  "show_state_filter a ti k state_filter =
     concat (map (\<lambda>p. if state_filter_match state_filter (k_tasks k p) then sched_show_task ti k p else [])
       (ka_process_threads a k)) @
     (if state_filter = 0 then [Dump_sched_debug] else []) @
     (if state_filter = 0 then [Dump_all_locks] else [])"

text \<open>
  \<open>in_hardirq\<close> and the saved registers, and whether another way of getting a backtrace worked,
  are arguments.
\<close>

definition dump_cpu_task :: "(tid \<Rightarrow> task_ids) \<Rightarrow> bool \<Rightarrow> bool \<Rightarrow> bool \<Rightarrow> cpu \<Rightarrow> kernel \<Rightarrow> task_dump list" where
  "dump_cpu_task ti in_hardirq regs backtrace c k =
     (if c = k_this_cpu k \<and> in_hardirq \<and> regs then [Dump_cpu_registers]
      else if backtrace then []
      else Dump_cpu_header c # sched_show_task ti k (rq_curr (k_rqs k c)))"

text \<open>The tasks queued on a CPU, by pid and name; the first component is the count in the header.\<close>

definition dump_rq_tasks :: "kapi \<Rightarrow> (tid \<Rightarrow> task_ids) \<Rightarrow> cpu \<Rightarrow> kernel \<Rightarrow> u32 \<times> (int \<times> string) list" where
  "dump_rq_tasks a ti c k =
     (rq_nr_running (k_rqs k c),
      map (\<lambda>p. (ti_pid (ti p), ti_comm (ti p)))
        (filter (\<lambda>p. task_cpu k p = rq_cpu (k_rqs k c) \<and> task_on_rq_queued (k_tasks k p)) (ka_process_threads a k)))"

text \<open>\<open>wchan\<close> is the architecture's \<open>__get_wchan\<close>.\<close>

definition get_wchan :: "(kernel \<Rightarrow> tid \<Rightarrow> u64) \<Rightarrow> tid option \<Rightarrow> kernel \<Rightarrow> u64" where
  "get_wchan wchan p k =
     (case p of
        None \<Rightarrow> 0
      | Some p \<Rightarrow>
          if p = k_current k then 0
          else let state = t_state (k_tasks k p)
               in if state \<noteq> TASK_RUNNING \<and> state \<noteq> TASK_WAKING \<and> t_on_rq (k_tasks k p) = 0 then wchan k p else 0)"

text \<open>The boot parameter; \<open>kstrtol\<close> gives the number or fails.\<close>

definition setup_resched_latency_warn_ms :: "(string \<Rightarrow> int option) \<Rightarrow> string \<Rightarrow> kernel \<Rightarrow> int \<times> kernel" where
  "setup_resched_latency_warn_ms kstrtol str k =
     (case kstrtol str of
        None \<Rightarrow> (1, k)
      | Some val \<Rightarrow> (1, k\<lparr>k_sysctl_resched_latency_warn_ms := signed_take_bit 31 val\<rparr>))"

text \<open>\<open>[text_start, text_end)\<close> is the section \<open>.sched.text\<close>.\<close>

definition in_sched_functions :: "(u64 \<Rightarrow> bool) \<Rightarrow> u64 \<Rightarrow> u64 \<Rightarrow> u64 \<Rightarrow> bool" where
  "in_sched_functions in_lock_functions text_start text_end addr \<longleftrightarrow>
     in_lock_functions addr \<or> (text_start \<le> addr \<and> addr < text_end)"

section \<open>NUMA balancing\<close>

text \<open>\<open>linux/sched/sysctl.h\<close>.\<close>

definition NUMA_BALANCING_DISABLED :: u32 where "NUMA_BALANCING_DISABLED = 0"
definition NUMA_BALANCING_NORMAL :: u32 where "NUMA_BALANCING_NORMAL = 1"
definition NUMA_BALANCING_MEMORY_TIERING :: u32 where "NUMA_BALANCING_MEMORY_TIERING = 2"

record pglist_data =
  pg_nbp_threshold :: u64
  pg_nbp_th_nr_cand :: u64
  pg_nbp_th_start :: u64

record numa_state =
  nu_mode :: u32
  nu_balancing :: bool
  nu_pgdats :: "pglist_data list"

definition us_set_numabalancing_state :: "bool \<Rightarrow> numa_state \<Rightarrow> numa_state" where
  "us_set_numabalancing_state enabled s = s\<lparr>nu_balancing := enabled\<rparr>"

definition set_numabalancing_state :: "bool \<Rightarrow> numa_state \<Rightarrow> numa_state" where
  "set_numabalancing_state enabled s =
     (let s = (if enabled then s\<lparr>nu_mode := NUMA_BALANCING_NORMAL\<rparr>
               else s\<lparr>nu_mode := NUMA_BALANCING_DISABLED\<rparr>)
      in us_set_numabalancing_state enabled s)"

text \<open>\<open>cand\<close> is the page counter of each node, \<open>now\<close> the time in milliseconds.\<close>

definition reset_memory_tiering :: "(nat \<Rightarrow> u64) \<Rightarrow> u64 \<Rightarrow> numa_state \<Rightarrow> numa_state" where
  "reset_memory_tiering cand now s =
     s\<lparr>nu_pgdats := map (\<lambda>n. \<lparr>pg_nbp_threshold = 0, pg_nbp_th_nr_cand = cand n, pg_nbp_th_start = now\<rparr>)
         [0..<length (nu_pgdats s)]\<rparr>"

text \<open>As for the schedstats sysctl, \<open>dointvec\<close> is \<open>proc_dointvec_minmax\<close> on a copy of the mode.\<close>

definition sysctl_numa_balancing ::
  "bool \<Rightarrow> (u32 \<Rightarrow> int \<times> u32) \<Rightarrow> (nat \<Rightarrow> u64) \<Rightarrow> u64 \<Rightarrow> bool \<Rightarrow> numa_state \<Rightarrow> int \<times> numa_state" where
  "sysctl_numa_balancing capable dointvec cand now write s =
     (let state = nu_mode s in
      if write \<and> \<not> capable then (- EPERM, s)
      else let (err, state) = dointvec state in
      if err < 0 then (err, s)
      else let s = (if write
             then let s = (if nu_mode s AND NUMA_BALANCING_MEMORY_TIERING = 0 \<and>
                              state AND NUMA_BALANCING_MEMORY_TIERING \<noteq> 0
                           then reset_memory_tiering cand now s else s);
                      s = s\<lparr>nu_mode := state\<rparr>
                  in us_set_numabalancing_state (state \<noteq> 0) s
             else s)
      in (err, s))"

section \<open>Round robin intervals and the last step of the initialisation\<close>

definition sys_sched_rr_get_interval_time32 ::
  "kapi \<Rightarrow> (u32 \<Rightarrow> kernel \<Rightarrow> int \<times> kernel) \<Rightarrow> int \<Rightarrow> kernel \<Rightarrow> int \<times> kernel" where
  "sys_sched_rr_get_interval_time32 a put_old_timespec32 pid k =
     (let (retval, t) = sched_rr_get_interval a pid k
      in if retval = 0 then put_old_timespec32 t k else (retval, k))"

text \<open>
  \<open>sched_init_domains\<close> and the class initialisers are parameters; \<open>None\<close> is \<open>BUG()\<close>, or a move
  of the boot task that never finishes.
\<close>

definition sched_init_smp ::
  "kapi \<Rightarrow> (kernel \<Rightarrow> kernel) \<Rightarrow> (kernel \<Rightarrow> kernel) \<Rightarrow> (kernel \<Rightarrow> kernel) \<Rightarrow> kernel \<Rightarrow> kernel option" where
  "sched_init_smp a env init_domains init_classes k =
     (let k = init_domains k; p = k_current k in
      case set_cpus_allowed_ptr a env p (ka_housekeeping_cpumask a) k of
        None \<Rightarrow> None
      | Some (ret, k) \<Rightarrow>
          if ret < 0 then None
          else let k = upd_task p (\<lambda>t. t\<lparr>t_flags := clear_flag (t_flags t) PF_NO_SETAFFINITY\<rparr>) k;
                   k = init_classes k
               in Some (k\<lparr>k_sched_smp_initialized := True\<rparr>))"

definition migration_init :: "kapi \<Rightarrow> tick_work \<Rightarrow> kernel \<Rightarrow> int \<times> tick_work \<times> kernel" where
  "migration_init a w k = (case sched_cpu_starting a (k_this_cpu k) w k of (_, w, k) \<Rightarrow> (0, w, k))"

section \<open>Properties\<close>

text \<open>
  The switch and the mode agree, and while memory tiering is off every node starts from a fresh
  threshold when it is turned on.
\<close>

definition numa_consistent :: "numa_state \<Rightarrow> bool" where
  "numa_consistent s \<longleftrightarrow> (nu_balancing s \<longleftrightarrow> nu_mode s \<noteq> 0)"

lemma set_numabalancing_consistent: "numa_consistent (set_numabalancing_state b s)"
  by (simp add: numa_consistent_def set_numabalancing_state_def us_set_numabalancing_state_def Let_def
      NUMA_BALANCING_DISABLED_def NUMA_BALANCING_NORMAL_def)

text \<open>the NUMA balancing sysctl is all or nothing: an unprivileged or malformed write changes
  nothing, a read changes nothing, and an accepted write stores the mode, switches balancing on
  exactly for a nonzero mode and restarts the promotion thresholds exactly when it turns memory
  tiering on.\<close>

theorem sysctl_numa_balancing_atomic:
  assumes s: "numa_consistent s" and run: "sysctl_numa_balancing capable dointvec cand now write s = (err, s')"
  shows "numa_consistent s' \<and>
    (if write \<and> \<not> capable then err = - EPERM \<and> s' = s
     else err = fst (dointvec (nu_mode s)) \<and>
       (if err < 0 \<or> \<not> write then s' = s
        else nu_mode s' = snd (dointvec (nu_mode s)) \<and>
          nu_pgdats s' =
            (if nu_mode s AND 2 = 0 \<and> nu_mode s' AND 2 \<noteq> 0
             then map (\<lambda>n. \<lparr>pg_nbp_threshold = 0, pg_nbp_th_nr_cand = cand n, pg_nbp_th_start = now\<rparr>)
                    [0..<length (nu_pgdats s)]
             else nu_pgdats s)))"
proof (cases "write \<and> \<not> capable")
  case True
  then show ?thesis using run s by (auto simp: sysctl_numa_balancing_def Let_def)
next
  case False
  obtain e m where io: "dointvec (nu_mode s) = (e, m)" by fastforce
  define s1 where "s1 = (if nu_mode s AND NUMA_BALANCING_MEMORY_TIERING = 0 \<and>
      m AND NUMA_BALANCING_MEMORY_TIERING \<noteq> 0 then reset_memory_tiering cand now s else s)"
  have "(err, s') = (if e < 0 then (e, s)
      else (e, if write then us_set_numabalancing_state (m \<noteq> 0) (s1\<lparr>nu_mode := m\<rparr>) else s))"
    using run False unfolding sysctl_numa_balancing_def Let_def io prod.case s1_def
    by (cases "e < 0"; cases "write") simp_all
  then have "err = e" "s' = (if e < 0 \<or> \<not> write then s else us_set_numabalancing_state (m \<noteq> 0) (s1\<lparr>nu_mode := m\<rparr>))"
    by (auto split: if_splits)
  moreover have "nu_pgdats s1 = (if nu_mode s AND 2 = 0 \<and> m AND 2 \<noteq> 0
      then map (\<lambda>n. \<lparr>pg_nbp_threshold = 0, pg_nbp_th_nr_cand = cand n, pg_nbp_th_start = now\<rparr>)
             [0..<length (nu_pgdats s)] else nu_pgdats s)"
    by (simp add: s1_def reset_memory_tiering_def NUMA_BALANCING_MEMORY_TIERING_def)
  ultimately show ?thesis
    using s False by (auto simp: io us_set_numabalancing_state_def numa_consistent_def)
qed

lemma sysctl_numa_balancing_atomic_witness:
  "nu_pgdats (snd (sysctl_numa_balancing True (\<lambda>m. (0, 3)) (\<lambda>n. 7) 9 True
     \<lparr>nu_mode = 1, nu_balancing = True,
      nu_pgdats = [\<lparr>pg_nbp_threshold = 4, pg_nbp_th_nr_cand = 4, pg_nbp_th_start = 4\<rparr>]\<rparr>)) =
     [\<lparr>pg_nbp_threshold = 0, pg_nbp_th_nr_cand = 7, pg_nbp_th_start = 9\<rparr>]"
proof -
  define s where "s = \<lparr>nu_mode = 1, nu_balancing = True,
      nu_pgdats = [\<lparr>pg_nbp_threshold = 4, pg_nbp_th_nr_cand = 4, pg_nbp_th_start = 4\<rparr>]\<rparr>"
  obtain err s' where run: "sysctl_numa_balancing True (\<lambda>m. (0, 3)) (\<lambda>n. 7) 9 True s = (err, s')" by fastforce
  have "numa_consistent s" by (simp add: numa_consistent_def s_def)
  from sysctl_numa_balancing_atomic [OF this run] show ?thesis by (simp add: run [unfolded s_def] s_def)
qed

end
