(* ===== verification/Yat_Load_Correct.thy ===== *)
theory Yat_Load_Correct
  imports Nohz_Util Schedule Pick_Correct
begin

text \<open>
  The yat class and the rest of the scheduler that counts tasks: the tick of tickless CPUs, the
  idle tests of the load balancer and of wakeups, and the number of running tasks.
\<close>

text \<open>Where the queue layer other than the class leaves the yat queues alone.\<close>

lemma yat_rq_upd_rq_other:
  "(\<And>r. rq_yat_casched (h r) = rq_yat_casched r) \<Longrightarrow> yat_rq (upd_rq c h k) d = yat_rq k d"
  by (simp add: yat_rq_def)

lemma yat_rq_steps [simp]:
  "yat_rq (upd_uc_bucket c i b e k) d = yat_rq k d" "yat_rq (uclamp_rq_set c i v k) d = yat_rq k d"
  "yat_rq (upd_task_uc p i g k) d = yat_rq k d"
  "yat_rq (clear_uclamp_idle c k) d = yat_rq k d" "yat_rq (update_rq_clock a c k) d = yat_rq k d"
  by (simp_all add: upd_uc_bucket_def upd_uc_rq_def uclamp_rq_set_def upd_task_uc_def clear_uclamp_idle_def
      update_rq_clock_def update_rq_clock_task_def yat_rq_upd_rq_other Let_def)

lemma yat_rq_uclamp [simp]: "yat_rq (uclamp_rq_inc a c p k) d = yat_rq k d"
proof -
  have "yat_rq (uclamp_rq_inc_id c p i k) d = yat_rq k d" for i k
    by (simp add: uclamp_rq_inc_id_def uclamp_idle_reset_def Let_def)
  then show ?thesis by (simp add: uclamp_rq_inc_def clamp_ids_def Let_def)
qed

lemma activate_task_yat:
  assumes "task_class k p = yat_casched_sched_class"
  shows "load_view (activate_task a c p f k) = load_view k"
    "machine_part (activate_task a c p f k) = machine_part k"
    "task_class (activate_task a c p f k) q = task_class k q"
    "yrq_tasks (yat_rq (activate_task a c p f k) c) = yrq_tasks (yat_rq k c) @ [p]"
proof -
  define g where "g = (if task_on_rq_migrating (k_tasks k p) then f OR ENQUEUE_MIGRATED else f)"
  define k1 where "k1 = (if \<not> test_flag g ENQUEUE_NOCLOCK then update_rq_clock a c k else k)"
  have "task_class (uclamp_rq_inc a c p k1) p = yat_casched_sched_class"
    using assms public_fields(1) [OF pub.uclamp_inc, of a c p k1 p] public_fields(1) [OF pub.clock, of a c k p]
    by (simp add: task_class_def k1_def)
  then have "yrq_tasks (yat_rq (enqueue_task a c p g k) c) = yrq_tasks (yat_rq k c) @ [p]"
    by (simp add: enqueue_task_def class_enqueue_task_def Let_def k1_def [symmetric] enqueue_task_yat_casched_def
        yat_list_add_tail_def) (simp add: k1_def)
  then show "yrq_tasks (yat_rq (activate_task a c p f k) c) = yrq_tasks (yat_rq k c) @ [p]"
    by (simp add: activate_task_def g_def Let_def)
  show "load_view (activate_task a c p f k) = load_view k" "machine_part (activate_task a c p f k) = machine_part k"
    using enqueue_task_yat(1,3) [OF assms] by (simp_all add: activate_task_def Let_def)
  show "task_class (activate_task a c p f k) q = task_class k q"
    using public_fields(1) [OF enqueue_task_yat(2) [OF assms]] by (simp add: activate_task_def task_class_def Let_def)
qed

lemma activate_tasks_yat:
  assumes "\<forall>p \<in> set ps. task_class k p = yat_casched_sched_class" "k' = fold (\<lambda>p. activate_task a c p f) ps k"
  shows "load_view k' = load_view k \<and> machine_part k' = machine_part k \<and>
    yrq_tasks (yat_rq k' c) = yrq_tasks (yat_rq k c) @ ps"
  using assms
proof (induction ps arbitrary: k)
  case (Cons p ps)
  note act = activate_task_yat [of k p, OF bspec [OF Cons.prems(1)], simplified]
  show ?case using Cons.IH [of "activate_task a c p f k"] Cons.prems act by simp
qed simp

text \<open>
  C18: However many yat tasks are put on the run queue of an idle CPU, the scheduler does not see
  one: the CPU still counts as idle for wakeups and load balancing, the number of running tasks
  is the same, and a tickless CPU may stop its tick, although its queue holds all of them.
\<close>

theorem yat_tasks_uncounted:
  assumes "\<forall>p \<in> set ps. task_class k p = yat_casched_sched_class" "idle_cpu k c"
    and "rq_dl_nr_running (k_rqs k c) = 0" "rq_rr_nr_running (k_rqs k c) = 0" "rq_rt_nr_running (k_rqs k c) = 0"
  shows "let k' = fold (\<lambda>p. activate_task a c p f) ps k in
    yrq_tasks (yat_rq k' c) = yrq_tasks (yat_rq k c) @ ps \<and>
    idle_cpu k' c \<and> nr_running k' = nr_running k \<and> sched_can_stop_tick a k' c"
proof -
  define k' where "k' = fold (\<lambda>p. activate_task a c p f) ps k"
  note same = activate_tasks_yat [OF assms(1) k'_def]
  have load: "load_view k' = load_view k" and mach: "machine_part k' = machine_part k" using same by auto
  have "idle_cpu k' c"
    using assms(2) load_viewD [OF load, of c] machine_part_eqD(1,2) [OF mach, of c] by (simp add: idle_cpu_def Let_def)
  moreover have "nr_running k' = nr_running k"
    using load_viewD(1) [OF load] machine_part_eqD [OF mach] by (simp add: nr_running_def for_each_cpu_def)
  moreover have "sched_can_stop_tick a k' c"
    using assms load_viewD [OF load, of c]
    by (simp add: sched_can_stop_tick_def idle_cpu_def us_need_bw_check_def Let_def)
  ultimately show ?thesis using same by (simp add: k'_def [symmetric] Let_def)
qed

theorem yat_tasks_uncounted_witness:
  "let k' = fold (\<lambda>p. activate_task sample_kapi 1 p 0) [10] sample_yat in
    yrq_tasks (yat_rq k' 1) = [10] \<and> idle_cpu k' 1 \<and> sched_can_stop_tick sample_kapi k' 1"
proof -
  have "task_class sample_yat 10 = yat_casched_sched_class" "idle_cpu sample_yat 1" "yrq_tasks (yat_rq sample_yat 1) = []"
    "rq_dl_nr_running (k_rqs sample_yat 1) = 0" "rq_rr_nr_running (k_rqs sample_yat 1) = 0"
    "rq_rt_nr_running (k_rqs sample_yat 1) = 0"
    by (simp_all add: sample_yat_def task_class_def idle_cpu_def sample_rq_def yat_rq_def Let_def)
  then show ?thesis using yat_tasks_uncounted [of "[10]" sample_yat 1 sample_kapi 0] by (simp add: Let_def)
qed

end
