(* ===== verification/Bandwidth_Correct.thy ===== *)
theory Bandwidth_Correct
  imports Groups_Correct
begin

text \<open>
  The limits of every group that has limits stay within their bounds, whichever of the cgroup
  files is written, with whatever value.
\<close>

definition limits_bounded :: "cfs_bandwidth \<Rightarrow> bool" where
  "limits_bounded b \<longleftrightarrow>
     min_cfs_quota_period \<le> cb_period b \<and> cb_period b \<le> max_cfs_quota_period \<and>
     min_cfs_quota_period \<le> cb_quota b \<and>
     (cb_quota b \<noteq> RUNTIME_INF \<longrightarrow>
        cb_burst b \<le> cb_quota b \<and> unat (cb_burst b) + unat (cb_quota b) \<le> unat max_cfs_runtime)"

definition limits_inv :: "tgid \<Rightarrow> kernel \<Rightarrow> bool" where
  "limits_inv root k \<longleftrightarrow> (\<forall>tg. tg \<noteq> root \<longrightarrow> limits_bounded (cfs_b k tg))"

text \<open>A write to one of the files of a group.\<close>

datatype cfs_write = Quota_us u64 | Period_us u64 | Burst_us u64 | Cpu_max string int

fun write_cfs :: "kapi \<Rightarrow> tgid \<Rightarrow> cfs_write \<Rightarrow> kernel \<Rightarrow> (int \<times> kernel) option" where
  "write_cfs a tg (Quota_us v) k = cpu_cfs_quota_write_s64 a tg v k"
| "write_cfs a tg (Period_us v) k = cpu_cfs_period_write_u64 a tg v k"
| "write_cfs a tg (Burst_us v) k = cpu_cfs_burst_write_u64 a tg v k"
| "write_cfs a tg (Cpu_max buf n) k = cpu_max_write a tg buf n k"

lemma same_limits_bounded: "same_limits k k' \<Longrightarrow> limits_inv root k' \<longleftrightarrow> limits_inv root k"
  by (simp add: same_limits_def limits_inv_def limits_bounded_def)

text \<open>The guards admit only bounded limits; their sum does not wrap.\<close>

lemma valid_bounded:
  assumes "\<not> cfs_bandwidth_invalid k tg period quota burst"
  shows "limits_bounded \<lparr>cb_period = period, cb_quota = quota, cb_burst = burst, cb_hierarchical_quota = h\<rparr>"
proof -
  have "unat burst + unat quota = unat (burst + quota)"
    if "burst \<le> quota" "quota \<le> max_cfs_runtime"
  proof -
    have "unat burst \<le> unat quota" "unat quota \<le> unat max_cfs_runtime"
      using that by (simp_all add: word_le_nat_alt)
    moreover have "2 * unat max_cfs_runtime < 2 ^ 64" by (simp add: bw_consts)
    ultimately show ?thesis by (simp add: unat_word_ariths)
  qed
  then show ?thesis
    using assms by (auto simp: cfs_bandwidth_invalid_def limits_bounded_def not_less word_le_nat_alt)
qed

lemma tg_set_cfs_bandwidth_bounded:
  assumes "bandwidth_ops_keep a" "tg_forest k lvl" "tg_depth_le k n (k_root_tg k)" "limits_inv root k"
  shows "\<exists>ret k'. tg_set_cfs_bandwidth a tg period quota burst k = Some (ret, k') \<and> limits_inv root k'"
proof (cases "cfs_bandwidth_invalid k tg period quota burst")
  case False
  obtain r k1 where s: "us_cfs_schedulable a tg period quota k = Some (r, k1)" "same_limits k k1"
    using us_cfs_schedulable_returns [OF assms(2,3)] by blast
  have "limits_inv root k1" using assms(4) same_limits_bounded [OF s(2)] by simp
  moreover have "limits_inv root (commit_cfs_bandwidth a tg period quota burst k1)" if "limits_inv root k1"
    using that valid_bounded [OF False]
    by (auto simp: limits_inv_def cfs_b_def commit_cfs_bandwidth_tgs [OF assms(1)] upd_cfs_b_def limits_bounded_def)
  ultimately show ?thesis using False by (simp add: tg_set_cfs_bandwidth_def s(1))
qed (use assms(4) in \<open>simp add: tg_set_cfs_bandwidth_def\<close>)

text \<open>
  Whatever is written to the bandwidth files of whichever group, the call returns and all
  limits stay in bounds: periods between a millisecond and a second, quotas of a millisecond at
  least, and for a limited group a burst no larger than the quota whose sum with it does not
  exceed the largest runtime that the bandwidth arithmetic can take (so it does not wrap).
\<close>

theorem cfs_limits_bounded:
  assumes "bandwidth_ops_keep a" "tg_forest k lvl" "tg_depth_le k n (k_root_tg k)" "limits_inv root k"
  shows "\<exists>ret k'. write_cfs a tg w k = Some (ret, k') \<and> limits_inv root k'"
proof -
  note set = tg_set_cfs_bandwidth_bounded [OF assms, of tg]
  show ?thesis
  proof (cases w)
    case (Cpu_max buf nbytes)
    obtain ret period quota where p: "cpu_period_quota_parse a buf (tg_get_cfs_period k tg) = (ret, period, quota)"
      using prod_cases3 by blast
    obtain r k' where r: "tg_set_cfs_bandwidth a tg period quota (tg_get_cfs_burst k tg) k = Some (r, k')"
      "limits_inv root k'" using set by blast
    then show ?thesis using assms(4) by (simp add: Cpu_max cpu_max_write_def p Let_def)
  qed (use set assms(4) in \<open>simp_all add: cpu_cfs_quota_write_s64_def tg_set_cfs_quota_def
      cpu_cfs_period_write_u64_def tg_set_cfs_period_def cpu_cfs_burst_write_u64_def tg_set_cfs_burst_def Let_def\<close>)
qed

theorem cfs_limits_bounded_witness:
  "\<exists>ret k'. write_cfs sample_kapi 1 (Cpu_max ''max 100000'' 10) sample_burst = Some (ret, k') \<and> limits_inv 0 k'"
proof -
  have keep: "bandwidth_ops_keep sample_kapi" by (simp add: bandwidth_ops_keep_def sample_kapi_def)
  have root: "tg_depth_le sample_burst 2 (k_root_tg sample_burst)"
    using sample_burst_tree(2)
    by (simp add: sample_burst_def upd_cfs_b_def sample_groups_def upd_tg_uc_req_def sample_defs)
  have "limits_inv 0 sample_burst"
    by (auto simp: limits_inv_def limits_bounded_def cfs_b_def sample_burst_def upd_cfs_b_def sample_groups_def
        upd_tg_uc_req_def sample_defs bw_consts RUNTIME_INF_def)
  then show ?thesis by (rule cfs_limits_bounded [OF keep sample_burst_tree(1) root])
qed

end
