(* ===== verification/Linker_Script.thy ===== *)
theory Linker_Script
  imports Prelude "HOL-Library.Char_ord" "HOL-Library.List_Lexorder" "HOL-Library.Sublist"
begin

text \<open>
  The part of the GNU linker's script language that \<open>vmlinux.lds.h\<close> is written in: wildcard
  patterns, statements of an output section, and output sections, executed over the location
  counter. An input section goes to the first statement of the script that matches it. What the
  linker does with sections no statement matches, with relaxation and with wrap-around at the
  width of an address is left out; an address below 0 is an error.
\<close>

section \<open>Wildcard patterns\<close>

datatype glob_item = Exactly char | Any_string | One_of "(char \<times> char) list"

fun glob_ranges :: "string \<Rightarrow> (char \<times> char) list" where
  "glob_ranges (a # d # b # s) =
     (if d = CHR ''-'' then (a, b) # glob_ranges s else (a, a) # glob_ranges (d # b # s))"
| "glob_ranges s = map (\<lambda>a. (a, a)) s"

function parse_glob :: "string \<Rightarrow> glob_item list" where
  "parse_glob [] = []"
| "parse_glob (c # s) =
     (if c = CHR ''*'' then Any_string # parse_glob s
      else if c = CHR ''['' then
        One_of (glob_ranges (takeWhile (\<lambda>x. x \<noteq> CHR '']'') s)) #
        parse_glob (tl (dropWhile (\<lambda>x. x \<noteq> CHR '']'') s))
      else Exactly c # parse_glob s)"
  by pat_completeness auto
termination
proof (relation "measure length")
  fix s :: string
  show "(tl (dropWhile (\<lambda>x. x \<noteq> CHR '']'') s), c # s) \<in> measure length" for c
    using length_dropWhile_le [of "\<lambda>x. x \<noteq> CHR '']''" s] by (simp del: length_dropWhile_le)
qed simp_all

fun glob_match :: "glob_item list \<Rightarrow> string \<Rightarrow> bool" where
  "glob_match [] s = (s = [])"
| "glob_match (Exactly c # p) s = (case s of [] \<Rightarrow> False | d # t \<Rightarrow> c = d \<and> glob_match p t)"
| "glob_match (One_of rs # p) s =
     (case s of [] \<Rightarrow> False | d # t \<Rightarrow> list_ex (\<lambda>(a, b). a \<le> d \<and> d \<le> b) rs \<and> glob_match p t)"
| "glob_match (Any_string # p) s =
     (glob_match p s \<or> (case s of [] \<Rightarrow> False | d # t \<Rightarrow> glob_match (Any_string # p) t))"

definition glob :: "string \<Rightarrow> string \<Rightarrow> bool" where
  "glob pat s = glob_match (parse_glob pat) s"

abbreviation glob_literal :: "string \<Rightarrow> bool" where
  "glob_literal pat \<equiv> list_all (\<lambda>c. c \<noteq> CHR ''*'' \<and> c \<noteq> CHR ''['') pat"

lemma parse_glob_append:
  "glob_literal pat \<Longrightarrow> parse_glob (pat @ s) = map Exactly pat @ parse_glob s"
  by (induction pat) auto

lemma glob_match_exactly:
  "glob_match (map Exactly pat @ p) s \<longleftrightarrow> (\<exists>t. s = pat @ t \<and> glob_match p t)"
  by (induction pat arbitrary: s) (auto split: list.splits)

lemma glob_match_any [simp]: "glob_match [Any_string] s"
  by (induction s) auto

lemma glob_literal_eq: "glob_literal pat \<Longrightarrow> glob pat s \<longleftrightarrow> s = pat"
  using glob_match_exactly [of pat "[]" s] parse_glob_append [of pat "[]"] by (simp add: glob_def)

lemma glob_prefix: "glob_literal pat \<Longrightarrow> glob (pat @ ''*'') s \<longleftrightarrow> prefix pat s"
  by (simp add: glob_def parse_glob_append glob_match_exactly prefix_def del: glob_match.simps)

lemma glob_prefix_eq:
  "pat \<noteq> [] \<Longrightarrow> last pat = CHR ''*'' \<Longrightarrow> glob_literal (butlast pat) \<Longrightarrow> glob pat s = prefix (butlast pat) s"
  using glob_prefix [of "butlast pat" s] by (metis append_butlast_last_id)

section \<open>Scripts\<close>

text \<open>An input section of an object file; the files come in link order.\<close>

record input_section =
  is_file :: string
  is_name :: string
  is_size :: nat
  is_align :: nat

datatype expr =
  Const nat
| Dot
| Sym string
| Align expr
| Addr string
| Sizeof string
| Plus expr expr
| Minus expr expr
| Times expr expr
| Quot expr expr

datatype in_spec = Pat string | Sort string

text \<open>
  \<open>Assign\<close> to the symbol \<open>.\<close> moves the location counter; \<open>Input True\<close> is \<open>KEEP(*(...))\<close>, which
  only garbage collection distinguishes from \<open>*(...)\<close>; \<open>CONSTRUCTORS\<close> places nothing in ELF.
\<close>

datatype stmt = Assign string expr | Input bool "in_spec list" | CONSTRUCTORS

text \<open>An output section: its name, address, load address, alignment, contents and segments.\<close>

datatype script =
  Stmt stmt
| Output string "expr option" "expr option" "expr option" "stmt list" string
| Discard "stmt list"

section \<open>The state of a link\<close>

text \<open>
  The link map lists, in order, what was placed, which labels were set to the location counter
  and, inside output sections, where the counter was moved to.
\<close>

datatype map_entry = Placed string input_section nat | Label string nat | Moved nat

record output_section =
  os_name :: string
  os_vma :: nat
  os_size :: nat
  os_lma :: nat

record link_state =
  ls_dot :: nat
  ls_syms :: "string \<Rightarrow> nat option"
  ls_map :: "map_entry list"
  ls_rest :: "input_section list"
  ls_discarded :: "input_section list"
  ls_outs :: "output_section list"

definition align_up :: "nat \<Rightarrow> nat \<Rightarrow> nat" where
  "align_up a n = (if n \<le> 1 then a else (a + n - 1) div n * n)"

definition find_out :: "link_state \<Rightarrow> string \<Rightarrow> output_section option" where
  "find_out st name = find (\<lambda>o'. os_name o' = name) (ls_outs st)"

abbreviation lift2 :: "(nat \<Rightarrow> nat \<Rightarrow> nat option) \<Rightarrow> nat option \<Rightarrow> nat option \<Rightarrow> nat option" where
  "lift2 f x y \<equiv> Option.bind x (\<lambda>a. Option.bind y (f a))"

fun eval_expr :: "link_state \<Rightarrow> expr \<Rightarrow> nat option" where
  "eval_expr st (Const n) = Some n"
| "eval_expr st Dot = Some (ls_dot st)"
| "eval_expr st (Sym s) = ls_syms st s"
| "eval_expr st (Align e) = map_option (align_up (ls_dot st)) (eval_expr st e)"
| "eval_expr st (Addr s) = map_option os_vma (find_out st s)"
| "eval_expr st (Sizeof s) = map_option os_size (find_out st s)"
| "eval_expr st (Plus a b) = lift2 (\<lambda>x y. Some (x + y)) (eval_expr st a) (eval_expr st b)"
| "eval_expr st (Minus a b) =
     lift2 (\<lambda>x y. if x < y then None else Some (x - y)) (eval_expr st a) (eval_expr st b)"
| "eval_expr st (Times a b) = lift2 (\<lambda>x y. Some (x * y)) (eval_expr st a) (eval_expr st b)"
| "eval_expr st (Quot a b) =
     lift2 (\<lambda>x y. if y = 0 then None else Some (x div y)) (eval_expr st a) (eval_expr st b)"

section \<open>Executing a script\<close>

fun spec_matches :: "in_spec \<Rightarrow> input_section \<Rightarrow> bool" where
  "spec_matches (Pat p) s = glob p (is_name s)"
| "spec_matches (Sort p) s = glob p (is_name s)"

abbreviation wanted :: "in_spec list \<Rightarrow> input_section \<Rightarrow> bool" where
  "wanted specs s \<equiv> list_ex (\<lambda>sp. spec_matches sp s) specs"

fun is_sorted_spec :: "in_spec \<Rightarrow> bool" where
  "is_sorted_spec (Sort p) \<longleftrightarrow> True"
| "is_sorted_spec (Pat p) \<longleftrightarrow> False"

definition take_wanted :: "in_spec list \<Rightarrow> input_section list \<Rightarrow> input_section list" where
  "take_wanted specs rest =
     (let found = filter (wanted specs) rest
      in if list_ex is_sorted_spec specs then sort_key is_name found else found)"

definition leave_unwanted :: "in_spec list \<Rightarrow> input_section list \<Rightarrow> input_section list" where
  "leave_unwanted specs rest = filter (\<lambda>s. \<not> wanted specs s) rest"

definition place :: "string \<Rightarrow> input_section \<Rightarrow> link_state \<Rightarrow> link_state" where
  "place out s st =
     (let a = align_up (ls_dot st) (is_align s)
      in st\<lparr>ls_dot := a + is_size s, ls_map := ls_map st @ [Placed out s a]\<rparr>)"

definition set_symbol :: "string \<Rightarrow> expr \<Rightarrow> nat \<Rightarrow> link_state \<Rightarrow> link_state" where
  "set_symbol name e v st =
     st\<lparr>ls_syms := (ls_syms st)(name \<mapsto> v),
        ls_map := (if e = Dot then ls_map st @ [Label name v] else ls_map st)\<rparr>"

text \<open>Inside an output section the location counter cannot move backwards.\<close>

fun exec_stmt :: "string \<Rightarrow> stmt \<Rightarrow> link_state \<Rightarrow> link_state option" where
  "exec_stmt out (Assign name e) st =
     (case eval_expr st e of
        None \<Rightarrow> None
      | Some v \<Rightarrow>
          if name = ''.'' then if v < ls_dot st then None
                               else Some (st\<lparr>ls_dot := v, ls_map := ls_map st @ [Moved v]\<rparr>)
          else Some (set_symbol name e v st))"
| "exec_stmt out (Input keep specs) st =
     Some ((fold (place out) (take_wanted specs (ls_rest st)) st)
             \<lparr>ls_rest := leave_unwanted specs (ls_rest st)\<rparr>)"
| "exec_stmt out CONSTRUCTORS st = Some st"

fun exec_body :: "string \<Rightarrow> stmt list \<Rightarrow> link_state \<Rightarrow> link_state option" where
  "exec_body out [] st = Some st"
| "exec_body out (s # ss) st = Option.bind (exec_stmt out s st) (exec_body out ss)"

text \<open>The sections a body takes, in order, and those it leaves.\<close>

fun body_takes :: "stmt list \<Rightarrow> input_section list \<Rightarrow> input_section list" where
  "body_takes [] rest = []"
| "body_takes (Input keep specs # ss) rest =
     take_wanted specs rest @ body_takes ss (leave_unwanted specs rest)"
| "body_takes (Assign name e # ss) rest = body_takes ss rest"
| "body_takes (CONSTRUCTORS # ss) rest = body_takes ss rest"

fun body_leaves :: "stmt list \<Rightarrow> input_section list \<Rightarrow> input_section list" where
  "body_leaves [] rest = rest"
| "body_leaves (Input keep specs # ss) rest = body_leaves ss (leave_unwanted specs rest)"
| "body_leaves (Assign name e # ss) rest = body_leaves ss rest"
| "body_leaves (CONSTRUCTORS # ss) rest = body_leaves ss rest"

text \<open>
  A section without an address of its own starts at the location counter, aligned for its
  strictest input section.
\<close>

definition section_align :: "stmt list \<Rightarrow> input_section list \<Rightarrow> nat" where
  "section_align body rest = fold (\<lambda>s. max (is_align s)) (body_takes body rest) 1"

definition section_start ::
  "expr option \<Rightarrow> expr option \<Rightarrow> stmt list \<Rightarrow> link_state \<Rightarrow> nat option" where
  "section_start vaddr al body st =
     (case vaddr of
        Some e \<Rightarrow> eval_expr st e
      | None \<Rightarrow>
          map_option (\<lambda>n. align_up (ls_dot st) (max n (section_align body (ls_rest st))))
            (case al of None \<Rightarrow> Some 1 | Some e \<Rightarrow> eval_expr st e))"

definition close_section :: "string \<Rightarrow> nat \<Rightarrow> expr option \<Rightarrow> link_state \<Rightarrow> link_state option" where
  "close_section name start at st =
     (let o' = \<lparr>os_name = name, os_vma = start, os_size = ls_dot st - start, os_lma = start\<rparr>
      in map_option (\<lambda>lma. st\<lparr>ls_outs := o'\<lparr>os_lma := lma\<rparr> # ls_outs st\<rparr>)
           (case at of None \<Rightarrow> Some start
            | Some e \<Rightarrow> eval_expr (st\<lparr>ls_outs := o' # ls_outs st\<rparr>) e))"

text \<open>Outside output sections an assignment may move the location counter either way.\<close>

fun exec_script :: "script \<Rightarrow> link_state \<Rightarrow> link_state option" where
  "exec_script (Stmt (Assign name e)) st =
     map_option (\<lambda>v. if name = ''.'' then st\<lparr>ls_dot := v\<rparr> else set_symbol name e v st)
       (eval_expr st e)"
| "exec_script (Stmt (Input keep specs)) st = None"
| "exec_script (Stmt CONSTRUCTORS) st = None"
| "exec_script (Output name vaddr at al body phdr) st =
     Option.bind (section_start vaddr al body st) (\<lambda>start.
     Option.bind (exec_body name body (st\<lparr>ls_dot := start\<rparr>)) (close_section name start at))"
| "exec_script (Discard body) st =
     Some (st\<lparr>ls_rest := body_leaves body (ls_rest st),
              ls_discarded := ls_discarded st @ body_takes body (ls_rest st)\<rparr>)"

fun link :: "script list \<Rightarrow> link_state \<Rightarrow> link_state option" where
  "link [] st = Some st"
| "link (s # ss) st = Option.bind (exec_script s st) (link ss)"

definition link_start :: "nat \<Rightarrow> (string \<Rightarrow> nat option) \<Rightarrow> input_section list \<Rightarrow> link_state" where
  "link_start start syms inputs =
     \<lparr>ls_dot = start, ls_syms = syms, ls_map = [], ls_rest = inputs, ls_discarded = [], ls_outs = []\<rparr>"

end
