(* ===== verification/Vmlinux_Lds.thy ===== *)
theory Vmlinux_Lds
  imports Linker_Script
begin

text \<open>
  The macros of \<open>vmlinux.lds.h\<close>, in the order of the file, as statement lists of the linker's
  script language. The preprocessor's symbols are a parameter: which options are defined, the
  constants an architecture sets, and the macros it may define before including the file.
\<close>

record lds_config =
  lc_config :: "string \<Rightarrow> bool"
  lc_PAGE_SIZE :: nat
  lc_THREAD_SIZE :: nat
  lc_FUNCTION_ALIGNMENT :: nat
  lc_LOAD_OFFSET :: nat
  lc_LOOKUP_BLOCK_SIZE :: nat
  lc_EMITS_PT_NOTE :: bool
  lc_RUNTIME_DISCARD_EXIT :: bool
  lc_RO_EXCEPTION_TABLE_ALIGN :: "nat option"
  lc_RO_AFTER_INIT_DATA :: "stmt list option"
  lc_KCFI_TRAPS :: "script list option"
  lc_BSS_FIRST_SECTIONS :: "stmt list option"

section \<open>Statements the macros are made of\<close>

definition label :: "string \<Rightarrow> stmt" where "label name = Assign name Dot"
definition align_dot :: "nat \<Rightarrow> stmt" where "align_dot n = Assign ''.'' (Align (Const n))"
definition input :: "string \<Rightarrow> stmt" where "input p = Input False [Pat p]"
definition inputs :: "string list \<Rightarrow> stmt" where "inputs ps = Input False (map Pat ps)"
definition KEEP :: "string \<Rightarrow> stmt" where "KEEP p = Input True [Pat p]"
definition KEEP_SORT :: "string \<Rightarrow> stmt" where "KEEP_SORT p = Input True [Sort p]"

text \<open>\<open>name : AT(ADDR(name) - LOAD_OFFSET) { ... }\<close> and \<open>name 0 : { ... }\<close>.\<close>

definition output_at :: "lds_config \<Rightarrow> string \<Rightarrow> stmt list \<Rightarrow> script" where
  "output_at c name body =
     Output name None (Some (Minus (Addr name) (Const (lc_LOAD_OFFSET c)))) None body []"

definition output_zero :: "string \<Rightarrow> string list \<Rightarrow> script" where
  "output_zero name ps = Output name (Some (Const 0)) None None [inputs ps] []"

lemmas stmt_defs = label_def align_dot_def input_def inputs_def KEEP_def KEEP_SORT_def

section \<open>Headers of the notes and names of the main sections\<close>

definition NOTES_HEADERS :: "lds_config \<Rightarrow> string" where
  "NOTES_HEADERS c = (if lc_EMITS_PT_NOTE c then '':text :note'' else [])"

definition NOTES_HEADERS_RESTORE :: "lds_config \<Rightarrow> script list" where
  "NOTES_HEADERS_RESTORE c =
     (if lc_EMITS_PT_NOTE c
      then [Output ''__restore_ph'' None None None [input ''.__restore_ph''] '':text''] else [])"

definition ALIGN_FUNCTION :: "lds_config \<Rightarrow> stmt list" where
  "ALIGN_FUNCTION c = [align_dot (lc_FUNCTION_ALIGNMENT c)]"

definition split_sections :: "lds_config \<Rightarrow> bool" where
  "split_sections c \<longleftrightarrow>
     lc_config c ''CONFIG_LD_DEAD_CODE_DATA_ELIMINATION'' \<or> lc_config c ''CONFIG_LTO_CLANG''"

definition TEXT_MAIN :: "lds_config \<Rightarrow> string list" where
  "TEXT_MAIN c = (if split_sections c then [''.text'', ''.text.[0-9a-zA-Z_]*''] else [''.text''])"

definition DATA_MAIN :: "lds_config \<Rightarrow> string list" where
  "DATA_MAIN c =
     (if split_sections c
      then [''.data'', ''.data.[0-9a-zA-Z_]*'', ''.data..L*'', ''.data..compoundliteral*'',
            ''.data.$__unnamed_*'', ''.data.$L*'']
      else [''.data''])"

definition SDATA_MAIN :: "lds_config \<Rightarrow> string list" where
  "SDATA_MAIN c = (if split_sections c then [''.sdata'', ''.sdata.[0-9a-zA-Z_]*''] else [''.sdata''])"

definition RODATA_MAIN :: "lds_config \<Rightarrow> string list" where
  "RODATA_MAIN c =
     (if split_sections c then [''.rodata'', ''.rodata.[0-9a-zA-Z_]*'', ''.rodata..L*'']
      else [''.rodata''])"

definition BSS_MAIN :: "lds_config \<Rightarrow> string list" where
  "BSS_MAIN c =
     (if split_sections c then [''.bss'', ''.bss.[0-9a-zA-Z_]*'', ''.bss..compoundliteral*'']
      else [''.bss''])"

definition SBSS_MAIN :: "lds_config \<Rightarrow> string list" where
  "SBSS_MAIN c = (if split_sections c then [''.sbss'', ''.sbss.[0-9a-zA-Z_]*''] else [''.sbss''])"

definition STRUCT_ALIGNMENT :: nat where "STRUCT_ALIGNMENT = 32"

definition STRUCT_ALIGN :: "stmt list" where "STRUCT_ALIGN = [align_dot STRUCT_ALIGNMENT]"

definition SCHED_DATA_SECTION :: "stmt list" where
  "SCHED_DATA_SECTION =
     STRUCT_ALIGN @
     [label ''__sched_class_highest'',
      input ''__stop_sched_class'',
      input ''__dl_sched_class'',
      input ''__rt_sched_class'',
      input ''__fair_sched_class'',
      input ''__yat_casched_sched_class'',
      input ''__idle_sched_class'',
      label ''__sched_class_lowest'']"

definition MEM_KEEP :: "lds_config \<Rightarrow> string \<Rightarrow> stmt list" where
  "MEM_KEEP c sec = (if lc_config c ''CONFIG_MEMORY_HOTPLUG'' then [input (''.mem'' @ sec)] else [])"

definition MEM_DISCARD :: "lds_config \<Rightarrow> string \<Rightarrow> stmt list" where
  "MEM_DISCARD c sec = (if lc_config c ''CONFIG_MEMORY_HOTPLUG'' then [] else [input (''.mem'' @ sec)])"

definition KEEP_PATCHABLE :: "lds_config \<Rightarrow> stmt list" where
  "KEEP_PATCHABLE c =
     (if lc_config c ''CONFIG_HAVE_DYNAMIC_FTRACE_NO_PATCHABLE'' then []
      else [KEEP ''__patchable_function_entries''])"

definition PATCHABLE_DISCARDS :: "lds_config \<Rightarrow> stmt list" where
  "PATCHABLE_DISCARDS c =
     (if lc_config c ''CONFIG_HAVE_DYNAMIC_FTRACE_NO_PATCHABLE''
      then [input ''__patchable_function_entries''] else [])"

definition FTRACE_STUB_HACK :: "lds_config \<Rightarrow> stmt list" where
  "FTRACE_STUB_HACK c =
     (if lc_config c ''CONFIG_ARCH_SUPPORTS_CFI_CLANG'' then []
      else [Assign ''ftrace_stub_graph'' (Sym ''ftrace_stub'')])"

definition MCOUNT_REC :: "lds_config \<Rightarrow> stmt list" where
  "MCOUNT_REC c =
     (if lc_config c ''CONFIG_FTRACE_MCOUNT_RECORD''
      then [align_dot 8, label ''__start_mcount_loc'', KEEP ''__mcount_loc''] @ KEEP_PATCHABLE c @
           [label ''__stop_mcount_loc''] @ FTRACE_STUB_HACK c @
           [Assign ''ftrace_ops_list_func'' (Sym ''arch_ftrace_ops_list_func'')]
      else if lc_config c ''CONFIG_FUNCTION_TRACER''
      then FTRACE_STUB_HACK c @ [Assign ''ftrace_ops_list_func'' (Sym ''arch_ftrace_ops_list_func'')]
      else [])"

section \<open>Sections between a start and a stop label\<close>

definition BOUNDED_SECTION_PRE_LABEL :: "string \<Rightarrow> string \<Rightarrow> string \<Rightarrow> string \<Rightarrow> stmt list" where
  "BOUNDED_SECTION_PRE_LABEL sec lbl BEGIN END =
     [label (BEGIN @ lbl), KEEP sec, label (END @ lbl)]"

definition BOUNDED_SECTION_POST_LABEL :: "string \<Rightarrow> string \<Rightarrow> string \<Rightarrow> string \<Rightarrow> stmt list" where
  "BOUNDED_SECTION_POST_LABEL sec lbl BEGIN END =
     [label (lbl @ BEGIN), KEEP sec, label (lbl @ END)]"

definition BOUNDED_SECTION_BY :: "string \<Rightarrow> string \<Rightarrow> stmt list" where
  "BOUNDED_SECTION_BY sec lbl = BOUNDED_SECTION_PRE_LABEL sec lbl ''__start'' ''__stop''"

definition BOUNDED_SECTION :: "string \<Rightarrow> stmt list" where
  "BOUNDED_SECTION sec = BOUNDED_SECTION_BY sec sec"

definition HEADERED_SECTION_PRE_LABEL ::
  "string \<Rightarrow> string \<Rightarrow> string \<Rightarrow> string \<Rightarrow> string \<Rightarrow> stmt list" where
  "HEADERED_SECTION_PRE_LABEL sec lbl BEGIN END HDR =
     [label (HDR @ lbl), KEEP (''.gnu.linkonce.'' @ sec)] @
     BOUNDED_SECTION_PRE_LABEL sec lbl BEGIN END"

definition HEADERED_SECTION_POST_LABEL ::
  "string \<Rightarrow> string \<Rightarrow> string \<Rightarrow> string \<Rightarrow> string \<Rightarrow> stmt list" where
  "HEADERED_SECTION_POST_LABEL sec lbl BEGIN END HDR =
     [label (lbl @ HDR), KEEP (''.gnu.linkonce.'' @ sec)] @
     BOUNDED_SECTION_POST_LABEL sec lbl BEGIN END"

lemmas bounded_defs = BOUNDED_SECTION_PRE_LABEL_def BOUNDED_SECTION_POST_LABEL_def
  BOUNDED_SECTION_BY_def BOUNDED_SECTION_def

definition LIKELY_PROFILE :: "lds_config \<Rightarrow> stmt list" where
  "LIKELY_PROFILE c =
     (if lc_config c ''CONFIG_TRACE_BRANCH_PROFILING''
      then BOUNDED_SECTION_BY ''_ftrace_annotated_branch'' ''_annotated_branch_profile'' else [])"

definition BRANCH_PROFILE :: "lds_config \<Rightarrow> stmt list" where
  "BRANCH_PROFILE c =
     (if lc_config c ''CONFIG_PROFILE_ALL_BRANCHES''
      then BOUNDED_SECTION_BY ''_ftrace_branch'' ''_branch_profile'' else [])"

definition KPROBE_BLACKLIST :: "lds_config \<Rightarrow> stmt list" where
  "KPROBE_BLACKLIST c =
     (if lc_config c ''CONFIG_KPROBES'' then align_dot 8 # BOUNDED_SECTION ''_kprobe_blacklist'' else [])"

definition ERROR_INJECT_WHITELIST :: "lds_config \<Rightarrow> stmt list" where
  "ERROR_INJECT_WHITELIST c =
     (if lc_config c ''CONFIG_FUNCTION_ERROR_INJECTION''
      then STRUCT_ALIGN @ BOUNDED_SECTION ''_error_injection_whitelist'' else [])"

definition FTRACE_EVENTS :: "lds_config \<Rightarrow> stmt list" where
  "FTRACE_EVENTS c =
     (if lc_config c ''CONFIG_EVENT_TRACING''
      then align_dot 8 # BOUNDED_SECTION ''_ftrace_events'' @
           BOUNDED_SECTION_BY ''_ftrace_eval_map'' ''_ftrace_eval_maps''
      else [])"

definition TRACE_PRINTKS :: "lds_config \<Rightarrow> stmt list" where
  "TRACE_PRINTKS c =
     (if lc_config c ''CONFIG_TRACING''
      then BOUNDED_SECTION_BY ''__trace_printk_fmt'' ''___trace_bprintk_fmt'' else [])"

definition TRACEPOINT_STR :: "lds_config \<Rightarrow> stmt list" where
  "TRACEPOINT_STR c =
     (if lc_config c ''CONFIG_TRACING''
      then BOUNDED_SECTION_BY ''__tracepoint_str'' ''___tracepoint_str'' else [])"

definition TRACE_SYSCALLS :: "lds_config \<Rightarrow> stmt list" where
  "TRACE_SYSCALLS c =
     (if lc_config c ''CONFIG_FTRACE_SYSCALLS''
      then align_dot 8 # BOUNDED_SECTION_BY ''__syscalls_metadata'' ''_syscalls_metadata'' else [])"

definition BPF_RAW_TP :: "lds_config \<Rightarrow> stmt list" where
  "BPF_RAW_TP c =
     (if lc_config c ''CONFIG_BPF_EVENTS''
      then STRUCT_ALIGN @ BOUNDED_SECTION_BY ''__bpf_raw_tp_map'' ''__bpf_raw_tp'' else [])"

definition EARLYCON_TABLE :: "lds_config \<Rightarrow> stmt list" where
  "EARLYCON_TABLE c =
     (if lc_config c ''CONFIG_SERIAL_EARLYCON''
      then align_dot 8 # BOUNDED_SECTION_POST_LABEL ''__earlycon_table'' ''__earlycon_table'' [] ''_end''
      else [])"

definition LSM_TABLE :: "lds_config \<Rightarrow> stmt list" where
  "LSM_TABLE c =
     (if lc_config c ''CONFIG_SECURITY''
      then align_dot 8 # BOUNDED_SECTION_PRE_LABEL ''.lsm_info.init'' ''_lsm_info'' ''__start'' ''__end''
      else [])"

definition EARLY_LSM_TABLE :: "lds_config \<Rightarrow> stmt list" where
  "EARLY_LSM_TABLE c =
     (if lc_config c ''CONFIG_SECURITY''
      then align_dot 8 #
           BOUNDED_SECTION_PRE_LABEL ''.early_lsm_info.init'' ''_early_lsm_info'' ''__start'' ''__end''
      else [])"

definition OF_TABLE :: "lds_config \<Rightarrow> string \<Rightarrow> string \<Rightarrow> stmt list" where
  "OF_TABLE c cfg name =
     (if lc_config c cfg
      then [align_dot 8, label (''__'' @ name @ ''_of_table''), KEEP (''__'' @ name @ ''_of_table''),
            KEEP (''__'' @ name @ ''_of_table_end'')]
      else [])"

definition TIMER_OF_TABLES :: "lds_config \<Rightarrow> stmt list" where
  "TIMER_OF_TABLES c = OF_TABLE c ''CONFIG_TIMER_OF'' ''timer''"
definition IRQCHIP_OF_MATCH_TABLE :: "lds_config \<Rightarrow> stmt list" where
  "IRQCHIP_OF_MATCH_TABLE c = OF_TABLE c ''CONFIG_IRQCHIP'' ''irqchip''"
definition CLK_OF_TABLES :: "lds_config \<Rightarrow> stmt list" where
  "CLK_OF_TABLES c = OF_TABLE c ''CONFIG_COMMON_CLK'' ''clk''"
definition RESERVEDMEM_OF_TABLES :: "lds_config \<Rightarrow> stmt list" where
  "RESERVEDMEM_OF_TABLES c = OF_TABLE c ''CONFIG_OF_RESERVED_MEM'' ''reservedmem''"
definition CPU_METHOD_OF_TABLES :: "lds_config \<Rightarrow> stmt list" where
  "CPU_METHOD_OF_TABLES c = OF_TABLE c ''CONFIG_SMP'' ''cpu_method''"
definition CPUIDLE_METHOD_OF_TABLES :: "lds_config \<Rightarrow> stmt list" where
  "CPUIDLE_METHOD_OF_TABLES c = OF_TABLE c ''CONFIG_CPU_IDLE'' ''cpuidle_method''"

definition ACPI_PROBE_TABLE :: "lds_config \<Rightarrow> string \<Rightarrow> stmt list" where
  "ACPI_PROBE_TABLE c name =
     (if lc_config c ''CONFIG_ACPI''
      then align_dot 8 #
           BOUNDED_SECTION_POST_LABEL (''__'' @ name @ ''_acpi_probe_table'')
             (''__'' @ name @ ''_acpi_probe_table'') [] ''_end''
      else [])"

definition THERMAL_TABLE :: "lds_config \<Rightarrow> string \<Rightarrow> stmt list" where
  "THERMAL_TABLE c name =
     (if lc_config c ''CONFIG_THERMAL''
      then align_dot 8 #
           BOUNDED_SECTION_POST_LABEL (''__'' @ name @ ''_thermal_table'')
             (''__'' @ name @ ''_thermal_table'') [] ''_end''
      else [])"

definition KERNEL_DTB :: "stmt list" where
  "KERNEL_DTB =
     STRUCT_ALIGN @ [label ''__dtb_start'', KEEP ''.dtb.init.rodata'', label ''__dtb_end'']"

definition KUNIT_TABLE :: "stmt list" where
  "KUNIT_TABLE =
     align_dot 8 # BOUNDED_SECTION_POST_LABEL ''.kunit_test_suites'' ''__kunit_suites'' ''_start'' ''_end''"

section \<open>Writable data\<close>

definition DATA_DATA :: "lds_config \<Rightarrow> stmt list" where
  "DATA_DATA c =
     [input ''.xiptext'', inputs (DATA_MAIN c), input ''.data..decrypted'', input ''.ref.data'',
      input ''.data..shared_aligned''] @
     MEM_KEEP c ''init.data*'' @
     [input ''.data.unlikely'', label ''__start_once'', input ''.data.once'', label ''__end_once''] @
     STRUCT_ALIGN @
     [input ''__tracepoints'', align_dot 8] @
     BOUNDED_SECTION_BY ''__dyndbg_classes'' ''___dyndbg_classes'' @
     BOUNDED_SECTION_BY ''__dyndbg'' ''___dyndbg'' @
     LIKELY_PROFILE c @ BRANCH_PROFILE c @ TRACE_PRINTKS c @ BPF_RAW_TP c @ TRACEPOINT_STR c @
     KUNIT_TABLE"

definition NOSAVE_DATA :: "lds_config \<Rightarrow> stmt list" where
  "NOSAVE_DATA c =
     [align_dot (lc_PAGE_SIZE c), label ''__nosave_begin'', input ''.data..nosave'',
      align_dot (lc_PAGE_SIZE c), label ''__nosave_end'']"

definition PAGE_ALIGNED_DATA :: "nat \<Rightarrow> stmt list" where
  "PAGE_ALIGNED_DATA page_align =
     [align_dot page_align, input ''.data..page_aligned'', align_dot page_align]"

definition READ_MOSTLY_DATA :: "nat \<Rightarrow> stmt list" where
  "READ_MOSTLY_DATA align = [align_dot align, input ''.data..read_mostly'', align_dot align]"

definition CACHELINE_ALIGNED_DATA :: "nat \<Rightarrow> stmt list" where
  "CACHELINE_ALIGNED_DATA align = [align_dot align, input ''.data..cacheline_aligned'']"

definition INIT_TASK_DATA :: "lds_config \<Rightarrow> nat \<Rightarrow> stmt list" where
  "INIT_TASK_DATA c align =
     [align_dot align, label ''__start_init_task'', label ''init_thread_union'', label ''init_stack'',
      KEEP ''.data..init_task'', KEEP ''.data..init_thread_info'',
      Assign ''.'' (Plus (Sym ''__start_init_task'') (Const (lc_THREAD_SIZE c))),
      label ''__end_init_task'']"

definition JUMP_TABLE_DATA :: "stmt list" where
  "JUMP_TABLE_DATA = align_dot 8 # BOUNDED_SECTION_BY ''__jump_table'' ''___jump_table''"

definition STATIC_CALL_DATA :: "lds_config \<Rightarrow> stmt list" where
  "STATIC_CALL_DATA c =
     (if lc_config c ''CONFIG_HAVE_STATIC_CALL_INLINE''
      then align_dot 8 # BOUNDED_SECTION_BY ''.static_call_sites'' ''_static_call_sites'' @
           BOUNDED_SECTION_BY ''.static_call_tramp_key'' ''_static_call_tramp_key''
      else [])"

definition RO_AFTER_INIT_DATA :: "lds_config \<Rightarrow> stmt list" where
  "RO_AFTER_INIT_DATA c =
     (case lc_RO_AFTER_INIT_DATA c of Some d \<Rightarrow> d
      | None \<Rightarrow>
          [align_dot 8, label ''__start_ro_after_init'', input ''.data..ro_after_init''] @
          JUMP_TABLE_DATA @ STATIC_CALL_DATA c @ [label ''__end_ro_after_init''])"

definition KCFI_TRAPS :: "lds_config \<Rightarrow> script list" where
  "KCFI_TRAPS c =
     (case lc_KCFI_TRAPS c of Some d \<Rightarrow> d
      | None \<Rightarrow>
          if lc_config c ''CONFIG_ARCH_USES_CFI_TRAPS''
          then [output_at c ''__kcfi_traps'' (BOUNDED_SECTION_BY ''.kcfi_traps'' ''___kcfi_traps'')]
          else [])"

section \<open>Sections that others are composed of\<close>

definition FW_LOADER_BUILT_IN_DATA :: "lds_config \<Rightarrow> script list" where
  "FW_LOADER_BUILT_IN_DATA c =
     (if lc_config c ''CONFIG_FW_LOADER''
      then [Output ''.builtin_fw'' None
              (Some (Minus (Addr ''.builtin_fw'') (Const (lc_LOAD_OFFSET c)))) (Some (Const 8))
              (BOUNDED_SECTION_PRE_LABEL ''.builtin_fw'' ''_builtin_fw'' ''__start'' ''__end'') []]
      else [])"

definition TRACEDATA :: "lds_config \<Rightarrow> script list" where
  "TRACEDATA c =
     (if lc_config c ''CONFIG_PM_TRACE''
      then [Stmt (align_dot 4),
            output_at c ''.tracedata''
              (BOUNDED_SECTION_POST_LABEL ''.tracedata'' ''__tracedata'' ''_start'' ''_end'')]
      else [])"

definition PRINTK_INDEX :: "lds_config \<Rightarrow> script list" where
  "PRINTK_INDEX c =
     (if lc_config c ''CONFIG_PRINTK_INDEX''
      then [output_at c ''.printk_index'' (BOUNDED_SECTION_BY ''.printk_index'' ''_printk_index'')]
      else [])"

definition EXCEPTION_TABLE :: "lds_config \<Rightarrow> nat \<Rightarrow> script list" where
  "EXCEPTION_TABLE c align =
     [Stmt (align_dot align), output_at c ''__ex_table'' (BOUNDED_SECTION_BY ''__ex_table'' ''___ex_table'')]"

definition RO_EXCEPTION_TABLE :: "lds_config \<Rightarrow> script list" where
  "RO_EXCEPTION_TABLE c =
     (case lc_RO_EXCEPTION_TABLE_ALIGN c of None \<Rightarrow> [] | Some align \<Rightarrow> EXCEPTION_TABLE c align)"

definition NOTES :: "lds_config \<Rightarrow> script list" where
  "NOTES c =
     [Discard [input ''.note.GNU-stack'', input ''.note.gnu.property''],
      Output ''.notes'' None (Some (Minus (Addr ''.notes'') (Const (lc_LOAD_OFFSET c)))) None
        (BOUNDED_SECTION_BY ''.note.*'' ''_notes'') (NOTES_HEADERS c)] @
     NOTES_HEADERS_RESTORE c"

definition BTF :: "lds_config \<Rightarrow> script list" where
  "BTF c =
     (if lc_config c ''CONFIG_DEBUG_INFO_BTF''
      then [output_at c ''.BTF'' (BOUNDED_SECTION_BY ''.BTF'' ''_BTF''), Stmt (align_dot 4),
            output_at c ''.BTF_ids'' [input ''.BTF_ids'']]
      else [])"

section \<open>Read-only data\<close>

definition PCI_FIXUPS :: "stmt list" where
  "PCI_FIXUPS =
     BOUNDED_SECTION_PRE_LABEL ''.pci_fixup_early'' ''_pci_fixups_early'' ''__start'' ''__end'' @
     BOUNDED_SECTION_PRE_LABEL ''.pci_fixup_header'' ''_pci_fixups_header'' ''__start'' ''__end'' @
     BOUNDED_SECTION_PRE_LABEL ''.pci_fixup_final'' ''_pci_fixups_final'' ''__start'' ''__end'' @
     BOUNDED_SECTION_PRE_LABEL ''.pci_fixup_enable'' ''_pci_fixups_enable'' ''__start'' ''__end'' @
     BOUNDED_SECTION_PRE_LABEL ''.pci_fixup_resume'' ''_pci_fixups_resume'' ''__start'' ''__end'' @
     BOUNDED_SECTION_PRE_LABEL ''.pci_fixup_suspend'' ''_pci_fixups_suspend'' ''__start'' ''__end'' @
     BOUNDED_SECTION_PRE_LABEL ''.pci_fixup_resume_early'' ''_pci_fixups_resume_early'' ''__start'' ''__end'' @
     BOUNDED_SECTION_PRE_LABEL ''.pci_fixup_suspend_late'' ''_pci_fixups_suspend_late'' ''__start'' ''__end''"

definition RODATA_SECTION :: "lds_config \<Rightarrow> stmt list" where
  "RODATA_SECTION c =
     [label ''__start_rodata'', input ''.rodata'', input ''.rodata.*''] @
     SCHED_DATA_SECTION @ RO_AFTER_INIT_DATA c @
     [align_dot 8] @ BOUNDED_SECTION_BY ''__tracepoints_ptrs'' ''___tracepoints_ptrs'' @
     [input ''__tracepoints_strings'']"

definition RO_DATA :: "lds_config \<Rightarrow> nat \<Rightarrow> script list" where
  "RO_DATA c align =
     [Stmt (align_dot align),
      output_at c ''.rodata'' (RODATA_SECTION c),
      output_at c ''.rodata1'' [input ''.rodata1''],
      output_at c ''.pci_fixup'' PCI_FIXUPS] @
     FW_LOADER_BUILT_IN_DATA c @ TRACEDATA c @ PRINTK_INDEX c @
     [output_at c ''__ksymtab''
        [label ''__start___ksymtab'', KEEP_SORT ''___ksymtab+*'', label ''__stop___ksymtab''],
      output_at c ''__ksymtab_gpl''
        [label ''__start___ksymtab_gpl'', KEEP_SORT ''___ksymtab_gpl+*'', label ''__stop___ksymtab_gpl''],
      output_at c ''__kcrctab''
        [label ''__start___kcrctab'', KEEP_SORT ''___kcrctab+*'', label ''__stop___kcrctab''],
      output_at c ''__kcrctab_gpl''
        [label ''__start___kcrctab_gpl'', KEEP_SORT ''___kcrctab_gpl+*'', label ''__stop___kcrctab_gpl''],
      output_at c ''__ksymtab_strings'' [input ''__ksymtab_strings''],
      output_at c ''__init_rodata'' (input ''.ref.rodata'' # MEM_KEEP c ''init.rodata''),
      output_at c ''__param'' (BOUNDED_SECTION_BY ''__param'' ''___param''),
      output_at c ''__modver'' (BOUNDED_SECTION_BY ''__modver'' ''___modver'')] @
     KCFI_TRAPS c @ RO_EXCEPTION_TABLE c @ NOTES c @ BTF c @
     [Stmt (align_dot align), Stmt (label ''__end_rodata'')]"

section \<open>Text\<close>

definition NOINSTR_TEXT :: "lds_config \<Rightarrow> stmt list" where
  "NOINSTR_TEXT c =
     ALIGN_FUNCTION c @
     [label ''__noinstr_text_start'', input ''.noinstr.text'', label ''__cpuidle_text_start'',
      input ''.cpuidle.text'', label ''__cpuidle_text_end'', label ''__noinstr_text_end'']"

definition TEXT_TEXT :: "lds_config \<Rightarrow> stmt list" where
  "TEXT_TEXT c =
     ALIGN_FUNCTION c @
     [inputs [''.text.hot'', ''.text.hot.*''], inputs (TEXT_MAIN c @ [''.text.fixup'']),
      inputs [''.text.unlikely'', ''.text.unlikely.*''],
      inputs [''.text.unknown'', ''.text.unknown.*'']] @
     NOINSTR_TEXT c @
     [input ''.ref.text'', inputs [''.text.asan.*'', ''.text.tsan.*'']] @
     MEM_KEEP c ''init.text*''"

text \<open>The text sections with a start and an end label, each aligned for functions.\<close>

definition text_section :: "lds_config \<Rightarrow> string \<Rightarrow> string \<Rightarrow> stmt list" where
  "text_section c sec lbl =
     ALIGN_FUNCTION c @ [label (lbl @ ''_text_start''), input sec, label (lbl @ ''_text_end'')]"

definition SCHED_TEXT :: "lds_config \<Rightarrow> stmt list" where
  "SCHED_TEXT c = text_section c ''.sched.text'' ''__sched''"
definition LOCK_TEXT :: "lds_config \<Rightarrow> stmt list" where
  "LOCK_TEXT c = text_section c ''.spinlock.text'' ''__lock''"
definition KPROBES_TEXT :: "lds_config \<Rightarrow> stmt list" where
  "KPROBES_TEXT c = text_section c ''.kprobes.text'' ''__kprobes''"
definition ENTRY_TEXT :: "lds_config \<Rightarrow> stmt list" where
  "ENTRY_TEXT c = text_section c ''.entry.text'' ''__entry''"
definition IRQENTRY_TEXT :: "lds_config \<Rightarrow> stmt list" where
  "IRQENTRY_TEXT c = text_section c ''.irqentry.text'' ''__irqentry''"
definition SOFTIRQENTRY_TEXT :: "lds_config \<Rightarrow> stmt list" where
  "SOFTIRQENTRY_TEXT c = text_section c ''.softirqentry.text'' ''__softirqentry''"
definition STATIC_CALL_TEXT :: "lds_config \<Rightarrow> stmt list" where
  "STATIC_CALL_TEXT c = text_section c ''.static_call.text'' ''__static_call''"

definition HEAD_TEXT :: "stmt list" where "HEAD_TEXT = [KEEP ''.head.text'']"

definition HEAD_TEXT_SECTION :: "lds_config \<Rightarrow> script list" where
  "HEAD_TEXT_SECTION c = [output_at c ''.head.text'' HEAD_TEXT]"

definition INIT_TASK_DATA_SECTION :: "lds_config \<Rightarrow> nat \<Rightarrow> script list" where
  "INIT_TASK_DATA_SECTION c align =
     [Stmt (align_dot align), output_at c ''.data..init_task'' (INIT_TASK_DATA c align)]"

section \<open>Init and exit sections\<close>

definition KERNEL_CTORS :: "lds_config \<Rightarrow> stmt list" where
  "KERNEL_CTORS c =
     (if lc_config c ''CONFIG_CONSTRUCTORS''
      then [align_dot 8, label ''__ctors_start'', KEEP_SORT ''.ctors.*'', KEEP ''.ctors'',
            KEEP_SORT ''.init_array.*'', KEEP ''.init_array'', label ''__ctors_end'']
      else [])"

definition KUNIT_INIT_TABLE :: "stmt list" where
  "KUNIT_INIT_TABLE =
     align_dot 8 #
     BOUNDED_SECTION_POST_LABEL ''.kunit_init_test_suites'' ''__kunit_init_suites'' ''_start'' ''_end''"

definition INIT_DATA :: "lds_config \<Rightarrow> stmt list" where
  "INIT_DATA c =
     [KEEP_SORT ''___kentry+*'', inputs [''.init.data'', ''.init.data.*'']] @
     MEM_DISCARD c ''init.data*'' @ KERNEL_CTORS c @ MCOUNT_REC c @
     [inputs [''.init.rodata'', ''.init.rodata.*'']] @
     FTRACE_EVENTS c @ TRACE_SYSCALLS c @ KPROBE_BLACKLIST c @ ERROR_INJECT_WHITELIST c @
     MEM_DISCARD c ''init.rodata'' @
     CLK_OF_TABLES c @ RESERVEDMEM_OF_TABLES c @ TIMER_OF_TABLES c @ CPU_METHOD_OF_TABLES c @
     CPUIDLE_METHOD_OF_TABLES c @ KERNEL_DTB @ IRQCHIP_OF_MATCH_TABLE c @
     ACPI_PROBE_TABLE c ''irqchip'' @ ACPI_PROBE_TABLE c ''timer'' @ THERMAL_TABLE c ''governor'' @
     EARLYCON_TABLE c @ LSM_TABLE c @ EARLY_LSM_TABLE c @ KUNIT_INIT_TABLE"

definition INIT_TEXT :: "lds_config \<Rightarrow> stmt list" where
  "INIT_TEXT c =
     [inputs [''.init.text'', ''.init.text.*''], input ''.text.startup''] @ MEM_DISCARD c ''init.text*''"

definition EXIT_DATA :: "stmt list" where
  "EXIT_DATA =
     [inputs [''.exit.data'', ''.exit.data.*''], inputs [''.fini_array'', ''.fini_array.*''],
      inputs [''.dtors'', ''.dtors.*'']]"

definition EXIT_TEXT :: "stmt list" where "EXIT_TEXT = [input ''.exit.text'', input ''.text.exit'']"

definition EXIT_CALL :: "stmt list" where "EXIT_CALL = [input ''.exitcall.exit'']"

section \<open>Uninitialised data\<close>

definition SBSS :: "lds_config \<Rightarrow> nat \<Rightarrow> script list" where
  "SBSS c sbss_align =
     [Stmt (align_dot sbss_align),
      output_at c ''.sbss'' [input ''.dynsbss'', inputs (SBSS_MAIN c), input ''.scommon'']]"

definition BSS_FIRST_SECTIONS :: "lds_config \<Rightarrow> stmt list" where
  "BSS_FIRST_SECTIONS c = (case lc_BSS_FIRST_SECTIONS c of Some d \<Rightarrow> d | None \<Rightarrow> [])"

definition BSS :: "lds_config \<Rightarrow> nat \<Rightarrow> script list" where
  "BSS c bss_align =
     [Stmt (align_dot bss_align),
      output_at c ''.bss''
        (BSS_FIRST_SECTIONS c @
         [align_dot (lc_PAGE_SIZE c), input ''.bss..page_aligned'', align_dot (lc_PAGE_SIZE c),
          input ''.dynbss'', inputs (BSS_MAIN c), input ''COMMON''])]"

section \<open>Debugging and ELF details\<close>

definition DWARF_DEBUG :: "script list" where
  "DWARF_DEBUG =
     [output_zero ''.debug'' [''.debug''], output_zero ''.line'' [''.line''],
      output_zero ''.debug_srcinfo'' [''.debug_srcinfo''],
      output_zero ''.debug_sfnames'' [''.debug_sfnames''],
      output_zero ''.debug_aranges'' [''.debug_aranges''],
      output_zero ''.debug_pubnames'' [''.debug_pubnames''],
      output_zero ''.debug_info'' [''.debug_info'', ''.gnu.linkonce.wi.*''],
      output_zero ''.debug_abbrev'' [''.debug_abbrev''], output_zero ''.debug_line'' [''.debug_line''],
      output_zero ''.debug_frame'' [''.debug_frame''], output_zero ''.debug_str'' [''.debug_str''],
      output_zero ''.debug_loc'' [''.debug_loc''], output_zero ''.debug_macinfo'' [''.debug_macinfo''],
      output_zero ''.debug_pubtypes'' [''.debug_pubtypes''],
      output_zero ''.debug_ranges'' [''.debug_ranges''],
      output_zero ''.debug_weaknames'' [''.debug_weaknames''],
      output_zero ''.debug_funcnames'' [''.debug_funcnames''],
      output_zero ''.debug_typenames'' [''.debug_typenames''],
      output_zero ''.debug_varnames'' [''.debug_varnames''],
      output_zero ''.debug_gnu_pubnames'' [''.debug_gnu_pubnames''],
      output_zero ''.debug_gnu_pubtypes'' [''.debug_gnu_pubtypes''],
      output_zero ''.debug_types'' [''.debug_types''], output_zero ''.debug_addr'' [''.debug_addr''],
      output_zero ''.debug_line_str'' [''.debug_line_str''],
      output_zero ''.debug_loclists'' [''.debug_loclists''],
      output_zero ''.debug_macro'' [''.debug_macro''], output_zero ''.debug_names'' [''.debug_names''],
      output_zero ''.debug_rnglists'' [''.debug_rnglists''],
      output_zero ''.debug_str_offsets'' [''.debug_str_offsets'']]"

definition STABS_DEBUG :: "script list" where
  "STABS_DEBUG =
     map (\<lambda>n. output_zero n [n])
       [''.stab'', ''.stabstr'', ''.stab.excl'', ''.stab.exclstr'', ''.stab.index'', ''.stab.indexstr'']"

definition ELF_DETAILS :: "script list" where
  "ELF_DETAILS = map (\<lambda>n. output_zero n [n]) [''.comment'', ''.symtab'', ''.strtab'', ''.shstrtab'']"

definition BUG_TABLE :: "lds_config \<Rightarrow> script list" where
  "BUG_TABLE c =
     (if lc_config c ''CONFIG_GENERIC_BUG''
      then [Stmt (align_dot 8),
            output_at c ''__bug_table'' (BOUNDED_SECTION_BY ''__bug_table'' ''___bug_table'')]
      else [])"

definition ORC_UNWIND_TABLE :: "lds_config \<Rightarrow> script list" where
  "ORC_UNWIND_TABLE c =
     (if lc_config c ''CONFIG_UNWINDER_ORC''
      then [output_at c ''.orc_header'' (BOUNDED_SECTION_BY ''.orc_header'' ''_orc_header''),
            Stmt (align_dot 4),
            output_at c ''.orc_unwind_ip'' (BOUNDED_SECTION_BY ''.orc_unwind_ip'' ''_orc_unwind_ip''),
            Stmt (align_dot 2),
            output_at c ''.orc_unwind'' (BOUNDED_SECTION_BY ''.orc_unwind'' ''_orc_unwind''),
            Stmt (Assign ''text_size'' (Minus (Sym ''_etext'') (Sym ''_stext''))),
            Stmt (align_dot 4),
            output_at c ''.orc_lookup''
              [label ''orc_lookup'',
               Assign ''.'' (Plus Dot (Times (Plus
                 (Quot (Minus (Plus (Sym ''text_size'') (Const (lc_LOOKUP_BLOCK_SIZE c))) (Const 1))
                    (Const (lc_LOOKUP_BLOCK_SIZE c))) (Const 1)) (Const 4))),
               label ''orc_lookup_end'']]
      else [])"

section \<open>Boot parameters and init calls\<close>

definition INIT_SETUP :: "nat \<Rightarrow> stmt list" where
  "INIT_SETUP initsetup_align =
     align_dot initsetup_align # BOUNDED_SECTION_POST_LABEL ''.init.setup'' ''__setup'' ''_start'' ''_end''"

definition INIT_CALLS_LEVEL :: "string \<Rightarrow> stmt list" where
  "INIT_CALLS_LEVEL level =
     [label (''__initcall'' @ level @ ''_start''), KEEP (''.initcall'' @ level @ ''.init''),
      KEEP (''.initcall'' @ level @ ''s.init'')]"

definition INIT_CALLS :: "stmt list" where
  "INIT_CALLS =
     [label ''__initcall_start'', KEEP ''.initcallearly.init''] @
     INIT_CALLS_LEVEL ''0'' @ INIT_CALLS_LEVEL ''1'' @ INIT_CALLS_LEVEL ''2'' @
     INIT_CALLS_LEVEL ''3'' @ INIT_CALLS_LEVEL ''4'' @ INIT_CALLS_LEVEL ''5'' @
     INIT_CALLS_LEVEL ''rootfs'' @ INIT_CALLS_LEVEL ''6'' @ INIT_CALLS_LEVEL ''7'' @
     [label ''__initcall_end'']"

definition CON_INITCALL :: "stmt list" where
  "CON_INITCALL =
     BOUNDED_SECTION_POST_LABEL ''.con_initcall.init'' ''__con_initcall'' ''_start'' ''_end''"

definition INIT_RAM_FS :: "lds_config \<Rightarrow> stmt list" where
  "INIT_RAM_FS c =
     (if lc_config c ''CONFIG_BLK_DEV_INITRD''
      then [align_dot 4, label ''__initramfs_start'', KEEP ''.init.ramfs'', align_dot 8,
            KEEP ''.init.ramfs.info'']
      else [])"

section \<open>Discarded sections\<close>

definition PERCPU_DECRYPTED_SECTION :: "lds_config \<Rightarrow> stmt list" where
  "PERCPU_DECRYPTED_SECTION c =
     (if lc_config c ''CONFIG_AMD_MEM_ENCRYPT''
      then [align_dot (lc_PAGE_SIZE c), input ''.data..percpu..decrypted'',
            align_dot (lc_PAGE_SIZE c)]
      else [])"

definition EXIT_DISCARDS :: "lds_config \<Rightarrow> stmt list" where
  "EXIT_DISCARDS c = (if lc_RUNTIME_DISCARD_EXIT c then [] else EXIT_TEXT @ EXIT_DATA)"

definition DISCARD_EH_FRAME :: "lds_config \<Rightarrow> stmt list" where
  "DISCARD_EH_FRAME c = (if lc_config c ''CONFIG_UNWIND_TABLES'' then [] else [input ''.eh_frame''])"

definition SANITIZER_DISCARDS :: "lds_config \<Rightarrow> stmt list" where
  "SANITIZER_DISCARDS c =
     (if lc_config c ''CONFIG_GCOV_KERNEL'' \<or> lc_config c ''CONFIG_KASAN_GENERIC'' \<or>
         lc_config c ''CONFIG_KCSAN''
      then (if lc_config c ''CONFIG_CONSTRUCTORS'' then []
            else [input ''.init_array'', input ''.init_array.*'']) @ DISCARD_EH_FRAME c
      else [])"

definition COMMON_DISCARDS :: "lds_config \<Rightarrow> stmt list" where
  "COMMON_DISCARDS c =
     SANITIZER_DISCARDS c @ PATCHABLE_DISCARDS c @
     [input ''.discard'', input ''.discard.*'', input ''.export_symbol'', input ''.modinfo'',
      input ''.gnu.version*'']"

definition DISCARDS :: "lds_config \<Rightarrow> script list" where
  "DISCARDS c = [Discard (EXIT_DISCARDS c @ EXIT_CALL @ COMMON_DISCARDS c)]"

section \<open>Per-CPU data\<close>

definition PERCPU_INPUT :: "lds_config \<Rightarrow> nat \<Rightarrow> stmt list" where
  "PERCPU_INPUT c cacheline =
     [label ''__per_cpu_start'', input ''.data..percpu..first'', align_dot (lc_PAGE_SIZE c),
      input ''.data..percpu..page_aligned'', align_dot cacheline,
      input ''.data..percpu..read_mostly'', align_dot cacheline,
      input ''.data..percpu'', input ''.data..percpu..shared_aligned''] @
     PERCPU_DECRYPTED_SECTION c @ [label ''__per_cpu_end'']"

definition PERCPU_VADDR :: "lds_config \<Rightarrow> nat \<Rightarrow> expr option \<Rightarrow> string \<Rightarrow> script list" where
  "PERCPU_VADDR c cacheline vaddr phdr =
     [Stmt (label ''__per_cpu_load''),
      Output ''.data..percpu'' vaddr
        (Some (Minus (Sym ''__per_cpu_load'') (Const (lc_LOAD_OFFSET c)))) None
        (PERCPU_INPUT c cacheline) phdr,
      Stmt (Assign ''.'' (Plus (Sym ''__per_cpu_load'') (Sizeof ''.data..percpu'')))]"

definition PERCPU_SECTION :: "lds_config \<Rightarrow> nat \<Rightarrow> script list" where
  "PERCPU_SECTION c cacheline =
     [Stmt (align_dot (lc_PAGE_SIZE c)),
      output_at c ''.data..percpu'' (label ''__per_cpu_load'' # PERCPU_INPUT c cacheline)]"

section \<open>The sections of a typical script\<close>

definition RW_DATA_BODY :: "lds_config \<Rightarrow> nat \<Rightarrow> nat \<Rightarrow> nat \<Rightarrow> stmt list" where
  "RW_DATA_BODY c cacheline pagealigned inittask =
     INIT_TASK_DATA c inittask @ NOSAVE_DATA c @ PAGE_ALIGNED_DATA pagealigned @
     CACHELINE_ALIGNED_DATA cacheline @ READ_MOSTLY_DATA cacheline @ DATA_DATA c @ [CONSTRUCTORS]"

definition RW_DATA :: "lds_config \<Rightarrow> nat \<Rightarrow> nat \<Rightarrow> nat \<Rightarrow> script list" where
  "RW_DATA c cacheline pagealigned inittask =
     [Stmt (align_dot (lc_PAGE_SIZE c)),
      output_at c ''.data'' (RW_DATA_BODY c cacheline pagealigned inittask)] @
     BUG_TABLE c"

definition INIT_TEXT_SECTION :: "lds_config \<Rightarrow> nat \<Rightarrow> script list" where
  "INIT_TEXT_SECTION c inittext_align =
     [Stmt (align_dot inittext_align),
      output_at c ''.init.text'' ([label ''_sinittext''] @ INIT_TEXT c @ [label ''_einittext''])]"

definition INIT_DATA_SECTION :: "lds_config \<Rightarrow> nat \<Rightarrow> script list" where
  "INIT_DATA_SECTION c initsetup_align =
     [output_at c ''.init.data''
        (INIT_DATA c @ INIT_SETUP initsetup_align @ INIT_CALLS @ CON_INITCALL @ INIT_RAM_FS c)]"

definition BSS_SECTION :: "lds_config \<Rightarrow> nat \<Rightarrow> nat \<Rightarrow> nat \<Rightarrow> script list" where
  "BSS_SECTION c sbss_align bss_align stop_align =
     [Stmt (align_dot sbss_align), Stmt (label ''__bss_start'')] @
     SBSS c sbss_align @ BSS c bss_align @
     [Stmt (align_dot stop_align), Stmt (label ''__bss_stop'')]"

end
