(* ===== verification/Linker_Correct.thy ===== *)
theory Linker_Correct
  imports Linker_Script
begin

text \<open>
  What a script promises about the link map: the entries of an output section are in address
  order, a section is placed by the first statement that matches it, and the labels keep the
  value of the location counter at their place. Reasoning about a layout is then reasoning about
  the positions of statements.
\<close>

section \<open>Alignment\<close>

lemma align_up_ge [simp]: "a \<le> align_up a n"
proof (cases "n \<le> 1")
  case False
  have "(a + n - 1) mod n < n" using False by simp
  moreover have "(a + n - 1) div n * n + (a + n - 1) mod n = a + n - 1" by (rule div_mult_mod_eq)
  ultimately have "a \<le> (a + n - 1) div n * n" using False by linarith
  then show ?thesis by (simp add: align_up_def)
qed (simp add: align_up_def)

lemma align_up_not_less [simp]: "\<not> align_up a n < a"
  by (simp add: not_less)

lemma align_up_dvd [simp]: "n \<noteq> 0 \<Longrightarrow> n dvd align_up a n"
  by (cases "n = 1") (auto simp: align_up_def)

lemma align_up_same: "n dvd a \<Longrightarrow> align_up a n = a"
proof -
  assume "n dvd a"
  then obtain k where a: "a = n * k" ..
  show ?thesis
  proof (cases "n \<le> 1")
    case False
    have "(n * k + n - 1) div n = k"
      using False by (intro div_nat_eqI) (simp_all add: algebra_simps)
    then show ?thesis using False by (simp add: align_up_def a mult.commute)
  qed (simp add: align_up_def)
qed

section \<open>Runs of the link map\<close>

fun map_run :: "nat \<Rightarrow> map_entry list \<Rightarrow> nat \<Rightarrow> bool" where
  "map_run dot [] dot' \<longleftrightarrow> dot' = dot"
| "map_run dot (Placed out s a # es) dot' \<longleftrightarrow>
     a = align_up dot (is_align s) \<and> map_run (a + is_size s) es dot'"
| "map_run dot (Label n v # es) dot' \<longleftrightarrow> v = dot \<and> map_run dot es dot'"
| "map_run dot (Moved v # es) dot' \<longleftrightarrow> dot \<le> v \<and> map_run v es dot'"

fun entry_addr :: "map_entry \<Rightarrow> nat" where
  "entry_addr (Placed out s a) = a"
| "entry_addr (Label n v) = v"
| "entry_addr (Moved v) = v"

fun entry_end :: "map_entry \<Rightarrow> nat" where
  "entry_end (Placed out s a) = a + is_size s"
| "entry_end (Label n v) = v"
| "entry_end (Moved v) = v"

lemma map_run_append:
  "map_run dot (xs @ ys) dot' \<longleftrightarrow> (\<exists>d. map_run dot xs d \<and> map_run d ys dot')"
  by (induction dot xs dot' rule: map_run.induct) auto

lemma map_run_bounds:
  assumes "map_run dot es dot'"
  shows "dot \<le> dot'" "e \<in> set es \<Longrightarrow> dot \<le> entry_addr e" "e \<in> set es \<Longrightarrow> entry_end e \<le> dot'"
proof -
  have "dot \<le> dot' \<and> (\<forall>e \<in> set es. dot \<le> entry_addr e \<and> entry_end e \<le> dot')"
    using assms
  proof (induction dot es dot' rule: map_run.induct)
    case (2 dot out s a es dot')
    have "dot \<le> a" "a + is_size s \<le> dot'" "\<forall>e \<in> set es. a + is_size s \<le> entry_addr e \<and> entry_end e \<le> dot'"
      using 2 align_up_ge [of dot "is_align s"] by auto
    then show ?case by (auto intro: order_trans add_leD1)
  qed auto
  then show "dot \<le> dot'" "e \<in> set es \<Longrightarrow> dot \<le> entry_addr e" "e \<in> set es \<Longrightarrow> entry_end e \<le> dot'"
    by blast+
qed

lemma map_run_order:
  assumes "map_run dot (xs @ ys) dot'" "e \<in> set xs" "f \<in> set ys"
  shows "entry_end e \<le> entry_addr f"
  using assms map_run_bounds by (fastforce simp: map_run_append)

section \<open>The first statement that matches\<close>

fun stmt_wants :: "stmt \<Rightarrow> input_section \<Rightarrow> bool" where
  "stmt_wants (Input keep specs) s \<longleftrightarrow> wanted specs s"
| "stmt_wants (Assign n e) s \<longleftrightarrow> False"
| "stmt_wants CONSTRUCTORS s \<longleftrightarrow> False"

fun match_index :: "stmt list \<Rightarrow> input_section \<Rightarrow> nat option" where
  "match_index [] s = None"
| "match_index (x # xs) s = (if stmt_wants x s then Some 0 else map_option Suc (match_index xs s))"

abbreviation unwanted :: "stmt list \<Rightarrow> input_section \<Rightarrow> bool" where
  "unwanted body s \<equiv> list_all (\<lambda>x. \<not> stmt_wants x s) body"

lemma match_index_append:
  "match_index (xs @ ys) s =
     (case match_index xs s of Some k \<Rightarrow> Some k | None \<Rightarrow> map_option ((+) (length xs)) (match_index ys s))"
proof (induction xs)
  case Nil
  then show ?case by (cases "match_index ys s") auto
qed (auto simp: option.map_comp o_def split: option.split intro!: option.map_cong)

lemma match_index_None [simp]: "match_index xs s = None \<longleftrightarrow> unwanted xs s"
  by (induction xs) auto

lemma match_index_less: "match_index xs s = Some k \<Longrightarrow> k < length xs"
  by (induction xs arbitrary: k) (auto split: if_splits)

lemma match_indexI:
  assumes "k < length xs" "stmt_wants (xs ! k) s" "unwanted (take k xs) s"
  shows "match_index xs s = Some k"
  using assms by (induction xs arbitrary: k) (auto simp: nth_Cons take_Cons split: nat.splits)

lemma match_indexD:
  assumes "match_index xs s = Some k"
  shows "stmt_wants (xs ! k) s" "unwanted (take k xs) s"
proof -
  have "stmt_wants (xs ! k) s \<and> unwanted (take k xs) s"
    using assms by (induction xs arbitrary: k) (auto split: if_splits)
  then show "stmt_wants (xs ! k) s" "unwanted (take k xs) s" by auto
qed

lemma set_body_leaves: "set (body_leaves body rest) = {s \<in> set rest. unwanted body s}"
  by (induction body rest rule: body_leaves.induct) (auto simp: leave_unwanted_def)

lemma set_take_wanted [simp]: "set (take_wanted specs rest) = {s \<in> set rest. wanted specs s}"
  by (auto simp: take_wanted_def Let_def)

section \<open>Segments: what each statement contributes\<close>

fun entry_tag :: "map_entry \<Rightarrow> (string \<times> input_section) + string" where
  "entry_tag (Placed out s a) = Inl (out, s)"
| "entry_tag (Label n v) = Inr n"
| "entry_tag (Moved v) = Inr ''.''"

fun stmt_tags :: "string \<Rightarrow> stmt \<Rightarrow> input_section list \<Rightarrow> ((string \<times> input_section) + string) list" where
  "stmt_tags out (Input keep specs) rest = map (\<lambda>s. Inl (out, s)) (take_wanted specs rest)"
| "stmt_tags out (Assign n e) rest = (if n = ''.'' then [Inr n] else if e = Dot then [Inr n] else [])"
| "stmt_tags out CONSTRUCTORS rest = []"

definition laid_out ::
  "string \<Rightarrow> stmt list \<Rightarrow> nat \<Rightarrow> input_section list \<Rightarrow> map_entry list list \<Rightarrow> nat \<Rightarrow> bool" where
  "laid_out out body dot rest segs dot' \<longleftrightarrow>
     length segs = length body \<and> map_run dot (concat segs) dot' \<and>
     (\<forall>k < length body. map entry_tag (segs ! k) =
        stmt_tags out (body ! k) (body_leaves (take k body) rest))"

lemma place_simps [simp]:
  "ls_dot (place out s st) = align_up (ls_dot st) (is_align s) + is_size s"
  "ls_map (place out s st) = ls_map st @ [Placed out s (align_up (ls_dot st) (is_align s))]"
  "ls_syms (place out s st) = ls_syms st"
  by (simp_all add: place_def Let_def)

lemma fold_place:
  "\<exists>es. ls_map (fold (place out) ss st) = ls_map st @ es \<and>
     map_run (ls_dot st) es (ls_dot (fold (place out) ss st)) \<and>
     map entry_tag es = map (\<lambda>s. Inl (out, s)) ss \<and>
     ls_syms (fold (place out) ss st) = ls_syms st"
proof (induction ss arbitrary: st)
  case (Cons s ss)
  let ?a = "align_up (ls_dot st) (is_align s)"
  obtain es where "ls_map (fold (place out) ss (place out s st)) = ls_map (place out s st) @ es"
    "map_run (ls_dot (place out s st)) es (ls_dot (fold (place out) ss (place out s st)))"
    "map entry_tag es = map (\<lambda>s. Inl (out, s)) ss"
    "ls_syms (fold (place out) ss (place out s st)) = ls_syms (place out s st)"
    using Cons by blast
  then show ?case
    by (intro exI [of _ "Placed out s ?a # es"]) simp
qed simp

lemma fold_place_syms [simp]: "ls_syms (fold (place out) ss st) = ls_syms st"
  by (induction ss arbitrary: st) simp_all

lemma exec_stmt_segment:
  assumes "exec_stmt out x st = Some st'"
  shows "\<exists>es. ls_map st' = ls_map st @ es \<and> map_run (ls_dot st) es (ls_dot st') \<and>
           map entry_tag es = stmt_tags out x (ls_rest st) \<and> ls_rest st' = body_leaves [x] (ls_rest st)"
proof (cases x)
  case (Input keep specs)
  with assms fold_place [of out "take_wanted specs (ls_rest st)" st] show ?thesis by auto
next
  case (Assign n e)
  with assms show ?thesis by (auto simp: set_symbol_def split: option.splits if_splits)
qed (use assms in simp)

lemma body_leaves_Cons: "body_leaves (x # xs) rest = body_leaves xs (body_leaves [x] rest)"
  by (cases x) simp_all

fun assigned :: "stmt list \<Rightarrow> string list" where
  "assigned [] = []"
| "assigned (Assign n e # xs) = n # assigned xs"
| "assigned (Input keep specs # xs) = assigned xs"
| "assigned (CONSTRUCTORS # xs) = assigned xs"

lemma assigned_append [simp]: "assigned (xs @ ys) = assigned xs @ assigned ys"
  by (induction xs rule: assigned.induct) simp_all

lemma exec_stmt_syms:
  "exec_stmt out x st = Some st' \<Longrightarrow> n \<notin> set (assigned [x]) \<Longrightarrow> ls_syms st' n = ls_syms st n"
  by (cases x) (auto simp: set_symbol_def split: option.splits if_splits)

lemma exec_body_syms:
  "exec_body out body st = Some st' \<Longrightarrow> n \<notin> set (assigned body) \<Longrightarrow> ls_syms st' n = ls_syms st n"
proof (induction body arbitrary: st)
  case (Cons x xs)
  have "assigned (x # xs) = assigned [x] @ assigned xs" by (cases x) simp_all
  with Cons exec_stmt_syms [of out x st] show ?case by (auto simp: bind_eq_Some_conv)
qed simp

text \<open>A label that nothing assigns again keeps the address at its place.\<close>

definition labels_kept ::
  "stmt list \<Rightarrow> map_entry list list \<Rightarrow> (string \<Rightarrow> nat option) \<Rightarrow> bool" where
  "labels_kept body segs syms \<longleftrightarrow>
     (\<forall>k < length body. \<forall>n. body ! k = Assign n Dot \<longrightarrow> n \<noteq> ''.'' \<longrightarrow>
        n \<notin> set (assigned (drop (Suc k) body)) \<longrightarrow> (\<exists>v. segs ! k = [Label n v] \<and> syms n = Some v))"

lemma labels_keptD:
  "labels_kept body segs syms \<Longrightarrow> k < length body \<Longrightarrow> body ! k = Assign n Dot \<Longrightarrow> n \<noteq> ''.'' \<Longrightarrow>
   n \<notin> set (assigned (drop (Suc k) body)) \<Longrightarrow> \<exists>v. segs ! k = [Label n v] \<and> syms n = Some v"
  unfolding labels_kept_def by blast

lemma exec_body_segments:
  assumes "exec_body out body st = Some st'"
  obtains segs where "ls_map st' = ls_map st @ concat segs"
    "laid_out out body (ls_dot st) (ls_rest st) segs (ls_dot st')"
    "ls_rest st' = body_leaves body (ls_rest st)" "labels_kept body segs (ls_syms st')"
proof -
  have "\<exists>segs. ls_map st' = ls_map st @ concat segs \<and>
           laid_out out body (ls_dot st) (ls_rest st) segs (ls_dot st') \<and>
           ls_rest st' = body_leaves body (ls_rest st) \<and> labels_kept body segs (ls_syms st')"
    using assms
  proof (induction body arbitrary: st)
    case Nil
    then show ?case by (intro exI [of _ "[]"]) (simp add: laid_out_def labels_kept_def)
  next
    case (Cons x xs)
    then obtain st1 where st1: "exec_stmt out x st = Some st1" "exec_body out xs st1 = Some st'"
      by (auto simp: bind_eq_Some_conv)
    obtain es where es: "ls_map st1 = ls_map st @ es" "map_run (ls_dot st) es (ls_dot st1)"
      "map entry_tag es = stmt_tags out x (ls_rest st)" "ls_rest st1 = body_leaves [x] (ls_rest st)"
      using exec_stmt_segment [OF st1(1)] by blast
    obtain segs where segs: "ls_map st' = ls_map st1 @ concat segs"
      "laid_out out xs (ls_dot st1) (ls_rest st1) segs (ls_dot st')"
      "ls_rest st' = body_leaves xs (ls_rest st1)" "labels_kept xs segs (ls_syms st')"
      using Cons.IH [OF st1(2)] by blast
    have "map entry_tag ((es # segs) ! k) =
        stmt_tags out ((x # xs) ! k) (body_leaves (take k (x # xs)) (ls_rest st))"
      if "k < Suc (length xs)" for k
      using that es segs(2) body_leaves_Cons [of x "take (k - 1) xs" "ls_rest st"]
      by (cases k) (auto simp: laid_out_def)
    then have "laid_out out (x # xs) (ls_dot st) (ls_rest st) (es # segs) (ls_dot st')"
      using es(2) segs(2) by (auto simp: laid_out_def map_run_append)
    moreover have "\<exists>v. es = [Label n v] \<and> ls_syms st' n = Some v"
      if "x = Assign n Dot" "n \<noteq> ''.''" "n \<notin> set (assigned xs)" for n
      using that st1 es(1) exec_body_syms [OF st1(2) that(3)] by (auto simp: set_symbol_def)
    then have "labels_kept (x # xs) (es # segs) (ls_syms st')"
      using segs(4) by (auto simp: labels_kept_def nth_Cons split: nat.splits)
    ultimately show ?case
      using es segs body_leaves_Cons [of x xs "ls_rest st"]
      by (intro exI [of _ "es # segs"]) simp
  qed
  then show thesis using that by blast
qed

section \<open>Bodies that always link\<close>

text \<open>
  Statements that can fail are assignments over undefined symbols and moves of the location
  counter to an address computed from symbols.
\<close>

fun plain_stmt :: "string list \<Rightarrow> stmt \<Rightarrow> bool" where
  "plain_stmt syms (Assign n e) \<longleftrightarrow>
     (if n = ''.'' then case e of Align (Const k) \<Rightarrow> True | _ \<Rightarrow> False
      else case e of Dot \<Rightarrow> True | Sym m \<Rightarrow> m \<in> set syms | _ \<Rightarrow> False)"
| "plain_stmt syms (Input keep specs) \<longleftrightarrow> True"
| "plain_stmt syms CONSTRUCTORS \<longleftrightarrow> True"

lemma exec_stmt_plain:
  assumes "plain_stmt syms x" "set syms \<subseteq> dom (ls_syms st)"
  obtains st' where "exec_stmt out x st = Some st'" "set syms \<subseteq> dom (ls_syms st')"
proof (cases x)
  case (Input keep specs)
  with assms that show thesis by auto
next
  case (Assign n e)
  have defined: "\<exists>v. ls_syms st m = Some v" if "m \<in> set syms" for m using assms(2) that by blast
  have "\<exists>v. eval_expr st e = Some v \<and> (n = ''.'' \<longrightarrow> ls_dot st \<le> v)"
    using assms(1) Assign by (auto split: if_splits expr.splits dest: defined)
  then obtain v where "eval_expr st e = Some v" "n = ''.'' \<longrightarrow> ls_dot st \<le> v" by blast
  with Assign assms(2) that show thesis by (cases "n = ''.''") (auto simp: set_symbol_def)
qed (use assms that in simp)

lemma exec_body_plain:
  assumes "list_all (plain_stmt syms) body" "set syms \<subseteq> dom (ls_syms st)"
  obtains st' where "exec_body out body st = Some st'" "set syms \<subseteq> dom (ls_syms st')"
proof -
  have "\<exists>st'. exec_body out body st = Some st' \<and> set syms \<subseteq> dom (ls_syms st')" using assms
  proof (induction body arbitrary: st)
    case (Cons x xs)
    then obtain st1 where "exec_stmt out x st = Some st1" "set syms \<subseteq> dom (ls_syms st1)"
      by (metis exec_stmt_plain list.pred_inject(2))
    with Cons show ?case by simp
  qed simp
  with that show thesis by blast
qed

lemma exec_body_append:
  "exec_body out (xs @ ys) st = Option.bind (exec_body out xs st) (exec_body out ys)"
  by (induction xs arbitrary: st) (auto split: bind_split)

section \<open>Positions in the layout\<close>

lemma laid_out_order:
  assumes "laid_out out body dot rest segs dot'" "i < j" "j < length body"
    and "e \<in> set (segs ! i)" "f \<in> set (segs ! j)"
  shows "entry_end e \<le> entry_addr f"
proof -
  have len: "length segs = length body" and run: "map_run dot (concat segs) dot'"
    using assms(1) by (auto simp: laid_out_def)
  have "concat segs = concat (take j segs) @ concat (drop j segs)"
    by (metis append_take_drop_id concat_append)
  moreover have "segs ! i \<in> set (take j segs)"
    using assms(2,3) len by (auto simp: in_set_conv_nth intro!: exI [of _ i])
  then have "e \<in> set (concat (take j segs))" using assms(4) by auto
  moreover have "f \<in> set (concat (drop j segs))"
    using assms(3,5) len by (auto simp: Cons_nth_drop_Suc [symmetric])
  ultimately show ?thesis using run by (metis map_run_order)
qed

lemma laid_out_bounds:
  assumes "laid_out out body dot rest segs dot'" "k < length body" "e \<in> set (segs ! k)"
  shows "dot \<le> entry_addr e" "entry_end e \<le> dot'"
proof -
  have "e \<in> set (concat segs)" "map_run dot (concat segs) dot'"
    using assms nth_mem [of k segs] by (auto simp: laid_out_def)
  then show "dot \<le> entry_addr e" "entry_end e \<le> dot'" using map_run_bounds(2,3) by blast+
qed

lemma laid_out_placed:
  assumes "laid_out out body dot rest segs dot'" "Placed out' s a \<in> set (concat segs)"
  obtains k where "match_index body s = Some k" "Placed out' s a \<in> set (segs ! k)" "out' = out" "s \<in> set rest"
proof -
  obtain k where k: "k < length body" "Placed out' s a \<in> set (segs ! k)"
    using assms by (fastforce simp: laid_out_def in_set_conv_nth)
  then have tag: "Inl (out', s) \<in> set (stmt_tags out (body ! k) (body_leaves (take k body) rest))"
    using assms(1) unfolding laid_out_def
    by (metis (no_types) entry_tag.simps(1) image_eqI list.set_map)
  then obtain keep specs where x: "body ! k = Input keep specs"
    by (cases "body ! k") (auto split: if_splits)
  have "out' = out" "s \<in> set rest" "stmt_wants (body ! k) s" "unwanted (take k body) s"
    using tag by (auto simp: x set_body_leaves)
  with match_indexI [OF k(1)] k(2) that show thesis by blast
qed

lemma laid_out_places:
  assumes "laid_out out body dot rest segs dot'" "match_index body s = Some k" "s \<in> set rest"
  obtains a where "Placed out s a \<in> set (segs ! k)"
proof -
  have k: "k < length body" by (rule match_index_less [OF assms(2)])
  obtain keep specs where x: "body ! k = Input keep specs" "wanted specs s"
    using match_indexD(1) [OF assms(2)] by (cases "body ! k") auto
  have "Inl (out, s) \<in> set (map entry_tag (segs ! k))"
    using assms(1) k x match_indexD(2) [OF assms(2)] assms(3)
    by (auto simp: laid_out_def set_body_leaves)
  then obtain e where e: "e \<in> set (segs ! k)" "entry_tag e = Inl (out, s)"
    by (metis (no_types) imageE list.set_map)
  from e(2) obtain a where "e = Placed out s a" by (cases e) auto
  with e that show thesis by blast
qed

lemma laid_out_label:
  assumes "laid_out out body dot rest segs dot'" "k < length body" "body ! k = Assign n Dot" "n \<noteq> ''.''"
  obtains v where "segs ! k = [Label n v]"
proof -
  have "map entry_tag (segs ! k) = [Inr n]" using assms by (auto simp: laid_out_def)
  then obtain e where e: "segs ! k = [e]" "entry_tag e = Inr n" by auto
  then obtain v where "e = Label n v" using assms(4) by (cases e) auto
  with e that show thesis by blast
qed

section \<open>The layout of a body\<close>

text \<open>The facts clients use: what is placed, in which order, and between which labels.\<close>

lemma body_placed:
  assumes "exec_body out body st = Some st'" "ls_map st = []" "Placed out' s a \<in> set (ls_map st')"
  shows "out' = out" "s \<in> set (ls_rest st)" "\<not> unwanted body s"
proof -
  obtain segs where "ls_map st' = concat segs"
    and laid: "laid_out out body (ls_dot st) (ls_rest st) segs (ls_dot st')"
    using exec_body_segments [OF assms(1)] assms(2) by auto
  with assms(3) have "Placed out' s a \<in> set (concat segs)" by simp
  from laid_out_placed [OF laid this] obtain k
    where "match_index body s = Some k" and found: "out' = out" "s \<in> set (ls_rest st)"
    by metis
  then have "match_index body s \<noteq> None" by simp
  with found show "out' = out" "s \<in> set (ls_rest st)" "\<not> unwanted body s"
    by (simp_all only: match_index_None not_False_eq_True)
qed

lemma body_places:
  assumes "exec_body out body st = Some st'" "s \<in> set (ls_rest st)" "\<not> unwanted body s"
  shows "\<exists>a. Placed out s a \<in> set (ls_map st')"
proof -
  obtain k where k: "match_index body s = Some k"
    using assms(3) by (cases "match_index body s") simp_all
  obtain segs where segs: "ls_map st' = ls_map st @ concat segs"
    "laid_out out body (ls_dot st) (ls_rest st) segs (ls_dot st')"
    using exec_body_segments [OF assms(1)] by blast
  obtain a where "Placed out s a \<in> set (segs ! k)"
    by (rule laid_out_places [OF segs(2) k assms(2)])
  moreover have "k < length segs"
    using match_index_less [OF k] segs(2) by (simp add: laid_out_def)
  ultimately show ?thesis using nth_mem segs(1) by fastforce
qed

lemma body_order:
  assumes "exec_body out body st = Some st'" "ls_map st = []"
    and "Placed o1 s a \<in> set (ls_map st')" "Placed o2 t b \<in> set (ls_map st')"
    and "match_index body s = Some i" "match_index body t = Some j" "i < j"
  shows "a + is_size s \<le> b"
proof -
  obtain segs where map: "ls_map st' = concat segs"
    and laid: "laid_out out body (ls_dot st) (ls_rest st) segs (ls_dot st')"
    using exec_body_segments [OF assms(1)] assms(2) by auto
  have "Placed o1 s a \<in> set (segs ! i)"
    using laid_out_placed [OF laid assms(3) [unfolded map]] assms(5) by auto
  moreover have "Placed o2 t b \<in> set (segs ! j)"
    using laid_out_placed [OF laid assms(4) [unfolded map]] assms(6) by auto
  ultimately show ?thesis
    using laid_out_order [OF laid assms(7) match_index_less [OF assms(6)]] by fastforce
qed

lemma body_dot:
  assumes "exec_body out body st = Some st'"
  shows "ls_dot st \<le> ls_dot st'"
proof -
  obtain segs where "laid_out out body (ls_dot st) (ls_rest st) segs (ls_dot st')"
    using exec_body_segments [OF assms] by blast
  then show ?thesis using map_run_bounds(1) by (auto simp: laid_out_def)
qed

lemma label_position:
  assumes exec: "exec_body out (A @ Assign x Dot # B) st = Some st'" "ls_map st = []"
    and x: "x \<noteq> ''.''" "x \<notin> set (assigned B)"
  obtains v where "ls_syms st' x = Some v"
    "\<And>o' s a. Placed o' s a \<in> set (ls_map st') \<Longrightarrow> \<not> unwanted A s \<Longrightarrow> a + is_size s \<le> v"
    "\<And>o' s a. Placed o' s a \<in> set (ls_map st') \<Longrightarrow> unwanted A s \<Longrightarrow> v \<le> a"
proof -
  let ?body = "A @ Assign x Dot # B"
  obtain segs where map: "ls_map st' = concat segs"
    and laid: "laid_out out ?body (ls_dot st) (ls_rest st) segs (ls_dot st')"
    and kept: "labels_kept ?body segs (ls_syms st')"
    using exec_body_segments [OF exec(1)] exec(2) by auto
  have "?body ! length A = Assign x Dot" "x \<notin> set (assigned (drop (Suc (length A)) ?body))"
    using x(2) by simp_all
  then obtain v where v: "segs ! length A = [Label x v]" "ls_syms st' x = Some v"
    using labels_keptD [OF kept, of "length A" x] x(1) by auto
  have "a + is_size s \<le> v" if placed: "Placed o' s a \<in> set (ls_map st')" and a: "\<not> unwanted A s" for o' s a
  proof -
    obtain k where k: "match_index ?body s = Some k" "Placed o' s a \<in> set (segs ! k)"
      using laid_out_placed [OF laid placed [unfolded map]] by metis
    obtain i where "match_index A s = Some i" using a by (cases "match_index A s") simp_all
    with k(1) have "k < length A" using match_index_less by (auto simp: match_index_append)
    then show ?thesis using laid_out_order [OF laid, of k "length A" _ "Label x v"] k(2) v(1) by fastforce
  qed
  moreover have "v \<le> a" if placed: "Placed o' s a \<in> set (ls_map st')" and a: "unwanted A s" for o' s a
  proof -
    obtain k where k: "match_index ?body s = Some k" "Placed o' s a \<in> set (segs ! k)"
      using laid_out_placed [OF laid placed [unfolded map]] by metis
    have "match_index A s = None" using a by simp
    with k(1) have "length A < k" by (auto simp: match_index_append)
    then show ?thesis
      using laid_out_order [OF laid, of "length A" k "Label x v"] match_index_less [OF k(1)] k(2) v(1)
      by fastforce
  qed
  ultimately show thesis using that v(2) by blast
qed

lemma label_order:
  assumes exec: "exec_body out (A @ Assign x Dot # M @ Assign y Dot # B) st = Some st'"
    and x: "x \<noteq> ''.''" "x \<notin> set (assigned M)" "x \<noteq> y" "x \<notin> set (assigned B)"
    and y: "y \<noteq> ''.''" "y \<notin> set (assigned B)"
    and syms: "ls_syms st' x = Some lo" "ls_syms st' y = Some hi"
  shows "lo \<le> hi"
proof -
  let ?body = "A @ Assign x Dot # M @ Assign y Dot # B" and ?j = "Suc (length A + length M)"
  obtain segs where laid: "laid_out out ?body (ls_dot st) (ls_rest st) segs (ls_dot st')"
    and kept: "labels_kept ?body segs (ls_syms st')"
    using exec_body_segments [OF exec] by blast
  have "?body ! length A = Assign x Dot" "x \<notin> set (assigned (drop (Suc (length A)) ?body))"
    "?body ! ?j = Assign y Dot" "y \<notin> set (assigned (drop (Suc ?j) ?body))"
    using x y by (simp_all add: nth_append)
  moreover have "length A < length ?body" "?j < length ?body" by simp_all
  ultimately have "\<exists>v. segs ! length A = [Label x v] \<and> ls_syms st' x = Some v"
    "\<exists>v. segs ! ?j = [Label y v] \<and> ls_syms st' y = Some v"
    using labels_keptD [OF kept] x(1) y(1) by metis+
  then have "segs ! length A = [Label x lo]" "segs ! ?j = [Label y hi]" using syms by auto
  then show ?thesis
    using laid_out_order [OF laid, of "length A" ?j "Label x lo" "Label y hi"] by simp
qed

text \<open>A region between two labels holds exactly what its statements match.\<close>

lemma bounded_region:
  assumes exec: "exec_body out (A @ Assign x Dot # M @ Assign y Dot # B) st = Some st'" "ls_map st = []"
    and x: "x \<noteq> ''.''" "x \<notin> set (assigned M)" "x \<noteq> y" "x \<notin> set (assigned B)"
    and y: "y \<noteq> ''.''" "y \<notin> set (assigned B)"
  obtains lo hi where "ls_syms st' x = Some lo" "ls_syms st' y = Some hi" "lo \<le> hi"
    "\<And>o' s a. Placed o' s a \<in> set (ls_map st') \<Longrightarrow> \<not> unwanted A s \<Longrightarrow> a + is_size s \<le> lo"
    "\<And>o' s a. Placed o' s a \<in> set (ls_map st') \<Longrightarrow> unwanted A s \<Longrightarrow> \<not> unwanted M s \<Longrightarrow>
       lo \<le> a \<and> a + is_size s \<le> hi"
    "\<And>o' s a. Placed o' s a \<in> set (ls_map st') \<Longrightarrow> unwanted A s \<Longrightarrow> unwanted M s \<Longrightarrow> hi \<le> a"
proof -
  obtain lo where lo: "ls_syms st' x = Some lo"
    "\<And>o' s a. Placed o' s a \<in> set (ls_map st') \<Longrightarrow> \<not> unwanted A s \<Longrightarrow> a + is_size s \<le> lo"
    "\<And>o' s a. Placed o' s a \<in> set (ls_map st') \<Longrightarrow> unwanted A s \<Longrightarrow> lo \<le> a"
    by (rule label_position [OF exec]) (use x in auto)
  have exec': "exec_body out ((A @ Assign x Dot # M) @ Assign y Dot # B) st = Some st'"
    using exec(1) by simp
  obtain hi where hi: "ls_syms st' y = Some hi"
    "\<And>o' s a. Placed o' s a \<in> set (ls_map st') \<Longrightarrow> \<not> unwanted (A @ Assign x Dot # M) s \<Longrightarrow> a + is_size s \<le> hi"
    "\<And>o' s a. Placed o' s a \<in> set (ls_map st') \<Longrightarrow> unwanted (A @ Assign x Dot # M) s \<Longrightarrow> hi \<le> a"
    by (rule label_position [OF exec' exec(2)]) (use y in auto)
  show thesis
    using that [OF lo(1) hi(1) label_order [OF exec(1) x y lo(1) hi(1)]] lo(2,3) hi(2,3) by simp
qed

text \<open>An empty region: its labels coincide when no statement between them places anything.\<close>

lemma empty_region:
  assumes exec: "exec_body out (A @ Assign x Dot # Input keep specs # Assign y Dot # B) st = Some st'"
    and x: "x \<noteq> ''.''" "x \<noteq> y" "x \<notin> set (assigned B)" and y: "y \<noteq> ''.''" "y \<notin> set (assigned B)"
    and none: "\<And>s. s \<in> set (ls_rest st) \<Longrightarrow> wanted specs s \<Longrightarrow> \<not> unwanted A s"
  shows "ls_syms st' x = ls_syms st' y"
proof -
  obtain st1 where st1: "exec_body out A st = Some st1"
    "exec_body out (Assign x Dot # Input keep specs # Assign y Dot # B) st1 = Some st'"
    using exec by (auto simp: exec_body_append bind_eq_Some_conv)
  have "ls_rest st1 = body_leaves A (ls_rest st)" using exec_body_segments [OF st1(1)] by blast
  then have "take_wanted specs (ls_rest st1) = []"
    using none by (auto simp: set_body_leaves simp flip: set_empty)
  moreover have "take_wanted specs (ls_rest (set_symbol x Dot v st1)) = take_wanted specs (ls_rest st1)" for v
    by (simp add: set_symbol_def)
  ultimately obtain st2 where "exec_body out B st2 = Some st'"
    "ls_syms st2 x = Some (ls_dot st1)" "ls_syms st2 y = Some (ls_dot st1)"
    using st1(2) x y by (auto simp: set_symbol_def)
  then show ?thesis using exec_body_syms x(3) y(2) by metis
qed

section \<open>Aligned barriers\<close>

text \<open>Moving the counter to a multiple of \<open>n\<close> separates what comes before from what comes after.\<close>

lemma aligned_barrier:
  assumes exec: "exec_body out (A @ Assign ''.'' (Align (Const n)) # B) st = Some st'" "ls_map st = []"
    and n: "0 < n"
  obtains v where "n dvd v"
    "\<And>o' s a. Placed o' s a \<in> set (ls_map st') \<Longrightarrow> \<not> unwanted A s \<Longrightarrow> a + is_size s \<le> v"
    "\<And>o' s a. Placed o' s a \<in> set (ls_map st') \<Longrightarrow> unwanted A s \<Longrightarrow> v \<le> a"
proof -
  obtain st1 where st1: "exec_body out A st = Some st1"
    "exec_body out (Assign ''.'' (Align (Const n)) # B) st1 = Some st'"
    using exec(1) by (auto simp: exec_body_append bind_eq_Some_conv)
  define v where "v = align_up (ls_dot st1) n"
  obtain segs1 where segs1: "ls_map st1 = concat segs1"
    "laid_out out A (ls_dot st) (ls_rest st) segs1 (ls_dot st1)"
    "ls_rest st1 = body_leaves A (ls_rest st)"
    using exec_body_segments [OF st1(1)] exec(2) by auto
  have "exec_body out B (st1\<lparr>ls_dot := v, ls_map := ls_map st1 @ [Moved v]\<rparr>) = Some st'"
    using st1(2) by (simp add: v_def)
  from exec_body_segments [OF this] obtain segs2 where segs2:
    "ls_map st' = ls_map st1 @ [Moved v] @ concat segs2" "laid_out out B v (ls_rest st1) segs2 (ls_dot st')"
    by (metis append.assoc link_state.select_convs(1,3,4) link_state.surjective
        link_state.update_convs(1,3))
  have early: "a + is_size s \<le> v \<and> \<not> unwanted A s" if placed: "Placed o' s a \<in> set (ls_map st1)" for o' s a
  proof -
    have "a + is_size s \<le> ls_dot st1"
      using map_run_bounds(3) [of "ls_dot st" "concat segs1" "ls_dot st1" "Placed o' s a"] segs1(1,2) placed
      by (simp add: laid_out_def)
    then show ?thesis
      using body_placed(3) [OF st1(1) exec(2) placed] by (auto simp: v_def intro: order_trans)
  qed
  have late: "v \<le> a \<and> unwanted A s" if placed: "Placed o' s a \<in> set (concat segs2)" for o' s a
  proof -
    have "s \<in> set (ls_rest st1)" using laid_out_placed [OF segs2(2) placed] by metis
    moreover have "v \<le> a"
      using map_run_bounds(2) [of v "concat segs2" "ls_dot st'" "Placed o' s a"] segs2(2) placed
      by (simp add: laid_out_def)
    ultimately show ?thesis using segs1(3) by (simp add: set_body_leaves)
  qed
  have split: "Placed o' s a \<in> set (ls_map st') \<longleftrightarrow>
      Placed o' s a \<in> set (ls_map st1) \<or> Placed o' s a \<in> set (concat segs2)" for o' s a
    using segs2(1) by auto
  have "n dvd v" using n by (simp add: v_def)
  moreover have "a + is_size s \<le> v" if "Placed o' s a \<in> set (ls_map st')" "\<not> unwanted A s" for o' s a
    using that early late split by metis
  moreover have "v \<le> a" if "Placed o' s a \<in> set (ls_map st')" "unwanted A s" for o' s a
    using that early late split by metis
  ultimately show thesis using that by blast
qed

text \<open>No page holds both a section of a name and one of another name.\<close>

definition pages_apart :: "nat \<Rightarrow> string \<Rightarrow> map_entry list \<Rightarrow> bool" where
  "pages_apart page name es \<longleftrightarrow>
     (\<forall>out s a out' t b. Placed out s a \<in> set es \<and> is_name s = name \<and> 0 < is_size s \<and>
        Placed out' t b \<in> set es \<and> is_name t \<noteq> name \<and> 0 < is_size t \<longrightarrow>
        (a + is_size s - 1) div page < b div page \<or> (b + is_size t - 1) div page < a div page)"

lemma div_below_multiple: "n dvd v \<Longrightarrow> 0 < n \<Longrightarrow> x < v \<Longrightarrow> v \<le> y \<Longrightarrow> x div n < y div n" for n :: nat
  by (metis div_le_mono dvd_div_mult_self less_le_trans less_mult_imp_div_less)

lemma pages_apart_between:
  assumes exec: "exec_body out (A @ Assign ''.'' (Align (Const n)) # M @ Assign ''.'' (Align (Const n)) # B) st = Some st'"
      "ls_map st = []" and n: "0 < n"
    and first: "\<And>s. is_name s = name \<Longrightarrow> unwanted A s"
    and M: "\<And>s. \<not> unwanted M s \<longleftrightarrow> is_name s = name"
  shows "pages_apart n name (ls_map st')"
  unfolding pages_apart_def
proof (intro allI impI, elim conjE)
  fix o1 s a o2 t b
  assume s: "Placed o1 s a \<in> set (ls_map st')" "is_name s = name" "0 < is_size s"
    and t: "Placed o2 t b \<in> set (ls_map st')" "is_name t \<noteq> name" "0 < is_size t"
  obtain lo where lo: "n dvd lo"
    "\<And>o' s a. Placed o' s a \<in> set (ls_map st') \<Longrightarrow> \<not> unwanted A s \<Longrightarrow> a + is_size s \<le> lo"
    "\<And>o' s a. Placed o' s a \<in> set (ls_map st') \<Longrightarrow> unwanted A s \<Longrightarrow> lo \<le> a"
    by (rule aligned_barrier [OF exec n]) auto
  have exec': "exec_body out ((A @ Assign ''.'' (Align (Const n)) # M) @ Assign ''.'' (Align (Const n)) # B) st = Some st'"
    using exec(1) by simp
  obtain hi where hi: "n dvd hi"
    "\<And>o' s a. Placed o' s a \<in> set (ls_map st') \<Longrightarrow> \<not> unwanted (A @ Assign ''.'' (Align (Const n)) # M) s \<Longrightarrow> a + is_size s \<le> hi"
    "\<And>o' s a. Placed o' s a \<in> set (ls_map st') \<Longrightarrow> unwanted (A @ Assign ''.'' (Align (Const n)) # M) s \<Longrightarrow> hi \<le> a"
    by (rule aligned_barrier [OF exec' exec(2) n]) auto
  have "lo \<le> a" "a + is_size s \<le> hi" using lo(3) hi(2) s first M by auto
  moreover have "b + is_size t \<le> lo \<or> hi \<le> b" using lo(2) hi(3) t M by fastforce
  ultimately show "(a + is_size s - 1) div n < b div n \<or> (b + is_size t - 1) div n < a div n"
    using div_below_multiple [OF hi(1) n, of "a + is_size s - 1" b]
      div_below_multiple [OF lo(1) n, of "b + is_size t - 1" a] s(3) t(3) by linarith
qed

text \<open>Where an output section without an address of its own starts.\<close>

definition output_start :: "stmt list \<Rightarrow> link_state \<Rightarrow> nat" where
  "output_start body st = align_up (ls_dot st) (section_align body (ls_rest st))"

lemma output_start_ge [simp]: "ls_dot st \<le> output_start body st"
  by (simp add: output_start_def)

lemma fold_max_ge: "n \<le> fold (\<lambda>s. max (is_align s)) ss n"
  by (induction ss arbitrary: n) (auto intro: order_trans [OF max.cobounded2])

lemma section_start_default: "section_start None None body st = Some (output_start body st)"
  using fold_max_ge [of 1 "body_takes body (ls_rest st)"]
  by (simp add: section_start_def output_start_def section_align_def max_def)

end
