(* ===== verification/Vmlinux_Correct.thy ===== *)
theory Vmlinux_Correct
  imports Vmlinux_Lds Linker_Correct State
begin

text \<open>
  What the layout of \<open>vmlinux.lds.h\<close> gives the kernel: init calls in the order of their levels,
  scheduling classes at consecutive addresses in the order of their priority, regions that the
  kernel resets or encrypts holding exactly their sections.
\<close>

section \<open>Which statement wants a section\<close>

lemma unwanted_if [simp]: "list_all P (if b then xs else ys) = (if b then list_all P xs else list_all P ys)"
  by simp

lemma assigned_if [simp]: "assigned (if b then xs else ys) = (if b then assigned xs else assigned ys)"
  by simp

lemmas of_table_defs = OF_TABLE_def TIMER_OF_TABLES_def IRQCHIP_OF_MATCH_TABLE_def
  CLK_OF_TABLES_def RESERVEDMEM_OF_TABLES_def CPU_METHOD_OF_TABLES_def CPUIDLE_METHOD_OF_TABLES_def

lemmas init_data_defs = INIT_DATA_def MEM_DISCARD_def KERNEL_CTORS_def MCOUNT_REC_def
  KEEP_PATCHABLE_def FTRACE_STUB_HACK_def FTRACE_EVENTS_def TRACE_SYSCALLS_def KPROBE_BLACKLIST_def
  ERROR_INJECT_WHITELIST_def KERNEL_DTB_def ACPI_PROBE_TABLE_def THERMAL_TABLE_def
  EARLYCON_TABLE_def LSM_TABLE_def EARLY_LSM_TABLE_def KUNIT_INIT_TABLE_def STRUCT_ALIGN_def
  of_table_defs bounded_defs stmt_defs

text \<open>An output section links when its body does and its load address is not negative.\<close>

lemma exec_output_at:
  assumes "exec_body name body (st\<lparr>ls_dot := output_start body st\<rparr>) = Some st1"
    and "lc_LOAD_OFFSET c \<le> ls_dot st"
  obtains st' where "exec_script (output_at c name body) st = Some st'"
    "ls_map st' = ls_map st1" "ls_syms st' = ls_syms st1" "ls_dot st' = ls_dot st1"
    "ls_rest st' = ls_rest st1"
  using assms order_trans [OF assms(2) output_start_ge [of st body]] that
  by (simp add: output_at_def section_start_default close_section_def find_out_def Let_def)

lemma exec_output_atD:
  assumes "exec_script (output_at c name body) st = Some st'"
  obtains st1 where "exec_body name body (st\<lparr>ls_dot := output_start body st\<rparr>) = Some st1"
    "ls_map st' = ls_map st1" "ls_syms st' = ls_syms st1" "ls_dot st' = ls_dot st1"
    "ls_rest st' = ls_rest st1"
  using assms that
  by (auto simp: output_at_def section_start_default close_section_def Let_def bind_eq_Some_conv)

section \<open>Init calls\<close>

text \<open>The levels in the order in which the kernel runs them; \<open>s\<close> marks the synchronising half.\<close>

definition initcall_levels :: "string list" where
  "initcall_levels =
     [''early'', ''0'', ''0s'', ''1'', ''1s'', ''2'', ''2s'', ''3'', ''3s'', ''4'', ''4s'', ''5'', ''5s'',
      ''rootfs'', ''rootfss'', ''6'', ''6s'', ''7'', ''7s'']"

definition initcall_at :: "nat \<Rightarrow> input_section \<Rightarrow> bool" where
  "initcall_at i s \<longleftrightarrow>
     i < length initcall_levels \<and> is_name s = ''.initcall'' @ initcall_levels ! i @ ''.init''"

lemma length_initcall_levels: "length initcall_levels = 19"
  by (simp add: initcall_levels_def)

lemma initcall_unwanted_before:
  "is_name s = ''.initcall'' @ x \<Longrightarrow> unwanted (INIT_DATA c @ INIT_SETUP al) s"
  by (simp add: init_data_defs INIT_SETUP_def glob_literal_eq glob_prefix_eq)

lemma initcall_match:
  assumes "initcall_at i s"
  shows "match_index INIT_CALLS s = Some (i + (i + 1) div 2 + 1)"
proof -
  have "list_all (\<lambda>i. is_name s = ''.initcall'' @ initcall_levels ! i @ ''.init'' \<longrightarrow>
      match_index INIT_CALLS s = Some (i + (i + 1) div 2 + 1)) [0..<19]"
    by (simp add: upt_rec initcall_levels_def INIT_CALLS_def INIT_CALLS_LEVEL_def stmt_defs
        glob_literal_eq)
  then show ?thesis using assms by (auto simp: list_all_iff initcall_at_def initcall_levels_def)
qed

lemma initcall_match_data:
  assumes "initcall_at i s"
  shows "match_index (INIT_DATA c @ INIT_SETUP al @ INIT_CALLS @ rest) s =
           Some (length (INIT_DATA c @ INIT_SETUP al) + (i + (i + 1) div 2 + 1))"
proof -
  have "match_index (INIT_DATA c @ INIT_SETUP al) s = None"
    using initcall_unwanted_before assms by (auto simp: initcall_at_def)
  then show ?thesis
    using initcall_match [OF assms] match_index_append [of "INIT_DATA c @ INIT_SETUP al"]
    by (simp add: match_index_append)
qed

text \<open>Only init calls are taken between the labels of the table.\<close>

lemma init_calls_want:
  assumes "\<not> unwanted INIT_CALLS s"
  obtains i where "initcall_at i s"
proof -
  have "\<exists>i < 19. is_name s = ''.initcall'' @ initcall_levels ! i @ ''.init''"
    using assms
    by (simp add: INIT_CALLS_def INIT_CALLS_LEVEL_def stmt_defs glob_literal_eq initcall_levels_def
        numeral_eq_Suc Ex_less_Suc2)
  then show thesis using that by (auto simp: initcall_at_def length_initcall_levels)
qed

definition INIT_CALLS_BODY :: "stmt list" where
  "INIT_CALLS_BODY = tl (butlast INIT_CALLS)"

lemma INIT_CALLS_split:
  "INIT_CALLS = Assign ''__initcall_start'' Dot # INIT_CALLS_BODY @ [Assign ''__initcall_end'' Dot]"
  by (simp add: INIT_CALLS_BODY_def INIT_CALLS_def stmt_defs butlast_append)

lemma INIT_CALLS_BODY_want [simp]: "unwanted INIT_CALLS_BODY s \<longleftrightarrow> unwanted INIT_CALLS s"
  by (simp add: INIT_CALLS_split)

lemma INIT_CALLS_BODY_assigned:
  "''__initcall_start'' \<notin> set (assigned INIT_CALLS_BODY)"
  by (simp add: INIT_CALLS_BODY_def INIT_CALLS_def INIT_CALLS_LEVEL_def stmt_defs butlast_append)

lemma INIT_DATA_SECTION_plain:
  "list_all (plain_stmt [''ftrace_stub'', ''arch_ftrace_ops_list_func''])
     (INIT_DATA c @ INIT_SETUP al @ INIT_CALLS @ CON_INITCALL @ INIT_RAM_FS c)"
  by (simp add: init_data_defs INIT_SETUP_def INIT_CALLS_def INIT_CALLS_LEVEL_def CON_INITCALL_def
      INIT_RAM_FS_def)


text \<open>The smallest configuration: no options, pages of 4096 bytes.\<close>

definition sample_lds :: lds_config where
  "sample_lds =
     \<lparr>lc_config = \<lambda>_. False, lc_PAGE_SIZE = 4096, lc_THREAD_SIZE = 16384, lc_FUNCTION_ALIGNMENT = 16,
      lc_LOAD_OFFSET = 0, lc_LOOKUP_BLOCK_SIZE = 256, lc_EMITS_PT_NOTE = False,
      lc_RUNTIME_DISCARD_EXIT = False, lc_RO_EXCEPTION_TABLE_ALIGN = None,
      lc_RO_AFTER_INIT_DATA = None, lc_KCFI_TRAPS = None, lc_BSS_FIRST_SECTIONS = None\<rparr>"

definition sample_sec :: "string \<Rightarrow> nat \<Rightarrow> input_section" where
  "sample_sec name n = \<lparr>is_file = ''core.o'', is_name = name, is_size = n, is_align = 4\<rparr>"

text \<open>A late init call that comes first in link order still ends up behind an early one.\<close>

definition sample_initcalls :: link_state where
  "sample_initcalls =
     link_start 0 [''ftrace_stub'' \<mapsto> 0, ''arch_ftrace_ops_list_func'' \<mapsto> 0]
       [sample_sec ''.initcall7.init'' 4, sample_sec ''.initcallearly.init'' 4]"


section \<open>Data that is reset at run time\<close>

text \<open>
  The kernel resets the flags of \<open>WARN_ONCE\<close> and its like by clearing what lies between
  \<open>__start_once\<close> and \<open>__end_once\<close>.
\<close>

lemma DATA_MAIN_once:
  "is_name s = ''.data.once'' \<Longrightarrow> wanted (map Pat (DATA_MAIN c)) s \<longleftrightarrow> split_sections c"
  by (simp add: DATA_MAIN_def glob_literal_eq) (simp add: glob_def)

definition DATA_BEFORE_ONCE :: "lds_config \<Rightarrow> stmt list" where
  "DATA_BEFORE_ONCE c = takeWhile (\<lambda>x. x \<noteq> label ''__start_once'') (DATA_DATA c)"

definition DATA_AFTER_ONCE :: "lds_config \<Rightarrow> stmt list" where
  "DATA_AFTER_ONCE c = tl (dropWhile (\<lambda>x. x \<noteq> label ''__end_once'') (DATA_DATA c))"

lemma DATA_DATA_split:
  "DATA_DATA c = DATA_BEFORE_ONCE c @ Assign ''__start_once'' Dot # Input False [Pat ''.data.once''] #
     Assign ''__end_once'' Dot # DATA_AFTER_ONCE c"
  by (simp add: DATA_BEFORE_ONCE_def DATA_AFTER_ONCE_def DATA_DATA_def stmt_defs MEM_KEEP_def)

lemma DATA_BEFORE_ONCE_wants:
  "is_name s = ''.data.once'' \<Longrightarrow> unwanted (DATA_BEFORE_ONCE c) s \<longleftrightarrow> \<not> split_sections c"
  using DATA_MAIN_once [of s c]
  by (simp add: DATA_BEFORE_ONCE_def DATA_DATA_def stmt_defs MEM_KEEP_def glob_literal_eq glob_prefix_eq)

lemma DATA_AFTER_ONCE_assigned:
  "''__start_once'' \<notin> set (assigned (DATA_AFTER_ONCE c))" "''__end_once'' \<notin> set (assigned (DATA_AFTER_ONCE c))"
  by (simp_all add: DATA_AFTER_ONCE_def DATA_DATA_def stmt_defs bounded_defs MEM_KEEP_def
      STRUCT_ALIGN_def LIKELY_PROFILE_def BRANCH_PROFILE_def TRACE_PRINTKS_def BPF_RAW_TP_def
      TRACEPOINT_STR_def KUNIT_TABLE_def)

lemma DATA_DATA_plain: "list_all (plain_stmt []) (DATA_DATA c)"
  by (simp add: DATA_DATA_def stmt_defs bounded_defs MEM_KEEP_def STRUCT_ALIGN_def LIKELY_PROFILE_def
      BRANCH_PROFILE_def TRACE_PRINTKS_def BPF_RAW_TP_def TRACEPOINT_STR_def KUNIT_TABLE_def)

text \<open>
  C39: The data section always links, with the two labels in order. Without split sections what lies
  between them is exactly the \<open>.data.once\<close> sections. When dead code elimination or link time
  optimisation splits sections, the wildcard of \<open>DATA_MAIN\<close> takes every \<open>.data.once\<close> section
  first: the region is empty, and what is to be reset lies in front of it.
\<close>

theorem once_data_bounds:
  assumes "ls_map st = []"
  shows "\<exists>st' lo hi. exec_body out (DATA_DATA c) st = Some st' \<and>
    ls_syms st' ''__start_once'' = Some lo \<and> ls_syms st' ''__end_once'' = Some hi \<and> lo \<le> hi \<and>
    (\<forall>s. s \<in> set (ls_rest st) \<and> is_name s = ''.data.once'' \<longrightarrow> (\<exists>a. Placed out s a \<in> set (ls_map st'))) \<and>
    (if split_sections c
     then lo = hi \<and> (\<forall>s a. Placed out s a \<in> set (ls_map st') \<and> is_name s = ''.data.once'' \<longrightarrow>
                       a + is_size s \<le> lo)
     else \<forall>s a. Placed out s a \<in> set (ls_map st') \<and> 0 < is_size s \<longrightarrow>
            (lo \<le> a \<and> a + is_size s \<le> hi \<longleftrightarrow> is_name s = ''.data.once''))"
proof -
  let ?A = "DATA_BEFORE_ONCE c" and ?M = "[Input False [Pat ''.data.once'']]"
  obtain st' where exec: "exec_body out (DATA_DATA c) st = Some st'"
    by (rule exec_body_plain [OF DATA_DATA_plain, of st]) auto
  have once: "\<not> unwanted ?M s \<longleftrightarrow> is_name s = ''.data.once''" for s by (simp add: glob_literal_eq)
  have exec': "exec_body out (?A @ Assign ''__start_once'' Dot # ?M @ Assign ''__end_once'' Dot #
      DATA_AFTER_ONCE c) st = Some st'"
    using exec by (simp add: DATA_DATA_split)
  obtain lo hi where region: "ls_syms st' ''__start_once'' = Some lo" "ls_syms st' ''__end_once'' = Some hi"
    "lo \<le> hi"
    "\<And>o' s a. Placed o' s a \<in> set (ls_map st') \<Longrightarrow> \<not> unwanted ?A s \<Longrightarrow> a + is_size s \<le> lo"
    "\<And>o' s a. Placed o' s a \<in> set (ls_map st') \<Longrightarrow> unwanted ?A s \<Longrightarrow> \<not> unwanted ?M s \<Longrightarrow>
       lo \<le> a \<and> a + is_size s \<le> hi"
    "\<And>o' s a. Placed o' s a \<in> set (ls_map st') \<Longrightarrow> unwanted ?A s \<Longrightarrow> unwanted ?M s \<Longrightarrow> hi \<le> a"
    by (rule bounded_region [OF exec' assms]) (use DATA_AFTER_ONCE_assigned in auto)
  have places: "\<exists>a. Placed out s a \<in> set (ls_map st')"
    if "s \<in> set (ls_rest st)" "is_name s = ''.data.once''" for s
    using body_places [OF exec that(1)] once [of s] that(2) by (simp add: DATA_DATA_split)
  show ?thesis
  proof (cases "split_sections c")
    case True
    have "ls_syms st' ''__start_once'' = ls_syms st' ''__end_once''"
      by (rule empty_region [of out ?A _ False "[Pat ''.data.once'']"])
        (use exec' DATA_AFTER_ONCE_assigned DATA_BEFORE_ONCE_wants True in \<open>auto simp: glob_literal_eq\<close>)
    with True exec region places DATA_BEFORE_ONCE_wants show ?thesis by auto
  next
    case False
    then have "lo \<le> a \<and> a + is_size s \<le> hi \<longleftrightarrow> is_name s = ''.data.once''"
      if "Placed out s a \<in> set (ls_map st')" "0 < is_size s" for s a
      using region(4-6) [OF that(1)] once [of s] DATA_BEFORE_ONCE_wants [of s c] that(2) by fastforce
    with False exec region(1-3) places show ?thesis by auto
  qed
qed

text \<open>A configuration with split sections: the flag of a \<open>WARN_ONCE\<close> is outside the region.\<close>

definition sample_split :: lds_config where
  "sample_split = sample_lds\<lparr>lc_config := \<lambda>n. n = ''CONFIG_LD_DEAD_CODE_DATA_ELIMINATION''\<rparr>"

theorem once_data_bounds_witness:
  "\<exists>st' lo a. exec_body ''.data'' (DATA_DATA sample_split) (link_start 0 Map.empty [sample_sec ''.data.once'' 1]) = Some st' \<and>
     ls_syms st' ''__start_once'' = Some lo \<and> ls_syms st' ''__end_once'' = Some lo \<and>
     Placed ''.data'' (sample_sec ''.data.once'' 1) a \<in> set (ls_map st') \<and> a + 1 \<le> lo"
proof -
  let ?st = "link_start 0 Map.empty [sample_sec ''.data.once'' 1]"
  have "split_sections sample_split" by (simp add: split_sections_def sample_split_def)
  moreover have "ls_map ?st = []" "ls_rest ?st = [sample_sec ''.data.once'' 1]"
    by (simp_all add: link_start_def)
  moreover have "is_name (sample_sec ''.data.once'' 1) = ''.data.once''"
    "is_size (sample_sec ''.data.once'' 1) = 1" by (simp_all add: sample_sec_def)
  ultimately show ?thesis
    using once_data_bounds [of ?st "''.data''" sample_split] by (fastforce simp del: fun_upd_apply)
qed

section \<open>Scheduling classes\<close>

fun sched_class_section :: "sched_class \<Rightarrow> string" where
  "sched_class_section stop_sched_class = ''__stop_sched_class''"
| "sched_class_section dl_sched_class = ''__dl_sched_class''"
| "sched_class_section rt_sched_class = ''__rt_sched_class''"
| "sched_class_section fair_sched_class = ''__fair_sched_class''"
| "sched_class_section yat_casched_sched_class = ''__yat_casched_sched_class''"
| "sched_class_section idle_sched_class = ''__idle_sched_class''"

lemma take_leave:
  "glob_literal n \<Longrightarrow> \<not> glob m n \<Longrightarrow>
   take_wanted [Pat n] (leave_unwanted [Pat m] rest) = take_wanted [Pat n] rest"
  by (auto simp: take_wanted_def leave_unwanted_def Let_def glob_literal_eq intro!: filter_cong)

lemma take_wanted_literal:
  "glob_literal n \<Longrightarrow> take_wanted [Pat n] rest = filter (\<lambda>s. is_name s = n) rest"
  by (simp add: take_wanted_def glob_literal_eq)

lemma exec_single:
  assumes "take_wanted [Pat n] (ls_rest st) = [s]" "is_align s dvd ls_dot st"
  shows "exec_stmt out (Input keep [Pat n]) st =
    Some (st\<lparr>ls_dot := ls_dot st + is_size s, ls_map := ls_map st @ [Placed out s (ls_dot st)],
             ls_rest := leave_unwanted [Pat n] (ls_rest st)\<rparr>)"
  using assms by (simp add: place_def align_up_same Let_def)

lemma exec_sched_data:
  assumes one: "\<And>x. take_wanted [Pat (sched_class_section x)] (ls_rest st) = [cls x]"
    and cls: "\<And>x. is_size (cls x) = sz" "\<And>x. is_align (cls x) = al" "al dvd 32" "al dvd sz"
    and base: "base = align_up (ls_dot st) STRUCT_ALIGNMENT"
  obtains st' where "exec_body out SCHED_DATA_SECTION st = Some st'"
    "ls_syms st' = (ls_syms st)(''__sched_class_highest'' \<mapsto> base, ''__sched_class_lowest'' \<mapsto> base + 6 * sz)"
    "ls_map st' = ls_map st @ [Moved base, Label ''__sched_class_highest'' base] @
       map (\<lambda>x. Placed out (cls x) (base + class_address x * sz)) SCHED_DATA @
       [Label ''__sched_class_lowest'' (base + 6 * sz)]"
proof -
  have "32 dvd base" by (simp add: base STRUCT_ALIGNMENT_def)
  then have "al dvd base" using cls(3) by (rule dvd_trans [rotated])
  then have dvd: "al dvd base" "al dvd base + sz" "al dvd base + sz + sz" "al dvd base + sz + sz + sz"
      "al dvd base + sz + sz + sz + sz" "al dvd base + sz + sz + sz + sz + sz" using cls(4) by simp_all
  have take: "take_wanted [Pat ''__stop_sched_class''] (ls_rest st) = [cls stop_sched_class]"
    "take_wanted [Pat ''__dl_sched_class''] (ls_rest st) = [cls dl_sched_class]"
    "take_wanted [Pat ''__rt_sched_class''] (ls_rest st) = [cls rt_sched_class]"
    "take_wanted [Pat ''__fair_sched_class''] (ls_rest st) = [cls fair_sched_class]"
    "take_wanted [Pat ''__yat_casched_sched_class''] (ls_rest st) = [cls yat_casched_sched_class]"
    "take_wanted [Pat ''__idle_sched_class''] (ls_rest st) = [cls idle_sched_class]"
    using one [of stop_sched_class] one [of dl_sched_class] one [of rt_sched_class]
      one [of fair_sched_class] one [of yat_casched_sched_class] one [of idle_sched_class]
    by simp_all
  have "\<not> base < ls_dot st" by (simp add: base)
  note facts = SCHED_DATA_SECTION_def STRUCT_ALIGN_def stmt_defs set_symbol_def exec_single take
    take_leave glob_literal_eq cls(1,2) dvd base [symmetric] this
  have six: "6 * sz = sz + (sz + (sz + (sz + (sz + sz))))" by simp
  show thesis
    by (rule that, simp add: facts del: exec_stmt.simps(2), simp only: link_state.simps six add.assoc)
      (simp_all add: SCHED_DATA_def algebra_simps)
qed

text \<open>The same order bug as \<open>sched_init\<close> checks for, over the addresses the linker chose.\<close>

definition sched_class_size_apart :: "(sched_class \<Rightarrow> nat) \<Rightarrow> nat \<Rightarrow> bool" where
  "sched_class_size_apart addr sz \<longleftrightarrow>
     addr idle_sched_class = addr yat_casched_sched_class + sz \<and>
     addr yat_casched_sched_class = addr fair_sched_class + sz \<and>
     addr fair_sched_class = addr rt_sched_class + sz \<and>
     addr rt_sched_class = addr dl_sched_class + sz \<and>
     addr dl_sched_class = addr stop_sched_class + sz"

definition RODATA_AFTER_CLASSES :: "lds_config \<Rightarrow> stmt list" where
  "RODATA_AFTER_CLASSES c =
     RO_AFTER_INIT_DATA c @ [align_dot 8] @
     BOUNDED_SECTION_BY ''__tracepoints_ptrs'' ''___tracepoints_ptrs'' @ [input ''__tracepoints_strings'']"

lemma RODATA_AFTER_CLASSES_props:
  assumes "lc_RO_AFTER_INIT_DATA c = None"
  shows "list_all (plain_stmt []) (RODATA_AFTER_CLASSES c)"
    "''__sched_class_highest'' \<notin> set (assigned (RODATA_AFTER_CLASSES c))"
    "''__sched_class_lowest'' \<notin> set (assigned (RODATA_AFTER_CLASSES c))"
  using assms
  by (simp_all add: RODATA_AFTER_CLASSES_def RO_AFTER_INIT_DATA_def JUMP_TABLE_DATA_def
      STATIC_CALL_DATA_def bounded_defs stmt_defs)

text \<open>
  C37: The linker implements the class order the scheduler is modelled with. When each class is one
  object of the same size, at an alignment dividing that size and 32, the read-only data links and
  class \<open>x\<close> is at \<open>__sched_class_highest\<close> plus its rank times the size: the pointer comparison of
  \<open>sched_class_above\<close> is the order of the model, the walk from \<open>__sched_class_highest\<close> to
  \<open>__sched_class_lowest\<close> in steps of one class meets exactly the classes, and the check at the
  start of \<open>sched_init\<close> passes.
\<close>

theorem sched_classes_placed:
  assumes "ls_map st = []" "lc_RO_AFTER_INIT_DATA c = None"
    and one: "\<And>x. filter (\<lambda>s. is_name s = sched_class_section x) (ls_rest st) = [cls x]"
    and cls: "\<And>x. is_size (cls x) = sz" "\<And>x. is_align (cls x) = al" "al dvd 32" "al dvd sz" "0 < sz"
  shows "\<exists>st' base addr. exec_body out (RODATA_SECTION c) st = Some st' \<and>
    (\<forall>x. Placed out (cls x) (addr x) \<in> set (ls_map st')) \<and>
    (\<forall>x. addr x = base + class_address x * sz) \<and>
    (\<forall>x y. addr x < addr y \<longleftrightarrow> sched_class_above x y) \<and> sched_class_size_apart addr sz \<and>
    ls_syms st' ''__sched_class_highest'' = Some base \<and>
    ls_syms st' ''__sched_class_lowest'' = Some (base + length SCHED_DATA * sz)"
proof -
  let ?A = "[label ''__start_rodata'', input ''.rodata'', input ''.rodata.*'']"
  have body: "RODATA_SECTION c = ?A @ SCHED_DATA_SECTION @ RODATA_AFTER_CLASSES c"
    by (simp add: RODATA_SECTION_def RODATA_AFTER_CLASSES_def)
  obtain st1 where st1: "exec_body out ?A st = Some st1"
    by (rule exec_body_plain [of "[]" ?A st]) (simp_all add: stmt_defs)
  have lit: "glob_literal (sched_class_section x)" "sched_class_section x \<noteq> ''.rodata''"
    "\<not> glob ''.rodata.*'' (sched_class_section x)" for x
    by (cases x; simp add: glob_prefix_eq)+
  have rest: "ls_rest st1 = leave_unwanted [Pat ''.rodata.*''] (leave_unwanted [Pat ''.rodata''] (ls_rest st))"
    using exec_body_segments [OF st1] by (auto simp: stmt_defs)
  have take: "take_wanted [Pat (sched_class_section x)] (ls_rest st1) = [cls x]" for x
  proof -
    have "take_wanted [Pat (sched_class_section x)] (ls_rest st1) =
        take_wanted [Pat (sched_class_section x)] (ls_rest st)"
      using lit [of x] by (simp add: rest take_leave glob_literal_eq)
    then show ?thesis using lit(1) [of x] one [of x] by (simp add: take_wanted_literal)
  qed
  define base where "base = align_up (ls_dot st1) STRUCT_ALIGNMENT"
  obtain st2 where st2: "exec_body out SCHED_DATA_SECTION st1 = Some st2"
    "ls_syms st2 = (ls_syms st1)(''__sched_class_highest'' \<mapsto> base, ''__sched_class_lowest'' \<mapsto> base + 6 * sz)"
    "ls_map st2 = ls_map st1 @ [Moved base, Label ''__sched_class_highest'' base] @
       map (\<lambda>x. Placed out (cls x) (base + class_address x * sz)) SCHED_DATA @
       [Label ''__sched_class_lowest'' (base + 6 * sz)]"
    using exec_sched_data [of st1 cls sz al base out, OF take cls(1-4) base_def] by blast
  note after = RODATA_AFTER_CLASSES_props [OF assms(2)]
  obtain st' where st': "exec_body out (RODATA_AFTER_CLASSES c) st2 = Some st'"
    by (rule exec_body_plain [OF after(1), of st2]) auto
  have "exec_body out (RODATA_SECTION c) st = Some st'"
    using st1 st2(1) st' by (simp only: body exec_body_append bind.bind_lunit)
  moreover have "Placed out (cls x) (base + class_address x * sz) \<in> set (ls_map st')" for x
  proof -
    have "x \<in> set SCHED_DATA" by (cases x) (simp_all add: SCHED_DATA_def)
    then have "Placed out (cls x) (base + class_address x * sz) \<in> set (ls_map st2)"
      unfolding st2(3) by auto
    then show ?thesis using exec_body_segments [OF st'] by (metis UnCI set_append)
  qed
  moreover have "base + class_address x * sz < base + class_address y * sz \<longleftrightarrow> sched_class_above x y" for x y
    using cls(5) by (simp add: less_sched_class_def)
  moreover have "sched_class_size_apart (\<lambda>x. base + class_address x * sz) sz"
    by (simp add: sched_class_size_apart_def)
  moreover have "ls_syms st' ''__sched_class_highest'' = Some base"
    "ls_syms st' ''__sched_class_lowest'' = Some (base + length SCHED_DATA * sz)"
    using exec_body_syms [OF st' after(2)] exec_body_syms [OF st' after(3)] st2(2)
    by (simp_all add: SCHED_DATA_def)
  ultimately show ?thesis
    by (intro exI [of _ st'] exI [of _ base] exI [of _ "\<lambda>x. base + class_address x * sz"]) simp
qed

text \<open>Six classes of 216 bytes, linked in the reverse order.\<close>

definition sample_class :: "sched_class \<Rightarrow> input_section" where
  "sample_class x = \<lparr>is_file = ''core.o'', is_name = sched_class_section x, is_size = 216, is_align = 8\<rparr>"

theorem sched_classes_placed_witness:
  "\<exists>st' base. exec_body ''.rodata'' (RODATA_SECTION sample_lds) (link_start 0 Map.empty (map sample_class (rev SCHED_DATA))) = Some st' \<and>
     Placed ''.rodata'' (sample_class yat_casched_sched_class) (base + 4 * 216) \<in> set (ls_map st') \<and>
     Placed ''.rodata'' (sample_class idle_sched_class) (base + 5 * 216) \<in> set (ls_map st')"
proof -
  let ?st = "link_start 0 Map.empty (map sample_class (rev SCHED_DATA))"
  have one: "filter (\<lambda>s. is_name s = sched_class_section x) (ls_rest ?st) = [sample_class x]" for x
    by (cases x) (simp_all add: link_start_def SCHED_DATA_def sample_class_def)
  have hyps: "ls_map ?st = []" "lc_RO_AFTER_INIT_DATA sample_lds = None"
    "is_size (sample_class x) = 216" "is_align (sample_class x) = 8" for x
    by (simp_all add: link_start_def sample_lds_def sample_class_def)
  have "(8::nat) dvd 32" "(8::nat) dvd 216" "(0::nat) < 216" by simp_all
  from sched_classes_placed [OF hyps(1,2) one hyps(3,4) this, of "''.rodata''"]
  obtain st' base addr where "exec_body ''.rodata'' (RODATA_SECTION sample_lds) ?st = Some st'"
    "\<forall>x. Placed ''.rodata'' (sample_class x) (addr x) \<in> set (ls_map st')"
    "\<forall>x. addr x = base + class_address x * 216"
    by blast
  then show ?thesis by (metis class_address.simps(5,6))
qed

section \<open>Per-CPU data\<close>

lemma fold_max_dvd:
  "\<forall>s \<in> set ss. is_align s dvd p \<Longrightarrow> n dvd p \<Longrightarrow> fold (\<lambda>s. max (is_align s)) ss n dvd p"
  by (induction ss arbitrary: n) (auto simp: max_def)

lemma set_body_takes: "set (body_takes body rest) = {s \<in> set rest. \<not> unwanted body s}"
  by (induction body rest rule: body_takes.induct) (auto simp: leave_unwanted_def)

lemma output_start_aligned:
  assumes "p dvd ls_dot st" "\<And>s. s \<in> set (ls_rest st) \<Longrightarrow> \<not> unwanted body s \<Longrightarrow> is_align s dvd p"
  shows "output_start body st = ls_dot st"
proof -
  have "section_align body (ls_rest st) dvd p"
    unfolding section_align_def by (rule fold_max_dvd) (use assms(2) in \<open>auto simp: set_body_takes\<close>)
  with assms(1) show ?thesis by (simp add: output_start_def align_up_same dvd_trans)
qed

lemma PERCPU_INPUT_assigned: "''__per_cpu_load'' \<notin> set (assigned (PERCPU_INPUT c cacheline))"
  by (simp add: PERCPU_INPUT_def PERCPU_DECRYPTED_SECTION_def stmt_defs)

text \<open>
  The simple macro for per-CPU data is the general one without an address: aligning to a page
  and using \<open>PERCPU_VADDR\<close> with blank arguments links to the same state as \<open>PERCPU_SECTION\<close>, with
  the same addresses, symbols and load addresses, and fails in the same cases, as long as no
  per-CPU section asks for an alignment that does not divide a page.
\<close>

theorem percpu_section_equivalent:
  assumes page: "0 < lc_PAGE_SIZE c"
    and align: "\<And>s. s \<in> set (ls_rest st) \<Longrightarrow> \<not> unwanted (PERCPU_INPUT c cacheline) s \<Longrightarrow>
      is_align s dvd lc_PAGE_SIZE c"
  shows "link (Stmt (align_dot (lc_PAGE_SIZE c)) # PERCPU_VADDR c cacheline None []) st =
         link (PERCPU_SECTION c cacheline) st"
proof -
  let ?B = "PERCPU_INPUT c cacheline"
  define d where "d = align_up (ls_dot st) (lc_PAGE_SIZE c)"
  define st1 where "st1 = st\<lparr>ls_dot := d\<rparr>"
  define st2 where "st2 = set_symbol ''__per_cpu_load'' Dot d st1"
  have d: "lc_PAGE_SIZE c dvd d" using page by (simp add: d_def)
  have dots: "ls_dot st1 = d" "ls_dot st2 = d" "ls_rest st1 = ls_rest st" "ls_rest st2 = ls_rest st"
    by (simp_all add: st1_def st2_def set_symbol_def)
  have starts: "output_start ?B st2 = d" "output_start (Assign ''__per_cpu_load'' Dot # ?B) st1 = d"
    using output_start_aligned [of "lc_PAGE_SIZE c" st2 ?B]
      output_start_aligned [of "lc_PAGE_SIZE c" st1 "Assign ''__per_cpu_load'' Dot # ?B"] d align
    by (simp_all add: dots)
  have same: "st2\<lparr>ls_dot := d\<rparr> = st2" "st1\<lparr>ls_dot := d\<rparr> = st1"
    by (simp_all add: st1_def st2_def set_symbol_def)
  show ?thesis
  proof (cases "exec_body ''.data..percpu'' ?B st2")
    case None
    then show ?thesis
      by (simp add: PERCPU_VADDR_def PERCPU_SECTION_def output_at_def stmt_defs section_start_default
          d_def [symmetric] st1_def [symmetric] st2_def [symmetric] dots starts same)
  next
    case (Some st3)
    have "ls_syms st3 ''__per_cpu_load'' = Some d"
      using exec_body_syms [OF Some PERCPU_INPUT_assigned] by (simp add: st2_def set_symbol_def)
    moreover have "d \<le> ls_dot st3" using body_dot [OF Some] by (simp add: dots)
    ultimately show ?thesis using Some
      by (simp add: PERCPU_VADDR_def PERCPU_SECTION_def output_at_def stmt_defs section_start_default
          d_def [symmetric] st1_def [symmetric] st2_def [symmetric] dots starts same close_section_def
          find_out_def Let_def)
  qed
qed

lemmas percpu_run = PERCPU_INPUT_def PERCPU_DECRYPTED_SECTION_def stmt_defs take_wanted_def
  leave_unwanted_def glob_literal_eq Let_def place_def align_up_def set_symbol_def link_start_def
  sample_lds_def

definition sample_percpu :: link_state where
  "sample_percpu =
     link_start 100 Map.empty [\<lparr>is_file = ''core.o'', is_name = ''.data..percpu'', is_size = 24, is_align = 64\<rparr>]"

theorem percpu_section_equivalent_witness:
  "\<exists>st'. link (Stmt (align_dot 4096) # PERCPU_VADDR sample_lds 64 None []) sample_percpu = Some st' \<and>
     link (PERCPU_SECTION sample_lds 64) sample_percpu = Some st' \<and>
     ls_syms st' ''__per_cpu_load'' = Some 4096 \<and> ls_dot st' = 4120"
proof -
  have "lc_PAGE_SIZE sample_lds = 4096" "s \<in> set (ls_rest sample_percpu) \<Longrightarrow> is_align s dvd 4096" for s
    by (simp_all add: sample_lds_def sample_percpu_def link_start_def)
  then have "link (Stmt (align_dot 4096) # PERCPU_VADDR sample_lds 64 None []) sample_percpu =
      link (PERCPU_SECTION sample_lds 64) sample_percpu"
    using percpu_section_equivalent [of sample_lds sample_percpu 64] by simp
  moreover have "map_option (\<lambda>st'. (ls_syms st' ''__per_cpu_load'', ls_dot st')) (link (PERCPU_SECTION sample_lds 64) sample_percpu) =
      Some (Some 4096, 4120)"
    by (simp add: percpu_run sample_percpu_def PERCPU_SECTION_def output_at_def section_start_def
        section_align_def close_section_def find_out_def)
  ultimately show ?thesis by auto
qed

section \<open>Pages that are treated apart\<close>

lemma RW_DATA_BODY_split:
  "RW_DATA_BODY c cl pa it = INIT_TASK_DATA c it @ Assign ''.'' (Align (Const (lc_PAGE_SIZE c))) #
     [label ''__nosave_begin'', input ''.data..nosave''] @ Assign ''.'' (Align (Const (lc_PAGE_SIZE c))) #
     label ''__nosave_end'' # PAGE_ALIGNED_DATA pa @ CACHELINE_ALIGNED_DATA cl @ READ_MOSTLY_DATA cl @
     DATA_DATA c @ [CONSTRUCTORS]"
  by (simp add: RW_DATA_BODY_def NOSAVE_DATA_def stmt_defs)

definition PERCPU_BEFORE_DECRYPTED :: "lds_config \<Rightarrow> nat \<Rightarrow> stmt list" where
  "PERCPU_BEFORE_DECRYPTED c cacheline = take 9 (PERCPU_INPUT c cacheline)"

lemma PERCPU_INPUT_split:
  "lc_config c ''CONFIG_AMD_MEM_ENCRYPT'' \<Longrightarrow>
   PERCPU_INPUT c cl = PERCPU_BEFORE_DECRYPTED c cl @ Assign ''.'' (Align (Const (lc_PAGE_SIZE c))) #
     [input ''.data..percpu..decrypted''] @ Assign ''.'' (Align (Const (lc_PAGE_SIZE c))) #
     [label ''__per_cpu_end'']"
  by (simp add: PERCPU_INPUT_def PERCPU_BEFORE_DECRYPTED_def PERCPU_DECRYPTED_SECTION_def stmt_defs)

text \<open>
  Data that the kernel treats page by page shares no page with other data of its output
  section: the pages hibernation does not save hold only \<open>.data..nosave\<close>, and with memory
  encryption the pages that are decrypted hold only \<open>.data..percpu..decrypted\<close>, whatever the
  sizes, alignments and order of the input sections.
\<close>

theorem special_pages_apart:
  assumes "ls_map st = []" "0 < lc_PAGE_SIZE c"
  shows "(exec_body out (RW_DATA_BODY c cacheline pagealigned inittask) st = Some st' \<longrightarrow>
      pages_apart (lc_PAGE_SIZE c) ''.data..nosave'' (ls_map st')) \<and>
    (lc_config c ''CONFIG_AMD_MEM_ENCRYPT'' \<longrightarrow> exec_body out (PERCPU_INPUT c cacheline) st = Some st' \<longrightarrow>
      pages_apart (lc_PAGE_SIZE c) ''.data..percpu..decrypted'' (ls_map st'))"
proof (intro conjI impI)
  assume "exec_body out (RW_DATA_BODY c cacheline pagealigned inittask) st = Some st'"
  then show "pages_apart (lc_PAGE_SIZE c) ''.data..nosave'' (ls_map st')"
    unfolding RW_DATA_BODY_split
    by (rule pages_apart_between [OF _ assms])
      (simp_all add: INIT_TASK_DATA_def stmt_defs glob_literal_eq)
next
  assume "exec_body out (PERCPU_INPUT c cacheline) st = Some st'" "lc_config c ''CONFIG_AMD_MEM_ENCRYPT''"
  then have "exec_body out (PERCPU_BEFORE_DECRYPTED c cacheline @ Assign ''.'' (Align (Const (lc_PAGE_SIZE c))) #
     [input ''.data..percpu..decrypted''] @ Assign ''.'' (Align (Const (lc_PAGE_SIZE c))) #
     [label ''__per_cpu_end'']) st = Some st'" by (simp only: PERCPU_INPUT_split)
  then show "pages_apart (lc_PAGE_SIZE c) ''.data..percpu..decrypted'' (ls_map st')"
    by (rule pages_apart_between [OF _ assms])
      (simp_all add: PERCPU_BEFORE_DECRYPTED_def PERCPU_INPUT_def stmt_defs glob_literal_eq)
qed

definition sample_encrypt :: lds_config where
  "sample_encrypt = sample_lds\<lparr>lc_config := \<lambda>n. n = ''CONFIG_AMD_MEM_ENCRYPT''\<rparr>"

definition sample_encrypted :: link_state where
  "sample_encrypted =
     link_start 100 Map.empty [sample_sec ''.data..percpu..decrypted'' 24, sample_sec ''.data..percpu'' 24]"

theorem special_pages_apart_witness:
  "\<exists>st'. exec_body ''.data..percpu'' (PERCPU_INPUT sample_encrypt 64) sample_encrypted = Some st' \<and>
     pages_apart 4096 ''.data..percpu..decrypted'' (ls_map st') \<and>
     Placed ''.data..percpu'' (sample_sec ''.data..percpu..decrypted'' 24) 8192 \<in> set (ls_map st')"
proof -
  have hyps: "ls_map sample_encrypted = []" "0 < lc_PAGE_SIZE sample_encrypt"
    "lc_config sample_encrypt ''CONFIG_AMD_MEM_ENCRYPT''" "lc_PAGE_SIZE sample_encrypt = 4096"
    by (simp_all add: sample_encrypted_def sample_encrypt_def sample_lds_def link_start_def)
  have "map_option (\<lambda>st'. Placed ''.data..percpu'' (sample_sec ''.data..percpu..decrypted'' 24) 8192 \<in> set (ls_map st'))
      (exec_body ''.data..percpu'' (PERCPU_INPUT sample_encrypt 64) sample_encrypted) = Some True"
    by (simp add: percpu_run sample_encrypted_def sample_encrypt_def sample_sec_def)
  then obtain st' where "exec_body ''.data..percpu'' (PERCPU_INPUT sample_encrypt 64) sample_encrypted = Some st'"
    "Placed ''.data..percpu'' (sample_sec ''.data..percpu..decrypted'' 24) 8192 \<in> set (ls_map st')"
    by auto
  then show ?thesis using special_pages_apart [OF hyps(1,2), of "''.data..percpu''" 64 0 0 st'] hyps(3,4)
    by auto
qed

end
