(* ===== verification/Cgroup_Files.thy ===== *)
theory Cgroup_Files
  imports Bandwidth_Correct Stat_Files
begin

text \<open>
  The files of the cpu controller (\<open>core.c\<close>): the tables \<open>cpu_legacy_files\<close> and \<open>cpu_files\<close>, which
  say how each file is read and written, the controller's operations, and what no write through any
  of the files can break.
\<close>

section \<open>Files\<close>

text \<open>What a \<open>seq_show\<close> prints: lines of a statistics file, or text.\<close>

datatype shown = Shown_lines "seq_line list" | Shown_text string

record cftype =
  cft_name :: string
  cft_not_on_root :: bool
  cft_read_u64 :: "(kernel \<Rightarrow> tgid \<Rightarrow> u64) option"
  cft_read_s64 :: "(kernel \<Rightarrow> tgid \<Rightarrow> int) option"
  cft_write_u64 :: "(tgid \<Rightarrow> u64 \<Rightarrow> kernel \<Rightarrow> (int \<times> kernel) option) option"
  cft_write_s64 :: "(tgid \<Rightarrow> int \<Rightarrow> kernel \<Rightarrow> (int \<times> kernel) option) option"
  cft_seq_show :: "(kernel \<Rightarrow> tgid \<Rightarrow> shown) option"
  cft_write :: "(tgid \<Rightarrow> string \<Rightarrow> nat \<Rightarrow> kernel \<Rightarrow> (int \<times> kernel) option) option"

definition no_file :: "string \<Rightarrow> cftype" where
  "no_file name =
     \<lparr>cft_name = name, cft_not_on_root = False, cft_read_u64 = None, cft_read_s64 = None,
      cft_write_u64 = None, cft_write_s64 = None, cft_seq_show = None, cft_write = None\<rparr>"

text \<open>
  What the handlers reach in \<open>fair.c\<close> and \<open>rt.c\<close>: statistics, the idle flag of a group, and, when
  \<open>CONFIG_RT_GROUP_SCHED\<close> is set, its real-time limits.
\<close>

record cpu_file_env =
  ce_api :: kapi
  ce_stats :: "tgid \<Rightarrow> cfs_stats"
  ce_idle :: "tgid \<Rightarrow> int"
  ce_set_idle :: "tgid \<Rightarrow> int \<Rightarrow> kernel \<Rightarrow> int \<times> kernel"
  ce_rt_group_sched :: bool
  ce_rt_runtime :: "kernel \<Rightarrow> tgid \<Rightarrow> int"
  ce_set_rt_runtime :: "tgid \<Rightarrow> int \<Rightarrow> kernel \<Rightarrow> int \<times> kernel"
  ce_rt_period :: "kernel \<Rightarrow> tgid \<Rightarrow> u64"
  ce_set_rt_period :: "tgid \<Rightarrow> u64 \<Rightarrow> kernel \<Rightarrow> int \<times> kernel"
  ce_rt_can_attach :: "kernel \<Rightarrow> tgid \<Rightarrow> tid \<Rightarrow> bool"

section \<open>Handlers of the real-time limits\<close>

definition cpu_rt_runtime_write :: "cpu_file_env \<Rightarrow> tgid \<Rightarrow> int \<Rightarrow> kernel \<Rightarrow> int \<times> kernel" where
  "cpu_rt_runtime_write e tg val k = ce_set_rt_runtime e tg val k"

definition cpu_rt_runtime_read :: "cpu_file_env \<Rightarrow> kernel \<Rightarrow> tgid \<Rightarrow> int" where
  "cpu_rt_runtime_read e k tg = ce_rt_runtime e k tg"

definition cpu_rt_period_write_uint :: "cpu_file_env \<Rightarrow> tgid \<Rightarrow> u64 \<Rightarrow> kernel \<Rightarrow> int \<times> kernel" where
  "cpu_rt_period_write_uint e tg rt_period_us k = ce_set_rt_period e tg rt_period_us k"

definition cpu_rt_period_read_uint :: "cpu_file_env \<Rightarrow> kernel \<Rightarrow> tgid \<Rightarrow> u64" where
  "cpu_rt_period_read_uint e k tg = ce_rt_period e k tg"

section \<open>The tables\<close>

text \<open>The two \<open>uclamp\<close> files, which both tables list.\<close>

definition uclamp_files :: "cpu_file_env \<Rightarrow> cftype list" where
  "uclamp_files e =
     [(no_file ''uclamp.min'')\<lparr>cft_not_on_root := True,
        cft_seq_show := Some (\<lambda>k tg. Shown_text (cpu_uclamp_min_show tg k)),
        cft_write := Some (\<lambda>tg buf n k. Some (cpu_uclamp_min_write (ce_api e) tg buf n k))\<rparr>,
      (no_file ''uclamp.max'')\<lparr>cft_not_on_root := True,
        cft_seq_show := Some (\<lambda>k tg. Shown_text (cpu_uclamp_max_show tg k)),
        cft_write := Some (\<lambda>tg buf n k. Some (cpu_uclamp_max_write (ce_api e) tg buf n k))\<rparr>]"

definition rt_group_files :: "cpu_file_env \<Rightarrow> cftype list" where
  "rt_group_files e =
     (if ce_rt_group_sched e
      then [(no_file ''rt_runtime_us'')\<lparr>cft_read_s64 := Some (cpu_rt_runtime_read e),
              cft_write_s64 := Some (\<lambda>tg v k. Some (cpu_rt_runtime_write e tg v k))\<rparr>,
            (no_file ''rt_period_us'')\<lparr>cft_read_u64 := Some (cpu_rt_period_read_uint e),
              cft_write_u64 := Some (\<lambda>tg v k. Some (cpu_rt_period_write_uint e tg v k))\<rparr>]
      else [])"

definition cpu_legacy_files :: "cpu_file_env \<Rightarrow> cftype list" where
  "cpu_legacy_files e =
     [(no_file ''shares'')\<lparr>cft_read_u64 := Some cpu_shares_read_u64,
        cft_write_u64 := Some (\<lambda>tg v k. Some (cpu_shares_write_u64 (ce_api e) tg v k))\<rparr>,
      (no_file ''idle'')\<lparr>cft_read_s64 := Some (\<lambda>k tg. cpu_idle_read_s64 (ce_idle e) tg),
        cft_write_s64 := Some (\<lambda>tg v k. Some (cpu_idle_write_s64 (ce_set_idle e) tg v k))\<rparr>,
      (no_file ''cfs_quota_us'')\<lparr>cft_read_s64 := Some (\<lambda>k tg. sint (cpu_cfs_quota_read_s64 k tg)),
        cft_write_s64 := Some (\<lambda>tg v k. cpu_cfs_quota_write_s64 (ce_api e) tg (word_of_int v) k)\<rparr>,
      (no_file ''cfs_period_us'')\<lparr>cft_read_u64 := Some cpu_cfs_period_read_u64,
        cft_write_u64 := Some (cpu_cfs_period_write_u64 (ce_api e))\<rparr>,
      (no_file ''cfs_burst_us'')\<lparr>cft_read_u64 := Some cpu_cfs_burst_read_u64,
        cft_write_u64 := Some (cpu_cfs_burst_write_u64 (ce_api e))\<rparr>,
      (no_file ''stat'')\<lparr>cft_seq_show := Some (\<lambda>k tg. Shown_lines (cpu_cfs_stat_show (ce_stats e) k tg))\<rparr>,
      (no_file ''stat.local'')\<lparr>cft_seq_show :=
         Some (\<lambda>k tg. Shown_lines (cpu_cfs_local_stat_show (ce_stats e) k tg))\<rparr>] @
     rt_group_files e @ uclamp_files e"

definition cpu_files :: "cpu_file_env \<Rightarrow> cftype list" where
  "cpu_files e =
     [(no_file ''weight'')\<lparr>cft_not_on_root := True, cft_read_u64 := Some cpu_weight_read_u64,
        cft_write_u64 := Some (\<lambda>tg v k. Some (cpu_weight_write_u64 (ce_api e) tg v k))\<rparr>,
      (no_file ''weight.nice'')\<lparr>cft_not_on_root := True, cft_read_s64 := Some cpu_weight_nice_read_s64,
        cft_write_s64 := Some (\<lambda>tg v k. Some (cpu_weight_nice_write_s64 (ce_api e) tg v k))\<rparr>,
      (no_file ''idle'')\<lparr>cft_not_on_root := True,
        cft_read_s64 := Some (\<lambda>k tg. cpu_idle_read_s64 (ce_idle e) tg),
        cft_write_s64 := Some (\<lambda>tg v k. Some (cpu_idle_write_s64 (ce_set_idle e) tg v k))\<rparr>,
      (no_file ''max'')\<lparr>cft_not_on_root := True,
        cft_seq_show := Some (\<lambda>k tg. Shown_text (cpu_max_show k tg)),
        cft_write := Some (\<lambda>tg buf n k. cpu_max_write (ce_api e) tg buf (int n) k)\<rparr>,
      (no_file ''max.burst'')\<lparr>cft_not_on_root := True, cft_read_u64 := Some cpu_cfs_burst_read_u64,
        cft_write_u64 := Some (cpu_cfs_burst_write_u64 (ce_api e))\<rparr>] @
     uclamp_files e"

section \<open>The controller\<close>

text \<open>\<open>can_attach\<close> is filled in only with \<open>CONFIG_RT_GROUP_SCHED\<close>; each task comes with its target.\<close>

definition cpu_cgroup_can_attach :: "cpu_file_env \<Rightarrow> (tgid \<times> tid) list \<Rightarrow> kernel \<Rightarrow> int" where
  "cpu_cgroup_can_attach e tset k =
     (if list_all (\<lambda>(css, task). ce_rt_can_attach e k css task) tset then 0 else - EINVAL)"

record cgroup_subsys =
  css_alloc :: "tgid option \<Rightarrow> kernel \<Rightarrow> tgid option \<times> kernel"
  css_online :: "tgid \<Rightarrow> tgid option \<Rightarrow> kernel \<Rightarrow> int \<times> kernel"
  css_released :: "tgid \<Rightarrow> kernel \<Rightarrow> kernel"
  css_free :: "tgid \<Rightarrow> kernel \<Rightarrow> kernel"
  css_extra_stat_show :: "tgid \<Rightarrow> seq_line list"
  css_local_stat_show :: "kernel \<Rightarrow> tgid \<Rightarrow> seq_line list"
  css_can_attach :: "((tgid \<times> tid) list \<Rightarrow> kernel \<Rightarrow> int) option"
  css_attach :: "tid list \<Rightarrow> kernel \<Rightarrow> kernel"
  css_legacy_cftypes :: "cftype list"
  css_dfl_cftypes :: "cftype list"
  css_early_init :: bool
  css_threaded :: bool

definition cpu_cgrp_subsys :: "cpu_file_env \<Rightarrow> cgroup_subsys" where
  "cpu_cgrp_subsys e =
     \<lparr>css_alloc = cpu_cgroup_css_alloc (ce_api e), css_online = cpu_cgroup_css_online (ce_api e),
      css_released = cpu_cgroup_css_released, css_free = cpu_cgroup_css_free (ce_api e),
      css_extra_stat_show = cpu_extra_stat_show (ce_stats e),
      css_local_stat_show = cpu_local_stat_show (ce_stats e),
      css_can_attach = (if ce_rt_group_sched e then Some (cpu_cgroup_can_attach e) else None),
      css_attach = cpu_cgroup_attach (ce_api e),
      css_legacy_cftypes = cpu_legacy_files e, css_dfl_cftypes = cpu_files e,
      css_early_init = True, css_threaded = True\<rparr>"

section \<open>Writing to a file\<close>

text \<open>A value of the kind that the file's handler takes; a file without such a handler refuses.\<close>

datatype file_value = Value_u64 u64 | Value_s64 int | Value_text string nat

fun write_file :: "cftype \<Rightarrow> tgid \<Rightarrow> file_value \<Rightarrow> kernel \<Rightarrow> (int \<times> kernel) option" where
  "write_file f tg (Value_u64 v) k =
     (case cft_write_u64 f of Some h \<Rightarrow> h tg v k | None \<Rightarrow> Some (- EINVAL, k))"
| "write_file f tg (Value_s64 v) k =
     (case cft_write_s64 f of Some h \<Rightarrow> h tg v k | None \<Rightarrow> Some (- EINVAL, k))"
| "write_file f tg (Value_text buf n) k =
     (case cft_write f of Some h \<Rightarrow> h tg buf n k | None \<Rightarrow> Some (- EINVAL, k))"

type_synonym file_write = "cftype \<times> tgid \<times> file_value"

fun write_files :: "file_write list \<Rightarrow> kernel \<Rightarrow> kernel option" where
  "write_files [] k = Some k"
| "write_files ((f, tg, v) # ws) k = Option.bind (write_file f tg v k) (\<lambda>(ret, k). write_files ws k)"

text \<open>
  An invariant of the groups that each handler returns with: then so does every sequence of writes.
\<close>

locale group_files =
  fixes inv :: "kernel \<Rightarrow> bool" and files :: "cftype list"
  assumes writes: "f \<in> set files \<Longrightarrow> inv k \<Longrightarrow> \<exists>ret k'. write_file f tg v k = Some (ret, k') \<and> inv k'"
begin

lemma write_all:
  "(\<forall>(f, tg, v) \<in> set ws. f \<in> set files) \<Longrightarrow> inv k \<Longrightarrow> \<exists>k'. write_files ws k = Some k' \<and> inv k'"
proof (induction ws arbitrary: k)
  case (Cons w ws)
  obtain f tg v where w: "w = (f, tg, v)" by (cases w) auto
  obtain ret k1 where "write_file f tg v k = Some (ret, k1)" "inv k1"
    using writes [of f k tg v] Cons.prems w by auto
  with Cons w show ?case by auto
qed simp

end

section \<open>No write breaks the groups\<close>

text \<open>What the invariant reads: the root, the tree and the limits.\<close>

definition group_view :: "kernel \<Rightarrow> tgid \<times> (tgid \<Rightarrow> tgid option \<times> tgid list \<times> u64 \<times> u64 \<times> u64)" where
  "group_view k = (k_root_tg k, \<lambda>g. (tg_parent (k_tgs k g), tg_children (k_tgs k g),
     cb_period (cfs_b k g), cb_quota (cfs_b k g), cb_burst (cfs_b k g)))"

definition group_inv :: "tgid \<Rightarrow> (tgid \<Rightarrow> nat) \<Rightarrow> nat \<Rightarrow> kernel \<Rightarrow> bool" where
  "group_inv root lvl n k \<longleftrightarrow>
     tg_forest k lvl \<and> k_root_tg k = root \<and> tg_depth_le k n root \<and> limits_inv root k"

lemma group_viewD:
  assumes "group_view k' = group_view k"
  shows "k_root_tg k' = k_root_tg k" "tg_parent (k_tgs k' g) = tg_parent (k_tgs k g)"
    "tg_children (k_tgs k' g) = tg_children (k_tgs k g)" "cb_period (cfs_b k' g) = cb_period (cfs_b k g)"
    "cb_quota (cfs_b k' g) = cb_quota (cfs_b k g)" "cb_burst (cfs_b k' g) = cb_burst (cfs_b k g)"
  using assms by (simp_all add: group_view_def fun_eq_iff)

lemma group_view_inv: "group_view k' = group_view k \<Longrightarrow> group_inv root lvl n k' = group_inv root lvl n k"
proof -
  assume v: "group_view k' = group_view k"
  note d = group_viewD [OF v]
  have "tg_depth_le k' n g = tg_depth_le k n g" for g
    by (induction n arbitrary: g) (simp_all add: d(3))
  moreover have "tg_forest k' lvl = tg_forest k lvl" by (simp add: tg_forest_def d(2,3))
  ultimately show ?thesis by (simp add: group_inv_def d limits_inv_def limits_bounded_def)
qed

text \<open>What the functions of the other files leave alone.\<close>

definition file_env_keeps :: "cpu_file_env \<Rightarrow> bool" where
  "file_env_keeps e \<longleftrightarrow>
     bandwidth_ops_keep (ce_api e) \<and>
     (\<forall>k. k_root_tg (ka_cfs_bandwidth_usage_inc (ce_api e) k) = k_root_tg k) \<and>
     (\<forall>k. k_root_tg (ka_cfs_bandwidth_usage_dec (ce_api e) k) = k_root_tg k) \<and>
     (\<forall>tg k. k_root_tg (ka_refill_cfs_bandwidth_runtime (ce_api e) tg k) = k_root_tg k) \<and>
     (\<forall>tg k. k_root_tg (ka_start_cfs_bandwidth (ce_api e) tg k) = k_root_tg k) \<and>
     (\<forall>tg c k. k_root_tg (ka_unthrottle_cfs_rq (ce_api e) tg c k) = k_root_tg k) \<and>
     (\<forall>tg s k. group_view (snd (ka_sched_group_set_shares (ce_api e) tg s k)) = group_view k) \<and>
     (\<forall>tg v k. group_view (snd (ce_set_idle e tg v k)) = group_view k) \<and>
     (\<forall>tg v k. group_view (snd (ce_set_rt_runtime e tg v k)) = group_view k) \<and>
     (\<forall>tg v k. group_view (snd (ce_set_rt_period e tg v k)) = group_view k)"

subsection \<open>Bandwidth\<close>

lemma schedulable_down_view: "group_view (snd (tg_cfs_schedulable_down a d tg k)) = group_view k"
  by (auto simp: tg_cfs_schedulable_down_def Let_def group_view_def cfs_b_def upd_cfs_b_def fun_eq_iff
      split: option.splits if_splits)

lemma visit_all_view:
  "(\<And>g k. group_view (snd (f g k)) = group_view k) \<Longrightarrow> group_view (snd (visit_all f gs k)) = group_view k"
  by (induction gs arbitrary: k) (auto split: prod.split, metis snd_conv, metis snd_conv)

lemma tg_dfs_view:
  assumes "\<And>g k. group_view (snd (down g k)) = group_view k" "\<And>g k. group_view (snd (up g k)) = group_view k"
  shows "group_view (snd (tg_dfs down up n g k)) = group_view k"
proof (induction n arbitrary: g k)
  case (Suc n)
  obtain r1 k1 where 1: "down g k = (r1, k1)" by fastforce
  obtain r2 k2 where 2: "visit_all (tg_dfs down up n) (tg_children (k_tgs k1 g)) k1 = (r2, k2)" by fastforce
  have "group_view k1 = group_view k" using assms(1) [of g k] 1 by simp
  moreover have "group_view k2 = group_view k1" using visit_all_view [of "tg_dfs down up n" "tg_children (k_tgs k1 g)" k1, OF Suc.IH] 2 by simp
  moreover have "group_view (snd (up g k2)) = group_view k2" by (rule assms(2))
  ultimately show ?case by (simp add: 1 2)
qed simp

lemma us_cfs_schedulable_view:
  assumes "tg_forest k lvl" "tg_depth_le k n (k_root_tg k)"
    and "us_cfs_schedulable a tg period quota k = Some (ret, k')"
  shows "group_view k' = group_view k"
proof -
  have "group_view k' = group_view k"
    if "walk_tg_tree (tg_cfs_schedulable_down a d) tg_nop k = Some (ret, k')" for d
  proof -
    have "walk_tg_tree (tg_cfs_schedulable_down a d) tg_nop k =
        Some (tg_dfs (tg_cfs_schedulable_down a d) tg_nop n (k_root_tg k) k)"
      using walk_down_dfs [OF schedulable_down_keeps tg_nop_keeps assms(1) assms(2), of "k_root_tg k" k a d]
      by (cases "tg_dfs (tg_cfs_schedulable_down a d) tg_nop n (k_root_tg k) k")
        (simp add: walk_tg_tree_def walk_tg_tree_from_def)
    then show ?thesis
      using that tg_dfs_view [of "tg_cfs_schedulable_down a d" tg_nop n "k_root_tg k" k]
        schedulable_down_view by (simp add: tg_nop_def) (metis snd_conv)
  qed
  then show ?thesis using assms(3) by (auto simp: us_cfs_schedulable_def Let_def split: if_splits)
qed

lemma commit_cfs_bandwidth_root:
  assumes "file_env_keeps e"
  shows "k_root_tg (commit_cfs_bandwidth (ce_api e) tg period quota burst k) = k_root_tg k"
proof -
  have upd: "k_root_tg (upd_cfs_b tg f k) = k_root_tg k" for f k by (simp add: upd_cfs_b_def)
  have fold: "k_root_tg (fold (set_cfs_rq_runtime (ce_api e) tg b) cs k) = k_root_tg k" for b cs k
    by (rule fold_invariant [where P = "\<lambda>s. k_root_tg s = k_root_tg k"])
      (use assms in \<open>simp_all add: set_cfs_rq_runtime_def file_env_keeps_def Let_def\<close>)
  show ?thesis using assms by (simp add: commit_cfs_bandwidth_def Let_def fold upd file_env_keeps_def)
qed

lemma write_cfs_inv:
  assumes "file_env_keeps e" "group_inv root lvl n k"
  shows "\<exists>ret k'. tg_set_cfs_bandwidth (ce_api e) tg period quota burst k = Some (ret, k') \<and> group_inv root lvl n k'"
proof -
  have keep: "bandwidth_ops_keep (ce_api e)" using assms(1) by (simp add: file_env_keeps_def)
  have inv: "tg_forest k lvl" "tg_depth_le k n (k_root_tg k)" "limits_inv root k"
    using assms(2) by (auto simp: group_inv_def)
  obtain r k1 where s: "us_cfs_schedulable (ce_api e) tg period quota k = Some (r, k1)"
    using us_cfs_schedulable_returns [OF inv(1,2)] by blast
  have view: "group_view k1 = group_view k" by (rule us_cfs_schedulable_view [OF inv(1,2) s])
  obtain ret k' where k': "tg_set_cfs_bandwidth (ce_api e) tg period quota burst k = Some (ret, k')"
      "limits_inv root k'"
    using tg_set_cfs_bandwidth_bounded [OF keep inv] by blast
  have "k' = k \<or> k' = k1 \<or> k' = commit_cfs_bandwidth (ce_api e) tg period quota burst k1"
    using k'(1) s by (auto simp: tg_set_cfs_bandwidth_def split: if_splits)
  moreover have tree: "k_root_tg k2 = k_root_tg k \<and> (\<forall>g. tg_parent (k_tgs k2 g) = tg_parent (k_tgs k g) \<and>
      tg_children (k_tgs k2 g) = tg_children (k_tgs k g))"
    if "k2 = k1 \<or> k2 = commit_cfs_bandwidth (ce_api e) tg period quota burst k1" for k2
    using that group_viewD [OF view]
    by (auto simp: commit_cfs_bandwidth_tgs [OF keep] commit_cfs_bandwidth_root [OF assms(1)] upd_cfs_b_def)
  ultimately have "k_root_tg k' = k_root_tg k \<and> (\<forall>g. tg_parent (k_tgs k' g) = tg_parent (k_tgs k g) \<and>
      tg_children (k_tgs k' g) = tg_children (k_tgs k g))" by blast
  then have same: "k_root_tg k' = k_root_tg k" "tg_parent (k_tgs k' g) = tg_parent (k_tgs k g)"
    "tg_children (k_tgs k' g) = tg_children (k_tgs k g)" for g by auto
  have "tg_depth_le k' n g = tg_depth_le k n g" for g
    by (induction n arbitrary: g) (simp_all add: same(3))
  then have "group_inv root lvl n k'"
    using assms(2) k'(2) by (simp add: group_inv_def tg_forest_def same)
  with k'(1) show ?thesis by blast
qed

subsection \<open>The other files\<close>

lemma uclamp_update_active_root: "k_root_tg (uclamp_update_active_tasks a g k) = k_root_tg k"
proof -
  have u: "k_root_tg (upd_task_uc p i f k) = k_root_tg k" "k_root_tg (upd_uc_bucket c i b h k) = k_root_tg k"
    "k_root_tg (uclamp_rq_set c i v k) = k_root_tg k" "k_root_tg (set_uclamp_idle c k) = k_root_tg k"
    "k_root_tg (clear_uclamp_idle c k) = k_root_tg k" for p i f k c b h v
    by (simp_all add: upd_task_uc_def upd_uc_bucket_def upd_uc_rq_def uclamp_rq_set_def
        set_uclamp_idle_def clear_uclamp_idle_def)
  have inc: "k_root_tg (uclamp_rq_inc_id c p i k) = k_root_tg k" for c p i k
    by (simp add: uclamp_rq_inc_id_def uclamp_idle_reset_def u Let_def)
  have dec: "k_root_tg (uclamp_rq_dec_id c p i k) = k_root_tg k" for c p i k
    by (simp add: uclamp_rq_dec_id_def uclamp_rq_max_value_def uclamp_idle_value_def u Let_def
        split: option.split)
  have reinc: "k_root_tg (uclamp_rq_reinc_id c p i k) = k_root_tg k" for c p i k
    by (simp add: uclamp_rq_reinc_id_def u inc dec Let_def)
  have act: "k_root_tg (uclamp_update_active p k) = k_root_tg k" for p k
    by (simp add: uclamp_update_active_def clamp_ids_def reinc)
  show ?thesis
    unfolding uclamp_update_active_tasks_def
    by (rule fold_invariant [where P = "\<lambda>s. k_root_tg s = k_root_tg k"]) (simp_all add: act)
qed

lemma cpu_util_update_eff_view: "group_view (cpu_util_update_eff a n g k) = group_view k"
proof (induction n arbitrary: g k)
  case (Suc n)
  have f: "group_view (fold (cpu_util_update_eff a n) cs k) = group_view k" for cs k
    by (rule fold_invariant [where P = "\<lambda>s. group_view s = group_view k"]) (use Suc.IH in auto)
  have active: "group_view (uclamp_update_active_tasks a g k) = group_view k" for k
    by (simp add: group_view_def uclamp_update_active_root cfs_b_def)
  have "group_view (fold (tg_set_eff g (tg_eff k g)) clamp_ids k) = group_view k"
    by (simp add: group_view_def clamp_ids_def tg_set_eff_def upd_tg_uc_def cfs_b_def fun_eq_iff)
  then show ?case by (simp add: Let_def f active)
qed simp

lemma cpu_uclamp_write_view: "group_view (snd (cpu_uclamp_write a tg buf n i k)) = group_view k"
  by (simp add: cpu_uclamp_write_def Let_def cpu_util_update_eff_view)
    (simp add: group_view_def uclamp_used_enable_def upd_tg_uc_req_def cfs_b_def fun_eq_iff)

lemma write_file_inv:
  assumes env: "file_env_keeps e" and f: "f \<in> set (cpu_legacy_files e @ cpu_files e)"
    and inv: "group_inv root lvl n k"
  shows "\<exists>ret k'. write_file f tg v k = Some (ret, k') \<and> group_inv root lvl n k'"
proof -
  note bandwidth = write_cfs_inv [OF env inv, of tg]
  have pair: "(\<exists>ret k'. r = (ret, k') \<and> group_inv root lvl n k') \<longleftrightarrow> group_inv root lvl n (snd r)" for r
    by (cases r) simp
  have shares: "group_view (snd (ka_sched_group_set_shares (ce_api e) tg s k)) = group_view k"
    "group_view (snd (ce_set_idle e tg w k)) = group_view k"
    "group_view (snd (ce_set_rt_runtime e tg w k)) = group_view k"
    "group_view (snd (ce_set_rt_period e tg s k)) = group_view k" for s w
    using env by (simp_all add: file_env_keeps_def)
  have max: "\<exists>ret k'. cpu_max_write (ce_api e) tg buf m k = Some (ret, k') \<and> group_inv root lvl n k'" for buf m
  proof -
    obtain ret period quota where p: "cpu_period_quota_parse (ce_api e) buf (tg_get_cfs_period k tg) = (ret, period, quota)"
      using prod_cases3 by blast
    obtain r k' where r: "tg_set_cfs_bandwidth (ce_api e) tg period quota (tg_get_cfs_burst k tg) k = Some (r, k')"
      "group_inv root lvl n k'" using bandwidth by blast
    then show ?thesis using inv by (cases "ret = 0") (simp_all add: cpu_max_write_def p Let_def)
  qed
  have limits: "\<exists>ret k'. cpu_cfs_quota_write_s64 (ce_api e) tg w k = Some (ret, k') \<and> group_inv root lvl n k'"
    "\<exists>ret k'. cpu_cfs_period_write_u64 (ce_api e) tg w k = Some (ret, k') \<and> group_inv root lvl n k'"
    "\<exists>ret k'. cpu_cfs_burst_write_u64 (ce_api e) tg w k = Some (ret, k') \<and> group_inv root lvl n k'" for w
    using bandwidth inv by (simp_all add: cpu_cfs_quota_write_s64_def tg_set_cfs_quota_def
        cpu_cfs_period_write_u64_def tg_set_cfs_period_def cpu_cfs_burst_write_u64_def
        tg_set_cfs_burst_def Let_def)
  have views: "group_view (snd (cpu_shares_write_u64 (ce_api e) tg s k)) = group_view k"
    "group_view (snd (cpu_weight_write_u64 (ce_api e) tg s k)) = group_view k"
    "group_view (snd (cpu_weight_nice_write_s64 (ce_api e) tg w k)) = group_view k"
    "group_view (snd (cpu_idle_write_s64 (ce_set_idle e) tg w k)) = group_view k"
    "group_view (snd (cpu_rt_runtime_write e tg w k)) = group_view k"
    "group_view (snd (cpu_rt_period_write_uint e tg s k)) = group_view k"
    "group_view (snd (cpu_uclamp_min_write (ce_api e) tg buf m k)) = group_view k"
    "group_view (snd (cpu_uclamp_max_write (ce_api e) tg buf m k)) = group_view k" for s w buf m
    using shares cpu_uclamp_write_view
    by (simp_all add: cpu_shares_write_u64_def cpu_weight_write_u64_def cpu_weight_nice_write_s64_def
        cpu_idle_write_s64_def cpu_rt_runtime_write_def cpu_rt_period_write_uint_def
        cpu_uclamp_min_write_def cpu_uclamp_max_write_def Let_def)
  show ?thesis
    using f inv by (cases v)
      (auto simp: cpu_legacy_files_def cpu_files_def rt_group_files_def uclamp_files_def no_file_def
        limits max pair views [THEN group_view_inv] split: if_splits)
qed

interpretation cpu_controller:
  group_files "\<lambda>k. file_env_keeps e \<and> group_inv root lvl n k" "cpu_legacy_files e @ cpu_files e"
  for e root lvl n
  by unfold_locales (use write_file_inv in blast)

text \<open>
  C35: Whatever sequence of values is written through whichever files of the controller, in either
  hierarchy and for whichever groups, every call returns, the groups still form the same tree, and
  all bandwidth limits are in bounds: periods between a millisecond and a second, quotas of at
  least a millisecond, and a burst that fits its quota without wrapping the arithmetic.
\<close>

theorem cgroup_writes_keep_groups:
  assumes "file_env_keeps e" "group_inv root lvl n k"
    and "\<And>f tg v. (f, tg, v) \<in> set ws \<Longrightarrow> f \<in> set (cpu_legacy_files e) \<union> set (cpu_files e)"
  shows "\<exists>k'. write_files ws k = Some k' \<and> group_inv root lvl n k'"
  using cpu_controller.write_all [where e = e and root = root and lvl = lvl and n = n and k = k and ws = ws] assms
  by fastforce

definition sample_file_env :: cpu_file_env where
  "sample_file_env =
     \<lparr>ce_api = sample_kapi, ce_stats = (\<lambda>_. undefined), ce_idle = (\<lambda>_. 0),
      ce_set_idle = (\<lambda>tg v k. (0, k)), ce_rt_group_sched = False, ce_rt_runtime = (\<lambda>k tg. 0),
      ce_set_rt_runtime = (\<lambda>tg v k. (0, k)), ce_rt_period = (\<lambda>k tg. 0),
      ce_set_rt_period = (\<lambda>tg v k. (0, k)), ce_rt_can_attach = (\<lambda>k tg p. True)\<rparr>"

theorem cgroup_writes_keep_groups_witness:
  "\<exists>k' lvl. write_files [(cpu_files sample_file_env ! 3, 1, Value_text ''max 100000'' 10),
      (cpu_legacy_files sample_file_env ! 0, 1, Value_u64 2048)] sample_burst = Some k' \<and>
     group_inv 0 lvl 2 k'"
proof -
  have env: "file_env_keeps sample_file_env"
    by (simp add: file_env_keeps_def bandwidth_ops_keep_def sample_file_env_def sample_kapi_def
        group_view_def cfs_b_def fun_eq_iff)
  have root: "k_root_tg sample_burst = 0"
    by (simp add: sample_burst_def upd_cfs_b_def sample_groups_def upd_tg_uc_req_def sample_defs)
  have "limits_inv 0 sample_burst"
    by (auto simp: limits_inv_def limits_bounded_def cfs_b_def sample_burst_def upd_cfs_b_def sample_groups_def
        upd_tg_uc_req_def sample_defs bw_consts RUNTIME_INF_def)
  then have inv: "group_inv 0 (\<lambda>g. g) 2 sample_burst"
    using sample_burst_tree root by (simp add: group_inv_def)
  have "cpu_files sample_file_env ! 3 \<in> set (cpu_files sample_file_env)"
    "cpu_legacy_files sample_file_env ! 0 \<in> set (cpu_legacy_files sample_file_env)"
    by (rule nth_mem, simp add: cpu_files_def cpu_legacy_files_def)+
  then have "\<exists>k'. write_files [(cpu_files sample_file_env ! 3, 1, Value_text ''max 100000'' 10),
      (cpu_legacy_files sample_file_env ! 0, 1, Value_u64 2048)] sample_burst = Some k' \<and>
     group_inv 0 (\<lambda>g. g) 2 k'"
    by (intro cgroup_writes_keep_groups [OF env inv]) auto
  then show ?thesis by blast
qed

end
