(* ===== verification/Scheduler_Probes.thy ===== *)
theory Scheduler_Probes
  imports Setsched_Correct "HOL-Library.State_Monad"
begin

text \<open>
  The user-space programs that are to show that the scheduler is at work:
  \<open>verify_real_scheduling.c\<close> and \<open>debug_scheduler.c\<close>. They are programs over the system calls,
  which are a parameter; run on the model's kernel, they report success although the task is not
  in the yat class.
\<close>

section \<open>Programs over system calls\<close>

record 'w os =
  os_getpid :: "'w \<Rightarrow> int"
  os_sched_getscheduler :: "int \<Rightarrow> 'w \<Rightarrow> int"
  os_sched_setscheduler :: "int \<Rightarrow> int \<Rightarrow> int \<Rightarrow> 'w \<Rightarrow> int \<times> 'w"
  os_errno :: "'w \<Rightarrow> int"
  os_sched_getcpu :: "'w \<Rightarrow> int"
  os_sched_getaffinity :: "int \<Rightarrow> 'w \<Rightarrow> int \<times> int set"
  os_sched_yield :: "'w \<Rightarrow> 'w"
  os_usleep :: "nat \<Rightarrow> 'w \<Rightarrow> 'w"
  os_sleep :: "nat \<Rightarrow> 'w \<Rightarrow> 'w"
  os_fork :: "'w \<Rightarrow> int \<times> 'w"
  os_wait :: "'w \<Rightarrow> 'w"
  os_system :: "string \<Rightarrow> 'w \<Rightarrow> 'w"
  os_gettimeofday :: "'w \<Rightarrow> int \<times> int"

text \<open>What the programs print, without the fixed text around the values.\<close>

datatype report =
  Print_heading nat
| Print_pid int
| Print_policy int
| Policy_set
| Policy_refused int
| Print_new_policy int
| Print_cpu int
| Print_mask "int list"
| Print_round nat
| Print_iteration nat int
| Print_migrated int
| Print_round_done nat
| Child_refused nat
| Child_started nat int int
| Child_iteration nat nat int
| Child_done nat int
| Fork_failed
| Waiting
| Original_scheduler int
| Attempting
| Set_failed int
| Current_scheduler int
| Using_yat
| Workload_started
| Progress nat int
| Workload_completed "int \<times> int" "int \<times> int"
| Final_sum int
| Restored
| Not_activated int

type_synonym ('w, 'a) probe = "('w \<times> report list, 'a) state"

definition observe :: "('w \<Rightarrow> 'a) \<Rightarrow> ('w, 'a) probe" where
  "observe f = State (\<lambda>(w, log). (f w, (w, log)))"

definition perform :: "('w \<Rightarrow> 'a \<times> 'w) \<Rightarrow> ('w, 'a) probe" where
  "perform f = State (\<lambda>(w, log). case f w of (r, w') \<Rightarrow> (r, (w', log)))"

definition act :: "('w \<Rightarrow> 'w) \<Rightarrow> ('w, unit) probe" where
  "act f = perform (\<lambda>w. ((), f w))"

definition print :: "report \<Rightarrow> ('w, unit) probe" where
  "print r = State (\<lambda>(w, log). ((), (w, log @ [r])))"

fun for_each :: "'b list \<Rightarrow> ('b \<Rightarrow> ('w, unit) probe) \<Rightarrow> ('w, unit) probe" where
  "for_each [] body = State_Monad.return ()"
| "for_each (x # xs) body = do { body x; for_each xs body }"

lemma run_probe [simp]:
  "run_state (observe f) (w, log) = (f w, (w, log))"
  "run_state (perform g) (w, log) = (case g w of (r, w') \<Rightarrow> (r, (w', log)))"
  "run_state (act h) (w, log) = ((), (h w, log))"
  "run_state (print r) (w, log) = ((), (w, log @ [r]))"
  by (simp_all add: observe_def perform_def act_def print_def)

text \<open>
  The loops that only keep the CPU busy, over a sum that nothing reads, have no effect here; the
  sum that \<open>debug_scheduler\<close> prints is a \<open>long\<close> of 64 bits.
\<close>

section \<open>verify_real_scheduling.c\<close>

text \<open>Setting the policy: what the program takes as the proof that the scheduler runs.\<close>

definition verify_policy :: "'w os \<Rightarrow> ('w, bool) probe" where
  "verify_policy os = do {
     pid \<leftarrow> observe (os_getpid os);
     print (Print_pid pid);
     policy \<leftarrow> observe (os_sched_getscheduler os pid);
     print (Print_policy policy);
     ret \<leftarrow> perform (os_sched_setscheduler os pid SCHED_YAT_CASCHED 0);
     (if ret = 0
      then do {
        print Policy_set;
        policy \<leftarrow> observe (os_sched_getscheduler os pid);
        print (Print_new_policy policy);
        State_Monad.return True }
      else do {
        err \<leftarrow> observe (os_errno os);
        print (Policy_refused err);
        State_Monad.return False }) }"

definition verify_affinity :: "'w os \<Rightarrow> ('w, unit) probe" where
  "verify_affinity os = do {
     print (Print_heading 3);
     cpu \<leftarrow> observe (os_sched_getcpu os);
     print (Print_cpu cpu);
     pid \<leftarrow> observe (os_getpid os);
     (ret, mask) \<leftarrow> observe (os_sched_getaffinity os pid);
     (if ret = 0 then print (Print_mask (filter (\<lambda>i. i \<in> mask) [0..7])) else State_Monad.return ()) }"

definition verify_iteration :: "'w os \<Rightarrow> nat \<Rightarrow> ('w, unit) probe" where
  "verify_iteration os i = do {
     current_cpu \<leftarrow> observe (os_sched_getcpu os);
     print (Print_iteration i current_cpu);
     act (os_sched_yield os);
     new_cpu \<leftarrow> observe (os_sched_getcpu os);
     (if new_cpu \<noteq> current_cpu then print (Print_migrated new_cpu) else State_Monad.return ());
     act (os_usleep os 10000) }"

definition verify_round :: "'w os \<Rightarrow> nat \<Rightarrow> ('w, unit) probe" where
  "verify_round os round = do {
     print (Print_round round);
     for_each [0..<10] (verify_iteration os);
     print (Print_round_done round);
     act (os_sleep os 1) }"

definition child_iteration :: "'w os \<Rightarrow> nat \<Rightarrow> nat \<Rightarrow> ('w, unit) probe" where
  "child_iteration os proc i = do {
     cpu \<leftarrow> observe (os_sched_getcpu os);
     (if i mod 5 = 0 then print (Child_iteration proc i cpu) else State_Monad.return ());
     act (os_usleep os 50000) }"

text \<open>The child ends with the exit code.\<close>

definition verify_child :: "'w os \<Rightarrow> nat \<Rightarrow> ('w, int) probe" where
  "verify_child os proc = do {
     pid \<leftarrow> observe (os_getpid os);
     ret \<leftarrow> perform (os_sched_setscheduler os pid SCHED_YAT_CASCHED 0);
     (if ret \<noteq> 0
      then do { print (Child_refused proc); State_Monad.return 1 }
      else do {
        pid \<leftarrow> observe (os_getpid os);
        cpu \<leftarrow> observe (os_sched_getcpu os);
        print (Child_started proc pid cpu);
        for_each [0..<20] (child_iteration os proc);
        cpu \<leftarrow> observe (os_sched_getcpu os);
        print (Child_done proc cpu);
        State_Monad.return 0 }) }"

text \<open>
  \<open>fork\<close> returns twice; the process with the result 0 is the child and leaves the loop by its
  exit. The result tells whether this process has exited.
\<close>

fun verify_forks :: "'w os \<Rightarrow> nat list \<Rightarrow> ('w, int option) probe" where
  "verify_forks os [] = State_Monad.return None"
| "verify_forks os (proc # procs) = do {
     pid \<leftarrow> perform (os_fork os);
     (if pid = 0 then do { code \<leftarrow> verify_child os proc; State_Monad.return (Some code) }
      else do {
        (if pid < 0 then print Fork_failed else State_Monad.return ());
        act (os_usleep os 100000);
        verify_forks os procs }) }"

definition verify_real_scheduling :: "'w os \<Rightarrow> ('w, int option) probe" where
  "verify_real_scheduling os = do {
     print (Print_heading 0);
     print (Print_heading 1);
     act (os_system os ''uname -r'');
     print (Print_heading 2);
     ok \<leftarrow> verify_policy os;
     (if \<not> ok then State_Monad.return None
      else do {
        verify_affinity os;
        print (Print_heading 4);
        for_each [0..<3] (verify_round os);
        print (Print_heading 5);
        exited \<leftarrow> verify_forks os [0..<4];
        (case exited of
           Some code \<Rightarrow> State_Monad.return (Some code)
         | None \<Rightarrow> do {
             print Waiting;
             for_each [0..<4] (\<lambda>_. act (os_wait os));
             print (Print_heading 6);
             State_Monad.return None }) }) }"

section \<open>debug_scheduler.c\<close>

primrec debug_workload :: "'w os \<Rightarrow> nat \<Rightarrow> ('w, u64) probe" where
  "debug_workload os 0 = State_Monad.return 0"
| "debug_workload os (Suc i) = do {
     total \<leftarrow> debug_workload os i;
     (if i mod 100000 = 0
      then do {
        cpu \<leftarrow> observe (os_sched_getcpu os);
        print (Progress i cpu);
        act (os_usleep os 1000) }
      else State_Monad.return ());
     State_Monad.return (total + of_nat i) }"

text \<open>The program up to its check; the result tells whether the check passed.\<close>

definition debug_activate :: "'w os \<Rightarrow> ('w, bool) probe" where
  "debug_activate os = do {
     original_policy \<leftarrow> observe (os_sched_getscheduler os 0);
     print (Original_scheduler original_policy);
     print Attempting;
     ret \<leftarrow> perform (os_sched_setscheduler os 0 SCHED_YAT_CASCHED 0);
     (if ret = -1
      then do {
        err \<leftarrow> observe (os_errno os);
        print (Set_failed err);
        State_Monad.return False }
      else do {
        current_policy \<leftarrow> observe (os_sched_getscheduler os 0);
        print (Current_scheduler current_policy);
        (if current_policy = SCHED_YAT_CASCHED
         then do { print Using_yat; State_Monad.return True }
         else do { print (Not_activated current_policy); State_Monad.return False }) }) }"

text \<open>The elapsed time is printed from the two times; its division is left out.\<close>

definition test_scheduler_behavior :: "'w os \<Rightarrow> ('w, unit) probe" where
  "test_scheduler_behavior os = do {
     active \<leftarrow> debug_activate os;
     (if \<not> active then State_Monad.return ()
      else do {
        print Workload_started;
        start \<leftarrow> observe (os_gettimeofday os);
        total \<leftarrow> debug_workload os 1000000;
        end_time \<leftarrow> observe (os_gettimeofday os);
        print (Workload_completed start end_time);
        print (Final_sum (sint total));
        perform (os_sched_setscheduler os 0 SCHED_NORMAL 0);
        print Restored }) }"

section \<open>The sum\<close>

lemma debug_workload_sum: "fst (run_state (debug_workload os n) s) = of_nat (\<Sum>{0..<n})"
  by (induction n arbitrary: s) (auto simp: case_prod_unfold add.commute)

lemma debug_workload_final: "sint (fst (run_state (debug_workload os 1000000) s)) = 499999500000"
proof -
  have "\<Sum>{0..<1000000} = (499999500000 :: nat)" by (simp add: Sum_Ico_nat del: sum.op_ivl_Suc)
  then show ?thesis by (simp only: debug_workload_sum) simp
qed

section \<open>The programs on the model's kernel\<close>

record user =
  us_kernel :: kernel
  us_errno :: int

text \<open>
  The two scheduler calls as the C library makes them: a negative result is an error number and
  becomes -1. \<open>param\<close> is the address of the parameter structure; the other calls are those of
  \<open>base\<close>.
\<close>

definition libc_result :: "int \<Rightarrow> user \<Rightarrow> int \<times> user" where
  "libc_result ret w = (if ret < 0 then (-1, w\<lparr>us_errno := - ret\<rparr>) else (ret, w))"

definition kernel_os :: "kapi \<Rightarrow> u64 \<Rightarrow> user os \<Rightarrow> user os" where
  "kernel_os a param base =
     base\<lparr>os_sched_getscheduler := (\<lambda>pid w. fst (libc_result (sys_sched_getscheduler a pid (us_kernel w)) w)),
          os_sched_setscheduler := (\<lambda>pid policy prio w.
            case sys_sched_setscheduler a [\<lambda>k. k] pid policy param (us_kernel w) of
              Some (ret, k) \<Rightarrow> libc_result ret (w\<lparr>us_kernel := k\<rparr>)
            | None \<Rightarrow> (-1, w)),
          os_errno := us_errno\<rparr>"

text \<open>
  What a successful call that asks for the yat policy leaves behind: the policy is the yat policy,
  the class is that of the priority, never the yat class.
\<close>

definition yat_in_name_only :: "kernel \<Rightarrow> tid \<Rightarrow> bool" where
  "yat_in_name_only k p \<longleftrightarrow>
     t_policy (k_tasks k p) = SCHED_YAT_CASCHED \<and>
     t_sched_class (k_tasks k p) = prio_class (t_prio (k_tasks k p)) \<and>
     t_sched_class (k_tasks k p) \<noteq> yat_casched_sched_class"

lemma setscheduler_yat:
  assumes "setscheduler_env_ok a" "ka_get_user_priority a k param = Some 0"
    and "find_process_by_pid a k pid = Some p"
    and "t_sched_class (k_tasks k p) = prio_class (t_prio (k_tasks k p))"
    and "sys_sched_setscheduler a [\<lambda>k. k] pid SCHED_YAT_CASCHED param k = Some (0, k')"
  shows "yat_in_name_only k' p"
proof -
  define attr where "attr = zero_attr\<lparr>sa_policy := SCHED_YAT_CASCHED, sa_priority := 0,
      sa_nice := PRIO_TO_NICE (t_static_prio (k_tasks k p))\<rparr>"
  have "us_sched_setscheduler a [\<lambda>k. k] p attr True True k = Some (0, k')"
    using assms(2,3,5)
    by (simp add: sys_sched_setscheduler_def do_sched_setscheduler_def sched_setscheduler_def
        u_sched_setscheduler_def attr_def SCHED_YAT_CASCHED_def test_flag_def SCHED_RESET_ON_FORK_def
        EINVAL_def Let_def split: if_splits)
  moreover have "\<not> test_flag (sa_flags attr) SCHED_FLAG_KEEP_PARAMS" "SETPARAM_POLICY \<le> sa_policy attr"
    "sa_policy attr = SCHED_YAT_CASCHED" "\<not> SCHED_YAT_CASCHED < 0"
    by (simp_all add: attr_def zero_attr_def SCHED_YAT_CASCHED_def SETPARAM_POLICY_def)
  ultimately show ?thesis
    using setscheduler_success_facts [OF assms(1) _ _ _ assms(4), of attr True True k']
    unfolding Let_def yat_in_name_only_def by metis
qed

lemma kernel_os_setscheduler:
  assumes "setscheduler_env_ok a" "ka_get_user_priority a (us_kernel w) param = Some 0"
    and "find_process_by_pid a (us_kernel w) pid = Some p"
    and "t_sched_class (k_tasks (us_kernel w) p) = prio_class (t_prio (k_tasks (us_kernel w) p))"
    and "os_sched_setscheduler (kernel_os a param base) pid SCHED_YAT_CASCHED 0 w = (0, w')"
  shows "yat_in_name_only (us_kernel w') p"
proof -
  from assms(5) obtain k' where k': "w' = w\<lparr>us_kernel := k'\<rparr>"
      and set: "sys_sched_setscheduler a [\<lambda>k. k] pid SCHED_YAT_CASCHED param (us_kernel w) = Some (0, k')"
    by (auto simp: kernel_os_def libc_result_def split: option.splits prod.splits if_splits)
  show ?thesis using setscheduler_yat [OF assms(1-4) set] by (simp add: k')
qed

lemma verify_policy_run:
  assumes "os_sched_setscheduler os (os_getpid os w) SCHED_YAT_CASCHED 0 w = (r, w')"
  shows "\<exists>log. run_state (verify_policy os) (w, []) = (r = 0, w', log) \<and> (Policy_set \<in> set log \<longleftrightarrow> r = 0)"
  by (cases "r = 0") (simp_all add: verify_policy_def assms)

lemma debug_activate_run:
  assumes "os_sched_setscheduler os 0 SCHED_YAT_CASCHED 0 w = (r, w')"
  shows "\<exists>ok log. run_state (debug_activate os) (w, []) = (ok, w', log) \<and>
    (Using_yat \<in> set log \<longleftrightarrow> ok) \<and> (ok \<longrightarrow> r \<noteq> -1)"
  by (cases "r = -1") (auto simp: debug_activate_def assms)

text \<open>
  C36: Neither test program can tell that the scheduler runs. Whenever \<open>verify_real_scheduling\<close>
  says that the policy was set, and whenever \<open>debug_scheduler\<close> says that it is using the yat
  scheduler, the calling task has the yat policy in name only: its class is that of its priority,
  one of the other classes. The C library's call is taken to return 0 or -1, as documented.
\<close>

theorem probes_accept_other_class:
  assumes "setscheduler_env_ok a" "ka_get_user_priority a (us_kernel w) param = Some 0"
    and "k_current (us_kernel w) = p" "find_process_by_pid a (us_kernel w) (os_getpid base w) = Some p"
    and "t_sched_class (k_tasks (us_kernel w) p) = prio_class (t_prio (k_tasks (us_kernel w) p))"
    and "fst (os_sched_setscheduler (kernel_os a param base) 0 SCHED_YAT_CASCHED 0 w) \<in> {0, -1}"
    and "run_state (verify_policy (kernel_os a param base)) (w, []) = (ok, w1, log1)"
    and "run_state (debug_activate (kernel_os a param base)) (w, []) = (using, w2, log2)"
  shows "(if Policy_set \<in> set log1 then yat_in_name_only (us_kernel w1) p else \<not> ok) \<and>
    (if Using_yat \<in> set log2 then yat_in_name_only (us_kernel w2) p else \<not> using)"
proof -
  let ?os = "kernel_os a param base"
  have pid: "os_getpid ?os = os_getpid base" by (simp add: kernel_os_def)
  have find: "find_process_by_pid a (us_kernel w) 0 = Some p" by (simp add: find_process_by_pid_def assms(3))
  obtain r1 v1 where set1: "os_sched_setscheduler ?os (os_getpid ?os w) SCHED_YAT_CASCHED 0 w = (r1, v1)"
    by (cases "os_sched_setscheduler ?os (os_getpid ?os w) SCHED_YAT_CASCHED 0 w")
  obtain r2 v2 where set2: "os_sched_setscheduler ?os 0 SCHED_YAT_CASCHED 0 w = (r2, v2)"
    by (cases "os_sched_setscheduler ?os 0 SCHED_YAT_CASCHED 0 w")
  have "r2 \<in> {0, -1}" using assms(6) set2 by simp
  moreover have "r1 = 0 \<Longrightarrow> yat_in_name_only (us_kernel v1) p"
    using kernel_os_setscheduler [OF assms(1,2,4,5)] set1 pid by simp
  moreover have "r2 = 0 \<Longrightarrow> yat_in_name_only (us_kernel v2) p"
    using kernel_os_setscheduler [OF assms(1,2) find assms(5)] set2 by simp
  ultimately show ?thesis
    using verify_policy_run [OF set1] debug_activate_run [OF set2] assms(7,8) by auto
qed

definition sample_os :: "user os" where
  "sample_os = kernel_os sample_kapi 1 \<lparr>os_getpid = (\<lambda>w. 10), os_sched_getscheduler = (\<lambda>pid w. 0),
     os_sched_setscheduler = (\<lambda>pid policy prio w. (0, w)), os_errno = us_errno,
     os_sched_getcpu = (\<lambda>w. 0), os_sched_getaffinity = (\<lambda>pid w. (0, {0, 1, 2, 3})),
     os_sched_yield = (\<lambda>w. w), os_usleep = (\<lambda>n w. w), os_sleep = (\<lambda>n w. w),
     os_fork = (\<lambda>w. (11, w)), os_wait = (\<lambda>w. w), os_system = (\<lambda>cmd w. w),
     os_gettimeofday = (\<lambda>w. (0, 0))\<rparr>"

definition sample_user :: user where
  "sample_user = \<lparr>us_kernel = sample_kernel\<lparr>k_current := 10\<rparr>, us_errno = 0\<rparr>"

lemma sample_setscheduler:
  "\<exists>k'. us_sched_setscheduler sample_kapi [\<lambda>k. k] 10
      (zero_attr\<lparr>sa_policy := SCHED_YAT_CASCHED, sa_priority := 0, sa_nice := 0\<rparr>) True True
      (sample_kernel\<lparr>k_current := 10\<rparr>) = Some (0, k')"
  by (simp add: us_sched_setscheduler_single setscheduler_attempt_def setscheduler_checks_def
        setscheduler_locked_def setscheduler_changes_def user_check_sched_setscheduler_def
        setscheduler_req_priv_def check_same_owner_def is_nice_reduction_def zero_attr_def Let_def
        sched_flag_consts SCHED_YAT_CASCHED_def machine_part_eqD(3) [OF mach.clock],
        simp add: sample_defs sample_kapi_def task_cpu_def task_nice_def
        dl_task_def prio_consts SCHED_NORMAL_def frame)

lemma sample_user_access:
  "ka_find_task_by_vpid sample_kapi k 10 = Some 10" "ka_get_user_priority sample_kapi k u = Some 0"
  by (simp_all add: sample_kapi_def)

lemma sample_os_setscheduler:
  assumes "pid = 0 \<or> pid = 10"
  shows "\<exists>k'. os_sched_setscheduler sample_os pid SCHED_YAT_CASCHED 0 sample_user = (0, sample_user\<lparr>us_kernel := k'\<rparr>)"
proof -
  obtain k' where "us_sched_setscheduler sample_kapi [\<lambda>k. k] 10
      (zero_attr\<lparr>sa_policy := SCHED_YAT_CASCHED, sa_priority := 0, sa_nice := 0\<rparr>) True True
      (sample_kernel\<lparr>k_current := 10\<rparr>) = Some (0, k')"
    using sample_setscheduler by blast
  moreover have "PRIO_TO_NICE (t_static_prio (sample_task 10)) = 0" by (simp add: sample_task_def prio_consts)
  ultimately have "sys_sched_setscheduler sample_kapi [\<lambda>k. k] pid SCHED_YAT_CASCHED 1 (us_kernel sample_user) = Some (0, k')"
    using assms
    by (auto simp: sys_sched_setscheduler_def do_sched_setscheduler_def sched_setscheduler_def
        u_sched_setscheduler_def sample_user_def find_process_by_pid_def Let_def test_flag_def SCHED_RESET_ON_FORK_def
        SCHED_YAT_CASCHED_def sample_user_access)
  then have "os_sched_setscheduler sample_os pid SCHED_YAT_CASCHED 0 sample_user = (0, sample_user\<lparr>us_kernel := k'\<rparr>)"
    by (simp add: sample_os_def kernel_os_def libc_result_def)
  then show ?thesis by blast
qed

theorem probes_accept_other_class_witness:
  "\<exists>w1 log1. run_state (verify_policy sample_os) (sample_user, []) = (True, w1, log1) \<and>
     Policy_set \<in> set log1 \<and> yat_in_name_only (us_kernel w1) 10"
proof -
  have env: "setscheduler_env_ok sample_kapi" "ka_get_user_priority sample_kapi (us_kernel sample_user) 1 = Some 0"
    using setscheduler_env_ok_sample by (simp_all add: sample_kapi_def)
  have cur: "k_current (us_kernel sample_user) = 10"
    "t_sched_class (k_tasks (us_kernel sample_user) 10) = prio_class (t_prio (k_tasks (us_kernel sample_user) 10))"
    by (simp_all add: sample_user_def sample_task_def prio_class_def prio_consts)
  have find: "find_process_by_pid sample_kapi (us_kernel sample_user) 10 = Some 10"
    by (simp add: find_process_by_pid_def) (simp add: sample_kapi_def)
  obtain k1 k2 where set: "os_sched_setscheduler sample_os 10 SCHED_YAT_CASCHED 0 sample_user = (0, sample_user\<lparr>us_kernel := k1\<rparr>)"
      "os_sched_setscheduler sample_os 0 SCHED_YAT_CASCHED 0 sample_user = (0, sample_user\<lparr>us_kernel := k2\<rparr>)"
    using sample_os_setscheduler [of 10] sample_os_setscheduler [of 0] by auto
  have pid: "os_getpid sample_os sample_user = 10" by (simp add: sample_os_def kernel_os_def)
  obtain log1 where run1: "run_state (verify_policy sample_os) (sample_user, []) = (True, sample_user\<lparr>us_kernel := k1\<rparr>, log1)"
      and "Policy_set \<in> set log1"
    using verify_policy_run [of sample_os sample_user, unfolded pid, OF set(1)] by auto
  obtain ok log2 where run2: "run_state (debug_activate sample_os) (sample_user, []) = (ok, sample_user\<lparr>us_kernel := k2\<rparr>, log2)"
    using debug_activate_run [OF set(2)] by auto
  have "yat_in_name_only (us_kernel (sample_user\<lparr>us_kernel := k1\<rparr>)) 10"
    using probes_accept_other_class [OF env cur(1) _ cur(2) _ run1 [unfolded sample_os_def] run2 [unfolded sample_os_def],
        folded sample_os_def] \<open>Policy_set \<in> set log1\<close>
    by (simp add: find set(2))
  with run1 \<open>Policy_set \<in> set log1\<close> show ?thesis by blast
qed

end
