(* ===== verification/Preempt_Config.thy ===== *)
theory Preempt_Config
  imports Lock_Break
begin

text \<open>
  The ways to build the kernel's preemption model (\<open>core.c\<close>, \<open>sched.h\<close>): dynamic with static calls
  (Dynamic_Preempt), dynamic with static keys, and fixed at compile time. One interface for the two
  dynamic mechanisms, and the proof that the three run the same code.
\<close>

section \<open>Static keys\<close>

text \<open>
  The keys of the five functions. That of \<open>irqentry_exit_cond_resched\<close> is defined in the entry code,
  which is not in the repository, and is on at boot as the other keys of preemption.
\<close>

record preempt_keys =
  pk_mode :: int
  pk_cond_resched :: bool
  pk_might_resched :: bool
  pk_preempt_schedule :: bool
  pk_preempt_schedule_notrace :: bool
  pk_irqentry_exit_cond_resched :: bool

definition preempt_keys_boot :: preempt_keys where
  "preempt_keys_boot =
     \<lparr>pk_mode = preempt_dynamic_undefined, pk_cond_resched = False, pk_might_resched = False,
      pk_preempt_schedule = True, pk_preempt_schedule_notrace = True,
      pk_irqentry_exit_cond_resched = True\<rparr>"

definition key_set_cond_resched :: "bool \<Rightarrow> preempt_keys \<Rightarrow> preempt_keys" where
  "key_set_cond_resched b s = s\<lparr>pk_cond_resched := b\<rparr>"

definition key_set_might_resched :: "bool \<Rightarrow> preempt_keys \<Rightarrow> preempt_keys" where
  "key_set_might_resched b s = s\<lparr>pk_might_resched := b\<rparr>"

definition key_set_preempt_calls :: "bool \<Rightarrow> preempt_keys \<Rightarrow> preempt_keys" where
  "key_set_preempt_calls b s =
     s\<lparr>pk_preempt_schedule := b, pk_preempt_schedule_notrace := b, pk_irqentry_exit_cond_resched := b\<rparr>"

text \<open>
  \<open>__sched_dynamic_update\<close> with \<open>preempt_dynamic_enable\<close> and \<open>preempt_dynamic_disable\<close> on keys;
  nothing sets \<open>klp_override\<close> in this configuration.
\<close>

definition key_dynamic_update :: "int \<Rightarrow> preempt_keys \<Rightarrow> preempt_keys" where
  "key_dynamic_update mode s =
     (let s = key_set_cond_resched True s;
          s = key_set_might_resched True s;
          s = key_set_preempt_calls True s;
          s = (if mode = preempt_dynamic_none
               then key_set_preempt_calls False (key_set_might_resched False (key_set_cond_resched True s))
               else if mode = preempt_dynamic_voluntary
               then key_set_preempt_calls False (key_set_might_resched True (key_set_cond_resched True s))
               else if mode = preempt_dynamic_full
               then key_set_preempt_calls True (key_set_might_resched False (key_set_cond_resched False s))
               else s)
      in s\<lparr>pk_mode := mode\<rparr>)"

definition key_setup_preempt_mode :: "string \<Rightarrow> preempt_keys \<Rightarrow> int \<times> preempt_keys" where
  "key_setup_preempt_mode str s =
     (let mode = sched_dynamic_mode str
      in if mode < 0 then (0, s) else (1, key_dynamic_update mode s))"

definition key_preempt_dynamic_init :: "bool \<Rightarrow> bool \<Rightarrow> preempt_keys \<Rightarrow> preempt_keys" where
  "key_preempt_dynamic_init config_none config_voluntary s =
     (if pk_mode s = preempt_dynamic_undefined
      then if config_none then key_dynamic_update preempt_dynamic_none s
           else if config_voluntary then key_dynamic_update preempt_dynamic_voluntary s
           else s\<lparr>pk_mode := preempt_dynamic_full\<rparr>
      else s)"

definition dynamic_cond_resched ::
  "kapi \<Rightarrow> lock_break_api \<Rightarrow> (nat \<Rightarrow> kernel \<Rightarrow> kernel) \<Rightarrow> preempt_keys \<Rightarrow> lock_break_state \<Rightarrow>
   (int \<times> lock_break_state) option" where
  "dynamic_cond_resched a la env ks s =
     (let s = s\<lparr>lb_kernel := lb_klp_sched_try_switch la (lb_kernel s)\<rparr>
      in if \<not> pk_cond_resched ks then Some (0, s) else cond_resched_here a la env s)"

definition dynamic_might_resched ::
  "kapi \<Rightarrow> lock_break_api \<Rightarrow> (nat \<Rightarrow> kernel \<Rightarrow> kernel) \<Rightarrow> preempt_keys \<Rightarrow> lock_break_state \<Rightarrow>
   (int \<times> lock_break_state) option" where
  "dynamic_might_resched a la env ks s =
     (if \<not> pk_might_resched ks then Some (0, s) else cond_resched_here a la env s)"

definition dynamic_preempt_schedule ::
  "kapi \<Rightarrow> (nat \<Rightarrow> kernel \<Rightarrow> kernel) \<Rightarrow> preempt_keys \<Rightarrow> bool \<Rightarrow> kernel \<Rightarrow> kernel option" where
  "dynamic_preempt_schedule a env ks preemptible k =
     (if \<not> pk_preempt_schedule ks then Some k else preempt_schedule a env preemptible k)"

definition dynamic_preempt_schedule_notrace ::
  "kapi \<Rightarrow> (nat \<Rightarrow> kernel \<Rightarrow> kernel) \<Rightarrow> preempt_keys \<Rightarrow> bool \<Rightarrow> kernel \<Rightarrow> kernel option" where
  "dynamic_preempt_schedule_notrace a env ks preemptible k =
     (if \<not> pk_preempt_schedule_notrace ks then Some k else preempt_schedule_notrace a env preemptible k)"

section \<open>Static calls\<close>

text \<open>What the other static calls run; a disabled one is NULL or returns 0.\<close>

definition call_might_resched ::
  "kapi \<Rightarrow> lock_break_api \<Rightarrow> (nat \<Rightarrow> kernel \<Rightarrow> kernel) \<Rightarrow> preempt_dynamic \<Rightarrow> lock_break_state \<Rightarrow>
   (int \<times> lock_break_state) option" where
  "call_might_resched a la env d s =
     (if pd_might_resched d = Dynamic_disabled then Some (0, s) else cond_resched_here a la env s)"

definition call_preempt_schedule ::
  "kapi \<Rightarrow> (nat \<Rightarrow> kernel \<Rightarrow> kernel) \<Rightarrow> preempt_dynamic \<Rightarrow> bool \<Rightarrow> kernel \<Rightarrow> kernel option" where
  "call_preempt_schedule a env d preemptible k =
     (if pd_preempt_schedule d = Dynamic_disabled then Some k else preempt_schedule a env preemptible k)"

definition call_preempt_schedule_notrace ::
  "kapi \<Rightarrow> (nat \<Rightarrow> kernel \<Rightarrow> kernel) \<Rightarrow> preempt_dynamic \<Rightarrow> bool \<Rightarrow> kernel \<Rightarrow> kernel option" where
  "call_preempt_schedule_notrace a env d preemptible k =
     (if pd_preempt_schedule_notrace d = Dynamic_disabled then Some k
      else preempt_schedule_notrace a env preemptible k)"

section \<open>Fixed models\<close>

text \<open>
  Without dynamic preemption the options decide: \<open>CONFIG_PREEMPTION\<close> selects the variant of
  \<open>_cond_resched\<close>, and the accessors report the options.
\<close>

record preempt_options =
  po_PREEMPT_NONE :: bool
  po_PREEMPT_VOLUNTARY :: bool
  po_PREEMPT :: bool
  po_PREEMPT_RT :: bool

definition po_PREEMPTION :: "preempt_options \<Rightarrow> bool" where
  "po_PREEMPTION c \<longleftrightarrow> po_PREEMPT c \<or> po_PREEMPT_RT c"

definition fixed_cond_resched ::
  "kapi \<Rightarrow> lock_break_api \<Rightarrow> (nat \<Rightarrow> kernel \<Rightarrow> kernel) \<Rightarrow> preempt_options \<Rightarrow> lock_break_state \<Rightarrow>
   (int \<times> lock_break_state) option" where
  "fixed_cond_resched a la env c s =
     (let s = s\<lparr>lb_kernel := lb_klp_sched_try_switch la (lb_kernel s)\<rparr>
      in if po_PREEMPTION c then Some (0, s) else cond_resched_here a la env s)"

definition fixed_preempt_model_none :: "preempt_options \<Rightarrow> bool" where
  "fixed_preempt_model_none c = po_PREEMPT_NONE c"
definition fixed_preempt_model_voluntary :: "preempt_options \<Rightarrow> bool" where
  "fixed_preempt_model_voluntary c = po_PREEMPT_VOLUNTARY c"
definition fixed_preempt_model_full :: "preempt_options \<Rightarrow> bool" where
  "fixed_preempt_model_full c = po_PREEMPT c"
definition preempt_model_rt :: "preempt_options \<Rightarrow> bool" where
  "preempt_model_rt c = po_PREEMPT_RT c"

text \<open>In every configuration; \<open>full\<close> is the accessor of the configuration.\<close>

definition preempt_model_preemptible :: "bool \<Rightarrow> preempt_options \<Rightarrow> bool" where
  "preempt_model_preemptible full c \<longleftrightarrow> full \<or> preempt_model_rt c"

section \<open>The interface of a dynamic mechanism\<close>

text \<open>
  A mechanism keeps the mode and which calls run their function. \<open>works\<close> tells the states in which
  it is not overridden.
\<close>

locale preempt_mechanism =
  fixes works :: "'s \<Rightarrow> bool" and mode :: "'s \<Rightarrow> int" and update :: "int \<Rightarrow> 's \<Rightarrow> 's"
    and set_mode :: "int \<Rightarrow> 's \<Rightarrow> 's" and boot :: 's
    and calls :: "'s \<Rightarrow> call_target \<times> call_target \<times> call_target \<times> call_target \<times> call_target"
  assumes boot: "works boot" "mode boot = preempt_dynamic_undefined"
      "calls boot = (Dynamic_disabled, Dynamic_disabled, Dynamic_enabled, Dynamic_enabled, Dynamic_enabled)"
    and set_mode: "works s \<Longrightarrow> works (set_mode m s)" "mode (set_mode m s) = m" "calls (set_mode m s) = calls s"
    and update: "works s \<Longrightarrow> works (update m s)" "mode (update m s) = m"
      "works s \<Longrightarrow> m \<in> {0, 1, 2} \<Longrightarrow> calls (update m s) =
         (case preempt_table m of (cond, might, preempt) \<Rightarrow> (cond, might, preempt, preempt, preempt))"
begin

definition tabled :: "'s \<Rightarrow> bool" where
  "tabled s \<longleftrightarrow> works s \<and> mode s \<in> {0, 1, 2} \<and>
     calls s = (case preempt_table (mode s) of (cond, might, preempt) \<Rightarrow> (cond, might, preempt, preempt, preempt))"

definition init :: "bool \<Rightarrow> bool \<Rightarrow> 's \<Rightarrow> 's" where
  "init none voluntary s =
     (if mode s = preempt_dynamic_undefined
      then if none then update preempt_dynamic_none s
           else if voluntary then update preempt_dynamic_voluntary s
           else set_mode preempt_dynamic_full s
      else s)"

definition select_mode :: "string \<Rightarrow> 's \<Rightarrow> 's" where
  "select_mode str s = (if sched_dynamic_mode str < 0 then s else update (sched_dynamic_mode str) s)"

fun last_mode :: "int \<Rightarrow> string list \<Rightarrow> int" where
  "last_mode m [] = m"
| "last_mode m (str # strs) = last_mode (if sched_dynamic_mode str < 0 then m else sched_dynamic_mode str) strs"

lemma init_tabled: "tabled (init none voluntary boot)"
  using boot set_mode update(1,2) update(3) [OF boot(1)]
  by (simp add: init_def tabled_def preempt_dynamic_modes preempt_table_def)

lemma init_mode: "mode (init none voluntary boot) = (if none then 0 else if voluntary then 1 else 2)"
  using boot(2) update(2) set_mode(2) by (simp add: init_def preempt_dynamic_modes)

lemma mode_range: "\<not> sched_dynamic_mode str < 0 \<Longrightarrow> sched_dynamic_mode str \<in> {0, 1, 2}"
  by (auto simp: sched_dynamic_mode_def preempt_dynamic_modes errno_defs split: if_splits)

lemma select_mode_tabled: "tabled s \<Longrightarrow> tabled (select_mode str s)"
  using update mode_range [of str] by (simp add: tabled_def select_mode_def)

lemma select_mode_mode: "mode (select_mode str s) = (if sched_dynamic_mode str < 0 then mode s else sched_dynamic_mode str)"
  using update(2) by (simp add: select_mode_def)

lemma chosen: "tabled s \<Longrightarrow> tabled (fold select_mode strs s) \<and> mode (fold select_mode strs s) = last_mode (mode s) strs"
  by (induction strs arbitrary: s) (simp_all add: select_mode_tabled select_mode_mode)

end

section \<open>The two mechanisms\<close>

definition static_calls :: "preempt_dynamic \<Rightarrow> call_target \<times> call_target \<times> call_target \<times> call_target \<times> call_target" where
  "static_calls d = (pd_cond_resched d, pd_might_resched d, pd_preempt_schedule d,
     pd_preempt_schedule_notrace d, pd_irqentry_exit_cond_resched d)"

definition key_target :: "bool \<Rightarrow> call_target" where
  "key_target b = (if b then Dynamic_enabled else Dynamic_disabled)"

definition key_calls :: "preempt_keys \<Rightarrow> call_target \<times> call_target \<times> call_target \<times> call_target \<times> call_target" where
  "key_calls s = (key_target (pk_cond_resched s), key_target (pk_might_resched s),
     key_target (pk_preempt_schedule s), key_target (pk_preempt_schedule_notrace s),
     key_target (pk_irqentry_exit_cond_resched s))"

lemmas key_defs = key_dynamic_update_def key_set_cond_resched_def key_set_might_resched_def
  key_set_preempt_calls_def preempt_keys_boot_def key_calls_def key_target_def

interpretation calls: preempt_mechanism "\<lambda>d. \<not> pd_klp_override d" pd_mode us_sched_dynamic_update
  "\<lambda>m d. d\<lparr>pd_mode := m\<rparr>" preempt_dynamic_boot static_calls
  by unfold_locales (auto simp: static_calls_def preempt_dynamic_boot_def dynamic_defs Let_def)

interpretation keys: preempt_mechanism "\<lambda>_. True" pk_mode key_dynamic_update
  "\<lambda>m s. s\<lparr>pk_mode := m\<rparr>" preempt_keys_boot key_calls
  by unfold_locales (auto simp: key_defs preempt_table_def preempt_dynamic_modes Let_def)

lemma init_instances:
  "preempt_dynamic_init = calls.init" "key_preempt_dynamic_init = keys.init"
  by (simp_all add: fun_eq_iff preempt_dynamic_init_def calls.init_def key_preempt_dynamic_init_def
      keys.init_def sched_dynamic_update_def)

lemma setup_instances:
  "(\<lambda>str d. snd (setup_preempt_mode str d)) = calls.select_mode"
  "(\<lambda>str s. snd (key_setup_preempt_mode str s)) = keys.select_mode"
  by (simp_all add: fun_eq_iff setup_preempt_mode_def calls.select_mode_def key_setup_preempt_mode_def
      keys.select_mode_def sched_dynamic_update_def Let_def)

text \<open>What states of the two mechanisms with the same calls run.\<close>

lemma same_calls_run:
  assumes "static_calls d = key_calls ks" "\<And>k. lb_klp_sched_try_switch la k = k"
  shows "u_cond_resched a la env d s = dynamic_cond_resched a la env ks s"
    and "call_might_resched a la env d s = dynamic_might_resched a la env ks s"
    and "call_preempt_schedule a env d b k = dynamic_preempt_schedule a env ks b k"
    and "call_preempt_schedule_notrace a env d b k = dynamic_preempt_schedule_notrace a env ks b k"
  using assms
  by (simp_all add: static_calls_def key_calls_def key_target_def u_cond_resched_def dynamic_cond_resched_def
      call_might_resched_def dynamic_might_resched_def call_preempt_schedule_def dynamic_preempt_schedule_def
      call_preempt_schedule_notrace_def dynamic_preempt_schedule_notrace_def split: if_splits)

text \<open>
  C40: Static calls and static keys are interchangeable, and both agree with a kernel that is fixed
  to the model they report. Whatever the build's default and whatever sequence of \<open>preempt=\<close>
  strings, valid or not, follows: both mechanisms record the same mode, and \<open>cond_resched\<close>,
  \<open>might_resched\<close> and the two preemption functions do the same under both - as long as no live
  patch is being applied, when static keys let \<open>cond_resched\<close> switch the patch state only.
\<close>

theorem preempt_mechanisms_agree:
  assumes "\<And>k. lb_klp_sched_try_switch la k = k"
  shows "let d = fold (\<lambda>str d. snd (setup_preempt_mode str d)) strs
               (preempt_dynamic_init none voluntary preempt_dynamic_boot);
             ks = fold (\<lambda>str s. snd (key_setup_preempt_mode str s)) strs
               (key_preempt_dynamic_init none voluntary preempt_keys_boot)
         in pd_mode d = pk_mode ks \<and>
            u_cond_resched a la env d s = dynamic_cond_resched a la env ks s \<and>
            call_might_resched a la env d s = dynamic_might_resched a la env ks s \<and>
            call_preempt_schedule a env d b k = dynamic_preempt_schedule a env ks b k \<and>
            call_preempt_schedule_notrace a env d b k = dynamic_preempt_schedule_notrace a env ks b k \<and>
            (\<forall>c. fixed_preempt_model_full c = preempt_model_full d \<and> \<not> preempt_model_rt c \<longrightarrow>
               u_cond_resched a la env d s = fixed_cond_resched a la env c s)"
proof -
  define d where "d = fold calls.select_mode strs (calls.init none voluntary preempt_dynamic_boot)"
  define ks where "ks = fold keys.select_mode strs (keys.init none voluntary preempt_keys_boot)"
  have d: "calls.tabled d" "pd_mode d = keys.last_mode (pd_mode (calls.init none voluntary preempt_dynamic_boot)) strs"
    using calls.chosen [OF calls.init_tabled [of none voluntary], of strs]
    unfolding d_def by blast+
  have ks: "keys.tabled ks" "pk_mode ks = keys.last_mode (pk_mode (keys.init none voluntary preempt_keys_boot)) strs"
    using keys.chosen [OF keys.init_tabled [of none voluntary], of strs] unfolding ks_def by blast+
  have mode: "pd_mode d = pk_mode ks" by (simp only: d(2) ks(2) calls.init_mode keys.init_mode)
  have same: "static_calls d = key_calls ks" using d(1) ks(1) mode by (simp add: calls.tabled_def keys.tabled_def)
  have "u_cond_resched a la env d s = fixed_cond_resched a la env c s"
    if "fixed_preempt_model_full c = preempt_model_full d" "\<not> preempt_model_rt c" for c
    using that d(1) assms
    by (auto simp: calls.tabled_def static_calls_def preempt_table_def preempt_dynamic_modes preempt_model_full_def
        fixed_preempt_model_full_def preempt_model_rt_def po_PREEMPTION_def fixed_cond_resched_def u_cond_resched_def)
  then show ?thesis
    unfolding init_instances setup_instances Let_def d_def [symmetric] ks_def [symmetric]
    using mode same_calls_run [OF same assms] by simp
qed

theorem preempt_mechanisms_agree_witness:
  "let la = \<lparr>lb_should_resched = (\<lambda>f k. True), lb_needbreak = (\<lambda>l k. False),
         lb_klp_sched_try_switch = (\<lambda>k. k), lb_lock_wait = (\<lambda>k. k)\<rparr>;
       d = snd (setup_preempt_mode ''voluntary'' (preempt_dynamic_init False False preempt_dynamic_boot));
       ks = snd (key_setup_preempt_mode ''voluntary'' (key_preempt_dynamic_init False False preempt_keys_boot));
       s = \<lparr>lb_kernel = sample_kernel, lb_held = [], lb_log = []\<rparr>
   in pk_mode ks = 1 \<and> call_might_resched sample_kapi la (\<lambda>_ k. k) d s = dynamic_might_resched sample_kapi la (\<lambda>_ k. k) ks s"
proof -
  let ?la = "\<lparr>lb_should_resched = (\<lambda>(f::u32) (k::kernel). True), lb_needbreak = (\<lambda>(l::sleepless_lock) (k::kernel). False),
     lb_klp_sched_try_switch = (\<lambda>k::kernel. k), lb_lock_wait = (\<lambda>k::kernel. k)\<rparr>"
  have "pk_mode (snd (key_setup_preempt_mode ''voluntary'' (key_preempt_dynamic_init False False preempt_keys_boot))) = 1"
    by (simp add: key_setup_preempt_mode_def key_preempt_dynamic_init_def key_defs sched_dynamic_mode_def preempt_dynamic_modes)
  then show ?thesis
    using preempt_mechanisms_agree [of ?la "[''voluntary'']" False False sample_kapi "\<lambda>_ k. k"
        "\<lparr>lb_kernel = sample_kernel, lb_held = [], lb_log = []\<rparr>"]
    by (simp add: Let_def)
qed

end
