(* ===== verification/Group_Rcu.thy ===== *)
theory Group_Rcu
  imports Groups_Correct
begin

text \<open>
  The end of a task group under concurrent readers (\<open>core.c\<close>, lines 10333 to 10444): unlinking,
  the two grace periods before its memory is freed, and the path of the cgroup core. Task_Groups
  has the same functions for one thread alone, where a grace period is over at once.
\<close>

section \<open>State\<close>

text \<open>
  A reader's section remembers which groups it may hold a pointer to: those it could find on the
  list or in the tree, and those it could find as leaves, the groups with queued entities that
  \<open>print_cfs_stats\<close> goes through. A group's own \<open>rcu_head\<close> carries at most one callback, with the
  sections that it waits for; the cgroup core has a work item of its own.
\<close>

type_synonym rid = nat

datatype rcu_callback = Unregister_group_rcu | Free_group_rcu

record group_rcu =
  gr_kernel :: kernel
  gr_allocated :: "tgid set"
  gr_leaf :: "tgid set"
  gr_pending :: "tgid \<Rightarrow> (rcu_callback \<times> rid set) option"
  gr_css_wait :: "tgid \<Rightarrow> rid set option"
  gr_readers :: "rid \<Rightarrow> (tgid set \<times> tgid set) option"
  gr_head_reused :: bool

definition linked :: "kernel \<Rightarrow> tgid \<Rightarrow> bool" where
  "linked k g \<longleftrightarrow> g \<in> set (k_task_groups k) \<or>
     (case tg_parent (k_tgs k g) of None \<Rightarrow> False | Some q \<Rightarrow> g \<in> set (tg_children (k_tgs k q)))"

section \<open>Operations\<close>

text \<open>A second callback on the same head is recorded as a misuse.\<close>

definition call_rcu :: "tgid \<Rightarrow> rcu_callback \<Rightarrow> group_rcu \<Rightarrow> group_rcu" where
  "call_rcu g cb s =
     s\<lparr>gr_pending := (gr_pending s)(g \<mapsto> (cb, dom (gr_readers s))),
       gr_head_reused := gr_head_reused s \<or> gr_pending s g \<noteq> None\<rparr>"

definition rcu_sched_free_group :: "kapi \<Rightarrow> tgid \<Rightarrow> group_rcu \<Rightarrow> group_rcu" where
  "rcu_sched_free_group a g s =
     s\<lparr>gr_kernel := sched_free_group a g (gr_kernel s), gr_allocated := gr_allocated s - {g}\<rparr>"

definition sched_free_group_rcu :: "kapi \<Rightarrow> tgid \<Rightarrow> group_rcu \<Rightarrow> group_rcu" where
  "sched_free_group_rcu a g s = rcu_sched_free_group a g s"

definition rcu_sched_unregister_group :: "kapi \<Rightarrow> tgid \<Rightarrow> group_rcu \<Rightarrow> group_rcu" where
  "rcu_sched_unregister_group a g s =
     call_rcu g Free_group_rcu
       (s\<lparr>gr_kernel := ka_unregister_sched_group a g (gr_kernel s), gr_leaf := gr_leaf s - {g}\<rparr>)"

definition sched_unregister_group_rcu :: "kapi \<Rightarrow> tgid \<Rightarrow> group_rcu \<Rightarrow> group_rcu" where
  "sched_unregister_group_rcu a g s = rcu_sched_unregister_group a g s"

definition sched_destroy_group :: "tgid \<Rightarrow> group_rcu \<Rightarrow> group_rcu" where
  "sched_destroy_group g s = call_rcu g Unregister_group_rcu s"

definition rcu_sched_release_group :: "tgid \<Rightarrow> group_rcu \<Rightarrow> group_rcu" where
  "rcu_sched_release_group g s = s\<lparr>gr_kernel := sched_release_group g (gr_kernel s)\<rparr>"

definition rcu_css_free :: "kapi \<Rightarrow> tgid \<Rightarrow> group_rcu \<Rightarrow> group_rcu" where
  "rcu_css_free a g s = rcu_sched_unregister_group a g s"

text \<open>
  What the machinery around it does: a section begins with what it may see, a new leaf or a new
  group can be seen by the sections under way, and a section that ends is no longer waited for.
\<close>

definition reader_begin :: "rid \<Rightarrow> group_rcu \<Rightarrow> group_rcu" where
  "reader_begin r s =
     s\<lparr>gr_readers := (gr_readers s)(r \<mapsto> ({g. linked (gr_kernel s) g}, gr_leaf s))\<rparr>"

definition reader_end :: "rid \<Rightarrow> group_rcu \<Rightarrow> group_rcu" where
  "reader_end r s =
     s\<lparr>gr_readers := (gr_readers s)(r := None),
       gr_pending := (\<lambda>g. map_option (\<lambda>(cb, W). (cb, W - {r})) (gr_pending s g)),
       gr_css_wait := (\<lambda>g. map_option (\<lambda>W. W - {r}) (gr_css_wait s g))\<rparr>"

definition show_group :: "tgid \<Rightarrow> group_rcu \<Rightarrow> group_rcu" where
  "show_group g s =
     s\<lparr>gr_readers := (\<lambda>r. map_option (\<lambda>(w, l). (insert g w, l)) (gr_readers s r))\<rparr>"

definition add_leaf :: "tgid \<Rightarrow> group_rcu \<Rightarrow> group_rcu" where
  "add_leaf g s =
     s\<lparr>gr_leaf := insert g (gr_leaf s),
       gr_readers := (\<lambda>r. map_option (\<lambda>(w, l). (w, insert g l)) (gr_readers s r))\<rparr>"

definition run_callback :: "kapi \<Rightarrow> tgid \<Rightarrow> rcu_callback \<Rightarrow> group_rcu \<Rightarrow> group_rcu" where
  "run_callback a g cb s =
     (let s = s\<lparr>gr_pending := (gr_pending s)(g := None)\<rparr>
      in case cb of Unregister_group_rcu \<Rightarrow> sched_unregister_group_rcu a g s
                  | Free_group_rcu \<Rightarrow> sched_free_group_rcu a g s)"

section \<open>Steps\<close>

text \<open>
  The protocol of the callers, as a state per group: an autogroup is released and then destroyed,
  a cgroup is released by the cgroup core and freed after a grace period; nobody touches a group
  after that. A group can become a leaf while its tasks can be queued - until it is released - and,
  by a walk that found it before (\<open>tg_unthrottle_up\<close>), as long as that walk's section lasts.
\<close>

datatype group_phase = Absent | Online | Released | Destroyed | Css_released | Unregistered

type_synonym group_world = "group_rcu \<times> (tgid \<Rightarrow> group_phase)"

inductive group_step :: "kapi \<Rightarrow> group_world \<Rightarrow> group_world \<Rightarrow> bool" for a :: kapi where
  enter: "gr_readers s r = None \<Longrightarrow> group_step a (s, ph) (reader_begin r s, ph)"
| leave: "gr_readers s r \<noteq> None \<Longrightarrow> group_step a (s, ph) (reader_end r s, ph)"
| online: "ph parent = Online \<Longrightarrow> g \<notin> gr_allocated s \<Longrightarrow>
    sched_create_group a parent (gr_kernel s) = (Some g, k) \<Longrightarrow>
    group_step a (s, ph)
      (show_group g (s\<lparr>gr_kernel := sched_online_group a g parent k, gr_allocated := insert g (gr_allocated s)\<rparr>),
       ph(g := Online))"
| create_failed: "ph parent = Online \<Longrightarrow>
    (\<And>g. ka_new_task_group a (gr_kernel s) = Some g \<Longrightarrow> g \<notin> gr_allocated s) \<Longrightarrow>
    sched_create_group a parent (gr_kernel s) = (None, k) \<Longrightarrow>
    group_step a (s, ph) (s\<lparr>gr_kernel := k\<rparr>, ph)"
| queue: "ph g = Online \<Longrightarrow> group_step a (s, ph) (add_leaf g s, ph)"
| requeue: "gr_readers s r = Some (w, l) \<Longrightarrow> g \<in> w \<Longrightarrow> group_step a (s, ph) (add_leaf g s, ph)"
| unlink: "ph g = Online \<Longrightarrow> g \<noteq> k_root_tg (gr_kernel s) \<Longrightarrow>
    group_step a (s, ph) (rcu_sched_release_group g s, ph(g := Released))"
| destroy: "ph g = Released \<Longrightarrow> group_step a (s, ph) (sched_destroy_group g s, ph(g := Destroyed))"
| css_released: "ph g = Online \<Longrightarrow> g \<noteq> k_root_tg (gr_kernel s) \<Longrightarrow>
    group_step a (s, ph)
      ((rcu_sched_release_group g s)\<lparr>gr_css_wait := (gr_css_wait s)(g \<mapsto> dom (gr_readers s))\<rparr>,
       ph(g := Css_released))"
| css_free: "gr_css_wait s g = Some {} \<Longrightarrow>
    group_step a (s, ph)
      (rcu_css_free a g (s\<lparr>gr_css_wait := (gr_css_wait s)(g := None)\<rparr>), ph(g := Unregistered))"
| callback: "gr_pending s g = Some (cb, {}) \<Longrightarrow>
    group_step a (s, ph)
      (run_callback a g cb s, ph(g := if cb = Unregister_group_rcu then Unregistered else Absent))"

definition group_steps :: "kapi \<Rightarrow> group_world \<Rightarrow> group_world \<Rightarrow> bool" where
  "group_steps a = (group_step a)\<^sup>*\<^sup>*"

section \<open>Lists and tree\<close>

text \<open>The operations of the other files do not touch the list and the tree of groups.\<close>

definition links :: "kernel \<Rightarrow> tgid list \<times> (tgid \<Rightarrow> tgid option \<times> tgid list)" where
  "links k = (k_task_groups k, tree_shape k)"

definition group_ops_keep :: "kapi \<Rightarrow> bool" where
  "group_ops_keep a \<longleftrightarrow>
     (\<forall>g q k. links (snd (ka_alloc_fair_sched_group a g q k)) = links k) \<and>
     (\<forall>g q k. links (snd (ka_alloc_rt_sched_group a g q k)) = links k) \<and>
     (\<forall>g k. links (ka_online_fair_sched_group a g k) = links k) \<and>
     (\<forall>g k. links (ka_unregister_sched_group a g k) = links k) \<and>
     (\<forall>g k. links (ka_free_sched_group_parts a g k) = links k)"

lemma linksD:
  assumes "links k' = links k"
  shows "k_task_groups k' = k_task_groups k" "tg_parent (k_tgs k' g) = tg_parent (k_tgs k g)"
    "tg_children (k_tgs k' g) = tg_children (k_tgs k g)" "linked k' g = linked k g"
proof -
  have 1: "k_task_groups k' = k_task_groups k" using assms by (simp add: links_def)
  have "tree_shape k' = tree_shape k" using assms by (simp add: links_def)
  from fun_cong [OF this] have 2: "tg_parent (k_tgs k' q) = tg_parent (k_tgs k q)"
    "tg_children (k_tgs k' q) = tg_children (k_tgs k q)" for q by (simp_all add: tree_shape_def)
  show "k_task_groups k' = k_task_groups k" "tg_parent (k_tgs k' g) = tg_parent (k_tgs k g)"
    "tg_children (k_tgs k' g) = tg_children (k_tgs k g)" "linked k' g = linked k g"
    by (simp_all add: linked_def 1 2 split: option.split)
qed

text \<open>Each group is once on the list and once among the children of its parent.\<close>

definition links_ok :: "kernel \<Rightarrow> bool" where
  "links_ok k \<longleftrightarrow> distinct (k_task_groups k) \<and>
     (\<forall>q. distinct (tg_children (k_tgs k q)) \<and>
        (\<forall>g \<in> set (tg_children (k_tgs k q)). tg_parent (k_tgs k g) = Some q))"

lemma links_ok_cong: assumes "links k' = links k" shows "links_ok k' = links_ok k"
  by (simp add: links_ok_def linksD(1-3) [OF assms])

lemma linked_iff:
  "links_ok k \<Longrightarrow> linked k g \<longleftrightarrow> g \<in> set (k_task_groups k) \<or> (\<exists>q. g \<in> set (tg_children (k_tgs k q)))"
  by (auto simp: linked_def links_ok_def split: option.splits)

lemma release_fields:
  "k_task_groups (sched_release_group g k) = remove1 g (k_task_groups k)"
  "tg_parent (k_tgs (sched_release_group g k) q) = tg_parent (k_tgs k q)"
  "tg_children (k_tgs (sched_release_group g k) q) =
     (if tg_parent (k_tgs k g) = Some q then remove1 g (tg_children (k_tgs k q)) else tg_children (k_tgs k q))"
  "k_root_tg (sched_release_group g k) = k_root_tg k"
  by (simp_all add: sched_release_group_def Let_def upd_tg_def split: option.split)

lemma release_links:
  assumes "links_ok k"
  shows "links_ok (sched_release_group g k)" "linked (sched_release_group g k) h \<longleftrightarrow> linked k h \<and> h \<noteq> g"
proof -
  have ok: "distinct (k_task_groups k)" "distinct (tg_children (k_tgs k q))"
    "h \<in> set (tg_children (k_tgs k q)) \<Longrightarrow> tg_parent (k_tgs k h) = Some q" for h q
    using assms by (simp_all add: links_ok_def)
  have children: "set (tg_children (k_tgs (sched_release_group g k) q)) = set (tg_children (k_tgs k q)) - {g}" for q
    using ok(2) ok(3) [of g q] by (auto simp: release_fields set_remove1_eq)
  have "distinct (tg_children (k_tgs (sched_release_group g k) q))" for q
    using ok(2) by (simp add: release_fields)
  then show links: "links_ok (sched_release_group g k)"
    using ok(1,3) by (simp add: links_ok_def children release_fields(1,2))
  show "linked (sched_release_group g k) h \<longleftrightarrow> linked k h \<and> h \<noteq> g"
    using ok(1) by (auto simp: linked_iff [OF assms] linked_iff [OF links] children release_fields(1) set_remove1_eq)
qed

lemma alloc_uclamp_links: "links (alloc_uclamp_sched_group g q k) = links k"
  unfolding alloc_uclamp_sched_group_def
  by (rule fold_invariant [where P = "\<lambda>k'. links k' = links k"])
    (auto simp: links_def tree_shape_def fun_eq_iff upd_tg_uc_def upd_tg_uc_req_def upd_tg_def)

lemma alloc_uclamp_root: "k_root_tg (alloc_uclamp_sched_group g q k) = k_root_tg k"
  unfolding alloc_uclamp_sched_group_def
  by (rule fold_invariant [where P = "\<lambda>k'. k_root_tg k' = k_root_tg k"])
    (auto simp: upd_tg_uc_def upd_tg_uc_req_def upd_tg_def)

lemma create_links:
  assumes "group_ops_keep a" "sched_create_group a parent k = (r, k')" "ka_new_task_group a k = Some g"
  shows "k_task_groups k' = k_task_groups k"
    "tg_children (k_tgs k' q) = (if q = g then [] else tg_children (k_tgs k q))"
    "q \<noteq> g \<Longrightarrow> tg_parent (k_tgs k' q) = tg_parent (k_tgs k q)"
    "r = None \<or> r = Some g"
proof -
  define k1 where "k1 = upd_tg g (\<lambda>_. zero_task_group) k"
  obtain ok2 k2 where 2: "ka_alloc_fair_sched_group a g parent k1 = (ok2, k2)" by fastforce
  obtain ok3 k3 where 3: "ka_alloc_rt_sched_group a g parent k2 = (ok3, k3)" by fastforce
  have "links k2 = links k1" using assms(1) 2 unfolding group_ops_keep_def by (metis snd_conv)
  moreover have "links k3 = links k2" using assms(1) 3 unfolding group_ops_keep_def by (metis snd_conv)
  moreover have "links (sched_free_group a g k4) = links k4" for k4
    using assms(1) by (simp add: group_ops_keep_def sched_free_group_def)
  ultimately have "links k' = links k1"
    using assms(2,3) 2 3 by (auto simp: sched_create_group_def Let_def k1_def [symmetric] alloc_uclamp_links split: if_splits)
  note d = linksD [OF this]
  show "k_task_groups k' = k_task_groups k" by (simp add: d k1_def upd_tg_def)
  show "tg_children (k_tgs k' q) = (if q = g then [] else tg_children (k_tgs k q))"
    by (simp add: d k1_def upd_tg_def zero_task_group_def)
  show "q \<noteq> g \<Longrightarrow> tg_parent (k_tgs k' q) = tg_parent (k_tgs k q)"
    by (simp add: d k1_def upd_tg_def)
  show "r = None \<or> r = Some g"
    using assms(2,3) 2 3 by (auto simp: sched_create_group_def Let_def k1_def [symmetric] split: if_splits)
qed

lemma online_links:
  assumes "group_ops_keep a" "links_ok k" "\<not> linked k g" "parent \<noteq> g"
    and "k_task_groups k' = k_task_groups k"
    and "\<And>q. tg_children (k_tgs k' q) = (if q = g then [] else tg_children (k_tgs k q))"
    and "\<And>q. q \<noteq> g \<Longrightarrow> tg_parent (k_tgs k' q) = tg_parent (k_tgs k q)"
  shows "links_ok (sched_online_group a g parent k')"
    "linked (sched_online_group a g parent k') h \<Longrightarrow> linked k h \<or> h = g"
proof -
  define k1 where "k1 = upd_tg parent (\<lambda>t. t\<lparr>tg_children := g # tg_children t\<rparr>)
    (upd_tg g (\<lambda>t. t\<lparr>tg_parent := Some parent, tg_children := []\<rparr>) (k'\<lparr>k_task_groups := g # k_task_groups k'\<rparr>))"
  have same: "links (sched_online_group a g parent k') = links k1"
    using assms(1) by (simp add: sched_online_group_def group_ops_keep_def Let_def k1_def)
  have g: "g \<notin> set (k_task_groups k)" "g \<notin> set (tg_children (k_tgs k q))" for q
    using assms(3) by (auto simp: linked_iff [OF assms(2)])
  have k1: "k_task_groups k1 = g # k_task_groups k"
    "tg_children (k_tgs k1 q) = (if q = g then [] else if q = parent then g # tg_children (k_tgs k q) else tg_children (k_tgs k q))"
    "tg_parent (k_tgs k1 q) = (if q = g then Some parent else tg_parent (k_tgs k q))" for q
    using assms(4-7) by (simp_all add: k1_def upd_tg_def)
  have links: "links_ok k1" using assms(2) g assms(4) by (auto simp: links_ok_def k1)
  then show "links_ok (sched_online_group a g parent k')" using links_ok_cong [OF same] by simp
  have "linked k1 h \<Longrightarrow> linked k h \<or> h = g"
    by (auto simp: linked_iff [OF links] linked_iff [OF assms(2)] k1 split: if_splits)
  then show "linked (sched_online_group a g parent k') h \<Longrightarrow> linked k h \<or> h = g"
    using linksD(4) [OF same] by simp
qed

section \<open>The invariant\<close>

text \<open>
  Per group and phase: who may still hold a pointer to it is waited for by the callback in whose
  way it stands.
\<close>

fun awaited :: "(rcu_callback \<times> rid set) option \<Rightarrow> rcu_callback \<Rightarrow> rid \<Rightarrow> bool" where
  "awaited None cb r = False"
| "awaited (Some (cb', W)) cb r = (cb' = cb \<and> r \<in> W)"

fun css_awaited :: "rid set option \<Rightarrow> rid \<Rightarrow> bool" where
  "css_awaited None r = False"
| "css_awaited (Some W) r = (r \<in> W)"

lemma awaited_end [simp]:
  "awaited (map_option (\<lambda>(cb, W). (cb, W - {r})) x) cb q \<longleftrightarrow> awaited x cb q \<and> q \<noteq> r"
  "css_awaited (map_option (\<lambda>W. W - {r}) y) q \<longleftrightarrow> css_awaited y q \<and> q \<noteq> r"
  by (cases x; auto) (cases y; auto)

text \<open>A pointer found by a walk, and one found among the leaves.\<close>

definition walk_held :: "group_rcu \<Rightarrow> group_phase \<Rightarrow> tgid \<Rightarrow> rid \<Rightarrow> bool" where
  "walk_held s p g r \<longleftrightarrow> p = Online \<or> p = Released \<or>
     (p = Destroyed \<and> awaited (gr_pending s g) Unregister_group_rcu r) \<or>
     (p = Css_released \<and> css_awaited (gr_css_wait s g) r)"

definition leaf_held :: "group_rcu \<Rightarrow> group_phase \<Rightarrow> tgid \<Rightarrow> rid \<Rightarrow> bool" where
  "leaf_held s p g r \<longleftrightarrow> p \<noteq> Absent \<and> (p = Unregistered \<longrightarrow> awaited (gr_pending s g) Free_group_rcu r)"

definition group_ok :: "group_rcu \<Rightarrow> group_phase \<Rightarrow> tgid \<Rightarrow> bool" where
  "group_ok s p g \<longleftrightarrow>
     (linked (gr_kernel s) g \<longrightarrow> p = Online) \<and>
     (g \<in> gr_leaf s \<longrightarrow> p \<noteq> Absent \<and> p \<noteq> Unregistered) \<and>
     (g \<in> gr_allocated s \<longleftrightarrow> p \<noteq> Absent) \<and>
     (gr_pending s g \<noteq> None \<longrightarrow>
        p = (if fst (the (gr_pending s g)) = Unregister_group_rcu then Destroyed else Unregistered)) \<and>
     (gr_css_wait s g \<noteq> None \<longrightarrow> p = Css_released) \<and>
     (\<forall>r w l. gr_readers s r = Some (w, l) \<longrightarrow>
        (g \<in> w \<longrightarrow> walk_held s p g r) \<and> (g \<in> l \<longrightarrow> leaf_held s p g r))"

lemmas held_defs = walk_held_def leaf_held_def

definition group_rcu_inv :: "group_world \<Rightarrow> bool" where
  "group_rcu_inv x \<longleftrightarrow>
     (case x of (s, ph) \<Rightarrow> links_ok (gr_kernel s) \<and> \<not> gr_head_reused s \<and> (\<forall>g. group_ok s (ph g) g))"

lemma group_ok_pending: "group_ok s p g \<Longrightarrow> p \<noteq> Destroyed \<Longrightarrow> p \<noteq> Unregistered \<Longrightarrow> gr_pending s g = None"
  by (rule ccontr) (auto simp: group_ok_def split: if_splits)

lemma unregister_ok:
  assumes keep: "group_ops_keep a" and ok: "links_ok (gr_kernel s)" "\<not> gr_head_reused s"
    and others: "\<And>h. h \<noteq> g \<Longrightarrow> group_ok s (ph h) h"
    and "gr_pending s g = None" "gr_css_wait s g = None" "g \<in> gr_allocated s" "\<not> linked (gr_kernel s) g"
    and "\<And>r w l. gr_readers s r = Some (w, l) \<Longrightarrow> g \<notin> w"
  shows "group_rcu_inv (rcu_sched_unregister_group a g s, ph(g := Unregistered))"
proof -
  let ?k = "ka_unregister_sched_group a g (gr_kernel s)"
  have same: "links ?k = links (gr_kernel s)" using keep by (simp add: group_ops_keep_def)
  have "group_ok (rcu_sched_unregister_group a g s) ((ph(g := Unregistered)) h) h" for h
    using others [of h] assms(5-9)
    by (cases "h = g") (auto simp: rcu_sched_unregister_group_def call_rcu_def group_ok_def held_defs linksD(4) [OF same] dest: domI)
  moreover have "links_ok ?k" using ok(1) links_ok_cong [OF same] by simp
  ultimately show ?thesis
    using ok(2) assms(5) by (simp add: group_rcu_inv_def rcu_sched_unregister_group_def call_rcu_def)
qed

lemma reader_end_ok: "group_ok s p g \<Longrightarrow> group_ok (reader_end r s) p g"
  by (auto simp: group_ok_def held_defs reader_end_def split: if_splits)

lemma reader_begin_ok: "group_ok s p g \<Longrightarrow> gr_readers s r = None \<Longrightarrow> group_ok (reader_begin r s) p g"
  by (auto simp: group_ok_def held_defs reader_begin_def)

lemma add_leaf_ok:
  "group_ok s p h \<Longrightarrow> (h = g \<Longrightarrow> p \<noteq> Absent \<and> p \<noteq> Unregistered) \<Longrightarrow> group_ok (add_leaf g s) p h"
  by (cases "h = g") (auto simp: group_ok_def held_defs add_leaf_def)

lemma release_ok:
  assumes "links_ok (gr_kernel s)" "group_ok s (ph h) h" "ph g = Online"
  shows "group_ok (rcu_sched_release_group g s) ((ph(g := Released)) h) h"
    "group_ok ((rcu_sched_release_group g s)\<lparr>gr_css_wait := (gr_css_wait s)(g \<mapsto> dom (gr_readers s))\<rparr>)
       ((ph(g := Css_released)) h) h"
proof -
  note linked = release_links(2) [OF assms(1)]
  show "group_ok (rcu_sched_release_group g s) ((ph(g := Released)) h) h"
  proof (cases "h = g")
    case True
    then show ?thesis using assms(2,3) group_ok_pending [OF assms(2)]
      by (auto simp: group_ok_def held_defs rcu_sched_release_group_def linked)
  qed (use assms(2) in \<open>simp add: group_ok_def held_defs rcu_sched_release_group_def linked\<close>)
  show "group_ok ((rcu_sched_release_group g s)\<lparr>gr_css_wait := (gr_css_wait s)(g \<mapsto> dom (gr_readers s))\<rparr>)
       ((ph(g := Css_released)) h) h"
  proof (cases "h = g")
    case True
    then show ?thesis using assms(2,3) group_ok_pending [OF assms(2)]
      by (auto simp: group_ok_def held_defs rcu_sched_release_group_def linked dest: domI)
  qed (use assms(2) in \<open>simp add: group_ok_def held_defs rcu_sched_release_group_def linked\<close>)
qed

lemma destroy_ok:
  assumes "group_ok s (ph h) h" "ph g = Released"
  shows "group_ok (sched_destroy_group g s) ((ph(g := Destroyed)) h) h"
  using assms by (auto simp: group_ok_def held_defs sched_destroy_group_def call_rcu_def dest: domI split: if_splits)

lemma free_ok:
  assumes "group_ops_keep a" "links_ok (gr_kernel s)" "\<not> gr_head_reused s" "\<And>h. group_ok s (ph h) h"
    and "gr_pending s g = Some (Free_group_rcu, {})"
  shows "group_rcu_inv (run_callback a g Free_group_rcu s, ph(g := Absent))"
proof -
  let ?k = "sched_free_group a g (gr_kernel s)"
  have same: "links ?k = links (gr_kernel s)" using assms(1) by (simp add: group_ops_keep_def sched_free_group_def)
  have g: "ph g = Unregistered" using assms(4) [of g] assms(5) by (simp add: group_ok_def)
  have "group_ok (run_callback a g Free_group_rcu s) ((ph(g := Absent)) h) h" for h
    using assms(4) [of h] g assms(5)
    by (cases "h = g") (auto simp: group_ok_def held_defs run_callback_def sched_free_group_rcu_def rcu_sched_free_group_def
        linksD(4) [OF same])
  then show ?thesis
    using assms(2,3) links_ok_cong [OF same]
    by (simp add: group_rcu_inv_def run_callback_def sched_free_group_rcu_def rcu_sched_free_group_def)
qed

lemma create_failed_inv:
  assumes keep: "group_ops_keep a"
    and "\<And>g. ka_new_task_group a (gr_kernel s) = Some g \<Longrightarrow> g \<notin> gr_allocated s"
    and "sched_create_group a parent (gr_kernel s) = (None, k)" "group_rcu_inv (s, ph)"
  shows "group_rcu_inv (s\<lparr>gr_kernel := k\<rparr>, ph)"
proof (cases "ka_new_task_group a (gr_kernel s)")
  case None
  then have "s\<lparr>gr_kernel := k\<rparr> = s" using assms(3) by (simp add: sched_create_group_def)
  then show ?thesis using assms(4) by simp
next
  case (Some g)
  have inv: "links_ok (gr_kernel s)" "group_ok s (ph h) h" for h using assms(4) by (simp_all add: group_rcu_inv_def)
  have "\<not> linked (gr_kernel s) g" using inv(2) [of g] assms(2) [OF Some] by (auto simp: group_ok_def)
  then have g: "g \<notin> set (tg_children (k_tgs (gr_kernel s) q))" for q
    by (simp add: linked_iff [OF inv(1)])
  note c = create_links [OF keep assms(3) Some]
  have "tg_parent (k_tgs k h) = Some q" if "h \<in> set (tg_children (k_tgs (gr_kernel s) q))" for h q
  proof -
    have "h \<noteq> g" using that g by auto
    then show ?thesis using that inv(1) by (simp add: links_ok_def c(3))
  qed
  then have links: "links_ok k" using inv(1) by (simp add: links_ok_def c(1,2))
  have "linked k h \<Longrightarrow> linked (gr_kernel s) h" for h
    by (auto simp: linked_iff [OF links] linked_iff [OF inv(1)] c(1,2) split: if_splits)
  then have "group_ok (s\<lparr>gr_kernel := k\<rparr>) (ph h) h" for h
    using inv(2) [of h] by (auto simp: group_ok_def held_defs)
  with links show ?thesis using assms(4) by (simp add: group_rcu_inv_def)
qed

lemma create_online_inv:
  assumes keep: "group_ops_keep a"
    and "ph parent = Online" "g \<notin> gr_allocated s" "sched_create_group a parent (gr_kernel s) = (Some g, k)"
    and "group_rcu_inv (s, ph)"
  shows "group_rcu_inv (show_group g (s\<lparr>gr_kernel := sched_online_group a g parent k,
      gr_allocated := insert g (gr_allocated s)\<rparr>), ph(g := Online))"
proof -
  have inv: "links_ok (gr_kernel s)" "\<not> gr_head_reused s" "group_ok s (ph h) h" for h
    using assms(5) by (simp_all add: group_rcu_inv_def)
  have g: "ph g = Absent" using inv(3) [of g] assms(3) by (simp add: group_ok_def)
  have new: "ka_new_task_group a (gr_kernel s) = Some g"
    using assms(4) create_links(4) [OF keep assms(4)]
    by (cases "ka_new_task_group a (gr_kernel s)") (auto simp: sched_create_group_def)
  note c = create_links(1-3) [OF keep assms(4) new]
  have "parent \<noteq> g" using g assms(2) by auto
  moreover have "\<not> linked (gr_kernel s) g" using inv(3) [of g] g by (auto simp: group_ok_def)
  ultimately have on: "links_ok (sched_online_group a g parent k)"
    "linked (sched_online_group a g parent k) h \<Longrightarrow> linked (gr_kernel s) h \<or> h = g" for h
    using online_links [OF keep inv(1) _ _ c] by blast+
  have "group_ok (show_group g (s\<lparr>gr_kernel := sched_online_group a g parent k,
      gr_allocated := insert g (gr_allocated s)\<rparr>)) ((ph(g := Online)) h) h" for h
  proof (cases "h = g")
    case True
    have "gr_pending s g = None" "gr_css_wait s g = None" using inv(3) [of g] g group_ok_pending [OF inv(3) [of g]]
      by (auto simp: group_ok_def)
    then show ?thesis using inv(3) [of g] g True by (simp add: group_ok_def held_defs show_group_def)
  next
    case False
    let ?s = "show_group g (s\<lparr>gr_kernel := sched_online_group a g parent k, gr_allocated := insert g (gr_allocated s)\<rparr>)"
    have held: "walk_held ?s p h r = walk_held s p h r" "leaf_held ?s p h r = leaf_held s p h r" for p r
      by (simp_all add: held_defs show_group_def)
    have "(h \<in> w \<longrightarrow> walk_held s (ph h) h r) \<and> (h \<in> l \<longrightarrow> leaf_held s (ph h) h r)"
      if "gr_readers ?s r = Some (w, l)" for r w l
    proof -
      from that obtain v where "gr_readers s r = Some (v, l)" "w = insert g v" by (auto simp: show_group_def)
      then show ?thesis using inv(3) [of h] False by (auto simp: group_ok_def)
    qed
    moreover have "linked (gr_kernel ?s) h \<longrightarrow> ph h = Online"
      using on(2) [of h] False inv(3) [of h] by (auto simp: group_ok_def show_group_def)
    moreover have "gr_leaf ?s = gr_leaf s" "gr_allocated ?s = insert g (gr_allocated s)"
      "gr_pending ?s = gr_pending s" "gr_css_wait ?s = gr_css_wait s" by (simp_all add: show_group_def)
    ultimately show ?thesis using inv(3) [of h] False by (simp add: group_ok_def held)
  qed
  then show ?thesis using inv(2) on(1) by (simp add: group_rcu_inv_def) (simp add: show_group_def)
qed

lemma group_step_inv:
  assumes keep: "group_ops_keep a" and "group_step a x y" "group_rcu_inv x"
  shows "group_rcu_inv y"
  using assms(2,3)
proof cases
  case (callback s g cb ph)
  then have inv: "links_ok (gr_kernel s)" "\<not> gr_head_reused s" "group_ok s (ph h) h" for h
    using assms(3) by (simp_all add: group_rcu_inv_def)
  show ?thesis
  proof (cases cb)
    case Unregister_group_rcu
    let ?s = "s\<lparr>gr_pending := (gr_pending s)(g := None)\<rparr>"
    have g: "ph g = Destroyed" using inv(3) [of g] callback(3) Unregister_group_rcu by (simp add: group_ok_def)
    have free: "gr_css_wait s g = None" "g \<in> gr_allocated s" "\<not> linked (gr_kernel s) g"
      "gr_readers s r = Some (w, l) \<Longrightarrow> g \<notin> w" for r w l
      using inv(3) [of g] g callback(3) Unregister_group_rcu by (auto simp: group_ok_def held_defs)
    have "group_ok ?s (ph h) h" if "h \<noteq> g" for h using inv(3) [of h] that by (simp add: group_ok_def held_defs)
    with inv(1,2) free have "group_rcu_inv (rcu_sched_unregister_group a g ?s, ph(g := Unregistered))"
      by (intro unregister_ok [OF keep]) auto
    then show ?thesis using callback(2) Unregister_group_rcu
      by (simp add: run_callback_def sched_unregister_group_rcu_def)
  next
    case Free_group_rcu
    then show ?thesis using free_ok [OF keep inv] callback(2,3) by simp
  qed
next
  case (css_free s g ph)
  then have inv: "links_ok (gr_kernel s)" "\<not> gr_head_reused s" "group_ok s (ph h) h" for h
    using assms(3) by (simp_all add: group_rcu_inv_def)
  let ?s = "s\<lparr>gr_css_wait := (gr_css_wait s)(g := None)\<rparr>"
  have g: "ph g = Css_released" using inv(3) [of g] css_free(3) by (simp add: group_ok_def)
  have free: "gr_pending s g = None" "g \<in> gr_allocated s" "\<not> linked (gr_kernel s) g"
    "gr_readers s r = Some (w, l) \<Longrightarrow> g \<notin> w" for r w l
    using inv(3) [of g] g css_free(3) group_ok_pending [OF inv(3) [of g]] by (auto simp: group_ok_def held_defs)
  have "group_ok ?s (ph h) h" if "h \<noteq> g" for h using inv(3) [of h] that by (simp add: group_ok_def held_defs)
  with inv(1,2) free have "group_rcu_inv (rcu_sched_unregister_group a g ?s, ph(g := Unregistered))"
    by (intro unregister_ok [OF keep]) auto
  then show ?thesis using css_free(2) by (simp add: rcu_css_free_def)
next
  case (online ph parent g s k)
  then show ?thesis using assms(3) create_online_inv [OF keep] by simp
next
  case (create_failed ph parent s k)
  then show ?thesis using assms(3) create_failed_inv [OF keep] by simp
next
  case (destroy ph g s)
  then have inv: "links_ok (gr_kernel s)" "\<not> gr_head_reused s" "group_ok s (ph h) h" for h
    using assms(3) by (simp_all add: group_rcu_inv_def)
  moreover have "group_ok (sched_destroy_group g s) ((ph(g := Destroyed)) h) h" for h
    by (rule destroy_ok) (use inv(3) [of h] destroy in simp_all)
  ultimately show ?thesis using destroy(1-3) group_ok_pending [OF inv(3) [of g]]
    by (simp add: group_rcu_inv_def) (simp add: sched_destroy_group_def call_rcu_def)
next
  case (requeue s r w l g ph)
  then have "group_ok s (ph h) h" for h using assms(3) by (simp add: group_rcu_inv_def)
  moreover from this [of g] have "ph g \<noteq> Absent \<and> ph g \<noteq> Unregistered"
    using requeue(3,4) by (auto simp: group_ok_def held_defs)
  ultimately show ?thesis using requeue(1,2) assms(3) by (auto simp: group_rcu_inv_def add_leaf_def intro: add_leaf_ok [unfolded add_leaf_def])
next
  case (unlink ph g s)
  then show ?thesis using assms(3) release_ok release_links(1)
    by (simp add: group_rcu_inv_def) (simp add: rcu_sched_release_group_def)
next
  case (css_released ph g s)
  then show ?thesis using assms(3) release_ok release_links(1)
    by (simp add: group_rcu_inv_def) (simp add: rcu_sched_release_group_def)
next
  case (queue ph g s)
  then show ?thesis using assms(3) by (auto simp: group_rcu_inv_def add_leaf_def intro: add_leaf_ok [unfolded add_leaf_def])
next
  case (enter s r ph)
  then show ?thesis using assms(3) reader_begin_ok by (simp add: group_rcu_inv_def) (simp add: reader_begin_def)
next
  case (leave s r ph)
  then show ?thesis using assms(3) reader_end_ok by (simp add: group_rcu_inv_def) (simp add: reader_end_def)
qed

section \<open>What the grace periods guarantee\<close>

definition group_world_start :: "kernel \<Rightarrow> group_world" where
  "group_world_start k =
     (\<lparr>gr_kernel = k, gr_allocated = {g. linked k g}, gr_leaf = {}, gr_pending = Map.empty,
       gr_css_wait = Map.empty, gr_readers = Map.empty, gr_head_reused = False\<rparr>,
      \<lambda>g. if linked k g then Online else Absent)"

lemma group_start_inv: "links_ok k \<Longrightarrow> group_rcu_inv (group_world_start k)"
  by (simp add: group_rcu_inv_def group_world_start_def group_ok_def)

lemma group_steps_inv:
  assumes "group_ops_keep a" "group_steps a x y" "group_rcu_inv x"
  shows "group_rcu_inv y"
  using assms(2,3) unfolding group_steps_def
  by (induction rule: rtranclp_induct) (auto intro: group_step_inv [OF assms(1)])

text \<open>
  C13: Along every interleaving of readers, group creation, release, destruction and callbacks that
  follows the callers' protocol, no reader holds a pointer to a group whose memory is gone, however
  it found the group; a walk of the tree never holds a group whose run queues are unregistered, so
  it cannot put them back on the list of leaves, where only allocated, registered groups are; and
  the one callback head in each group is never used twice at a time.
\<close>

theorem group_never_freed_under_reader:
  assumes "group_ops_keep a" "links_ok k" "group_steps a (group_world_start k) (s, ph)"
  shows "\<not> gr_head_reused s \<and>
    (\<forall>r w l. gr_readers s r = Some (w, l) \<longrightarrow>
       w \<union> l \<subseteq> gr_allocated s \<and> (\<forall>g \<in> w. ph g \<noteq> Unregistered)) \<and>
    gr_leaf s \<subseteq> gr_allocated s \<and> (\<forall>g \<in> gr_leaf s. ph g \<noteq> Unregistered)"
proof -
  have "group_rcu_inv (s, ph)"
    by (rule group_steps_inv [OF assms(1,3) group_start_inv [OF assms(2)]])
  then have inv: "\<not> gr_head_reused s" "group_ok s (ph g) g" for g by (simp_all add: group_rcu_inv_def)
  have "g \<in> gr_allocated s \<and> (g \<in> w \<longrightarrow> ph g \<noteq> Unregistered)"
    if "gr_readers s r = Some (w, l)" "g \<in> w \<union> l" for r w l g
    using inv(2) [of g] that by (auto simp: group_ok_def held_defs)
  moreover have "g \<in> gr_allocated s \<and> ph g \<noteq> Unregistered" if "g \<in> gr_leaf s" for g
    using inv(2) [of g] that by (auto simp: group_ok_def)
  ultimately show ?thesis using inv(1) by blast
qed

text \<open>A group of the sample machine, released while a reader that has seen it is in its section.\<close>

lemma sample_links: "links_ok sample_kernel"
  by (simp add: links_ok_def) (simp add: sample_kernel_def sample_tg_def)

lemma sample_group_ops: "group_ops_keep sample_kapi"
  by (simp add: group_ops_keep_def sample_kapi_def)

lemma sample_creates: "\<exists>k. sched_create_group sample_kapi 0 sample_kernel = (Some 7, k) \<and> k_root_tg k = 0"
  by (simp add: sched_create_group_def Let_def) (simp add: sample_kapi_def alloc_uclamp_root upd_tg_def sample_kernel_def)

theorem group_never_freed_under_reader_witness:
  "\<exists>s ph w l. group_steps sample_kapi (group_world_start sample_kernel) (s, ph) \<and>
     gr_readers s 1 = Some (w, l) \<and> 7 \<in> w \<and> ph 7 = Css_released \<and> 7 \<in> gr_allocated s"
proof -
  obtain k where k: "sched_create_group sample_kapi 0 sample_kernel = (Some 7, k)" "k_root_tg k = 0"
    using sample_creates by blast
  define k1 where "k1 = sched_online_group sample_kapi 7 0 k"
  obtain s0 ph0 where start: "group_world_start sample_kernel = (s0, ph0)" by fastforce
  define s1 where "s1 = show_group 7 (s0\<lparr>gr_kernel := k1, gr_allocated := insert 7 (gr_allocated s0)\<rparr>)"
  define s2 where "s2 = reader_begin 1 s1"
  define s3 where "s3 = (rcu_sched_release_group 7 s2)\<lparr>gr_css_wait := (gr_css_wait s2)(7 \<mapsto> dom (gr_readers s2))\<rparr>"
  have root: "k_root_tg sample_kernel = 0" "linked sample_kernel 0" "\<not> linked sample_kernel 7"
    by (simp_all add: linked_def) (simp_all add: sample_kernel_def sample_tg_def)
  have s0: "gr_kernel s0 = sample_kernel" "gr_readers s0 = Map.empty" "7 \<notin> gr_allocated s0" "ph0 0 = Online"
    using start root by (auto simp: group_world_start_def)
  have lk: "linked k1 7" by (simp add: k1_def sched_online_group_def Let_def linked_def) (simp add: sample_kapi_def)
  have "k_root_tg k1 = 0"
    using k(2) by (simp add: k1_def sched_online_group_def Let_def upd_tg_def) (simp add: sample_kapi_def)
  have s1: "gr_kernel s1 = k1" "gr_readers s1 = Map.empty" by (auto simp: s1_def show_group_def s0)
  have "group_step sample_kapi (s0, ph0) (s1, ph0(7 := Online))"
    unfolding s1_def k1_def by (rule online) (simp_all add: s0 k(1))
  moreover have "group_step sample_kapi (s1, ph0(7 := Online)) (s2, ph0(7 := Online))"
    unfolding s2_def by (rule enter) (simp add: s1)
  moreover have "group_step sample_kapi (s2, ph0(7 := Online)) (s3, ph0(7 := Online, 7 := Css_released))"
    unfolding s3_def by (rule css_released) (simp_all add: s2_def reader_begin_def s1 \<open>k_root_tg k1 = 0\<close>)
  ultimately have steps: "group_steps sample_kapi (group_world_start sample_kernel) (s3, ph0(7 := Online, 7 := Css_released))"
    unfolding group_steps_def start by (rule rtranclp.rtrancl_into_rtrancl [OF rtranclp_trans [OF r_into_rtranclp r_into_rtranclp]])
  have r: "gr_readers s3 1 = Some ({g. linked k1 g}, gr_leaf s1)"
    by (simp add: s3_def rcu_sched_release_group_def s2_def reader_begin_def s1)
  have seen: "7 \<in> {g. linked k1 g}" using lk by simp
  have "{g. linked k1 g} \<union> gr_leaf s1 \<subseteq> gr_allocated s3"
    using group_never_freed_under_reader [OF sample_group_ops sample_links steps] r by simp
  then have "7 \<in> gr_allocated s3" using seen by (rule_tac subsetD) auto
  with steps r seen show ?thesis
    by (intro exI [of _ s3] exI [of _ "ph0(7 := Online, 7 := Css_released)"] exI [of _ "{g. linked k1 g}"]
        exI [of _ "gr_leaf s1"] conjI) simp_all
qed

section \<open>One thread alone\<close>

text \<open>
  Without readers both ways of ending a group come down to what Task_Groups does at once.
\<close>

lemma lone_unregister:
  assumes "gr_readers s = Map.empty"
  shows "\<exists>s'. group_step a (rcu_sched_unregister_group a g s, ph(g := Unregistered)) (s', ph(g := Absent)) \<and>
    gr_kernel s' = sched_unregister_group a g (gr_kernel s) \<and> g \<notin> gr_allocated s'"
proof -
  let ?s = "rcu_sched_unregister_group a g s"
  have "gr_pending ?s g = Some (Free_group_rcu, {})" by (simp add: rcu_sched_unregister_group_def call_rcu_def assms)
  from callback [OF this, of a "ph(g := Unregistered)"] show ?thesis
    by (intro exI [of _ "run_callback a g Free_group_rcu ?s"])
      (simp add: run_callback_def sched_free_group_rcu_def rcu_sched_free_group_def
        rcu_sched_unregister_group_def call_rcu_def sched_unregister_group_def)
qed

lemma group_end_alone:
  assumes "gr_readers s = Map.empty" "ph g = Online" "g \<noteq> k_root_tg (gr_kernel s)"
  shows "\<exists>s'. group_steps a (s, ph) (s', ph(g := Absent)) \<and>
      gr_kernel s' = cpu_cgroup_css_free a g (cpu_cgroup_css_released g (gr_kernel s)) \<and> g \<notin> gr_allocated s'"
proof -
  let ?s1 = "(rcu_sched_release_group g s)\<lparr>gr_css_wait := (gr_css_wait s)(g \<mapsto> dom (gr_readers s))\<rparr>"
  let ?s2 = "?s1\<lparr>gr_css_wait := (gr_css_wait ?s1)(g := None)\<rparr>"
  have "group_step a (s, ph) (?s1, ph(g := Css_released))" using assms(2,3) by (rule css_released)
  moreover have "group_step a (?s1, ph(g := Css_released)) (rcu_css_free a g ?s2, ph(g := Css_released, g := Unregistered))"
    by (rule css_free) (simp add: assms(1))
  moreover have "gr_readers ?s2 = Map.empty" by (simp add: rcu_sched_release_group_def assms(1))
  from lone_unregister [OF this, of a g ph] obtain s' where
    "group_step a (rcu_css_free a g ?s2, ph(g := Unregistered)) (s', ph(g := Absent))"
    "gr_kernel s' = sched_unregister_group a g (gr_kernel ?s2)" "g \<notin> gr_allocated s'"
    by (auto simp: rcu_css_free_def)
  ultimately show ?thesis unfolding group_steps_def
    by (intro exI [of _ s'] conjI
        rtranclp.rtrancl_into_rtrancl [OF rtranclp_trans [OF r_into_rtranclp r_into_rtranclp]])
      (simp_all add: cpu_cgroup_css_free_def cpu_cgroup_css_released_def rcu_sched_release_group_def)
qed

end
