(* ===== verification/Core_Lock.thy ===== *)
theory Core_Lock
  imports Core_Sched_Correct Sample_Kapi
begin

text \<open>
  Run queue locks while core scheduling is switched on and off (\<open>core.c\<close>, lines 317 to 416 and
  548 to 606), with all CPUs as concurrent parties: each goes through \<open>raw_spin_rq_lock\<close> and
  \<open>raw_spin_rq_unlock\<close> access by access, and one party switches the feature, which changes the
  lock that guards a run queue. Core_Sched has the switch as one step, Rq_Lock the lock loop seen
  from one CPU.
\<close>

section \<open>State\<close>

text \<open>
  \<open>rq_lockp\<close> and \<open>__rq_lockp\<close> are inline functions of \<open>kernel/sched/sched.h\<close>, outside the repository:
  the lock of a run queue is that of its core while the core is enabled, its own otherwise; only
  the first looks at the static branch. A lock is named by the CPU whose run queue contains it.
\<close>

record lockp_api =
  lp_rq_lockp :: "kernel \<Rightarrow> cpu \<Rightarrow> cpu"
  lp_u_rq_lockp :: "kernel \<Rightarrow> cpu \<Rightarrow> cpu"

definition lockp_ok :: "lockp_api \<Rightarrow> bool" where
  "lockp_ok la \<longleftrightarrow>
     (\<forall>k c. lp_u_rq_lockp la k c = (if rq_core_enabled (k_rqs k c) then rq_core (k_rqs k c) else c)) \<and>
     (\<forall>k c. lp_rq_lockp la k c =
        (if k_sched_core_enabled k \<and> rq_core_enabled (k_rqs k c) then rq_core (k_rqs k c) else c))"

datatype holder = By_cpu cpu | By_switch

text \<open>
  Where a CPU is: outside; past \<open>preempt_disable\<close>; past a test that saw the feature off; at the head
  of the loop; with a lock pointer read; with that lock taken, about to compare again; with the run
  queue locked. All but the first are with preemption disabled.
\<close>

datatype locker =
  Outside | Entered cpu | Fast cpu | Looping cpu | Found cpu cpu | Testing cpu cpu | Inside cpu cpu

text \<open>
  Where the switch is: resting; waiting in \<open>synchronize_rcu\<close> for CPUs; between two cores, with the
  CPUs to visit and \<open>sched_core_mask\<close>; taking a core's locks; giving them back; about to turn the
  static branch off.
\<close>

datatype switcher =
  Resting
| Waiting "cpu set"
| Sweeping bool "cpu list" cpumask
| Locking bool "cpu list" cpu "cpu list" cpumask
| Unlocking bool "cpu list" "cpu list" cpumask
| Closing

record core_world =
  cw_kernel :: kernel
  cw_owner :: "cpu \<Rightarrow> holder option"
  cw_at :: "cpu \<Rightarrow> locker"
  cw_switch :: switcher

section \<open>Operations\<close>

text \<open>The locks \<open>sched_core_lock\<close> takes, in this order, and \<open>sched_core_unlock\<close> gives back.\<close>

definition sched_core_locks :: "kapi \<Rightarrow> kernel \<Rightarrow> cpu \<Rightarrow> cpu list" where
  "sched_core_locks a k c = for_each_cpu k (ka_cpu_smt_mask a c)"

text \<open>What happens to a core between the two: one round of the loop of \<open>__sched_core_flip\<close>.\<close>

definition core_flip_one :: "kapi \<Rightarrow> bool \<Rightarrow> cpu \<Rightarrow> kernel \<Rightarrow> kernel" where
  "core_flip_one a enabled c k =
     (let k = fold (set_core_enabled enabled) (for_each_cpu k (ka_cpu_smt_mask a c)) k
      in upd_rq (rq_core (k_rqs k c)) (\<lambda>r. r\<lparr>rq_core_forceidle_start := 0\<rparr>) k)"

definition core_flip_offline :: "bool \<Rightarrow> kernel \<Rightarrow> kernel" where
  "core_flip_offline enabled k =
     fold (set_core_enabled enabled) (for_each_cpu k (k_possible k - k_online k)) k"

definition take_lock :: "holder \<Rightarrow> cpu \<Rightarrow> core_world \<Rightarrow> core_world" where
  "take_lock h l w = w\<lparr>cw_owner := (cw_owner w)(l \<mapsto> h)\<rparr>"

definition give_lock :: "cpu \<Rightarrow> core_world \<Rightarrow> core_world" where
  "give_lock l w = w\<lparr>cw_owner := (cw_owner w)(l := None)\<rparr>"

definition go :: "cpu \<Rightarrow> locker \<Rightarrow> core_world \<Rightarrow> core_world" where
  "go p x w = w\<lparr>cw_at := (cw_at w)(p := x)\<rparr>"

definition switch_to :: "switcher \<Rightarrow> core_world \<Rightarrow> core_world" where
  "switch_to x w = w\<lparr>cw_switch := x\<rparr>"

text \<open>A CPU that is outside again is no longer waited for.\<close>

definition quiesce :: "cpu \<Rightarrow> core_world \<Rightarrow> core_world" where
  "quiesce p w = (case cw_switch w of Waiting W \<Rightarrow> switch_to (Waiting (W - {p})) w | _ \<Rightarrow> w)"

text \<open>What the holder of a run queue lock does leaves the core settings alone.\<close>

definition core_settings :: "kernel \<Rightarrow> (cpu \<Rightarrow> bool \<times> cpu) \<times> bool \<times> cpumask \<times> cpumask \<times> int" where
  "core_settings k = (\<lambda>c. (rq_core_enabled (k_rqs k c), rq_core (k_rqs k c)), k_sched_core_enabled k,
     k_online k, k_possible k, k_nr_cpu_ids k)"

section \<open>Steps\<close>

text \<open>
  A CPU locks and unlocks one run queue of an online CPU at a time; the switch is one at a time, as
  \<open>sched_core_mutex\<close> and the reference count see to, with the online CPUs kept by \<open>cpus_read_lock\<close>.
\<close>

inductive core_lock_step :: "kapi \<Rightarrow> lockp_api \<Rightarrow> core_world \<Rightarrow> core_world \<Rightarrow> bool"
  for a :: kapi and la :: lockp_api where
  enter: "cw_at w p = Outside \<Longrightarrow> rq \<in> k_online (cw_kernel w) \<Longrightarrow> core_lock_step a la w (go p (Entered rq) w)"
| see_off: "cw_at w p = Entered rq \<Longrightarrow> \<not> k_sched_core_enabled (cw_kernel w) \<Longrightarrow>
    core_lock_step a la w (go p (Fast rq) w)"
| see_on: "cw_at w p = Entered rq \<Longrightarrow> k_sched_core_enabled (cw_kernel w) \<Longrightarrow>
    core_lock_step a la w (go p (Looping rq) w)"
| fast_lock: "cw_at w p = Fast rq \<Longrightarrow> cw_owner w rq = None \<Longrightarrow>
    core_lock_step a la w (go p (Inside rq rq) (take_lock (By_cpu p) rq w))"
| read_lockp: "cw_at w p = Looping rq \<Longrightarrow>
    core_lock_step a la w (go p (Found rq (lp_u_rq_lockp la (cw_kernel w) rq)) w)"
| lock: "cw_at w p = Found rq l \<Longrightarrow> cw_owner w l = None \<Longrightarrow>
    core_lock_step a la w (go p (Testing rq l) (take_lock (By_cpu p) l w))"
| same: "cw_at w p = Testing rq l \<Longrightarrow> l = lp_u_rq_lockp la (cw_kernel w) rq \<Longrightarrow>
    core_lock_step a la w (go p (Inside rq l) w)"
| differs: "cw_at w p = Testing rq l \<Longrightarrow> l \<noteq> lp_u_rq_lockp la (cw_kernel w) rq \<Longrightarrow>
    core_lock_step a la w (go p (Looping rq) (give_lock l w))"
| work: "cw_at w p = Inside rq l \<Longrightarrow> core_settings k = core_settings (cw_kernel w) \<Longrightarrow>
    core_lock_step a la w (w\<lparr>cw_kernel := k\<rparr>)"
| unlock: "cw_at w p = Inside rq l \<Longrightarrow>
    core_lock_step a la w (quiesce p (go p Outside (give_lock (lp_rq_lockp la (cw_kernel w) rq) w)))"
| enable: "cw_switch w = Resting \<Longrightarrow> \<not> k_sched_core_enabled (cw_kernel w) \<Longrightarrow>
    core_lock_step a la w (switch_to (Waiting {p. cw_at w p \<noteq> Outside})
      (w\<lparr>cw_kernel := (cw_kernel w)\<lparr>k_sched_core_enabled := True\<rparr>\<rparr>))"
| waited: "cw_switch w = Waiting {} \<Longrightarrow>
    core_lock_step a la w (switch_to (Sweeping True (for_each_cpu (cw_kernel w) (k_online (cw_kernel w)))
      (k_online (cw_kernel w))) w)"
| disable: "cw_switch w = Resting \<Longrightarrow> k_sched_core_enabled (cw_kernel w) \<Longrightarrow>
    core_lock_step a la w (switch_to (Sweeping False (for_each_cpu (cw_kernel w) (k_online (cw_kernel w)))
      (k_online (cw_kernel w))) w)"
| skip: "cw_switch w = Sweeping b (c # cs) msk \<Longrightarrow> c \<notin> msk \<Longrightarrow>
    core_lock_step a la w (switch_to (Sweeping b cs msk) w)"
| visit: "cw_switch w = Sweeping b (c # cs) msk \<Longrightarrow> c \<in> msk \<Longrightarrow>
    core_lock_step a la w (switch_to (Locking b (sched_core_locks a (cw_kernel w) c) c cs msk) w)"
| lock_one: "cw_switch w = Locking b (t # ts) c cs msk \<Longrightarrow> cw_owner w t = None \<Longrightarrow>
    core_lock_step a la w (switch_to (Locking b ts c cs msk) (take_lock By_switch t w))"
| flip: "cw_switch w = Locking b [] c cs msk \<Longrightarrow>
    core_lock_step a la w (switch_to
      (Unlocking b (sched_core_locks a (cw_kernel w) c) cs (msk - ka_cpu_smt_mask a c))
      (w\<lparr>cw_kernel := core_flip_one a b c (cw_kernel w)\<rparr>))"
| unlock_one: "cw_switch w = Unlocking b (t # ts) cs msk \<Longrightarrow>
    core_lock_step a la w (switch_to (Unlocking b ts cs msk) (give_lock t w))"
| next_core: "cw_switch w = Unlocking b [] cs msk \<Longrightarrow>
    core_lock_step a la w (switch_to (Sweeping b cs msk) w)"
| offline: "cw_switch w = Sweeping b [] msk \<Longrightarrow>
    core_lock_step a la w (switch_to (if b then Resting else Closing)
      (w\<lparr>cw_kernel := core_flip_offline b (cw_kernel w)\<rparr>))"
| close: "cw_switch w = Closing \<Longrightarrow>
    core_lock_step a la w (switch_to Resting
      (w\<lparr>cw_kernel := (cw_kernel w)\<lparr>k_sched_core_enabled := False\<rparr>\<rparr>))"

text \<open>The rounds of the switch are those of Core_Sched.\<close>

lemma core_flip_loop_one:
  "core_flip_loop a b (c # cs) msk k =
     (if c \<notin> msk then core_flip_loop a b cs msk k
      else core_flip_loop a b cs (msk - ka_cpu_smt_mask a c) (core_flip_one a b c k))"
  by (simp add: core_flip_one_def Let_def)

lemma us_sched_core_flip_offline:
  "us_sched_core_flip a b k =
     core_flip_offline b (core_flip_loop a b (for_each_cpu k (k_online k)) (k_online k) k)"
  by (simp add: us_sched_core_flip_def core_flip_offline_def Let_def)

section \<open>The invariant\<close>

abbreviation enabled_of :: "core_world \<Rightarrow> cpu \<Rightarrow> bool" where
  "enabled_of w c \<equiv> rq_core_enabled (k_rqs (cw_kernel w) c)"

abbreviation core_of :: "core_world \<Rightarrow> cpu \<Rightarrow> cpu" where
  "core_of w c \<equiv> rq_core (k_rqs (cw_kernel w) c)"

abbreviation key_of :: "core_world \<Rightarrow> bool" where
  "key_of w \<equiv> k_sched_core_enabled (cw_kernel w)"

text \<open>The threads of a core agree on its leader, which is one of them.\<close>

definition cores_ok :: "kapi \<Rightarrow> kernel \<Rightarrow> bool" where
  "cores_ok a k \<longleftrightarrow> k_online k \<subseteq> {0..<k_nr_cpu_ids k} \<and>
     (\<forall>c \<in> k_online k. ka_cpu_smt_mask a c = {t \<in> k_online k. rq_core (k_rqs k t) = rq_core (k_rqs k c)} \<and>
        rq_core (k_rqs k c) \<in> k_online k \<and> rq_core (k_rqs k (rq_core (k_rqs k c))) = rq_core (k_rqs k c))"

fun locker_ok :: "core_world \<Rightarrow> cpu \<Rightarrow> locker \<Rightarrow> bool" where
  "locker_ok w p Outside = True"
| "locker_ok w p (Entered rq) = (rq \<in> k_online (cw_kernel w))"
| "locker_ok w p (Fast rq) = (rq \<in> k_online (cw_kernel w) \<and>
     (key_of w \<longrightarrow> (case cw_switch w of Waiting W \<Rightarrow> p \<in> W | _ \<Rightarrow> False)))"
| "locker_ok w p (Looping rq) = (rq \<in> k_online (cw_kernel w))"
| "locker_ok w p (Found rq l) = (rq \<in> k_online (cw_kernel w) \<and> (l = rq \<or> l = core_of w rq))"
| "locker_ok w p (Testing rq l) = (rq \<in> k_online (cw_kernel w) \<and> (l = rq \<or> l = core_of w rq) \<and>
     cw_owner w l = Some (By_cpu p))"
| "locker_ok w p (Inside rq l) = (rq \<in> k_online (cw_kernel w) \<and>
     l = (if enabled_of w rq then core_of w rq else rq) \<and> cw_owner w l = Some (By_cpu p))"

text \<open>While the feature is being switched, the CPUs still to do are in the mask.\<close>

definition sweep_ok :: "core_world \<Rightarrow> bool \<Rightarrow> cpu set \<Rightarrow> cpumask \<Rightarrow> bool" where
  "sweep_ok w b cs msk \<longleftrightarrow> key_of w \<and> msk \<subseteq> cs \<and> msk \<subseteq> k_online (cw_kernel w) \<and>
     (\<forall>c \<in> k_online (cw_kernel w). enabled_of w c \<noteq> b \<longrightarrow> c \<in> msk)"

fun switcher_ok :: "kapi \<Rightarrow> core_world \<Rightarrow> switcher \<Rightarrow> bool" where
  "switcher_ok a w Resting = (key_of w \<longrightarrow> (\<forall>c \<in> k_online (cw_kernel w). enabled_of w c))"
| "switcher_ok a w (Waiting W) = (key_of w \<and> (\<forall>c. \<not> enabled_of w c))"
| "switcher_ok a w (Sweeping b cs msk) = sweep_ok w b (set cs) msk"
| "switcher_ok a w (Locking b ts c cs msk) = (sweep_ok w b (insert c (set cs)) msk \<and> c \<in> msk \<and>
     (\<forall>t \<in> ka_cpu_smt_mask a c - set ts. cw_owner w t = Some By_switch))"
| "switcher_ok a w (Unlocking b ts cs msk) = (sweep_ok w b (set cs) msk \<and> distinct ts \<and>
     (\<forall>t \<in> set ts. cw_owner w t = Some By_switch))"
| "switcher_ok a w Closing = (key_of w \<and> (\<forall>c. \<not> enabled_of w c))"

definition core_lock_inv :: "kapi \<Rightarrow> core_world \<Rightarrow> bool" where
  "core_lock_inv a w \<longleftrightarrow> cores_ok a (cw_kernel w) \<and>
     (\<forall>p. locker_ok w p (cw_at w p)) \<and>
     (\<forall>c. enabled_of w c \<longrightarrow> key_of w \<and> c \<in> set (for_each_cpu (cw_kernel w) (k_online (cw_kernel w) \<union> k_possible (cw_kernel w)))) \<and>
     switcher_ok a w (cw_switch w)"

lemma core_settingsD:
  assumes "core_settings k' = core_settings k"
  shows "rq_core_enabled (k_rqs k' c) = rq_core_enabled (k_rqs k c)" "rq_core (k_rqs k' c) = rq_core (k_rqs k c)"
    "k_sched_core_enabled k' = k_sched_core_enabled k" "k_online k' = k_online k"
    "k_possible k' = k_possible k" "k_nr_cpu_ids k' = k_nr_cpu_ids k"
  using assms by (simp_all add: core_settings_def fun_eq_iff)

text \<open>A step of one CPU: what the others hold stays.\<close>

definition own_locks_only :: "cpu \<Rightarrow> core_world \<Rightarrow> core_world \<Rightarrow> bool" where
  "own_locks_only p w w' \<longleftrightarrow>
     (\<forall>l h. h \<noteq> By_cpu p \<longrightarrow> cw_owner w l = Some h \<longrightarrow> cw_owner w' l = Some h)"

lemma locker_ok_frame:
  assumes "locker_ok w q x" "q \<noteq> p" "own_locks_only p w w'"
    and "core_settings (cw_kernel w') = core_settings (cw_kernel w)"
    and "cw_switch w' = cw_switch w \<or> (\<exists>W. cw_switch w = Waiting W \<and> cw_switch w' = Waiting (W - {p}))"
  shows "locker_ok w' q x"
  using assms(1,2,3,5) core_settingsD [OF assms(4)]
  by (cases x) (auto simp: own_locks_only_def split: switcher.splits)

lemma switcher_ok_frame:
  assumes "switcher_ok a w x" "own_locks_only p w w'"
    and "core_settings (cw_kernel w') = core_settings (cw_kernel w)"
  shows "switcher_ok a w' x"
  using assms(1,2) core_settingsD [OF assms(3)]
  by (cases x) (auto simp: own_locks_only_def sweep_ok_def)

lemma cores_ok_cong:
  assumes "core_settings k' = core_settings k"
  shows "cores_ok a k' = cores_ok a k"
  by (simp add: cores_ok_def core_settingsD [OF assms])

lemma cpu_step_inv:
  assumes "core_lock_inv a w" "own_locks_only p w w'"
    and settings: "core_settings (cw_kernel w') = core_settings (cw_kernel w)"
    and "cw_at w' = (cw_at w)(p := x)" "locker_ok w' p x"
    and switch: "cw_switch w' = cw_switch w \<or> (\<exists>W. cw_switch w = Waiting W \<and> cw_switch w' = Waiting (W - {p}))"
  shows "core_lock_inv a w'"
proof -
  note d = core_settingsD [OF settings]
  have inv: "cores_ok a (cw_kernel w)" "locker_ok w q (cw_at w q)" "switcher_ok a w (cw_switch w)"
    "enabled_of w c \<Longrightarrow> key_of w \<and> c \<in> set (for_each_cpu (cw_kernel w) (k_online (cw_kernel w) \<union> k_possible (cw_kernel w)))" for q c
    using assms(1) by (simp_all add: core_lock_inv_def)
  have "locker_ok w' q (cw_at w' q)" for q
    using locker_ok_frame [OF inv(2) [of q] _ assms(2) settings switch] assms(4,5) by (cases "q = p") simp_all
  moreover have "switcher_ok a w' (cw_switch w')"
    using switch switcher_ok_frame [OF inv(3) assms(2) settings] inv(3) by (auto simp: d)
  ultimately show ?thesis
    using inv(4) cores_ok_cong [OF settings] inv(1) by (simp add: core_lock_inv_def d)
qed

lemmas cpu_defs = own_locks_only_def go_def take_lock_def give_lock_def

lemma rq_core_set_enabled: "rq_core (k_rqs (fold (set_core_enabled b) cs k) d) = rq_core (k_rqs k d)"
  by (rule fold_invariant [where P = "\<lambda>k'. rq_core (k_rqs k' d) = rq_core (k_rqs k d)"])
    (auto simp: set_core_enabled_def upd_rq_def)

lemma core_flip_one_fields:
  "rq_core_enabled (k_rqs (core_flip_one a b c k) d) =
     (if d \<in> set (for_each_cpu k (ka_cpu_smt_mask a c)) then b else rq_core_enabled (k_rqs k d))"
  "rq_core (k_rqs (core_flip_one a b c k) d) = rq_core (k_rqs k d)"
  "k_sched_core_enabled (core_flip_one a b c k) = k_sched_core_enabled k"
  "k_online (core_flip_one a b c k) = k_online k" "k_possible (core_flip_one a b c k) = k_possible k"
  "k_nr_cpu_ids (core_flip_one a b c k) = k_nr_cpu_ids k"
  by (simp_all add: core_flip_one_def Let_def rq_core_set_enabled upd_rq_def)

lemma core_flip_offline_fields:
  "rq_core_enabled (k_rqs (core_flip_offline b k) d) =
     (if d \<in> set (for_each_cpu k (k_possible k - k_online k)) then b else rq_core_enabled (k_rqs k d))"
  "rq_core (k_rqs (core_flip_offline b k) d) = rq_core (k_rqs k d)"
  "k_sched_core_enabled (core_flip_offline b k) = k_sched_core_enabled k"
  "k_online (core_flip_offline b k) = k_online k" "k_possible (core_flip_offline b k) = k_possible k"
  "k_nr_cpu_ids (core_flip_offline b k) = k_nr_cpu_ids k"
  by (simp_all add: core_flip_offline_def rq_core_set_enabled)

lemma core_lock_invD:
  assumes "core_lock_inv a w"
  shows "cores_ok a (cw_kernel w)" "locker_ok w p (cw_at w p)" "switcher_ok a w (cw_switch w)"
    "enabled_of w c \<Longrightarrow> key_of w"
    "enabled_of w c \<Longrightarrow> c \<in> set (for_each_cpu (cw_kernel w) (k_online (cw_kernel w) \<union> k_possible (cw_kernel w)))"
  using assms by (simp_all add: core_lock_inv_def)

text \<open>Steps of the switch that touch neither the kernel nor a lock that a CPU holds.\<close>

lemma switch_step_inv:
  assumes "core_lock_inv a w" "cw_kernel w' = cw_kernel w" "cw_at w' = cw_at w"
    and "\<And>l p. cw_owner w l = Some (By_cpu p) \<Longrightarrow> cw_owner w' l = Some (By_cpu p)"
    and "\<And>W. cw_switch w = Waiting W \<Longrightarrow> W = {}"
    and "switcher_ok a w' (cw_switch w')"
  shows "core_lock_inv a w'"
proof -
  have "locker_ok w' p x" if "locker_ok w p x" for p x
    using that assms(2,4,5) by (cases x) (auto split: switcher.splits)
  then show ?thesis using assms(1,2,3,6) by (simp add: core_lock_inv_def)
qed

lemma switch_enable_inv:
  assumes "core_lock_inv a w" "cw_switch w = Resting" "\<not> key_of w"
  shows "core_lock_inv a (switch_to (Waiting {p. cw_at w p \<noteq> Outside})
    (w\<lparr>cw_kernel := (cw_kernel w)\<lparr>k_sched_core_enabled := True\<rparr>\<rparr>))" (is "core_lock_inv a ?w")
proof -
  have off: "\<not> enabled_of w c" for c using core_lock_invD(4) [OF assms(1)] assms(3) by blast
  have "locker_ok ?w p (cw_at w p)" for p
    using core_lock_invD(2) [OF assms(1), of p] by (cases "cw_at w p") (simp_all add: switch_to_def)
  then show ?thesis using core_lock_invD(1) [OF assms(1)] off
    by (simp add: core_lock_inv_def) (simp add: switch_to_def cores_ok_def)
qed

lemma switch_close_inv:
  assumes "core_lock_inv a w" "cw_switch w = Closing"
  shows "core_lock_inv a (switch_to Resting
    (w\<lparr>cw_kernel := (cw_kernel w)\<lparr>k_sched_core_enabled := False\<rparr>\<rparr>))" (is "core_lock_inv a ?w")
proof -
  have off: "\<not> enabled_of w c" for c using core_lock_invD(3) [OF assms(1)] assms(2) by simp
  have "locker_ok ?w p (cw_at w p)" for p
    using core_lock_invD(2) [OF assms(1), of p] by (cases "cw_at w p") (simp_all add: switch_to_def)
  then show ?thesis using core_lock_invD(1) [OF assms(1)] off
    by (simp add: core_lock_inv_def) (simp add: switch_to_def cores_ok_def)
qed

text \<open>
  While the switch holds all locks of a core, no CPU holds the run queue of one of its threads: the
  lock it would need is one of these, whichever of the two it is.
\<close>

lemma core_locked_excludes:
  assumes "core_lock_inv a w" "cw_switch w = Locking b [] c cs msk"
    and "cw_at w p = Inside rq l \<or> cw_at w p = Testing rq l"
  shows "rq \<notin> ka_cpu_smt_mask a c"
proof
  assume rq: "rq \<in> ka_cpu_smt_mask a c"
  have c: "c \<in> k_online (cw_kernel w)" and held: "\<And>t. t \<in> ka_cpu_smt_mask a c \<Longrightarrow> cw_owner w t = Some By_switch"
    using core_lock_invD(3) [OF assms(1)] assms(2) by (auto simp: sweep_ok_def)
  note ok = core_lock_invD(1) [OF assms(1), unfolded cores_ok_def]
  have "rq \<in> k_online (cw_kernel w)" "core_of w rq = core_of w c" using ok c rq by auto
  then have "core_of w rq \<in> ka_cpu_smt_mask a c" using ok c by auto
  moreover have "l = rq \<or> l = core_of w rq" "cw_owner w l = Some (By_cpu p)"
    using core_lock_invD(2) [OF assms(1), of p] assms(3) by (auto split: if_splits)
  ultimately show False using held rq by auto
qed

lemma core_locks:
  assumes "cores_ok a k" "c \<in> k_online k"
  shows "set (for_each_cpu k (ka_cpu_smt_mask a c)) = ka_cpu_smt_mask a c"
    "set (sched_core_locks a k c) = ka_cpu_smt_mask a c" "distinct (sched_core_locks a k c)"
    "ka_cpu_smt_mask a c \<subseteq> k_online k" "c \<in> ka_cpu_smt_mask a c"
  using assms by (auto simp: cores_ok_def sched_core_locks_def) (simp add: for_each_cpu_def)

lemma switch_flip_inv:
  assumes "core_lock_inv a w" "cw_switch w = Locking b [] c cs msk"
  shows "core_lock_inv a (switch_to
      (Unlocking b (sched_core_locks a (cw_kernel w) c) cs (msk - ka_cpu_smt_mask a c))
      (w\<lparr>cw_kernel := core_flip_one a b c (cw_kernel w)\<rparr>))" (is "core_lock_inv a ?w")
proof -
  note ok = core_lock_invD(1) [OF assms(1)]
  note sw = core_lock_invD(3) [OF assms(1), unfolded assms(2)]
  have c: "c \<in> k_online (cw_kernel w)" using sw by (auto simp: sweep_ok_def)
  note smt = core_locks [OF ok c]
  note f = core_flip_one_fields [of a _ c "cw_kernel w", unfolded smt(1)]
  have "locker_ok ?w p (cw_at w p)" for p
    using core_lock_invD(2) [OF assms(1), of p] core_locked_excludes [OF assms, of p] assms(2)
    by (cases "cw_at w p") (auto simp: switch_to_def f)
  moreover have "cores_ok a (cw_kernel ?w)" using ok by (simp add: cores_ok_def switch_to_def f)
  moreover have "switcher_ok a ?w (cw_switch ?w)"
    using sw smt(5) by (auto simp: switch_to_def sweep_ok_def f smt(2,3))
  moreover have "enabled_of ?w d \<longrightarrow> key_of ?w \<and>
      d \<in> set (for_each_cpu (cw_kernel ?w) (k_online (cw_kernel ?w) \<union> k_possible (cw_kernel ?w)))" for d
    using core_lock_invD(4,5) [OF assms(1), of d] sw smt(4) ok
    by (auto simp: switch_to_def f sweep_ok_def cores_ok_def)
  moreover have "cw_at ?w = cw_at w" by (simp add: switch_to_def)
  ultimately show ?thesis by (simp only: core_lock_inv_def) blast
qed

lemma switch_offline_inv:
  assumes "core_lock_inv a w" "cw_switch w = Sweeping b [] msk"
  shows "core_lock_inv a (switch_to (if b then Resting else Closing)
      (w\<lparr>cw_kernel := core_flip_offline b (cw_kernel w)\<rparr>))" (is "core_lock_inv a ?w")
proof -
  note ok = core_lock_invD(1) [OF assms(1)]
  note sw = core_lock_invD(3) [OF assms(1), unfolded assms(2)]
  note f = core_flip_offline_fields [of _ "cw_kernel w"]
  have "locker_ok ?w p (cw_at w p)" for p
    using core_lock_invD(2) [OF assms(1), of p] assms(2) by (cases "cw_at w p") (auto simp: switch_to_def f)
  moreover have "cores_ok a (cw_kernel ?w)" using ok by (simp add: cores_ok_def switch_to_def f)
  moreover have "switcher_ok a ?w (cw_switch ?w)"
    using sw core_lock_invD(5) [OF assms(1)] by (auto simp: switch_to_def sweep_ok_def f)
  moreover have "key_of ?w" using sw by (simp add: switch_to_def f(3) sweep_ok_def)
  moreover have "d \<in> set (for_each_cpu (cw_kernel ?w) (k_online (cw_kernel ?w) \<union> k_possible (cw_kernel ?w)))"
    if "enabled_of ?w d" for d
  proof (cases "d \<in> set (for_each_cpu (cw_kernel w) (k_possible (cw_kernel w) - k_online (cw_kernel w)))")
    case True
    then show ?thesis by (simp add: switch_to_def f)
  next
    case False
    have "cw_kernel ?w = core_flip_offline b (cw_kernel w)" by (simp add: switch_to_def)
    with that have "rq_core_enabled (k_rqs (core_flip_offline b (cw_kernel w)) d)" by (simp only:)
    with False have "enabled_of w d" by (simp only: f(1) if_False)
    from core_lock_invD(5) [OF assms(1) this] show ?thesis by (simp add: switch_to_def f)
  qed
  moreover have "cw_at ?w = cw_at w" by (simp add: switch_to_def)
  ultimately show ?thesis by (simp only: core_lock_inv_def) blast
qed

lemma core_lock_step_inv:
  assumes la: "lockp_ok la" and "core_lock_step a la w w'" "core_lock_inv a w"
  shows "core_lock_inv a w'"
proof -
  note ok = core_lock_invD(1) [OF assms(3)]
  note sw = core_lock_invD(3) [OF assms(3)]
  from assms(2) show ?thesis
proof cases
  case (enter p rq)
  show ?thesis unfolding enter(1)
    by (rule cpu_step_inv [OF assms(3), of p _ "Entered rq"]) (simp_all add: cpu_defs enter)
next
  case (see_off p rq)
  then have "locker_ok w p (Entered rq)" using assms(3) by (metis core_lock_inv_def)
  then show ?thesis unfolding see_off(1)
    by (intro cpu_step_inv [OF assms(3), of p _ "Fast rq"]) (simp_all add: cpu_defs see_off)
next
  case (see_on p rq)
  then have "locker_ok w p (Entered rq)" using assms(3) by (metis core_lock_inv_def)
  then show ?thesis unfolding see_on(1)
    by (intro cpu_step_inv [OF assms(3), of p _ "Looping rq"]) (simp_all add: cpu_defs see_on)
next
  case (fast_lock p rq)
  then have "locker_ok w p (Fast rq)" using assms(3) by (metis core_lock_inv_def)
  moreover have "\<not> enabled_of w rq"
    using assms(3) calculation by (cases "cw_switch w") (auto simp: core_lock_inv_def)
  ultimately show ?thesis unfolding fast_lock(1)
    by (intro cpu_step_inv [OF assms(3), of p _ "Inside rq rq"]) (simp_all add: cpu_defs fast_lock)
next
  case (read_lockp p rq)
  then have "locker_ok w p (Looping rq)" using assms(3) by (metis core_lock_inv_def)
  then show ?thesis using la unfolding read_lockp(1)
    by (intro cpu_step_inv [OF assms(3), of p]) (auto simp: cpu_defs read_lockp lockp_ok_def)
next
  case (lock p rq l)
  then have "locker_ok w p (Found rq l)" using assms(3) by (metis core_lock_inv_def)
  then show ?thesis unfolding lock(1)
    by (intro cpu_step_inv [OF assms(3), of p _ "Testing rq l"]) (auto simp: cpu_defs lock)
next
  case (same p rq l)
  then have "locker_ok w p (Testing rq l)" using assms(3) by (metis core_lock_inv_def)
  then show ?thesis using la same(3) unfolding same(1)
    by (intro cpu_step_inv [OF assms(3), of p _ "Inside rq l"]) (auto simp: cpu_defs lockp_ok_def)
next
  case (differs p rq l)
  then have "locker_ok w p (Testing rq l)" using assms(3) by (metis core_lock_inv_def)
  then show ?thesis unfolding differs(1)
    by (intro cpu_step_inv [OF assms(3), of p _ "Looping rq"]) (auto simp: cpu_defs)
next
  case (work p rq l k)
  then have "locker_ok w p (Inside rq l)" using assms(3) by (metis core_lock_inv_def)
  then show ?thesis unfolding work(1) using core_settingsD [OF work(3)] work(2)
    by (intro cpu_step_inv [OF assms(3), of p _ "Inside rq l"]) (auto simp: cpu_defs work(3))
next
  case (unlock p rq l)
  then have in_ok: "locker_ok w p (Inside rq l)" using assms(3) by (metis core_lock_inv_def)
  then have "lp_rq_lockp la (cw_kernel w) rq = l"
    using la assms(3) by (auto simp: lockp_ok_def core_lock_inv_def)
  then show ?thesis unfolding unlock(1) using in_ok
    by (intro cpu_step_inv [OF assms(3), of p _ Outside])
      (auto simp: cpu_defs quiesce_def switch_to_def split: switcher.split)
next
  case enable
  then show ?thesis using switch_enable_inv [OF assms(3)] by simp
next
  case waited
  show ?thesis unfolding waited(1) using sw ok
    by (intro switch_step_inv [OF assms(3)]) (auto simp: switch_to_def waited(2) sweep_ok_def cores_ok_def)
next
  case disable
  show ?thesis unfolding disable(1) using ok
    by (intro switch_step_inv [OF assms(3)]) (auto simp: switch_to_def disable(2,3) sweep_ok_def cores_ok_def)
next
  case (skip b c cs msk)
  show ?thesis unfolding skip(1) using sw skip(3)
    by (intro switch_step_inv [OF assms(3)]) (auto simp: switch_to_def skip(2) sweep_ok_def)
next
  case (visit b c cs msk)
  then have c: "c \<in> k_online (cw_kernel w)" using sw by (auto simp: sweep_ok_def)
  show ?thesis unfolding visit(1) using sw visit(3)
    by (intro switch_step_inv [OF assms(3)])
      (auto simp: switch_to_def visit(2) sweep_ok_def core_locks [OF ok c])
next
  case (lock_one b t ts c cs msk)
  show ?thesis unfolding lock_one(1) using sw lock_one(3)
    by (intro switch_step_inv [OF assms(3)]) (auto simp: switch_to_def take_lock_def lock_one(2) sweep_ok_def)
next
  case (flip b c cs msk)
  then show ?thesis using switch_flip_inv [OF assms(3)] by simp
next
  case (unlock_one b t ts cs msk)
  show ?thesis unfolding unlock_one(1) using sw
    by (intro switch_step_inv [OF assms(3)]) (auto simp: switch_to_def give_lock_def unlock_one(2) sweep_ok_def)
next
  case (next_core b cs msk)
  show ?thesis unfolding next_core(1) using sw
    by (intro switch_step_inv [OF assms(3)]) (auto simp: switch_to_def next_core(2) sweep_ok_def)
next
  case (offline b msk)
  then show ?thesis using switch_offline_inv [OF assms(3)] by simp
next
  case close
  then show ?thesis using switch_close_inv [OF assms(3)] by simp
qed
qed

section \<open>What the locks guarantee\<close>

definition core_lock_start :: "kernel \<Rightarrow> core_world" where
  "core_lock_start k =
     \<lparr>cw_kernel = k, cw_owner = Map.empty, cw_at = (\<lambda>_. Outside), cw_switch = Resting\<rparr>"

lemma core_lock_start_inv:
  "cores_ok a k \<Longrightarrow> \<not> k_sched_core_enabled k \<Longrightarrow> \<forall>c. \<not> rq_core_enabled (k_rqs k c) \<Longrightarrow>
   core_lock_inv a (core_lock_start k)"
  by (simp add: core_lock_inv_def core_lock_start_def)

lemma core_lock_steps_inv:
  assumes "lockp_ok la" "(core_lock_step a la)\<^sup>*\<^sup>* w w'" "core_lock_inv a w"
  shows "core_lock_inv a w'"
  using assms(2,3) by (induction rule: rtranclp_induct) (auto intro: core_lock_step_inv [OF assms(1)])

text \<open>
  C14: \<open>raw_spin_rq_lock\<close> and \<open>raw_spin_rq_unlock\<close> lock and unlock the same lock, whatever the
  switching of core scheduling does in between: along every interleaving, a CPU that has locked a
  run queue holds the lock that \<open>rq_lockp\<close> now names, so its unlock gives back what it took; no two
  CPUs have the same run queue locked, nor two run queues of an enabled core; and whenever the
  switch is at rest, every online CPU uses the lock of its core exactly if the feature is on.
\<close>

theorem rq_lock_guards_queue:
  assumes "lockp_ok la" "cores_ok a k" "\<not> k_sched_core_enabled k" "\<And>c. \<not> rq_core_enabled (k_rqs k c)"
    and "(core_lock_step a la)\<^sup>*\<^sup>* (core_lock_start k) w"
  shows "(\<forall>p rq l. cw_at w p = Inside rq l \<longrightarrow>
        lp_rq_lockp la (cw_kernel w) rq = l \<and> cw_owner w l = Some (By_cpu p)) \<and>
     (\<forall>p q rq rq' l l'. p \<noteq> q \<longrightarrow> cw_at w p = Inside rq l \<longrightarrow> cw_at w q = Inside rq' l' \<longrightarrow>
        rq \<noteq> rq' \<and> \<not> (enabled_of w rq \<and> enabled_of w rq' \<and> core_of w rq = core_of w rq')) \<and>
     (cw_switch w = Resting \<longrightarrow> (\<forall>c \<in> k_online (cw_kernel w).
        lp_rq_lockp la (cw_kernel w) c = (if key_of w then core_of w c else c)))"
proof -
  have inv: "core_lock_inv a w"
    by (rule core_lock_steps_inv [OF assms(1,5)]) (simp add: core_lock_start_inv assms(2-4))
  have lockp: "lp_rq_lockp la (cw_kernel w) c = (if enabled_of w c then core_of w c else c)" for c
    using assms(1) core_lock_invD(4) [OF inv, of c] by (auto simp: lockp_ok_def)
  have ins: "l = (if enabled_of w rq then core_of w rq else rq) \<and> cw_owner w l = Some (By_cpu p)"
    if "cw_at w p = Inside rq l" for p rq l
    using core_lock_invD(2) [OF inv, of p, unfolded that] by (simp only: locker_ok.simps) blast
  have "rq \<noteq> rq' \<and> \<not> (enabled_of w rq \<and> enabled_of w rq' \<and> core_of w rq = core_of w rq')"
    if "p \<noteq> q" "cw_at w p = Inside rq l" "cw_at w q = Inside rq' l'" for p q rq rq' l l'
    using ins [OF that(2)] ins [OF that(3)] that(1) by auto
  moreover have "lp_rq_lockp la (cw_kernel w) c = (if key_of w then core_of w c else c)"
    if "cw_switch w = Resting" "c \<in> k_online (cw_kernel w)" for c
    using core_lock_invD(3) [OF inv] core_lock_invD(4) [OF inv, of c] that lockp [of c] by auto
  moreover have "lp_rq_lockp la (cw_kernel w) rq = l \<and> cw_owner w l = Some (By_cpu p)"
    if "cw_at w p = Inside rq l" for p rq l
    using ins [OF that] lockp [of rq] by (auto split: if_splits)
  ultimately show ?thesis by blast
qed

definition sample_lockp :: lockp_api where
  "sample_lockp =
     \<lparr>lp_rq_lockp = (\<lambda>k c. if k_sched_core_enabled k \<and> rq_core_enabled (k_rqs k c) then rq_core (k_rqs k c) else c),
      lp_u_rq_lockp = (\<lambda>k c. if rq_core_enabled (k_rqs k c) then rq_core (k_rqs k c) else c)\<rparr>"

lemma sample_cores:
  "lockp_ok sample_lockp" "cores_ok sample_kapi sample_kernel" "\<not> k_sched_core_enabled sample_kernel"
  "\<not> rq_core_enabled (k_rqs sample_kernel c)"
  by (simp_all add: lockp_ok_def sample_lockp_def cores_ok_def)
    (auto simp: sample_kernel_def sample_rq_def sample_kapi_def)

text \<open>A CPU inside on the fast path when the feature is switched on: the switch waits for it.\<close>

theorem rq_lock_guards_queue_witness:
  "\<exists>w. (core_lock_step sample_kapi sample_lockp)\<^sup>*\<^sup>* (core_lock_start sample_kernel) w \<and>
     cw_at w 1 = Inside 1 1 \<and> cw_switch w = Waiting {1} \<and> key_of w \<and> cw_owner w 1 = Some (By_cpu 1)"
proof -
  define w0 where "w0 = core_lock_start sample_kernel"
  define w1 where "w1 = go 1 (Entered 1) w0"
  define w2 where "w2 = go 1 (Fast 1) w1"
  define w3 where "w3 = go 1 (Inside 1 1) (take_lock (By_cpu 1) 1 w2)"
  define w4 where "w4 = switch_to (Waiting {p. cw_at w3 p \<noteq> Outside})
      (w3\<lparr>cw_kernel := (cw_kernel w3)\<lparr>k_sched_core_enabled := True\<rparr>\<rparr>)"
  note defs = w4_def w3_def w2_def w1_def w0_def core_lock_start_def go_def take_lock_def switch_to_def
  let ?step = "core_lock_step sample_kapi sample_lockp"
  have key: "k_sched_core_enabled sample_kernel = False" using sample_cores(3) by simp
  have s1: "?step w0 w1" unfolding w1_def by (rule enter) (simp_all add: defs)
  have s2: "?step w1 w2" unfolding w2_def by (rule see_off) (simp_all add: defs key)
  have s3: "?step w2 w3" unfolding w3_def by (rule fast_lock) (simp_all add: defs)
  have s4: "?step w3 w4" unfolding w4_def by (rule enable) (simp_all add: defs key)
  have steps: "?step\<^sup>*\<^sup>* w0 w4"
    by (rule rtranclp.rtrancl_into_rtrancl [where r = ?step, OF rtranclp.rtrancl_into_rtrancl
          [where r = ?step, OF rtranclp.rtrancl_into_rtrancl
            [where r = ?step, OF r_into_rtranclp [where r = ?step, OF s1] s2] s3] s4])
  have at: "cw_at w4 1 = Inside 1 1" "cw_switch w4 = Waiting {1}" "key_of w4"
    by (simp_all add: defs)
  have "cw_owner w4 1 = Some (By_cpu 1)"
    using rq_lock_guards_queue [OF sample_cores steps [unfolded w0_def], THEN conjunct1, rule_format, OF at(1)]
    by (rule conjunct2)
  then show ?thesis using steps at unfolding w0_def by (intro exI [of _ w4] conjI)
qed

end
