(* ===== verification/Spec2Isabelle.thy ===== *)
theory Spec2Isabelle
  imports Yat_Correct Task_State Rq_Clock Uclamp_Groups Core_Sched_Correct Prio_Correct Setsched_Correct
    Affinity_Correct Pick_Correct Wake_Correct Fork_Correct Hotplug_Correct Groups_Correct Nohz_Util
    Dynamic_Preempt Schedule_Correct Context_Mm_Correct Mm_Cid_Correct Rq_Lock_Correct Preempt_Debug_Correct
    Lock_Break Stat_Files Yat_Load_Correct Bandwidth_Correct Vmlinux_Correct Cgroup_Files Scheduler_Probes
    Preempt_Config Group_Rcu Core_Lock
begin

text \<open>
  A verification development for the scheduler of the Yat-CASched kernel: the core scheduler of
  Linux 6.8 (\<open>src/code/kernel/core.c\<close>) with a cache-aware scheduling class added to it
  (\<open>src/code/kernel/yat_casched.c\<close>), the declarations they share (\<open>sched.h\<close>, which is
  \<open>include/linux/sched.h\<close>, and \<open>yat_casched.h\<close>), the linker script macros that place the kernel's
  sections and order the classes (\<open>vmlinux.lds.h\<close>), and the programs that are to show the scheduler
  at work (\<open>verify_real_scheduling.c\<close>, \<open>debug_scheduler.c\<close>).

  \<^bold>\<open>Parts of the program and how they interact.\<close>
  A run queue per CPU holds what is runnable there.  Wakeups (\<open>try_to_wake_up\<close>), forks and
  affinity changes choose a CPU (\<open>select_task_rq\<close>) and put a task on its run queue
  (\<open>activate_task\<close>, \<open>enqueue_task\<close>); \<open>__schedule\<close> takes a sleeping task off and picks the next one,
  class by class or for all threads of a core at once.  Every such step calls the operations of
  the task's scheduling class; those of the yat class are the repository's own, those of the
  stop, deadline, real-time, fair and idle classes are in other files of the kernel.  Around the
  queue sit utilization clamps, the core-scheduling tree, the clocks, priorities and policies,
  CPU hotplug, task groups with their bandwidth limits, and the static calls of dynamic
  preemption.  A context switch also moves address spaces between tasks (\<open>context_switch\<close>) and,
  with a concurrency id per CPU and address space, keeps the ids of running tasks apart; run
  queues are reached through lock loops that recheck what they locked.

  \<^bold>\<open>How the code is modelled.\<close>
  The state is one record \<open>kernel\<close> (State): maps from task, CPU and group numbers to the records
  \<open>task_struct\<close>, \<open>rq\<close> and \<open>task_group\<close>, and the globals of \<open>core.c\<close>.  A C function is a definition of
  the same name that takes the state last and returns it last; a name that starts with two
  underscores starts with \<open>us_\<close> here.  Lengths of integers are kept as words where they can wrap;
  error codes are negative integers as in C.  A CPU mask is a set of CPU numbers; \<open>for_each_cpu\<close>
  visits its members below \<open>nr_cpu_ids\<close> in order.  A list of tasks is a list; a node of the yat
  queue knows the CPU whose list it is linked on, and linking it twice is recorded in
  \<open>k_list_corrupted\<close>.  \<open>BUG()\<close> and a NULL that the code would dereference are recorded in
  \<open>k_undefined\<close>.  The operations on \<open>kernel\<close> are sequential: locks, barriers and RCU are no steps of
  them.  What other CPUs do where the code waits or retries is an explicit argument \<open>env\<close>, and a
  wait that has not ended is the result \<open>None\<close>.  The configuration is SMP with core scheduling,
  utilization clamping with groups, fair groups with bandwidth control, RT mutexes, scheduler
  debugging and dynamic preemption by static calls; no PREEMPT_RT, and real-time groups only in the
  files of the cpu controller. Preempt_Config compares this choice of preemption with the others.

  Several parts have a state of their own beside \<open>kernel\<close>, which their records contain or take as an
  argument: address spaces of tasks (\<open>mm_state\<close>), concurrency ids (\<open>cid_kernel\<close>, the configuration
  SCHED_MM_CID, with the calls it adds to \<open>set_task_cpu\<close>, \<open>activate_task\<close> and \<open>move_queued_task\<close>),
  locks held by one CPU (\<open>lock_state\<close>, \<open>lock_break_state\<close>), the preemption count with its reports
  (\<open>atomic_ctx\<close>), and the preempt notifiers.  The lock loops and the concurrency ids are
  concurrent: there the interference of the other CPUs is an argument between any two
  accesses to shared memory.  Two parts have step relations with all parties in them: the end of
  task groups under RCU readers (\<open>group_step\<close>) and run queue locks on all CPUs while core scheduling
  is switched (\<open>core_lock_step\<close>); their records contain \<open>kernel\<close> too.

  Code that is not in the repository (the other classes, \<open>kernel/sched/sched.h\<close>, cpusets, timers,
  user memory, credentials) is the parameter record \<open>kapi\<close> (Kapi), an argument of the definitions
  that use it.  What a theorem needs of it is a named hypothesis, and Sample and Sample_Kapi give
  a machine of four CPUs and an instance of the parameters on which every theorem with a
  hypothesis is applied once.

  \<^bold>\<open>The theories.\<close>
    \<^item> Prelude, Kernel_Consts, State, Kapi, Sample, Sample_Kapi: vocabulary, constants, state,
      parameters, the concrete instance.
    \<^item> Resched (\<open>resched_curr\<close> and its helpers), Task_State (states and flags of tasks, the state
      letters, the saved state of sleeping locks), Rq_Clock (\<open>update_rq_clock\<close>, the hrtick).
    \<^item> Fifo_Contract: the interface \<open>fifo_queue\<close>, interpreted by the yat queue.  Yat_Casched: all
      operations of \<open>yat_casched.c\<close>; Yat_Lemmas, Yat_Correct: the queue invariant along every
      sequence of operations, arrival order, affinity to the last CPU, the load-based choice, and
      what the class does not do (rotate, preempt by slice).
    \<^item> Uclamp, Uclamp_Control, Uclamp_Lemmas, Uclamp_Correct, Uclamp_Groups: buckets and clamp
      values of run queues, requests of tasks, groups and the system, the sysctls and cgroup files.
    \<^item> Core_Sched, Core_Sched_Correct: the tree ordered by cookie, and switching the feature.
    \<^item> Queue: \<open>enqueue_task\<close> to \<open>wakeup_preempt\<close> with the dispatch to the classes.  Queue_Frame: the
      interface \<open>queue_observer\<close>, an observation that the queue operations leave alone, interpreted
      for the public part of tasks and the machine, in Load_Frame for the counters of a run queue,
      and in Wake_Correct for parts of these.  The proofs about callers of the queue rest on it.
    \<^item> Prio, Prio_Correct: nice values, weights, effective priorities, \<open>rt_mutex_setprio\<close>.
      Setsched, Setsched_Correct: \<open>__sched_setscheduler\<close> with its recheck loop, and its system calls.
    \<^item> Affinity, Cpu_Select, Affinity_Correct: CPU masks, the stopper functions, the completion
      protocol of \<open>__set_cpus_allowed_ptr\<close>, \<open>select_task_rq\<close>.
    \<^item> Pick, Pick_Correct: \<open>pick_next_task\<close> with and without core scheduling, cookie stealing.
    \<^item> Wakeup, Schedule, Wake_Correct: \<open>try_to_wake_up\<close>, wake lists, \<open>wait_task_inactive\<close>, \<open>__schedule\<close>,
      the tick, yields.  Fork_Init, Fork_Correct: \<open>sched_fork\<close>, the first wakeup, \<open>sched_init\<close>.
    \<^item> Schedule_Correct: what \<open>__schedule\<close> does to the task that calls it and to the CPU, with the
      interface \<open>pick_observer\<close>, an extension of \<open>queue_observer\<close> for the pick.
    \<^item> Context_Mm, Context_Mm_Correct: the address spaces across \<open>context_switch\<close> and
      \<open>finish_task_switch\<close>; the references of lazily borrowed ones balance, and the switch refines
      that of Schedule.
    \<^item> Mm_Cid, Mm_Cid_Correct: concurrency ids, \<open>sched_mm_cid_remote_clear\<close> and the migration of
      ids as step sequences under interference; an id in use is never shared, and why the promise
      on repeated clears is needed for it.  Jiffies: the comparison of tick counts.
    \<^item> Rq_Lock, Rq_Lock_Correct: \<open>raw_spin_rq_lock_nested\<close>, \<open>double_rq_lock\<close>, \<open>task_rq_lock\<close>.
      Core_Lock: locking and unlocking on all CPUs, access by access, while \<open>__sched_core_enable\<close> and
      \<open>__sched_core_disable\<close> change which lock guards a run queue.
    \<^item> Preempt_Debug, Preempt_Debug_Correct: \<open>preempt_count_add\<close> and \<open>_sub\<close>, \<open>__might_resched\<close> and its
      relatives, the preempt notifiers.  Lock_Break: \<open>__cond_resched_lock\<close>.
    \<^item> Stat_Files: statistics files, task dumps, the NUMA sysctl, \<open>sched_init_smp\<close>.
    \<^item> Hotplug, Hotplug_Correct: core leaders, remote ticks, the hotplug callbacks.
    \<^item> Task_Groups, Groups_Correct, Bandwidth_Correct: life and tree of groups, bandwidth limits
      and their bounds, cgroup files.
    \<^item> Group_Rcu: release, destruction and freeing of groups with their grace periods, against
      readers that walk the list, the tree and the leaves; alone, they are those of Task_Groups.
    \<^item> Cgroup_Files: the tables of the cpu controller's files with their handlers and the interface
      \<open>group_files\<close>: an invariant that each handler keeps is kept by every sequence of writes.
    \<^item> Linker_Script: the language of linker scripts - input patterns, output sections, symbol
      assignments - and its execution on a list of input sections; Linker_Correct: what any script
      guarantees (a section goes to its first match, nothing is placed twice, labels delimit what
      stands between them).  Vmlinux_Lds: the macros of \<open>vmlinux.lds.h\<close>, one definition each, for
      every configuration; Vmlinux_Correct: the order of initcalls, the place of the scheduling
      classes, the data that must not share a page, the once data.
    \<^item> Scheduler_Probes: the two test programs over a record of system calls, and what they report
      when they run on the model's kernel.
    \<^item> Nohz_Util: timer targets, stopping the tick, effective utilization, policy queries.
      Yat_Load_Correct: what these decisions make of queued yat tasks.
      Dynamic_Preempt: the static calls of the preemption models.  Preempt_Config: the static keys
      and the models fixed at build time, with the interface \<open>preempt_mechanism\<close>, interpreted by the
      static calls and by the static keys.

  \<^bold>\<open>What the lemmas show.\<close>
  Invariants along all sequences of operations (yat queues, uclamp buckets, references on core
  scheduling and on borrowed address spaces, the remote tick, the static calls), safety under
  interference (concurrency ids of running tasks are never shared, two run queues are locked in
  one order, a CPU unlocks the lock it took whatever the switch of core scheduling does, no reader
  holds a freed task group, a lock is never held across a voluntary reschedule), the functional behaviour of the
  main operations on success and on error, equivalences and refinements (the tree walk with its
  jumps against the recursive traversal, the yat queue against the FIFO contract, the static
  calls against the documented table and against the static keys, the switch with address spaces against the switch without),
  termination of the loops that wait or retry (\<open>__sched_setscheduler\<close>,
  \<open>wait_task_inactive\<close>, \<open>task_rq_lock\<close>, the tree walk, the affinity
  wait), round trips of the user interfaces, and several theorems that state what the code does
  where that is not what it means to do: test programs that find the yat class where there is
  none, once data outside its labels, yat tasks passed over by the fair-only fast path and not
  seen by the idle and tick tests, a CPU mask that is ignored, a burst scaled by 1000, a refused
  CPU deactivation that is undone only in part, and a compare-and-swap on a concurrency id that a
  repeated value deceives.

  \<^bold>\<open>Loops, bounds and fuel.\<close>
  Loops over CPUs, classes and lists are recursions or folds over the list. Loops that need not
  end (\<open>do __schedule while need_resched\<close>, \<open>wait_task_inactive\<close>, the
  lock loops, the tree walk) are partial functions whose result \<open>None\<close> means not
  returning; the theorems prove the result to be \<open>Some\<close>. The retry loop of
  \<open>__sched_setscheduler\<close> consumes the list of the environment's actions. Fuel
  appears twice: \<open>steal_loop\<close> gets the length of the source's tree, which does not
  grow while the loop runs, and the recursion over group descendants gets the depth bound
  \<open>k_tg_depth\<close>, with the hypothesis that the tree is not deeper.
  \<open>run_stoppers\<close> runs a given number of stopper works; one is enough for a fresh
  affinity request.

  \<^bold>\<open>Not modelled.\<close>
  The table of sysctls, trace points, lockdep assertions, exports, the printing of
  stacks and held locks (the reports of the checks are modelled as log entries); the variants of
  other configurations (no SMP, PREEMPT_RT, real-time groups); barriers, whose effect is the order of the accesses in the models with interference;
  isolation and topology (outside the repository); the architectures' linker scripts that use the
  macros (outside the repository) and the macros \<open>HEADERED_SECTION\<close> and \<open>HEADERED_SECTION_BY\<close>, which
  cannot be expanded; the other user-space test programs and the Java simulator.
\<close>

end
